(* ===== verification/Prelude.thy ===== *)
theory Prelude
  imports Main
begin

text \<open>
  Shared vocabulary of the development: the HTTP exceptions of NestJS, service handlers as
  functions from a state to a result and a state, the combinators that compose them the way
  the \<open>async\<close> methods of the services are composed, and a weakest-precondition calculus for
  them.

  A handler is an \<open>('s, 'a) action\<close>. A thrown exception is the value \<open>Inl e\<close>; the state that
  comes with it is the state at the throw, because a write made before an exception is not
  undone (only \<open>$transaction\<close> rolls back, see \<open>atomic\<close>).
\<close>

section \<open>Results and handlers\<close>

datatype exn =
    BadRequest string
  | Unauthorized string
  | Forbidden string
  | NotFound string
  | Conflict string
  | ServiceUnavailable string
  | BadGateway string
  | Unprocessable string
  | Crash string \<comment> \<open>an error that is no HTTP exception: a rejected upstream call, a missing row\<close>

type_synonym ('s, 'a) action = "'s \<Rightarrow> (exn + 'a) \<times> 's"

definition ret :: "'a \<Rightarrow> ('s, 'a) action" where
  "ret x = (\<lambda>s. (Inr x, s))"

definition throw :: "exn \<Rightarrow> ('s, 'a) action" where
  "throw e = (\<lambda>s. (Inl e, s))"

definition bind_act :: "('s, 'a) action \<Rightarrow> ('a \<Rightarrow> ('s, 'b) action) \<Rightarrow> ('s, 'b) action" where
  "bind_act m f = (\<lambda>s. case m s of (Inl e, s') \<Rightarrow> (Inl e, s') | (Inr x, s') \<Rightarrow> f x s')"

definition seq_act :: "('s, 'a) action \<Rightarrow> ('s, 'b) action \<Rightarrow> ('s, 'b) action" where
  "seq_act m n = bind_act m (\<lambda>_. n)"

definition reads :: "('s \<Rightarrow> 'a) \<Rightarrow> ('s, 'a) action" where
  "reads f = (\<lambda>s. (Inr (f s), s))"

definition writes :: "('s \<Rightarrow> 's) \<Rightarrow> ('s, unit) action" where
  "writes f = (\<lambda>s. (Inr (), f s))"

text \<open>\<open>lift_res\<close> runs a pure computation that may throw.\<close>

definition lift_res :: "exn + 'a \<Rightarrow> ('s, 'a) action" where
  "lift_res r = (\<lambda>s. (r, s))"

text \<open>\<open>try { m } catch (e) { h(e) }\<close>: the writes of \<open>m\<close> before the throw stay.\<close>

definition catching :: "('s, 'a) action \<Rightarrow> (exn \<Rightarrow> ('s, 'a) action) \<Rightarrow> ('s, 'a) action" where
  "catching m h = (\<lambda>s. case m s of (Inl e, s') \<Rightarrow> h e s' | (Inr x, s') \<Rightarrow> (Inr x, s'))"

text \<open>\<open>prisma.$transaction\<close>: an exception undoes the writes.\<close>

definition atomic :: "('s, 'a) action \<Rightarrow> ('s, 'a) action" where
  "atomic m = (\<lambda>s. case m s of (Inl e, _) \<Rightarrow> (Inl e, s) | (Inr x, s') \<Rightarrow> (Inr x, s'))"

text \<open>\<open>for (const x of xs) { await f(x) }\<close>: stops at the first throw.\<close>

fun for_each :: "'a list \<Rightarrow> ('a \<Rightarrow> ('s, unit) action) \<Rightarrow> ('s, unit) action" where
  "for_each [] f = ret ()"
| "for_each (x # xs) f = seq_act (f x) (for_each xs f)"

section \<open>Weakest preconditions\<close>

text \<open>
  \<open>wp m Q s\<close>: run from \<open>s\<close>, the handler \<open>m\<close> ends in a result and a state that satisfy \<open>Q\<close>.
  The rules below are equations, so that \<open>simp\<close> walks through a handler and leaves the
  conditions of its branches.
\<close>

definition wp :: "('s, 'a) action \<Rightarrow> (exn + 'a \<Rightarrow> 's \<Rightarrow> bool) \<Rightarrow> 's \<Rightarrow> bool" where
  "wp m Q s = (case m s of (r, s') \<Rightarrow> Q r s')"

definition on_ok :: "('a \<Rightarrow> 's \<Rightarrow> bool) \<Rightarrow> (exn + 'b \<Rightarrow> 's \<Rightarrow> bool) \<Rightarrow> exn + 'a \<Rightarrow> 's \<Rightarrow> bool" where
  "on_ok K Q r s = (case r of Inl e \<Rightarrow> Q (Inl e) s | Inr x \<Rightarrow> K x s)"

lemma on_ok_simps [simp]:
  "on_ok K Q (Inl e) s = Q (Inl e) s"
  "on_ok K Q (Inr x) s = K x s"
  by (simp_all add: on_ok_def)

named_theorems wp_simps

lemma wp_ret [wp_simps]: "wp (ret x) Q s = Q (Inr x) s"
  by (simp add: wp_def ret_def)

lemma wp_throw [wp_simps]: "wp (throw e) Q s = Q (Inl e) s"
  by (simp add: wp_def throw_def)

lemma wp_bind [wp_simps]: "wp (bind_act m f) Q s = wp m (on_ok (\<lambda>x. wp (f x) Q) Q) s"
  by (auto simp: wp_def bind_act_def on_ok_def split: prod.splits sum.splits)

lemma wp_seq [wp_simps]: "wp (seq_act m n) Q s = wp m (on_ok (\<lambda>_. wp n Q) Q) s"
  by (simp add: seq_act_def wp_bind)

lemma wp_reads [wp_simps]: "wp (reads f) Q s = Q (Inr (f s)) s"
  by (simp add: wp_def reads_def)

lemma wp_writes [wp_simps]: "wp (writes f) Q s = Q (Inr ()) (f s)"
  by (simp add: wp_def writes_def)

lemma wp_lift_res [wp_simps]: "wp (lift_res r) Q s = Q r s"
  by (simp add: wp_def lift_res_def)

lemma wp_catching [wp_simps]:
  "wp (catching m h) Q s = wp m (\<lambda>r s'. case r of Inl e \<Rightarrow> wp (h e) Q s' | Inr x \<Rightarrow> Q (Inr x) s') s"
  by (auto simp: wp_def catching_def split: prod.splits sum.splits)

lemma wp_atomic [wp_simps]:
  "wp (atomic m) Q s = wp m (\<lambda>r s'. case r of Inl e \<Rightarrow> Q (Inl e) s | Inr x \<Rightarrow> Q (Inr x) s') s"
  by (auto simp: wp_def atomic_def split: prod.splits sum.splits)

lemma wp_if [wp_simps]: "wp (if b then m else n) Q s = (if b then wp m Q s else wp n Q s)"
  by simp

lemma wp_case_option [wp_simps]:
  "wp (case x of None \<Rightarrow> m | Some y \<Rightarrow> f y) Q s = (case x of None \<Rightarrow> wp m Q s | Some y \<Rightarrow> wp (f y) Q s)"
  by (cases x) simp_all

lemma wp_for_each_Nil [wp_simps]: "wp (for_each [] f) Q s = Q (Inr ()) s"
  by (simp add: wp_ret)

lemma wp_for_each_Cons [wp_simps]:
  "wp (for_each (x # xs) f) Q s = wp (f x) (on_ok (\<lambda>_. wp (for_each xs f) Q) Q) s"
  by (simp add: wp_seq)

text \<open>A handler's outcome read off its weakest precondition, and back.\<close>

lemma wpD: "wp m Q s \<Longrightarrow> m s = (r, s') \<Longrightarrow> Q r s'"
  by (simp add: wp_def)

lemma wpI: "(\<And>r s'. m s = (r, s') \<Longrightarrow> Q r s') \<Longrightarrow> wp m Q s"
  by (auto simp: wp_def split: prod.splits)

lemma wp_mono: "wp m P s \<Longrightarrow> (\<And>r s'. P r s' \<Longrightarrow> Q r s') \<Longrightarrow> wp m Q s"
  by (auto simp: wp_def split: prod.splits)

lemma wp_conj: "wp m (\<lambda>r s'. P r s' \<and> Q r s') s = (wp m P s \<and> wp m Q s)"
  by (auto simp: wp_def split: prod.splits)

lemma wp_const_True [simp]: "wp m (\<lambda>_ _. True) s"
  by (simp add: wp_def split: prod.splits)

lemma wp_equation: "(\<And>Q. wp m Q s = Q r s') \<Longrightarrow> m s = (r, s')"
proof -
  assume "\<And>Q. wp m Q s = Q r s'"
  from this[of "\<lambda>a b. (a, b) = (r, s')"] show ?thesis by (cases "m s") (simp add: wp_def)
qed

text \<open>Results of one run.\<close>

lemma run_ok:
  assumes "\<not> isl (fst run)"
  obtains x w where "run = (Inr x, w)"
  using assms by (cases run; cases "fst run") auto

lemma runI:
  assumes "\<And>e w. run = (Inl e, w) \<Longrightarrow> F e w" "\<And>x w. run = (Inr x, w) \<Longrightarrow> G x w"
  shows "case run of (Inl e, w) \<Rightarrow> F e w | (Inr x, w) \<Rightarrow> G x w"
  using assms by (cases run; cases "fst run") auto

lemma wp_run:
  assumes "wp m (\<lambda>r w. \<exists>x. r = Inr x \<and> P x w) s"
  obtains x w where "m s = (Inr x, w)" "P x w"
  using assms by (cases "m s") (auto simp: wp_def)

section \<open>Invariants of handlers\<close>

text \<open>
  \<open>keeps P m\<close>: every run of \<open>m\<close>, also one that throws, keeps the state predicate \<open>P\<close>. The rules
  follow the structure of a handler down to its writes.
\<close>

definition keeps :: "('s \<Rightarrow> bool) \<Rightarrow> ('s, 'a) action \<Rightarrow> bool" where
  "keeps P m \<longleftrightarrow> (\<forall>s. P s \<longrightarrow> wp m (\<lambda>_ s'. P s') s)"

named_theorems keeps_rules

lemma keepsI: "(\<And>s. P s \<Longrightarrow> wp m (\<lambda>_ s'. P s') s) \<Longrightarrow> keeps P m"
  by (simp add: keeps_def)

lemma keepsD: "keeps P m \<Longrightarrow> P s \<Longrightarrow> m s = (r, s') \<Longrightarrow> P s'"
  by (auto simp: keeps_def wp_def)

lemma keeps_wp: "keeps P m \<Longrightarrow> P s \<Longrightarrow> wp m (\<lambda>_ s'. P s') s"
  by (simp add: keeps_def)

lemma keeps_ret [keeps_rules]: "keeps P (ret x)"
  by (simp add: keeps_def wp_ret)

lemma keeps_throw [keeps_rules]: "keeps P (throw e)"
  by (simp add: keeps_def wp_throw)

lemma keeps_reads [keeps_rules]: "keeps P (reads f)"
  by (simp add: keeps_def wp_reads)

lemma keeps_lift_res [keeps_rules]: "keeps P (lift_res r)"
  by (simp add: keeps_def wp_lift_res)

lemma keeps_writes: "(\<And>s. P s \<Longrightarrow> P (f s)) \<Longrightarrow> keeps P (writes f)"
  by (simp add: keeps_def wp_writes)

lemma keeps_bind [keeps_rules]:
  "keeps P m \<Longrightarrow> (\<And>x. keeps P (f x)) \<Longrightarrow> keeps P (bind_act m f)"
proof (rule keepsI)
  fix s assume m: "keeps P m" and f: "\<And>x. keeps P (f x)" and s: "P s"
  show "wp (bind_act m f) (\<lambda>_. P) s"
    unfolding wp_bind using keeps_wp[OF m s]
    by (rule wp_mono) (simp add: on_ok_def keeps_wp[OF f] split: sum.split)
qed

lemma keeps_seq [keeps_rules]: "keeps P m \<Longrightarrow> keeps P n \<Longrightarrow> keeps P (seq_act m n)"
  by (simp add: seq_act_def keeps_bind)

lemma keeps_if [keeps_rules]: "(b \<Longrightarrow> keeps P m) \<Longrightarrow> (\<not> b \<Longrightarrow> keeps P n) \<Longrightarrow> keeps P (if b then m else n)"
  by simp

lemma keeps_case_option [keeps_rules]:
  "(x = None \<Longrightarrow> keeps P m) \<Longrightarrow> (\<And>y. x = Some y \<Longrightarrow> keeps P (f y)) \<Longrightarrow>
   keeps P (case x of None \<Rightarrow> m | Some y \<Rightarrow> f y)"
  by (cases x) simp_all

lemma keeps_case_sum [keeps_rules]:
  "(\<And>e. x = Inl e \<Longrightarrow> keeps P (g e)) \<Longrightarrow> (\<And>y. x = Inr y \<Longrightarrow> keeps P (f y)) \<Longrightarrow>
   keeps P (case x of Inl e \<Rightarrow> g e | Inr y \<Rightarrow> f y)"
  by (cases x) simp_all

lemma keeps_case_prod [keeps_rules]:
  "(\<And>a b. x = (a, b) \<Longrightarrow> keeps P (f a b)) \<Longrightarrow> keeps P (case x of (a, b) \<Rightarrow> f a b)"
  by (cases x) simp_all

lemma keeps_catching [keeps_rules]:
  "keeps P m \<Longrightarrow> (\<And>e. keeps P (h e)) \<Longrightarrow> keeps P (catching m h)"
proof (rule keepsI)
  fix s assume m: "keeps P m" and h: "\<And>e. keeps P (h e)" and s: "P s"
  show "wp (catching m h) (\<lambda>_. P) s"
    unfolding wp_catching using keeps_wp[OF m s]
    by (rule wp_mono) (simp add: keeps_wp[OF h] split: sum.split)
qed

lemma keeps_atomic [keeps_rules]: "keeps P m \<Longrightarrow> keeps P (atomic m)"
proof (rule keepsI)
  fix s assume m: "keeps P m" and s: "P s"
  show "wp (atomic m) (\<lambda>_. P) s"
    unfolding wp_atomic using keeps_wp[OF m s]
    by (rule wp_mono) (simp add: s split: sum.split)
qed

lemma keeps_for_each [keeps_rules]:
  "(\<And>x. x \<in> set xs \<Longrightarrow> keeps P (f x)) \<Longrightarrow> keeps P (for_each xs f)"
  by (induction xs) (auto intro: keeps_ret keeps_seq)

text \<open>The result of the first handler may be needed to bound what the second writes.\<close>

lemma keeps_bind_res:
  assumes m: "\<And>s. P s \<Longrightarrow> wp m (\<lambda>r s'. P s' \<and> (\<forall>x. r = Inr x \<longrightarrow> R x)) s"
    and f: "\<And>x. R x \<Longrightarrow> keeps P (f x)"
  shows "keeps P (bind_act m f)"
proof (rule keepsI)
  fix s assume s: "P s"
  show "wp (bind_act m f) (\<lambda>_. P) s"
    unfolding wp_bind using m[OF s]
    by (rule wp_mono) (simp add: on_ok_def keeps_wp[OF f] split: sum.split)
qed

text \<open>A loop whose body is a state function is a fold.\<close>

lemma wp_for_each_fold:
  assumes "\<And>x Q s. wp (f x) Q s = Q (Inr ()) (g x s)"
  shows "wp (for_each xs f) Q s = Q (Inr ()) (fold g xs s)"
  by (induction xs arbitrary: s) (simp_all add: wp_ret wp_seq assms)

text \<open>Walking past a handler of which only an invariant matters.\<close>

lemma wp_bind_keeps:
  assumes "keeps P m" "P s"
    and "\<And>e s'. P s' \<Longrightarrow> Q (Inl e) s'"
    and "\<And>x s'. P s' \<Longrightarrow> wp (f x) Q s'"
  shows "wp (bind_act m f) Q s"
  unfolding wp_bind using keeps_wp[OF assms(1,2)]
  by (rule wp_mono) (auto simp: on_ok_def assms(3,4) split: sum.split)

lemma wp_seq_keeps:
  assumes "keeps P m" "P s"
    and "\<And>e s'. P s' \<Longrightarrow> Q (Inl e) s'"
    and "\<And>s'. P s' \<Longrightarrow> wp n Q s'"
  shows "wp (seq_act m n) Q s"
  unfolding seq_act_def using assms by (rule wp_bind_keeps)

end
