(* ===== verification/Tables.thy ===== *)
theory Tables
  imports Prelude "HOL-Library.AList"
begin

text \<open>
  Database tables and the interface the services use them through. A table is the list of its
  rows with their primary keys, in insertion order, so that counts and searches compute.
  \<open>keyed_store\<close> states what a client of any keyed store relies on (a read after a write, a read
  after a delete, what the operations keep); it is interpreted on tables here and on the Redis
  key space in \<open>Redis\<close>.
\<close>

type_synonym ('k, 'r) table = "('k \<times> 'r) list"

definition tget :: "('k, 'r) table \<Rightarrow> 'k \<Rightarrow> 'r option" where
  "tget t k = map_of t k"

definition tput :: "'k \<Rightarrow> 'r \<Rightarrow> ('k, 'r) table \<Rightarrow> ('k, 'r) table" where
  "tput k r t = AList.update k r t"

definition tdel :: "'k \<Rightarrow> ('k, 'r) table \<Rightarrow> ('k, 'r) table" where
  "tdel k t = AList.delete k t"

text \<open>\<open>update({ where: { id }, data })\<close> on a row that exists; nothing otherwise.\<close>

definition tupd :: "'k \<Rightarrow> ('r \<Rightarrow> 'r) \<Rightarrow> ('k, 'r) table \<Rightarrow> ('k, 'r) table" where
  "tupd k f t = (case tget t k of None \<Rightarrow> t | Some r \<Rightarrow> tput k (f r) t)"

definition trows :: "('k, 'r) table \<Rightarrow> 'r list" where
  "trows t = map snd t"

definition tcount :: "('r \<Rightarrow> bool) \<Rightarrow> ('k, 'r) table \<Rightarrow> nat" where
  "tcount P t = length (filter P (trows t))"

definition tfirst :: "('r \<Rightarrow> bool) \<Rightarrow> ('k, 'r) table \<Rightarrow> 'r option" where
  "tfirst P t = find P (trows t)"

definition twf :: "('k, 'r) table \<Rightarrow> bool" where
  "twf t \<longleftrightarrow> distinct (map fst t)"

section \<open>The interface\<close>

locale keyed_store =
  fixes get :: "'s \<Rightarrow> 'k \<Rightarrow> 'v option"
    and put :: "'k \<Rightarrow> 'v \<Rightarrow> 's \<Rightarrow> 's"
    and del :: "'k \<Rightarrow> 's \<Rightarrow> 's"
    and ok :: "'s \<Rightarrow> bool"
  assumes get_put: "ok s \<Longrightarrow> get (put k v s) j = (if j = k then Some v else get s j)"
    and get_del: "ok s \<Longrightarrow> get (del k s) j = (if j = k then None else get s j)"
    and ok_put: "ok s \<Longrightarrow> ok (put k v s)"
    and ok_del: "ok s \<Longrightarrow> ok (del k s)"
begin

lemma get_put_same: "ok s \<Longrightarrow> get (put k v s) k = Some v"
  by (simp add: get_put)

lemma get_put_other: "ok s \<Longrightarrow> j \<noteq> k \<Longrightarrow> get (put k v s) j = get s j"
  by (simp add: get_put)

lemma get_put_twice: "ok s \<Longrightarrow> get (put k w (put k v s)) j = get (put k w s) j"
  by (simp add: get_put ok_put)

lemma get_put_commute:
  "ok s \<Longrightarrow> k \<noteq> l \<Longrightarrow> get (put k v (put l w s)) j = get (put l w (put k v s)) j"
  by (simp add: get_put ok_put)

lemma ok_fold_put: "ok s \<Longrightarrow> ok (fold (\<lambda>x. put (f x) (g x)) xs s)"
  by (induction xs arbitrary: s) (auto simp: ok_put)

text \<open>Writes to other keys are not seen.\<close>

lemma fold_put_frame:
  "ok s \<Longrightarrow> k \<notin> f ` set xs \<Longrightarrow> get (fold (\<lambda>x. put (f x) (g x)) xs s) k = get s k"
  by (induction xs arbitrary: s) (auto simp: get_put ok_put)

lemma fold_del_get: "ok s \<Longrightarrow> get (fold del ks s) j = (if j \<in> set ks then None else get s j)"
  by (induction ks arbitrary: s) (auto simp: get_del ok_del)

end

section \<open>Tables provide it\<close>

interpretation tbl: keyed_store tget tput tdel "\<lambda>_. True"
  by unfold_locales (auto simp: tget_def tput_def tdel_def update_conv' delete_conv')

lemmas table_get_simps [simp] = tbl.get_put[OF TrueI] tbl.get_del[OF TrueI]

lemma tget_Nil [simp]: "tget [] k = None"
  by (simp add: tget_def)

lemma tget_tupd [simp]: "tget (tupd k f t) j = (if j = k then map_option f (tget t k) else tget t j)"
  by (simp add: tupd_def split: option.splits)

text \<open>\<open>updateMany\<close> and the like: every row is mapped under its key.\<close>

lemma tget_map_rows: "tget (map (\<lambda>(k, r). (k, f k r)) t) j = map_option (f j) (tget t j)"
proof (induction t)
  case (Cons kr t)
  then show ?case by (cases kr) (simp add: tget_def)
qed (simp add: tget_def)

lemma twf_Nil [simp]: "twf []"
  by (simp add: twf_def)

lemma twf_tput [simp]: "twf t \<Longrightarrow> twf (tput k r t)"
  by (simp add: twf_def tput_def distinct_update)

lemma twf_tdel [simp]: "twf t \<Longrightarrow> twf (tdel k t)"
  by (simp add: twf_def tdel_def distinct_delete)

lemma twf_tupd [simp]: "twf t \<Longrightarrow> twf (tupd k f t)"
  by (simp add: tupd_def split: option.splits)

lemma tget_in_rows: "tget t k = Some r \<Longrightarrow> r \<in> set (trows t)"
  by (force simp: tget_def trows_def dest: map_of_SomeD)

lemma in_rows_tget: "twf t \<Longrightarrow> r \<in> set (trows t) \<Longrightarrow> \<exists>k. tget t k = Some r"
  by (auto simp: tget_def trows_def twf_def)

lemma tfirst_Some: "tfirst P t = Some r \<Longrightarrow> r \<in> set (trows t) \<and> P r"
  by (auto simp: tfirst_def find_Some_iff)

lemma tfirst_None: "tfirst P t = None \<longleftrightarrow> (\<forall>r \<in> set (trows t). \<not> P r)"
  by (auto simp: tfirst_def find_None_iff)

lemma trows_tput: "set (trows (tput k r t)) \<subseteq> insert r (set (trows t))"
  by (induction t) (auto simp: tput_def trows_def)

lemma trows_tput_new: "tget t k = None \<Longrightarrow> trows (tput k r t) = trows t @ [r]"
  by (induction t) (auto simp: tput_def trows_def tget_def split: if_splits)

lemma tcount_tput_new: "tget t k = None \<Longrightarrow> tcount P (tput k r t) = tcount P t + (if P r then 1 else 0)"
  by (simp add: tcount_def trows_tput_new)

text \<open>An invariant of all rows survives a write of a good row.\<close>

lemma all_rows_tput: "\<forall>x \<in> set (trows t). P x \<Longrightarrow> P r \<Longrightarrow> \<forall>x \<in> set (trows (tput k r t)). P x"
  using trows_tput[of k r t] by blast

end
