(* ===== verification/JsNumber.thy ===== *)
theory JsNumber
  imports Complex_Main "HOL-Library.Log_Nat"
begin

text \<open>
  JavaScript numbers. A finite \<open>number\<close> is an IEEE 754 binary64 value, modelled as the
  rational it denotes; each arithmetic operator computes exactly and rounds with \<open>fl\<close>, to the
  nearest representable value, ties to even, gradual underflow included. Not modelled: the
  infinities and NaN (they are separate values where the code can meet them), overflow above
  \<open>2 ^ 1024\<close>, and the sign of zero. All definitions compute.
\<close>

section \<open>Rounding to binary64\<close>

type_synonym num = rat

definition pow2 :: "int \<Rightarrow> rat" where
  "pow2 k = (if 0 \<le> k then 2 ^ nat k else 1 / 2 ^ nat (- k))"

text \<open>The exponent \<open>k\<close> with \<open>2 ^ k \<le> x < 2 ^ (k + 1)\<close> for a positive \<open>x\<close>.\<close>

definition log2_floor :: "rat \<Rightarrow> int" where
  "log2_floor x =
     (let (n, d) = quotient_of x; k = bitlen n - bitlen d
      in if pow2 k \<le> x then k else k - 1)"

definition round_even :: "rat \<Rightarrow> int" where
  "round_even q =
     (let f = \<lfloor>q\<rfloor>; r = q - of_int f
      in if r < 1 / 2 then f else if 1 / 2 < r then f + 1 else if even f then f else f + 1)"

definition ulp_exp :: "rat \<Rightarrow> int" where
  "ulp_exp x = max (log2_floor x - 52) (-1074)"

definition fl_pos :: "rat \<Rightarrow> rat" where
  "fl_pos x = of_int (round_even (x / pow2 (ulp_exp x))) * pow2 (ulp_exp x)"

definition fl :: "rat \<Rightarrow> rat" where
  "fl x = (if x = 0 then 0 else if 0 < x then fl_pos x else - fl_pos (- x))"

section \<open>The operators and functions the source uses\<close>

definition nadd :: "num \<Rightarrow> num \<Rightarrow> num" where "nadd x y = fl (x + y)"
definition nsub :: "num \<Rightarrow> num \<Rightarrow> num" where "nsub x y = fl (x - y)"
definition nmul :: "num \<Rightarrow> num \<Rightarrow> num" where "nmul x y = fl (x * y)"
definition ndiv :: "num \<Rightarrow> num \<Rightarrow> num" where "ndiv x y = fl (x / y)"

text \<open>\<open>Math.round\<close>: nearest integer, ties towards plus infinity.\<close>

definition math_round :: "num \<Rightarrow> int" where "math_round x = \<lfloor>x + 1 / 2\<rfloor>"
definition math_floor :: "num \<Rightarrow> int" where "math_floor x = \<lfloor>x\<rfloor>"
definition math_ceil :: "num \<Rightarrow> int" where "math_ceil x = \<lceil>x\<rceil>"

section \<open>Powers of two and exponents\<close>

lemma pow2_pos [simp]: "0 < pow2 k"
  by (simp add: pow2_def)

lemma pow2_nonzero [simp]: "pow2 k \<noteq> 0"
  using pow2_pos[of k] by linarith

lemma pow2_nonneg [simp]: "0 \<le> pow2 k"
  by (rule less_imp_le) simp

lemma pow2_powi: "pow2 k = 2 powi k"
  by (simp add: pow2_def power_int_def field_simps)

lemma pow2_add: "pow2 (a + b) = pow2 a * pow2 b"
  by (simp add: pow2_powi power_int_add)

lemma pow2_diff: "pow2 (a - b) = pow2 a / pow2 b"
  by (simp add: pow2_powi power_int_diff)

lemma pow2_0 [simp]: "pow2 0 = 1"
  by (simp add: pow2_def)

lemma pow2_Suc: "pow2 (k + 1) = 2 * pow2 k"
  by (simp add: pow2_powi power_int_add)

lemma pow2_mono: "a \<le> b \<Longrightarrow> pow2 a \<le> pow2 b"
  by (simp add: pow2_powi power_int_increasing)

lemma pow2_less_iff: "pow2 a < pow2 b \<longleftrightarrow> a < b"
  by (metis linorder_not_le order_less_le pow2_mono pow2_powi power_int_strict_increasing
      one_less_numeral_iff semiring_norm(76))

lemma pow2_nat: "0 \<le> k \<Longrightarrow> pow2 k = of_int (2 ^ nat k)"
  by (simp add: pow2_def)


lemma bitlen_bounds_rat:
  assumes "0 < n"
  shows "pow2 (bitlen n - 1) \<le> of_int n" "of_int n < pow2 (bitlen n)"
proof -
  have b: "2 ^ nat (bitlen n - 1) \<le> n \<and> n < 2 ^ nat (bitlen n)"
    using bitlen_bounds[of n] assms by simp
  have "0 < bitlen n" using assms bitlen_nonneg[of n] bitlen_eq_zero_iff[of n] by linarith
  then show "pow2 (bitlen n - 1) \<le> of_int n" "of_int n < pow2 (bitlen n)"
    using b by (simp_all only: pow2_nat of_int_le_iff of_int_less_iff)
qed

lemma log2_floor_bounds:
  assumes "0 < x"
  shows "pow2 (log2_floor x) \<le> x" "x < pow2 (log2_floor x + 1)"
proof -
  obtain n d where q: "quotient_of x = (n, d)" by (cases "quotient_of x")
  have d: "0 < d" using quotient_of_denom_pos[OF q] .
  have x: "x = of_int n / of_int d" using quotient_of_div[OF q] .
  have n: "0 < n" using assms d by (simp add: x zero_less_divide_iff)
  define k where "k = bitlen n - bitlen d"
  note bn = bitlen_bounds_rat[OF n] and bd = bitlen_bounds_rat[OF d]
  have dq: "(0::rat) < of_int d" using d by simp
  have lo: "pow2 (k - 1) \<le> x"
  proof -
    have "pow2 (k - 1) * of_int d \<le> pow2 (k - 1) * pow2 (bitlen d)"
      using bd(2) by (intro mult_left_mono) (auto intro: less_imp_le)
    also have "\<dots> = pow2 (bitlen n - 1)" by (simp add: k_def flip: pow2_add)
    also have "\<dots> \<le> of_int n" by (rule bn(1))
    finally show ?thesis using dq by (simp add: x pos_le_divide_eq)
  qed
  have hi: "x < pow2 (k + 1)"
  proof -
    have "of_int n < pow2 (bitlen n)" by (rule bn(2))
    also have "\<dots> = pow2 (k + 1) * pow2 (bitlen d - 1)" by (simp add: k_def flip: pow2_add)
    also have "\<dots> \<le> pow2 (k + 1) * of_int d" by (rule mult_left_mono[OF bd(1)]) (simp add: less_imp_le)
    finally show ?thesis using dq by (simp add: x pos_divide_less_eq)
  qed
  have l: "log2_floor x = (if pow2 k \<le> x then k else k - 1)"
    by (simp add: log2_floor_def q k_def)
  show "pow2 (log2_floor x) \<le> x" "x < pow2 (log2_floor x + 1)"
    using lo hi by (auto simp: l)
qed

lemma log2_floor_mono: "0 < x \<Longrightarrow> x \<le> y \<Longrightarrow> log2_floor x \<le> log2_floor y"
  using log2_floor_bounds[of x] log2_floor_bounds[of y]
  by (metis linorder_not_less order.strict_trans1 order_le_less_trans pow2_less_iff
      zless_add1_eq order_less_le_trans add.commute not_less_iff_gr_or_eq)

section \<open>Rounding to an integer\<close>

lemma round_even_of_int [simp]: "round_even (of_int n) = n"
  by (simp add: round_even_def)

lemma round_even_0 [simp]: "round_even 0 = 0"
  using round_even_of_int[of 0] by simp

lemma round_even_bounds: "\<lfloor>q\<rfloor> \<le> round_even q" "round_even q \<le> \<lfloor>q\<rfloor> + 1"
  by (simp_all add: round_even_def Let_def)

lemma round_even_mono:
  assumes "p \<le> q"
  shows "round_even p \<le> round_even q"
proof (cases "\<lfloor>p\<rfloor> = \<lfloor>q\<rfloor>")
  case True
  then show ?thesis using assms by (auto simp: round_even_def Let_def)
next
  case False
  then have "\<lfloor>p\<rfloor> + 1 \<le> \<lfloor>q\<rfloor>" using assms floor_mono[OF assms] by linarith
  then show ?thesis using round_even_bounds[of p] round_even_bounds[of q] by linarith
qed

section \<open>Rounding to binary64\<close>

lemma fl_0 [simp]: "fl 0 = 0"
  by (simp add: fl_def)

lemma fl_minus: "fl (- x) = - fl x"
  by (auto simp: fl_def)

lemma fl_pos_nonneg: "0 < x \<Longrightarrow> 0 \<le> fl_pos x"
  using round_even_mono[of 0 "x / pow2 (ulp_exp x)"]
  by (simp add: fl_pos_def)

lemma fl_pos_mono:
  assumes "0 < x" "x \<le> y"
  shows "fl_pos x \<le> fl_pos y"
proof (cases "ulp_exp x = ulp_exp y")
  case True
  then show ?thesis
    using assms by (simp add: fl_pos_def round_even_mono divide_right_mono less_imp_le)
next
  case False
  let ?ky = "log2_floor y" and ?ex = "ulp_exp x" and ?ey = "ulp_exp y"
  have mono: "log2_floor x \<le> ?ky" using assms by (rule log2_floor_mono)
  have ey: "?ey = ?ky - 52" and lt: "log2_floor x < ?ky" and ge: "?ex \<le> ?ky"
    using False mono by (auto simp: ulp_exp_def max_def split: if_splits)
  have "x < pow2 ?ky"
    using log2_floor_bounds(2)[OF assms(1)] pow2_mono[of "log2_floor x + 1" ?ky] lt by linarith
  then have "x / pow2 ?ex \<le> pow2 (?ky - ?ex)"
    by (simp add: pow2_diff divide_right_mono less_imp_le)
  also have "\<dots> = of_int (2 ^ nat (?ky - ?ex))" using ge by (simp add: pow2_def)
  finally have "round_even (x / pow2 ?ex) \<le> 2 ^ nat (?ky - ?ex)"
    using round_even_mono round_even_of_int by metis
  then have "of_int (round_even (x / pow2 ?ex)) \<le> pow2 (?ky - ?ex)"
    using ge by (metis of_int_le_iff pow2_nat diff_ge_0_iff_ge)
  then have "fl_pos x \<le> pow2 (?ky - ?ex) * pow2 ?ex"
    unfolding fl_pos_def by (rule mult_right_mono) (simp add: less_imp_le)
  then have a: "fl_pos x \<le> pow2 ?ky" by (simp flip: pow2_add)
  have "pow2 ?ky \<le> y" using log2_floor_bounds(1)[of y] assms by linarith
  then have "pow2 ?ky / pow2 ?ey \<le> y / pow2 ?ey" by (simp add: divide_right_mono less_imp_le)
  moreover have "pow2 ?ky / pow2 ?ey = of_int (2 ^ 52)"
    unfolding ey pow2_diff[symmetric] by (simp add: pow2_def)
  ultimately have "of_int (2 ^ 52) \<le> y / pow2 ?ey" by simp
  then have "2 ^ 52 \<le> round_even (y / pow2 ?ey)" using round_even_mono round_even_of_int by metis
  then have "(of_int (2 ^ 52) :: rat) \<le> of_int (round_even (y / pow2 ?ey))"
    by (simp only: of_int_le_iff)
  then have "of_int (2 ^ 52) * pow2 ?ey \<le> fl_pos y"
    unfolding fl_pos_def by (rule mult_right_mono) (simp add: less_imp_le)
  moreover have "of_int (2 ^ 52) * pow2 ?ey = pow2 ?ky"
    using pow2_add[of 52 ?ey] by (simp add: ey pow2_def)
  ultimately show ?thesis using a by linarith
qed

lemma fl_mono: "x \<le> y \<Longrightarrow> fl x \<le> fl y"
  using fl_pos_mono[of x y] fl_pos_mono[of "- y" "- x"] fl_pos_nonneg[of y] fl_pos_nonneg[of "- x"]
  by (auto simp: fl_def)

lemma fl_nonneg: "0 \<le> x \<Longrightarrow> 0 \<le> fl x"
  using fl_mono[of 0 x] by simp

text \<open>
  A value with at most 53 significant bits and an exponent in range is representable: \<open>fl\<close>
  leaves it alone. Integers up to \<open>2 ^ 53\<close> are the case the services rely on.
\<close>

lemma fl_pos_exact:
  assumes x: "x = of_int m * pow2 e" and m: "0 < m" "m \<le> 2 ^ 53" and e: "-1074 \<le> e"
  shows "fl_pos x = x"
proof -
  have pos: "0 < x" using m by (simp add: x)
  note b = log2_floor_bounds[OF pos]
  let ?ex = "ulp_exp x"
  have "(of_int m :: rat) \<le> of_int (2 ^ 53)" using m by (simp only: of_int_le_iff)
  then have "x \<le> of_int (2 ^ 53) * pow2 e" unfolding x by (rule mult_right_mono) simp
  also have "of_int (2 ^ 53) * pow2 e = pow2 (e + 53)" by (simp add: pow2_add[of e] pow2_def[of 53])
  finally have up: "x \<le> pow2 (e + 53)" .
  then have "pow2 (log2_floor x) < pow2 (e + 54)"
    using b(1) pow2_less_iff[of "e + 53" "e + 54"] by simp
  then have l: "log2_floor x \<le> e + 53" by (simp add: pow2_less_iff)
  have "\<exists>n. x / pow2 ?ex = of_int n"
  proof (cases "?ex \<le> e")
    case True
    have "x / pow2 ?ex = of_int m * (pow2 e / pow2 ?ex)" by (simp add: x)
    also have "\<dots> = of_int (m * 2 ^ nat (e - ?ex))"
      using True by (simp add: pow2_def[of "e - ?ex"] flip: pow2_diff)
    finally show ?thesis ..
  next
    case False
    then have ex: "?ex = e + 1" "log2_floor x = e + 53" using l e by (auto simp: ulp_exp_def)
    then have "x = pow2 (e + 53)" using up b(1) by simp
    then have "x / pow2 ?ex = of_int (2 ^ 52)"
      unfolding ex by (simp add: pow2_def[of 52] flip: pow2_diff)
    then show ?thesis ..
  qed
  then obtain n where n: "x / pow2 ?ex = of_int n" ..
  then show ?thesis by (simp add: fl_pos_def) (simp add: divide_eq_eq flip: n)
qed

lemma fl_of_int: "\<bar>n\<bar> \<le> 2 ^ 53 \<Longrightarrow> fl (of_int n) = of_int n"
  using fl_pos_exact[of "of_int n" n 0] fl_pos_exact[of "- of_int n" "- n" 0]
  by (auto simp: fl_def)

lemma fl_numeral [simp]:
  "(numeral k :: int) \<le> 2 ^ 53 \<Longrightarrow> fl (numeral k) = numeral k"
  using fl_of_int[of "numeral k"] by simp

lemma fl_1 [simp]: "fl 1 = 1"
  using fl_of_int[of 1] by simp

text \<open>Rounding twice is rounding once.\<close>

lemma fl_pos_form: "0 < x \<Longrightarrow> \<exists>m e. fl_pos x = of_int m * pow2 e \<and> 0 \<le> m \<and> m \<le> 2 ^ 53 \<and> -1074 \<le> e"
proof (intro exI conjI)
  assume pos: "0 < x"
  let ?e = "ulp_exp x"
  show "fl_pos x = of_int (round_even (x / pow2 ?e)) * pow2 ?e" by (simp add: fl_pos_def)
  show "0 \<le> round_even (x / pow2 ?e)" using pos round_even_mono[of 0 "x / pow2 ?e"] by simp
  have "x \<le> pow2 (log2_floor x + 1)" using log2_floor_bounds(2)[OF pos] by simp
  also have "\<dots> \<le> pow2 (?e + 53)" by (rule pow2_mono) (simp add: ulp_exp_def)
  finally have "x / pow2 ?e \<le> of_int (2 ^ 53)"
    by (simp add: pow2_add[of ?e] pow2_def[of 53] divide_le_eq mult.commute)
  then show "round_even (x / pow2 ?e) \<le> 2 ^ 53" by (metis round_even_mono round_even_of_int)
  show "-1074 \<le> ?e" by (simp add: ulp_exp_def)
qed

lemma fl_fl [simp]: "fl (fl x) = fl x"
proof -
  have p: "fl (fl_pos y) = fl_pos y" if pos: "0 < y" for y
  proof (cases "fl_pos y = 0")
    case False
    then have "0 < fl_pos y" using fl_pos_nonneg[OF pos] by simp
    moreover from fl_pos_form[OF pos] obtain m e where "fl_pos y = of_int m * pow2 e" "0 \<le> m" "m \<le> 2 ^ 53" "-1074 \<le> e"
      by blast
    ultimately show ?thesis using fl_pos_exact[of "fl_pos y" m e]
      by (simp add: fl_def)
  qed simp
  consider "x = 0" | "0 < x" | "x < 0" by linarith
  then show ?thesis
    using p[of x] p[of "- x"] fl_minus[of "fl_pos (- x)"] by cases (auto simp: fl_def[of x])
qed

text \<open>The error of one rounding: half a unit in the last place.\<close>

lemma round_even_error: "\<bar>of_int (round_even q) - q\<bar> \<le> 1 / 2"
proof -
  have f: "of_int \<lfloor>q\<rfloor> \<le> q" "q < of_int \<lfloor>q\<rfloor> + 1" by linarith+
  show ?thesis using f by (auto simp: round_even_def Let_def)
qed

lemma fl_pos_error:
  assumes "0 < x" "x < pow2 k" "-1021 \<le> k"
  shows "\<bar>fl_pos x - x\<bar> \<le> pow2 (k - 54)"
proof -
  let ?e = "ulp_exp x"
  have "pow2 (log2_floor x) < pow2 k" using log2_floor_bounds(1)[OF assms(1)] assms(2) by linarith
  then have "log2_floor x < k" by (simp add: pow2_less_iff)
  then have e: "?e \<le> k - 53" using assms(3) by (simp add: ulp_exp_def)
  have "fl_pos x - x = (of_int (round_even (x / pow2 ?e)) - x / pow2 ?e) * pow2 ?e"
    by (simp add: fl_pos_def left_diff_distrib)
  then have "\<bar>fl_pos x - x\<bar> = \<bar>of_int (round_even (x / pow2 ?e)) - x / pow2 ?e\<bar> * pow2 ?e"
    by (simp add: abs_mult)
  also have "\<dots> \<le> 1 / 2 * pow2 ?e" by (rule mult_right_mono[OF round_even_error]) simp
  also have "\<dots> \<le> 1 / 2 * pow2 (k - 53)" using pow2_mono[OF e] by simp
  also have "\<dots> = pow2 (k - 54)" using pow2_Suc[of "k - 54"] by simp
  finally show ?thesis .
qed

lemma fl_error: "\<bar>x\<bar> < pow2 k \<Longrightarrow> -1021 \<le> k \<Longrightarrow> \<bar>fl x - x\<bar> \<le> pow2 (k - 54)"
  using fl_pos_error[of x k] fl_pos_error[of "- x" k] by (auto simp: fl_def)

text \<open>Order facts of the operators.\<close>

lemma nadd_mono: "a \<le> b \<Longrightarrow> c \<le> d \<Longrightarrow> nadd a c \<le> nadd b d"
  by (simp add: nadd_def fl_mono add_mono)

lemma nadd_nonneg [simp]: "0 \<le> a \<Longrightarrow> 0 \<le> b \<Longrightarrow> 0 \<le> nadd a b"
  by (simp add: nadd_def fl_nonneg)

lemma nmul_nonneg [simp]: "0 \<le> a \<Longrightarrow> 0 \<le> b \<Longrightarrow> 0 \<le> nmul a b"
  by (simp add: nmul_def fl_nonneg)

lemma ndiv_nonneg [simp]: "0 \<le> a \<Longrightarrow> 0 \<le> b \<Longrightarrow> 0 \<le> ndiv a b"
  by (simp add: ndiv_def fl_nonneg)

lemma nsub_nonneg [simp]: "b \<le> a \<Longrightarrow> 0 \<le> nsub a b"
  by (simp add: nsub_def fl_nonneg)

lemma fl_le: "x \<le> y \<Longrightarrow> fl y = y \<Longrightarrow> fl x \<le> y"
  using fl_mono[of x y] by simp

lemma fl_ge: "y \<le> x \<Longrightarrow> fl y = y \<Longrightarrow> y \<le> fl x"
  using fl_mono[of y x] by simp

lemma nsub_self [simp]: "nsub a a = 0"
  by (simp add: nsub_def)

lemma math_round_mono: "x \<le> y \<Longrightarrow> math_round x \<le> math_round y"
  by (simp add: math_round_def floor_mono)

lemma math_round_of_int [simp]: "math_round (of_int n) = n"
proof -
  have "\<lfloor>(of_int n :: rat) + 1 / 2\<rfloor> = n" by (rule floor_unique) simp_all
  then show ?thesis by (simp add: math_round_def)
qed

end
