(* ===== verification/Json.thy ===== *)
theory Json
  imports Prelude JsNumber
begin

text \<open>
  Strings, JSON values and the JavaScript coercions the services apply to untyped data.
  A \<open>string\<close> is a list of ASCII characters (the text fields the services compare, trim and
  split); \<open>trim\<close> strips the ASCII white space of \<open>String.prototype.trim\<close>. A JSON object is
  its entries in property order. \<open>undefined\<close> (an absent property) is \<open>None\<close> of \<open>json option\<close>.
\<close>

section \<open>Strings\<close>

definition is_space :: "char \<Rightarrow> bool" where
  "is_space c \<longleftrightarrow> of_char c \<in> {9::nat, 10, 11, 12, 13, 32}"

definition trim :: "string \<Rightarrow> string" where
  "trim s = rev (dropWhile is_space (rev (dropWhile is_space s)))"

lemma trim_Nil [simp]: "trim [] = []"
  by (simp add: trim_def)

lemma dropWhile_idem [simp]: "dropWhile P (dropWhile P xs) = dropWhile P xs"
  by (induction xs) auto

lemma dropWhile_rev_fix:
  assumes "dropWhile P xs = xs"
  shows "dropWhile P (rev (dropWhile P (rev xs))) = rev (dropWhile P (rev xs))"
proof (cases xs)
  case (Cons x ys)
  have "length (dropWhile P ys) < length (x # ys)" using length_dropWhile_le[of P ys] by simp
  then have x: "\<not> P x" using assms Cons by (auto split: if_splits)
  have "\<exists>zs. rev (dropWhile P (rev xs)) = x # zs"
    using x by (auto simp: Cons dropWhile_append intro: exI[of _ "rev (dropWhile P (rev ys))"])
  then show ?thesis using x by auto
qed simp

lemma trim_trim [simp]: "trim (trim s) = trim s"
  using dropWhile_rev_fix[of is_space "dropWhile is_space s"]
  by (simp add: trim_def)

fun join :: "string \<Rightarrow> string list \<Rightarrow> string" where
  "join sep [] = []"
| "join sep [x] = x"
| "join sep (x # y # zs) = x @ sep @ join sep (y # zs)"

definition lower_char :: "char \<Rightarrow> char" where
  "lower_char c = (let n = of_char c :: nat in if 65 \<le> n \<and> n \<le> 90 then char_of (n + 32) else c)"

definition to_lower :: "string \<Rightarrow> string" where
  "to_lower s = map lower_char s"

fun starts_with :: "string \<Rightarrow> string \<Rightarrow> bool" where
  "starts_with [] s = True"
| "starts_with (p # ps) [] = False"
| "starts_with (p # ps) (c # cs) = (p = c \<and> starts_with ps cs)"

fun str_includes :: "string \<Rightarrow> string \<Rightarrow> bool" where
  "str_includes [] pat = (pat = [])"
| "str_includes (c # cs) pat = (starts_with pat (c # cs) \<or> str_includes cs pat)"

definition is_digit :: "char \<Rightarrow> bool" where
  "is_digit c \<longleftrightarrow> 48 \<le> (of_char c :: nat) \<and> (of_char c :: nat) \<le> 57"

definition digit_val :: "char \<Rightarrow> int" where
  "digit_val c = of_char c - 48"

definition digits_val :: "string \<Rightarrow> int" where
  "digits_val s = foldl (\<lambda>n c. 10 * n + digit_val c) 0 s"

function int_digits :: "int \<Rightarrow> string" where
  "int_digits n =
     (if n < 10 then [char_of (48 + nat n)] else int_digits (n div 10) @ [char_of (48 + nat (n mod 10))])"
  by pat_completeness auto
termination
  by (relation "measure nat") auto

declare int_digits.simps [simp del]

section \<open>JSON values\<close>

datatype json =
    JNull
  | JBool bool
  | JNum num
  | JStr string
  | JArr "json list"
  | JObj "(string \<times> json) list"

text \<open>\<open>typeof v === 'object' && v !== null && !Array.isArray(v)\<close>, and property access.\<close>

fun isRecord :: "json \<Rightarrow> bool" where
  "isRecord (JObj _) = True"
| "isRecord _ = False"

fun get_prop :: "json \<Rightarrow> string \<Rightarrow> json option" where
  "get_prop (JObj kvs) k = map_of kvs k"
| "get_prop _ k = None"

text \<open>The operator \<open>??\<close> and the test \<open>x != null\<close> single out \<open>null\<close> and \<open>undefined\<close>.\<close>

definition nonnull :: "json option \<Rightarrow> json option" where
  "nonnull v = (case v of None \<Rightarrow> None | Some JNull \<Rightarrow> None | Some j \<Rightarrow> Some j)"

text \<open>
  \<open>Number(s)\<close> for a string: white space around it is ignored, the empty string is 0, a decimal
  literal with sign, fraction and exponent, or an unsigned hexadecimal, octal or binary integer
  literal. \<open>None\<close> is NaN (and stands for the two infinite values, which no finite JSON text of the
  catalogue denotes).
\<close>

definition span_digits :: "string \<Rightarrow> string \<times> string" where
  "span_digits s = (takeWhile is_digit s, dropWhile is_digit s)"

definition scale10 :: "rat \<Rightarrow> int \<Rightarrow> rat" where
  "scale10 r e = (if 0 \<le> e then r * 10 ^ nat e else r / 10 ^ nat (- e))"

definition parse_exponent :: "string \<Rightarrow> int option" where
  "parse_exponent s =
     (case s of [] \<Rightarrow> Some 0
      | c # r \<Rightarrow>
         if c = CHR ''e'' \<or> c = CHR ''E''
         then (let (neg, ds) = (case r of [] \<Rightarrow> (False, [])
                 | d # r' \<Rightarrow> if d = CHR ''-'' then (True, r') else if d = CHR ''+'' then (False, r') else (False, r))
               in if ds \<noteq> [] \<and> list_all is_digit ds
                  then Some (if neg then - digits_val ds else digits_val ds) else None)
         else None)"

definition parse_unsigned :: "string \<Rightarrow> num option" where
  "parse_unsigned s =
     (let (ip, r) = span_digits s;
          (fp, r') = (case r of [] \<Rightarrow> ([], []) | c # q \<Rightarrow> if c = CHR ''.'' then span_digits q else ([], r))
      in if ip = [] \<and> fp = [] then None
         else map_option (\<lambda>e. fl (scale10 (of_int (digits_val (ip @ fp))) (e - int (length fp))))
                (parse_exponent r'))"

definition radix_digit :: "char \<Rightarrow> int" where
  "radix_digit c = (let n = of_char (lower_char c) in if is_digit c then n - 48 else if 97 \<le> n \<and> n \<le> 102 then n - 87 else 99)"

definition parse_radix :: "int \<Rightarrow> string \<Rightarrow> num option" where
  "parse_radix b ds =
     (if ds \<noteq> [] \<and> list_all (\<lambda>c. radix_digit c < b) ds
      then Some (fl (of_int (foldl (\<lambda>n c. b * n + radix_digit c) 0 ds))) else None)"

definition string_to_number :: "string \<Rightarrow> num option" where
  "string_to_number s0 =
     (case trim s0 of [] \<Rightarrow> Some 0
      | c # r \<Rightarrow>
         if c = CHR ''-'' then map_option uminus (parse_unsigned r)
         else if c = CHR ''+'' then parse_unsigned r
         else if c = CHR ''0'' \<and> r \<noteq> [] \<and> to_lower [hd r] = ''x'' then parse_radix 16 (tl r)
         else if c = CHR ''0'' \<and> r \<noteq> [] \<and> to_lower [hd r] = ''o'' then parse_radix 8 (tl r)
         else if c = CHR ''0'' \<and> r \<noteq> [] \<and> to_lower [hd r] = ''b'' then parse_radix 2 (tl r)
         else parse_unsigned (c # r))"

text \<open>\<open>Number(v)\<close>; an array is converted through its string, so one element decides.\<close>

fun js_Number :: "json \<Rightarrow> num option" where
  "js_Number JNull = Some 0"
| "js_Number (JBool b) = Some (if b then 1 else 0)"
| "js_Number (JNum r) = Some r"
| "js_Number (JStr s) = string_to_number s"
| "js_Number (JArr []) = Some 0"
| "js_Number (JArr [x]) = (case x of JBool _ \<Rightarrow> None | _ \<Rightarrow> js_Number x)"
| "js_Number (JArr (x # y # zs)) = None"
| "js_Number (JObj _) = None"

definition js_Number_opt :: "json option \<Rightarrow> num option" where
  "js_Number_opt v = Option.bind v js_Number"

text \<open>
  \<open>String(v)\<close>. A number prints its shortest decimal digits that read back as the same value, in
  the positional or the exponential form of \<open>Number::toString\<close>.
\<close>

definition dec_exp :: "rat \<Rightarrow> int" where
  \<comment> \<open>the \<open>n\<close> with \<open>10 ^ (n - 1) \<le> x < 10 ^ n\<close>\<close>
  "dec_exp x =
     (let g = (log2_floor x * 30103) div 100000
      in if x < scale10 1 g then g else if x < scale10 1 (g + 1) then g + 1 else g + 2)"

definition digits_at :: "rat \<Rightarrow> int \<Rightarrow> nat \<Rightarrow> int option" where
  "digits_at x n k =
     (let q = scale10 x (int k - n); f = \<lfloor>q\<rfloor>;
          cs = (if q - of_int f \<le> 1 / 2 then [f, f + 1] else [f + 1, f])
      in find (\<lambda>c. fl (scale10 (of_int c) (n - int k)) = x) cs)"

fun shortest_from :: "rat \<Rightarrow> int \<Rightarrow> nat \<Rightarrow> nat \<Rightarrow> int \<times> nat" where
  "shortest_from x n k 0 = (\<lfloor>scale10 x (int k - n)\<rfloor>, k)"
| "shortest_from x n k (Suc fuel) =
     (case digits_at x n k of Some c \<Rightarrow> (c, k) | None \<Rightarrow> shortest_from x n (Suc k) fuel)"

definition pos_num_to_string :: "num \<Rightarrow> string" where
  "pos_num_to_string x =
     (let n = dec_exp x; (c, k) = shortest_from x n 1 17; ds = int_digits c;
          e = n - 1; es = (if 0 \<le> e then ''+'' else ''-'') @ int_digits \<bar>e\<bar>
      in if int k \<le> n \<and> n \<le> 21 then ds @ replicate (nat n - k) CHR ''0''
         else if 0 < n \<and> n \<le> 21 then take (nat n) ds @ ''.'' @ drop (nat n) ds
         else if -6 < n \<and> n \<le> 0 then ''0.'' @ replicate (nat (- n)) CHR ''0'' @ ds
         else if k = 1 then ds @ ''e'' @ es
         else take 1 ds @ ''.'' @ drop 1 ds @ ''e'' @ es)"

definition num_to_string :: "num \<Rightarrow> string" where
  "num_to_string x =
     (if x = 0 then ''0'' else if 0 < x then pos_num_to_string x else ''-'' @ pos_num_to_string (- x))"

fun js_String :: "json \<Rightarrow> string" where
  "js_String JNull = ''null''"
| "js_String (JBool b) = (if b then ''true'' else ''false'')"
| "js_String (JNum r) = num_to_string r"
| "js_String (JStr s) = s"
| "js_String (JArr xs) = join '','' (map (\<lambda>x. if x = JNull then [] else js_String x) xs)"
| "js_String (JObj _) = ''[object Object]''"

end
