(* ===== verification/Redis.thy ===== *)
theory Redis
  imports Tables Json
begin

text \<open>
  The Redis key space as \<open>RedisService\<close> (src/redis/redis.service.ts) uses it: string keys with an
  optional expiry time, and sets of strings. Times are milliseconds since the epoch; a key whose
  expiry has been reached reads as absent. A stored text is either a raw string or a text that
  \<open>JSON.stringify\<close> produced from a JSON value; \<open>JSON.parse\<close> gives that value back.
\<close>

datatype text_val = Raw string | JsonText json

definition json_parse :: "text_val \<Rightarrow> json option" where
  "json_parse v = (case v of Raw _ \<Rightarrow> None | JsonText j \<Rightarrow> Some j)"

record redis =
  texts :: "(string, text_val \<times> int option) table"
  rsets :: "(string, string list \<times> int option) table"

definition live :: "int \<Rightarrow> int option \<Rightarrow> bool" where
  "live now e = (case e of None \<Rightarrow> True | Some t \<Rightarrow> now < t)"

definition expiry_at :: "int \<Rightarrow> nat \<Rightarrow> int" where
  "expiry_at now ttl = now + 1000 * int ttl"

definition redis_get :: "int \<Rightarrow> redis \<Rightarrow> string \<Rightarrow> text_val option" where
  "redis_get now r k =
     (case tget (texts r) k of None \<Rightarrow> None | Some (v, e) \<Rightarrow> if live now e then Some v else None)"

text \<open>
  \<open>set(key, value, ttlSeconds?)\<close>: \<open>SETEX\<close> when a TTL is given and not 0, a plain \<open>SET\<close> (which
  drops an earlier expiry) otherwise. The callers pass whole seconds that are never negative.
\<close>

definition redis_set :: "int \<Rightarrow> string \<Rightarrow> text_val \<Rightarrow> nat option \<Rightarrow> redis \<Rightarrow> redis" where
  "redis_set now k v ttl r =
     (case ttl of
        Some n \<Rightarrow> if n \<noteq> 0 then r\<lparr>texts := tput k (v, Some (expiry_at now n)) (texts r)\<rparr>
                  else r\<lparr>texts := tput k (v, None) (texts r)\<rparr>
      | None \<Rightarrow> r\<lparr>texts := tput k (v, None) (texts r)\<rparr>)"

text \<open>\<open>SET key value EX ttl NX\<close>: the flag says whether the key was set.\<close>

definition redis_setNx :: "int \<Rightarrow> string \<Rightarrow> text_val \<Rightarrow> nat \<Rightarrow> redis \<Rightarrow> bool \<times> redis" where
  "redis_setNx now k v ttl r =
     (case redis_get now r k of
        None \<Rightarrow> (True, r\<lparr>texts := tput k (v, Some (expiry_at now ttl)) (texts r)\<rparr>)
      | Some _ \<Rightarrow> (False, r))"

definition redis_del :: "string \<Rightarrow> redis \<Rightarrow> redis" where
  "redis_del k r = r\<lparr>texts := tdel k (texts r), rsets := tdel k (rsets r)\<rparr>"

definition redis_smembers :: "int \<Rightarrow> redis \<Rightarrow> string \<Rightarrow> string list" where
  "redis_smembers now r k =
     (case tget (rsets r) k of None \<Rightarrow> [] | Some (xs, e) \<Rightarrow> if live now e then xs else [])"

definition set_expiry :: "int \<Rightarrow> redis \<Rightarrow> string \<Rightarrow> int option" where
  "set_expiry now r k =
     (case tget (rsets r) k of None \<Rightarrow> None | Some (xs, e) \<Rightarrow> if live now e then e else None)"

definition redis_sadd :: "int \<Rightarrow> string \<Rightarrow> string \<Rightarrow> redis \<Rightarrow> redis" where
  "redis_sadd now k m r =
     (let xs = redis_smembers now r k
      in r\<lparr>rsets := tput k (if m \<in> set xs then xs else xs @ [m], set_expiry now r k) (rsets r)\<rparr>)"

definition redis_srem :: "int \<Rightarrow> string \<Rightarrow> string \<Rightarrow> redis \<Rightarrow> redis" where
  "redis_srem now k m r =
     (let xs = filter (\<lambda>x. x \<noteq> m) (redis_smembers now r k)
      in if xs = [] then r\<lparr>rsets := tdel k (rsets r)\<rparr>
         else r\<lparr>rsets := tput k (xs, set_expiry now r k) (rsets r)\<rparr>)"

definition redis_scard :: "int \<Rightarrow> redis \<Rightarrow> string \<Rightarrow> nat" where
  "redis_scard now r k = length (redis_smembers now r k)"

definition redis_expire :: "int \<Rightarrow> string \<Rightarrow> nat \<Rightarrow> redis \<Rightarrow> redis" where
  "redis_expire now k ttl r =
     r\<lparr>texts := tupd k (\<lambda>(v, e). (v, if live now e then Some (expiry_at now ttl) else e)) (texts r),
       rsets := tupd k (\<lambda>(v, e). (v, if live now e then Some (expiry_at now ttl) else e)) (rsets r)\<rparr>"

section \<open>Keys\<close>

definition streamViewersKey :: "string \<Rightarrow> string" where "streamViewersKey sid = ''stream:viewers:'' @ sid"
definition streamLikesKey :: "string \<Rightarrow> string" where "streamLikesKey sid = ''stream:'' @ sid @ '':likes''"
definition streamCommentsKey :: "string \<Rightarrow> string" where "streamCommentsKey sid = ''stream:'' @ sid @ '':comments''"
definition streamBidsKey :: "string \<Rightarrow> string" where "streamBidsKey sid = ''stream:'' @ sid @ '':bids''"
definition streamCartHoldersKey :: "string \<Rightarrow> string" where "streamCartHoldersKey sid = ''orders:stream-carts:'' @ sid"
definition refreshTokenKey :: "string \<Rightarrow> string" where "refreshTokenKey t = ''refresh:'' @ t"
definition otpKey :: "string \<Rightarrow> string" where "otpKey i = ''otp:'' @ i"

section \<open>Viewers of a live stream\<close>

definition STREAM_VIEWER_TTL_SECONDS :: nat where "STREAM_VIEWER_TTL_SECONDS = 8 * 60 * 60"

text \<open>The pipelines run in order without other commands in between; the count is the last reply.\<close>

definition trackViewerJoin :: "int \<Rightarrow> string \<Rightarrow> string \<Rightarrow> redis \<Rightarrow> nat \<times> redis" where
  "trackViewerJoin now sid sock r =
     (let k = streamViewersKey sid;
          r2 = redis_expire now k STREAM_VIEWER_TTL_SECONDS (redis_sadd now k sock r)
      in (redis_scard now r2 k, r2))"

definition trackViewerLeave :: "int \<Rightarrow> string \<Rightarrow> string \<Rightarrow> redis \<Rightarrow> nat \<times> redis" where
  "trackViewerLeave now sid sock r =
     (let k = streamViewersKey sid; r1 = redis_srem now k sock r
      in (redis_scard now r1 k, r1))"

definition clearStreamEphemeralKeys :: "string \<Rightarrow> redis \<Rightarrow> redis" where
  "clearStreamEphemeralKeys sid r =
     fold redis_del [streamLikesKey sid, streamCommentsKey sid, streamBidsKey sid, streamViewersKey sid] r"

section \<open>The key space is a keyed store\<close>

interpretation kv: keyed_store "redis_get now" "\<lambda>k v. redis_set now k v ttl" redis_del "\<lambda>_. True"
  for now ttl
  by unfold_locales
    (auto simp: redis_get_def redis_set_def redis_del_def live_def expiry_at_def split: option.splits)

lemmas redis_get_simps [simp] = kv.get_put[OF TrueI] kv.get_del[OF TrueI]

text \<open>A text written with a TTL is readable exactly until the TTL has passed.\<close>

lemma redis_get_after:
  "n \<noteq> 0 \<Longrightarrow> redis_get later (redis_set now k v (Some n) r) k =
     (if later < now + 1000 * int n then Some v else None)"
  by (simp add: redis_get_def redis_set_def live_def expiry_at_def)

lemma smembers_sadd [simp]:
  "set (redis_smembers now (redis_sadd now k m r) j) =
     (if j = k then insert m (set (redis_smembers now r k)) else set (redis_smembers now r j))"
  by (auto simp: redis_smembers_def redis_sadd_def set_expiry_def Let_def live_def split: option.splits)

lemma smembers_srem [simp]:
  "set (redis_smembers now (redis_srem now k m r) j) =
     (if j = k then set (redis_smembers now r k) - {m} else set (redis_smembers now r j))"
  by (auto simp: redis_smembers_def redis_srem_def set_expiry_def Let_def live_def filter_empty_conv
      split: option.splits)

lemma smembers_set [simp]: "redis_smembers now (redis_set n k v ttl r) j = redis_smembers now r j"
  by (simp add: redis_smembers_def redis_set_def split: option.splits)

lemma get_sadd [simp]: "redis_get now (redis_sadd n k m r) j = redis_get now r j"
  by (simp add: redis_get_def redis_sadd_def Let_def)

lemma get_srem [simp]: "redis_get now (redis_srem n k m r) j = redis_get now r j"
  by (simp add: redis_get_def redis_srem_def Let_def)

lemma smembers_del:
  "redis_smembers now (redis_del k r) j = (if j = k then [] else redis_smembers now r j)"
  by (simp add: redis_smembers_def redis_del_def)

end
