(* ===== verification/Variants.thy ===== *)
theory Variants
  imports Json "HOL-Library.AList"
begin

text \<open>
  Product variants, src/products/product-variants.util.ts: the untyped \<open>variants\<close> column of a
  product is a JSON object with \<open>options\<close> and \<open>items\<close>; the functions parse it, validate a seller's
  matrix of combinations, look a variant up and move its stock. Stock counts are whole numbers
  (the source floors them) far below \<open>2 ^ 53\<close>, where number arithmetic is exact: they are \<open>int\<close>.
\<close>

section \<open>Data and parsing\<close>

record variant_option =
  optionName :: string
  optionValues :: "string list"

record variant_item =
  vi_id :: string
  vi_label :: string
  vi_selection :: "(string \<times> string) list"
  vi_sellingPrice :: num
  vi_mrp :: "num option"
  vi_discountPercent :: "num option"
  vi_stock :: int
  vi_sku :: "string option"

definition string_field :: "json \<Rightarrow> string \<Rightarrow> string" where
  \<comment> \<open>\<open>String(row[k] ?? '''').trim()\<close>\<close>
  "string_field row k = trim (case nonnull (get_prop row k) of None \<Rightarrow> [] | Some v \<Rightarrow> js_String v)"

definition parse_option :: "json \<Rightarrow> variant_option option" where
  "parse_option row =
     (if \<not> isRecord row then None
      else let name = string_field row ''optionName'';
               vals = (case get_prop row ''optionValues'' of
                   Some (JArr xs) \<Rightarrow> filter (\<lambda>v. v \<noteq> []) (map (\<lambda>x. trim (js_String x)) xs)
                 | _ \<Rightarrow> [])
           in if name \<noteq> [] \<and> vals \<noteq> [] then Some \<lparr>optionName = name, optionValues = vals\<rparr> else None)"

definition parseVariantOptions :: "json \<Rightarrow> variant_option list" where
  "parseVariantOptions raw =
     (case get_prop raw ''options'' of
        Some (JArr rows) \<Rightarrow> List.map_filter parse_option rows
      | _ \<Rightarrow> [])"

definition number_field :: "json \<Rightarrow> string \<Rightarrow> num option" where
  \<comment> \<open>\<open>row[k] != null ? Number(row[k]) : undefined\<close>, with NaN dropped\<close>
  "number_field row k = Option.bind (nonnull (get_prop row k)) js_Number"

definition parse_item :: "json \<Rightarrow> variant_item option" where
  "parse_item row =
     (if \<not> isRecord row then None
      else let vid = string_field row ''id'';
               label = string_field row ''label'';
               sel = (case get_prop row ''selection'' of
                   Some (JObj kvs) \<Rightarrow> map (\<lambda>(k, v). (k, js_String v)) kvs
                 | _ \<Rightarrow> []);
               sku = map_option (\<lambda>v. trim (js_String v)) (nonnull (get_prop row ''sku''))
           in case (js_Number_opt (get_prop row ''sellingPrice''), js_Number_opt (get_prop row ''stock'')) of
                (Some price, Some stock) \<Rightarrow>
                  if vid = [] \<or> label = [] \<or> price < 0 \<or> stock < 0 then None
                  else Some \<lparr>vi_id = vid, vi_label = label, vi_selection = sel,
                             vi_sellingPrice = price, vi_mrp = number_field row ''mrp'',
                             vi_discountPercent = number_field row ''discountPercent'',
                             vi_stock = math_floor stock,
                             vi_sku = (if sku = Some [] then None else sku)\<rparr>
              | _ \<Rightarrow> None)"

definition parseVariantItems :: "json \<Rightarrow> variant_item list" where
  "parseVariantItems raw =
     (case get_prop raw ''items'' of
        Some (JArr rows) \<Rightarrow> List.map_filter parse_item rows
      | _ \<Rightarrow> [])"

definition findVariantItem :: "json \<Rightarrow> string \<Rightarrow> variant_item option" where
  "findVariantItem variants vid = find (\<lambda>i. vi_id i = vid) (parseVariantItems variants)"

definition productHasVariantItems :: "json \<Rightarrow> bool" where
  "productHasVariantItems variants \<longleftrightarrow> parseVariantItems variants \<noteq> []"

section \<open>Serialisation\<close>

definition option_json :: "variant_option \<Rightarrow> json" where
  "option_json o1 = JObj [(''optionName'', JStr (optionName o1)),
                         (''optionValues'', JArr (map JStr (optionValues o1)))]"

definition opt_entry :: "string \<Rightarrow> json option \<Rightarrow> (string \<times> json) list" where
  \<comment> \<open>\<open>...(v != null ? { k: v } : {})\<close>\<close>
  "opt_entry k v = (case v of None \<Rightarrow> [] | Some j \<Rightarrow> [(k, j)])"

definition item_json :: "variant_item \<Rightarrow> json" where
  "item_json i =
     JObj ([(''id'', JStr (vi_id i)), (''label'', JStr (vi_label i)),
            (''selection'', JObj (map (\<lambda>(k, v). (k, JStr v)) (vi_selection i))),
            (''sellingPrice'', JNum (vi_sellingPrice i))]
         @ opt_entry ''mrp'' (map_option JNum (vi_mrp i))
         @ opt_entry ''discountPercent'' (map_option JNum (vi_discountPercent i))
         @ [(''stock'', JNum (of_int (vi_stock i)))]
         @ opt_entry ''sku'' (map_option JStr (vi_sku i)))"

definition variants_json :: "variant_option list \<Rightarrow> variant_item list \<Rightarrow> json" where
  "variants_json opts items =
     JObj [(''options'', JArr (map option_json opts)), (''items'', JArr (map item_json items))]"

section \<open>Moving stock\<close>

fun set_stock :: "variant_item list \<Rightarrow> string \<Rightarrow> int \<Rightarrow> variant_item list" where
  \<comment> \<open>the first item with the id gets its stock moved, the others stay\<close>
  "set_stock [] vid d = []"
| "set_stock (i # is) vid d =
     (if vi_id i = vid then i\<lparr>vi_stock := vi_stock i + d\<rparr> # is else i # set_stock is vid d)"

definition total_stock :: "variant_item list \<Rightarrow> int" where
  "total_stock is = sum_list (map vi_stock is)"

definition applyVariantStockDelta :: "json \<Rightarrow> string \<Rightarrow> int \<Rightarrow> exn + json \<times> int" where
  "applyVariantStockDelta variants vid delta =
     (let opts = parseVariantOptions variants; items = parseVariantItems variants
      in case find (\<lambda>i. vi_id i = vid) items of
           None \<Rightarrow> Inl (BadRequest ''Invalid variant'')
         | Some it \<Rightarrow>
             if vi_stock it + delta < 0
             then Inl (BadRequest ''Insufficient stock for this variant'')
             else (let next = set_stock items vid delta
                   in Inr (variants_json opts next, total_stock next)))"

section \<open>Validating a seller's payload\<close>

definition expectedCombinationCount :: "variant_option list \<Rightarrow> int" where
  "expectedCombinationCount opts =
     (if opts = [] then 0 else foldl (\<lambda>acc o1. acc * int (length (optionValues o1))) 1 opts)"

fun combinations_from ::
    "(string \<times> string) list list \<Rightarrow> variant_option list \<Rightarrow> (string \<times> string) list list" where
  "combinations_from rows [] = rows"
| "combinations_from rows (o1 # os) =
     combinations_from
       (concat (map (\<lambda>row. map (\<lambda>v. AList.update (optionName o1) v row) (optionValues o1)) rows)) os"

definition combinations :: "variant_option list \<Rightarrow> (string \<times> string) list list" where
  "combinations opts = (if opts = [] then [] else combinations_from [[]] opts)"

definition selectionKey :: "(string \<times> string) list \<Rightarrow> string list \<Rightarrow> string" where
  "selectionKey sel names =
     join ''|'' (map (\<lambda>n. n @ ''='' @ (case map_of sel n of None \<Rightarrow> [] | Some v \<Rightarrow> v)) names)"

text \<open>
  The loop over the rows: ids seen so far, combination keys not yet used (a set, in insertion
  order), the least price so far (\<open>None\<close> for plus infinity) and the running stock total.
\<close>

fun check_items ::
    "string list \<Rightarrow> variant_item list \<Rightarrow> string list \<Rightarrow> string list \<Rightarrow> num option \<Rightarrow> int
     \<Rightarrow> exn + string list \<times> num option \<times> int" where
  "check_items names [] seen keys mn tot = Inr (keys, mn, tot)"
| "check_items names (i # is) seen keys mn tot =
     (if vi_id i \<in> set seen then Inl (BadRequest (''Duplicate variant id: '' @ vi_id i))
      else if selectionKey (vi_selection i) names \<notin> set keys
      then Inl (BadRequest (''Variant selection does not match options: '' @ vi_label i))
      else check_items names is (vi_id i # seen)
             (filter (\<lambda>k. k \<noteq> selectionKey (vi_selection i) names) keys)
             (Some (case mn of None \<Rightarrow> vi_sellingPrice i | Some m \<Rightarrow> min m (vi_sellingPrice i)))
             (tot + vi_stock i))"

record normalized_variants =
  nv_json :: json
  nv_minPrice :: num
  nv_totalStock :: int

fun first_bad_option :: "variant_option list \<Rightarrow> exn option" where
  "first_bad_option [] = None"
| "first_bad_option (o1 # os) =
     (if trim (optionName o1) = [] then Some (BadRequest ''Each variant option must have a name'')
      else if optionValues o1 = []
      then Some (BadRequest (''Option '' @ [CHR 0x22] @ optionName o1 @ [CHR 0x22] @ '' needs at least one value''))
      else first_bad_option os)"

definition validateAndNormalizeSellerVariants :: "json option \<Rightarrow> exn + normalized_variants" where
  "validateAndNormalizeSellerVariants payload =
     (case nonnull payload of
        None \<Rightarrow> Inl (BadRequest ''variants payload is required'')
      | Some v \<Rightarrow>
          let opts = parseVariantOptions v; items = parseVariantItems v in
          if opts = [] then Inl (BadRequest ''At least one variant option with values is required'')
          else case first_bad_option opts of Some e \<Rightarrow> Inl e | None \<Rightarrow>
          if int (length items) \<noteq> expectedCombinationCount opts
          then Inl (BadRequest (''Variant rows must match all combinations ('' @
                 int_digits (expectedCombinationCount opts) @ '' rows, got '' @
                 int_digits (int (length items)) @ '')''))
          else (let names = map optionName opts;
                    keys = remdups (map (\<lambda>c. selectionKey c names) (combinations opts))
                in case check_items names items [] keys None 0 of
                     Inl e \<Rightarrow> Inl e
                   | Inr (left, mn, tot) \<Rightarrow>
                       if left \<noteq> []
                       then Inl (BadRequest ''Missing variant rows for some option combinations'')
                       else Inr \<lparr>nv_json = variants_json opts items,
                                 nv_minPrice = (case mn of None \<Rightarrow> 0 | Some m \<Rightarrow> m),
                                 nv_totalStock = tot\<rparr>))"

section \<open>What a parsed catalogue satisfies\<close>

definition wf_option :: "variant_option \<Rightarrow> bool" where
  "wf_option o1 \<longleftrightarrow> optionName o1 \<noteq> [] \<and> trim (optionName o1) = optionName o1 \<and> optionValues o1 \<noteq> []
     \<and> (\<forall>v \<in> set (optionValues o1). v \<noteq> [] \<and> trim v = v)"

definition wf_item :: "variant_item \<Rightarrow> bool" where
  "wf_item i \<longleftrightarrow> vi_id i \<noteq> [] \<and> trim (vi_id i) = vi_id i \<and> vi_label i \<noteq> [] \<and> trim (vi_label i) = vi_label i
     \<and> 0 \<le> vi_sellingPrice i \<and> 0 \<le> vi_stock i
     \<and> (\<forall>k. vi_sku i = Some k \<longrightarrow> k \<noteq> [] \<and> trim k = k)"

lemma string_field_trim [simp]: "trim (string_field r k) = string_field r k"
  by (simp add: string_field_def)

lemma parse_option_wf: "parse_option row = Some o1 \<Longrightarrow> wf_option o1"
  by (auto simp: parse_option_def wf_option_def Let_def split: if_splits option.splits json.splits)

lemma parse_item_wf: "parse_item row = Some i \<Longrightarrow> wf_item i"
  by (auto simp: parse_item_def wf_item_def Let_def math_floor_def split: if_splits option.splits)

lemma map_filter_all: "\<forall>x \<in> set xs. \<forall>y. f x = Some y \<longrightarrow> P y \<Longrightarrow> \<forall>y \<in> set (List.map_filter f xs). P y"
  by (auto simp: List.map_filter_def)

lemma parsed_options_wf: "o1 \<in> set (parseVariantOptions raw) \<Longrightarrow> wf_option o1"
  by (auto simp: parseVariantOptions_def List.map_filter_def parse_option_wf split: option.splits json.splits)

lemma parsed_items_wf: "i \<in> set (parseVariantItems raw) \<Longrightarrow> wf_item i"
  by (auto simp: parseVariantItems_def List.map_filter_def parse_item_wf split: option.splits json.splits)

section \<open>Printing and parsing again\<close>

lemma parse_option_json: "wf_option o1 \<Longrightarrow> parse_option (option_json o1) = Some o1"
  by (auto simp: parse_option_def option_json_def string_field_def nonnull_def wf_option_def Let_def comp_def
      filter_id_conv map_idI split: option.splits)

lemma parse_item_json: "wf_item i \<Longrightarrow> parse_item (item_json i) = Some i"
  by (cases i)
    (auto simp: parse_item_def item_json_def string_field_def number_field_def nonnull_def opt_entry_def
      wf_item_def js_Number_opt_def math_floor_def Let_def comp_def split_def
      split: option.splits)

lemma map_filter_map_id: "(\<And>x. x \<in> set xs \<Longrightarrow> f (g x) = Some x) \<Longrightarrow> List.map_filter f (map g xs) = xs"
  by (induction xs) (auto simp: List.map_filter_def)

lemma parse_variants_json_items:
  "\<forall>i \<in> set items. wf_item i \<Longrightarrow> parseVariantItems (variants_json opts items) = items"
  by (simp add: parseVariantItems_def variants_json_def map_filter_map_id parse_item_json)

lemma parse_variants_json_options:
  "\<forall>o1 \<in> set opts. wf_option o1 \<Longrightarrow> parseVariantOptions (variants_json opts items) = opts"
  by (simp add: parseVariantOptions_def variants_json_def map_filter_map_id parse_option_json)

section \<open>The stock of one variant\<close>

definition variant_stock :: "json \<Rightarrow> string \<Rightarrow> int option" where
  "variant_stock variants vid = map_option vi_stock (findVariantItem variants vid)"

lemma find_set_stock:
  "find (\<lambda>i. vi_id i = j) (set_stock items vid d) =
     map_option (\<lambda>i. if j = vid then i\<lparr>vi_stock := vi_stock i + d\<rparr> else i) (find (\<lambda>i. vi_id i = j) items)"
  by (induction items) (auto simp: option.map_ident)

lemma wf_item_stock: "wf_item i \<Longrightarrow> 0 \<le> n \<Longrightarrow> wf_item (i\<lparr>vi_stock := n\<rparr>)"
  by (simp add: wf_item_def)

lemma wf_set_stock:
  "\<forall>i \<in> set items. wf_item i \<Longrightarrow> find (\<lambda>i. vi_id i = vid) items = Some it \<Longrightarrow> 0 \<le> vi_stock it + d \<Longrightarrow>
   \<forall>i \<in> set (set_stock items vid d). wf_item i"
  by (induction items) (auto simp: wf_item_stock split: if_splits)

lemma set_stock_undo: "set_stock (set_stock items vid d) vid (- d) = items"
  by (induction items) auto

lemma set_stock_Nil_iff [simp]: "set_stock items vid d = [] \<longleftrightarrow> items = []"
  by (cases items) auto

lemma total_set_stock:
  "find (\<lambda>i. vi_id i = vid) items = Some it \<Longrightarrow> total_stock (set_stock items vid d) = total_stock items + d"
  by (induction items) (auto simp: total_stock_def split: if_splits)

text \<open>The exact outcome of a stock move, errors included.\<close>

lemma applyVariantStockDelta_outcome:
  "applyVariantStockDelta vs vid d =
     (case variant_stock vs vid of
        None \<Rightarrow> Inl (BadRequest ''Invalid variant'')
      | Some n \<Rightarrow> if n + d < 0 then Inl (BadRequest ''Insufficient stock for this variant'')
                  else Inr (variants_json (parseVariantOptions vs) (set_stock (parseVariantItems vs) vid d),
                            total_stock (parseVariantItems vs) + d))"
  by (auto simp: applyVariantStockDelta_def variant_stock_def findVariantItem_def Let_def total_set_stock
      split: option.splits)

lemma applyVariantStockDelta_items:
  assumes "applyVariantStockDelta vs vid d = Inr (vs', tot)"
  shows "parseVariantItems vs' = set_stock (parseVariantItems vs) vid d"
    and "parseVariantOptions vs' = parseVariantOptions vs"
    and "tot = total_stock (parseVariantItems vs')"
    and "\<exists>n. variant_stock vs vid = Some n \<and> 0 \<le> n + d"
proof -
  obtain it where it: "find (\<lambda>i. vi_id i = vid) (parseVariantItems vs) = Some it" "0 \<le> vi_stock it + d"
    and vs': "vs' = variants_json (parseVariantOptions vs) (set_stock (parseVariantItems vs) vid d)"
    and tot: "tot = total_stock (set_stock (parseVariantItems vs) vid d)"
    using assms by (auto simp: applyVariantStockDelta_def Let_def split: option.splits if_splits)
  have wf: "\<forall>i \<in> set (set_stock (parseVariantItems vs) vid d). wf_item i"
    using wf_set_stock[OF _ it] parsed_items_wf by blast
  show items: "parseVariantItems vs' = set_stock (parseVariantItems vs) vid d"
    unfolding vs' by (rule parse_variants_json_items[OF wf])
  show "parseVariantOptions vs' = parseVariantOptions vs"
    unfolding vs' using parsed_options_wf by (intro parse_variants_json_options) blast
  show "tot = total_stock (parseVariantItems vs')" by (simp add: items tot)
  show "\<exists>n. variant_stock vs vid = Some n \<and> 0 \<le> n + d"
    using it by (simp add: variant_stock_def findVariantItem_def)
qed

lemma applyVariantStockDelta_stock:
  assumes "applyVariantStockDelta vs vid d = Inr (vs', tot)"
  shows "variant_stock vs' j = map_option (\<lambda>n. if j = vid then n + d else n) (variant_stock vs j)"
proof -
  have "variant_stock vs' j =
      map_option vi_stock (find (\<lambda>i. vi_id i = j) (set_stock (parseVariantItems vs) vid d))"
    by (simp add: variant_stock_def findVariantItem_def applyVariantStockDelta_items(1)[OF assms])
  then show ?thesis
    by (auto simp: find_set_stock variant_stock_def findVariantItem_def option.map_comp comp_def
        intro!: map_option_cong)
qed

lemma applyVariantStockDelta_has:
  "applyVariantStockDelta vs vid d = Inr (vs', tot) \<Longrightarrow> productHasVariantItems vs' = productHasVariantItems vs"
  by (simp add: productHasVariantItems_def applyVariantStockDelta_items(1))

lemma variant_stock_nonneg: "variant_stock vs vid = Some n \<Longrightarrow> 0 \<le> n"
  using parsed_items_wf[of _ vs]
  by (auto simp: variant_stock_def findVariantItem_def find_Some_iff wf_item_def)

lemma variant_stock_has: "variant_stock vs vid = Some n \<Longrightarrow> productHasVariantItems vs"
  by (auto simp: variant_stock_def findVariantItem_def productHasVariantItems_def)

section \<open>A validated catalogue covers every combination once\<close>

lemma parsed_options_never_bad: "first_bad_option (parseVariantOptions raw) = None"
proof -
  have "\<forall>o1 \<in> set os. wf_option o1 \<Longrightarrow> first_bad_option os = None" for os
    by (induction os) (auto simp: wf_option_def)
  then show ?thesis using parsed_options_wf by blast
qed

lemma check_items_ok:
  assumes "check_items names items seen keys mn tot = Inr (left, mn', tot')" and "distinct keys"
  shows "distinct (map vi_id items) \<and> set (map vi_id items) \<inter> set seen = {}
    \<and> distinct (map (\<lambda>i. selectionKey (vi_selection i) names) items)
    \<and> set keys = set left \<union> (\<lambda>i. selectionKey (vi_selection i) names) ` set items
    \<and> set left \<inter> (\<lambda>i. selectionKey (vi_selection i) names) ` set items = {}
    \<and> tot' = tot + total_stock items"
  using assms
proof (induction items arbitrary: seen keys mn tot)
  case Nil
  then show ?case by (simp add: total_stock_def)
next
  case (Cons i rs)
  let ?k = "selectionKey (vi_selection i) names"
  from Cons.prems have ok: "vi_id i \<notin> set seen" "?k \<in> set keys"
    and rest: "check_items names rs (vi_id i # seen) (filter (\<lambda>k. k \<noteq> ?k) keys)
      (Some (case mn of None \<Rightarrow> vi_sellingPrice i | Some m \<Rightarrow> min m (vi_sellingPrice i)))
      (tot + vi_stock i) = Inr (left, mn', tot')"
    by (auto split: if_splits)
  from Cons.IH[OF rest] Cons.prems(2) ok show ?case by (auto simp: total_stock_def)
qed

fun least_price :: "num option \<Rightarrow> variant_item list \<Rightarrow> num option" where
  "least_price mn [] = mn"
| "least_price mn (i # is) =
     least_price (Some (case mn of None \<Rightarrow> vi_sellingPrice i | Some m \<Rightarrow> min m (vi_sellingPrice i))) is"

lemma check_items_price:
  "check_items names items seen keys mn tot = Inr (left, mn', tot') \<Longrightarrow> mn' = least_price mn items"
  by (induction items arbitrary: seen keys mn tot) (auto split: if_splits)

lemma least_price_Some: "least_price (Some m) items = Some (Min (insert m (vi_sellingPrice ` set items)))"
proof (induction items arbitrary: m)
  case (Cons i rs)
  have "Min (insert (min m (vi_sellingPrice i)) (vi_sellingPrice ` set rs)) =
      Min (insert m (insert (vi_sellingPrice i) (vi_sellingPrice ` set rs)))"
    by (cases "rs = []") (simp_all add: min.assoc)
  then show ?case by (simp add: Cons.IH)
qed simp

lemma least_price_Min:
  "items \<noteq> [] \<Longrightarrow> least_price None items = Some (Min (vi_sellingPrice ` set items))"
  by (cases items) (simp_all add: least_price_Some)

end
