(* ===== verification/World.thy ===== *)
theory World
  imports Redis Variants
begin

text \<open>
  The state the services share: the database tables of prisma/schema.prisma, the Redis key space,
  the clock and the mails sent. A row is a record with the columns the modelled operations read or
  write; an optional column is an \<open>option\<close>; a \<open>Float\<close> column is a \<open>num\<close>; an \<open>Int\<close> column an \<open>int\<close>; a
  \<open>DateTime\<close> is its milliseconds since the epoch. The clock is read by \<open>new Date()\<close> and
  \<open>Date.now()\<close>; one request sees one instant. Primary keys made by \<open>uuid()\<close> are arguments of the
  operations that create rows.
\<close>

section \<open>Enumerations\<close>

datatype role = BUYER | SELLER | ADMIN

datatype address_type = SHIPPING | BILLING | PICKUP

datatype verification_status = VS_PENDING | VS_VERIFIED | VS_REJECTED | VS_NEEDS_CHANGES

datatype order_status = PENDING | PAID | PACKED | SHIPPED | DELIVERED | CANCELLED | RETURNED

datatype replacement_status =
    REQUESTED | PENDING_ADMIN_REVIEW | AWAITING_PAYMENT | APPROVED | REJECTED
  | R_PACKED | R_SHIPPED | R_DELIVERED

datatype balance_status = BAL_NONE | BAL_PENDING | BAL_PAID

datatype refund_status = REFUNDED | REFUND_FAILED

datatype rating_entity = RE_BUYER | RE_SELLER

datatype product_status = PS_DRAFT | PS_ACTIVE | PS_OUT_OF_STOCK

datatype visibility = PUBLIC | FOLLOWERS_ONLY

datatype replay_status = RS_NONE | RS_RECORDING | RS_READY | RS_FAILED

datatype notification_category = NC_SALES | NC_ORDERS | NC_IMPORTANT | NC_OTHER

section \<open>Rows\<close>

record user_row =
  u_id :: string
  u_email :: string
  u_phone :: "string option"
  u_name :: string
  u_roles :: "role list"
  u_password :: string \<comment> \<open>the bcrypt hash\<close>
  u_firstName :: "string option"
  u_middleName :: "string option"
  u_lastName :: "string option"
  u_gender :: "string option"
  u_createdAt :: int

record buyer_row =
  b_id :: string
  b_userId :: string
  b_createdAt :: int

record seller_row =
  s_id :: string
  s_userId :: string
  s_businessName :: string
  s_logoUrl :: "string option"
  s_status :: verification_status
  s_commissionWaiverActive :: bool
  s_description :: "string option"
  s_bannerUrl :: "string option"
  s_websiteUrl :: "string option"
  s_gstNumber :: "string option"
  s_businessAddress :: "string option"
  s_primaryCategoryId :: "string option"
  s_bankAccount :: "string option"
  s_bankName :: "string option"
  s_accountHolderName :: "string option"
  s_accountType :: "string option"
  s_ifscCode :: "string option"
  s_signatureUrl :: "string option"
  s_rejectionReason :: "string option"
  s_categories :: "string list" \<comment> \<open>category ids of its \<open>SellerCategory\<close> rows\<close>
  s_createdAt :: int

record category_row =
  c_id :: string
  c_name :: string
  c_slug :: string

record change_request_row =
  cr_sellerId :: string
  cr_createdByAdminId :: "string option"
  cr_note :: "string option"
  cr_sections :: "string list"
  cr_statusAtCreation :: verification_status
  cr_createdAt :: int

record push_device_row =
  dv_userId :: string
  dv_platform :: string

record address_row =
  a_id :: string
  a_userId :: string
  a_type :: address_type
  a_line1 :: string
  a_line2 :: "string option"
  a_city :: string
  a_state :: string
  a_zip :: string
  a_country :: string
  a_contactName :: "string option"
  a_phone :: "string option"
  a_createdAt :: int
  a_isDefault :: bool
  a_latitude :: "num option"
  a_longitude :: "num option"

record product_row =
  p_id :: string
  p_name :: string
  p_price :: num
  p_stock :: int
  p_images :: "string list"
  p_sellerId :: string
  p_variants :: json
  p_returnable :: "bool option"
  p_status :: product_status
  p_createdAt :: int
  p_hsnCode :: "string option"
  p_gstPercent :: "num option"

record stream_row =
  st_id :: string
  st_sellerId :: string
  st_isLive :: bool
  st_startedAt :: "int option"
  st_endedAt :: "int option"
  st_createdAt :: int
  st_products :: "string list" \<comment> \<open>product ids of its \<open>streamProducts\<close>\<close>
  st_sessionEndedAt :: "int option" \<comment> \<open>\<open>session.endedAt\<close> of the \<open>StreamSession\<close> row, if there is one\<close>
  st_sessionSeconds :: "int option" \<comment> \<open>\<open>session.durationSeconds\<close>\<close>
  st_title :: string
  st_description :: "string option"
  st_categoryId :: "string option"
  st_visibility :: visibility
  st_thumbnailUrl :: "string option"
  st_livekitRoomName :: "string option"
  st_livekitUrl :: "string option"
  st_livekitEgressId :: "string option"
  st_replayUrl :: "string option"
  st_replayDurationSec :: "int option"
  st_replayStatus :: replay_status
  st_viewCount :: int
  st_broadcastStartedAt :: "int option"
  st_buyersNotifiedAt :: "int option"
  st_heartbeatAt :: "int option" \<comment> \<open>\<open>sellerLiveHeartbeatAt\<close>\<close>
  st_reminderSentAt :: "int option" \<comment> \<open>\<open>goLiveReminderSentAt\<close>\<close>
  st_durationSeconds :: "int option"

record follow_row =
  fw_buyerId :: string
  fw_sellerId :: string
  fw_createdAt :: int

record notification_row =
  nt_id :: string
  nt_buyerId :: string
  nt_title :: string
  nt_body :: string
  nt_category :: notification_category
  nt_isRead :: bool
  nt_createdAt :: int

record faq_row =
  fq_question :: string
  fq_answer :: string
  fq_sortOrder :: int

record ticket_row =
  tk_userId :: string
  tk_subject :: string
  tk_message :: string
  tk_createdAt :: int

record order_item_row =
  oi_id :: string
  oi_productId :: string
  oi_quantity :: int
  oi_price :: num
  oi_variantId :: "string option"
  oi_variantLabel :: "string option"

record order_row =
  o_id :: string
  o_buyerId :: "string option"
  o_streamId :: "string option"
  o_shippingAddress :: "string option"
  o_status :: order_status
  o_totalAmount :: num
  o_deliveryFee :: num
  o_deliveryProvider :: "string option"
  o_borzoTrackingUrl :: "string option"
  o_borzoOrderStatus :: "string option"
  o_trackingId :: "string option"
  o_carrierName :: "string option"
  o_shippedAt :: "int option"
  o_deliveredAt :: "int option"
  o_packingVideoUrl :: "string option"
  o_packedAt :: "int option"
  o_deliveryStatus :: "string option"
  o_razorpayOrderId :: "string option"
  o_razorpayPaymentId :: "string option"
  o_items :: "order_item_row list"
  o_createdAt :: int
  o_invoiceNumber :: "string option" \<comment> \<open>unique\<close>

record failure_row =
  f_userId :: string
  f_razorpayOrderId :: string
  f_razorpayPaymentId :: string
  f_amountPaise :: int
  f_reason :: exn
  f_refundStatus :: "refund_status option"
  f_razorpayRefundId :: "string option"

record replacement_row =
  r_id :: string
  r_orderId :: string
  r_buyerId :: string
  r_sellerId :: string
  r_orderItemId :: "string option"
  r_status :: replacement_status
  r_reason :: string
  r_description :: "string option"
  r_photoUrls :: "string list"
  r_adminNote :: "string option"
  r_autoApproved :: bool
  r_decidedAt :: "int option"
  r_decidedByAdminId :: "string option"
  r_variantId :: "string option"
  r_variantLabel :: "string option"
  r_originalUnitPrice :: num
  r_replacementUnitPrice :: num
  r_balanceDue :: num
  r_balanceStatus :: balance_status
  r_razorpayOrderId :: "string option"
  r_razorpayPaymentId :: "string option"
  r_packingVideoUrl :: "string option"
  r_packedAt :: "int option"
  r_shippedAt :: "int option"
  r_deliveredAt :: "int option"
  r_trackingId :: "string option"
  r_carrierName :: "string option"
  r_deliveryProvider :: "string option"
  r_deliveryStatus :: "string option"
  r_trackingUrl :: "string option" \<comment> \<open>\<open>borzoTrackingUrl\<close>\<close>
  r_createdAt :: int
  r_invoiceNumber :: "string option" \<comment> \<open>unique\<close>

record buyer_rating_row =
  br_score :: num
  br_replacementCount :: int
  br_deliveredCount :: int

record seller_rating_row =
  sr_overall :: num
  sr_quality :: num
  sr_originality :: num
  sr_valueForMoney :: num

record override_log_row =
  ol_adminUserId :: string
  ol_entityType :: rating_entity
  ol_entityId :: string
  ol_field :: string
  ol_oldValue :: num
  ol_newValue :: num
  ol_reason :: "string option"

record qual_day_row =
  qd_sellerId :: string
  qd_date :: int
  qd_totalSeconds :: int
  qd_qualified :: bool

record mock_shipment =
  ms_createdAt :: int
  ms_lastPoll :: int
  ms_phase :: int

text \<open>A composed message: its plain text, and its attachments as file names with contents.\<close>

record letter =
  lt_from :: string
  lt_to :: string
  lt_subject :: string
  lt_text :: "string option"
  lt_replyTo :: "string option"
  lt_attachments :: "(string \<times> string) list"

datatype mail =
    MailToBuyer string string \<comment> \<open>address and subject\<close>
  | MailToSupport string
  | OrderPlacedMails string \<comment> \<open>the buyer and seller mails of a placed order\<close>
  | WelcomeMail string string role \<comment> \<open>address, first name, role\<close>
  | SellerApplicationMail string "string list" \<comment> \<open>the applicant's e-mail and category names\<close>
  | Sms "(string \<times> string) list" \<comment> \<open>the form fields posted to the SMS gateway\<close>
  | Push "string list" string string "(string \<times> string) list" \<comment> \<open>device tokens, title, body and data\<close>
  | Letter letter \<comment> \<open>a message handed to the mail provider\<close>
  | Emit string string json \<comment> \<open>a socket event: room, name and payload\<close>

text \<open>What the payment gateway was asked and accepted.\<close>

datatype gateway_call =
    GatewayOrder string int \<comment> \<open>order id and amount in paise\<close>
  | GatewayRefund string int \<comment> \<open>payment id and amount in paise\<close>

text \<open>What the media server was asked.\<close>

datatype media_call =
    CreateRoom string
  | DeleteRoom string
  | StartRecording string
  | StopRecording string

section \<open>The state\<close>

record world =
  clock :: int
  cache :: redis
  users :: "(string, user_row) table"
  buyers :: "(string, buyer_row) table"
  sellers :: "(string, seller_row) table"
  addresses :: "(string, address_row) table"
  products :: "(string, product_row) table"
  streams :: "(string, stream_row) table"
  orders :: "(string, order_row) table"
  failures :: "(string, failure_row) table" \<comment> \<open>keyed by the unique \<open>razorpayPaymentId\<close>\<close>
  replacements :: "(string, replacement_row) table"
  buyerRatings :: "(string, buyer_rating_row) table" \<comment> \<open>keyed by the unique \<open>buyerId\<close>\<close>
  sellerRatings :: "(string, seller_rating_row) table" \<comment> \<open>keyed by the unique \<open>sellerId\<close>\<close>
  overrideLogs :: "override_log_row list"
  qualDays :: "(string \<times> int, qual_day_row) table" \<comment> \<open>keyed by the unique \<open>(sellerId, date)\<close>\<close>
  shipments :: "(string, mock_shipment) table"
  outbox :: "mail list"
  gateway :: "gateway_call list"
  files :: "(string, string) table" \<comment> \<open>files under uploads/, by path\<close>
  categories :: "(string, category_row) table"
  follows :: "(string \<times> string, follow_row) table" \<comment> \<open>keyed by the unique \<open>(buyerId, sellerId)\<close>\<close>
  pushDevices :: "(string, push_device_row) table" \<comment> \<open>keyed by the unique \<open>fcmToken\<close>\<close>
  changeRequests :: "change_request_row list"
  notifications :: "(string, notification_row) table"
  faqs :: "faq_row list"
  tickets :: "ticket_row list"
  media :: "media_call list"

type_synonym 'a handler = "(world, 'a) action"

section \<open>Queries and writes\<close>

definition buyer_of_user :: "world \<Rightarrow> string \<Rightarrow> buyer_row option" where
  "buyer_of_user w uid = tfirst (\<lambda>b. b_userId b = uid) (buyers w)"

definition seller_of_user :: "world \<Rightarrow> string \<Rightarrow> seller_row option" where
  "seller_of_user w uid = tfirst (\<lambda>s1. s_userId s1 = uid) (sellers w)"

definition put_order :: "order_row \<Rightarrow> world \<Rightarrow> world" where
  "put_order o1 w = w\<lparr>orders := tput (o_id o1) o1 (orders w)\<rparr>"

definition upd_order :: "string \<Rightarrow> (order_row \<Rightarrow> order_row) \<Rightarrow> world \<Rightarrow> world" where
  "upd_order oid f w = w\<lparr>orders := tupd oid f (orders w)\<rparr>"

definition upd_product :: "string \<Rightarrow> (product_row \<Rightarrow> product_row) \<Rightarrow> world \<Rightarrow> world" where
  "upd_product pid f w = w\<lparr>products := tupd pid f (products w)\<rparr>"

definition upd_cache :: "(redis \<Rightarrow> redis) \<Rightarrow> world \<Rightarrow> world" where
  "upd_cache f w = w\<lparr>cache := f (cache w)\<rparr>"

definition send_mail :: "mail \<Rightarrow> world \<Rightarrow> world" where
  "send_mail m w = w\<lparr>outbox := outbox w @ [m]\<rparr>"

lemmas write_defs = put_order_def upd_order_def upd_product_def upd_cache_def send_mail_def

text \<open>\<open>order.items.some((item) => item.product.sellerId === seller.id)\<close>\<close>

definition item_seller :: "world \<Rightarrow> order_item_row \<Rightarrow> string option" where
  "item_seller w it = map_option p_sellerId (tget (products w) (oi_productId it))"

definition order_has_seller :: "world \<Rightarrow> order_row \<Rightarrow> string \<Rightarrow> bool" where
  "order_has_seller w o1 sid \<longleftrightarrow> list_ex (\<lambda>it. item_seller w it = Some sid) (o_items o1)"

text \<open>\<open>update\<close> of a row that does not exist is rejected by Prisma with code P2025.\<close>

definition missing_row :: exn where
  "missing_row = Crash ''P2025''"

text \<open>\<open>create\<close> of a row that violates a unique column or a primary key is rejected with code P2002.\<close>

definition db_create :: "(world \<Rightarrow> bool) \<Rightarrow> (world \<Rightarrow> world) \<Rightarrow> unit handler" where
  "db_create clash f =
     bind_act (reads clash) (\<lambda>c. if c then throw (Crash ''P2002'') else writes f)"

text \<open>A string is truthy when it is not empty; \<open>s?.trim()\<close> of an optional string.\<close>

definition truthy :: "string option \<Rightarrow> bool" where
  "truthy x = (case x of None \<Rightarrow> False | Some s \<Rightarrow> s \<noteq> [])"

definition opt_trim :: "string option \<Rightarrow> string option" where
  "opt_trim x = map_option trim x"

definition nonempty :: "string option \<Rightarrow> string option" where
  \<comment> \<open>\<open>s || undefined\<close>, \<open>s || null\<close>\<close>
  "nonempty x = (if truthy x then x else None)"

definition or_else :: "'a option \<Rightarrow> 'a option \<Rightarrow> 'a option" where
  \<comment> \<open>\<open>x ?? y\<close>\<close>
  "or_else x y = (case x of None \<Rightarrow> y | Some _ \<Rightarrow> x)"

definition MS_PER_HOUR :: int where "MS_PER_HOUR = 60 * 60 * 1000"
definition MS_PER_DAY :: int where "MS_PER_DAY = 24 * MS_PER_HOUR"

lemma wp_db_create [wp_simps]:
  "wp (db_create clash f) Q w = (if clash w then Q (Inl (Crash ''P2002'')) w else Q (Inr ()) (f w))"
  by (simp add: db_create_def wp_simps)

lemma keeps_db_create: "(\<And>w. P w \<Longrightarrow> \<not> clash w \<Longrightarrow> P (f w)) \<Longrightarrow> keeps P (db_create clash f)"
  by (simp add: keeps_def wp_simps)

lemma truthy_simps [simp]: "truthy None = False" "truthy (Some s) = (s \<noteq> [])"
  by (simp_all add: truthy_def)

lemma or_else_simps [simp]: "or_else None y = y" "or_else (Some x) y = Some x"
  by (simp_all add: or_else_def)

lemma truthy_Some: "truthy x \<Longrightarrow> \<exists>s. x = Some s \<and> s \<noteq> []"
  by (cases x) simp_all

end
