(* ===== verification/Cart.thy ===== *)
theory Cart
  imports World
begin

text \<open>
  The live-stream cart of \<open>OrdersService\<close> (src/orders/orders.service.ts): one cart per user in
  Redis, tied to one stream, which expires 24 hours after the stream ends, and an index of the
  users that hold a cart of a stream. A time stamp of the stored cart is the instant its ISO text
  denotes. \<open>setHours(getHours() + 24)\<close> is 24 hours on the clock of a host without daylight saving.
\<close>

section \<open>State\<close>

definition POST_LIVE_CART_HOURS :: int where "POST_LIVE_CART_HOURS = 24"

record cart_item =
  ci_productId :: string
  ci_quantity :: int
  ci_size :: "string option"
  ci_color :: "string option"
  ci_variantId :: "string option"
  ci_variantLabel :: "string option"

record cart_state =
  cs_items :: "cart_item list"
  cs_streamId :: "string option"
  cs_streamTitle :: "string option"
  cs_expiresAt :: "int option"
  cs_updatedAt :: "int option"

definition empty_cart :: cart_state where
  "empty_cart = \<lparr>cs_items = [], cs_streamId = None, cs_streamTitle = None, cs_expiresAt = None,
                 cs_updatedAt = None\<rparr>"

text \<open>\<open>JSON.stringify\<close> leaves out \<open>undefined\<close> properties.\<close>

definition cart_item_json :: "cart_item \<Rightarrow> json" where
  "cart_item_json i =
     JObj ([(''productId'', JStr (ci_productId i)), (''quantity'', JNum (of_int (ci_quantity i)))]
         @ opt_entry ''size'' (map_option JStr (ci_size i))
         @ opt_entry ''color'' (map_option JStr (ci_color i))
         @ opt_entry ''variantId'' (map_option JStr (ci_variantId i))
         @ opt_entry ''variantLabel'' (map_option JStr (ci_variantLabel i)))"

definition cart_json :: "cart_state \<Rightarrow> json" where
  "cart_json st =
     JObj ([(''items'', JArr (map cart_item_json (cs_items st)))]
         @ opt_entry ''streamId'' (map_option JStr (cs_streamId st))
         @ opt_entry ''streamTitle'' (map_option JStr (cs_streamTitle st))
         @ opt_entry ''cartExpiresAt'' (map_option (\<lambda>t. JNum (of_int t)) (cs_expiresAt st))
         @ opt_entry ''cartUpdatedAt'' (map_option (\<lambda>t. JNum (of_int t)) (cs_updatedAt st)))"

definition str_prop :: "json \<Rightarrow> string \<Rightarrow> string option" where
  "str_prop j k = (case get_prop j k of Some (JStr s) \<Rightarrow> Some s | _ \<Rightarrow> None)"

definition int_prop :: "json \<Rightarrow> string \<Rightarrow> int option" where
  "int_prop j k = (case get_prop j k of Some (JNum r) \<Rightarrow> Some \<lfloor>r\<rfloor> | _ \<Rightarrow> None)"

definition cart_item_of_json :: "json \<Rightarrow> cart_item" where
  "cart_item_of_json j =
     \<lparr>ci_productId = (case str_prop j ''productId'' of None \<Rightarrow> [] | Some s \<Rightarrow> s),
      ci_quantity = (case int_prop j ''quantity'' of None \<Rightarrow> 0 | Some n \<Rightarrow> n),
      ci_size = str_prop j ''size'', ci_color = str_prop j ''color'',
      ci_variantId = str_prop j ''variantId'', ci_variantLabel = str_prop j ''variantLabel''\<rparr>"

text \<open>The body of \<open>loadCartState\<close> after the read: an old format is a bare array of items.\<close>

definition cart_of_json :: "json \<Rightarrow> cart_state" where
  "cart_of_json j =
     (case j of
        JArr xs \<Rightarrow> empty_cart\<lparr>cs_items := map cart_item_of_json xs, cs_updatedAt := Some 0\<rparr>
      | _ \<Rightarrow> \<lparr>cs_items = (case get_prop j ''items'' of Some (JArr xs) \<Rightarrow> map cart_item_of_json xs | _ \<Rightarrow> []),
             cs_streamId = str_prop j ''streamId'', cs_streamTitle = str_prop j ''streamTitle'',
             cs_expiresAt = int_prop j ''cartExpiresAt'', cs_updatedAt = int_prop j ''cartUpdatedAt''\<rparr>)"

definition cartKey :: "string \<Rightarrow> string" where
  "cartKey uid = ''orders:cart:'' @ uid"

definition stored_cart :: "world \<Rightarrow> string \<Rightarrow> cart_state" where
  "stored_cart w uid =
     (case redis_get (clock w) (cache w) (cartKey uid) of
        None \<Rightarrow> empty_cart
      | Some v \<Rightarrow> (case json_parse v of None \<Rightarrow> empty_cart | Some j \<Rightarrow> cart_of_json j))"

definition loadCartState :: "string \<Rightarrow> cart_state handler" where
  "loadCartState uid = reads (\<lambda>w. stored_cart w uid)"

section \<open>Writing carts and the index of their holders\<close>

definition indexCartForStream :: "string \<Rightarrow> string option \<Rightarrow> unit handler" where
  "indexCartForStream uid sid =
     (if truthy sid
      then writes (\<lambda>w. upd_cache (redis_sadd (clock w) (streamCartHoldersKey (the sid)) uid) w)
      else ret ())"

definition unindexCartForStream :: "string \<Rightarrow> string option \<Rightarrow> unit handler" where
  "unindexCartForStream uid sid =
     (if truthy sid
      then writes (\<lambda>w. upd_cache (redis_srem (clock w) (streamCartHoldersKey (the sid)) uid) w)
      else ret ())"

definition clearCart :: "string \<Rightarrow> string option \<Rightarrow> unit handler" where
  "clearCart uid sid =
     seq_act (writes (upd_cache (redis_del (cartKey uid)))) (unindexCartForStream uid sid)"

definition computeExpiryFromEnd :: "int \<Rightarrow> int" where
  "computeExpiryFromEnd e = e + POST_LIVE_CART_HOURS * MS_PER_HOUR"

definition saveCartState :: "string \<Rightarrow> cart_state \<Rightarrow> nat option \<Rightarrow> unit handler" where
  "saveCartState uid st ttl =
     (if cs_items st = [] then clearCart uid (cs_streamId st)
      else seq_act
        (writes (\<lambda>w. upd_cache (redis_set (clock w) (cartKey uid)
            (JsonText (cart_json (st\<lparr>cs_updatedAt := Some (clock w)\<rparr>))) ttl) w))
        (indexCartForStream uid (cs_streamId st)))"

text \<open>The instant from which the 24 hours of a stream that is not live count.\<close>

definition effectiveEnd :: "stream_row \<Rightarrow> int" where
  "effectiveEnd s1 =
     (case or_else (st_endedAt s1) (or_else (st_sessionEndedAt s1) (st_startedAt s1)) of
        Some t \<Rightarrow> t | None \<Rightarrow> st_createdAt s1)"

section \<open>Expiry\<close>

definition enforceCartExpiry :: "string \<Rightarrow> cart_state \<Rightarrow> cart_state handler" where
  "enforceCartExpiry uid st =
     (if cs_items st = [] then ret empty_cart else
      bind_act (reads clock) (\<lambda>now.
      if (case cs_expiresAt st of None \<Rightarrow> False | Some e \<Rightarrow> e \<le> now)
      then seq_act (clearCart uid (cs_streamId st)) (ret empty_cart)
      else if \<not> truthy (cs_streamId st) then
        (let updatedAt = (case cs_updatedAt st of None \<Rightarrow> 0 | Some t \<Rightarrow> t)
         in if updatedAt = 0 \<or> updatedAt + POST_LIVE_CART_HOURS * MS_PER_HOUR \<le> now
            then seq_act (clearCart uid None) (ret empty_cart)
            else ret st)
      else
      bind_act (reads (\<lambda>w. tget (streams w) (the (cs_streamId st)))) (\<lambda>stream.
      case stream of
        None \<Rightarrow> seq_act (clearCart uid (cs_streamId st)) (ret empty_cart)
      | Some s1 \<Rightarrow>
          if st_isLive s1 then
            (let nxt = st\<lparr>cs_updatedAt := Some now\<rparr>
             in seq_act (saveCartState uid nxt None)
                (seq_act (indexCartForStream uid (cs_streamId st)) (ret nxt)))
          else
            (let expires = computeExpiryFromEnd (effectiveEnd s1);
                 ttlSeconds = (expires - now) div 1000
             in if ttlSeconds \<le> 0
                then seq_act (clearCart uid (cs_streamId st)) (ret empty_cart)
                else (let nxt = st\<lparr>cs_expiresAt := Some expires, cs_updatedAt := Some now\<rparr>
                      in seq_act (saveCartState uid nxt (Some (nat ttlSeconds)))
                         (seq_act (indexCartForStream uid (cs_streamId st)) (ret nxt)))))))"

definition loadCartForUser :: "string \<Rightarrow> cart_state handler" where
  "loadCartForUser uid = bind_act (loadCartState uid) (enforceCartExpiry uid)"

definition persistCartState :: "string \<Rightarrow> cart_state \<Rightarrow> unit handler" where
  "persistCartState uid st =
     (if cs_items st = [] then clearCart uid (cs_streamId st) else
      bind_act (enforceCartExpiry uid st) (\<lambda>enforced.
      if cs_items enforced = [] then ret () else
      case cs_expiresAt enforced of
        Some e \<Rightarrow> bind_act (reads clock) (\<lambda>now.
          saveCartState uid enforced (Some (nat (max 1 ((e - now) div 1000)))))
      | None \<Rightarrow> saveCartState uid enforced None))"

text \<open>When a stream ends: every indexed cart of the stream gets the 24-hour expiry.\<close>

definition refresh_holder :: "string \<Rightarrow> int \<Rightarrow> nat \<Rightarrow> string \<Rightarrow> unit handler" where
  "refresh_holder sid expires ttl uid =
     bind_act (loadCartState uid) (\<lambda>st.
     if cs_items st = [] \<or> cs_streamId st \<noteq> Some sid then unindexCartForStream uid (Some sid)
     else bind_act (reads clock) (\<lambda>now.
       saveCartState uid (st\<lparr>cs_expiresAt := Some expires, cs_updatedAt := Some now\<rparr>) (Some ttl)))"

definition onStreamEnded :: "string \<Rightarrow> int \<Rightarrow> unit handler" where
  "onStreamEnded sid endedAt =
     (let expires = computeExpiryFromEnd endedAt in
      bind_act (reads clock) (\<lambda>now.
      bind_act (reads (\<lambda>w. redis_smembers now (cache w) (streamCartHoldersKey sid))) (\<lambda>holders.
      for_each holders (refresh_holder sid expires (nat (max 1 ((expires - now) div 1000)))))))"

text \<open>
  The hourly sweep over the users whose cart key \<open>SCAN\<close> delivers, in its order and possibly
  repeated; the result counts the carts that were dropped.
\<close>

fun sweepAllCarts :: "string list \<Rightarrow> nat handler" where
  "sweepAllCarts [] = ret 0"
| "sweepAllCarts (uid # us) =
     bind_act (loadCartState uid) (\<lambda>before.
     if cs_items before = [] then sweepAllCarts us
     else bind_act (enforceCartExpiry uid before) (\<lambda>after.
       bind_act (sweepAllCarts us) (\<lambda>n. ret (if cs_items after = [] then Suc n else n))))"

section \<open>The cart as the buyer sees it\<close>

record cart_line =
  cl_item :: cart_item
  cl_name :: string
  cl_images :: "string list"
  cl_unitPrice :: num
  cl_amount :: num

record cart_view =
  cv_items :: "cart_line list"
  cv_subtotal :: num
  cv_shipping :: num
  cv_total :: num
  cv_streamId :: "string option"
  cv_streamTitle :: "string option"
  cv_checkoutExpiresAt :: "int option"
  cv_secondsRemaining :: int

definition empty_view :: cart_view where
  "empty_view = \<lparr>cv_items = [], cv_subtotal = 0, cv_shipping = 0, cv_total = 0, cv_streamId = None,
     cv_streamTitle = None, cv_checkoutExpiresAt = None, cv_secondsRemaining = 0\<rparr>"

text \<open>The unit price of a line: the variant's price when the product has variants.\<close>

definition line_price :: "product_row \<Rightarrow> string option \<Rightarrow> num option" where
  "line_price p vid =
     (if productHasVariantItems (p_variants p)
      then if \<not> truthy vid then None
           else map_option vi_sellingPrice (findVariantItem (p_variants p) (the vid))
      else Some (p_price p))"

definition normalize_line :: "world \<Rightarrow> cart_item \<Rightarrow> cart_line option" where
  "normalize_line w i =
     (case tget (products w) (ci_productId i) of
        None \<Rightarrow> None
      | Some p \<Rightarrow> map_option (\<lambda>price.
          \<lparr>cl_item = i, cl_name = p_name p, cl_images = p_images p, cl_unitPrice = price,
           cl_amount = nmul price (of_int (ci_quantity i))\<rparr>) (line_price p (ci_variantId i)))"

definition lines_subtotal :: "cart_line list \<Rightarrow> num" where
  "lines_subtotal ls = foldl (\<lambda>sum l. nadd sum (cl_amount l)) 0 ls"

definition seconds_until :: "int \<Rightarrow> int \<Rightarrow> int" where
  "seconds_until now e = max 0 ((e - now) div 1000)"

definition cart_view_of :: "world \<Rightarrow> cart_state \<Rightarrow> int option \<Rightarrow> int \<Rightarrow> cart_view" where
  "cart_view_of w st expiresAt remaining =
     (let ls = List.map_filter (normalize_line w) (cs_items st); sub = lines_subtotal ls;
          ship = (if 0 < sub then 90 else 0)
      in \<lparr>cv_items = ls, cv_subtotal = sub, cv_shipping = ship, cv_total = nadd sub ship,
          cv_streamId = cs_streamId st, cv_streamTitle = nonempty (opt_trim (cs_streamTitle st)),
          cv_checkoutExpiresAt = expiresAt, cv_secondsRemaining = remaining\<rparr>)"

definition getCart :: "string \<Rightarrow> cart_view handler" where
  "getCart uid =
     bind_act (loadCartForUser uid) (\<lambda>st.
     if cs_items st = [] then ret empty_view else
     bind_act (reads clock) (\<lambda>now.
     case cs_expiresAt st of
       Some e \<Rightarrow>
         if seconds_until now e \<le> 0
         then seq_act (clearCart uid (cs_streamId st)) (ret empty_view)
         else reads (\<lambda>w. cart_view_of w st (Some e) (seconds_until now e))
     | None \<Rightarrow>
         if truthy (cs_streamId st)
         then reads (\<lambda>w. case tget (streams w) (the (cs_streamId st)) of
             Some s1 \<Rightarrow> if st_isLive s1 then cart_view_of w st None 0
               else (let e = computeExpiryFromEnd (effectiveEnd s1)
                     in cart_view_of w st (Some e) (seconds_until now e))
           | None \<Rightarrow> cart_view_of w st None 0)
         else reads (\<lambda>w. cart_view_of w st None 0)))"

section \<open>Changing the cart\<close>

record cart_dto =
  cd_item :: cart_item
  cd_streamId :: "string option"
  cd_streamTitle :: "string option"

text \<open>The trimmed variant id, empty when there is none; a line is identified by product and this key.\<close>

definition variant_key :: "string option \<Rightarrow> string" where
  "variant_key v = (case opt_trim v of None \<Rightarrow> [] | Some s \<Rightarrow> s)"

definition line_key :: "cart_item \<Rightarrow> string \<times> string" where
  "line_key i = (ci_productId i, variant_key (ci_variantId i))"

fun replace_line :: "string \<times> string \<Rightarrow> (cart_item \<Rightarrow> cart_item) \<Rightarrow> cart_item list \<Rightarrow> cart_item list" where
  \<comment> \<open>change the first line with the key (\<open>findIndex\<close>)\<close>
  "replace_line k f [] = []"
| "replace_line k f (i # is) = (if line_key i = k then f i # is else i # replace_line k f is)"

definition has_line :: "string \<times> string \<Rightarrow> cart_item list \<Rightarrow> bool" where
  "has_line k is \<longleftrightarrow> list_ex (\<lambda>i. line_key i = k) is"

definition put_line :: "cart_item \<Rightarrow> cart_item list \<Rightarrow> cart_item list" where
  "put_line d is =
     (let k = line_key d;
          new = d\<lparr>ci_variantId := opt_trim (ci_variantId d), ci_variantLabel := opt_trim (ci_variantLabel d)\<rparr>
      in if has_line k is
         then replace_line k (\<lambda>i. new\<lparr>ci_productId := ci_productId i\<rparr>) is
         else is @ [new])"

text \<open>The stock test of \<open>addCartItem\<close>; it looks the variant up by the id as sent, not trimmed.\<close>

definition check_add_stock :: "product_row \<Rightarrow> cart_item \<Rightarrow> exn + unit" where
  "check_add_stock p d =
     (if productHasVariantItems (p_variants p) then
        if \<not> truthy (opt_trim (ci_variantId d))
        then Inl (BadRequest ''variantId is required for this product'')
        else case findVariantItem (p_variants p) (the (ci_variantId d)) of
               None \<Rightarrow> Inl (BadRequest ''Invalid variant'')
             | Some v \<Rightarrow> if vi_stock v < ci_quantity d
                 then Inl (BadRequest ''Requested quantity exceeds available stock'') else Inr ()
      else if p_stock p < ci_quantity d
        then Inl (BadRequest ''Requested quantity exceeds available stock'') else Inr ())"

definition addCartItem :: "string \<Rightarrow> cart_dto \<Rightarrow> cart_view handler" where
  "addCartItem uid d =
     bind_act (reads (\<lambda>w. tget (products w) (ci_productId (cd_item d)))) (\<lambda>product.
     case product of None \<Rightarrow> throw (NotFound ''Product not found'') | Some p \<Rightarrow>
     seq_act (lift_res (check_add_stock p (cd_item d))) (
     bind_act (loadCartForUser uid) (\<lambda>st.
     if cs_items st = [] \<and> \<not> truthy (cd_streamId d)
     then throw (BadRequest ''streamId is required - add products from a live stream.'')
     else if truthy (cs_streamId st) \<and> truthy (cd_streamId d) \<and> cd_streamId d \<noteq> cs_streamId st
     then throw (BadRequest ''Cart is tied to a different live stream. Clear the cart first.'')
     else seq_act
       (persistCartState uid
         \<lparr>cs_items = put_line (cd_item d) (cs_items st),
          cs_streamId = or_else (cs_streamId st) (cd_streamId d),
          cs_streamTitle = (if truthy (opt_trim (cs_streamTitle st)) then opt_trim (cs_streamTitle st)
                            else nonempty (opt_trim (cd_streamTitle d))),
          cs_expiresAt = None, cs_updatedAt = None\<rparr>)
       (getCart uid))))"

definition updateCartItem :: "string \<Rightarrow> string \<Rightarrow> int \<Rightarrow> string option \<Rightarrow> cart_view handler" where
  "updateCartItem uid pid quantity vid =
     bind_act (loadCartForUser uid) (\<lambda>st.
     let k = (pid, variant_key vid) in
     if \<not> has_line k (cs_items st) then throw (NotFound ''Item not found in cart'')
     else seq_act
       (persistCartState uid
         (st\<lparr>cs_items := replace_line k (\<lambda>i. i\<lparr>ci_quantity := quantity\<rparr>) (cs_items st),
             cs_updatedAt := None\<rparr>))
       (getCart uid))"

definition removeCartItem :: "string \<Rightarrow> string \<Rightarrow> string option \<Rightarrow> cart_view handler" where
  "removeCartItem uid pid vid =
     bind_act (loadCartForUser uid) (\<lambda>st.
     let nxt = filter (\<lambda>i. line_key i \<noteq> (pid, variant_key vid)) (cs_items st)
     in seq_act
       (persistCartState uid
         (if nxt \<noteq> [] then st\<lparr>cs_items := nxt, cs_updatedAt := None\<rparr> else empty_cart))
       (getCart uid))"

section \<open>Stored carts read back\<close>

lemma cart_item_json_roundtrip [simp]: "cart_item_of_json (cart_item_json i) = i"
proof (cases i)
  case (fields p q s1 c v l)
  then show ?thesis
    by (cases s1; cases c; cases v; cases l)
      (simp_all add: cart_item_of_json_def cart_item_json_def str_prop_def int_prop_def opt_entry_def)
qed

lemma cart_json_roundtrip [simp]: "cart_of_json (cart_json st) = st"
proof (cases st)
  case (fields xs s1 t e u)
  then show ?thesis
    by (cases s1; cases t; cases e; cases u)
      (simp_all add: cart_of_json_def cart_json_def str_prop_def int_prop_def comp_def opt_entry_def)
qed

lemma cartKey_inj [simp]: "cartKey u = cartKey v \<longleftrightarrow> u = v"
  by (simp add: cartKey_def)

lemma cartKey_holders [simp]: "cartKey u \<noteq> streamCartHoldersKey s" "streamCartHoldersKey s \<noteq> cartKey u"
  by (simp_all add: cartKey_def streamCartHoldersKey_def)

lemma streamCartHoldersKey_inj [simp]: "streamCartHoldersKey s = streamCartHoldersKey t \<longleftrightarrow> s = t"
  by (simp add: streamCartHoldersKey_def)

lemma empty_cart_simps [simp]: "cs_items empty_cart = []" "cs_streamId empty_cart = None"
  by (simp_all add: empty_cart_def)

section \<open>The cart handlers as functions on the state\<close>

text \<open>
  None of the cart's own writes can throw, so each handler is a state function; the operations of
  orders and payments are reasoned about through these.
\<close>

definition index_w :: "string \<Rightarrow> string option \<Rightarrow> world \<Rightarrow> world" where
  "index_w uid sid w =
     (if truthy sid then upd_cache (redis_sadd (clock w) (streamCartHoldersKey (the sid)) uid) w else w)"

definition unindex_w :: "string \<Rightarrow> string option \<Rightarrow> world \<Rightarrow> world" where
  "unindex_w uid sid w =
     (if truthy sid then upd_cache (redis_srem (clock w) (streamCartHoldersKey (the sid)) uid) w else w)"

definition clear_w :: "string \<Rightarrow> string option \<Rightarrow> world \<Rightarrow> world" where
  "clear_w uid sid w = unindex_w uid sid (upd_cache (redis_del (cartKey uid)) w)"

definition save_w :: "string \<Rightarrow> cart_state \<Rightarrow> nat option \<Rightarrow> world \<Rightarrow> world" where
  "save_w uid st ttl w =
     (if cs_items st = [] then clear_w uid (cs_streamId st) w
      else index_w uid (cs_streamId st) (upd_cache (redis_set (clock w) (cartKey uid)
             (JsonText (cart_json (st\<lparr>cs_updatedAt := Some (clock w)\<rparr>))) ttl) w))"

text \<open>
  The abstract rule of the cart's life: it lives while it has lines, its stored expiry lies ahead
  and its stream is live or ended less than 24 hours (counted in whole seconds) ago; a cart without
  a stream lives for 24 hours after its last write.
\<close>

definition cart_alive :: "world \<Rightarrow> cart_state \<Rightarrow> bool" where
  "cart_alive w st \<longleftrightarrow>
     cs_items st \<noteq> [] \<and>
     (\<forall>e. cs_expiresAt st = Some e \<longrightarrow> clock w < e) \<and>
     (if truthy (cs_streamId st)
      then (\<exists>s1. tget (streams w) (the (cs_streamId st)) = Some s1 \<and>
             (st_isLive s1 \<or> 1000 \<le> computeExpiryFromEnd (effectiveEnd s1) - clock w))
      else (\<exists>t. cs_updatedAt st = Some t \<and> t \<noteq> 0 \<and> clock w < t + POST_LIVE_CART_HOURS * MS_PER_HOUR))"

definition enforced :: "world \<Rightarrow> cart_state \<Rightarrow> cart_state" where
  "enforced w st =
     (if \<not> cart_alive w st then empty_cart
      else if \<not> truthy (cs_streamId st) then st
      else case tget (streams w) (the (cs_streamId st)) of
             None \<Rightarrow> empty_cart
           | Some s1 \<Rightarrow>
               if st_isLive s1 then st\<lparr>cs_updatedAt := Some (clock w)\<rparr>
               else st\<lparr>cs_expiresAt := Some (computeExpiryFromEnd (effectiveEnd s1)),
                       cs_updatedAt := Some (clock w)\<rparr>)"

definition enforce_ttl :: "world \<Rightarrow> cart_state \<Rightarrow> nat option" where
  "enforce_ttl w st =
     (case tget (streams w) (the (cs_streamId st)) of
        None \<Rightarrow> None
      | Some s1 \<Rightarrow> if st_isLive s1 then None
          else Some (nat ((computeExpiryFromEnd (effectiveEnd s1) - clock w) div 1000)))"

definition enforce_w :: "string \<Rightarrow> cart_state \<Rightarrow> world \<Rightarrow> world" where
  "enforce_w uid st w =
     (if cs_items st = [] then w
      else if \<not> cart_alive w st
      then clear_w uid (if truthy (cs_streamId st) then cs_streamId st
                        else if (\<exists>e. cs_expiresAt st = Some e \<and> e \<le> clock w) then cs_streamId st else None) w
      else if \<not> truthy (cs_streamId st) then w
      else index_w uid (cs_streamId st) (save_w uid (enforced w st) (enforce_ttl w st) w))"

lemma wp_index [wp_simps]: "wp (indexCartForStream uid sid) Q w = Q (Inr ()) (index_w uid sid w)"
  by (simp add: indexCartForStream_def index_w_def wp_simps)

lemma wp_unindex [wp_simps]: "wp (unindexCartForStream uid sid) Q w = Q (Inr ()) (unindex_w uid sid w)"
  by (simp add: unindexCartForStream_def unindex_w_def wp_simps)

lemma wp_clearCart [wp_simps]: "wp (clearCart uid sid) Q w = Q (Inr ()) (clear_w uid sid w)"
  by (simp add: clearCart_def clear_w_def wp_simps)

lemma clock_writes [simp]:
  "clock (upd_cache f w) = clock w" "clock (index_w u s w) = clock w" "clock (unindex_w u s w) = clock w"
  "clock (clear_w u s w) = clock w" "clock (save_w u st ttl w) = clock w"
  by (simp_all add: upd_cache_def index_w_def unindex_w_def clear_w_def save_w_def)

lemma wp_saveCartState [wp_simps]: "wp (saveCartState uid st ttl) Q w = Q (Inr ()) (save_w uid st ttl w)"
  by (simp add: saveCartState_def save_w_def wp_simps)

lemma wp_loadCartState [wp_simps]: "wp (loadCartState uid) Q w = Q (Inr (stored_cart w uid)) w"
  by (simp add: loadCartState_def wp_simps)

lemma floor_seconds_le0: "x div 1000 \<le> 0 \<longleftrightarrow> \<not> 1000 \<le> x" for x :: int
  using zdiv_mono1[of 1000 x 1000] zdiv_mono1[of x 999 1000] by (auto simp: not_le)

definition expired_stamp :: "int \<Rightarrow> cart_state \<Rightarrow> bool" where
  "expired_stamp now st = (case cs_expiresAt st of None \<Rightarrow> False | Some e \<Rightarrow> e \<le> now)"

lemma not_expired_stamp: "\<not> expired_stamp now st \<longleftrightarrow> (\<forall>e. cs_expiresAt st = Some e \<longrightarrow> now < e)"
  by (auto simp: expired_stamp_def split: option.splits)

lemma expired_stamp_ex: "expired_stamp now st \<longleftrightarrow> (\<exists>e. cs_expiresAt st = Some e \<and> e \<le> now)"
  by (auto simp: expired_stamp_def split: option.splits)

lemmas enforce_unfold = enforceCartExpiry_def enforced_def enforce_w_def cart_alive_def
  expired_stamp_def[symmetric] expired_stamp_ex[symmetric] not_expired_stamp[symmetric]

lemma wp_enforceCartExpiry [wp_simps]:
  "wp (enforceCartExpiry uid st) Q w = Q (Inr (enforced w st)) (enforce_w uid st w)"
proof -
  consider (none) "cs_items st = []"
    | (late) "cs_items st \<noteq> []" "expired_stamp (clock w) st"
    | (legacy) "cs_items st \<noteq> []" "\<not> expired_stamp (clock w) st" "\<not> truthy (cs_streamId st)"
    | (gone) "cs_items st \<noteq> []" "\<not> expired_stamp (clock w) st" "truthy (cs_streamId st)"
        "tget (streams w) (the (cs_streamId st)) = None"
    | (live) s1 where "cs_items st \<noteq> []" "\<not> expired_stamp (clock w) st" "truthy (cs_streamId st)"
        "tget (streams w) (the (cs_streamId st)) = Some s1" "st_isLive s1"
    | (ended) s1 where "cs_items st \<noteq> []" "\<not> expired_stamp (clock w) st" "truthy (cs_streamId st)"
        "tget (streams w) (the (cs_streamId st)) = Some s1" "\<not> st_isLive s1"
    by blast
  then show ?thesis
  proof cases
    case none
    then show ?thesis by (simp add: enforce_unfold wp_simps)
  next
    case late
    then show ?thesis by (simp add: enforce_unfold wp_simps)
  next
    case legacy
    then show ?thesis
      by (cases "cs_updatedAt st") (simp_all add: enforce_unfold wp_simps Let_def not_less not_le)
  next
    case gone
    then show ?thesis by (simp add: enforce_unfold wp_simps)
  next
    case live
    then show ?thesis by (simp add: enforce_unfold wp_simps enforce_ttl_def Let_def)
  next
    case ended
    then show ?thesis
      by (cases "1000 \<le> computeExpiryFromEnd (effectiveEnd s1) - clock w")
        (simp_all add: enforce_unfold wp_simps enforce_ttl_def Let_def floor_seconds_le0)
  qed
qed

section \<open>What the writes do to the stored carts and to the index\<close>

definition holders :: "world \<Rightarrow> string \<Rightarrow> string set" where
  "holders w sid = set (redis_smembers (clock w) (cache w) (streamCartHoldersKey sid))"

lemma cache_upd [simp]: "cache (upd_cache f w) = f (cache w)"
  by (simp add: upd_cache_def)

lemma stored_cart_index [simp]: "stored_cart (index_w u s w) v = stored_cart w v"
  by (simp add: stored_cart_def index_w_def)

lemma stored_cart_unindex [simp]: "stored_cart (unindex_w u s w) v = stored_cart w v"
  by (simp add: stored_cart_def unindex_w_def)

lemma stored_cart_clear [simp]: "stored_cart (clear_w u s w) v = (if v = u then empty_cart else stored_cart w v)"
  by (simp add: clear_w_def) (simp add: stored_cart_def)

lemma stored_cart_save [simp]:
  "stored_cart (save_w u st ttl w) v =
     (if v = u then if cs_items st = [] then empty_cart else st\<lparr>cs_updatedAt := Some (clock w)\<rparr>
      else stored_cart w v)"
  by (simp add: save_w_def) (simp add: stored_cart_def json_parse_def)

lemma holders_index [simp]:
  "holders (index_w u s w) t = (if truthy s \<and> the s = t then insert u (holders w t) else holders w t)"
  by (auto simp: holders_def index_w_def)

lemma holders_unindex [simp]:
  "holders (unindex_w u s w) t = (if truthy s \<and> the s = t then holders w t - {u} else holders w t)"
  by (auto simp: holders_def unindex_w_def)

lemma holders_clear [simp]:
  "holders (clear_w u s w) t = (if truthy s \<and> the s = t then holders w t - {u} else holders w t)"
  by (simp add: clear_w_def) (simp add: holders_def smembers_del)

lemma holders_save [simp]:
  "holders (save_w u st ttl w) t =
     (if truthy (cs_streamId st) \<and> the (cs_streamId st) = t
      then (if cs_items st = [] then holders w t - {u} else insert u (holders w t)) else holders w t)"
  by (simp add: save_w_def) (simp add: holders_def)

definition cart_indexed :: "world \<Rightarrow> string \<Rightarrow> bool" where
  "cart_indexed w uid \<longleftrightarrow>
     (cs_items (stored_cart w uid) \<noteq> [] \<and> truthy (cs_streamId (stored_cart w uid)) \<longrightarrow>
      uid \<in> holders w (the (cs_streamId (stored_cart w uid))))"

definition carts_indexed :: "world \<Rightarrow> bool" where
  "carts_indexed w \<longleftrightarrow> (\<forall>uid. cart_indexed w uid)"

lemma carts_indexed_clear: "carts_indexed w \<Longrightarrow> carts_indexed (clear_w u s w)"
  by (auto simp: carts_indexed_def cart_indexed_def)

lemma carts_indexed_index: "carts_indexed w \<Longrightarrow> carts_indexed (index_w u s w)"
  by (auto simp: carts_indexed_def cart_indexed_def)

lemma carts_indexed_save: "carts_indexed w \<Longrightarrow> carts_indexed (save_w u st ttl w)"
  by (auto simp: carts_indexed_def cart_indexed_def)

lemma carts_indexed_unindex:
  "carts_indexed w \<Longrightarrow> cs_items (stored_cart w u) = [] \<or> cs_streamId (stored_cart w u) \<noteq> s \<Longrightarrow>
   carts_indexed (unindex_w u s w)"
  by (auto simp: carts_indexed_def cart_indexed_def truthy_def split: option.splits)

lemma carts_indexed_enforce: "carts_indexed w \<Longrightarrow> carts_indexed (enforce_w u st w)"
  by (simp add: enforce_w_def carts_indexed_clear carts_indexed_save carts_indexed_index)

lemmas carts_indexed_steps =
  carts_indexed_clear carts_indexed_index carts_indexed_save carts_indexed_enforce

section \<open>The remaining handlers as functions\<close>

definition persist_w :: "string \<Rightarrow> cart_state \<Rightarrow> world \<Rightarrow> world" where
  "persist_w uid st w =
     (if cs_items st = [] then clear_w uid (cs_streamId st) w
      else if cs_items (enforced w st) = [] then enforce_w uid st w
      else save_w uid (enforced w st)
        (map_option (\<lambda>e. nat (max 1 ((e - clock w) div 1000))) (cs_expiresAt (enforced w st)))
        (enforce_w uid st w))"

lemma clock_enforce [simp]: "clock (enforce_w u st w) = clock w"
  by (simp add: enforce_w_def)

lemma wp_loadCartForUser [wp_simps]:
  "wp (loadCartForUser uid) Q w =
     Q (Inr (enforced w (stored_cart w uid))) (enforce_w uid (stored_cart w uid) w)"
  by (simp add: loadCartForUser_def wp_simps)

lemma wp_persistCartState [wp_simps]: "wp (persistCartState uid st) Q w = Q (Inr ()) (persist_w uid st w)"
  by (simp add: persistCartState_def persist_w_def wp_simps split: option.split)

lemma clock_persist [simp]: "clock (persist_w u st w) = clock w"
  by (simp add: persist_w_def)

lemma carts_indexed_persist: "carts_indexed w \<Longrightarrow> carts_indexed (persist_w u st w)"
  by (simp add: persist_w_def carts_indexed_steps)

definition view_expiry :: "world \<Rightarrow> cart_state \<Rightarrow> int option" where
  "view_expiry w st =
     (case cs_expiresAt st of Some e \<Rightarrow> Some e
      | None \<Rightarrow> if truthy (cs_streamId st)
          then (case tget (streams w) (the (cs_streamId st)) of
                  Some s1 \<Rightarrow> if st_isLive s1 then None else Some (computeExpiryFromEnd (effectiveEnd s1))
                | None \<Rightarrow> None)
          else None)"

definition view_of :: "world \<Rightarrow> cart_state \<Rightarrow> cart_view" where
  "view_of w st = cart_view_of w st (view_expiry w st)
     (case view_expiry w st of None \<Rightarrow> 0 | Some e \<Rightarrow> seconds_until (clock w) e)"

text \<open>\<open>getCart\<close> after the expiry check: the last seconds of a cart may round down to none.\<close>

definition getCart_w :: "string \<Rightarrow> world \<Rightarrow> world" where
  "getCart_w uid w =
     (let st = enforced w (stored_cart w uid); w1 = enforce_w uid (stored_cart w uid) w
      in if cs_items st \<noteq> [] \<and> (\<exists>e. cs_expiresAt st = Some e \<and> e - clock w < 1000)
         then clear_w uid (cs_streamId st) w1 else w1)"

definition cart_of :: "world \<Rightarrow> string \<Rightarrow> cart_view" where
  "cart_of w uid =
     (let st = enforced w (stored_cart w uid)
      in if cs_items st = [] \<or> (\<exists>e. cs_expiresAt st = Some e \<and> e - clock w < 1000)
         then empty_view else view_of w st)"

lemma products_streams_writes [simp]:
  "products (upd_cache f w) = products w" "streams (upd_cache f w) = streams w"
  "products (enforce_w u st w) = products w" "streams (enforce_w u st w) = streams w"
  "products (clear_w u s w) = products w" "streams (clear_w u s w) = streams w"
  by (simp_all add: upd_cache_def enforce_w_def clear_w_def unindex_w_def index_w_def save_w_def)

lemma normalize_line_cong: "products w' = products w \<Longrightarrow> normalize_line w' = normalize_line w"
  by (rule ext) (simp add: normalize_line_def)

lemma cart_view_of_cong: "products w' = products w \<Longrightarrow> cart_view_of w' = cart_view_of w"
  by (intro ext) (simp add: cart_view_of_def normalize_line_cong[of w' w])

lemma view_of_cong:
  "clock w' = clock w \<Longrightarrow> products w' = products w \<Longrightarrow> streams w' = streams w \<Longrightarrow> view_of w' = view_of w"
  by (rule ext) (simp add: view_of_def view_expiry_def cart_view_of_cong[of w' w] cong: option.case_cong)

lemma seconds_until_le0: "seconds_until now e \<le> 0 \<longleftrightarrow> e - now < 1000"
  using floor_seconds_le0[of "e - now"] by (auto simp: seconds_until_def max_def)

lemma wp_getCart [wp_simps]: "wp (getCart uid) Q w = Q (Inr (cart_of w uid)) (getCart_w uid w)"
proof -
  let ?st = "enforced w (stored_cart w uid)"
  show ?thesis
    by (cases "cs_expiresAt ?st"; cases "truthy (cs_streamId ?st)";
        cases "tget (streams w) (the (cs_streamId ?st))")
      (simp_all add: getCart_def wp_simps cart_of_def getCart_w_def Let_def view_of_def view_expiry_def
        seconds_until_le0 cart_view_of_cong[where w' = "enforce_w uid (stored_cart w uid) w" and w = w] not_less)
qed

lemma carts_indexed_getCart: "carts_indexed w \<Longrightarrow> carts_indexed (getCart_w u w)"
  by (simp add: getCart_w_def Let_def carts_indexed_steps)

section \<open>When a stream ends\<close>

definition refresh_w :: "string \<Rightarrow> int \<Rightarrow> nat \<Rightarrow> string \<Rightarrow> world \<Rightarrow> world" where
  "refresh_w sid expires ttl uid w =
     (let st = stored_cart w uid
      in if cs_items st = [] \<or> cs_streamId st \<noteq> Some sid then unindex_w uid (Some sid) w
         else save_w uid (st\<lparr>cs_expiresAt := Some expires, cs_updatedAt := Some (clock w)\<rparr>) (Some ttl) w)"

lemma wp_refresh_holder [wp_simps]:
  "wp (refresh_holder sid expires ttl uid) Q w = Q (Inr ()) (refresh_w sid expires ttl uid w)"
  by (simp add: refresh_holder_def refresh_w_def wp_simps Let_def)

definition stream_end_w :: "string \<Rightarrow> int \<Rightarrow> world \<Rightarrow> world" where
  "stream_end_w sid endedAt w =
     fold (refresh_w sid (computeExpiryFromEnd endedAt)
             (nat (max 1 ((computeExpiryFromEnd endedAt - clock w) div 1000))))
       (redis_smembers (clock w) (cache w) (streamCartHoldersKey sid)) w"

lemma wp_onStreamEnded [wp_simps]:
  "wp (onStreamEnded sid endedAt) Q w = Q (Inr ()) (stream_end_w sid endedAt w)"
  by (simp add: onStreamEnded_def stream_end_w_def wp_simps Let_def wp_for_each_fold[OF wp_refresh_holder])

text \<open>\<open>dead_by t w uid\<close>: whatever is stored for the user now, nothing is readable from \<open>t\<close> on.\<close>

definition dead_by :: "int \<Rightarrow> world \<Rightarrow> string \<Rightarrow> bool" where
  "dead_by t w uid \<longleftrightarrow> (\<forall>later \<ge> t. redis_get later (cache w) (cartKey uid) = None)"

lemma clock_refresh [simp]: "clock (refresh_w sid e ttl u w) = clock w"
  by (simp add: refresh_w_def Let_def)

lemma get_unindex [simp]: "redis_get t (cache (unindex_w u s w)) k = redis_get t (cache w) k"
  by (simp add: unindex_w_def)

lemma redis_get_set_other: "j \<noteq> k \<Longrightarrow> redis_get t (redis_set now k v ttl r) j = redis_get t r j"
  by (cases ttl) (simp_all add: redis_get_def redis_set_def)

lemma get_save_other: "v \<noteq> u \<Longrightarrow> redis_get t (cache (save_w u st ttl w)) (cartKey v) = redis_get t (cache w) (cartKey v)"
  by (simp add: save_w_def clear_w_def index_w_def redis_get_set_other)

lemma get_save_self:
  "cs_items st \<noteq> [] \<Longrightarrow> ttl \<noteq> 0 \<Longrightarrow> clock w + 1000 * int ttl \<le> later \<Longrightarrow>
   redis_get later (cache (save_w u st (Some ttl) w)) (cartKey u) = None"
  by (simp add: save_w_def index_w_def redis_get_after)

lemma refresh_w_other:
  "v \<noteq> u \<Longrightarrow> redis_get t (cache (refresh_w sid e ttl u w)) (cartKey v) = redis_get t (cache w) (cartKey v)"
  by (simp add: refresh_w_def Let_def get_save_other)

lemma stored_cart_refresh_other: "v \<noteq> u \<Longrightarrow> stored_cart (refresh_w sid e ttl u w) v = stored_cart w v"
  by (simp add: refresh_w_def Let_def)

lemma dead_by_refresh:
  "ttl \<noteq> 0 \<Longrightarrow> clock w + 1000 * int ttl \<le> t \<Longrightarrow> dead_by t w v \<Longrightarrow> dead_by t (refresh_w sid e ttl u w) v"
  by (cases "v = u") (auto simp: dead_by_def refresh_w_other, auto simp: refresh_w_def Let_def get_save_self)

lemma dead_by_refresh_self:
  "ttl \<noteq> 0 \<Longrightarrow> clock w + 1000 * int ttl \<le> t \<Longrightarrow> cs_items (stored_cart w u) \<noteq> [] \<Longrightarrow>
   cs_streamId (stored_cart w u) = Some sid \<Longrightarrow> dead_by t (refresh_w sid e ttl u w) u"
  by (auto simp: dead_by_def refresh_w_def Let_def get_save_self)

lemma dead_by_fold_keep:
  "ttl \<noteq> 0 \<Longrightarrow> clock w + 1000 * int ttl \<le> t \<Longrightarrow> dead_by t w v \<Longrightarrow>
   dead_by t (fold (refresh_w sid e ttl) us w) v"
  by (induction us arbitrary: w) (simp_all add: dead_by_refresh)

lemma dead_by_fold:
  "ttl \<noteq> 0 \<Longrightarrow> clock w + 1000 * int ttl \<le> t \<Longrightarrow> v \<in> set us \<Longrightarrow> cs_items (stored_cart w v) \<noteq> [] \<Longrightarrow>
   cs_streamId (stored_cart w v) = Some sid \<Longrightarrow> dead_by t (fold (refresh_w sid e ttl) us w) v"
proof (induction us arbitrary: w)
  case (Cons u us)
  then show ?case
    by (cases "v = u") (simp_all add: dead_by_fold_keep dead_by_refresh_self stored_cart_refresh_other)
qed simp

lemma seconds_bound: "1000 * int (nat (max 1 (x div 1000))) \<le> max 1000 x" for x :: int
  by (simp add: max_def) linarith

lemma stream_end_dead:
  assumes idx: "carts_indexed w" and sid: "sid \<noteq> []"
    and cart: "cs_items (stored_cart w uid) \<noteq> []" "cs_streamId (stored_cart w uid) = Some sid"
  shows "dead_by (max (computeExpiryFromEnd endedAt) (clock w + 1000)) (stream_end_w sid endedAt w) uid"
proof -
  have "uid \<in> set (redis_smembers (clock w) (cache w) (streamCartHoldersKey sid))"
    using idx cart sid by (auto simp: carts_indexed_def cart_indexed_def holders_def)
  then show ?thesis
    unfolding stream_end_w_def using cart
    by (intro dead_by_fold) (use seconds_bound[of "computeExpiryFromEnd endedAt - clock w"] in \<open>auto\<close>)
qed

lemma carts_indexed_refresh: "carts_indexed w \<Longrightarrow> carts_indexed (refresh_w sid e ttl u w)"
  by (auto simp: refresh_w_def Let_def carts_indexed_save intro!: carts_indexed_unindex)

lemma carts_indexed_stream_end: "carts_indexed w \<Longrightarrow> carts_indexed (stream_end_w sid e w)"
proof -
  have "carts_indexed w \<Longrightarrow> carts_indexed (fold (refresh_w sid x ttl) us w)" for us x ttl w
    by (induction us arbitrary: w) (simp_all add: carts_indexed_refresh)
  then show "carts_indexed w \<Longrightarrow> carts_indexed (stream_end_w sid e w)" by (simp add: stream_end_w_def)
qed

section \<open>One line per product and variant\<close>

definition cart_lines_ok :: "cart_state \<Rightarrow> bool" where
  "cart_lines_ok st \<longleftrightarrow> distinct (map line_key (cs_items st)) \<and> (\<forall>i \<in> set (cs_items st). 1 \<le> ci_quantity i)"

definition carts_ok :: "world \<Rightarrow> bool" where
  "carts_ok w \<longleftrightarrow> (\<forall>uid. cart_lines_ok (stored_cart w uid))"

lemma variant_key_trim [simp]: "variant_key (opt_trim v) = variant_key v"
  by (simp add: variant_key_def opt_trim_def split: option.split)

lemma line_keys_replace [simp]:
  "(\<And>i. line_key (f i) = line_key i) \<Longrightarrow> map line_key (replace_line k f is) = map line_key is"
  by (induction "is") auto

lemma line_keys_replace_to:
  "(\<And>i. line_key i = k \<Longrightarrow> line_key (f i) = k) \<Longrightarrow> map line_key (replace_line k f is) = map line_key is"
  by (induction "is") auto

lemma set_replace_line: "set (replace_line k f is) \<subseteq> f ` set is \<union> set is"
  by (induction "is") auto

lemma put_line_ok:
  assumes "distinct (map line_key is)" "\<forall>i \<in> set is. 1 \<le> ci_quantity i" "1 \<le> ci_quantity d"
  shows "distinct (map line_key (put_line d is)) \<and> (\<forall>i \<in> set (put_line d is). 1 \<le> ci_quantity i)"
proof (cases "has_line (line_key d) is")
  case True
  let ?f = "\<lambda>i. d\<lparr>ci_variantId := opt_trim (ci_variantId d), ci_variantLabel := opt_trim (ci_variantLabel d),
    ci_productId := ci_productId i\<rparr>"
  have "map line_key (replace_line (line_key d) ?f is) = map line_key is"
    by (rule line_keys_replace_to) (auto simp: line_key_def)
  then show ?thesis using assms True set_replace_line[of "line_key d" ?f "is"]
    by (auto simp: put_line_def Let_def)
next
  case False
  then have "line_key d \<notin> set (map line_key is)" by (auto simp: has_line_def list_ex_iff)
  then show ?thesis using assms False by (auto simp: put_line_def Let_def line_key_def)
qed

lemma cart_lines_ok_empty [simp]: "cart_lines_ok empty_cart"
  by (simp add: cart_lines_ok_def)

lemma cart_lines_ok_enforced: "cart_lines_ok st \<Longrightarrow> cart_lines_ok (enforced w st)"
  by (simp add: enforced_def cart_lines_ok_def split: option.split)

lemma carts_ok_clear: "carts_ok w \<Longrightarrow> carts_ok (clear_w u s w)"
  by (simp add: carts_ok_def)

lemma carts_ok_save: "carts_ok w \<Longrightarrow> cart_lines_ok st \<Longrightarrow> carts_ok (save_w u st ttl w)"
  by (auto simp: carts_ok_def cart_lines_ok_def)

lemma carts_ok_enforce: "carts_ok w \<Longrightarrow> cart_lines_ok st \<Longrightarrow> carts_ok (enforce_w u st w)"
  by (auto simp: enforce_w_def carts_ok_clear cart_lines_ok_enforced intro!: carts_ok_save)
     (simp add: carts_ok_def cart_lines_ok_def enforced_def split: option.split)

lemma carts_ok_persist: "carts_ok w \<Longrightarrow> cart_lines_ok st \<Longrightarrow> carts_ok (persist_w u st w)"
  by (auto simp: persist_w_def carts_ok_clear cart_lines_ok_enforced intro!: carts_ok_save carts_ok_enforce)

lemma carts_ok_getCart: "carts_ok w \<Longrightarrow> carts_ok (getCart_w u w)"
  by (auto simp: getCart_w_def Let_def intro!: carts_ok_clear carts_ok_enforce) (simp_all add: carts_ok_def)

end
