(* ===== verification/Stock.thy ===== *)
theory Stock
  imports World
begin

text \<open>
  Stock as orders and cancellations move it (the loop bodies of the two transactions in
  src/orders/orders.service.ts), and the interface they rely on: \<open>stock_store\<close> says what a move of
  one line does to the available quantities, and derives what a whole list of lines does and that
  moving the lines back restores every quantity.
\<close>

section \<open>The interface\<close>

fun shift_all :: "('s \<Rightarrow> 'k \<Rightarrow> int \<Rightarrow> exn + 's) \<Rightarrow> ('k \<times> int) list \<Rightarrow> 's \<Rightarrow> exn + 's" where
  "shift_all sh [] s = Inr s"
| "shift_all sh ((k, d) # xs) s = (case sh s k d of Inl e \<Rightarrow> Inl e | Inr s' \<Rightarrow> shift_all sh xs s')"

definition moved :: "('k \<Rightarrow> 'c) \<Rightarrow> ('k \<times> int) list \<Rightarrow> 'c \<Rightarrow> int" where
  "moved cell xs c = sum_list (map (\<lambda>(k, d). if cell k = c then d else 0) xs)"

definition reversed :: "('k \<times> int) list \<Rightarrow> ('k \<times> int) list" where
  "reversed xs = map (\<lambda>(k, d). (k, - d)) xs"

lemma moved_simps [simp]:
  "moved cell [] c = 0"
  "moved cell ((k, d) # xs) c = (if cell k = c then d else 0) + moved cell xs c"
  by (simp_all add: moved_def)

lemma moved_reversed [simp]: "moved cell (reversed xs) c = - moved cell xs c"
  by (induction xs) (auto simp: reversed_def)

locale stock_store =
  fixes cell :: "'s \<Rightarrow> 'k \<Rightarrow> 'c"
    and avail :: "'s \<Rightarrow> 'c \<Rightarrow> int option"
    and shift :: "'s \<Rightarrow> 'k \<Rightarrow> int \<Rightarrow> exn + 's"
  assumes shift_cell: "shift s k d = Inr s' \<Longrightarrow> cell s' = cell s"
    and shift_avail: "shift s k d = Inr s' \<Longrightarrow>
      avail s' c = map_option (\<lambda>n. if c = cell s k then n + d else n) (avail s c)"
    and shift_up: "0 \<le> d \<Longrightarrow> avail s (cell s k) \<noteq> None \<Longrightarrow> \<exists>s'. shift s k d = Inr s'"
    and shift_enough: "avail s (cell s k) = Some n \<Longrightarrow> 0 \<le> n + d \<Longrightarrow> \<exists>s'. shift s k d = Inr s'"
begin

lemma shift_all_cell: "shift_all shift xs s = Inr s' \<Longrightarrow> cell s' = cell s"
  by (induction xs arbitrary: s) (auto split: sum.splits dest: shift_cell)

text \<open>The net effect of a list of moves on one cell is the sum of the moves that hit it.\<close>

lemma shift_all_avail:
  "shift_all shift xs s = Inr s' \<Longrightarrow> avail s' c = map_option (\<lambda>n. n + moved (cell s) xs c) (avail s c)"
proof (induction xs arbitrary: s)
  case Nil
  then show ?case by (simp add: option.map_ident)
next
  case (Cons kd xs)
  obtain k d where kd: "kd = (k, d)" by (cases kd)
  from Cons.prems kd obtain s1 where s1: "shift s k d = Inr s1" "shift_all shift xs s1 = Inr s'"
    by (auto split: sum.splits)
  show ?case
    using Cons.IH[OF s1(2)] shift_avail[OF s1(1), of c]
    by (cases "avail s c") (auto simp: kd shift_cell[OF s1(1)])
qed

lemma shift_all_known: "shift_all shift xs s = Inr s' \<Longrightarrow> avail s' c \<noteq> None \<longleftrightarrow> avail s c \<noteq> None"
  by (simp add: shift_all_avail)

text \<open>Moving a list of lines back restores what was available.\<close>

lemma shift_back:
  "shift_all shift xs s = Inr s1 \<Longrightarrow> shift_all shift (reversed xs) s1 = Inr s2 \<Longrightarrow> avail s2 c = avail s c"
  using shift_all_avail[of "reversed xs" s1 s2 c] shift_all_avail[of xs s s1 c] shift_all_cell[of xs s s1]
  by (cases "avail s c") simp_all

lemma shift_all_up:
  "(\<And>k d. (k, d) \<in> set xs \<Longrightarrow> 0 \<le> d \<and> avail s (cell s k) \<noteq> None) \<Longrightarrow> \<exists>s'. shift_all shift xs s = Inr s'"
proof (induction xs arbitrary: s)
  case Nil
  then show ?case by simp
next
  case (Cons kd xs)
  obtain k d where kd: "kd = (k, d)" by (cases kd)
  with Cons.prems obtain s1 where s1: "shift s k d = Inr s1" using shift_up by (metis list.set_intros(1))
  have "\<exists>s'. shift_all shift xs s1 = Inr s'"
  proof (rule Cons.IH)
    fix k' d' assume "(k', d') \<in> set xs"
    then have "0 \<le> d'" "avail s (cell s k') \<noteq> None" using Cons.prems by auto
    then show "0 \<le> d' \<and> avail s1 (cell s1 k') \<noteq> None"
      using shift_avail[OF s1] by (simp add: shift_cell[OF s1])
  qed
  then show ?case using s1 kd by simp
qed

text \<open>Lines that all were taken can be put back.\<close>

lemma shift_back_possible:
  assumes "shift_all shift xs s = Inr s1"
    and "\<And>k d. (k, d) \<in> set xs \<Longrightarrow> d \<le> 0 \<and> avail s (cell s k) \<noteq> None"
  shows "\<exists>s2. shift_all shift (reversed xs) s1 = Inr s2"
proof (rule shift_all_up)
  fix k d assume "(k, d) \<in> set (reversed xs)"
  then have "(k, - d) \<in> set xs" by (auto simp: reversed_def)
  then show "0 \<le> d \<and> avail s1 (cell s1 k) \<noteq> None"
    using assms(2) shift_all_known[OF assms(1)] by (fastforce simp: shift_all_cell[OF assms(1)])
qed

text \<open>Lines on different cells, each covered by what is available, can all be taken.\<close>

lemma shift_all_enough:
  "distinct (map (\<lambda>(k, d). cell s k) xs) \<Longrightarrow>
   (\<And>k d. (k, d) \<in> set xs \<Longrightarrow> \<exists>n. avail s (cell s k) = Some n \<and> 0 \<le> n + d) \<Longrightarrow>
   \<exists>s'. shift_all shift xs s = Inr s'"
proof (induction xs arbitrary: s)
  case Nil
  then show ?case by simp
next
  case (Cons kd xs)
  obtain k d where kd: "kd = (k, d)" by (cases kd)
  with Cons.prems(2)[of k d] obtain s1 where s1: "shift s k d = Inr s1" using shift_enough by fastforce
  have "\<exists>s'. shift_all shift xs s1 = Inr s'"
  proof (rule Cons.IH)
    show "distinct (map (\<lambda>(k, d). cell s1 k) xs)" using Cons.prems(1) by (simp add: shift_cell[OF s1])
    fix k' d' assume i: "(k', d') \<in> set xs"
    then have "cell s k' \<noteq> cell s k" using Cons.prems(1) by (force simp: kd)
    then show "\<exists>n. avail s1 (cell s1 k') = Some n \<and> 0 \<le> n + d'"
      using Cons.prems(2)[of k' d'] i shift_avail[OF s1] by (auto simp: shift_cell[OF s1])
  qed
  then show ?case using s1 kd by simp
qed

lemma moved_distinct:
  "distinct (map (\<lambda>(k, d). cell s k) xs) \<Longrightarrow> (k, d) \<in> set xs \<Longrightarrow> moved (cell s) xs (cell s k) = d"
proof (induction xs)
  case (Cons x xs)
  obtain k' d' where x: "x = (k', d')" by (cases x)
  have none: "moved (cell s) ys c = 0" if "c \<notin> (\<lambda>(k, d). cell s k) ` set ys" for ys c
    using that by (induction ys) auto
  show ?case
  proof (cases "(k, d) = x")
    case True
    then show ?thesis using Cons.prems(1) none[of "cell s k" xs] x by simp
  next
    case False
    then have i: "(k, d) \<in> set xs" using Cons.prems(2) by auto
    then have "cell s k' \<noteq> cell s k" using Cons.prems(1) by (force simp: x)
    then show ?thesis using Cons.IH i Cons.prems(1) x by simp
  qed
qed simp

end

section \<open>Stock of a product row\<close>

text \<open>
  The loop body shared by the order and the cancellation transaction: a line with a variant moves
  that variant's stock (and the total), any other line moves the product's stock, unchecked.
\<close>

definition shift_product :: "product_row \<Rightarrow> string option \<Rightarrow> int \<Rightarrow> exn + product_row" where
  "shift_product p vid d =
     (if truthy vid \<and> productHasVariantItems (p_variants p)
      then (case applyVariantStockDelta (p_variants p) (the vid) d of
              Inl e \<Rightarrow> Inl e
            | Inr (vs, tot) \<Rightarrow> Inr (p\<lparr>p_variants := vs, p_stock := tot\<rparr>))
      else Inr (p\<lparr>p_stock := p_stock p + d\<rparr>))"

definition shift_stock :: "string \<Rightarrow> string option \<Rightarrow> int \<Rightarrow> unit handler" where
  "shift_stock pid vid d =
     bind_act (reads (\<lambda>w. tget (products w) pid)) (\<lambda>product.
     case product of None \<Rightarrow> ret () | Some p \<Rightarrow>
     bind_act (lift_res (shift_product p vid d)) (\<lambda>p'. writes (upd_product pid (\<lambda>_. p'))))"


section \<open>The catalogue is a stock store\<close>

text \<open>
  A line of product \<open>pid\<close> and variant \<open>vid\<close> draws on the variant's cell when the product has
  variants and the line names one, on the product's own cell otherwise.
\<close>

type_synonym catalogue = "(string, product_row) table"

definition stock_cell :: "catalogue \<Rightarrow> string \<times> string option \<Rightarrow> string \<times> string option" where
  "stock_cell t k =
     (case tget t (fst k) of
        None \<Rightarrow> (fst k, None)
      | Some p \<Rightarrow> (fst k, if truthy (snd k) \<and> productHasVariantItems (p_variants p) then snd k else None))"

definition product_avail :: "product_row \<Rightarrow> string option \<Rightarrow> int option" where
  "product_avail p v =
     (case v of
        Some vid \<Rightarrow> variant_stock (p_variants p) vid
      | None \<Rightarrow> if productHasVariantItems (p_variants p) then None else Some (p_stock p))"

definition stock_avail :: "catalogue \<Rightarrow> string \<times> string option \<Rightarrow> int option" where
  "stock_avail t c = Option.bind (tget t (fst c)) (\<lambda>p. product_avail p (snd c))"

definition shift_table :: "catalogue \<Rightarrow> string \<times> string option \<Rightarrow> int \<Rightarrow> exn + catalogue" where
  "shift_table t k d =
     (case tget t (fst k) of
        None \<Rightarrow> Inr t
      | Some p \<Rightarrow> (case shift_product p (snd k) d of
            Inl e \<Rightarrow> Inl e
          | Inr p' \<Rightarrow> Inr (tupd (fst k) (\<lambda>_. p') t)))"

lemma shift_product_has:
  "shift_product p vid d = Inr p' \<Longrightarrow>
   productHasVariantItems (p_variants p') = productHasVariantItems (p_variants p)"
  by (auto simp: shift_product_def applyVariantStockDelta_has split: if_splits sum.splits)

lemma shift_product_avail:
  "shift_product p vid d = Inr p' \<Longrightarrow> product_avail p' c =
     map_option (\<lambda>n. if c = (if truthy vid \<and> productHasVariantItems (p_variants p) then vid else None)
                     then n + d else n) (product_avail p c)"
proof (cases "truthy vid \<and> productHasVariantItems (p_variants p)")
  case True
  then obtain v where v: "vid = Some v" by (cases vid) auto
  assume "shift_product p vid d = Inr p'"
  with True v obtain vs tot where vs: "applyVariantStockDelta (p_variants p) v d = Inr (vs, tot)"
    and p': "p' = p\<lparr>p_variants := vs, p_stock := tot\<rparr>"
    by (auto simp: shift_product_def split: sum.splits)
  show ?thesis
    using True applyVariantStockDelta_stock[OF vs] applyVariantStockDelta_has[OF vs]
    by (auto simp: product_avail_def p' v split: option.splits)
next
  case False
  assume "shift_product p vid d = Inr p'"
  with False have "p' = p\<lparr>p_stock := p_stock p + d\<rparr>" by (auto simp: shift_product_def)
  with False show ?thesis
    using variant_stock_has[of "p_variants p"]
    by (auto simp: product_avail_def option.map_ident split: option.splits)
qed

lemma shift_product_up:
  assumes "0 \<le> d"
    and "product_avail p (if truthy vid \<and> productHasVariantItems (p_variants p) then vid else None) \<noteq> None"
  shows "\<exists>p'. shift_product p vid d = Inr p'"
proof (cases "truthy vid \<and> productHasVariantItems (p_variants p)")
  case True
  then obtain v where v: "vid = Some v" by (cases vid) auto
  with True assms(2) obtain n where n: "variant_stock (p_variants p) v = Some n"
    by (auto simp: product_avail_def)
  then have "0 \<le> n" by (rule variant_stock_nonneg)
  with True v n assms(1) show ?thesis by (simp add: shift_product_def applyVariantStockDelta_outcome)
next
  case False
  then show ?thesis by (auto simp: shift_product_def)
qed

lemma shift_product_enough:
  "product_avail p (if truthy vid \<and> productHasVariantItems (p_variants p) then vid else None) = Some n
   \<Longrightarrow> 0 \<le> n + d \<Longrightarrow> \<exists>p'. shift_product p vid d = Inr p'"
  by (cases "truthy vid \<and> productHasVariantItems (p_variants p)"; cases vid)
     (auto simp: shift_product_def product_avail_def applyVariantStockDelta_outcome)

lemma shift_table_cell: "shift_table t k d = Inr t' \<Longrightarrow> stock_cell t' j = stock_cell t j"
  by (cases "tget t (fst k)"; cases "fst j = fst k")
     (auto simp: shift_table_def stock_cell_def shift_product_has split: sum.splits option.splits)

interpretation catalogue: stock_store stock_cell stock_avail shift_table
proof
  fix t t' :: catalogue and k d
  assume s: "shift_table t k d = Inr t'"
  show "stock_cell t' = stock_cell t"
    using shift_table_cell[OF s] by blast
  show "stock_avail t' c = map_option (\<lambda>n. if c = stock_cell t k then n + d else n) (stock_avail t c)" for c
  proof (cases "tget t (fst k)")
    case None
    with s show ?thesis
      by (cases c; cases "fst c = fst k")
         (auto simp: shift_table_def stock_avail_def stock_cell_def option.map_ident)
  next
    case (Some p)
    with s obtain p' where p': "shift_product p (snd k) d = Inr p'" and t': "t' = tupd (fst k) (\<lambda>_. p') t"
      by (auto simp: shift_table_def split: sum.splits)
    obtain a b where c: "c = (a, b)" by (cases c)
    show ?thesis
    proof (cases "a = fst k")
      case True
      then show ?thesis
        using shift_product_avail[OF p', of b]
        by (simp add: c stock_avail_def stock_cell_def Some t')
    next
      case False
      then show ?thesis
        by (simp add: c stock_avail_def stock_cell_def Some t' option.map_ident)
    qed
  qed
next
  fix t :: catalogue and k and d :: int
  assume "0 \<le> d" "stock_avail t (stock_cell t k) \<noteq> None"
  then show "\<exists>t'. shift_table t k d = Inr t'"
    using shift_product_up[of d _ "snd k"]
    by (fastforce simp: shift_table_def stock_avail_def stock_cell_def split: option.splits sum.splits)
next
  fix t :: catalogue and k and n d :: int
  assume "stock_avail t (stock_cell t k) = Some n" "0 \<le> n + d"
  then show "\<exists>t'. shift_table t k d = Inr t'"
    using shift_product_enough[of _ "snd k" n d]
    by (fastforce simp: shift_table_def stock_avail_def stock_cell_def split: option.splits sum.splits)
qed

section \<open>Moving the lines of an order\<close>

lemma wp_shift_stock [wp_simps]:
  "wp (shift_stock pid vid d) Q w =
     (case shift_table (products w) (pid, vid) d of
        Inl e \<Rightarrow> Q (Inl e) w
      | Inr t \<Rightarrow> Q (Inr ()) (w\<lparr>products := t\<rparr>))"
  by (cases "tget (products w) pid")
     (auto simp: shift_stock_def shift_table_def upd_product_def wp_simps split: sum.splits)

text \<open>A transaction's loop over the lines, seen from outside: all of them or nothing.\<close>

lemma wp_shift_lines:
  "wp (for_each rs (\<lambda>r. shift_stock (f r) (g r) (h r)))
      (\<lambda>r s'. case r of Inl e \<Rightarrow> K e | Inr x \<Rightarrow> Q s') w =
   (case shift_all shift_table (map (\<lambda>r. ((f r, g r), h r)) rs) (products w) of
      Inl e \<Rightarrow> K e
    | Inr t \<Rightarrow> Q (w\<lparr>products := t\<rparr>))"
proof (induction rs arbitrary: w)
  case Nil
  then show ?case by (simp add: wp_ret)
next
  case (Cons r rs)
  show ?case
    by (cases "shift_table (products w) (f r, g r) (h r)") (simp_all add: wp_simps on_ok_def Cons cong: sum.case_cong)
qed

lemma wp_atomic_shift_lines:
  "wp (atomic (seq_act (for_each rs (\<lambda>r. shift_stock (f r) (g r) (h r))) m)) Q w =
   (case shift_all shift_table (map (\<lambda>r. ((f r, g r), h r)) rs) (products w) of
      Inl e \<Rightarrow> Q (Inl e) w
    | Inr t \<Rightarrow> wp m (\<lambda>r s'. case r of Inl e \<Rightarrow> Q (Inl e) w | Inr x \<Rightarrow> Q (Inr x) s') (w\<lparr>products := t\<rparr>))"
proof -
  define X where "X = (\<lambda>r s'. case r of Inl e \<Rightarrow> Q (Inl e) w | Inr x \<Rightarrow> Q (Inr x) s')"
  have "on_ok (\<lambda>_::unit. wp m X) X = (\<lambda>r s'. case r of Inl e \<Rightarrow> Q (Inl e) w | Inr _ \<Rightarrow> wp m X s')"
    by (intro ext) (auto simp: X_def on_ok_def split: sum.splits)
  then show ?thesis unfolding wp_atomic wp_seq X_def[symmetric] by (simp only: wp_shift_lines)
qed

end
