(* ===== verification/Checkout.thy ===== *)
theory Checkout
  imports Cart Stock
begin

text \<open>
  From a cart to an order, src/orders/orders.service.ts: validation of the lines against the
  stream, the catalogue and the stock, the delivery quote, the transaction that creates an order
  and takes its stock, and the checkout of a cart. The shipping API is a parameter of the model:
  \<open>shipping_api\<close> holds what a call to \<open>DelhiveryService\<close> returns. Configuration values are read
  from \<open>config\<close>. In the texts of exceptions a typographic dash is written as a hyphen.
\<close>

section \<open>Parameters\<close>

record ship_request =
  sq_orderId :: string
  sq_pickupLocationName :: string
  sq_originPin :: string
  sq_destinationPin :: string
  sq_consigneeName :: string
  sq_consigneePhone :: string
  sq_consigneeAddress :: string
  sq_weightGrams :: int

record shipment =
  sh_waybill :: "string option"
  sh_trackingUrl :: "string option"
  sh_status :: "string option"
  sh_detail :: string \<comment> \<open>the start of the raw answer's JSON text\<close>

record shipping_api =
  dh_configured :: bool
  dh_quote :: "string \<Rightarrow> string \<Rightarrow> int \<Rightarrow> exn + num option"
  dh_create :: "ship_request \<Rightarrow> exn + shipment option"
  dh_track :: "string \<Rightarrow> exn + string option option" \<comment> \<open>waybill to \<open>track?.status\<close>\<close>

record config =
  cfg_allowDirectCheckout :: "string option" \<comment> \<open>\<open>PAYMENTS_ALLOW_DIRECT_CHECKOUT\<close>\<close>
  cfg_pickupLocation :: "string option" \<comment> \<open>\<open>DELHIVERY_PICKUP_LOCATION\<close>\<close>
  cfg_baseUrls :: "string option list" \<comment> \<open>the four candidates of \<open>resolvePublicBaseUrl\<close>, in order\<close>

section \<open>Validation\<close>

record order_line =
  ol_productId :: string
  ol_quantity :: int
  ol_variantId :: "string option"
  ol_variantLabel :: "string option"

definition stream_open :: "int \<Rightarrow> stream_row \<Rightarrow> exn + unit" where
  "stream_open now s1 =
     (if st_startedAt s1 = None then Inl (BadRequest ''This stream has not started yet'')
      else if \<not> st_isLive s1 \<and> st_endedAt s1 \<noteq> None then
        (if the (st_endedAt s1) + POST_LIVE_CART_HOURS * MS_PER_HOUR < now
         then Inl (BadRequest ''Your cart from this live stream has expired.'') else Inr ())
      else if \<not> st_isLive s1
        then Inl (BadRequest ''This stream has ended; you cannot purchase from a replay.'')
      else if st_endedAt s1 \<noteq> None
        then Inl (BadRequest ''This stream is no longer available for checkout.'')
      else Inr ())"

definition assertStreamAndProducts :: "world \<Rightarrow> string \<Rightarrow> string list \<Rightarrow> exn + unit" where
  "assertStreamAndProducts w sid pids =
     (case tget (streams w) sid of
        None \<Rightarrow> Inl (BadRequest ''Invalid stream'')
      | Some s1 \<Rightarrow>
          (case stream_open (clock w) s1 of
             Inl e \<Rightarrow> Inl e
           | Inr _ \<Rightarrow>
               if list_all (\<lambda>pid. pid \<in> set (st_products s1)) (remdups pids) then Inr ()
               else Inl (BadRequest ''Product is not part of this live stream listing'')))"

definition check_line :: "product_row \<Rightarrow> order_line \<Rightarrow> exn + unit" where
  "check_line p l =
     (if productHasVariantItems (p_variants p) then
        if \<not> truthy (opt_trim (ol_variantId l))
        then Inl (BadRequest (''variantId is required for product '' @ p_name p))
        else case findVariantItem (p_variants p) (the (ol_variantId l)) of
               None \<Rightarrow> Inl (BadRequest (''Invalid variant for product '' @ p_name p))
             | Some v \<Rightarrow>
                 if vi_stock v < ol_quantity l
                 then Inl (BadRequest (''Insufficient stock for '' @ p_name p @ '' ('' @ vi_label v @
                        ''). Available: '' @ int_digits (vi_stock v)))
                 else Inr ()
      else if p_stock p < ol_quantity l
        then Inl (BadRequest (''Insufficient stock for product '' @ p_name p @ ''. Available: '' @
               num_to_string (of_int (p_stock p))))
      else Inr ())"

fun check_lines :: "world \<Rightarrow> order_line list \<Rightarrow> exn + unit" where
  "check_lines w [] = Inr ()"
| "check_lines w (l # ls) =
     (case tget (products w) (ol_productId l) of
        None \<Rightarrow> Inl (BadRequest (''Product '' @ ol_productId l @ '' not found''))
      | Some p \<Rightarrow> (case check_line p l of Inl e \<Rightarrow> Inl e | Inr _ \<Rightarrow> check_lines w ls))"

definition unique_products :: "order_line list \<Rightarrow> string list" where
  \<comment> \<open>\<open>[...new Set(items.map((i) => i.productId))]\<close>\<close>
  "unique_products ls = rev (remdups (rev (map ol_productId ls)))"

definition validateOrderItems :: "world \<Rightarrow> string \<Rightarrow> order_line list \<Rightarrow> exn + unit" where
  "validateOrderItems w sid ls =
     (if ls = [] then Inl (BadRequest ''Order must have at least one item'') else
      let pids = unique_products ls in
      case assertStreamAndProducts w sid pids of Inl e \<Rightarrow> Inl e | Inr _ \<Rightarrow>
      let missing = filter (\<lambda>pid. tget (products w) pid = None) pids in
      if missing \<noteq> []
      then Inl (BadRequest (''One or more products not found: '' @ join '', '' missing))
      else check_lines w ls)"

definition line_of :: "cart_line \<Rightarrow> order_line" where
  "line_of l = \<lparr>ol_productId = ci_productId (cl_item l), ol_quantity = ci_quantity (cl_item l),
                ol_variantId = ci_variantId (cl_item l), ol_variantLabel = ci_variantLabel (cl_item l)\<rparr>"

definition no_stream :: exn where
  "no_stream = BadRequest ''Checkout requires a live stream context. Add items from a live.''"

definition validateCartForCheckout :: "string \<Rightarrow> unit handler" where
  "validateCartForCheckout uid =
     bind_act (loadCartForUser uid) (\<lambda>raw.
     if cs_items raw = [] then throw (BadRequest ''Cart is empty'')
     else if \<not> truthy (cs_streamId raw) then throw no_stream else
     bind_act (getCart uid) (\<lambda>cart.
     if cv_items cart = [] then throw (BadRequest ''Cart is empty'')
     else if length (cv_items cart) \<noteq> length (cs_items raw)
     then throw (BadRequest
       ''One or more products in your cart are no longer available. Please update your cart.'') else
     bind_act (reads (\<lambda>w. buyer_of_user w uid)) (\<lambda>buyer.
     if buyer = None then throw (Forbidden ''User is not a registered buyer'') else
     bind_act (reads (\<lambda>w. validateOrderItems w (the (cs_streamId raw)) (map line_of (cv_items cart))))
       lift_res)))"

section \<open>Addresses and the delivery quote\<close>

definition formatAddressLine :: "address_row \<Rightarrow> string" where
  "formatAddressLine a =
     (let parts = filter (\<lambda>s. s \<noteq> []) (map trim [a_line1 a, (case a_line2 a of None \<Rightarrow> [] | Some s \<Rightarrow> s),
            a_city a, a_state a, a_zip a, a_country a]);
          street = join '', '' parts;
          nm = trim (case a_contactName a of None \<Rightarrow> [] | Some s \<Rightarrow> s);
          ph = trim (case a_phone a of None \<Rightarrow> [] | Some s \<Rightarrow> s);
          ls = filter (\<lambda>s. s \<noteq> []) [nm, ph, street]
      in if ls = [] then ''-'' else join [CHR 0x0A] ls)"

definition address_of :: "world \<Rightarrow> string \<Rightarrow> string \<Rightarrow> address_row option" where
  "address_of w uid aid =
     (case tget (addresses w) aid of
        Some a \<Rightarrow> if a_userId a = uid then Some a else None
      | None \<Rightarrow> None)"

definition resolveShippingAddressOrThrow :: "string \<Rightarrow> string option \<Rightarrow> string handler" where
  "resolveShippingAddressOrThrow uid aid =
     (if \<not> truthy (opt_trim aid) then throw (BadRequest ''Shipping address is required'') else
      bind_act (reads (\<lambda>w. address_of w uid (trim (the aid)))) (\<lambda>a.
      case a of
        None \<Rightarrow> throw (BadRequest ''Shipping address not found'')
      | Some r \<Rightarrow> ret (formatAddressLine r)))"

definition latest_pickup :: "world \<Rightarrow> string \<Rightarrow> address_row option" where
  \<comment> \<open>\<open>findFirst({ where: { userId, type: PICKUP }, orderBy: { createdAt: 'desc' } })\<close>\<close>
  "latest_pickup w uid =
     foldl (\<lambda>best a. case best of None \<Rightarrow> Some a
              | Some b \<Rightarrow> if a_createdAt b < a_createdAt a then Some a else best) None
       (filter (\<lambda>a. a_userId a = uid \<and> a_type a = PICKUP) (trows (addresses w)))"

definition estimateCartWeightGrams :: "nat \<Rightarrow> int" where
  "estimateCartWeightGrams n = max 500 (int n * 500)"

record quote =
  q_provider :: "string option"
  q_fee :: num

definition getDeliveryQuoteFromCart :: "shipping_api \<Rightarrow> string \<Rightarrow> string \<Rightarrow> quote handler" where
  "getDeliveryQuoteFromCart api uid aid =
     bind_act (getCart uid) (\<lambda>cart.
     if cv_items cart = [] then throw (BadRequest ''Cart is empty'')
     else if \<not> truthy (cv_streamId cart) then throw no_stream else
     bind_act (reads (\<lambda>w. address_of w uid aid)) (\<lambda>addr.
     case addr of None \<Rightarrow> throw (BadRequest ''Shipping address not found'') | Some buyerAddr \<Rightarrow>
     bind_act (reads (\<lambda>w. tget (streams w) (the (cv_streamId cart)))) (\<lambda>stream.
     case stream of None \<Rightarrow> throw (BadRequest ''Stream not found'') | Some s1 \<Rightarrow>
     bind_act (reads (\<lambda>w. tget (sellers w) (st_sellerId s1))) (\<lambda>seller.
     case seller of None \<Rightarrow> throw (BadRequest ''Stream seller not found'') | Some sel \<Rightarrow>
     bind_act (reads (\<lambda>w. latest_pickup w (s_userId sel))) (\<lambda>pick.
     case pick of
       None \<Rightarrow> throw (BadRequest ''Seller pickup address is missing. Please update store pickup address.'')
     | Some pickup \<Rightarrow>
     bind_act (reads (\<lambda>w. Option.bind (tget (users w) (s_userId sel)) u_phone)) (\<lambda>sellerPhone.
     if \<not> truthy sellerPhone then throw (BadRequest ''Seller phone is missing for pickup contact'') else
     bind_act (reads (\<lambda>w. Option.bind (tget (users w) uid) u_phone)) (\<lambda>userPhone.
     if \<not> truthy (or_else userPhone (a_phone buyerAddr)) then throw (BadRequest ''Buyer phone is missing'')
     else if trim (a_zip pickup) = [] \<or> trim (a_zip buyerAddr) = []
     then ret \<lparr>q_provider = (if dh_configured api then Some ''DELHIVERY'' else None), q_fee = 0\<rparr>
     else case dh_quote api (trim (a_zip pickup)) (trim (a_zip buyerAddr))
                 (estimateCartWeightGrams (length (cv_items cart))) of
            Inl e \<Rightarrow> throw e
          | Inr None \<Rightarrow> ret \<lparr>q_provider = None, q_fee = 0\<rparr>
          | Inr (Some fee) \<Rightarrow> ret \<lparr>q_provider = Some ''DELHIVERY'', q_fee = fee\<rparr>)))))))"

record checkout_prep =
  cp_subtotal :: num
  cp_deliveryFee :: num
  cp_total :: num
  cp_streamId :: string
  cp_shippingAddress :: string
  cp_deliveryProvider :: "string option"

definition is_bad_request :: "exn \<Rightarrow> bool" where
  "is_bad_request e = (case e of BadRequest _ \<Rightarrow> True | _ \<Rightarrow> False)"

definition prepareCheckoutForPayment :: "shipping_api \<Rightarrow> string \<Rightarrow> string \<Rightarrow> checkout_prep handler" where
  "prepareCheckoutForPayment api uid aid =
     seq_act (validateCartForCheckout uid) (
     bind_act (getCart uid) (\<lambda>cart.
     if cv_items cart = [] then throw (BadRequest ''Cart is empty'')
     else if \<not> truthy (cv_streamId cart) then throw no_stream else
     bind_act (resolveShippingAddressOrThrow uid (Some aid)) (\<lambda>address.
     bind_act (catching (getDeliveryQuoteFromCart api uid aid)
         (\<lambda>e. if is_bad_request e then throw e else ret \<lparr>q_provider = None, q_fee = 0\<rparr>)) (\<lambda>q.
     let total = nadd (cv_subtotal cart) (q_fee q)
     in if total \<le> 0 then throw (BadRequest ''Cart total must be greater than zero'')
        else ret \<lparr>cp_subtotal = cv_subtotal cart, cp_deliveryFee = q_fee q, cp_total = total,
                  cp_streamId = the (cv_streamId cart), cp_shippingAddress = address,
                  cp_deliveryProvider = q_provider q\<rparr>))))"

section \<open>Creating an order\<close>

record create_order =
  co_items :: "order_line list"
  co_shippingAddress :: "string option"
  co_streamId :: "string option"

text \<open>One row of \<open>orderItemsData\<close>; the ids of the order and its items come from \<open>uuid\<close>.\<close>

definition order_row_of_line :: "world \<Rightarrow> string \<Rightarrow> order_line \<Rightarrow> exn + order_item_row" where
  "order_row_of_line w iid l =
     (case tget (products w) (ol_productId l) of
        None \<Rightarrow> Inl (Crash ''TypeError'')
      | Some p \<Rightarrow>
          if productHasVariantItems (p_variants p) then
            (case Option.bind (ol_variantId l) (findVariantItem (p_variants p)) of
               None \<Rightarrow> Inl (Crash ''TypeError'')
             | Some v \<Rightarrow> Inr \<lparr>oi_id = iid, oi_productId = p_id p, oi_quantity = ol_quantity l,
                 oi_price = vi_sellingPrice v, oi_variantId = opt_trim (ol_variantId l),
                 oi_variantLabel = Some (vi_label v)\<rparr>)
          else Inr \<lparr>oi_id = iid, oi_productId = p_id p, oi_quantity = ol_quantity l,
                 oi_price = p_price p, oi_variantId = opt_trim (ol_variantId l),
                 oi_variantLabel = opt_trim (ol_variantLabel l)\<rparr>)"

fun order_rows :: "world \<Rightarrow> (nat \<Rightarrow> string) \<Rightarrow> nat \<Rightarrow> order_line list \<Rightarrow> exn + order_item_row list" where
  "order_rows w uuid n [] = Inr []"
| "order_rows w uuid n (l # ls) =
     (case order_row_of_line w (uuid n) l of
        Inl e \<Rightarrow> Inl e
      | Inr r \<Rightarrow> (case order_rows w uuid (Suc n) ls of Inl e \<Rightarrow> Inl e | Inr rs \<Rightarrow> Inr (r # rs)))"

definition rows_total :: "order_item_row list \<Rightarrow> num" where
  "rows_total rs = foldl (\<lambda>t r. nadd t (nmul (oi_price r) (of_int (oi_quantity r)))) 0 rs"

definition new_order ::
    "string \<Rightarrow> int \<Rightarrow> string \<Rightarrow> create_order \<Rightarrow> order_item_row list \<Rightarrow> order_row" where
  "new_order oid now bid dto rs =
     \<lparr>o_id = oid, o_buyerId = Some bid, o_streamId = co_streamId dto,
      o_shippingAddress = co_shippingAddress dto, o_status = PENDING, o_totalAmount = rows_total rs,
      o_deliveryFee = 0, o_deliveryProvider = None, o_borzoTrackingUrl = None, o_borzoOrderStatus = None,
      o_trackingId = None, o_carrierName = None, o_shippedAt = None, o_deliveredAt = None,
      o_packingVideoUrl = None, o_packedAt = None, o_deliveryStatus = None, o_razorpayOrderId = None,
      o_razorpayPaymentId = None, o_items = rs, o_createdAt = now,
      o_invoiceNumber = None\<rparr>"

definition take_stock :: "order_item_row list \<Rightarrow> unit handler" where
  "take_stock rs = for_each rs (\<lambda>r. shift_stock (oi_productId r) (oi_variantId r) (- oi_quantity r))"

definition createOrder :: "(nat \<Rightarrow> string) \<Rightarrow> create_order \<Rightarrow> string \<Rightarrow> order_row handler" where
  "createOrder uuid dto uid =
     bind_act (reads (\<lambda>w. buyer_of_user w uid)) (\<lambda>buyer.
     case buyer of None \<Rightarrow> throw (Forbidden ''User is not a registered buyer'') | Some b \<Rightarrow>
     if co_items dto = [] then throw (BadRequest ''Order must have at least one item'')
     else if \<not> truthy (co_streamId dto)
     then throw (BadRequest ''Orders are only allowed from a live stream (streamId is required).'')
     else seq_act (bind_act (reads (\<lambda>w. validateOrderItems w (the (co_streamId dto)) (co_items dto))) lift_res) (
     bind_act (bind_act (reads (\<lambda>w. order_rows w uuid 1 (co_items dto))) lift_res) (\<lambda>rs.
     bind_act (reads clock) (\<lambda>now.
     let o1 = new_order (uuid 0) now (b_id b) dto rs
     in seq_act (atomic (seq_act (writes (put_order o1)) (take_stock rs))) (ret o1)))))"

section \<open>Checking a cart out\<close>

record checkout_dto =
  kd_addressId :: "string option"
  kd_shippingAddress :: "string option"
  kd_paymentMethod :: "string option"

record checkout_options =
  ko_markPaid :: bool
  ko_razorpayOrderId :: "string option"
  ko_razorpayPaymentId :: "string option"
  ko_deliveryFee :: "num option"
  ko_deliveryProvider :: "string option"

record checkout_result =
  kr_orderId :: string
  kr_status :: order_status
  kr_totalAmount :: num
  kr_deliveryFee :: num
  kr_shippingAddress :: string
  kr_paymentMethod :: string

definition toCheckoutResponse :: "order_row \<Rightarrow> checkout_result" where
  "toCheckoutResponse o1 =
     \<lparr>kr_orderId = o_id o1, kr_status = o_status o1, kr_totalAmount = o_totalAmount o1,
      kr_deliveryFee = o_deliveryFee o1,
      kr_shippingAddress = (case o_shippingAddress o1 of None \<Rightarrow> [] | Some s \<Rightarrow> s),
      kr_paymentMethod = ''RAZORPAY''\<rparr>"

definition no_options :: checkout_options where
  "no_options = \<lparr>ko_markPaid = False, ko_razorpayOrderId = None, ko_razorpayPaymentId = None,
     ko_deliveryFee = None, ko_deliveryProvider = None\<rparr>"

definition direct_checkout_allowed :: "config \<Rightarrow> bool" where
  "direct_checkout_allowed cfg \<longleftrightarrow> cfg_allowDirectCheckout cfg \<in> {Some ''true'', Some ''1''}"

text \<open>The \<open>updateData\<close> of the checkout, applied to the created row.\<close>

definition finish_order :: "checkout_options \<Rightarrow> num \<Rightarrow> string option \<Rightarrow> order_row \<Rightarrow> order_row" where
  "finish_order opts fee provider o1 =
     (let o2 = (if 0 < fee
                then o1\<lparr>o_deliveryFee := fee,
                        o_deliveryProvider := or_else provider (o_deliveryProvider o1),
                        o_totalAmount := nadd (o_totalAmount o1) fee\<rparr>
                else o1)
      in if ko_markPaid opts
         then o2\<lparr>o_status := PAID,
                 o_razorpayOrderId := (if truthy (ko_razorpayOrderId opts) then ko_razorpayOrderId opts
                                       else o_razorpayOrderId o2),
                 o_razorpayPaymentId := (if truthy (ko_razorpayPaymentId opts) then ko_razorpayPaymentId opts
                                         else o_razorpayPaymentId o2)\<rparr>
         else o2)"

text \<open>The unique indexes on the two Razorpay columns.\<close>

definition razorpay_clash :: "world \<Rightarrow> order_row \<Rightarrow> bool" where
  "razorpay_clash w o1 \<longleftrightarrow>
     list_ex (\<lambda>p. o_id p \<noteq> o_id o1 \<and>
         (o_razorpayOrderId o1 \<noteq> None \<and> o_razorpayOrderId p = o_razorpayOrderId o1 \<or>
          o_razorpayPaymentId o1 \<noteq> None \<and> o_razorpayPaymentId p = o_razorpayPaymentId o1))
       (trows (orders w))"

definition update_created_order :: "order_row \<Rightarrow> unit handler" where
  "update_created_order o2 =
     bind_act (reads (\<lambda>w. razorpay_clash w o2)) (\<lambda>clash.
     if clash then throw (Crash ''P2002'') else writes (put_order o2))"

definition checkout_address :: "string \<Rightarrow> checkout_dto \<Rightarrow> string handler" where
  "checkout_address uid dto =
     (if truthy (opt_trim (kd_addressId dto)) then resolveShippingAddressOrThrow uid (kd_addressId dto)
      else if \<not> truthy (opt_trim (kd_shippingAddress dto))
      then throw (BadRequest ''Shipping address is required'')
      else ret (the (kd_shippingAddress dto)))"

text \<open>The last steps of a checkout, from the created row on.\<close>

definition checkout_tail ::
    "string \<Rightarrow> cart_view \<Rightarrow> string \<Rightarrow> checkout_dto \<Rightarrow> checkout_options \<Rightarrow> quote option \<Rightarrow> order_row
     \<Rightarrow> checkout_result handler" where
  "checkout_tail uid cart address dto opts q o1 =
     (let fee = (case or_else (ko_deliveryFee opts) (map_option q_fee q) of None \<Rightarrow> 0 | Some f \<Rightarrow> f);
          o2 = finish_order opts fee
                 (or_else (ko_deliveryProvider opts) (Option.bind q q_provider)) o1
      in seq_act (if 0 < fee \<or> ko_markPaid opts then update_created_order o2 else ret ()) (
         seq_act (clearCart uid (cv_streamId cart)) (
         seq_act (writes (send_mail (OrderPlacedMails (o_id o2)))) (
         ret \<lparr>kr_orderId = o_id o2, kr_status = o_status o2, kr_totalAmount = o_totalAmount o2,
              kr_deliveryFee = fee, kr_shippingAddress = address,
              kr_paymentMethod = (case kd_paymentMethod dto of None \<Rightarrow> ''CARD'' | Some m \<Rightarrow> m)\<rparr>))))"

definition checkout_quote :: "shipping_api \<Rightarrow> string \<Rightarrow> checkout_dto \<Rightarrow> checkout_options \<Rightarrow> quote option handler" where
  "checkout_quote api uid dto opts =
     (if truthy (opt_trim (kd_addressId dto)) \<and> ko_deliveryFee opts = None
      then catching (bind_act (getDeliveryQuoteFromCart api uid (the (kd_addressId dto))) (\<lambda>q. ret (Some q)))
             (\<lambda>_. ret None)
      else ret None)"

definition checkoutFromCart ::
    "config \<Rightarrow> shipping_api \<Rightarrow> (nat \<Rightarrow> string) \<Rightarrow> string \<Rightarrow> checkout_dto \<Rightarrow> checkout_options
     \<Rightarrow> checkout_result handler" where
  "checkoutFromCart cfg api uuid uid dto opts =
     (if \<not> ko_markPaid opts \<and> \<not> direct_checkout_allowed cfg
      then throw (BadRequest ''Please complete payment via Razorpay to place your order.'') else
      seq_act (validateCartForCheckout uid) (
      bind_act (getCart uid) (\<lambda>cart.
      if cv_items cart = [] then throw (BadRequest ''Cart is empty'')
      else if \<not> truthy (cv_streamId cart) then throw no_stream else
      bind_act (checkout_address uid dto) (\<lambda>address.
      bind_act (checkout_quote api uid dto opts) (\<lambda>q.
      bind_act (createOrder uuid \<lparr>co_items = map line_of (cv_items cart),
          co_shippingAddress = Some address, co_streamId = cv_streamId cart\<rparr> uid)
        (checkout_tail uid cart address dto opts q))))))"

end
