(* ===== verification/Calendar.thy ===== *)
theory Calendar
  imports World
begin

text \<open>
  The calendar behind \<open>Date.UTC\<close>, and the day a seller filters orders by
  (\<open>resolveSellerDateRange\<close>, src/orders/seller-order.mapper.ts). Days are counted from 1 January
  1970; a year starts on \<open>day_from_year\<close>, the formula of the ECMAScript specification.
\<close>

section \<open>Civil dates\<close>

definition day_from_year :: "int \<Rightarrow> int" where
  "day_from_year y =
     365 * (y - 1970) + (y - 1969) div 4 - (y - 1901) div 100 + (y - 1601) div 400"

definition leap_year :: "int \<Rightarrow> bool" where
  "leap_year y \<longleftrightarrow> day_from_year (y + 1) - day_from_year y = 366"

definition month_starts :: "bool \<Rightarrow> int list" where
  "month_starts leap =
     (if leap then [0, 31, 60, 91, 121, 152, 182, 213, 244, 274, 305, 335]
      else [0, 31, 59, 90, 120, 151, 181, 212, 243, 273, 304, 334])"

text \<open>\<open>MakeDay\<close>: the month counts from 0 and may lie outside the year, the date outside the month.\<close>

definition make_day :: "int \<Rightarrow> int \<Rightarrow> int \<Rightarrow> int" where
  "make_day y m d =
     (let ym = y + m div 12
      in day_from_year ym + month_starts (leap_year ym) ! nat (m mod 12) + d - 1)"

text \<open>The two-digit years of \<open>Date.UTC\<close>.\<close>

definition full_year :: "int \<Rightarrow> int" where
  "full_year y = (if 0 \<le> y \<and> y \<le> 99 then 1900 + y else y)"

definition date_utc :: "int \<Rightarrow> int \<Rightarrow> int \<Rightarrow> int \<Rightarrow> int \<Rightarrow> int" where
  "date_utc y m d h mi = make_day (full_year y) m d * MS_PER_DAY + h * MS_PER_HOUR + mi * 60000"

lemma div_step: "0 < n \<Longrightarrow> (x + 1) div n = x div n + (if n dvd x + 1 then 1 else 0)" for x n :: int
proof -
  assume n: "0 < n"
  have x: "x = n * (x div n) + x mod n" by simp
  show ?thesis
  proof (cases "x mod n = n - 1")
    case True
    have "n * (x div n + 1) = n * (x div n) + n" by (simp add: distrib_left)
    then have e: "x + 1 = n * (x div n + 1)" using x True by linarith
    then have "n dvd x + 1" by (rule dvdI)
    moreover have "(x + 1) div n = x div n + 1" using n by (subst e) simp
    ultimately show ?thesis by simp
  next
    case False
    moreover have "x mod n < n" "0 \<le> x mod n" using n by simp_all
    ultimately have r: "x mod n + 1 < n" "0 \<le> x mod n + 1" by linarith+
    have e: "x + 1 = n * (x div n) + (x mod n + 1)" using x by linarith
    have "(x + 1) div n = x div n" using e r(2) r(1) by (rule int_div_pos_eq)
    moreover have "(x + 1) mod n = x mod n + 1" using e r(2) r(1) by (rule int_mod_pos_eq)
    then have "\<not> n dvd x + 1" using r n by (metis dvd_imp_mod_0 add_nonneg_eq_0_iff pos_mod_sign zero_le_one zero_neq_one)
    ultimately show ?thesis by simp
  qed
qed

lemma day_from_year_step: "365 \<le> day_from_year (y + 1) - day_from_year y" "day_from_year (y + 1) - day_from_year y \<le> 366"
proof -
  have i: "400 dvd y - 1600 \<Longrightarrow> 100 dvd y - 1900" "100 dvd y - 1900 \<Longrightarrow> 4 dvd y - 1968"
    by presburger+
  have "day_from_year (y + 1) - day_from_year y =
      365 + (if 4 dvd y - 1968 then 1 else 0) - (if 100 dvd y - 1900 then 1 else 0)
          + (if 400 dvd y - 1600 then 1 else 0)"
    using div_step[of 4 "y - 1969"] div_step[of 100 "y - 1901"] div_step[of 400 "y - 1601"]
    by (simp add: day_from_year_def)
  then show "365 \<le> day_from_year (y + 1) - day_from_year y" "day_from_year (y + 1) - day_from_year y \<le> 366"
    using i by (simp_all split: if_splits)
qed

text \<open>The year a day lies in: the last year that starts on or before it.\<close>

function year_from :: "int \<Rightarrow> int \<Rightarrow> int" where
  "year_from t y = (if day_from_year (y + 1) \<le> t then year_from t (y + 1) else y)"
  by pat_completeness auto
termination
proof (relation "measure (\<lambda>(t, y). nat (t - day_from_year y))")
  fix t y :: int
  assume "day_from_year (y + 1) \<le> t"
  then show "((t, y + 1), (t, y)) \<in> measure (\<lambda>(t, y). nat (t - day_from_year y))"
    using day_from_year_step(1)[of y] by simp
qed simp

declare year_from.simps [simp del]

definition year_of_day :: "int \<Rightarrow> int" where
  "year_of_day t = year_from t (1969 + (if 0 \<le> t then t div 366 else t div 365))"

definition month_of_yday :: "bool \<Rightarrow> int \<Rightarrow> nat" where
  "month_of_yday leap yd = length (takeWhile (\<lambda>s. s \<le> yd) (month_starts leap)) - 1"

definition civil_of_day :: "int \<Rightarrow> int \<times> int \<times> int" where
  "civil_of_day t =
     (let y = year_of_day t; yd = t - day_from_year y; m = month_of_yday (leap_year y) yd
      in (y, int m + 1, yd - month_starts (leap_year y) ! m + 1))"

text \<open>\<open>toISOString\<close> for the years 0 to 9999.\<close>

fun padded :: "nat \<Rightarrow> string \<Rightarrow> string" where
  "padded n s = replicate (n - length s) (CHR ''0'') @ s"

definition iso_string :: "int \<Rightarrow> string" where
  "iso_string t =
     (let (y, m, d) = civil_of_day (t div MS_PER_DAY); r = t mod MS_PER_DAY
      in padded 4 (int_digits y) @ ''-'' @ padded 2 (int_digits m) @ ''-'' @ padded 2 (int_digits d) @ ''T'' @
         padded 2 (int_digits (r div MS_PER_HOUR)) @ '':'' @ padded 2 (int_digits (r div 60000 mod 60)) @ '':'' @
         padded 2 (int_digits (r div 1000 mod 60)) @ ''.'' @ padded 3 (int_digits (r mod 1000)) @ ''Z'')"

section \<open>The filter\<close>

text \<open>\<open>/^\d{4}-\d{2}-\d{2}$/\<close>, and the three numbers of such a text.\<close>

definition parse_ymd :: "string \<Rightarrow> (int \<times> int \<times> int) option" where
  "parse_ymd s =
     (let y = take 4 s; m = take 2 (drop 5 s); d = drop 8 s
      in if length s = 10 \<and> list_all is_digit y \<and> s ! 4 = CHR ''-'' \<and> list_all is_digit m \<and>
            s ! 7 = CHR ''-'' \<and> list_all is_digit d
         then Some (digits_val y, digits_val m, digits_val d) else None)"

definition IST_OFFSET :: int where "IST_OFFSET = 5 * MS_PER_HOUR + 30 * 60000"

text \<open>\<open>Intl.DateTimeFormat('en-CA', { timeZone: 'Asia/Kolkata' })\<close> of an instant.\<close>

definition ist_date :: "int \<Rightarrow> int \<times> int \<times> int" where
  "ist_date now = civil_of_day ((now + IST_OFFSET) div MS_PER_DAY)"

definition resolveSellerDateRange :: "int \<Rightarrow> string option \<Rightarrow> (int \<times> int) option" where
  "resolveSellerDateRange now dateParam =
     (if \<not> truthy (opt_trim dateParam) then None else
      case (if dateParam = Some ''today'' then Some (ist_date now) else parse_ymd (the dateParam)) of
        None \<Rightarrow> None
      | Some (y, m, d) \<Rightarrow> Some (date_utc y (m - 1) d (-5) (-30), date_utc y (m - 1) (d + 1) (-5) (-30)))"

definition in_range_opt :: "(int \<times> int) option \<Rightarrow> int \<Rightarrow> bool" where
  "in_range_opt r t = (case r of None \<Rightarrow> True | Some (lo, hi) \<Rightarrow> lo \<le> t \<and> t < hi)"

section \<open>Dates and days agree\<close>

lemma year_from_bounds:
  "day_from_year y \<le> t \<Longrightarrow>
   day_from_year (year_from t y) \<le> t \<and> t < day_from_year (year_from t y + 1)"
proof (induction t y rule: year_from.induct)
  case (1 t y)
  then show ?case by (cases "day_from_year (y + 1) \<le> t") (simp_all add: year_from.simps[of t y])
qed

lemma year_of_day_bounds:
  "day_from_year (year_of_day t) \<le> t" "t < day_from_year (year_of_day t + 1)"
proof -
  have d: "n * (x div n) \<le> x" "x < n * (x div n) + n" if "0 < n" for n x :: int
    using that mult_div_mod_eq[of n x] pos_mod_sign[of n x] pos_mod_bound[of n x] by linarith+
  have "day_from_year (1969 + k) \<le> t" if "0 \<le> k \<and> 366 * k \<le> t \<or> k \<le> 0 \<and> 365 * k \<le> t" for k
    using that d(1)[of 4 k] d(2)[of 100 "k + 68"] d(1)[of 400 "k + 368"]
    by (auto simp: day_from_year_def algebra_simps)
  then have "day_from_year (1969 + (if 0 \<le> t then t div 366 else t div 365)) \<le> t"
    using d(1)[of 366 t] d(1)[of 365 t] by (auto simp: pos_imp_zdiv_nonneg_iff)
  from year_from_bounds[OF this]
  show "day_from_year (year_of_day t) \<le> t" "t < day_from_year (year_of_day t + 1)"
    by (simp_all add: year_of_day_def)
qed

lemma month_of_yday_less: "month_of_yday leap yd < 12"
  using length_takeWhile_le[of "\<lambda>s. s \<le> yd" "month_starts leap"]
  by (simp add: month_of_yday_def month_starts_def split: if_splits)

lemma make_day_month: "m < 12 \<Longrightarrow>
  make_day y (int m) d = day_from_year y + month_starts (leap_year y) ! m + d - 1"
  by (simp add: make_day_def)

text \<open>The civil date of a day denotes that day.\<close>

lemma make_day_civil: "civil_of_day t = (y, m, d) \<Longrightarrow> make_day y (m - 1) d = t"
  by (auto simp: civil_of_day_def Let_def make_day_month month_of_yday_less)

lemma make_day_next: "make_day y m (d + 1) = make_day y m d + 1"
  by (simp add: make_day_def Let_def)

lemma civil_year: "fst (civil_of_day t) = year_of_day t"
  by (simp add: civil_of_day_def Let_def)

end
