(* ===== verification/OrderViews.thy ===== *)
theory OrderViews
  imports Calendar
begin

text \<open>
  What buyers and sellers see of an order: src/orders/buyer-order.mapper.ts and
  src/orders/seller-order.mapper.ts. An instant stands for its ISO text. The relations a query
  includes (products, sellers, buyers, replacement requests) are read from the tables.
\<close>

section \<open>Timelines\<close>

datatype step_state = Done | Active | Upcoming

record step =
  tl_step :: string
  tl_label :: string
  tl_done :: bool
  tl_at :: "int option"

record timeline_step =
  ts_step :: string
  ts_label :: string
  ts_state :: step_state
  ts_at :: "int option"

definition shown :: "step \<Rightarrow> step_state \<Rightarrow> timeline_step" where
  "shown s1 st = \<lparr>ts_step = tl_step s1, ts_label = tl_label s1, ts_state = st, ts_at = tl_at s1\<rparr>"

text \<open>The seller's loop remembers in \<open>foundActive\<close> whether an active step was passed.\<close>

fun mark_scan :: "bool \<Rightarrow> step list \<Rightarrow> timeline_step list" where
  "mark_scan found [] = []"
| "mark_scan found (s1 # ss) =
     (if tl_done s1 then shown s1 Done # mark_scan found ss
      else if \<not> found then shown s1 Active # mark_scan True ss
      else shown s1 Upcoming # mark_scan found ss)"

text \<open>The buyer's loop computes the index of the first open step, the last one if none is open.\<close>

definition active_index :: "step list \<Rightarrow> nat" where
  "active_index ss =
     (let i = length (takeWhile tl_done ss) in if i < length ss then i else length ss - 1)"

definition mark_index :: "step list \<Rightarrow> timeline_step list" where
  "mark_index ss =
     map (\<lambda>(i, s1). shown s1 (if tl_done s1 then Done else if i = active_index ss then Active else Upcoming))
       (enumerate 0 ss)"

definition seller_steps :: "order_row \<Rightarrow> step list" where
  "seller_steps o1 =
     (let st = o_status o1 in
      [\<lparr>tl_step = ''received'', tl_label = ''Order received'',
        tl_done = (st \<noteq> PENDING \<and> st \<noteq> CANCELLED), tl_at = Some (o_createdAt o1)\<rparr>,
       \<lparr>tl_step = ''pack_video'', tl_label = ''Record packing video'',
        tl_done = (truthy (o_packingVideoUrl o1) \<or> st = PACKED \<or> st = SHIPPED \<or> st = DELIVERED),
        tl_at = o_packedAt o1\<rparr>,
       \<lparr>tl_step = ''packed'', tl_label = ''Packed'',
        tl_done = (st = PACKED \<or> st = SHIPPED \<or> st = DELIVERED), tl_at = o_packedAt o1\<rparr>,
       \<lparr>tl_step = ''delhivery'', tl_label = ''Delhivery pickup'',
        tl_done = (truthy (o_trackingId o1) \<or> st = SHIPPED \<or> st = DELIVERED), tl_at = o_shippedAt o1\<rparr>,
       \<lparr>tl_step = ''in_transit'', tl_label = ''In transit'',
        tl_done = (st = SHIPPED \<or> st = DELIVERED), tl_at = o_shippedAt o1\<rparr>,
       \<lparr>tl_step = ''delivered'', tl_label = ''Delivered'',
        tl_done = (st = DELIVERED), tl_at = o_deliveredAt o1\<rparr>])"

definition buildSellerOrderTimeline :: "order_row \<Rightarrow> timeline_step list" where
  "buildSellerOrderTimeline o1 = mark_scan False (seller_steps o1)"

definition buyer_steps :: "order_row \<Rightarrow> step list" where
  "buyer_steps o1 =
     (let st = o_status o1 in
      [\<lparr>tl_step = ''placed'', tl_label = ''Order placed'', tl_done = (st \<noteq> PENDING),
        tl_at = Some (o_createdAt o1)\<rparr>,
       \<lparr>tl_step = ''confirmed'', tl_label = ''Confirmed'',
        tl_done = (st \<in> {PAID, PACKED, SHIPPED, DELIVERED}), tl_at = Some (o_createdAt o1)\<rparr>,
       \<lparr>tl_step = ''packed'', tl_label = ''Packed'', tl_done = (st \<in> {PACKED, SHIPPED, DELIVERED}),
        tl_at = o_packedAt o1\<rparr>,
       \<lparr>tl_step = ''shipped'', tl_label = ''Shipped'',
        tl_done = (st \<in> {SHIPPED, DELIVERED} \<or> truthy (o_trackingId o1)), tl_at = o_shippedAt o1\<rparr>,
       \<lparr>tl_step = ''delivered'', tl_label = ''Delivered'', tl_done = (st = DELIVERED),
        tl_at = o_deliveredAt o1\<rparr>])"

definition buildBuyerOrderTimeline :: "order_row \<Rightarrow> timeline_step list" where
  "buildBuyerOrderTimeline o1 =
     (if o_status o1 = CANCELLED then
        [\<lparr>ts_step = ''placed'', ts_label = ''Order placed'', ts_state = Done, ts_at = Some (o_createdAt o1)\<rparr>,
         \<lparr>ts_step = ''cancelled'', ts_label = ''Cancelled'', ts_state = Active, ts_at = None\<rparr>]
      else mark_index (buyer_steps o1))"

datatype next_action = PACK_VIDEO | REQUEST_DELIVERY | TRACK | NO_ACTION

definition buildSellerNextAction :: "order_status \<Rightarrow> next_action \<times> string" where
  "buildSellerNextAction st =
     (case st of
        PAID \<Rightarrow> (PACK_VIDEO, ''Record packing video'')
      | PACKED \<Rightarrow> (REQUEST_DELIVERY, ''Request Delhivery pickup'')
      | SHIPPED \<Rightarrow> (TRACK, ''Refresh delivery status'')
      | _ \<Rightarrow> (NO_ACTION, ''No action needed''))"

definition isDelhiveryDeliveredStatus :: "string option \<Rightarrow> bool" where
  "isDelhiveryDeliveredStatus status =
     (if \<not> truthy status then False else
      let s1 = to_lower (trim (the status))
      in s1 = ''delivered'' \<or> s1 = ''dto'' \<or> str_includes s1 ''delivered'')"

section \<open>The views\<close>

record product_view =
  pv_id :: string
  pv_name :: string
  pv_images :: "string list"

record line_view =
  lv_id :: string
  lv_quantity :: int
  lv_price :: num
  lv_variantId :: "string option"
  lv_variantLabel :: "string option"
  lv_product :: "product_view option" \<comment> \<open>present for every line: \<open>productId\<close> is a foreign key\<close>

definition view_product :: "product_row \<Rightarrow> product_view" where
  "view_product p = \<lparr>pv_id = p_id p, pv_name = p_name p, pv_images = p_images p\<rparr>"

definition view_line :: "world \<Rightarrow> order_item_row \<Rightarrow> line_view" where
  "view_line w it =
     \<lparr>lv_id = oi_id it, lv_quantity = oi_quantity it, lv_price = oi_price it,
      lv_variantId = oi_variantId it, lv_variantLabel = oi_variantLabel it,
      lv_product = map_option view_product (tget (products w) (oi_productId it))\<rparr>"

record buyer_list_item =
  bl_id :: string
  bl_status :: order_status
  bl_totalAmount :: num
  bl_deliveryFee :: num
  bl_createdAt :: int
  bl_deliveredAt :: "int option"
  bl_itemCount :: int
  bl_primaryProductName :: string
  bl_primaryProductImage :: "string option"
  bl_sellerName :: "string option"
  bl_hasOpenReplacement :: bool
  bl_hasFulfilledReplacement :: bool
  bl_items :: "line_view list"

record buyer_detail = buyer_list_item +
  bd_shippingAddress :: "string option"
  bd_trackingId :: "string option"
  bd_carrierName :: "string option"
  bd_trackingUrl :: "string option"
  bd_deliveryStatus :: "string option"
  bd_timeline :: "timeline_step list"
  bd_canRequestReplacement :: bool
  bd_openReplacementId :: "string option"

record seller_view =
  sv_id :: string
  sv_status :: order_status
  sv_totalAmount :: num
  sv_deliveryFee :: num
  sv_shippingAddress :: "string option"
  sv_streamId :: "string option"
  sv_packingVideoUrl :: "string option"
  sv_packedAt :: "int option"
  sv_shippedAt :: "int option"
  sv_deliveredAt :: "int option"
  sv_trackingId :: "string option"
  sv_carrierName :: "string option"
  sv_trackingUrl :: "string option"
  sv_deliveryStatus :: "string option"
  sv_createdAt :: int
  sv_buyer :: "(string \<times> string \<times> string option) option" \<comment> \<open>name, email, phone of the buyer's user\<close>
  sv_items :: "line_view list" \<comment> \<open>the seller's view leaves out \<open>lv_id\<close>\<close>
  sv_timeline :: "timeline_step list"
  sv_nextAction :: "next_action \<times> string"

definition head_opt :: "'a list \<Rightarrow> 'a option" where
  "head_opt xs = (case xs of [] \<Rightarrow> None | x # _ \<Rightarrow> Some x)"

definition requests_of :: "world \<Rightarrow> string \<Rightarrow> replacement_row list" where
  "requests_of w oid = filter (\<lambda>r. r_orderId r = oid) (trows (replacements w))"

definition open_request :: "replacement_row \<Rightarrow> bool" where
  "open_request r \<longleftrightarrow> r_status r \<noteq> REJECTED \<and> r_status r \<noteq> R_DELIVERED"

definition mapBuyerOrderListItem :: "world \<Rightarrow> order_row \<Rightarrow> buyer_list_item" where
  "mapBuyerOrderListItem w o1 =
     (let first = Option.bind (head_opt (o_items o1)) (\<lambda>it. tget (products w) (oi_productId it));
          rs = requests_of w (o_id o1)
      in \<lparr>bl_id = o_id o1, bl_status = o_status o1, bl_totalAmount = o_totalAmount o1,
          bl_deliveryFee = o_deliveryFee o1, bl_createdAt = o_createdAt o1,
          bl_deliveredAt = o_deliveredAt o1,
          bl_itemCount = sum_list (map oi_quantity (o_items o1)),
          bl_primaryProductName = (case first of None \<Rightarrow> ''Order'' | Some p \<Rightarrow> p_name p),
          bl_primaryProductImage = Option.bind first (\<lambda>p. head_opt (p_images p)),
          bl_sellerName = Option.bind first (\<lambda>p. map_option s_businessName (tget (sellers w) (p_sellerId p))),
          bl_hasOpenReplacement = list_ex open_request rs,
          bl_hasFulfilledReplacement = list_ex (\<lambda>r. r_status r = R_DELIVERED) rs,
          bl_items = map (view_line w) (o_items o1)\<rparr>)"

definition mapBuyerOrderDetail :: "world \<Rightarrow> order_row \<Rightarrow> buyer_detail" where
  "mapBuyerOrderDetail w o1 =
     (let rs = requests_of w (o_id o1);
          openReplacement = find open_request rs;
          hasUsedReplacement = list_ex (\<lambda>r. r_status r \<noteq> REJECTED) rs
      in buyer_list_item.extend (mapBuyerOrderListItem w o1)
          (buyer_detail.fields (o_shippingAddress o1) (o_trackingId o1) (o_carrierName o1)
            (o_borzoTrackingUrl o1) (o_deliveryStatus o1) (buildBuyerOrderTimeline o1)
            (o_status o1 = DELIVERED \<and> o_deliveredAt o1 \<noteq> None \<and> openReplacement = None \<and>
             \<not> hasUsedReplacement)
            (map_option r_id openReplacement)))"

definition user_of_buyer :: "world \<Rightarrow> string option \<Rightarrow> user_row option" where
  "user_of_buyer w bid =
     Option.bind bid (\<lambda>b. Option.bind (tget (buyers w) b) (\<lambda>r. tget (users w) (b_userId r)))"

definition mapSellerOrder :: "world \<Rightarrow> order_row \<Rightarrow> seller_view" where
  "mapSellerOrder w o1 =
     \<lparr>sv_id = o_id o1, sv_status = o_status o1, sv_totalAmount = o_totalAmount o1,
      sv_deliveryFee = o_deliveryFee o1, sv_shippingAddress = o_shippingAddress o1,
      sv_streamId = o_streamId o1, sv_packingVideoUrl = o_packingVideoUrl o1,
      sv_packedAt = o_packedAt o1, sv_shippedAt = o_shippedAt o1, sv_deliveredAt = o_deliveredAt o1,
      sv_trackingId = o_trackingId o1, sv_carrierName = o_carrierName o1,
      sv_trackingUrl = o_borzoTrackingUrl o1, sv_deliveryStatus = o_deliveryStatus o1,
      sv_createdAt = o_createdAt o1,
      sv_buyer = map_option (\<lambda>u. (u_name u, u_email u, u_phone u)) (user_of_buyer w (o_buyerId o1)),
      sv_items = map (\<lambda>it. (view_line w it)\<lparr>lv_id := []\<rparr>) (o_items o1),
      sv_timeline = buildSellerOrderTimeline o1,
      sv_nextAction = buildSellerNextAction (o_status o1)\<rparr>"

section \<open>The two ways of marking a timeline agree\<close>

lemma mark_scan_found:
  "mark_scan True ss = map (\<lambda>s1. shown s1 (if tl_done s1 then Done else Upcoming)) ss"
  by (induction ss) auto

lemma mark_from:
  "k = n + length (takeWhile tl_done ss) \<Longrightarrow>
   map (\<lambda>(i, s1). shown s1 (if tl_done s1 then Done else if i = k then Active else Upcoming))
     (enumerate n ss) = mark_scan False ss"
proof (induction ss arbitrary: n)
  case Nil
  then show ?case by simp
next
  case (Cons s1 ss)
  show ?case
  proof (cases "tl_done s1")
    case True
    then show ?thesis using Cons.IH[of "Suc n"] Cons.prems by simp
  next
    case False
    then have k: "k = n" using Cons.prems by simp
    have "map (\<lambda>(i, s'). shown s' (if tl_done s' then Done else if i = k then Active else Upcoming))
            (enumerate (Suc n) ss)
        = map (\<lambda>s'. shown s' (if tl_done s' then Done else Upcoming)) ss"
      by (rule nth_equalityI) (auto simp: nth_enumerate_eq k)
    with False k show ?thesis by (simp add: mark_scan_found)
  qed
qed

lemma mark_index_scan: "mark_index ss = mark_scan False ss"
proof (cases "length (takeWhile tl_done ss) < length ss")
  case True
  then have "active_index ss = 0 + length (takeWhile tl_done ss)" by (simp add: active_index_def)
  then show ?thesis unfolding mark_index_def by (rule mark_from)
next
  case False
  then have "takeWhile tl_done ss = ss"
    by (metis length_takeWhile_le linorder_not_less nat_less_le takeWhile_eq_all_conv takeWhile_nth
        takeWhile_eq_take take_all)
  then have d: "\<And>x. x \<in> set ss \<Longrightarrow> tl_done x" by (metis set_takeWhileD)
  have "mark_index ss = map (\<lambda>s1. shown s1 Done) ss"
    unfolding mark_index_def by (rule nth_equalityI) (auto simp: nth_enumerate_eq d)
  moreover have "mark_scan False ss = map (\<lambda>s1. shown s1 Done) ss"
    using d by (induction ss) auto
  ultimately show ?thesis by simp
qed

lemma mark_scan_active:
  "length (filter (\<lambda>t. ts_state t = Active) (mark_scan found ss)) =
     (if found \<or> list_all tl_done ss then 0 else 1)"
proof (induction ss arbitrary: found)
  case (Cons s1 ss)
  then show ?case by (cases found; cases "tl_done s1") (simp_all add: shown_def)
qed simp

end
