(* ===== verification/Shipping.thy ===== *)
theory Shipping
  imports Checkout OrderViews
begin

text \<open>
  What the fulfilment of orders and of replacements shares: uploading a packing video
  (src/common/utils/public-base-url.ts and Node's \<open>path.extname\<close>), reading a pin code and a phone
  number, booking a shipment with the partner, and the in-memory mock carrier
  (src/orders/mock-delivery.service.ts).
\<close>

section \<open>Uploads\<close>

fun pickBase :: "string option list \<Rightarrow> string" where
  "pickBase [] = ''http://localhost:3000''"
| "pickBase (c # cs) =
     (if truthy (opt_trim c)
      then (let t = trim (the c) in if last t = CHR ''/'' then butlast t else t)
      else pickBase cs)"

definition resolvePublicBaseUrl :: "config \<Rightarrow> string" where
  "resolvePublicBaseUrl cfg = pickBase (cfg_baseUrls cfg)"

text \<open>\<open>path.extname\<close>: from the last dot of the base name, unless that dot starts it.\<close>

definition base_name :: "string \<Rightarrow> string" where
  "base_name s =
     rev (takeWhile (\<lambda>c. c \<noteq> CHR ''/'') (dropWhile (\<lambda>c. c = CHR ''/'') (rev s)))"

definition extname :: "string \<Rightarrow> string" where
  "extname s =
     (let b = base_name s; after = rev (takeWhile (\<lambda>c. c \<noteq> CHR ''.'') (rev b))
      in if CHR ''.'' \<notin> set b \<or> length after + 1 = length b \<or> b = ''..'' then []
         else CHR ''.'' # after)"

record upload =
  up_name :: string
  up_bytes :: string

text \<open>An absent file and an empty buffer are refused alike.\<close>

definition no_file :: "upload option \<Rightarrow> bool" where
  "no_file f = (case f of None \<Rightarrow> True | Some u \<Rightarrow> up_bytes u = [])"

definition video_name :: "string \<Rightarrow> upload \<Rightarrow> string" where
  "video_name stem u = stem @ (if extname (up_name u) = [] then ''.mp4'' else extname (up_name u))"

definition save_file :: "string \<Rightarrow> upload \<Rightarrow> unit handler" where
  "save_file path u = writes (\<lambda>w. w\<lparr>files := tput path (up_bytes u) (files w)\<rparr>)"

section \<open>Pin codes and phones\<close>

definition is_word_char :: "char \<Rightarrow> bool" where
  "is_word_char c \<longleftrightarrow> is_digit c \<or> c = CHR ''_'' \<or>
     (let n = of_char c :: nat in 65 \<le> n \<and> n \<le> 90 \<or> 97 \<le> n \<and> n \<le> 122)"

definition pin_here :: "string \<Rightarrow> bool" where
  "pin_here s \<longleftrightarrow> length (take 6 s) = 6 \<and> list_all is_digit (take 6 s) \<and>
     (case drop 6 s of [] \<Rightarrow> True | c # _ \<Rightarrow> \<not> is_word_char c)"

text \<open>\<open>s.match(/\b(\d{6})\b/)?.[1]\<close>; the flag says whether a word character comes before.\<close>

fun pin_match :: "bool \<Rightarrow> string \<Rightarrow> string option" where
  "pin_match word [] = None"
| "pin_match word (c # cs) =
     (if \<not> word \<and> pin_here (c # cs) then Some (take 6 (c # cs)) else pin_match (is_word_char c) cs)"

definition normalizeInPhone :: "string \<Rightarrow> string" where
  "normalizeInPhone raw =
     (let digits = filter is_digit raw
      in if digits = [] then raw
         else if length digits = 10 then ''91'' @ digits
         else digits)"

text \<open>The function of the same name in src/replacements/replacements.service.ts drops the country code.\<close>

definition normalizeInPhone_replacement :: "string \<Rightarrow> string" where
  "normalizeInPhone_replacement raw =
     (let digits = filter is_digit raw
      in if length digits = 10 then digits
         else if length digits = 12 \<and> starts_with ''91'' digits then drop 2 digits
         else digits)"

section \<open>Booking a shipment\<close>

definition pickup_location :: "config \<Rightarrow> seller_row \<Rightarrow> string" where
  "pickup_location cfg s1 =
     (if truthy (opt_trim (cfg_pickupLocation cfg)) then trim (the (cfg_pickupLocation cfg))
      else trim (s_businessName s1))"

definition partner_id :: "string \<Rightarrow> string" where
  \<comment> \<open>\<open>id.replace(/-/g, '').slice(0, 32)\<close>\<close>
  "partner_id i = take 32 (filter (\<lambda>c. c \<noteq> CHR ''-'') i)"

definition book_shipment ::
    "config \<Rightarrow> shipping_api \<Rightarrow> seller_row \<Rightarrow> string \<Rightarrow> order_row \<Rightarrow> string \<Rightarrow> (string \<Rightarrow> string) \<Rightarrow> int
     \<Rightarrow> shipment handler" where
  "book_shipment cfg api s1 uid o1 i phone weight =
     bind_act (reads (\<lambda>w. latest_pickup w uid)) (\<lambda>pick.
     case pick of
       None \<Rightarrow> throw (BadRequest ''Pickup address is missing. Please update pickup address in store profile.'')
     | Some pickup \<Rightarrow>
     bind_act (reads (\<lambda>w. user_of_buyer w (o_buyerId o1))) (\<lambda>buyer.
     let buyerPhone = Option.bind buyer u_phone;
         drop_addr = opt_trim (o_shippingAddress o1);
         origin = trim (a_zip pickup)
     in if \<not> truthy buyerPhone then throw (BadRequest ''Buyer phone is missing'')
        else if \<not> truthy drop_addr then throw (BadRequest ''Order shipping address is missing'')
        else if length origin \<noteq> 6
        then throw (BadRequest ''Pickup pincode is missing or invalid. Update pickup address in store profile.'')
        else case pin_match False (the drop_addr) of
          None \<Rightarrow> throw (BadRequest ''Could not find a valid 6-digit pincode in the shipping address.'')
        | Some dest \<Rightarrow>
        if \<not> dh_configured api
        then throw (ServiceUnavailable ''Delhivery is not configured on the server. Contact support.'')
        else case dh_create api
            \<lparr>sq_orderId = partner_id i, sq_pickupLocationName = pickup_location cfg s1,
             sq_originPin = origin, sq_destinationPin = dest,
             sq_consigneeName = (case buyer of None \<Rightarrow> ''Buyer'' | Some u \<Rightarrow> u_name u),
             sq_consigneePhone = phone (the buyerPhone), sq_consigneeAddress = the drop_addr,
             sq_weightGrams = weight\<rparr> of
          Inl e \<Rightarrow> throw e
        | Inr None \<Rightarrow> throw (BadRequest ''Delhivery could not create shipment. no waybill returned'')
        | Inr (Some sh) \<Rightarrow>
            if truthy (sh_waybill sh) then ret sh
            else throw (BadRequest (''Delhivery could not create shipment. '' @ sh_detail sh))))"

section \<open>The mock carrier\<close>

definition requestPickup :: "string \<Rightarrow> (string \<times> string \<times> string) handler" where
  "requestPickup oid =
     seq_act (writes (\<lambda>w. w\<lparr>shipments := tput oid
        \<lparr>ms_createdAt = clock w, ms_lastPoll = clock w, ms_phase = 0\<rparr> (shipments w)\<rparr>))
     (ret (''MOCK-'' @ map (\<lambda>c. let n = of_char c :: nat in if 97 \<le> n \<and> n \<le> 122 then char_of (n - 32) else c)
             (take 10 (filter (\<lambda>c. c \<noteq> CHR ''-'') oid)),
           ''VybeKart Mock Logistics'', ''mock-shp-'' @ oid))"

definition mock_status :: "world \<Rightarrow> string \<Rightarrow> string" where
  "mock_status w oid =
     (case tget (shipments w) oid of
        None \<Rightarrow> ''UNKNOWN''
      | Some s1 \<Rightarrow>
          let elapsed = clock w - ms_createdAt s1
          in if elapsed < 15000 then ''REQUESTED''
             else if elapsed < 45000 then ''PICKED_UP''
             else if elapsed < 120000 then ''IN_TRANSIT''
             else ''OUT_FOR_DELIVERY'')"

definition touchPoll :: "string \<Rightarrow> unit handler" where
  "touchPoll oid = writes (\<lambda>w. w\<lparr>shipments := tupd oid
     (\<lambda>s1. s1\<lparr>ms_lastPoll := clock w, ms_phase := min (ms_phase s1 + 1) 4\<rparr>) (shipments w)\<rparr>)"

section \<open>What these return\<close>

lemma pin_match_digits: "pin_match b s = Some pin \<Longrightarrow> length pin = 6 \<and> list_all is_digit pin"
  by (induction b s rule: pin_match.induct) (auto simp: pin_here_def simp del: take_Suc_Cons split: if_splits)

lemma wp_book_shipment:
  "(\<And>e. Q (Inl e) w) \<Longrightarrow> (\<And>sh. truthy (sh_waybill sh) \<Longrightarrow> Q (Inr sh) w) \<Longrightarrow>
   wp (book_shipment cfg api s1 uid o1 i phone weight) Q w"
  by (auto simp: book_shipment_def wp_simps Let_def split: option.splits sum.splits)

lemma keeps_book_shipment [keeps_rules]: "keeps P (book_shipment cfg api s1 uid o1 i phone weight)"
  by (rule keepsI) (rule wp_book_shipment)

lemma extname_dot: "extname s \<noteq> [] \<Longrightarrow> hd (extname s) = CHR ''.''"
  by (auto simp: extname_def Let_def)

end
