(* ===== verification/Ratings.thy ===== *)
theory Ratings
  imports World
begin

text \<open>
  Buyer and seller ratings and the live-stream reward, src/ratings/ratings.service.ts. Scores are
  binary64 numbers between 0 and 5; the data-transfer objects restrict the submitted ones to that
  range (\<open>@Min(0) @Max(5)\<close>).
\<close>

section \<open>Operations\<close>

definition default_buyer_rating :: buyer_rating_row where
  "default_buyer_rating = \<lparr>br_score = 5, br_replacementCount = 0, br_deliveredCount = 0\<rparr>"

definition default_seller_rating :: seller_rating_row where
  "default_seller_rating = \<lparr>sr_overall = 5, sr_quality = 5, sr_originality = 5, sr_valueForMoney = 5\<rparr>"

definition buyer_rating_of :: "world \<Rightarrow> string \<Rightarrow> buyer_rating_row" where
  "buyer_rating_of w bid = (case tget (buyerRatings w) bid of None \<Rightarrow> default_buyer_rating | Some r \<Rightarrow> r)"

definition seller_rating_of :: "world \<Rightarrow> string \<Rightarrow> seller_rating_row" where
  "seller_rating_of w sid = (case tget (sellerRatings w) sid of None \<Rightarrow> default_seller_rating | Some r \<Rightarrow> r)"

text \<open>The upserts with an empty \<open>update\<close>: create the default row, or leave the row alone.\<close>

definition ensureBuyerRating :: "string \<Rightarrow> buyer_rating_row handler" where
  "ensureBuyerRating bid =
     bind_act (reads (\<lambda>w. buyer_rating_of w bid)) (\<lambda>r.
     seq_act (writes (\<lambda>w. w\<lparr>buyerRatings := tput bid r (buyerRatings w)\<rparr>)) (ret r))"

definition ensureSellerRating :: "string \<Rightarrow> seller_rating_row handler" where
  "ensureSellerRating sid =
     bind_act (reads (\<lambda>w. seller_rating_of w sid)) (\<lambda>r.
     seq_act (writes (\<lambda>w. w\<lparr>sellerRatings := tput sid r (sellerRatings w)\<rparr>)) (ret r))"

definition getBuyerScore :: "string \<Rightarrow> num handler" where
  "getBuyerScore bid = bind_act (ensureBuyerRating bid) (\<lambda>r. ret (br_score r))"

definition seller_replacement_percent :: "world \<Rightarrow> string \<Rightarrow> num" where
  "seller_replacement_percent w sid =
     (let fulfilled = tcount (\<lambda>o1. o_status o1 = DELIVERED \<and> order_has_seller w o1 sid) (orders w);
          approved = tcount (\<lambda>r. r_sellerId r = sid \<and> r_status r \<in> {APPROVED, R_SHIPPED, R_DELIVERED})
                       (replacements w)
      in if fulfilled = 0 then 0
         else ndiv (of_int (math_round (nmul (ndiv (of_nat approved) (of_nat fulfilled)) 1000))) 10)"

record seller_public =
  sp_sellerId :: string
  sp_rating :: seller_rating_row
  sp_replacementPercent :: num

definition getSellerPublic :: "string \<Rightarrow> seller_public handler" where
  "getSellerPublic sid =
     bind_act (ensureSellerRating sid) (\<lambda>r.
     bind_act (reads (\<lambda>w. seller_replacement_percent w sid)) (\<lambda>pc.
     ret \<lparr>sp_sellerId = sid, sp_rating = r, sp_replacementPercent = pc\<rparr>))"

record seller_rating_dto =
  rd_orderId :: string
  rd_quality :: num
  rd_originality :: num
  rd_valueForMoney :: num

definition rating_overall :: "seller_rating_dto \<Rightarrow> num" where
  "rating_overall d = ndiv (nadd (nadd (rd_quality d) (rd_originality d)) (rd_valueForMoney d)) 3"

definition submitSellerRating :: "string \<Rightarrow> seller_rating_dto \<Rightarrow> seller_rating_row handler" where
  "submitSellerRating uid d =
     bind_act (reads (\<lambda>w. buyer_of_user w uid)) (\<lambda>buyer.
     case buyer of None \<Rightarrow> throw (NotFound ''Buyer profile not found'') | Some b \<Rightarrow>
     bind_act (reads (\<lambda>w. case tget (orders w) (rd_orderId d) of
         Some o1 \<Rightarrow> if o_buyerId o1 = Some (b_id b) \<and> o_status o1 = DELIVERED then Some o1 else None
       | None \<Rightarrow> None)) (\<lambda>order.
     case order of None \<Rightarrow> throw (BadRequest ''Delivered order not found'') | Some o1 \<Rightarrow>
     bind_act (reads (\<lambda>w. case o_items o1 of [] \<Rightarrow> None | it # _ \<Rightarrow> item_seller w it)) (\<lambda>seller.
     case seller of None \<Rightarrow> throw (BadRequest ''Seller not found for order'') | Some sid \<Rightarrow>
     let row = \<lparr>sr_overall = rating_overall d, sr_quality = rd_quality d,
                sr_originality = rd_originality d, sr_valueForMoney = rd_valueForMoney d\<rparr>
     in seq_act (writes (\<lambda>w. w\<lparr>sellerRatings := tput sid row (sellerRatings w)\<rparr>)) (ret row))))"

definition logOverride ::
    "string \<Rightarrow> rating_entity \<Rightarrow> string \<Rightarrow> string \<Rightarrow> num \<Rightarrow> num \<Rightarrow> string option \<Rightarrow> unit handler" where
  "logOverride admin ent eid fld old new reason =
     writes (\<lambda>w. w\<lparr>overrideLogs := overrideLogs w @
       [\<lparr>ol_adminUserId = admin, ol_entityType = ent, ol_entityId = eid, ol_field = fld,
         ol_oldValue = old, ol_newValue = new, ol_reason = reason\<rparr>]\<rparr>)"

definition adminPatchBuyerRating ::
    "string \<Rightarrow> string \<Rightarrow> num \<Rightarrow> string option \<Rightarrow> buyer_rating_row handler" where
  "adminPatchBuyerRating bid admin score reason =
     bind_act (ensureBuyerRating bid) (\<lambda>old.
     seq_act (logOverride admin RE_BUYER bid ''score'' (br_score old) score reason) (
     let new = old\<lparr>br_score := score\<rparr>
     in seq_act (writes (\<lambda>w. w\<lparr>buyerRatings := tput bid new (buyerRatings w)\<rparr>)) (ret new)))"

record seller_patch =
  pt_overall :: "num option"
  pt_quality :: "num option"
  pt_originality :: "num option"
  pt_valueForMoney :: "num option"
  pt_reason :: "string option"

definition patch_fields :: "seller_patch \<Rightarrow> seller_rating_row \<Rightarrow> (string \<times> num \<times> num option) list" where
  \<comment> \<open>field name, old value, new value, in the order of the loop\<close>
  "patch_fields d r =
     [(''overall'', sr_overall r, pt_overall d), (''quality'', sr_quality r, pt_quality d),
      (''originality'', sr_originality r, pt_originality d),
      (''valueForMoney'', sr_valueForMoney r, pt_valueForMoney d)]"

definition dflt :: "'a \<Rightarrow> 'a option \<Rightarrow> 'a" where
  "dflt d x = (case x of None \<Rightarrow> d | Some y \<Rightarrow> y)"

definition apply_patch :: "seller_patch \<Rightarrow> seller_rating_row \<Rightarrow> seller_rating_row" where
  "apply_patch d r =
     \<lparr>sr_overall = dflt (sr_overall r) (pt_overall d), sr_quality = dflt (sr_quality r) (pt_quality d),
      sr_originality = dflt (sr_originality r) (pt_originality d),
      sr_valueForMoney = dflt (sr_valueForMoney r) (pt_valueForMoney d)\<rparr>"

definition adminPatchSellerRating :: "string \<Rightarrow> string \<Rightarrow> seller_patch \<Rightarrow> seller_rating_row handler" where
  "adminPatchSellerRating sid admin d =
     bind_act (ensureSellerRating sid) (\<lambda>old.
     seq_act (for_each (patch_fields d old) (\<lambda>(f, ov, nv).
       case nv of None \<Rightarrow> ret () | Some v \<Rightarrow> logOverride admin RE_SELLER sid f ov v (pt_reason d))) (
     let new = apply_patch d old
     in seq_act (writes (\<lambda>w. w\<lparr>sellerRatings := tput sid new (sellerRatings w)\<rparr>)) (ret new)))"

definition recordDeliveredOrder :: "string \<Rightarrow> unit handler" where
  "recordDeliveredOrder bid =
     bind_act (ensureBuyerRating bid) (\<lambda>_.
     writes (\<lambda>w. w\<lparr>buyerRatings :=
       tupd bid (\<lambda>r. r\<lparr>br_deliveredCount := br_deliveredCount r + 1\<rparr>) (buyerRatings w)\<rparr>))"

text \<open>
  After a replacement request: the count goes up; with three requests of the buyer in 90 days the
  score read before drops by 2, with five against the seller in 30 days its overall drops by 2.
\<close>

definition requests_since :: "(replacement_row \<Rightarrow> bool) \<Rightarrow> int \<Rightarrow> world \<Rightarrow> nat" where
  "requests_since P days w =
     tcount (\<lambda>r. P r \<and> clock w - days * MS_PER_DAY \<le> r_createdAt r) (replacements w)"

definition penalised :: "num \<Rightarrow> num" where
  "penalised score = max 0 (nsub score 2)"

definition buyer_email :: "world \<Rightarrow> string \<Rightarrow> string option" where
  "buyer_email w bid =
     Option.bind (tget (buyers w) bid) (\<lambda>b. map_option u_email (tget (users w) (b_userId b)))"

definition penalise_buyer :: "string \<Rightarrow> num \<Rightarrow> unit handler" where
  "penalise_buyer bid score =
     seq_act (writes (\<lambda>w. w\<lparr>buyerRatings :=
         tupd bid (\<lambda>r. r\<lparr>br_score := penalised score\<rparr>) (buyerRatings w)\<rparr>))
     (bind_act (reads (\<lambda>w. buyer_email w bid)) (\<lambda>em.
      if truthy em
      then writes (send_mail (MailToBuyer (the em) ''VybeKart - replacement activity notice''))
      else ret ()))"

definition penalise_seller :: "string \<Rightarrow> unit handler" where
  "penalise_seller sid =
     bind_act (ensureSellerRating sid) (\<lambda>r.
     seq_act (writes (\<lambda>w. w\<lparr>sellerRatings :=
         tupd sid (\<lambda>r'. r'\<lparr>sr_overall := penalised (sr_overall r)\<rparr>) (sellerRatings w)\<rparr>))
     (writes (send_mail (MailToSupport (''Seller replacement threshold - '' @ sid)))))"

definition onReplacementRequested :: "string \<Rightarrow> string \<Rightarrow> unit handler" where
  "onReplacementRequested bid sid =
     bind_act (ensureBuyerRating bid) (\<lambda>br.
     seq_act (writes (\<lambda>w. w\<lparr>buyerRatings :=
         tupd bid (\<lambda>r. r\<lparr>br_replacementCount := br_replacementCount r + 1\<rparr>) (buyerRatings w)\<rparr>))
     (bind_act (reads (requests_since (\<lambda>r. r_buyerId r = bid) 90)) (\<lambda>nb.
      seq_act (if 3 \<le> nb then penalise_buyer bid (br_score br) else ret ())
      (bind_act (reads (requests_since (\<lambda>r. r_sellerId r = sid) 30)) (\<lambda>ns.
       if 5 \<le> ns then penalise_seller sid else ret ())))))"

section \<open>The live-stream reward\<close>

definition QUALIFIED_DAY_SECONDS :: int where "QUALIFIED_DAY_SECONDS = 30 * 60"
definition REWARD_DAYS_REQUIRED :: nat where "REWARD_DAYS_REQUIRED = 10"
definition REWARD_WINDOW_DAYS :: int where "REWARD_WINDOW_DAYS = 30"

text \<open>Midnight UTC of the calendar day in India (UTC+05:30).\<close>

definition istDateOnly :: "int \<Rightarrow> int" where
  "istDateOnly t = ((t + 19800000) div MS_PER_DAY) * MS_PER_DAY"

record live_reward_status =
  lr_minutesToday :: int
  lr_qualifiedDaysInWindow :: nat
  lr_rewardActive :: bool
  lr_commissionWaiverActive :: bool

text \<open>
  \<open>date\<close> is a \<open>@db.Date\<close> column; \<open>db_date\<close> is how the database client narrows the instant of a
  bound to that type, which is not part of this repository.
\<close>

definition qualified_days :: "(int \<Rightarrow> int) \<Rightarrow> string \<Rightarrow> world \<Rightarrow> nat" where
  "qualified_days db_date sid w =
     tcount (\<lambda>q. qd_sellerId q = sid \<and> qd_qualified q \<and>
         db_date (clock w - REWARD_WINDOW_DAYS * MS_PER_DAY) \<le> qd_date q) (qualDays w)"

definition seconds_on :: "world \<Rightarrow> string \<Rightarrow> int \<Rightarrow> int" where
  "seconds_on w sid day = (case tget (qualDays w) (sid, day) of None \<Rightarrow> 0 | Some q \<Rightarrow> qd_totalSeconds q)"

definition getLiveRewardStatus :: "(int \<Rightarrow> int) \<Rightarrow> string \<Rightarrow> live_reward_status handler" where
  "getLiveRewardStatus db_date sid =
     bind_act (reads (\<lambda>w. seconds_on w sid (istDateOnly (clock w)))) (\<lambda>today.
     bind_act (reads (qualified_days db_date sid)) (\<lambda>n.
     bind_act (reads (\<lambda>w. tget (sellers w) sid)) (\<lambda>seller.
     ret \<lparr>lr_minutesToday = today div 60, lr_qualifiedDaysInWindow = n,
          lr_rewardActive = (REWARD_DAYS_REQUIRED \<le> n),
          lr_commissionWaiverActive =
            (case seller of None \<Rightarrow> False | Some s1 \<Rightarrow> s_commissionWaiverActive s1)\<rparr>)))"

definition refreshCommissionWaiver :: "(int \<Rightarrow> int) \<Rightarrow> string \<Rightarrow> live_reward_status handler" where
  "refreshCommissionWaiver db_date sid =
     bind_act (getLiveRewardStatus db_date sid) (\<lambda>st.
     bind_act (reads (\<lambda>w. tget (sellers w) sid)) (\<lambda>seller.
     case seller of None \<Rightarrow> throw missing_row | Some _ \<Rightarrow>
     seq_act (writes (\<lambda>w. w\<lparr>sellers :=
         tupd sid (\<lambda>s1. s1\<lparr>s_commissionWaiverActive := lr_rewardActive st\<rparr>) (sellers w)\<rparr>)) (ret st)))"

definition recordStreamDuration :: "(int \<Rightarrow> int) \<Rightarrow> string \<Rightarrow> int \<Rightarrow> live_reward_status handler" where
  "recordStreamDuration db_date sid secs =
     seq_act (writes (\<lambda>w.
       let day = istDateOnly (clock w); total = seconds_on w sid day + secs
       in w\<lparr>qualDays := tput (sid, day) \<lparr>qd_sellerId = sid, qd_date = day, qd_totalSeconds = total,
              qd_qualified = (QUALIFIED_DAY_SECONDS \<le> total)\<rparr> (qualDays w)\<rparr>))
     (refreshCommissionWaiver db_date sid)"

section \<open>Scores stay between 0 and 5\<close>

definition in_range :: "num \<Rightarrow> bool" where
  "in_range x \<longleftrightarrow> 0 \<le> x \<and> x \<le> 5"

definition buyer_rating_ok :: "buyer_rating_row \<Rightarrow> bool" where
  "buyer_rating_ok r \<longleftrightarrow> in_range (br_score r) \<and> 0 \<le> br_replacementCount r \<and> 0 \<le> br_deliveredCount r"

definition seller_rating_ok :: "seller_rating_row \<Rightarrow> bool" where
  "seller_rating_ok r \<longleftrightarrow> in_range (sr_overall r) \<and> in_range (sr_quality r) \<and> in_range (sr_originality r)
     \<and> in_range (sr_valueForMoney r)"

definition ratings_ok :: "world \<Rightarrow> bool" where
  "ratings_ok w \<longleftrightarrow> (\<forall>k r. tget (buyerRatings w) k = Some r \<longrightarrow> buyer_rating_ok r) \<and>
     (\<forall>k r. tget (sellerRatings w) k = Some r \<longrightarrow> seller_rating_ok r)"

definition dto_ok :: "seller_rating_dto \<Rightarrow> bool" where
  "dto_ok d \<longleftrightarrow> in_range (rd_quality d) \<and> in_range (rd_originality d) \<and> in_range (rd_valueForMoney d)"

definition patch_ok :: "seller_patch \<Rightarrow> bool" where
  "patch_ok d \<longleftrightarrow> (\<forall>v. v \<in> {pt_overall d, pt_quality d, pt_originality d, pt_valueForMoney d} \<longrightarrow>
     (\<forall>x. v = Some x \<longrightarrow> in_range x))"

lemma penalised_in_range: "in_range s \<Longrightarrow> in_range (penalised s)"
proof -
  assume "in_range s"
  then have "nsub s 2 \<le> 5" unfolding nsub_def in_range_def by (intro fl_le) auto
  then show ?thesis by (auto simp: in_range_def penalised_def)
qed

lemma penalised_le:
  assumes "in_range s" "fl s = s"
  shows "penalised s \<le> s"
  using assms fl_mono[of "s - 2" s] by (auto simp: penalised_def nsub_def in_range_def)

lemma rating_overall_in_range: "dto_ok d \<Longrightarrow> in_range (rating_overall d)"
proof -
  assume "dto_ok d"
  then have q: "in_range (rd_quality d)" "in_range (rd_originality d)" "in_range (rd_valueForMoney d)"
    by (auto simp: dto_ok_def)
  let ?s = "nadd (nadd (rd_quality d) (rd_originality d)) (rd_valueForMoney d)"
  have "nadd (rd_quality d) (rd_originality d) \<le> 10"
    unfolding nadd_def using q by (intro fl_le) (auto simp: in_range_def)
  then have "?s \<le> 15"
    unfolding nadd_def[of _ "rd_valueForMoney d"] using q by (intro fl_le) (auto simp: in_range_def)
  moreover have "0 \<le> ?s" using q by (simp add: in_range_def)
  ultimately have "?s / 3 \<le> 5" "0 \<le> ?s / 3" by simp_all
  then show ?thesis unfolding rating_overall_def ndiv_def in_range_def
    by (auto intro: fl_le fl_nonneg)
qed

lemma default_ratings_ok: "buyer_rating_ok default_buyer_rating" "seller_rating_ok default_seller_rating"
  by (simp_all add: buyer_rating_ok_def seller_rating_ok_def in_range_def default_buyer_rating_def
      default_seller_rating_def)

lemma buyer_rating_of_ok: "ratings_ok w \<Longrightarrow> buyer_rating_ok (buyer_rating_of w bid)"
  by (simp add: ratings_ok_def buyer_rating_of_def default_ratings_ok split: option.split)

lemma seller_rating_of_ok: "ratings_ok w \<Longrightarrow> seller_rating_ok (seller_rating_of w sid)"
  by (simp add: ratings_ok_def seller_rating_of_def default_ratings_ok split: option.split)

lemma ratings_ok_put:
  "ratings_ok w \<Longrightarrow> buyer_rating_ok r \<Longrightarrow> ratings_ok (w\<lparr>buyerRatings := tput b r (buyerRatings w)\<rparr>)"
  "ratings_ok w \<Longrightarrow> seller_rating_ok q \<Longrightarrow> ratings_ok (w\<lparr>sellerRatings := tput s q (sellerRatings w)\<rparr>)"
  by (auto simp: ratings_ok_def)

lemma ratings_ok_upd:
  "ratings_ok w \<Longrightarrow> (\<And>r. buyer_rating_ok r \<Longrightarrow> buyer_rating_ok (f r)) \<Longrightarrow>
     ratings_ok (w\<lparr>buyerRatings := tupd b f (buyerRatings w)\<rparr>)"
  "ratings_ok w \<Longrightarrow> (\<And>q. seller_rating_ok q \<Longrightarrow> seller_rating_ok (g q)) \<Longrightarrow>
     ratings_ok (w\<lparr>sellerRatings := tupd s g (sellerRatings w)\<rparr>)"
  by (auto simp: ratings_ok_def)

lemma ratings_ok_frame [simp]:
  "ratings_ok (w\<lparr>overrideLogs := l\<rparr>) = ratings_ok w"
  "ratings_ok (w\<lparr>outbox := m\<rparr>) = ratings_ok w"
  "ratings_ok (w\<lparr>qualDays := q\<rparr>) = ratings_ok w"
  "ratings_ok (w\<lparr>sellers := s1\<rparr>) = ratings_ok w"
  by (simp_all add: ratings_ok_def)

lemma wp_ensureBuyerRating [wp_simps]:
  "wp (ensureBuyerRating bid) Q w = Q (Inr (buyer_rating_of w bid))
     (w\<lparr>buyerRatings := tput bid (buyer_rating_of w bid) (buyerRatings w)\<rparr>)"
  by (simp add: ensureBuyerRating_def wp_simps)

lemma wp_ensureSellerRating [wp_simps]:
  "wp (ensureSellerRating sid) Q w = Q (Inr (seller_rating_of w sid))
     (w\<lparr>sellerRatings := tput sid (seller_rating_of w sid) (sellerRatings w)\<rparr>)"
  by (simp add: ensureSellerRating_def wp_simps)

lemmas ratings_ok_writes = ratings_ok_put ratings_ok_upd buyer_rating_of_ok seller_rating_of_ok

lemma wp_ensureBuyerRating_ok:
  "ratings_ok w \<Longrightarrow> wp (ensureBuyerRating bid)
     (\<lambda>r w'. ratings_ok w' \<and> (\<forall>x. r = Inr x \<longrightarrow> buyer_rating_ok x)) w"
  by (simp add: wp_simps ratings_ok_writes)

lemma wp_ensureSellerRating_ok:
  "ratings_ok w \<Longrightarrow> wp (ensureSellerRating sid)
     (\<lambda>r w'. ratings_ok w' \<and> (\<forall>x. r = Inr x \<longrightarrow> seller_rating_ok x)) w"
  by (simp add: wp_simps ratings_ok_writes)

lemma keeps_ratings_ensure [keeps_rules]:
  "keeps ratings_ok (ensureBuyerRating bid)" "keeps ratings_ok (ensureSellerRating sid)"
  by (auto simp: keeps_def wp_simps ratings_ok_writes)

lemma keeps_ratings_submit: "dto_ok d \<Longrightarrow> keeps ratings_ok (submitSellerRating uid d)"
  using rating_overall_in_range[of d]
  by (auto simp: submitSellerRating_def Let_def dto_ok_def seller_rating_ok_def
      intro!: keeps_rules keeps_writes ratings_ok_put)

lemma keeps_ratings_logOverride [keeps_rules]: "keeps ratings_ok (logOverride a e i f ov nv rs)"
  by (simp add: logOverride_def keeps_writes)

lemma keeps_ratings_patchBuyer: "in_range score \<Longrightarrow> keeps ratings_ok (adminPatchBuyerRating bid a score rs)"
  unfolding adminPatchBuyerRating_def
  by (rule keeps_bind_res[OF wp_ensureBuyerRating_ok])
    (auto simp: Let_def buyer_rating_ok_def intro!: keeps_rules keeps_writes ratings_ok_put)

lemma apply_patch_ok: "patch_ok d \<Longrightarrow> seller_rating_ok r \<Longrightarrow> seller_rating_ok (apply_patch d r)"
  by (auto simp: patch_ok_def seller_rating_ok_def apply_patch_def dflt_def split: option.splits)

lemma keeps_ratings_patchSeller: "patch_ok d \<Longrightarrow> keeps ratings_ok (adminPatchSellerRating sid a d)"
  unfolding adminPatchSellerRating_def
  by (rule keeps_bind_res[OF wp_ensureSellerRating_ok])
    (auto simp: Let_def apply_patch_ok intro!: keeps_rules keeps_writes ratings_ok_put)

lemma keeps_ratings_delivered [keeps_rules]: "keeps ratings_ok (recordDeliveredOrder bid)"
  by (auto simp: recordDeliveredOrder_def buyer_rating_ok_def
      intro!: keeps_rules keeps_writes ratings_ok_upd)

lemma keeps_ratings_mail [keeps_rules]: "keeps ratings_ok (writes (send_mail m))"
  by (simp add: keeps_writes send_mail_def)

lemma keeps_ratings_penalise_buyer: "in_range s \<Longrightarrow> keeps ratings_ok (penalise_buyer bid s)"
  by (auto simp: penalise_buyer_def buyer_rating_ok_def penalised_in_range
      intro!: keeps_rules keeps_writes ratings_ok_upd)

lemma keeps_ratings_penalise_seller: "keeps ratings_ok (penalise_seller sid)"
  unfolding penalise_seller_def
  by (rule keeps_bind_res[OF wp_ensureSellerRating_ok])
    (auto simp: seller_rating_ok_def penalised_in_range intro!: keeps_rules keeps_writes ratings_ok_upd)

lemma keeps_ratings_onReplacement [keeps_rules]: "keeps ratings_ok (onReplacementRequested bid sid)"
  unfolding onReplacementRequested_def
  by (rule keeps_bind_res[OF wp_ensureBuyerRating_ok])
    (auto simp: buyer_rating_ok_def
      intro!: keeps_rules keeps_writes ratings_ok_upd keeps_ratings_penalise_buyer keeps_ratings_penalise_seller)

lemma keeps_ratings_record: "keeps ratings_ok (recordStreamDuration db sid secs)"
  by (auto simp: recordStreamDuration_def refreshCommissionWaiver_def getLiveRewardStatus_def Let_def
      intro!: keeps_rules keeps_writes)

end
