(* ===== verification/Paging.thy ===== *)
theory Paging
  imports World
begin

text \<open>
  Pages of a query, src/common/dto/pagination-query.dto.ts and the \<open>skip\<close>/\<open>take\<close> arithmetic of the
  listing operations. The DTO bounds \<open>page\<close> below by 1 and \<open>limit\<close> by 1 and 100; the quotient
  \<open>total / limit\<close> under \<open>Math.ceil\<close> is exact for such limits.
\<close>

record 'a page =
  pg_data :: "'a list"
  pg_total :: nat
  pg_page :: nat
  pg_limit :: nat
  pg_totalPages :: nat
  pg_hasNext :: bool
  pg_hasPrev :: bool

definition slice :: "nat \<Rightarrow> nat \<Rightarrow> 'a list \<Rightarrow> 'a list" where
  "slice page limit rows = take limit (drop ((page - 1) * limit) rows)"

definition total_pages :: "nat \<Rightarrow> nat \<Rightarrow> nat" where
  "total_pages tot limit = (tot + limit - 1) div limit"

definition paginate :: "nat \<Rightarrow> nat \<Rightarrow> ('r \<Rightarrow> 'a) \<Rightarrow> 'r list \<Rightarrow> 'a page" where
  "paginate page limit view rows =
     (let pages = total_pages (length rows) limit
      in \<lparr>pg_data = map view (slice page limit rows), pg_total = length rows, pg_page = page,
          pg_limit = limit, pg_totalPages = pages, pg_hasNext = (page < pages), pg_hasPrev = (1 < page)\<rparr>)"

definition empty_page :: "nat \<Rightarrow> nat \<Rightarrow> 'a page" where
  "empty_page page limit =
     \<lparr>pg_data = [], pg_total = 0, pg_page = page, pg_limit = limit, pg_totalPages = 0,
      pg_hasNext = False, pg_hasPrev = False\<rparr>"

text \<open>\<open>orderBy: { createdAt: 'desc' }\<close>; rows of one instant keep their order of insertion.\<close>

definition newest_first :: "('r \<Rightarrow> int) \<Rightarrow> 'r list \<Rightarrow> 'r list" where
  "newest_first stamp rows = sort_key (\<lambda>r. - stamp r) rows"

section \<open>The pages of a query are its rows\<close>

lemma slices_take: "concat (map (\<lambda>p. slice p limit rows) [1..<Suc n]) = take (n * limit) rows"
proof (induction n)
  case 0
  then show ?case by simp
next
  case (Suc n)
  have "concat (map (\<lambda>p. slice p limit rows) [1..<Suc (Suc n)])
      = take (n * limit) rows @ take limit (drop (n * limit) rows)"
    using Suc by (simp add: slice_def)
  then show ?case by (simp add: take_add[symmetric] add.commute)
qed

lemma total_pages_enough: "0 < limit \<Longrightarrow> tot \<le> total_pages tot limit * limit"
  using dividend_less_div_times[of limit "tot + limit - 1"] by (simp add: total_pages_def)

lemma slices_all:
  "0 < limit \<Longrightarrow> concat (map (\<lambda>p. slice p limit rows) [1..<Suc (total_pages (length rows) limit)]) = rows"
  by (simp only: slices_take) (simp add: total_pages_enough)

lemma has_next: "0 < limit \<Longrightarrow> 1 \<le> page \<Longrightarrow> page < total_pages tot limit \<longleftrightarrow> page * limit < tot"
proof -
  assume l: "0 < limit" and p: "1 \<le> page"
  have "page < total_pages tot limit \<longleftrightarrow> Suc page * limit \<le> tot + limit - 1"
    unfolding total_pages_def using l by (metis Suc_le_eq less_eq_div_iff_mult_less_eq)
  also have "\<dots> \<longleftrightarrow> page * limit < tot" using l by (simp add: less_eq_Suc_le) linarith
  finally show ?thesis .
qed

lemma newest_first_set [simp]: "set (newest_first stamp rows) = set rows"
  by (simp add: newest_first_def)

lemma newest_first_length [simp]: "length (newest_first stamp rows) = length rows"
  by (simp add: newest_first_def)

end
