(* ===== verification/Orders.thy ===== *)
theory Orders
  imports Shipping Ratings Paging
begin

text \<open>
  The life of an order after checkout, src/orders/orders.service.ts: what the seller does to it
  (accept, pack, ship, poll the carrier, deliver), what the buyer does (cancel, return), and the
  queries. Each operation is the whole method: its lookups, its guards in the order of the code,
  and its writes.
\<close>

section \<open>Lookups shared by the operations\<close>

definition the_seller :: "string \<Rightarrow> seller_row handler" where
  "the_seller uid =
     bind_act (reads (\<lambda>w. seller_of_user w uid)) (\<lambda>x.
     case x of None \<Rightarrow> throw (Forbidden ''User is not a registered seller'') | Some s1 \<Rightarrow> ret s1)"

definition the_buyer :: "string \<Rightarrow> buyer_row handler" where
  "the_buyer uid =
     bind_act (reads (\<lambda>w. buyer_of_user w uid)) (\<lambda>x.
     case x of None \<Rightarrow> throw (Forbidden ''User is not a registered buyer'') | Some b \<Rightarrow> ret b)"

definition the_order :: "string \<Rightarrow> order_row handler" where
  "the_order oid =
     bind_act (reads (\<lambda>w. tget (orders w) oid)) (\<lambda>x.
     case x of None \<Rightarrow> throw (NotFound ''Order not found'') | Some o1 \<Rightarrow> ret o1)"

definition assert_sells :: "order_row \<Rightarrow> seller_row \<Rightarrow> unit handler" where
  "assert_sells o1 s1 =
     bind_act (reads (\<lambda>w. order_has_seller w o1 (s_id s1))) (\<lambda>b.
     if b then ret () else throw (Forbidden ''This order does not contain your products''))"

definition assert_buys :: "order_row \<Rightarrow> buyer_row \<Rightarrow> string \<Rightarrow> unit handler" where
  "assert_buys o1 b what =
     (if o_buyerId o1 = Some (b_id b) then ret ()
      else throw (Forbidden (''You can only '' @ what @ '' your own orders'')))"

definition status_name :: "order_status \<Rightarrow> string" where
  "status_name st = (case st of PENDING \<Rightarrow> ''PENDING'' | PAID \<Rightarrow> ''PAID'' | PACKED \<Rightarrow> ''PACKED''
     | SHIPPED \<Rightarrow> ''SHIPPED'' | DELIVERED \<Rightarrow> ''DELIVERED'' | CANCELLED \<Rightarrow> ''CANCELLED''
     | RETURNED \<Rightarrow> ''RETURNED'')"

definition require_status :: "order_status set \<Rightarrow> string \<Rightarrow> order_row \<Rightarrow> unit handler" where
  "require_status ok text o1 =
     (if o_status o1 \<in> ok then ret () else throw (BadRequest (text @ status_name (o_status o1))))"

text \<open>\<open>order.update({ where: { id }, data })\<close> of the row that was read, returning the new row.\<close>

definition save_order :: "string \<Rightarrow> (order_row \<Rightarrow> order_row) \<Rightarrow> order_row handler" where
  "save_order oid f =
     bind_act (reads (\<lambda>w. tget (orders w) oid)) (\<lambda>x.
     case x of None \<Rightarrow> throw missing_row
     | Some o1 \<Rightarrow> seq_act (writes (upd_order oid f)) (ret (f o1)))"

definition view_for_seller :: "order_row \<Rightarrow> seller_view handler" where
  "view_for_seller o1 = reads (\<lambda>w. mapSellerOrder w o1)"

section \<open>The seller's operations\<close>

definition acceptOrder :: "string \<Rightarrow> string \<Rightarrow> order_row handler" where
  "acceptOrder oid uid =
     bind_act (the_seller uid) (\<lambda>s1.
     bind_act (the_order oid) (\<lambda>o1.
     seq_act (assert_sells o1 s1) (
     seq_act (require_status {PENDING} ''Only pending orders can be accepted. Current status: '' o1) (
     save_order oid (\<lambda>o2. o2\<lparr>o_status := PAID\<rparr>)))))"

definition shipOrder :: "string \<Rightarrow> string \<Rightarrow> string \<Rightarrow> string \<Rightarrow> order_row handler" where
  "shipOrder oid uid trackingId carrierName =
     bind_act (the_seller uid) (\<lambda>s1.
     bind_act (the_order oid) (\<lambda>o1.
     seq_act (assert_sells o1 s1) (
     if truthy (o_streamId o1)
     then throw (BadRequest (''Live-originated orders use packing video and '' @ [CHR 0x22] @
            ''Request delivery'' @ [CHR 0x22] @ '' instead of manual shipping.''))
     else
     seq_act (require_status {PAID} ''Only paid orders can be marked as shipped. Current status: '' o1) (
     bind_act (reads clock) (\<lambda>now.
     save_order oid (\<lambda>o2. o2\<lparr>o_status := SHIPPED, o_trackingId := Some trackingId,
       o_carrierName := Some carrierName, o_shippedAt := Some now\<rparr>))))))"

definition deliverOrder :: "string \<Rightarrow> string \<Rightarrow> order_row handler" where
  "deliverOrder oid uid =
     bind_act (the_seller uid) (\<lambda>s1.
     bind_act (the_order oid) (\<lambda>o1.
     seq_act (assert_sells o1 s1) (
     seq_act (require_status {SHIPPED} ''Only shipped orders can be marked as delivered. Current status: '' o1) (
     bind_act (reads clock) (\<lambda>now.
     bind_act (save_order oid (\<lambda>o2. o2\<lparr>o_status := DELIVERED, o_deliveredAt := Some now\<rparr>)) (\<lambda>o3.
     seq_act (case o_buyerId o3 of None \<Rightarrow> ret () | Some b \<Rightarrow> recordDeliveredOrder b) (ret o3)))))))"

definition uploadPackingVideo :: "config \<Rightarrow> string \<Rightarrow> string \<Rightarrow> upload option \<Rightarrow> seller_view handler" where
  "uploadPackingVideo cfg oid uid file =
     (if no_file file then throw (BadRequest ''Video file is required'') else
      bind_act (the_seller uid) (\<lambda>s1.
      bind_act (the_order oid) (\<lambda>o1.
      if \<not> truthy (o_streamId o1)
      then throw (BadRequest ''Packing video applies to live stream orders only'') else
      seq_act (assert_sells o1 s1) (
      seq_act (require_status {PAID} ''Order must be accepted (paid) before packing. Status: '' o1) (
      let fname = video_name oid (the file) in
      seq_act (save_file (''uploads/packing/'' @ fname) (the file)) (
      bind_act (reads clock) (\<lambda>now.
      bind_act (save_order oid (\<lambda>o2. o2\<lparr>
          o_packingVideoUrl := Some (resolvePublicBaseUrl cfg @ ''/uploads/packing/'' @ fname),
          o_packedAt := Some now, o_status := PACKED\<rparr>)) view_for_seller)))))))"

definition requestDeliveryFromPartner ::
    "config \<Rightarrow> shipping_api \<Rightarrow> string \<Rightarrow> string \<Rightarrow> seller_view handler" where
  "requestDeliveryFromPartner cfg api oid uid =
     bind_act (the_seller uid) (\<lambda>s1.
     bind_act (the_order oid) (\<lambda>o1.
     if \<not> truthy (o_streamId o1)
     then throw (BadRequest ''Only live-originated orders use this action'') else
     seq_act (assert_sells o1 s1) (
     seq_act (require_status {PACKED} ''Order must be packed first. Current status: '' o1) (
     bind_act (book_shipment cfg api s1 uid o1 oid normalizeInPhone
                 (estimateCartWeightGrams (length (o_items o1)))) (\<lambda>sh.
     bind_act (reads clock) (\<lambda>now.
     bind_act (save_order oid (\<lambda>o2. o2\<lparr>o_status := SHIPPED, o_shippedAt := Some now,
         o_carrierName := Some ''Delhivery'', o_trackingId := sh_waybill sh,
         o_deliveryProvider := Some ''DELHIVERY'', o_borzoTrackingUrl := sh_trackingUrl sh,
         o_borzoOrderStatus := sh_status sh,
         o_deliveryStatus := or_else (sh_status sh) (Some ''Created'')\<rparr>)) view_for_seller))))))"

record delivery_status =
  ds_deliveryStatus :: "string option"
  ds_trackingId :: "string option"
  ds_carrierName :: "string option"
  ds_orderStatus :: order_status
  ds_order :: "seller_view option"
  ds_delhivery :: "(string option \<times> string option) option" \<comment> \<open>waybill and tracking URL\<close>

definition polled :: "string option \<Rightarrow> int \<Rightarrow> order_row \<Rightarrow> order_row" where
  "polled st now o1 =
     (let o2 = o1\<lparr>o_deliveryStatus := or_else st (o_deliveryStatus o1),
                  o_borzoOrderStatus := or_else st (o_borzoOrderStatus o1)\<rparr>
      in if isDelhiveryDeliveredStatus st
         then o2\<lparr>o_status := DELIVERED, o_deliveredAt := or_else (o_deliveredAt o1) (Some now)\<rparr>
         else o2)"

definition getOrderDeliveryStatus :: "shipping_api \<Rightarrow> string \<Rightarrow> string \<Rightarrow> delivery_status handler" where
  "getOrderDeliveryStatus api oid uid =
     bind_act (the_seller uid) (\<lambda>s1.
     bind_act (the_order oid) (\<lambda>o1.
     seq_act (assert_sells o1 s1) (
     if o_deliveryProvider o1 = Some ''DELHIVERY'' \<and> truthy (o_trackingId o1) then
       bind_act (lift_res (dh_track api (the (o_trackingId o1)))) (\<lambda>track.
       bind_act (reads clock) (\<lambda>now.
       bind_act (save_order oid
           (polled (or_else (case track of None \<Rightarrow> None | Some st \<Rightarrow> st) (o_deliveryStatus o1)) now)) (\<lambda>o2.
       bind_act (view_for_seller o2) (\<lambda>v.
       ret \<lparr>ds_deliveryStatus = o_deliveryStatus o2, ds_trackingId = o_trackingId o2,
            ds_carrierName = o_carrierName o2, ds_orderStatus = o_status o2, ds_order = Some v,
            ds_delhivery = Some (o_trackingId o2, o_borzoTrackingUrl o2)\<rparr>))))
     else
       seq_act (touchPoll oid) (
       bind_act (reads (\<lambda>w. mock_status w oid)) (\<lambda>live.
       bind_act (save_order oid (\<lambda>o2. o2\<lparr>o_deliveryStatus := Some live\<rparr>)) (\<lambda>o2.
       ret \<lparr>ds_deliveryStatus = o_deliveryStatus o2, ds_trackingId = o_trackingId o2,
            ds_carrierName = o_carrierName o2, ds_orderStatus = o_status o2, ds_order = None,
            ds_delhivery = None\<rparr>))))))"

section \<open>The buyer's operations\<close>

definition cancel_transaction :: "string \<Rightarrow> order_item_row list \<Rightarrow> order_row handler" where
  "cancel_transaction oid rs =
     atomic (seq_act (for_each rs (\<lambda>r. shift_stock (oi_productId r) (oi_variantId r) (oi_quantity r)))
       (save_order oid (\<lambda>o2. o2\<lparr>o_status := CANCELLED\<rparr>)))"

definition cancelOrder :: "string \<Rightarrow> string \<Rightarrow> order_row handler" where
  "cancelOrder oid uid =
     bind_act (the_buyer uid) (\<lambda>b.
     bind_act (the_order oid) (\<lambda>o1.
     seq_act (assert_buys o1 b ''cancel'') (
     seq_act (require_status {PENDING, PAID, PACKED}
       ''Only pending, paid, or packed orders can be cancelled. Current status: '' o1) (
     cancel_transaction oid (o_items o1)))))"

definition returnOrder :: "string \<Rightarrow> string \<Rightarrow> order_row handler" where
  "returnOrder oid uid =
     bind_act (the_buyer uid) (\<lambda>b.
     bind_act (the_order oid) (\<lambda>o1.
     seq_act (assert_buys o1 b ''return'') (
     seq_act (require_status {DELIVERED} ''Only delivered orders can be returned. Current status: '' o1) (
     save_order oid (\<lambda>o2. o2\<lparr>o_status := RETURNED\<rparr>)))))"

section \<open>Outcomes of the building blocks\<close>

lemma wp_the_seller [wp_simps]:
  "wp (the_seller uid) Q w =
     (case seller_of_user w uid of None \<Rightarrow> Q (Inl (Forbidden ''User is not a registered seller'')) w
      | Some s1 \<Rightarrow> Q (Inr s1) w)"
  by (cases "seller_of_user w uid") (simp_all add: the_seller_def wp_simps)

lemma wp_the_buyer [wp_simps]:
  "wp (the_buyer uid) Q w =
     (case buyer_of_user w uid of None \<Rightarrow> Q (Inl (Forbidden ''User is not a registered buyer'')) w
      | Some b \<Rightarrow> Q (Inr b) w)"
  by (cases "buyer_of_user w uid") (simp_all add: the_buyer_def wp_simps)

lemma wp_the_order [wp_simps]:
  "wp (the_order oid) Q w =
     (case tget (orders w) oid of None \<Rightarrow> Q (Inl (NotFound ''Order not found'')) w | Some o1 \<Rightarrow> Q (Inr o1) w)"
  by (cases "tget (orders w) oid") (simp_all add: the_order_def wp_simps)

lemma wp_assert_sells [wp_simps]:
  "wp (assert_sells o1 s1) Q w =
     (if order_has_seller w o1 (s_id s1) then Q (Inr ()) w
      else Q (Inl (Forbidden ''This order does not contain your products'')) w)"
  by (simp add: assert_sells_def wp_simps)

lemma wp_assert_buys [wp_simps]:
  "wp (assert_buys o1 b what) Q w =
     (if o_buyerId o1 = Some (b_id b) then Q (Inr ()) w
      else Q (Inl (Forbidden (''You can only '' @ what @ '' your own orders''))) w)"
  by (simp add: assert_buys_def wp_simps)

lemma wp_require_status [wp_simps]:
  "wp (require_status ok text o1) Q w =
     (if o_status o1 \<in> ok then Q (Inr ()) w else Q (Inl (BadRequest (text @ status_name (o_status o1)))) w)"
  by (simp add: require_status_def wp_simps)

lemma wp_save_order [wp_simps]:
  "wp (save_order oid f) Q w =
     (case tget (orders w) oid of None \<Rightarrow> Q (Inl missing_row) w
      | Some o1 \<Rightarrow> Q (Inr (f o1)) (upd_order oid f w))"
  by (cases "tget (orders w) oid") (simp_all add: save_order_def wp_simps)

lemma wp_view_for_seller [wp_simps]:
  "wp (view_for_seller o1) Q w = Q (Inr (mapSellerOrder w o1)) w"
  by (simp add: view_for_seller_def wp_simps)

lemma wp_save_file [wp_simps]:
  "wp (save_file path u) Q w = Q (Inr ()) (w\<lparr>files := tput path (up_bytes u) (files w)\<rparr>)"
  by (simp add: save_file_def wp_simps)

lemma wp_touchPoll [wp_simps]:
  "wp (touchPoll oid) Q w = Q (Inr ()) (w\<lparr>shipments := tupd oid
     (\<lambda>s1. s1\<lparr>ms_lastPoll := clock w, ms_phase := min (ms_phase s1 + 1) 4\<rparr>) (shipments w)\<rparr>)"
  by (simp add: touchPoll_def wp_simps)

lemma upd_order_get [simp]:
  "tget (orders (upd_order oid f w)) j = (if j = oid then map_option f (tget (orders w) oid) else tget (orders w) j)"
  by (simp add: upd_order_def)

text \<open>The delivered count of a buyer does not touch the orders.\<close>

lemma wp_recordDeliveredOrder [wp_simps]:
  "wp (recordDeliveredOrder b) Q w = Q (Inr ()) (w\<lparr>buyerRatings :=
     tupd b (\<lambda>r. r\<lparr>br_deliveredCount := br_deliveredCount r + 1\<rparr>)
       (tput b (buyer_rating_of w b) (buyerRatings w))\<rparr>)"
  by (simp add: recordDeliveredOrder_def ensureBuyerRating_def wp_simps)

lemmas order_ops =
  acceptOrder_def shipOrder_def deliverOrder_def uploadPackingVideo_def requestDeliveryFromPartner_def
  getOrderDeliveryStatus_def cancelOrder_def returnOrder_def

section \<open>Stock given back\<close>

definition moves :: "int \<Rightarrow> order_item_row list \<Rightarrow> ((string \<times> string option) \<times> int) list" where
  "moves sg rs = map (\<lambda>r. ((oi_productId r, oi_variantId r), sg * oi_quantity r)) rs"

lemma moves_reversed: "reversed (moves sg rs) = moves (- sg) rs"
  by (simp add: moves_def reversed_def)

lemma wp_cancel_transaction [wp_simps]:
  "wp (cancel_transaction oid rs) Q w =
     (case shift_all shift_table (moves 1 rs) (products w) of
        Inl e \<Rightarrow> Q (Inl e) w
      | Inr t \<Rightarrow>
          (case tget (orders w) oid of None \<Rightarrow> Q (Inl missing_row) w
           | Some o1 \<Rightarrow> Q (Inr (o1\<lparr>o_status := CANCELLED\<rparr>))
               (upd_order oid (\<lambda>o2. o2\<lparr>o_status := CANCELLED\<rparr>) (w\<lparr>products := t\<rparr>))))"
  by (cases "tget (orders w) oid")
     (simp_all add: cancel_transaction_def wp_atomic_shift_lines wp_save_order moves_def cong: sum.case_cong)

lemma wp_cancelOrder:
  "wp (cancelOrder oid uid) Q w =
     (case buyer_of_user w uid of None \<Rightarrow> Q (Inl (Forbidden ''User is not a registered buyer'')) w | Some b \<Rightarrow>
      case tget (orders w) oid of None \<Rightarrow> Q (Inl (NotFound ''Order not found'')) w | Some o1 \<Rightarrow>
      if o_buyerId o1 \<noteq> Some (b_id b) then Q (Inl (Forbidden (''You can only cancel your own orders''))) w
      else if o_status o1 \<notin> {PENDING, PAID, PACKED}
      then Q (Inl (BadRequest (''Only pending, paid, or packed orders can be cancelled. Current status: '' @
              status_name (o_status o1)))) w
      else case shift_all shift_table (moves 1 (o_items o1)) (products w) of
             Inl e \<Rightarrow> Q (Inl e) w
           | Inr t \<Rightarrow> Q (Inr (o1\<lparr>o_status := CANCELLED\<rparr>))
                       (upd_order oid (\<lambda>o2. o2\<lparr>o_status := CANCELLED\<rparr>) (w\<lparr>products := t\<rparr>)))"
  by (cases "buyer_of_user w uid"; cases "tget (orders w) oid") (simp_all add: cancelOrder_def wp_simps cong: sum.case_cong)

section \<open>The state machine of an order\<close>

text \<open>
  The statuses in the order an order passes through them; the two ends of an order that leaves the
  normal course come last.
\<close>

primrec status_rank :: "order_status \<Rightarrow> nat" where
  "status_rank PENDING = 0"
| "status_rank PAID = 1"
| "status_rank PACKED = 2"
| "status_rank SHIPPED = 3"
| "status_rank DELIVERED = 4"
| "status_rank RETURNED = 5"
| "status_rank CANCELLED = 6"

lemma status_rank_inj: "status_rank s = status_rank t \<Longrightarrow> s = t"
  by (cases s; cases t) simp_all

instantiation order_status :: linorder
begin

definition less_eq_order_status :: "order_status \<Rightarrow> order_status \<Rightarrow> bool" where
  "less_eq_order_status s t \<longleftrightarrow> status_rank s \<le> status_rank t"

definition less_order_status :: "order_status \<Rightarrow> order_status \<Rightarrow> bool" where
  "less_order_status s t \<longleftrightarrow> status_rank s < status_rank t"

instance
  by standard (auto simp: less_eq_order_status_def less_order_status_def intro: status_rank_inj)

end

datatype order_op =
    Accept string string
  | Ship string string string string
  | Pack string string "upload option"
  | Book string string
  | Poll string string
  | Deliver string string
  | Cancel string string
  | Return string string

primrec target :: "order_op \<Rightarrow> string" where
  "target (Accept oid uid) = oid"
| "target (Ship oid uid t c) = oid"
| "target (Pack oid uid f) = oid"
| "target (Book oid uid) = oid"
| "target (Poll oid uid) = oid"
| "target (Deliver oid uid) = oid"
| "target (Cancel oid uid) = oid"
| "target (Return oid uid) = oid"

primrec run_order_op :: "config \<Rightarrow> shipping_api \<Rightarrow> order_op \<Rightarrow> unit handler" where
  "run_order_op cfg api (Accept oid uid) = seq_act (acceptOrder oid uid) (ret ())"
| "run_order_op cfg api (Ship oid uid t c) = seq_act (shipOrder oid uid t c) (ret ())"
| "run_order_op cfg api (Pack oid uid f) = seq_act (uploadPackingVideo cfg oid uid f) (ret ())"
| "run_order_op cfg api (Book oid uid) = seq_act (requestDeliveryFromPartner cfg api oid uid) (ret ())"
| "run_order_op cfg api (Poll oid uid) = seq_act (getOrderDeliveryStatus api oid uid) (ret ())"
| "run_order_op cfg api (Deliver oid uid) = seq_act (deliverOrder oid uid) (ret ())"
| "run_order_op cfg api (Cancel oid uid) = seq_act (cancelOrder oid uid) (ret ())"
| "run_order_op cfg api (Return oid uid) = seq_act (returnOrder oid uid) (ret ())"

inductive order_edge :: "order_op \<Rightarrow> order_status \<Rightarrow> order_status \<Rightarrow> bool" where
  accept: "order_edge (Accept oid uid) PENDING PAID"
| ship: "order_edge (Ship oid uid t c) PAID SHIPPED"
| pack: "order_edge (Pack oid uid f) PAID PACKED"
| book: "order_edge (Book oid uid) PACKED SHIPPED"
| deliver: "order_edge (Deliver oid uid) SHIPPED DELIVERED"
| poll: "order_edge (Poll oid uid) s DELIVERED"
| cancel: "s \<in> {PENDING, PAID, PACKED} \<Longrightarrow> order_edge (Cancel oid uid) s CANCELLED"
| return: "order_edge (Return oid uid) DELIVERED RETURNED"

inductive_cases edge_from_end: "order_edge op CANCELLED s" "order_edge op RETURNED s"

inductive_simps edge_simps [simp]:
  "order_edge (Accept oid uid) s t" "order_edge (Ship oid uid tr c) s t" "order_edge (Pack oid uid f) s t"
  "order_edge (Book oid uid) s t" "order_edge (Poll oid uid) s t" "order_edge (Deliver oid uid) s t"
  "order_edge (Cancel oid uid) s t" "order_edge (Return oid uid) s t"

definition status_at :: "world \<Rightarrow> string \<Rightarrow> order_status option" where
  "status_at w oid = map_option o_status (tget (orders w) oid)"

text \<open>What an operation may do to the statuses of all orders.\<close>

definition moved_by :: "order_op \<Rightarrow> world \<Rightarrow> world \<Rightarrow> bool" where
  "moved_by op w w' \<longleftrightarrow>
     (\<forall>oid. status_at w' oid = status_at w oid \<or>
            oid = target op \<and>
            (\<exists>s s'. status_at w oid = Some s \<and> status_at w' oid = Some s' \<and> order_edge op s s'))"

lemma moved_by_refl: "moved_by op w w"
  by (simp add: moved_by_def)

lemma wp_read_only_book [wp_simps]:
  "wp (book_shipment cfg api s1 uid o1 i phone wt) Q w =
     Q (fst (book_shipment cfg api s1 uid o1 i phone wt w)) w"
proof -
  obtain r w' where r: "book_shipment cfg api s1 uid o1 i phone wt w = (r, w')" by fastforce
  have "w' = w"
    using wpD[OF wp_book_shipment[where Q="\<lambda>_ w'. w' = w"] r] by simp
  then show ?thesis by (simp add: wp_def r)
qed

lemma booked_waybill:
  "fst (book_shipment cfg api s1 uid o1 i phone wt w) = Inr sh \<Longrightarrow> truthy (sh_waybill sh)"
  using wp_book_shipment[where Q="\<lambda>r _. \<forall>sh. r = Inr sh \<longrightarrow> truthy (sh_waybill sh)"]
  by (simp add: wp_read_only_book)

lemma status_at_upd [simp]:
  "status_at (upd_order oid f w) j =
     (if j = oid then map_option (\<lambda>o1. o_status (f o1)) (tget (orders w) oid) else status_at w j)"
  by (simp add: status_at_def option.map_comp comp_def)

lemma status_at_frame [simp]:
  "status_at (w\<lparr>products := t\<rparr>) = status_at w"
  "status_at (w\<lparr>files := fs\<rparr>) = status_at w"
  "status_at (w\<lparr>shipments := ss\<rparr>) = status_at w"
  "status_at (w\<lparr>buyerRatings := bs\<rparr>) = status_at w"
  by (simp_all add: status_at_def fun_eq_iff)

lemma polled_status: "o_status (polled st now o1) = (if isDelhiveryDeliveredStatus st then DELIVERED else o_status o1)"
  by (simp add: polled_def Let_def)

lemma run_order_op_moves: "wp (run_order_op cfg api op) (\<lambda>_ w'. moved_by op w w') w"
  by (cases op)
     (auto simp: order_ops wp_simps Let_def moved_by_def polled_status status_at_def wp_cancelOrder on_ok_def
       split: option.splits sum.splits)

text \<open>Who may run an operation: a seller of a line of the order, or its buyer.\<close>

primrec actor :: "order_op \<Rightarrow> string" where
  "actor (Accept oid uid) = uid"
| "actor (Ship oid uid t c) = uid"
| "actor (Pack oid uid f) = uid"
| "actor (Book oid uid) = uid"
| "actor (Poll oid uid) = uid"
| "actor (Deliver oid uid) = uid"
| "actor (Cancel oid uid) = uid"
| "actor (Return oid uid) = uid"

definition by_buyer :: "order_op \<Rightarrow> bool" where
  "by_buyer op = (case op of Cancel _ _ \<Rightarrow> True | Return _ _ \<Rightarrow> True | _ \<Rightarrow> False)"

definition authorised :: "world \<Rightarrow> order_op \<Rightarrow> bool" where
  "authorised w op \<longleftrightarrow>
     (case tget (orders w) (target op) of
        None \<Rightarrow> False
      | Some o1 \<Rightarrow>
          if by_buyer op
          then (case buyer_of_user w (actor op) of None \<Rightarrow> False | Some b \<Rightarrow> o_buyerId o1 = Some (b_id b))
          else (case seller_of_user w (actor op) of None \<Rightarrow> False | Some s1 \<Rightarrow> order_has_seller w o1 (s_id s1)))"

lemma run_order_op_authorised:
  "wp (run_order_op cfg api op) (\<lambda>r w'. case r of Inl e \<Rightarrow> w' = w | Inr _ \<Rightarrow> authorised w op) w"
  by (cases op)
     (auto simp: order_ops wp_simps Let_def on_ok_def authorised_def by_buyer_def wp_cancelOrder
       split: option.splits sum.splits)

section \<open>What a status says about the row\<close>

definition order_ok :: "order_row \<Rightarrow> bool" where
  "order_ok o1 \<longleftrightarrow>
     (case o_status o1 of
        PACKED \<Rightarrow> o_packingVideoUrl o1 \<noteq> None \<and> o_packedAt o1 \<noteq> None
      | SHIPPED \<Rightarrow> o_trackingId o1 \<noteq> None \<and> o_shippedAt o1 \<noteq> None
      | DELIVERED \<Rightarrow> o_deliveredAt o1 \<noteq> None
      | RETURNED \<Rightarrow> o_deliveredAt o1 \<noteq> None
      | _ \<Rightarrow> True)"

definition orders_ok :: "world \<Rightarrow> bool" where
  "orders_ok w \<longleftrightarrow> (\<forall>oid o1. tget (orders w) oid = Some o1 \<longrightarrow> order_ok o1)"

lemma orders_ok_frame [simp]:
  "orders_ok (w\<lparr>products := t\<rparr>) = orders_ok w"
  "orders_ok (w\<lparr>files := fs\<rparr>) = orders_ok w"
  "orders_ok (w\<lparr>shipments := ss\<rparr>) = orders_ok w"
  "orders_ok (w\<lparr>buyerRatings := bs\<rparr>) = orders_ok w"
  "orders_ok (w\<lparr>cache := c\<rparr>) = orders_ok w"
  "orders_ok (w\<lparr>outbox := ms\<rparr>) = orders_ok w"
  by (simp_all add: orders_ok_def)

lemma orders_ok_upd:
  "orders_ok w \<Longrightarrow> (\<And>o1. tget (orders w) oid = Some o1 \<Longrightarrow> order_ok o1 \<Longrightarrow> order_ok (f o1)) \<Longrightarrow>
   orders_ok (upd_order oid f w)"
  by (auto simp: orders_ok_def)

lemma orders_ok_row: "orders_ok w \<Longrightarrow> tget (orders w) oid = Some o1 \<Longrightarrow> order_ok o1"
  by (simp add: orders_ok_def)

lemma polled_ok: "order_ok o1 \<Longrightarrow> order_ok (polled st now o1)"
  by (cases "o_deliveredAt o1"; cases "o_status o1") (simp_all add: polled_def Let_def order_ok_def)

lemma order_ok_writes:
  "order_ok o1 \<Longrightarrow> order_ok (o1\<lparr>o_deliveryStatus := ds\<rparr>)"
  "order_ok (o1\<lparr>o_status := PAID\<rparr>)" "order_ok (o1\<lparr>o_status := CANCELLED\<rparr>)"
  "o_status o1 = DELIVERED \<Longrightarrow> order_ok o1 \<Longrightarrow> order_ok (o1\<lparr>o_status := RETURNED\<rparr>)"
  by (simp_all add: order_ok_def split: order_status.splits)

lemma run_order_op_ok: "keeps orders_ok (run_order_op cfg api op)"
proof (rule keepsI)
  fix w assume w: "orders_ok w"
  note row = orders_ok_row[OF w]
  note ops = order_ops wp_simps Let_def on_ok_def wp_cancelOrder
  show "wp (run_order_op cfg api op) (\<lambda>_. orders_ok) w"
  proof (cases op)
    case (Book oid uid)
    then show ?thesis
      using w by (auto simp: ops order_ok_def dest!: booked_waybill truthy_Some intro!: orders_ok_upd
          split: option.splits sum.splits)
  next
    case (Poll oid uid)
    then show ?thesis
      using w by (auto simp: ops intro!: orders_ok_upd polled_ok order_ok_writes split: option.splits sum.splits)
  next
    case (Return oid uid)
    then show ?thesis
      using w by (auto simp: ops intro!: orders_ok_upd order_ok_writes split: option.splits sum.splits)
  qed (use w in \<open>auto simp: ops order_ok_writes order_ok_def intro!: orders_ok_upd
      split: option.splits sum.splits if_splits\<close>)
qed

end
