(* ===== verification/Replacements.thy ===== *)
theory Replacements
  imports Orders
begin

text \<open>
  Replacement requests, src/replacements/replacements.service.ts and
  src/replacements/replacement.mapper.ts: the buyer's request, the decision, the balance payment
  that gates fulfilment, packing, shipping and delivery, and the views. The rupee sign of a label is
  written as \<open>Rs\<close>. \<open>setDate(getDate() + n)\<close> moves an instant by \<open>n\<close> days of 24 hours: the zone of
  the server has no daylight saving.
\<close>

section \<open>Views\<close>

datatype viewer = AsBuyer | AsSeller | AsAdmin

datatype repl_action = PAY_BALANCE | RA_PACK_VIDEO | RA_REQUEST_DELIVERY | RA_TRACK | RA_NONE

definition paid_balance :: "replacement_row \<Rightarrow> bool" where
  "paid_balance r \<longleftrightarrow> r_balanceDue r \<le> 0 \<or> r_balanceStatus r = BAL_PAID \<or> r_status r \<noteq> AWAITING_PAYMENT"

definition replacement_steps :: "replacement_row \<Rightarrow> step list" where
  "replacement_steps r =
     (let st = r_status r in
      [\<lparr>tl_step = ''submitted'', tl_label = ''Request submitted'', tl_done = True, tl_at = Some (r_createdAt r)\<rparr>,
       \<lparr>tl_step = ''review'', tl_label = ''Under review'',
        tl_done = (st \<noteq> REQUESTED \<and> st \<noteq> PENDING_ADMIN_REVIEW), tl_at = r_decidedAt r\<rparr>] @
      (if 0 < r_balanceDue r
       then [\<lparr>tl_step = ''payment'', tl_label = ''Balance payment'', tl_done = paid_balance r,
              tl_at = (if paid_balance r then r_decidedAt r else None)\<rparr>] else []) @
      [\<lparr>tl_step = ''approved'', tl_label = ''Approved'',
        tl_done = (st \<in> {APPROVED, R_PACKED, R_SHIPPED, R_DELIVERED}), tl_at = r_decidedAt r\<rparr>,
       \<lparr>tl_step = ''packed'', tl_label = ''Packed'',
        tl_done = (truthy (r_packingVideoUrl r) \<or> r_packedAt r \<noteq> None \<or>
                   st \<in> {R_PACKED, R_SHIPPED, R_DELIVERED}), tl_at = r_packedAt r\<rparr>,
       \<lparr>tl_step = ''shipped'', tl_label = ''Shipped'',
        tl_done = (st \<in> {R_SHIPPED, R_DELIVERED} \<or> truthy (r_trackingId r)), tl_at = r_shippedAt r\<rparr>,
       \<lparr>tl_step = ''delivered'', tl_label = ''Delivered'', tl_done = (st = R_DELIVERED),
        tl_at = r_deliveredAt r\<rparr>])"

definition buildReplacementTimeline :: "replacement_row \<Rightarrow> timeline_step list" where
  "buildReplacementTimeline r =
     (if r_status r = REJECTED then
        (let kept = filter (\<lambda>s1. tl_step s1 = ''submitted'' \<or> tl_step s1 = ''review'') (replacement_steps r)
         in map (\<lambda>(i, s1). shown s1 (if i < length kept - 1 then Done else Active)) (enumerate 0 kept) @
            [\<lparr>ts_step = ''rejected'', ts_label = ''Rejected'', ts_state = Active, ts_at = r_decidedAt r\<rparr>])
      else mark_index (replacement_steps r))"

definition fixed0 :: "num \<Rightarrow> string" where
  \<comment> \<open>\<open>toFixed(0)\<close> of an amount that is not negative\<close>
  "fixed0 x = int_digits (math_round x)"

definition buildBuyerReplacementNextAction :: "replacement_row \<Rightarrow> (repl_action \<times> string) option" where
  "buildBuyerReplacementNextAction r =
     (if r_status r = AWAITING_PAYMENT \<and> 0 < r_balanceDue r \<and> r_balanceStatus r \<noteq> BAL_PAID
      then Some (PAY_BALANCE, ''Pay balance Rs'' @ fixed0 (r_balanceDue r)) else None)"

definition buildSellerReplacementNextAction :: "replacement_row \<Rightarrow> repl_action \<times> string" where
  "buildSellerReplacementNextAction r =
     (if r_status r = AWAITING_PAYMENT \<and> r_balanceStatus r \<noteq> BAL_PAID
      then (RA_NONE, ''Waiting for buyer payment'')
      else if r_status r = APPROVED \<and> \<not> truthy (r_packingVideoUrl r)
      then (RA_PACK_VIDEO, ''Record pack video'')
      else if r_status r = R_PACKED \<and> \<not> truthy (r_trackingId r)
      then (RA_REQUEST_DELIVERY, ''Request Delhivery pickup'')
      else if r_status r \<in> {R_SHIPPED, R_PACKED} \<and> truthy (r_trackingId r) \<and>
              r_deliveryProvider r = Some ''DELHIVERY''
      then (RA_TRACK, ''Track shipment'')
      else (RA_NONE, ''No action needed''))"

record original_view =
  ov_productId :: string
  ov_productName :: string
  ov_productImage :: "string option"
  ov_variantId :: "string option"
  ov_variantLabel :: "string option"
  ov_unitPrice :: num
  ov_quantity :: int

text \<open>
  The detail view repeats the row's columns (request, pricing and fulfilment blocks) and adds what
  it derives: the line that is replaced, the seller, the timeline and the next action.
\<close>

record replacement_view =
  rv_row :: replacement_row
  rv_order :: "(string \<times> num) option"
  rv_original :: "original_view option"
  rv_seller :: "(string \<times> string option) option"
  rv_timeline :: "timeline_step list"
  rv_nextAction :: "(repl_action \<times> string) option"

definition original_item :: "world \<Rightarrow> replacement_row \<Rightarrow> order_item_row option" where
  "original_item w r =
     Option.bind (tget (orders w) (r_orderId r)) (\<lambda>o1.
       or_else (find (\<lambda>it. Some (oi_id it) = r_orderItemId r) (o_items o1)) (head_opt (o_items o1)))"

definition view_original :: "world \<Rightarrow> replacement_row \<Rightarrow> order_item_row \<Rightarrow> original_view option" where
  "view_original w r it =
     map_option (\<lambda>p. \<lparr>ov_productId = p_id p, ov_productName = p_name p,
         ov_productImage = head_opt (p_images p), ov_variantId = oi_variantId it,
         ov_variantLabel = oi_variantLabel it,
         ov_unitPrice = (if r_originalUnitPrice r \<noteq> 0 then r_originalUnitPrice r else oi_price it),
         ov_quantity = oi_quantity it\<rparr>)
       (tget (products w) (oi_productId it))"

definition mapReplacementDetail :: "world \<Rightarrow> viewer \<Rightarrow> bool \<Rightarrow> replacement_row \<Rightarrow> replacement_view" where
  "mapReplacementDetail w who withSeller r =
     \<lparr>rv_row = r,
      rv_order = map_option (\<lambda>o1. (o_id o1, o_totalAmount o1)) (tget (orders w) (r_orderId r)),
      rv_original = Option.bind (original_item w r) (view_original w r),
      rv_seller = (if withSeller
                   then map_option (\<lambda>s1. (s_businessName s1, s_logoUrl s1)) (tget (sellers w) (r_sellerId r))
                   else None),
      rv_timeline = buildReplacementTimeline r,
      rv_nextAction = (case who of AsBuyer \<Rightarrow> buildBuyerReplacementNextAction r
                         | AsSeller \<Rightarrow> Some (buildSellerReplacementNextAction r) | AsAdmin \<Rightarrow> None)\<rparr>"

definition repl_view :: "viewer \<Rightarrow> bool \<Rightarrow> replacement_row \<Rightarrow> replacement_view handler" where
  "repl_view who withSeller r = reads (\<lambda>w. mapReplacementDetail w who withSeller r)"

section \<open>Pricing and approval\<close>

record pricing =
  pr_original :: num
  pr_replacement :: num
  pr_label :: "string option"
  pr_balanceDue :: num

definition balance_due :: "num \<Rightarrow> num \<Rightarrow> num" where
  "balance_due new old = max 0 (nsub new old)"

definition computePricing :: "order_item_row \<Rightarrow> product_row \<Rightarrow> string option \<Rightarrow> exn + pricing" where
  "computePricing line p vid =
     (let mk = (\<lambda>price lab. Inr \<lparr>pr_original = oi_price line, pr_replacement = price, pr_label = lab,
                  pr_balanceDue = balance_due price (oi_price line)\<rparr>)
      in if productHasVariantItems (p_variants p) then
           if \<not> truthy vid then Inl (BadRequest ''Please select a replacement variant'')
           else (case findVariantItem (p_variants p) (the vid) of
                   None \<Rightarrow> Inl (BadRequest ''Invalid replacement variant'')
                 | Some v \<Rightarrow> mk (vi_sellingPrice v) (Some (vi_label v)))
         else if truthy vid then Inl (BadRequest ''This product has no variants'')
         else mk (p_price p) None)"

definition resolveApprovalStatus :: "num \<Rightarrow> replacement_status \<times> balance_status" where
  "resolveApprovalStatus due = (if 0 < due then (AWAITING_PAYMENT, BAL_PENDING) else (APPROVED, BAL_NONE))"

definition assertSellerCanFulfill :: "replacement_row \<Rightarrow> unit handler" where
  "assertSellerCanFulfill r =
     (if r_status r = AWAITING_PAYMENT then throw (BadRequest ''Waiting for buyer balance payment'')
      else if 0 < r_balanceDue r \<and> r_balanceStatus r \<noteq> BAL_PAID
      then throw (BadRequest ''Buyer has not paid the balance amount'')
      else ret ())"

definition SUBMIT_DAYS :: int where "SUBMIT_DAYS = 3"
definition AUTO_APPROVE_MIN_SCORE :: num where "AUTO_APPROVE_MIN_SCORE = 3"

section \<open>Lookups\<close>

definition buyer_found :: "string \<Rightarrow> buyer_row handler" where
  "buyer_found uid =
     bind_act (reads (\<lambda>w. buyer_of_user w uid)) (\<lambda>x.
     case x of None \<Rightarrow> throw (NotFound ''Buyer not found'') | Some b \<Rightarrow> ret b)"

definition seller_found :: "string \<Rightarrow> seller_row handler" where
  "seller_found uid =
     bind_act (reads (\<lambda>w. seller_of_user w uid)) (\<lambda>x.
     case x of None \<Rightarrow> throw (NotFound ''Seller not found'') | Some s1 \<Rightarrow> ret s1)"

definition order_of_buyer :: "string \<Rightarrow> buyer_row \<Rightarrow> order_row handler" where
  \<comment> \<open>\<open>order.findFirst({ where: { id, buyerId } })\<close>\<close>
  "order_of_buyer oid b =
     bind_act (reads (\<lambda>w. tget (orders w) oid)) (\<lambda>x.
     case x of None \<Rightarrow> throw (NotFound ''Order not found'')
     | Some o1 \<Rightarrow> if o_buyerId o1 = Some (b_id b) then ret o1 else throw (NotFound ''Order not found''))"

definition request_where :: "string \<Rightarrow> (replacement_row \<Rightarrow> bool) \<Rightarrow> replacement_row handler" where
  \<comment> \<open>\<open>replacementRequest.findFirst\<close> by id and a condition\<close>
  "request_where i P =
     bind_act (reads (\<lambda>w. tget (replacements w) i)) (\<lambda>x.
     case x of None \<Rightarrow> throw (NotFound ''Replacement not found'')
     | Some r \<Rightarrow> if P r then ret r else throw (NotFound ''Replacement not found''))"

definition upd_request :: "string \<Rightarrow> (replacement_row \<Rightarrow> replacement_row) \<Rightarrow> world \<Rightarrow> world" where
  "upd_request i f w = w\<lparr>replacements := tupd i f (replacements w)\<rparr>"

definition save_request :: "string \<Rightarrow> (replacement_row \<Rightarrow> replacement_row) \<Rightarrow> replacement_row handler" where
  "save_request i f =
     bind_act (reads (\<lambda>w. tget (replacements w) i)) (\<lambda>x.
     case x of None \<Rightarrow> throw missing_row
     | Some r \<Rightarrow> seq_act (writes (upd_request i f)) (ret (f r)))"

section \<open>Mails\<close>

definition sendSupportEmail :: "replacement_row \<Rightarrow> unit handler" where
  "sendSupportEmail r =
     bind_act (getSellerPublic (r_sellerId r)) (\<lambda>_.
     writes (send_mail (MailToSupport (''[Replacement] Order '' @ r_orderId r))))"

definition mail_buyer :: "string \<Rightarrow> string \<Rightarrow> unit handler" where
  "mail_buyer bid subject =
     bind_act (reads (\<lambda>w. buyer_email w bid)) (\<lambda>em.
     if truthy em then writes (send_mail (MailToBuyer (the em) subject)) else ret ())"

definition sendBuyerReceivedEmail :: "replacement_row \<Rightarrow> unit handler" where
  "sendBuyerReceivedEmail r = mail_buyer (r_buyerId r) ''Vybekart - replacement request received''"

definition sendBuyerApprovedEmail :: "replacement_row \<Rightarrow> unit handler" where
  "sendBuyerApprovedEmail r = mail_buyer (r_buyerId r)
     (if 0 < r_balanceDue r then ''Vybekart - replacement approved, balance payment required''
      else ''Vybekart - replacement initiated'')"

section \<open>The buyer's request\<close>

record create_replacement =
  cr_reason :: string
  cr_description :: "string option"
  cr_orderItemId :: string
  cr_variantId :: "string option"
  cr_photoUrls :: "string list option"

definition request_deadline :: "int \<Rightarrow> int" where
  "request_deadline deliveredAt = deliveredAt + SUBMIT_DAYS * MS_PER_DAY"

definition existing_request :: "world \<Rightarrow> string \<Rightarrow> replacement_row option" where
  "existing_request w oid = tfirst (\<lambda>r. r_orderId r = oid \<and> r_status r \<noteq> REJECTED) (replacements w)"

text \<open>The guards of \<open>createForOrder\<close> after its lookups, in their order.\<close>

definition request_guard :: "world \<Rightarrow> string \<Rightarrow> order_row \<Rightarrow> exn + unit" where
  "request_guard w oid o1 =
     (if o_status o1 \<noteq> DELIVERED then Inl (BadRequest ''Only delivered orders can be replaced'')
      else case o_deliveredAt o1 of
        None \<Rightarrow> Inl (BadRequest ''Order delivery date missing'')
      | Some d \<Rightarrow>
          if request_deadline d < clock w
          then Inl (BadRequest ''Replacement requests must be submitted within 3 days of delivery'')
          else (case existing_request w oid of
                  Some r \<Rightarrow> Inl (BadRequest (if r_status r = R_DELIVERED
                              then ''A replacement has already been completed for this order''
                              else ''A replacement request already exists for this order''))
                | None \<Rightarrow> Inr ()))"

definition request_line :: "world \<Rightarrow> order_row \<Rightarrow> create_replacement \<Rightarrow> exn + order_item_row \<times> product_row \<times> pricing" where
  "request_line w o1 d =
     (case find (\<lambda>it. oi_id it = cr_orderItemId d) (o_items o1) of
        None \<Rightarrow> Inl (BadRequest ''Order line not found'')
      | Some line \<Rightarrow>
          (case tget (products w) (oi_productId line) of
             None \<Rightarrow> Inl (BadRequest ''Order line not found'')
           | Some p \<Rightarrow>
               if p_returnable p = Some False then Inl (BadRequest ''This product is not replaceable'')
               else (case computePricing line p (cr_variantId d) of
                       Inl e \<Rightarrow> Inl e
                     | Inr pr \<Rightarrow> Inr (line, p, pr))))"

definition new_request ::
    "string \<Rightarrow> int \<Rightarrow> string \<Rightarrow> string \<Rightarrow> create_replacement \<Rightarrow> order_item_row \<Rightarrow> product_row \<Rightarrow> pricing \<Rightarrow> bool
     \<Rightarrow> replacement_row" where
  "new_request i now oid bid d line p pr autoApprove =
     (let (st, bal) = (if autoApprove then resolveApprovalStatus (pr_balanceDue pr)
                       else (PENDING_ADMIN_REVIEW, BAL_NONE))
      in \<lparr>r_id = i, r_orderId = oid, r_buyerId = bid, r_sellerId = p_sellerId p,
          r_orderItemId = Some (oi_id line), r_status = st, r_reason = cr_reason d,
          r_description = cr_description d,
          r_photoUrls = (case cr_photoUrls d of None \<Rightarrow> [] | Some us \<Rightarrow> us), r_adminNote = None,
          r_autoApproved = autoApprove, r_decidedAt = (if autoApprove then Some now else None),
          r_decidedByAdminId = None, r_variantId = or_else (cr_variantId d) (oi_variantId line),
          r_variantLabel = or_else (pr_label pr) (oi_variantLabel line),
          r_originalUnitPrice = pr_original pr, r_replacementUnitPrice = pr_replacement pr,
          r_balanceDue = pr_balanceDue pr, r_balanceStatus = bal, r_razorpayOrderId = None,
          r_razorpayPaymentId = None, r_packingVideoUrl = None, r_packedAt = None, r_shippedAt = None,
          r_deliveredAt = None, r_trackingId = None, r_carrierName = None, r_deliveryProvider = None,
          r_deliveryStatus = None, r_trackingUrl = None, r_createdAt = now,
          r_invoiceNumber = None\<rparr>)"

definition put_request :: "replacement_row \<Rightarrow> world \<Rightarrow> world" where
  "put_request r w = w\<lparr>replacements := tput (r_id r) r (replacements w)\<rparr>"

text \<open>The mails and the rating update that follow the creation of a request.\<close>

definition announce_request :: "replacement_row \<Rightarrow> replacement_view handler" where
  "announce_request r =
     seq_act (onReplacementRequested (r_buyerId r) (r_sellerId r)) (
     seq_act (sendSupportEmail r) (
     seq_act (sendBuyerReceivedEmail r) (
     seq_act (if r_autoApproved r then sendBuyerApprovedEmail r else ret ()) (
     repl_view AsBuyer True r))))"

definition submit_request ::
    "string \<Rightarrow> string \<Rightarrow> string \<Rightarrow> create_replacement \<Rightarrow> order_item_row \<times> product_row \<times> pricing
     \<Rightarrow> replacement_view handler" where
  "submit_request i bid oid d =
     (\<lambda>(line, p, pr).
     bind_act (getBuyerScore bid) (\<lambda>score.
     bind_act (reads clock) (\<lambda>now.
     let r = new_request i now oid bid d line p pr (AUTO_APPROVE_MIN_SCORE \<le> score)
     in seq_act (writes (put_request r)) (announce_request r))))"

definition createForOrder :: "string \<Rightarrow> string \<Rightarrow> string \<Rightarrow> create_replacement \<Rightarrow> replacement_view handler" where
  "createForOrder i uid oid d =
     bind_act (buyer_found uid) (\<lambda>b.
     bind_act (order_of_buyer oid b) (\<lambda>o1.
     seq_act (bind_act (reads (\<lambda>w. request_guard w oid o1)) lift_res) (
     bind_act (bind_act (reads (\<lambda>w. request_line w o1 d)) lift_res) (submit_request i (b_id b) oid d))))"

record variant_choice =
  vc_id :: string
  vc_label :: string
  vc_sellingPrice :: num
  vc_stock :: int
  vc_isCurrent :: bool
  vc_balanceDue :: num

record variant_choices =
  vs_orderItemId :: string
  vs_productId :: string
  vs_productName :: string
  vs_currentVariantId :: "string option"
  vs_currentVariantLabel :: "string option"
  vs_currentUnitPrice :: num
  vs_options :: "variant_choice list"

definition getVariantOptionsForOrder :: "string \<Rightarrow> string \<Rightarrow> string \<Rightarrow> variant_choices handler" where
  "getVariantOptionsForOrder uid oid itemId =
     bind_act (buyer_found uid) (\<lambda>b.
     bind_act (order_of_buyer oid b) (\<lambda>o1.
     case find (\<lambda>it. oi_id it = itemId) (o_items o1) of
       None \<Rightarrow> throw (BadRequest ''Order line not found'')
     | Some line \<Rightarrow>
     bind_act (reads (\<lambda>w. tget (products w) (oi_productId line))) (\<lambda>product.
     case product of None \<Rightarrow> throw (BadRequest ''Order line not found'') | Some p \<Rightarrow>
     ret \<lparr>vs_orderItemId = oi_id line, vs_productId = p_id p, vs_productName = p_name p,
          vs_currentVariantId = oi_variantId line, vs_currentVariantLabel = oi_variantLabel line,
          vs_currentUnitPrice = oi_price line,
          vs_options = map (\<lambda>v. \<lparr>vc_id = vi_id v, vc_label = vi_label v, vc_sellingPrice = vi_sellingPrice v,
              vc_stock = vi_stock v, vc_isCurrent = (Some (vi_id v) = oi_variantId line),
              vc_balanceDue = balance_due (vi_sellingPrice v) (oi_price line)\<rparr>)
            (parseVariantItems (p_variants p))\<rparr>)))"

record eligible_line =
  el_orderId :: string
  el_orderItemId :: string
  el_deliveredAt :: int
  el_totalAmount :: num
  el_productName :: string
  el_productImage :: "string option"
  el_variantLabel :: "string option"
  el_unitPrice :: num
  el_daysLeft :: int

definition days_left :: "int \<Rightarrow> int \<Rightarrow> int" where
  "days_left deadline now = max 0 (- ((now - deadline) div MS_PER_DAY))"

definition eligible_lines :: "world \<Rightarrow> order_row \<Rightarrow> eligible_line list" where
  "eligible_lines w o1 =
     (case o_deliveredAt o1 of None \<Rightarrow> [] | Some d \<Rightarrow>
      if request_deadline d < clock w then []
      else if list_ex (\<lambda>r. r_status r \<noteq> REJECTED) (requests_of w (o_id o1)) then []
      else List.map_filter (\<lambda>it.
        (let product = tget (products w) (oi_productId it)
         in if Option.bind product p_returnable = Some False then None
            else Some \<lparr>el_orderId = o_id o1, el_orderItemId = oi_id it, el_deliveredAt = d,
              el_totalAmount = o_totalAmount o1,
              el_productName = (case product of None \<Rightarrow> ''Product'' | Some p \<Rightarrow> p_name p),
              el_productImage = Option.bind product (\<lambda>p. head_opt (p_images p)),
              el_variantLabel = oi_variantLabel it, el_unitPrice = oi_price it,
              el_daysLeft = days_left (request_deadline d) (clock w)\<rparr>)) (o_items o1))"

definition listEligibleForBuyer :: "string \<Rightarrow> eligible_line list handler" where
  "listEligibleForBuyer uid =
     bind_act (buyer_found uid) (\<lambda>b.
     reads (\<lambda>w. concat (map (eligible_lines w) (take 50 (newest_first (\<lambda>o1. the (o_deliveredAt o1))
       (filter (\<lambda>o1. o_buyerId o1 = Some (b_id b) \<and> o_status o1 = DELIVERED \<and>
          (case o_deliveredAt o1 of None \<Rightarrow> False
           | Some d \<Rightarrow> clock w - SUBMIT_DAYS * MS_PER_DAY \<le> d)) (trows (orders w))))))))"

section \<open>Queries\<close>

definition listForBuyer :: "string \<Rightarrow> replacement_view list handler" where
  "listForBuyer uid =
     bind_act (buyer_found uid) (\<lambda>b.
     reads (\<lambda>w. map (mapReplacementDetail w AsBuyer True) (take 50 (newest_first r_createdAt
       (filter (\<lambda>r. r_buyerId r = b_id b) (trows (replacements w)))))))"

definition getBuyerDetail :: "string \<Rightarrow> string \<Rightarrow> replacement_view handler" where
  "getBuyerDetail uid i =
     bind_act (buyer_found uid) (\<lambda>b.
     bind_act (request_where i (\<lambda>r. r_buyerId r = b_id b)) (repl_view AsBuyer True))"

definition getForOrder :: "string \<Rightarrow> string \<Rightarrow> role list \<Rightarrow> replacement_view list handler" where
  "getForOrder uid oid roles =
     bind_act (reads (\<lambda>w. (buyer_of_user w uid, seller_of_user w uid))) (\<lambda>(b, s1).
     if ADMIN \<notin> set roles \<and> b = None \<and> s1 = None then throw (NotFound ''Order not found'')
     else
       let mine = (\<lambda>r. ADMIN \<in> set roles \<or>
                     (case b of Some x \<Rightarrow> r_buyerId r = b_id x
                      | None \<Rightarrow> (case s1 of Some y \<Rightarrow> r_sellerId r = s_id y | None \<Rightarrow> False)));
           who = (if b \<noteq> None then AsBuyer else if s1 \<noteq> None then AsSeller else AsAdmin)
       in reads (\<lambda>w. map (mapReplacementDetail w who True)
            (newest_first r_createdAt (filter (\<lambda>r. r_orderId r = oid \<and> mine r) (trows (replacements w))))))"

record repl_page =
  rp_items :: "replacement_view list"
  rp_total :: nat
  rp_page :: nat
  rp_limit :: nat

definition repl_page_of ::
    "world \<Rightarrow> viewer \<Rightarrow> bool \<Rightarrow> nat \<Rightarrow> nat \<Rightarrow> (replacement_row \<Rightarrow> bool) \<Rightarrow> repl_page" where
  "repl_page_of w who withSeller page limit P =
     (let rows = filter P (trows (replacements w))
      in \<lparr>rp_items = map (mapReplacementDetail w who withSeller) (slice page limit (newest_first r_createdAt rows)),
          rp_total = length rows, rp_page = page, rp_limit = limit\<rparr>)"

definition listForSeller ::
    "string \<Rightarrow> nat \<Rightarrow> nat \<Rightarrow> replacement_status option \<Rightarrow> string option \<Rightarrow> repl_page handler" where
  "listForSeller uid page limit status date =
     bind_act (seller_found uid) (\<lambda>s1.
     reads (\<lambda>w. let range = resolveSellerDateRange (clock w) date
       in repl_page_of w AsSeller False page limit (\<lambda>r. r_sellerId r = s_id s1 \<and>
            (case status of None \<Rightarrow> True | Some st \<Rightarrow> r_status r = st) \<and> in_range_opt range (r_createdAt r))))"

definition getSellerDetail :: "string \<Rightarrow> string \<Rightarrow> replacement_view handler" where
  "getSellerDetail uid i =
     bind_act (seller_found uid) (\<lambda>s1.
     bind_act (request_where i (\<lambda>r. r_sellerId r = s_id s1)) (repl_view AsSeller False))"

definition listAdmin :: "replacement_status option \<Rightarrow> nat \<Rightarrow> nat \<Rightarrow> repl_page handler" where
  "listAdmin status page limit =
     reads (\<lambda>w. repl_page_of w AsAdmin True page limit
       (\<lambda>r. case status of None \<Rightarrow> True | Some st \<Rightarrow> r_status r = st))"

definition getAdminDetail :: "string \<Rightarrow> (replacement_view \<times> seller_public) handler" where
  "getAdminDetail i =
     bind_act (request_where i (\<lambda>_. True)) (\<lambda>r.
     bind_act (reads (\<lambda>w. mapReplacementDetail w AsAdmin True r)) (\<lambda>v.
     bind_act (getSellerPublic (r_sellerId r)) (\<lambda>sp. ret (v, sp))))"

section \<open>The decision and the balance\<close>

definition decide ::
    "string \<Rightarrow> string \<Rightarrow> bool \<Rightarrow> string option \<Rightarrow> replacement_view handler" where
  "decide i adminUserId approved note =
     bind_act (request_where i (\<lambda>_. True)) (\<lambda>r.
     if r_status r \<noteq> PENDING_ADMIN_REVIEW
     then throw (BadRequest ''Request is not pending admin review'') else
     bind_act (reads clock) (\<lambda>now.
     if \<not> approved then
       bind_act (save_request i (\<lambda>r1. r1\<lparr>r_status := REJECTED, r_adminNote := note,
           r_decidedAt := Some now, r_decidedByAdminId := Some adminUserId\<rparr>)) (\<lambda>r2.
       seq_act (mail_buyer (r_buyerId r2) ''Vybekart - replacement request update'')
         (repl_view AsAdmin True r2))
     else
       let (st, bal) = resolveApprovalStatus (r_balanceDue r) in
       bind_act (save_request i (\<lambda>r1. r1\<lparr>r_status := st, r_balanceStatus := bal, r_adminNote := note,
           r_decidedAt := Some now, r_decidedByAdminId := Some adminUserId\<rparr>)) (\<lambda>r2.
       seq_act (sendBuyerApprovedEmail r2) (repl_view AsAdmin True r2))))"

definition markBalancePaid :: "string \<Rightarrow> string \<Rightarrow> replacement_row handler" where
  "markBalancePaid i paymentId =
     bind_act (request_where i (\<lambda>_. True)) (\<lambda>r.
     if r_status r \<noteq> AWAITING_PAYMENT then ret r
     else save_request i (\<lambda>r1. r1\<lparr>r_status := APPROVED, r_balanceStatus := BAL_PAID,
            r_razorpayPaymentId := Some paymentId\<rparr>))"

section \<open>Fulfilment by the seller\<close>

definition uploadReplacementVideo ::
    "config \<Rightarrow> string \<Rightarrow> string \<Rightarrow> upload option \<Rightarrow> replacement_view handler" where
  "uploadReplacementVideo cfg i uid file =
     (if no_file file then throw (BadRequest ''Video file is required'') else
      bind_act (the_seller uid) (\<lambda>s1.
      bind_act (request_where i (\<lambda>r. r_sellerId r = s_id s1)) (\<lambda>r.
      if r_status r \<noteq> APPROVED then throw (BadRequest ''Replacement must be approved before packing'') else
      seq_act (assertSellerCanFulfill r) (
      let fname = video_name (''repl_'' @ i) (the file) in
      seq_act (save_file (''uploads/packing/replacements/'' @ fname) (the file)) (
      bind_act (reads clock) (\<lambda>now.
      bind_act (save_request i (\<lambda>r1. r1\<lparr>
          r_packingVideoUrl := Some (resolvePublicBaseUrl cfg @ ''/uploads/packing/replacements/'' @ fname),
          r_packedAt := Some now, r_status := R_PACKED\<rparr>)) (repl_view AsSeller False)))))))"

definition requestReplacementDelivery ::
    "config \<Rightarrow> shipping_api \<Rightarrow> string \<Rightarrow> string \<Rightarrow> replacement_view handler" where
  "requestReplacementDelivery cfg api i uid =
     bind_act (the_seller uid) (\<lambda>s1.
     bind_act (request_where i (\<lambda>r. r_sellerId r = s_id s1)) (\<lambda>r.
     if r_status r \<noteq> R_PACKED then throw (BadRequest ''Replacement must be packed first'') else
     seq_act (assertSellerCanFulfill r) (
     bind_act (the_order (r_orderId r)) (\<lambda>o1.
     bind_act (book_shipment cfg api s1 uid o1 i normalizeInPhone_replacement 500) (\<lambda>sh.
     bind_act (reads clock) (\<lambda>now.
     bind_act (save_request i (\<lambda>r1. r1\<lparr>r_status := R_SHIPPED, r_shippedAt := Some now,
         r_carrierName := Some ''Delhivery'', r_trackingId := sh_waybill sh,
         r_deliveryProvider := Some ''DELHIVERY'', r_trackingUrl := sh_trackingUrl sh,
         r_deliveryStatus := or_else (sh_status sh) (Some ''Created'')\<rparr>)) (repl_view AsSeller False)))))))"

text \<open>\<open>ship\<close>, the deprecated name of the same request.\<close>

definition shipReplacement :: "config \<Rightarrow> shipping_api \<Rightarrow> string \<Rightarrow> string \<Rightarrow> replacement_view handler" where
  "shipReplacement cfg api i uid = requestReplacementDelivery cfg api i uid"

record repl_delivery =
  rd_deliveryStatus :: "string option"
  rd_trackingId :: "string option"
  rd_status :: replacement_status
  rd_view :: replacement_view

definition repl_polled :: "string option \<Rightarrow> int \<Rightarrow> replacement_row \<Rightarrow> replacement_row" where
  "repl_polled st now r =
     (let r2 = r\<lparr>r_deliveryStatus := or_else st (r_deliveryStatus r)\<rparr>
      in if isDelhiveryDeliveredStatus st
         then r2\<lparr>r_status := R_DELIVERED, r_deliveredAt := or_else (r_deliveredAt r) (Some now)\<rparr>
         else r2)"

definition repl_delivery_of :: "replacement_row \<Rightarrow> repl_delivery handler" where
  "repl_delivery_of r =
     bind_act (repl_view AsSeller False r) (\<lambda>v.
     ret \<lparr>rd_deliveryStatus = r_deliveryStatus r, rd_trackingId = r_trackingId r, rd_status = r_status r,
          rd_view = v\<rparr>)"

definition getReplacementDeliveryStatus :: "shipping_api \<Rightarrow> string \<Rightarrow> string \<Rightarrow> repl_delivery handler" where
  "getReplacementDeliveryStatus api i uid =
     bind_act (the_seller uid) (\<lambda>s1.
     bind_act (request_where i (\<lambda>r. r_sellerId r = s_id s1)) (\<lambda>r.
     if r_deliveryProvider r = Some ''DELHIVERY'' \<and> truthy (r_trackingId r) then
       bind_act (lift_res (dh_track api (the (r_trackingId r)))) (\<lambda>track.
       bind_act (reads clock) (\<lambda>now.
       bind_act (save_request i
           (repl_polled (or_else (case track of None \<Rightarrow> None | Some st \<Rightarrow> st) (r_deliveryStatus r)) now))
         repl_delivery_of))
     else repl_delivery_of r))"

definition deliverReplacement :: "string \<Rightarrow> string \<Rightarrow> replacement_view handler" where
  "deliverReplacement i uid =
     bind_act (seller_found uid) (\<lambda>s1.
     bind_act (request_where i (\<lambda>r. r_sellerId r = s_id s1 \<and> r_status r = R_SHIPPED)) (\<lambda>r.
     bind_act (reads clock) (\<lambda>now.
     bind_act (save_request i (\<lambda>r1. r1\<lparr>r_status := R_DELIVERED, r_deliveredAt := Some now\<rparr>))
       (repl_view AsSeller False))))"

end
