(* ===== verification/Payments.thy ===== *)
theory Payments
  imports Replacements
begin

text \<open>
  Payments through Razorpay, src/payments/payments.service.ts: opening a payment for a cart,
  verifying it and checking out (or refunding), and the balance payment of a replacement. The
  gateway's client and the HMAC are parameters; accepted calls are recorded in \<open>gateway\<close>.
\<close>

section \<open>Parameters\<close>

record gateway_request =
  gr_amount :: int
  gr_receipt :: string
  gr_notes :: "(string \<times> string) list"

record razorpay =
  rz_keyId :: "string option"
  rz_keySecret :: "string option"
  rz_hmac :: "string \<Rightarrow> string \<Rightarrow> string" \<comment> \<open>secret and text to the hex digest\<close>
  rz_create :: "gateway_request \<Rightarrow> exn + string"
  rz_refund :: "string \<Rightarrow> int \<Rightarrow> exn + string option"

definition isRazorpayConfigured :: "razorpay \<Rightarrow> bool" where
  "isRazorpayConfigured rz \<longleftrightarrow> truthy (opt_trim (rz_keyId rz)) \<and> truthy (opt_trim (rz_keySecret rz))"

definition isDirectCheckoutAllowed :: "config \<Rightarrow> bool" where
  "isDirectCheckoutAllowed cfg \<longleftrightarrow> cfg_allowDirectCheckout cfg \<in> {Some ''true'', Some ''1''}"

definition require_gateway :: "razorpay \<Rightarrow> unit handler" where
  "require_gateway rz =
     (if isRazorpayConfigured rz then ret ()
      else throw (ServiceUnavailable ''Razorpay is not configured on the server''))"

definition PENDING_TTL_SECONDS :: nat where "PENDING_TTL_SECONDS = 30 * 60"

definition pendingKey :: "string \<Rightarrow> string" where
  "pendingKey i = ''payments:razorpay:pending:'' @ i"

definition replacementPendingKey :: "string \<Rightarrow> string" where
  "replacementPendingKey i = ''payments:razorpay:replacement:'' @ i"

record payment_dto =
  pd_orderId :: string
  pd_paymentId :: string
  pd_signature :: string

definition verifySignature :: "razorpay \<Rightarrow> payment_dto \<Rightarrow> unit handler" where
  "verifySignature rz d =
     (if \<not> truthy (opt_trim (rz_keySecret rz)) then throw (ServiceUnavailable ''Payments not configured'')
      else if rz_hmac rz (trim (the (rz_keySecret rz))) (pd_orderId d @ ''|'' @ pd_paymentId d) \<noteq> pd_signature d
      then throw (BadRequest ''Invalid payment signature'')
      else ret ())"

section \<open>The payment session\<close>

record pending =
  pp_userId :: "string option"
  pp_addressId :: "string option"
  pp_shippingAddress :: "string option"
  pp_amountPaise :: "int option"
  pp_subtotal :: "num option"
  pp_deliveryFee :: "num option"
  pp_deliveryProvider :: "string option"
  pp_streamId :: "string option"

definition num_prop :: "json \<Rightarrow> string \<Rightarrow> num option" where
  "num_prop j k = (case get_prop j k of Some (JNum r) \<Rightarrow> Some r | _ \<Rightarrow> None)"

definition pending_json :: "pending \<Rightarrow> json" where
  "pending_json p =
     JObj (opt_entry ''userId'' (map_option JStr (pp_userId p))
         @ opt_entry ''addressId'' (map_option JStr (pp_addressId p))
         @ opt_entry ''shippingAddress'' (map_option JStr (pp_shippingAddress p))
         @ opt_entry ''amountPaise'' (map_option (\<lambda>n. JNum (of_int n)) (pp_amountPaise p))
         @ opt_entry ''subtotal'' (map_option JNum (pp_subtotal p))
         @ opt_entry ''deliveryFee'' (map_option JNum (pp_deliveryFee p))
         @ [(''deliveryProvider'', case pp_deliveryProvider p of None \<Rightarrow> JNull | Some s \<Rightarrow> JStr s)]
         @ opt_entry ''streamId'' (map_option JStr (pp_streamId p)))"

definition pending_of_json :: "json \<Rightarrow> pending" where
  "pending_of_json j =
     \<lparr>pp_userId = str_prop j ''userId'', pp_addressId = str_prop j ''addressId'',
      pp_shippingAddress = str_prop j ''shippingAddress'', pp_amountPaise = int_prop j ''amountPaise'',
      pp_subtotal = num_prop j ''subtotal'', pp_deliveryFee = num_prop j ''deliveryFee'',
      pp_deliveryProvider = str_prop j ''deliveryProvider'', pp_streamId = str_prop j ''streamId''\<rparr>"

definition put_session :: "string \<Rightarrow> json \<Rightarrow> unit handler" where
  "put_session key j =
     writes (\<lambda>w. upd_cache (redis_set (clock w) key (JsonText j) (Some PENDING_TTL_SECONDS)) w)"

definition get_session :: "string \<Rightarrow> text_val option handler" where
  "get_session key = reads (\<lambda>w. redis_get (clock w) (cache w) key)"

definition drop_session :: "string \<Rightarrow> unit handler" where
  "drop_session key = writes (upd_cache (redis_del key))"

section \<open>Opening a payment for the cart\<close>

record prefill =
  pf_name :: string
  pf_email :: string
  pf_contact :: string

definition prefill_of :: "world \<Rightarrow> string \<Rightarrow> prefill" where
  "prefill_of w uid =
     (case tget (users w) uid of
        None \<Rightarrow> \<lparr>pf_name = [], pf_email = [], pf_contact = []\<rparr>
      | Some u \<Rightarrow> \<lparr>pf_name = u_name u, pf_email = u_email u,
          pf_contact = (case u_phone u of None \<Rightarrow> [] | Some p \<Rightarrow> p)\<rparr>)"

record opened_payment =
  op_razorpayOrderId :: string
  op_amount :: int
  op_keyId :: "string option"
  op_subtotal :: num
  op_deliveryFee :: num
  op_total :: num
  op_prefill :: prefill

definition paise :: "num \<Rightarrow> int" where
  "paise x = math_round (nmul x 100)"

definition log_gateway :: "gateway_call \<Rightarrow> unit handler" where
  "log_gateway c = writes (\<lambda>w. w\<lparr>gateway := gateway w @ [c]\<rparr>)"

definition create_gateway_order :: "razorpay \<Rightarrow> gateway_request \<Rightarrow> string handler" where
  "create_gateway_order rz rq =
     (case rz_create rz rq of
        Inl e \<Rightarrow> throw e
      | Inr i \<Rightarrow> seq_act (log_gateway (GatewayOrder i (gr_amount rq))) (ret i))"

text \<open>The part after \<open>prepareCheckoutForPayment\<close>.\<close>

definition open_prepared :: "razorpay \<Rightarrow> string \<Rightarrow> string \<Rightarrow> checkout_prep \<Rightarrow> opened_payment handler" where
  "open_prepared rz uid addressId prep =
     (if paise (cp_total prep) < 100 then throw (BadRequest ''Minimum payable amount is Rs1'') else
     bind_act (reads clock) (\<lambda>now.
     bind_act (create_gateway_order rz \<lparr>gr_amount = paise (cp_total prep),
         gr_receipt = ''vk_'' @ take 8 uid @ ''_'' @ int_digits now,
         gr_notes = [(''userId'', uid), (''streamId'', cp_streamId prep), (''addressId'', addressId)]\<rparr>) (\<lambda>i.
     seq_act (put_session (pendingKey i) (pending_json
         \<lparr>pp_userId = Some uid, pp_addressId = Some addressId,
          pp_shippingAddress = Some (cp_shippingAddress prep), pp_amountPaise = Some (paise (cp_total prep)),
          pp_subtotal = Some (cp_subtotal prep), pp_deliveryFee = Some (cp_deliveryFee prep),
          pp_deliveryProvider = cp_deliveryProvider prep, pp_streamId = Some (cp_streamId prep)\<rparr>)) (
     bind_act (reads (\<lambda>w. prefill_of w uid)) (\<lambda>pf.
     ret \<lparr>op_razorpayOrderId = i, op_amount = paise (cp_total prep), op_keyId = rz_keyId rz,
          op_subtotal = cp_subtotal prep, op_deliveryFee = cp_deliveryFee prep, op_total = cp_total prep,
          op_prefill = pf\<rparr>)))))"

definition createRazorpayOrder :: "razorpay \<Rightarrow> shipping_api \<Rightarrow> string \<Rightarrow> string \<Rightarrow> opened_payment handler" where
  "createRazorpayOrder rz api uid addressId =
     seq_act (require_gateway rz) (
     bind_act (prepareCheckoutForPayment api uid addressId) (open_prepared rz uid addressId))"

section \<open>Refunds and failures\<close>

definition attemptRefund :: "razorpay \<Rightarrow> string \<Rightarrow> int option \<Rightarrow> (refund_status \<times> string option) handler" where
  "attemptRefund rz paymentId amount =
     (if \<not> isRazorpayConfigured rz then ret (REFUND_FAILED, None)
      else case amount of
        None \<Rightarrow> ret (REFUND_FAILED, None) \<comment> \<open>a session without an amount: the call is rejected\<close>
      | Some n \<Rightarrow>
          (case rz_refund rz paymentId n of
             Inl _ \<Rightarrow> ret (REFUND_FAILED, None)
           | Inr refundId \<Rightarrow> seq_act (log_gateway (GatewayRefund paymentId n)) (ret (REFUNDED, refundId))))"

text \<open>The payment id is unique: a second row for it is refused, logged and ignored.\<close>

definition recordCheckoutFailure :: "failure_row \<Rightarrow> unit handler" where
  "recordCheckoutFailure f =
     writes (\<lambda>w. case tget (failures w) (f_razorpayPaymentId f) of
        None \<Rightarrow> w\<lparr>failures := tput (f_razorpayPaymentId f) f (failures w)\<rparr>
      | Some _ \<Rightarrow> w)"

section \<open>Verifying a payment and checking out\<close>

definition refunded_text :: string where
  "refunded_text = ''Payment received but we could not place your order. A full refund has been initiated and should reflect in 5-7 business days.''"

definition unrefunded_text :: "string \<Rightarrow> string" where
  "unrefunded_text pid = ''Payment received but we could not place your order. Our team will process a refund shortly - contact support with payment ID: '' @ pid"

definition prior_failure :: "string \<Rightarrow> failure_row \<Rightarrow> exn" where
  "prior_failure pid f =
     (if f_refundStatus f = Some REFUNDED
      then BadRequest ''Your payment was refunded automatically because the order could not be completed. The refund should appear in 5-7 business days.''
      else BadRequest (''We could not complete your order for this payment. Please contact support with payment ID: '' @ pid))"

definition paid_options :: "payment_dto \<Rightarrow> pending \<Rightarrow> checkout_options" where
  "paid_options d p =
     \<lparr>ko_markPaid = True, ko_razorpayOrderId = Some (pd_orderId d),
      ko_razorpayPaymentId = Some (pd_paymentId d), ko_deliveryFee = pp_deliveryFee p,
      ko_deliveryProvider = pp_deliveryProvider p\<rparr>"

definition session_checkout ::
    "config \<Rightarrow> shipping_api \<Rightarrow> (nat \<Rightarrow> string) \<Rightarrow> string \<Rightarrow> payment_dto \<Rightarrow> pending \<Rightarrow> checkout_result handler" where
  "session_checkout cfg api uuid uid d p =
     bind_act (checkoutFromCart cfg api uuid uid
         \<lparr>kd_addressId = pp_addressId p, kd_shippingAddress = pp_shippingAddress p,
          kd_paymentMethod = Some ''RAZORPAY''\<rparr> (paid_options d p)) (\<lambda>k.
     seq_act (drop_session (pendingKey (pd_orderId d))) (ret k))"

definition after_failed_checkout ::
    "razorpay \<Rightarrow> string \<Rightarrow> payment_dto \<Rightarrow> pending \<Rightarrow> exn \<Rightarrow> checkout_result handler" where
  "after_failed_checkout rz uid d p e =
     bind_act (attemptRefund rz (pd_paymentId d) (pp_amountPaise p)) (\<lambda>(st, refundId).
     seq_act (recordCheckoutFailure
        \<lparr>f_userId = uid, f_razorpayOrderId = pd_orderId d, f_razorpayPaymentId = pd_paymentId d,
         f_amountPaise = (case pp_amountPaise p of None \<Rightarrow> 0 | Some n \<Rightarrow> n), f_reason = e,
         f_refundStatus = Some st, f_razorpayRefundId = refundId\<rparr>)
     (if st = REFUNDED then throw (BadRequest refunded_text)
      else throw (BadRequest (unrefunded_text (pd_paymentId d)))))"

definition order_of_payment :: "world \<Rightarrow> string \<Rightarrow> order_row option" where
  "order_of_payment w pid = tfirst (\<lambda>o1. o_razorpayPaymentId o1 = Some pid) (orders w)"

definition verifyAndCheckout ::
    "razorpay \<Rightarrow> config \<Rightarrow> shipping_api \<Rightarrow> (nat \<Rightarrow> string) \<Rightarrow> string \<Rightarrow> payment_dto \<Rightarrow> checkout_result handler" where
  "verifyAndCheckout rz cfg api uuid uid d =
     seq_act (require_gateway rz) (
     seq_act (verifySignature rz d) (
     bind_act (reads (\<lambda>w. order_of_payment w (pd_paymentId d))) (\<lambda>existing.
     case existing of Some o1 \<Rightarrow> ret (toCheckoutResponse o1) | None \<Rightarrow>
     bind_act (reads (\<lambda>w. tget (failures w) (pd_paymentId d))) (\<lambda>failure.
     case failure of Some f \<Rightarrow> throw (prior_failure (pd_paymentId d) f) | None \<Rightarrow>
     bind_act (get_session (pendingKey (pd_orderId d))) (\<lambda>raw.
     case raw of None \<Rightarrow> throw (BadRequest ''Payment session expired or invalid. Please try checkout again.'')
     | Some v \<Rightarrow>
     (case json_parse v of
        None \<Rightarrow> throw (BadRequest ''Invalid payment session'')
      | Some j \<Rightarrow>
          let p = pending_of_json j in
          if pp_userId p \<noteq> Some uid then throw (BadRequest ''Payment does not belong to this account'')
          else if \<not> truthy (pp_addressId p) \<or> \<not> truthy (pp_shippingAddress p)
          then throw (BadRequest ''Payment session is missing address. Please checkout again.'')
          else catching (session_checkout cfg api uuid uid d p) (after_failed_checkout rz uid d p)))))))"

section \<open>The balance of a replacement\<close>

record balance_session =
  bs_razorpayOrderId :: string
  bs_amount :: int
  bs_keyId :: "string option"
  bs_replacementId :: string
  bs_balanceDue :: num
  bs_prefill :: prefill

definition session_for_balance :: "razorpay \<Rightarrow> string \<Rightarrow> replacement_row \<Rightarrow> string \<Rightarrow> balance_session handler" where
  "session_for_balance rz uid r i =
     bind_act (reads (\<lambda>w. prefill_of w uid)) (\<lambda>pf.
     ret \<lparr>bs_razorpayOrderId = i, bs_amount = paise (r_balanceDue r), bs_keyId = rz_keyId rz,
          bs_replacementId = r_id r, bs_balanceDue = r_balanceDue r, bs_prefill = pf\<rparr>)"

definition buyer_forbidden :: "string \<Rightarrow> buyer_row handler" where
  "buyer_forbidden uid =
     bind_act (reads (\<lambda>w. buyer_of_user w uid)) (\<lambda>x.
     case x of None \<Rightarrow> throw (Forbidden ''Buyer not found'') | Some b \<Rightarrow> ret b)"

definition balance_request :: "string \<Rightarrow> (replacement_row \<Rightarrow> bool) \<Rightarrow> string \<Rightarrow> replacement_row handler" where
  "balance_request i P text =
     bind_act (reads (\<lambda>w. tget (replacements w) i)) (\<lambda>x.
     case x of None \<Rightarrow> throw (BadRequest text)
     | Some r \<Rightarrow> if P r then ret r else throw (BadRequest text))"

definition balance_json :: "string \<Rightarrow> string \<Rightarrow> int \<Rightarrow> json" where
  "balance_json uid i n =
     JObj [(''userId'', JStr uid), (''replacementId'', JStr i), (''amountPaise'', JNum (of_int n))]"

text \<open>A Razorpay order id is unique among the requests.\<close>

definition set_gateway_order :: "string \<Rightarrow> string \<Rightarrow> unit handler" where
  "set_gateway_order rid i =
     bind_act (reads (\<lambda>w. list_ex (\<lambda>r. r_id r \<noteq> rid \<and> r_razorpayOrderId r = Some i) (trows (replacements w)))) (\<lambda>clash.
     if clash then throw (Crash ''P2002'')
     else writes (upd_request rid (\<lambda>r. r\<lparr>r_razorpayOrderId := Some i\<rparr>)))"

definition createReplacementBalanceOrder :: "razorpay \<Rightarrow> string \<Rightarrow> string \<Rightarrow> balance_session handler" where
  "createReplacementBalanceOrder rz uid rid =
     seq_act (require_gateway rz) (
     bind_act (buyer_forbidden uid) (\<lambda>b.
     bind_act (balance_request rid (\<lambda>r. r_buyerId r = b_id b) ''Replacement not found'') (\<lambda>r.
     if r_status r \<noteq> AWAITING_PAYMENT then throw (BadRequest ''No balance payment is due'')
     else if r_balanceDue r \<le> 0 then throw (BadRequest ''No balance payment is due'')
     else if r_balanceStatus r = BAL_PAID then throw (BadRequest ''Balance already paid'')
     else if truthy (r_razorpayOrderId r) then session_for_balance rz uid r (the (r_razorpayOrderId r))
     else if paise (r_balanceDue r) < 100 then throw (BadRequest ''Minimum payable amount is Rs1'') else
     bind_act (reads clock) (\<lambda>now.
     bind_act (create_gateway_order rz \<lparr>gr_amount = paise (r_balanceDue r),
         gr_receipt = ''vk_repl_'' @ take 8 rid @ ''_'' @ int_digits now,
         gr_notes = [(''userId'', uid), (''replacementId'', rid), (''type'', ''replacement_balance'')]\<rparr>) (\<lambda>i.
     seq_act (set_gateway_order rid i) (
     seq_act (put_session (replacementPendingKey i) (balance_json uid rid (paise (r_balanceDue r)))) (
     session_for_balance rz uid r i)))))))"

record balance_result =
  bz_replacementId :: string
  bz_status :: replacement_status

definition verifyReplacementBalancePayment ::
    "razorpay \<Rightarrow> string \<Rightarrow> string \<Rightarrow> payment_dto \<Rightarrow> balance_result handler" where
  "verifyReplacementBalancePayment rz uid rid d =
     seq_act (require_gateway rz) (
     seq_act (verifySignature rz d) (
     bind_act (buyer_forbidden uid) (\<lambda>b.
     bind_act (balance_request rid (\<lambda>r. r_buyerId r = b_id b \<and> r_razorpayOrderId r = Some (pd_orderId d))
        ''Replacement payment not found'') (\<lambda>r.
     if r_balanceStatus r = BAL_PAID then ret \<lparr>bz_replacementId = r_id r, bz_status = r_status r\<rparr> else
     bind_act (get_session (replacementPendingKey (pd_orderId d))) (\<lambda>raw.
     case raw of None \<Rightarrow> throw (BadRequest ''Payment session expired. Please try again.'')
     | Some v \<Rightarrow>
     (case json_parse v of
        None \<Rightarrow> throw (Crash ''SyntaxError'')
      | Some j \<Rightarrow>
          if str_prop j ''userId'' \<noteq> Some uid \<or> str_prop j ''replacementId'' \<noteq> Some rid
          then throw (Forbidden ''Payment does not belong to this user'') else
          bind_act (save_request rid (\<lambda>r1. r1\<lparr>r_status := APPROVED, r_balanceStatus := BAL_PAID,
              r_razorpayPaymentId := Some (pd_paymentId d)\<rparr>)) (\<lambda>r2.
          seq_act (drop_session (replacementPendingKey (pd_orderId d)))
            (ret \<lparr>bz_replacementId = r_id r2, bz_status = r_status r2\<rparr>))))))))"

end
