(* ===== verification/CheckoutFacts.thy ===== *)
theory CheckoutFacts
  imports Orders
begin

text \<open>
  What a placed order amounts to. \<open>order_plan\<close> is the abstract account of \<open>createOrder\<close>: the
  exception it throws, or the row it writes and the catalogue it leaves. The lemmas below refine the
  transaction to it and read off stock and price.
\<close>

section \<open>Creating an order, abstractly\<close>

definition order_plan ::
    "(nat \<Rightarrow> string) \<Rightarrow> create_order \<Rightarrow> string \<Rightarrow> world \<Rightarrow> exn + order_row \<times> catalogue" where
  "order_plan uuid dto uid w =
     (case buyer_of_user w uid of None \<Rightarrow> Inl (Forbidden ''User is not a registered buyer'') | Some b \<Rightarrow>
      if co_items dto = [] then Inl (BadRequest ''Order must have at least one item'')
      else if \<not> truthy (co_streamId dto)
      then Inl (BadRequest ''Orders are only allowed from a live stream (streamId is required).'') else
      case validateOrderItems w (the (co_streamId dto)) (co_items dto) of Inl e \<Rightarrow> Inl e | Inr _ \<Rightarrow>
      case order_rows w uuid 1 (co_items dto) of Inl e \<Rightarrow> Inl e | Inr rs \<Rightarrow>
      case shift_all shift_table (moves (- 1) rs) (products w) of Inl e \<Rightarrow> Inl e | Inr t \<Rightarrow>
      Inr (new_order (uuid 0) (clock w) (b_id b) dto rs, t))"

definition create_transaction :: "order_row \<Rightarrow> unit handler" where
  "create_transaction o1 = atomic (seq_act (writes (put_order o1)) (take_stock (o_items o1)))"

lemma new_order_items [simp]: "o_items (new_order i now b dto rs) = rs"
  by (simp add: new_order_def)

lemma new_order_id [simp]: "o_id (new_order i now b dto rs) = i"
  by (simp add: new_order_def)

lemma wp_create_transaction:
  "wp (create_transaction o1) Q w =
     (case shift_all shift_table (moves (- 1) (o_items o1)) (products w) of
        Inl e \<Rightarrow> Q (Inl e) w
      | Inr t \<Rightarrow> Q (Inr ()) (put_order o1 (w\<lparr>products := t\<rparr>)))"
proof -
  have c: "put_order o1 w\<lparr>products := t\<rparr> = put_order o1 (w\<lparr>products := t\<rparr>)" for t
    by (simp add: put_order_def)
  have "(\<lambda>r s'. case r of Inl e \<Rightarrow> Q (Inl e) w | Inr x \<Rightarrow> Q (Inr x) s') =
        (\<lambda>r s'. case r of Inl e \<Rightarrow> (\<lambda>e. Q (Inl e) w) e | Inr x \<Rightarrow> (\<lambda>s'. Q (Inr ()) s') s')"
    by (intro ext) (auto split: sum.splits)
  then show ?thesis
    using wp_shift_lines[of "o_items o1" oi_productId oi_variantId "\<lambda>r. - oi_quantity r"
        "\<lambda>e. Q (Inl e) w" "\<lambda>s'. Q (Inr ()) s'" "put_order o1 w"]
    by (simp add: create_transaction_def wp_atomic wp_seq wp_writes take_stock_def moves_def c cong: sum.case_cong)
       (simp add: put_order_def)
qed

lemma wp_createOrder [wp_simps]:
  "wp (createOrder uuid dto uid) Q w =
     (case order_plan uuid dto uid w of
        Inl e \<Rightarrow> Q (Inl e) w
      | Inr (o1, t) \<Rightarrow> Q (Inr o1) (put_order o1 (w\<lparr>products := t\<rparr>)))"
proof -
  have fold: "atomic (seq_act (writes (put_order (new_order i now b dto rs))) (take_stock rs)) =
      create_transaction (new_order i now b dto rs)" for i now b rs
    by (simp add: create_transaction_def)
  show ?thesis
    by (cases "buyer_of_user w uid"; cases "validateOrderItems w (the (co_streamId dto)) (co_items dto)";
        cases "order_rows w uuid 1 (co_items dto)")
       (simp_all add: createOrder_def order_plan_def fold Let_def wp_bind wp_seq wp_reads wp_throw
          wp_lift_res wp_ret wp_create_transaction on_ok_def split: sum.splits)
qed

section \<open>The lines and the rows\<close>

text \<open>The catalogue is keyed by the product ids.\<close>

definition keyed :: "world \<Rightarrow> bool" where
  "keyed w \<longleftrightarrow> (\<forall>pid p. tget (products w) pid = Some p \<longrightarrow> p_id p = pid)"

lemma check_lines_all:
  "check_lines w ls = Inr u \<longleftrightarrow>
     (\<forall>l \<in> set ls. \<exists>p. tget (products w) (ol_productId l) = Some p \<and> check_line p l = Inr ())"
  by (induction ls) (auto split: option.splits sum.splits)

lemma validated_lines:
  "validateOrderItems w sid ls = Inr u \<Longrightarrow> l \<in> set ls \<Longrightarrow>
   \<exists>p. tget (products w) (ol_productId l) = Some p \<and> check_line p l = Inr ()"
  by (auto simp: validateOrderItems_def check_lines_all Let_def split: if_splits sum.splits)

lemma found_variant_trimmed: "findVariantItem vs vid = Some v \<Longrightarrow> trim vid = vid \<and> vid \<noteq> []"
proof -
  assume f: "findVariantItem vs vid = Some v"
  then have "v \<in> set (parseVariantItems vs)" "vi_id v = vid"
    by (auto simp: findVariantItem_def find_Some_iff)
  then show ?thesis using parsed_items_wf[of v vs] by (auto simp: wf_item_def)
qed

text \<open>A validated line has a row, at the current price, on a cell that covers it.\<close>

lemma row_of_valid_line:
  assumes "check_line p l = Inr ()" "tget (products w) (ol_productId l) = Some p" "keyed w"
  shows "\<exists>r. order_row_of_line w iid l = Inr r \<and> oi_productId r = ol_productId l \<and>
             oi_quantity r = ol_quantity l \<and> oi_variantId r = opt_trim (ol_variantId l) \<and> line_price p (ol_variantId l) = Some (oi_price r) \<and>
             (\<exists>n. stock_avail (products w) (stock_cell (products w) (oi_productId r, oi_variantId r)) = Some n \<and>
                  oi_quantity r \<le> n)"
proof (cases "productHasVariantItems (p_variants p)")
  case True
  with assms(1) obtain vid v where v: "ol_variantId l = Some vid" "findVariantItem (p_variants p) vid = Some v"
      "ol_quantity l \<le> vi_stock v"
    by (cases "ol_variantId l") (auto simp: check_line_def opt_trim_def split: if_splits option.splits)
  with True assms found_variant_trimmed[OF v(2)] show ?thesis
    by (simp add: order_row_of_line_def line_price_def keyed_def stock_cell_def stock_avail_def
        product_avail_def variant_stock_def opt_trim_def)
next
  case False
  with assms show ?thesis
    by (auto simp: check_line_def order_row_of_line_def line_price_def keyed_def stock_cell_def stock_avail_def
        product_avail_def split: if_splits)
qed

definition row_of :: "world \<Rightarrow> order_line \<Rightarrow> order_item_row \<Rightarrow> bool" where
  "row_of w l r \<longleftrightarrow>
     oi_productId r = ol_productId l \<and> oi_quantity r = ol_quantity l \<and>
     oi_variantId r = opt_trim (ol_variantId l) \<and>
     Option.bind (tget (products w) (ol_productId l)) (\<lambda>p. line_price p (ol_variantId l)) = Some (oi_price r) \<and>
     (\<exists>n. stock_avail (products w) (stock_cell (products w) (oi_productId r, oi_variantId r)) = Some n \<and>
          oi_quantity r \<le> n)"

lemma order_rows_of_valid:
  "keyed w \<Longrightarrow>
   (\<And>l. l \<in> set ls \<Longrightarrow> \<exists>p. tget (products w) (ol_productId l) = Some p \<and> check_line p l = Inr ()) \<Longrightarrow>
   \<exists>rs. order_rows w uuid n ls = Inr rs \<and> list_all2 (row_of w) ls rs"
proof (induction ls arbitrary: n)
  case Nil
  then show ?case by simp
next
  case (Cons l ls)
  from Cons.prems(2)[of l] obtain p where "tget (products w) (ol_productId l) = Some p" "check_line p l = Inr ()"
    by auto
  with row_of_valid_line[OF this(2) this(1) Cons.prems(1), of "uuid n"]
  obtain r where r: "order_row_of_line w (uuid n) l = Inr r" "row_of w l r"
    by (auto simp: row_of_def)
  from Cons.IH[of "Suc n"] Cons.prems obtain rs
    where "order_rows w uuid (Suc n) ls = Inr rs" "list_all2 (row_of w) ls rs" by auto
  with r show ?case by simp
qed

section \<open>What an order takes\<close>

definition line_cell :: "world \<Rightarrow> order_line \<Rightarrow> string \<times> string option" where
  "line_cell w l = stock_cell (products w) (ol_productId l, opt_trim (ol_variantId l))"

definition demand :: "world \<Rightarrow> order_line list \<Rightarrow> string \<times> string option \<Rightarrow> int" where
  "demand w ls c = sum_list (map (\<lambda>l. if line_cell w l = c then ol_quantity l else 0) ls)"

lemma moved_demand:
  "list_all2 (row_of w) ls rs \<Longrightarrow> moved (stock_cell (products w)) (moves sg rs) c = sg * demand w ls c"
  by (induction rule: list_all2_induct)
     (auto simp: moves_def demand_def row_of_def line_cell_def algebra_simps)

lemma order_planD:
  assumes "order_plan uuid dto uid w = Inr (o1, t)" "keyed w"
  shows "o_id o1 = uuid 0 \<and> o_status o1 = PENDING \<and> o_razorpayPaymentId o1 = None \<and>
         o_totalAmount o1 = rows_total (o_items o1) \<and>
         list_all2 (row_of w) (co_items dto) (o_items o1) \<and>
         shift_all shift_table (moves (- 1) (o_items o1)) (products w) = Inr t \<and>
         (\<exists>b. buyer_of_user w uid = Some b \<and> o_buyerId o1 = Some (b_id b))"
proof -
  from assms(1) obtain b rs where b: "buyer_of_user w uid = Some b"
    and v: "validateOrderItems w (the (co_streamId dto)) (co_items dto) = Inr ()"
    and rs: "order_rows w uuid 1 (co_items dto) = Inr rs"
    and t: "shift_all shift_table (moves (- 1) rs) (products w) = Inr t"
    and o1: "o1 = new_order (uuid 0) (clock w) (b_id b) dto rs"
    by (auto simp: order_plan_def split: option.splits if_splits sum.splits)
  from order_rows_of_valid[OF assms(2) validated_lines[OF v], of "co_items dto" uuid 1] rs
  have "list_all2 (row_of w) (co_items dto) rs" by auto
  with b t show ?thesis by (simp add: o1 new_order_def)
qed

lemma order_plan_stock:
  assumes "order_plan uuid dto uid w = Inr (o1, t)" "keyed w"
  shows "stock_avail t c = map_option (\<lambda>n. n - demand w (co_items dto) c) (stock_avail (products w) c)"
  using order_planD[OF assms] catalogue.shift_all_avail[of "moves (- 1) (o_items o1)" "products w" t c]
  by (simp add: moved_demand[where ls = "co_items dto"])

lemma row_covered:
  "list_all2 (row_of w) ls rs \<Longrightarrow> (k, d) \<in> set (moves (- 1) rs) \<Longrightarrow>
   \<exists>n. stock_avail (products w) (stock_cell (products w) k) = Some n \<and> 0 \<le> n + d"
  by (induction rule: list_all2_induct) (auto simp: moves_def row_of_def)

lemma cells_of_rows:
  "list_all2 (row_of w) ls rs \<Longrightarrow> map (\<lambda>(k, d). stock_cell (products w) k) (moves sg rs) = map (line_cell w) ls"
  by (induction rule: list_all2_induct) (auto simp: moves_def row_of_def line_cell_def)

text \<open>Lines that validate and draw on different cells are always granted.\<close>

lemma order_plan_granted:
  assumes "keyed w" "buyer_of_user w uid = Some b" "truthy (co_streamId dto)"
    and v: "validateOrderItems w (the (co_streamId dto)) (co_items dto) = Inr ()"
    and "distinct (map (line_cell w) (co_items dto))"
  shows "\<exists>o1 t. order_plan uuid dto uid w = Inr (o1, t)"
proof -
  from order_rows_of_valid[OF assms(1) validated_lines[OF v], of "co_items dto" uuid 1]
  obtain rs where rs: "order_rows w uuid 1 (co_items dto) = Inr rs" "list_all2 (row_of w) (co_items dto) rs"
    by auto
  have "\<exists>t. shift_all shift_table (moves (- 1) rs) (products w) = Inr t"
    using row_covered[OF rs(2)] assms(5) cells_of_rows[OF rs(2)] by (intro catalogue.shift_all_enough) simp_all
  moreover have "co_items dto \<noteq> []" using v by (auto simp: validateOrderItems_def)
  ultimately show ?thesis using assms rs(1) by (auto simp: order_plan_def)
qed

lemma demand_distinct:
  "distinct (map (line_cell w) ls) \<Longrightarrow> l \<in> set ls \<Longrightarrow> demand w ls (line_cell w l) = ol_quantity l"
proof (induction ls)
  case (Cons x ls)
  have none: "c \<notin> line_cell w ` set ys \<Longrightarrow> demand w ys c = 0" for ys c
    by (induction ys) (auto simp: demand_def)
  show ?case using Cons none[of "line_cell w x" ls] by (cases "l = x") (auto simp: demand_def)
qed simp

section \<open>What an order costs\<close>

lemma normalized_line:
  "l \<in> set (List.map_filter (normalize_line w) is) \<Longrightarrow>
   \<exists>p. tget (products w) (ci_productId (cl_item l)) = Some p \<and>
       line_price p (ci_variantId (cl_item l)) = Some (cl_unitPrice l) \<and>
       cl_amount l = nmul (cl_unitPrice l) (of_int (ci_quantity (cl_item l)))"
  by (auto simp: List.map_filter_def normalize_line_def split: option.splits)

lemma rows_total_lines:
  assumes "list_all2 (row_of w) (map line_of ls) rs" "set ls \<subseteq> set (List.map_filter (normalize_line w) is)"
  shows "rows_total rs = lines_subtotal ls"
proof -
  have "foldl (\<lambda>t r. nadd t (nmul (oi_price r) (of_int (oi_quantity r)))) a rs
      = foldl (\<lambda>sum l. nadd sum (cl_amount l)) a ls" for a
    using assms
  proof (induction ls arbitrary: rs a)
    case (Cons l ls)
    then obtain r rs' where rs: "rs = r # rs'" "row_of w (line_of l) r" "list_all2 (row_of w) (map line_of ls) rs'"
      by (auto simp: list_all2_Cons1)
    from Cons.prems normalized_line[of l w "is"]
    have "nmul (oi_price r) (of_int (oi_quantity r)) = cl_amount l"
      using rs(2) by (auto simp: row_of_def line_of_def)
    then show ?case using Cons.IH[OF rs(3)] Cons.prems(2) by (simp add: rs(1))
  qed simp
  then show ?thesis by (simp add: rows_total_def lines_subtotal_def)
qed

section \<open>Looking at the cart changes the cache only\<close>

definition same_db :: "world \<Rightarrow> world \<Rightarrow> bool" where
  "same_db w w' \<longleftrightarrow> (\<exists>c. w' = w\<lparr>cache := c\<rparr>)"

lemma same_db_refl [simp]: "same_db w w"
  by (auto simp: same_db_def intro: exI[of _ "cache w"])

lemma same_db_upd_cache [simp]: "same_db w (upd_cache f w') = same_db w w'"
  by (cases w; cases w') (auto simp: same_db_def upd_cache_def)

lemma same_db_cart_writes [simp]:
  "same_db w (index_w u s w') = same_db w w'" "same_db w (unindex_w u s w') = same_db w w'"
  "same_db w (clear_w u s w') = same_db w w'" "same_db w (save_w u st ttl w') = same_db w w'"
  "same_db w (enforce_w u st w') = same_db w w'" "same_db w (getCart_w u w') = same_db w w'"
  by (simp_all add: index_w_def unindex_w_def clear_w_def save_w_def enforce_w_def getCart_w_def Let_def)

lemma same_db_fields:
  "same_db w w' \<Longrightarrow> products w' = products w \<and> streams w' = streams w \<and> clock w' = clock w \<and>
     buyers w' = buyers w \<and> orders w' = orders w \<and> addresses w' = addresses w \<and> outbox w' = outbox w \<and>
     users w' = users w \<and> sellers w' = sellers w \<and> failures w' = failures w \<and> replacements w' = replacements w"
  by (auto simp: same_db_def)

lemma cart_alive_db: "same_db w w' \<Longrightarrow> cart_alive w' st = cart_alive w st"
  by (drule same_db_fields) (simp add: cart_alive_def)

lemma enforced_db: "same_db w w' \<Longrightarrow> enforced w' st = enforced w st"
  by (frule same_db_fields) (simp add: enforced_def cart_alive_db cong: option.case_cong if_cong)

lemma view_of_db: "same_db w w' \<Longrightarrow> view_of w' st = view_of w st"
  by (drule same_db_fields) (simp add: view_of_cong[of w' w])

text \<open>Enforcing the expiry of a cart a second time changes nothing.\<close>

lemma enforced_alive:
  "cart_alive w st \<Longrightarrow> truthy (cs_streamId st) \<Longrightarrow>
   cart_alive w (enforced w st) \<and> enforced w (enforced w st) = enforced w st"
proof -
  assume a: "cart_alive w st" and t: "truthy (cs_streamId st)"
  then obtain s1 where s1: "tget (streams w) (the (cs_streamId st)) = Some s1" by (auto simp: cart_alive_def)
  have e: "enforced w st = (if st_isLive s1 then st\<lparr>cs_updatedAt := Some (clock w)\<rparr>
      else st\<lparr>cs_expiresAt := Some (computeExpiryFromEnd (effectiveEnd s1)), cs_updatedAt := Some (clock w)\<rparr>)"
    using a t s1 by (simp add: enforced_def)
  have "cart_alive w (enforced w st)" using a t s1 by (cases "st_isLive s1") (simp_all add: e cart_alive_def)
  moreover from this have "enforced w (enforced w st) = enforced w st"
    using t s1 by (simp add: enforced_def[of w "enforced w st"]) (simp add: e)
  ultimately show ?thesis by simp
qed

lemma stored_enforce:
  "stored_cart (enforce_w u st w) u =
     (if cs_items st = [] then stored_cart w u
      else if \<not> cart_alive w st then empty_cart
      else if \<not> truthy (cs_streamId st) then stored_cart w u
      else enforced w st)"
proof (cases "cs_items st \<noteq> [] \<and> cart_alive w st \<and> truthy (cs_streamId st)")
  case True
  then show ?thesis
    by (cases "tget (streams w) (the (cs_streamId st))") (auto simp: enforce_w_def enforced_def cart_alive_def)
qed (auto simp: enforce_w_def)

lemma enforced_twice:
  "enforced w (stored_cart (enforce_w u (stored_cart w u) w) u) = enforced w (stored_cart w u)"
  by (cases "cart_alive w (stored_cart w u)"; cases "truthy (cs_streamId (stored_cart w u))")
     (auto simp: stored_enforce enforced_alive, auto simp: enforced_def cart_alive_def)

lemma cart_of_enforce: "cart_of (enforce_w u (stored_cart w u) w) u = cart_of w u"
  by (auto simp: cart_of_def Let_def enforced_db[where w' = "enforce_w u (stored_cart w u) w" and w = w]
      view_of_db[where w' = "enforce_w u (stored_cart w u) w" and w = w] enforced_twice)

lemma cart_of_getCart: "cart_of (getCart_w u w) u = cart_of w u"
proof (cases "cs_items (enforced w (stored_cart w u)) \<noteq> [] \<and>
              (\<exists>e. cs_expiresAt (enforced w (stored_cart w u)) = Some e \<and> e - clock w < 1000)")
  case True
  then have "stored_cart (getCart_w u w) u = empty_cart" by (auto simp: getCart_w_def Let_def)
  with True show ?thesis by (auto simp: cart_of_def enforced_def cart_alive_def Let_def)
next
  case False
  then have "getCart_w u w = enforce_w u (stored_cart w u) w" by (auto simp: getCart_w_def Let_def)
  then show ?thesis by (simp only: cart_of_enforce)
qed

text \<open>\<open>browsing u w w'\<close>: between \<open>w\<close> and \<open>w'\<close> the user has only looked at the cart.\<close>

definition browsing :: "string \<Rightarrow> world \<Rightarrow> world \<Rightarrow> bool" where
  "browsing u w w' \<longleftrightarrow> same_db w w' \<and> cart_of w' u = cart_of w u"

lemma browsing_refl [simp]: "browsing u w w"
  by (simp add: browsing_def)

lemma browsing_load [keeps_rules]: "keeps (browsing u w) (loadCartForUser u)"
  by (rule keepsI) (simp add: wp_simps browsing_def cart_of_enforce)

lemma browsing_getCart [keeps_rules]: "keeps (browsing u w) (getCart u)"
  by (rule keepsI) (simp add: wp_simps browsing_def cart_of_getCart)

lemma browsing_validate: "keeps (browsing u w) (validateCartForCheckout u)"
  unfolding validateCartForCheckout_def by (intro keeps_rules)

lemma browsing_quote: "keeps (browsing u w) (getDeliveryQuoteFromCart api u aid)"
  unfolding getDeliveryQuoteFromCart_def by (intro keeps_rules)

lemma browsing_address: "keeps (browsing u w) (checkout_address u dto)"
  unfolding checkout_address_def resolveShippingAddressOrThrow_def by (intro keeps_rules)

lemma browsing_resolve: "keeps (browsing u w) (resolveShippingAddressOrThrow u aid)"
  unfolding resolveShippingAddressOrThrow_def by (intro keeps_rules)

section \<open>Checking out\<close>

text \<open>
  A checkout that fails leaves at most the cart changed; if the last write is refused because a
  Razorpay id is taken, the order stays behind, unpaid. A checkout that succeeds writes one order.
\<close>

definition left_behind :: "world \<Rightarrow> world \<Rightarrow> bool" where
  "left_behind w w' \<longleftrightarrow>
     (\<exists>o1 c t. w' = put_order o1 (w\<lparr>cache := c, products := t\<rparr>) \<and>
               o_status o1 = PENDING \<and> o_razorpayPaymentId o1 = None)"

definition placed ::
    "world \<Rightarrow> string \<Rightarrow> checkout_options \<Rightarrow> checkout_result \<Rightarrow> world \<Rightarrow> order_row \<Rightarrow> bool" where
  "placed w uid opts k w' o1 \<longleftrightarrow>
     (let cart = cart_of w uid; ls = map line_of (cv_items cart) in
      (\<exists>c t. w' = put_order o1 (w\<lparr>cache := c, products := t,
                     outbox := outbox w @ [OrderPlacedMails (o_id o1)]\<rparr>)) \<and>
      kr_orderId k = o_id o1 \<and> kr_status k = o_status o1 \<and> kr_totalAmount k = o_totalAmount o1 \<and>
      (\<forall>f. ko_deliveryFee opts = Some f \<longrightarrow> kr_deliveryFee k = f) \<and>
      o_status o1 = (if ko_markPaid opts then PAID else PENDING) \<and>
      (ko_markPaid opts \<and> truthy (ko_razorpayPaymentId opts) \<longrightarrow>
         o_razorpayPaymentId o1 = ko_razorpayPaymentId opts) \<and>
      o_totalAmount o1 = (if 0 < kr_deliveryFee k then nadd (cv_subtotal cart) (kr_deliveryFee k)
                          else cv_subtotal cart) \<and>
      list_all2 (row_of w) ls (o_items o1) \<and>
      (\<forall>c. stock_avail (products w') c =
             map_option (\<lambda>n. n - demand w ls c) (stock_avail (products w) c)) \<and>
      stored_cart w' uid = empty_cart)"

definition checkout_post ::
    "world \<Rightarrow> string \<Rightarrow> (nat \<Rightarrow> string) \<Rightarrow> checkout_options \<Rightarrow> exn + checkout_result \<Rightarrow> world \<Rightarrow> bool" where
  "checkout_post w uid uuid opts r w' =
     (case r of
        Inl e \<Rightarrow> same_db w w' \<or> e = Crash ''P2002'' \<and> left_behind w w'
      | Inr k \<Rightarrow> \<exists>o1. o_id o1 = uuid 0 \<and> placed w uid opts k w' o1)"

lemma finish_order_payment:
  "ko_markPaid opts \<Longrightarrow> truthy (ko_razorpayPaymentId opts) \<Longrightarrow>
   o_razorpayPaymentId (finish_order opts fee pr o1) = ko_razorpayPaymentId opts"
  by (simp add: finish_order_def Let_def)

lemma put_order_twice: "o_id o2 = o_id o1 \<Longrightarrow> put_order o2 (put_order o1 w) = put_order o2 w"
  by (simp add: put_order_def tput_def)

lemma clear_put_order: "clear_w u s (put_order o1 w) = put_order o1 (clear_w u s w)"
  by (simp add: clear_w_def unindex_w_def upd_cache_def put_order_def)

lemma mail_put_order: "send_mail m (put_order o1 w) = put_order o1 (send_mail m w)"
  by (simp add: send_mail_def put_order_def)

lemma put_order_fields [simp]:
  "tget (orders (put_order o1 w)) j = (if j = o_id o1 then Some o1 else tget (orders w) j)"
  "products (put_order o1 w) = products w" "cache (put_order o1 w) = cache w" "clock (put_order o1 w) = clock w"
  by (simp_all add: put_order_def)

lemma stored_put_order [simp]: "stored_cart (put_order o1 w) u = stored_cart w u"
  by (simp add: stored_cart_def)

lemma db_form: "same_db w w1 \<Longrightarrow>
  \<exists>c. send_mail m (clear_w u s (w1\<lparr>products := t\<rparr>)) = w\<lparr>cache := c, products := t, outbox := outbox w @ [m]\<rparr>"
  by (cases w) (auto simp: same_db_def send_mail_def clear_w_def unindex_w_def upd_cache_def)

lemma finish_order_simps [simp]:
  "o_id (finish_order opts fee pr o1) = o_id o1" "o_items (finish_order opts fee pr o1) = o_items o1"
  "o_status (finish_order opts fee pr o1) = (if ko_markPaid opts then PAID else o_status o1)"
  "o_totalAmount (finish_order opts fee pr o1) =
     (if 0 < fee then nadd (o_totalAmount o1) fee else o_totalAmount o1)"
  by (simp_all add: finish_order_def Let_def)

lemma finish_order_skip: "\<not> 0 < fee \<Longrightarrow> \<not> ko_markPaid opts \<Longrightarrow> finish_order opts fee pr o1 = o1"
  by (simp add: finish_order_def)

lemma wp_update_created [wp_simps]:
  "wp (update_created_order o2) Q w =
     (if razorpay_clash w o2 then Q (Inl (Crash ''P2002'')) w else Q (Inr ()) (put_order o2 w))"
  by (simp add: update_created_order_def wp_simps)

lemma cart_lines: "set (cv_items (cart_of w uid)) \<subseteq>
    set (List.map_filter (normalize_line w) (cs_items (enforced w (stored_cart w uid))))"
  by (simp add: cart_of_def Let_def view_of_def cart_view_of_def empty_view_def)

lemma cart_subtotal: "cv_subtotal (cart_of w uid) = lines_subtotal (cv_items (cart_of w uid))"
  by (simp add: cart_of_def Let_def view_of_def cart_view_of_def empty_view_def lines_subtotal_def)

lemma row_of_db: "same_db w w' \<Longrightarrow> row_of w' = row_of w"
  by (drule same_db_fields) (simp add: row_of_def fun_eq_iff)

lemma demand_db: "same_db w w' \<Longrightarrow> demand w' = demand w"
  by (drule same_db_fields) (simp add: demand_def line_cell_def fun_eq_iff cong: if_cong)

lemma orders_cart_writes [simp]: "orders (clear_w u s w) = orders w" "orders (send_mail m w) = orders w"
  "products (send_mail m w) = products w" "stored_cart (send_mail m w) u = stored_cart w u"
  by (simp_all add: clear_w_def unindex_w_def upd_cache_def send_mail_def stored_cart_def)

lemma checkout_tail_post:
  assumes w1: "browsing uid w w1" and keyed: "keyed w"
    and plan: "order_plan uuid dto1 uid w1 = Inr (o1, t)"
    and items: "co_items dto1 = map line_of (cv_items (cart_of w uid))"
  shows "wp (checkout_tail uid cart address dto opts q o1) (checkout_post w uid uuid opts)
           (put_order o1 (w1\<lparr>products := t\<rparr>))"
proof -
  have db: "same_db w w1" using w1 by (simp add: browsing_def)
  then have p: "products w1 = products w" by (simp add: same_db_fields)
  have k: "keyed w1" using keyed p by (simp add: keyed_def)
  note o1 = order_planD[OF plan k, unfolded items row_of_db[OF db]]
  have st: "stock_avail t c = map_option (\<lambda>n. n - demand w (map line_of (cv_items (cart_of w uid))) c)
      (stock_avail (products w) c)" for c
    using order_plan_stock[OF plan k, of c] by (simp add: items demand_db[OF db] p)
  have tot: "o_totalAmount o1 = cv_subtotal (cart_of w uid)"
    using o1 rows_total_lines[OF _ cart_lines, of w uid "o_items o1"] by (simp add: cart_subtotal)
  have behind: "left_behind w (put_order o1 (w1\<lparr>products := t\<rparr>))"
    using o1 db by (fastforce simp: left_behind_def same_db_def)
  note forms = mail_put_order clear_put_order put_order_twice finish_order_payment
  have ex: "\<exists>c ta. put_order o2 (send_mail (OrderPlacedMails (uuid 0)) (clear_w uid s (w1\<lparr>products := t\<rparr>)))
      = put_order o2 (w\<lparr>cache := c, products := ta, outbox := outbox w @ [OrderPlacedMails (uuid 0)]\<rparr>)" for o2 s
    using db_form[OF db, of "OrderPlacedMails (uuid 0)" uid s t] by metis
  show ?thesis
    using o1 behind
    by (auto simp: checkout_tail_def checkout_post_def placed_def Let_def wp_simps finish_order_skip st tot forms
        intro!: exI[of _ o1] ex exI[of _ "finish_order _ _ _ o1"])
qed

lemma checkout_post_early: "browsing uid w w' \<Longrightarrow> checkout_post w uid uuid opts (Inl e) w'"
  by (simp add: checkout_post_def browsing_def)

lemma browsing_checkout_quote: "keeps (browsing uid w) (checkout_quote api uid dto opts)"
  unfolding checkout_quote_def by (intro keeps_rules browsing_quote)

lemma wp_bind_getCart:
  assumes "browsing uid w s"
    and "\<And>s'. browsing uid w s' \<Longrightarrow> wp (f (cart_of w uid)) Q s'"
  shows "wp (bind_act (getCart uid) f) Q s"
  using assms by (simp add: wp_bind wp_getCart browsing_def cart_of_getCart)

lemma wp_checkoutFromCart:
  assumes keyed: "keyed w"
  shows "wp (checkoutFromCart cfg api uuid uid dto opts) (checkout_post w uid uuid opts) w"
proof -
  note early = checkout_post_early
  let ?cart = "cart_of w uid"
  have create: "wp (bind_act (createOrder uuid \<lparr>co_items = map line_of (cv_items ?cart),
          co_shippingAddress = Some address, co_streamId = cv_streamId ?cart\<rparr> uid)
          (checkout_tail uid ?cart address dto opts q)) (checkout_post w uid uuid opts) s"
    if s: "browsing uid w s" for s address q
    using checkout_tail_post[OF s keyed] early[OF s]
    by (auto simp: wp_bind wp_createOrder split: sum.splits prod.splits)
  have quote: "wp (bind_act (checkout_quote api uid dto opts) (\<lambda>q.
      bind_act (createOrder uuid \<lparr>co_items = map line_of (cv_items ?cart),
          co_shippingAddress = Some address, co_streamId = cv_streamId ?cart\<rparr> uid)
          (checkout_tail uid ?cart address dto opts q))) (checkout_post w uid uuid opts) s"
    if "browsing uid w s" for s address
    by (rule wp_bind_keeps[OF browsing_checkout_quote that early create])
  show ?thesis
    unfolding checkoutFromCart_def wp_if
    by (auto simp: wp_throw early wp_if
        intro!: wp_seq_keeps[where P = "browsing uid w"] wp_bind_getCart
                wp_bind_keeps[where P = "browsing uid w"] browsing_validate browsing_address early quote)
qed

text \<open>A failed checkout, and what it leaves.\<close>

lemma keyed_db: "same_db w w' \<Longrightarrow> keyed w' = keyed w"
  by (drule same_db_fields) (simp add: keyed_def)

section \<open>An order and its stock\<close>

lemma createOrder_run:
  "createOrder uuid dto uid w =
     (case order_plan uuid dto uid w of
        Inl e \<Rightarrow> (Inl e, w)
      | Inr (o1, t) \<Rightarrow> (Inr o1, put_order o1 (w\<lparr>products := t\<rparr>)))"
  by (cases "order_plan uuid dto uid w") (auto intro!: wp_equation simp: wp_createOrder)

lemma demand_outside: "c \<notin> line_cell w ` set ls \<Longrightarrow> demand w ls c = 0"
  by (induction ls) (auto simp: demand_def)

lemma order_plan_demand:
  assumes "order_plan uuid dto uid w = Inr (o1, t)" "keyed w" "distinct (map (line_cell w) (co_items dto))"
    and "stock_avail (products w) c = Some n" "0 \<le> n"
  shows "demand w (co_items dto) c \<le> n"
proof (cases "c \<in> line_cell w ` set (co_items dto)")
  case True
  then obtain l where l: "l \<in> set (co_items dto)" "c = line_cell w l" by blast
  from order_planD[OF assms(1,2)] l(1) obtain r where "row_of w l r"
    by (auto simp: list_all2_conv_all_nth in_set_conv_nth)
  then have "ol_quantity l \<le> n" using assms(4) l(2) by (auto simp: row_of_def line_cell_def)
  then show ?thesis using demand_distinct[OF assms(3) l(1)] l(2) by simp
qed (simp add: demand_outside assms(5))

lemma order_plan_return:
  assumes "order_plan uuid dto uid w = Inr (o1, t)" "keyed w" "\<forall>l \<in> set (co_items dto). 0 \<le> ol_quantity l"
  shows "\<exists>t2. shift_all shift_table (moves 1 (o_items o1)) t = Inr t2 \<and>
              stock_avail t2 = stock_avail (products w)"
proof -
  note o1 = order_planD[OF assms(1,2)]
  have "d \<le> 0 \<and> stock_avail (products w) (stock_cell (products w) k) \<noteq> None"
    if kd: "(k, d) \<in> set (moves (- 1) (o_items o1))" for k d
  proof -
    from o1 have rows: "list_all2 (row_of w) (co_items dto) (o_items o1)" by blast
    from kd obtain r where r: "r \<in> set (o_items o1)" "k = (oi_productId r, oi_variantId r)" "d = - oi_quantity r"
      by (auto simp: moves_def)
    from rows r(1) obtain l where "l \<in> set (co_items dto)" "row_of w l r"
      by (force simp: list_all2_conv_all_nth in_set_conv_nth)
    then show ?thesis using assms(3) r by (auto simp: row_of_def)
  qed
  note cover = this
  from o1 have sh: "shift_all shift_table (moves (- 1) (o_items o1)) (products w) = Inr t" by blast
  from catalogue.shift_back_possible[OF sh cover] obtain t2
    where "shift_all shift_table (moves 1 (o_items o1)) t = Inr t2" by (auto simp: moves_reversed)
  moreover from this o1 catalogue.shift_back[of "moves (- 1) (o_items o1)" "products w" t t2]
  have "stock_avail t2 = stock_avail (products w)" by (auto simp: moves_reversed fun_eq_iff)
  ultimately show ?thesis by blast
qed

end
