(* ===== verification/PaymentFacts.thy ===== *)
theory PaymentFacts
  imports Payments CheckoutFacts
begin

text \<open>
  What the payment operations guarantee: nothing happens without a valid signature, a payment ends
  in one order or in a recorded failure with at most one refund, and what was quoted is charged.
\<close>

section \<open>Building blocks\<close>

lemma wp_require_gateway [wp_simps]:
  "wp (require_gateway rz) Q w =
     (if isRazorpayConfigured rz then Q (Inr ()) w
      else Q (Inl (ServiceUnavailable ''Razorpay is not configured on the server'')) w)"
  by (simp add: require_gateway_def wp_simps)

definition signed :: "razorpay \<Rightarrow> payment_dto \<Rightarrow> bool" where
  "signed rz d \<longleftrightarrow> truthy (opt_trim (rz_keySecret rz)) \<and>
     rz_hmac rz (trim (the (rz_keySecret rz))) (pd_orderId d @ ''|'' @ pd_paymentId d) = pd_signature d"

lemma wp_verifySignature:
  "(\<And>e. \<not> signed rz d \<Longrightarrow> Q (Inl e) w) \<Longrightarrow> (signed rz d \<Longrightarrow> Q (Inr ()) w) \<Longrightarrow> wp (verifySignature rz d) Q w"
  by (auto simp: verifySignature_def signed_def wp_simps)

lemma wp_verifySignature_ok: "signed rz d \<Longrightarrow> wp (verifySignature rz d) Q w = Q (Inr ()) w"
  by (simp add: verifySignature_def signed_def wp_simps)

lemma wp_log_gateway [wp_simps]: "wp (log_gateway c) Q w = Q (Inr ()) (w\<lparr>gateway := gateway w @ [c]\<rparr>)"
  by (simp add: log_gateway_def wp_simps)

lemma wp_drop_session [wp_simps]: "wp (drop_session key) Q w = Q (Inr ()) (upd_cache (redis_del key) w)"
  by (simp add: drop_session_def wp_simps)

lemma wp_get_session [wp_simps]: "wp (get_session key) Q w = Q (Inr (redis_get (clock w) (cache w) key)) w"
  by (simp add: get_session_def wp_simps)

lemma wp_put_session [wp_simps]:
  "wp (put_session key j) Q w =
     Q (Inr ()) (upd_cache (redis_set (clock w) key (JsonText j) (Some PENDING_TTL_SECONDS)) w)"
  by (simp add: put_session_def wp_simps)

lemma session_keys [simp]:
  "pendingKey i \<noteq> cartKey u" "cartKey u \<noteq> pendingKey i" "pendingKey i = pendingKey j \<longleftrightarrow> i = j"
  "replacementPendingKey i \<noteq> pendingKey j"
  by (simp_all add: pendingKey_def cartKey_def replacementPendingKey_def)

lemma map_of_opt_entry:
  "map_of (opt_entry k v @ rest) j = (if j = k then (case v of None \<Rightarrow> map_of rest j | Some x \<Rightarrow> Some x) else map_of rest j)"
  "map_of (opt_entry k v) j = (if j = k then v else None)"
  by (auto simp: opt_entry_def split: option.splits)

lemma pending_json_roundtrip [simp]: "pending_of_json (pending_json p) = p"
proof (cases p)
  case (fields a b c d e f g h)
  have s: "str_prop (pending_json p) ''userId'' = a" "str_prop (pending_json p) ''addressId'' = b"
      "str_prop (pending_json p) ''shippingAddress'' = c" "str_prop (pending_json p) ''streamId'' = h"
    by (simp_all add: fields pending_json_def str_prop_def map_of_opt_entry del: map_of_append split: option.splits)
  have "str_prop (pending_json p) ''deliveryProvider'' = g"
    by (cases g) (simp_all add: fields pending_json_def str_prop_def map_of_opt_entry del: map_of_append)
  moreover have "num_prop (pending_json p) ''subtotal'' = e" "num_prop (pending_json p) ''deliveryFee'' = f"
    by (simp_all add: fields pending_json_def num_prop_def map_of_opt_entry del: map_of_append split: option.splits)
  moreover have "int_prop (pending_json p) ''amountPaise'' = d"
    by (cases d) (simp_all add: fields pending_json_def int_prop_def map_of_opt_entry del: map_of_append)
  ultimately show ?thesis using s by (simp add: pending_of_json_def fields)
qed

section \<open>The order of a payment\<close>

lemma order_of_payment_row:
  "order_of_payment w pid = Some o1 \<Longrightarrow> o1 \<in> set (trows (orders w)) \<and> o_razorpayPaymentId o1 = Some pid"
  using tfirst_Some[of "\<lambda>o1. o_razorpayPaymentId o1 = Some pid" "orders w" o1] by (simp add: order_of_payment_def)

lemma order_of_payment_none:
  "order_of_payment w pid = None \<longleftrightarrow> (\<forall>o1 \<in> set (trows (orders w)). o_razorpayPaymentId o1 \<noteq> Some pid)"
  by (simp add: order_of_payment_def tfirst_None)

lemma rows_put_order: "set (trows (orders (put_order o1 w))) \<subseteq> insert o1 (set (trows (orders w)))"
  by (simp add: put_order_def trows_tput)

lemma order_of_payment_orders: "orders w' = orders w \<Longrightarrow> order_of_payment w' pid = order_of_payment w pid"
  by (simp add: order_of_payment_def)

lemma order_of_payment_put:
  assumes "order_of_payment w pid = None"
  shows "order_of_payment (put_order o1 w) pid = (if o_razorpayPaymentId o1 = Some pid then Some o1 else None)"
proof (cases "o_razorpayPaymentId o1 = Some pid")
  case True
  have "o1 \<in> set (trows (orders (put_order o1 w)))"
    by (rule tget_in_rows[of _ "o_id o1"]) simp
  with True obtain o2 where o2: "order_of_payment (put_order o1 w) pid = Some o2"
    using order_of_payment_none[of "put_order o1 w" pid] by fastforce
  then have "o2 = o1"
    using order_of_payment_row[OF o2] rows_put_order[of o1 w] assms by (auto simp: order_of_payment_none)
  with True o2 show ?thesis by simp
next
  case False
  then show ?thesis
    using rows_put_order[of o1 w] assms by (auto simp: order_of_payment_none)
qed

lemma payment_left_behind:
  "left_behind w w' \<Longrightarrow> order_of_payment w pid = None \<Longrightarrow>
   order_of_payment w' pid = None \<and> gateway w' = gateway w \<and> failures w' = failures w"
proof -
  assume "left_behind w w'" and n: "order_of_payment w pid = None"
  then obtain o1 c t where w': "w' = put_order o1 (w\<lparr>cache := c, products := t\<rparr>)" "o_razorpayPaymentId o1 = None"
    by (auto simp: left_behind_def)
  have "order_of_payment (w\<lparr>cache := c, products := t\<rparr>) pid = None"
    using n order_of_payment_orders[of "w\<lparr>cache := c, products := t\<rparr>" w] by simp
  then show ?thesis using w' by (simp add: order_of_payment_put) (simp add: put_order_def)
qed

lemma payment_placed:
  assumes "placed w uid (paid_options d p) k w' o1" "order_of_payment w (pd_paymentId d) = None"
    "pd_paymentId d \<noteq> []"
  shows "order_of_payment w' (pd_paymentId d) = Some o1 \<and> gateway w' = gateway w \<and> failures w' = failures w \<and>
         o_status o1 = PAID \<and> kr_orderId k = o_id o1 \<and> kr_status k = PAID \<and> kr_totalAmount k = o_totalAmount o1"
proof -
  from assms(1) obtain c t ms where w': "w' = put_order o1 (w\<lparr>cache := c, products := t, outbox := ms\<rparr>)"
    and o1: "o_status o1 = PAID" "o_razorpayPaymentId o1 = Some (pd_paymentId d)"
    and k: "kr_orderId k = o_id o1" "kr_status k = o_status o1" "kr_totalAmount k = o_totalAmount o1"
    using assms(3) by (auto simp: placed_def paid_options_def Let_def)
  have "order_of_payment (w\<lparr>cache := c, products := t, outbox := ms\<rparr>) (pd_paymentId d) = None"
    using assms(2) order_of_payment_orders[of "w\<lparr>cache := c, products := t, outbox := ms\<rparr>" w] by simp
  then show ?thesis using o1 k by (simp add: w' order_of_payment_put) (simp add: put_order_def)
qed

text \<open>Dropping a payment session does not disturb a placed order.\<close>

lemma placed_drop_session:
  "placed w uid opts k w' o1 \<Longrightarrow> placed w uid opts k (upd_cache (redis_del (pendingKey i)) w') o1"
proof -
  assume p: "placed w uid opts k w' o1"
  then obtain c t ms where w': "w' = put_order o1 (w\<lparr>cache := c, products := t, outbox := outbox w @ [OrderPlacedMails (o_id o1)]\<rparr>)"
    by (auto simp: placed_def Let_def)
  have "upd_cache (redis_del (pendingKey i)) w' = put_order o1 (w\<lparr>cache := redis_del (pendingKey i) c, products := t,
      outbox := outbox w @ [OrderPlacedMails (o_id o1)]\<rparr>)"
    by (simp add: w' upd_cache_def put_order_def)
  then have "\<exists>c t. upd_cache (redis_del (pendingKey i)) w' = put_order o1 (w\<lparr>cache := c, products := t,
      outbox := outbox w @ [OrderPlacedMails (o_id o1)]\<rparr>)" by blast
  moreover have "stored_cart (upd_cache (redis_del (pendingKey i)) w') uid = stored_cart w' uid"
    by (simp add: stored_cart_def)
  ultimately show ?thesis using p unfolding placed_def Let_def by simp
qed

section \<open>Verification\<close>

definition session_of :: "world \<Rightarrow> string \<Rightarrow> pending option" where
  "session_of w i =
     map_option pending_of_json
       (Option.bind (redis_get (clock w) (cache w) (pendingKey i)) json_parse)"

text \<open>The order of a payment in the final state, or a recorded failure, refunded once or not at all.\<close>

definition settled_failure :: "world \<Rightarrow> string \<Rightarrow> world \<Rightarrow> bool" where
  "settled_failure w pid w' \<longleftrightarrow>
     order_of_payment w' pid = None \<and>
     (\<exists>f. tget (failures w') pid = Some f \<and>
        (f_refundStatus f = Some REFUNDED \<and> gateway w' = gateway w @ [GatewayRefund pid (f_amountPaise f)] \<or>
         f_refundStatus f = Some REFUND_FAILED \<and> gateway w' = gateway w))"

definition verify_post ::
    "world \<Rightarrow> razorpay \<Rightarrow> string \<Rightarrow> payment_dto \<Rightarrow> exn + checkout_result \<Rightarrow> world \<Rightarrow> bool" where
  "verify_post w rz uid d r w' =
     (case r of
        Inl e \<Rightarrow> w' = w \<or> signed rz d \<and> order_of_payment w (pd_paymentId d) = None \<and>
                          settled_failure w (pd_paymentId d) w'
      | Inr k \<Rightarrow> signed rz d \<and> gateway w' = gateway w \<and> failures w' = failures w \<and>
          (\<exists>o1. order_of_payment w' (pd_paymentId d) = Some o1 \<and> kr_orderId k = o_id o1 \<and>
                kr_status k = o_status o1 \<and> kr_totalAmount k = o_totalAmount o1 \<and>
                (w' = w \<or>
                 o_status o1 = PAID \<and>
                 (\<exists>p. session_of w (pd_orderId d) = Some p \<and> pp_userId p = Some uid \<and>
                      placed w uid (paid_options d p) k w' o1))))"

lemma wp_recordCheckoutFailure [wp_simps]:
  "wp (recordCheckoutFailure f) Q w =
     Q (Inr ()) (if tget (failures w) (f_razorpayPaymentId f) = None
                 then w\<lparr>failures := tput (f_razorpayPaymentId f) f (failures w)\<rparr> else w)"
  by (cases "tget (failures w) (f_razorpayPaymentId f)") (simp_all add: recordCheckoutFailure_def wp_simps)

lemma order_of_payment_frame [simp]:
  "order_of_payment (w\<lparr>gateway := g\<rparr>) pid = order_of_payment w pid"
  "order_of_payment (w\<lparr>failures := fs\<rparr>) pid = order_of_payment w pid"
  by (simp_all add: order_of_payment_def)

lemma failed_checkout_settles:
  assumes "order_of_payment s (pd_paymentId d) = None" "tget (failures s) (pd_paymentId d) = None"
    "gateway s = gateway w"
  shows "wp (after_failed_checkout rz uid d p e) (\<lambda>r w'. (\<exists>e'. r = Inl e') \<and> settled_failure w (pd_paymentId d) w') s"
  using assms
  by (cases "pp_amountPaise p")
     (auto simp: after_failed_checkout_def attemptRefund_def settled_failure_def wp_simps split: sum.splits)

lemma session_checkout_post:
  assumes "keyed w"
  shows "wp (session_checkout cfg api uuid uid d p)
           (\<lambda>r w'. case r of Inl e \<Rightarrow> same_db w w' \<or> left_behind w w'
              | Inr k \<Rightarrow> \<exists>o1. o_id o1 = uuid 0 \<and> placed w uid (paid_options d p) k w' o1) w"
  unfolding session_checkout_def wp_bind using wp_checkoutFromCart[OF assms]
  by (rule wp_mono) (auto simp: on_ok_def checkout_post_def wp_simps intro: placed_drop_session split: sum.splits)

lemma gateway_db: "same_db w w' \<Longrightarrow> gateway w' = gateway w"
  by (auto simp: same_db_def)

lemma checkout_or_refund:
  assumes k: "keyed w" and n: "order_of_payment w (pd_paymentId d) = None"
    and f: "tget (failures w) (pd_paymentId d) = None" and i: "pd_paymentId d \<noteq> []" and s: "signed rz d"
    and p: "session_of w (pd_orderId d) = Some p" "pp_userId p = Some uid"
  shows "wp (catching (session_checkout cfg api uuid uid d p) (after_failed_checkout rz uid d p))
           (verify_post w rz uid d) w"
proof -
  have fail: "wp (after_failed_checkout rz uid d p e) (verify_post w rz uid d) w'"
    if "same_db w w' \<or> left_behind w w'" for e w'
  proof -
    have "order_of_payment w' (pd_paymentId d) = None" "tget (failures w') (pd_paymentId d) = None"
        "gateway w' = gateway w"
      using that n f payment_left_behind[of w w' "pd_paymentId d"] gateway_db[of w w']
        same_db_fields[of w w'] order_of_payment_orders[of w' w] by auto
    from failed_checkout_settles[OF this] show ?thesis
      by (rule wp_mono) (use n s in \<open>auto simp: verify_post_def\<close>)
  qed
  have ok: "verify_post w rz uid d (Inr x) w'" if "placed w uid (paid_options d p) x w' o1" for x w' o1
    using payment_placed[OF that n i] that s p by (auto simp: verify_post_def)
  show ?thesis
    unfolding wp_catching
  proof (rule wp_mono[OF session_checkout_post[OF k]])
    fix r :: "exn + checkout_result" and s'
    assume post: "case r of Inl e \<Rightarrow> same_db w s' \<or> left_behind w s'
        | Inr x \<Rightarrow> \<exists>o1. o_id o1 = uuid 0 \<and> placed w uid (paid_options d p) x s' o1"
    show "case r of Inl e \<Rightarrow> wp (after_failed_checkout rz uid d p e) (verify_post w rz uid d) s'
        | Inr x \<Rightarrow> verify_post w rz uid d (Inr x) s'"
      using post fail ok by (cases r) auto
  qed
qed

lemma wp_verifyAndCheckout:
  assumes k: "keyed w" and i: "pd_paymentId d \<noteq> []"
  shows "wp (verifyAndCheckout rz cfg api uuid uid d) (verify_post w rz uid d) w"
proof -
  have early: "verify_post w rz uid d (Inl e) w" for e by (simp add: verify_post_def)
  have found: "verify_post w rz uid d (Inr (toCheckoutResponse o1)) w"
    if "signed rz d" "order_of_payment w (pd_paymentId d) = Some o1" for o1
    using that by (simp add: verify_post_def toCheckoutResponse_def)
  note new = checkout_or_refund[OF k _ _ i, of rz, unfolded wp_catching]
  show ?thesis
    unfolding verifyAndCheckout_def
    by (simp only: wp_seq wp_require_gateway on_ok_simps)
       (auto simp: early wp_simps Let_def session_of_def intro!: wp_verifySignature found new split: option.split)
qed

text \<open>A second verification of a payment that went through answers the same and changes nothing.\<close>

lemma verify_again:
  assumes "isRazorpayConfigured rz" "signed rz d" "order_of_payment w (pd_paymentId d) = Some o1"
  shows "verifyAndCheckout rz cfg api uuid uid d w = (Inr (toCheckoutResponse o1), w)"
proof -
  have "wp (verifyAndCheckout rz cfg api uuid uid d) (\<lambda>r w'. r = Inr (toCheckoutResponse o1) \<and> w' = w) w"
    using assms by (simp add: verifyAndCheckout_def wp_simps wp_verifySignature_ok)
  then show ?thesis by (simp add: wp_def split: prod.splits)
qed

lemma verify_configured:
  assumes "verifyAndCheckout rz cfg api uuid uid d w = (Inr k, w')"
  shows "isRazorpayConfigured rz"
proof (rule ccontr)
  assume "\<not> isRazorpayConfigured rz"
  then have "wp (verifyAndCheckout rz cfg api uuid uid d) (\<lambda>r _. \<exists>e. r = Inl e) w"
    by (simp add: verifyAndCheckout_def wp_seq wp_require_gateway)
  from wpD[OF this assms] show False by simp
qed

section \<open>What was quoted is charged\<close>

lemma wp_prepareCheckout:
  "wp (prepareCheckoutForPayment api uid aid)
     (\<lambda>r w'. browsing uid w w' \<and>
        (\<forall>prep. r = Inr prep \<longrightarrow> cp_subtotal prep = cv_subtotal (cart_of w uid) \<and>
           cp_total prep = nadd (cv_subtotal (cart_of w uid)) (cp_deliveryFee prep) \<and> 0 < cp_total prep)) w"
proof -
  have quote: "keeps (browsing uid w) (catching (getDeliveryQuoteFromCart api uid aid)
      (\<lambda>e. if is_bad_request e then throw e else ret \<lparr>q_provider = None, q_fee = 0\<rparr>))"
    by (intro keeps_rules browsing_quote)
  show ?thesis
    unfolding prepareCheckoutForPayment_def
    by (auto simp: wp_throw wp_if wp_ret Let_def
        intro!: wp_seq_keeps[where P = "browsing uid w"] wp_bind_getCart
                wp_bind_keeps[where P = "browsing uid w"] browsing_validate browsing_resolve quote)
qed

lemma create_gateway_order_outcome:
  "wp (create_gateway_order rz rq) Q w =
     (case rz_create rz rq of Inl e \<Rightarrow> Q (Inl e) w
      | Inr i \<Rightarrow> Q (Inr i) (w\<lparr>gateway := gateway w @ [GatewayOrder i (gr_amount rq)]\<rparr>))"
  by (cases "rz_create rz rq") (simp_all add: create_gateway_order_def wp_simps)

definition opened :: "world \<Rightarrow> string \<Rightarrow> string \<Rightarrow> opened_payment \<Rightarrow> world \<Rightarrow> bool" where
  "opened w uid aid op w' \<longleftrightarrow>
     op_subtotal op = cv_subtotal (cart_of w uid) \<and>
     op_total op = nadd (cv_subtotal (cart_of w uid)) (op_deliveryFee op) \<and>
     op_amount op = paise (op_total op) \<and> 100 \<le> op_amount op \<and>
     (\<exists>c. w' = w\<lparr>cache := c, gateway := gateway w @ [GatewayOrder (op_razorpayOrderId op) (op_amount op)]\<rparr>) \<and>
     (\<exists>p. session_of w' (op_razorpayOrderId op) = Some p \<and> pp_userId p = Some uid \<and>
          pp_amountPaise p = Some (op_amount op) \<and> pp_deliveryFee p = Some (op_deliveryFee op)) \<and>
     cart_of w' uid = cart_of w uid"

lemma cart_of_cong:
  assumes "clock w' = clock w" "products w' = products w" "streams w' = streams w"
    "stored_cart w' u = stored_cart w u"
  shows "cart_of w' u = cart_of w u"
proof -
  have "enforced w' st = enforced w st" for st
    using assms by (simp add: enforced_def cart_alive_def cong: option.case_cong if_cong)
  then show ?thesis using assms view_of_cong[of w' w] by (auto simp: cart_of_def Let_def)
qed

lemma cart_of_frame [simp]: "cart_of (w\<lparr>gateway := g\<rparr>) u = cart_of w u"
  by (rule cart_of_cong) (simp_all add: stored_cart_def)

lemma stored_put_session [simp]:
  "stored_cart (upd_cache (redis_set now (pendingKey i) v ttl) w) u = stored_cart w u"
  by (simp add: stored_cart_def redis_set_def redis_get_def split: option.splits)

lemma cart_of_put_session [simp]:
  "cart_of (upd_cache (redis_set now (pendingKey i) v ttl) w) u = cart_of w u"
  by (rule cart_of_cong) simp_all

lemma session_put:
  "session_of (upd_cache (redis_set (clock w) (pendingKey i) (JsonText j) (Some PENDING_TTL_SECONDS)) w) i =
     Some (pending_of_json j)"
  by (simp add: session_of_def redis_set_def redis_get_def PENDING_TTL_SECONDS_def live_def expiry_at_def
      json_parse_def upd_cache_def)

lemma db_gateway_form:
  "same_db w w' \<Longrightarrow>
   \<exists>c. upd_cache f (w'\<lparr>gateway := gateway w' @ [x]\<rparr>) = w\<lparr>cache := c, gateway := gateway w @ [x]\<rparr>"
  by (cases w) (auto simp: same_db_def upd_cache_def)

definition open_post :: "world \<Rightarrow> string \<Rightarrow> string \<Rightarrow> exn + opened_payment \<Rightarrow> world \<Rightarrow> bool" where
  "open_post w uid aid r w' = (case r of Inl e \<Rightarrow> same_db w w' | Inr op \<Rightarrow> opened w uid aid op w')"

lemma wp_open_prepared:
  assumes "browsing uid w w'" "cp_subtotal prep = cv_subtotal (cart_of w uid)"
    "cp_total prep = nadd (cv_subtotal (cart_of w uid)) (cp_deliveryFee prep)"
  shows "wp (open_prepared rz uid aid prep) (open_post w uid aid) w'"
  using assms db_gateway_form[of w w'] session_put[of "w'\<lparr>gateway := gs\<rparr>" for gs]
  by (auto simp: open_prepared_def wp_simps create_gateway_order_outcome opened_def browsing_def open_post_def
      split: sum.split)

lemma wp_createRazorpayOrder: "wp (createRazorpayOrder rz api uid aid) (open_post w uid aid) w"
proof -
  have "wp (bind_act (prepareCheckoutForPayment api uid aid) (open_prepared rz uid aid)) (open_post w uid aid) w"
    unfolding wp_bind using wp_prepareCheckout
    by (rule wp_mono) (auto simp: on_ok_def open_post_def[of _ _ _ "Inl _"] browsing_def
        intro!: wp_open_prepared split: sum.splits)
  then show ?thesis by (simp add: createRazorpayOrder_def wp_seq wp_require_gateway open_post_def)
qed

text \<open>A subtotal is a representable number: adding a fee of 0 does not change it.\<close>

lemma subtotal_representable: "nadd (cv_subtotal (cart_of w uid)) 0 = cv_subtotal (cart_of w uid)"
proof -
  have "fl (foldl (\<lambda>t l. nadd t (cl_amount l)) a ls) = foldl (\<lambda>t l. nadd t (cl_amount l)) a ls"
    if "fl a = a" for a and ls :: "cart_line list"
    using that by (induction ls arbitrary: a) (simp_all add: nadd_def)
  moreover have "nadd x 0 = fl x" for x by (simp add: nadd_def)
  ultimately show ?thesis by (simp add: cart_subtotal lines_subtotal_def)
qed

end
