(* ===== verification/PaymentLiveness.thy ===== *)
theory PaymentLiveness
  imports PaymentFacts
begin

text \<open>
  A cart that is ready can be paid for and is then ordered. \<open>ready\<close> collects what the checks of the
  checkout ask of a cart; the lemmas walk the handlers along their successful branch.
\<close>

section \<open>Successful runs\<close>

lemma wp_bind_ok:
  assumes "wp m (\<lambda>r s'. \<exists>x. r = Inr x \<and> P x s') s" and "\<And>x s'. P x s' \<Longrightarrow> wp (f x) Q s'"
  shows "wp (bind_act m f) Q s"
  unfolding wp_bind using assms(1) by (rule wp_mono) (auto simp: assms(2))

lemma wp_seq_ok:
  assumes "wp m (\<lambda>r s'. \<exists>x. r = Inr x \<and> P s') s" and "\<And>s'. P s' \<Longrightarrow> wp n Q s'"
  shows "wp (seq_act m n) Q s"
  unfolding seq_act_def using assms by (rule wp_bind_ok)

section \<open>A ready cart\<close>

definition ready :: "world \<Rightarrow> string \<Rightarrow> bool" where
  "ready w uid \<longleftrightarrow>
     (let st = enforced w (stored_cart w uid); cart = cart_of w uid; ls = map line_of (cv_items cart) in
      cv_items cart \<noteq> [] \<and> truthy (cs_streamId st) \<and> length (cv_items cart) = length (cs_items st) \<and>
      buyer_of_user w uid \<noteq> None \<and> validateOrderItems w (the (cs_streamId st)) ls = Inr () \<and>
      distinct (map (line_cell w) ls))"

definition browsed :: "string \<Rightarrow> world \<Rightarrow> world \<Rightarrow> bool" where
  "browsed uid w w' \<longleftrightarrow>
     same_db w w' \<and> enforced w' (stored_cart w' uid) = enforced w (stored_cart w uid)"

lemma browsed_refl [simp]: "browsed uid w w"
  by (simp add: browsed_def)

lemma browsed_cart: "browsed uid w w' \<Longrightarrow> cart_of w' uid = cart_of w uid"
  using same_db_fields[of w w'] by (auto simp: browsed_def cart_of_def view_of_db Let_def)

lemma browsed_browsing: "browsed uid w w' \<Longrightarrow> browsing uid w w'"
  by (simp add: browsing_def browsed_cart) (simp add: browsed_def)

lemma validate_db: "same_db w w' \<Longrightarrow> validateOrderItems w' sid ls = validateOrderItems w sid ls"
proof -
  assume "same_db w w'"
  then have f: "products w' = products w" "streams w' = streams w" "clock w' = clock w"
    by (simp_all add: same_db_fields)
  have "check_lines w' xs = check_lines w xs" for xs
    by (induction xs) (simp_all add: f cong: option.case_cong sum.case_cong)
  then have c: "check_lines w' = check_lines w" by (rule ext)
  show ?thesis unfolding validateOrderItems_def assertStreamAndProducts_def f c ..
qed

lemma line_cell_db: "same_db w w' \<Longrightarrow> line_cell w' = line_cell w"
  by (drule same_db_fields) (simp add: line_cell_def fun_eq_iff)

lemma ready_browsed: "ready w uid \<Longrightarrow> browsed uid w w' \<Longrightarrow> ready w' uid"
  using same_db_fields[of w w']
  by (auto simp: ready_def Let_def browsed_cart validate_db line_cell_db browsed_def buyer_of_user_def)

lemma browsed_trans: "browsed uid w w1 \<Longrightarrow> browsed uid w1 w2 \<Longrightarrow> browsed uid w w2"
  by (auto simp: browsed_def same_db_def)

lemma browsed_enforce: "browsed uid w (enforce_w uid (stored_cart w uid) w)"
proof -
  let ?w = "enforce_w uid (stored_cart w uid) w"
  have "enforced ?w st = enforced w st" for st by (rule enforced_db) simp
  then show ?thesis by (simp add: browsed_def enforced_twice)
qed

lemma browsed_getCart: "cv_items (cart_of w uid) \<noteq> [] \<Longrightarrow> browsed uid w (getCart_w uid w)"
  using browsed_enforce[of uid w] by (auto simp: getCart_w_def cart_of_def Let_def empty_view_def split: if_splits)

lemma ready_items: "ready w uid \<Longrightarrow> cv_items (cart_of w uid) \<noteq> []"
  by (simp add: ready_def Let_def)

lemma cart_of_fields:
  assumes "cv_items (cart_of w uid) \<noteq> []"
  shows "cv_streamId (cart_of w uid) = cs_streamId (enforced w (stored_cart w uid))"
    "cs_items (enforced w (stored_cart w uid)) \<noteq> []"
  using assms
  by (auto simp: cart_of_def Let_def view_of_def cart_view_of_def empty_view_def split: if_splits)

section \<open>The steps of a checkout on a ready cart\<close>

lemma load_ok:
  assumes "ready w uid" "browsed uid w s"
  shows "wp (loadCartForUser uid) (\<lambda>r s'. \<exists>x. r = Inr x \<and> x = enforced w (stored_cart w uid) \<and> browsed uid w s') s"
  using assms browsed_trans[OF assms(2) browsed_enforce] by (simp add: wp_simps) (simp add: browsed_def)

lemma getCart_ok:
  assumes "ready w uid" "browsed uid w s"
  shows "wp (getCart uid) (\<lambda>r s'. \<exists>x. r = Inr x \<and> x = cart_of w uid \<and> browsed uid w s') s"
  using browsed_trans[OF assms(2) browsed_getCart[of s uid]] ready_items[OF assms(1)] assms
  by (simp add: wp_simps browsed_cart)

lemma ready_step:
  assumes "ready w uid" "browsed uid w s"
  shows "buyer_of_user s uid \<noteq> None"
    "validateOrderItems s (the (cs_streamId (enforced w (stored_cart w uid)))) (map line_of (cv_items (cart_of w uid))) = Inr ()"
    "length (cv_items (cart_of w uid)) = length (cs_items (enforced w (stored_cart w uid)))"
    "truthy (cs_streamId (enforced w (stored_cart w uid)))"
  using ready_browsed[OF assms] browsed_cart[OF assms(2)] assms(2)
  by (simp_all add: ready_def Let_def browsed_def)

lemma validate_ok:
  assumes r: "ready w uid" and s: "browsed uid w s"
  shows "wp (validateCartForCheckout uid) (\<lambda>r s'. \<exists>x. r = Inr x \<and> browsed uid w s') s"
proof -
  let ?st = "enforced w (stored_cart w uid)"
  note ne = ready_items[OF r] cart_of_fields(2)[OF ready_items[OF r]] ready_step(3,4)[OF r s]
  have tail: "wp (bind_act (reads (\<lambda>w. buyer_of_user w uid)) (\<lambda>buyer.
      if buyer = None then throw (Forbidden ''User is not a registered buyer'') else
      bind_act (reads (\<lambda>w'. validateOrderItems w' (the (cs_streamId ?st)) (map line_of (cv_items (cart_of w uid)))))
       lift_res)) (\<lambda>r s'. r = Inr () \<and> browsed uid w s') s'" if "browsed uid w s'" for s'
    using ready_step[OF r that] that by (auto simp: wp_bind wp_reads wp_lift_res)
  show ?thesis
    unfolding validateCartForCheckout_def
    by (rule wp_bind_ok[OF load_ok[OF r s]])
       (auto simp: ne wp_if intro!: wp_bind_ok[OF getCart_ok[OF r]] tail)
qed

lemma browsed_quote: "ready w uid \<Longrightarrow> keeps (browsed uid w) (getDeliveryQuoteFromCart api uid aid)"
proof -
  assume r: "ready w uid"
  have "keeps (browsed uid w) (getCart uid)"
    by (rule keepsI) (rule wp_mono[OF getCart_ok[OF r]], auto)
  then show ?thesis unfolding getDeliveryQuoteFromCart_def by (intro keeps_rules)
qed

lemma resolve_ok:
  assumes "address_of w uid (trim aid) = Some a" "trim aid \<noteq> []" "browsed uid w s"
  shows "wp (resolveShippingAddressOrThrow uid (Some aid))
           (\<lambda>r s'. \<exists>x. r = Inr x \<and> x = formatAddressLine a \<and> browsed uid w s') s"
  using assms same_db_fields[of w s]
  by (simp add: resolveShippingAddressOrThrow_def wp_simps opt_trim_def address_of_def browsed_def)

lemma checkout_quote_ok:
  assumes "ready w uid" "browsed uid w s"
  shows "wp (checkout_quote api uid dto opts) (\<lambda>r s'. \<exists>x. r = Inr x \<and> browsed uid w s') s"
proof -
  have k: "keeps (browsed uid w) (bind_act (getDeliveryQuoteFromCart api uid aid) (\<lambda>q. ret (Some q)))" for aid
    by (intro keeps_rules browsed_quote assms)
  show ?thesis
    unfolding checkout_quote_def using assms(2)
    by (auto simp: wp_if wp_ret wp_catching intro!: wp_mono[OF keeps_wp[OF k assms(2)]] split: sum.splits)
qed

lemma create_ok:
  assumes r: "ready w uid" and k: "keyed w" and s: "browsed uid w s"
  shows "\<exists>o1 t. order_plan uuid \<lparr>co_items = map line_of (cv_items (cart_of w uid)), co_shippingAddress = addr,
      co_streamId = cv_streamId (cart_of w uid)\<rparr> uid s = Inr (o1, t)"
proof -
  have rs: "ready s uid" by (rule ready_browsed[OF r s])
  then obtain b where b: "buyer_of_user s uid = Some b" by (auto simp: ready_def Let_def)
  have ks: "keyed s" using k s keyed_db[of w s] by (simp add: browsed_def)
  show ?thesis
    using rs cart_of_fields[OF ready_items[OF rs]] browsed_cart[OF s]
    by (intro order_plan_granted[OF ks b]) (auto simp: ready_def Let_def)
qed

definition unclaimed :: "world \<Rightarrow> checkout_options \<Rightarrow> bool" where
  "unclaimed w opts \<longleftrightarrow>
     (\<forall>o1 \<in> set (trows (orders w)).
        (truthy (ko_razorpayOrderId opts) \<longrightarrow> o_razorpayOrderId o1 \<noteq> ko_razorpayOrderId opts) \<and>
        (truthy (ko_razorpayPaymentId opts) \<longrightarrow> o_razorpayPaymentId o1 \<noteq> ko_razorpayPaymentId opts))"

lemma no_clash:
  assumes "unclaimed w opts" "o_razorpayOrderId o1 = None" "o_razorpayPaymentId o1 = None" "orders s = orders w"
  shows "\<not> razorpay_clash (put_order o1 s) (finish_order opts fee pr o1)"
proof -
  have "p = o1 \<or> p \<in> set (trows (orders w))" if "p \<in> set (trows (orders (put_order o1 s)))" for p
    using that trows_tput[of "o_id o1" o1 "orders s"] assms(4) by (auto simp: put_order_def)
  then show ?thesis
    using assms(1-3) by (auto simp: razorpay_clash_def list_ex_iff unclaimed_def finish_order_def Let_def split: if_splits)
qed

lemma order_plan_fresh:
  "order_plan uuid dto uid w = Inr (o1, t) \<Longrightarrow> o_razorpayOrderId o1 = None \<and> o_razorpayPaymentId o1 = None"
  by (auto simp: order_plan_def new_order_def split: option.splits if_splits sum.splits)

lemma tail_ok:
  assumes "unclaimed w opts" "o_razorpayOrderId o1 = None" "o_razorpayPaymentId o1 = None" "orders s = orders w"
  shows "wp (checkout_tail uid cart addr dto opts q o1) (\<lambda>r s'. \<exists>x. r = Inr x) (put_order o1 s)"
  using no_clash[OF assms] by (auto simp: checkout_tail_def Let_def wp_simps)

text \<open>A ready cart checks out.\<close>

lemma checkout_ok:
  assumes r: "ready w uid" and k: "keyed w" and a: "address_of w uid (trim aid) = Some a" "trim aid \<noteq> []"
    and c: "unclaimed w opts" and p: "ko_markPaid opts"
  shows "wp (checkoutFromCart cfg api uuid uid \<lparr>kd_addressId = Some aid, kd_shippingAddress = sa, kd_paymentMethod = pm\<rparr> opts)
           (\<lambda>r s'. \<exists>x. r = Inr x) w"
proof -
  have create: "wp (bind_act (createOrder uuid \<lparr>co_items = map line_of (cv_items (cart_of w uid)),
          co_shippingAddress = Some addr, co_streamId = cv_streamId (cart_of w uid)\<rparr> uid)
        (checkout_tail uid (cart_of w uid) addr dto opts q)) (\<lambda>r s'. \<exists>x. r = Inr x) s"
    if s: "browsed uid w s" for s addr dto q
  proof -
    from create_ok[OF r k s] obtain o1 t where plan: "order_plan uuid \<lparr>co_items = map line_of (cv_items (cart_of w uid)),
        co_shippingAddress = Some addr, co_streamId = cv_streamId (cart_of w uid)\<rparr> uid s = Inr (o1, t)" by blast
    have "orders (s\<lparr>products := t\<rparr>) = orders w" using s by (simp add: browsed_def same_db_fields)
    with plan order_plan_fresh[OF plan] c show ?thesis by (simp add: wp_bind wp_createOrder tail_ok)
  qed
  have ne: "cv_items (cart_of w uid) \<noteq> []" "truthy (cv_streamId (cart_of w uid))"
    using r cart_of_fields[OF ready_items[OF r]] by (auto simp: ready_def Let_def)
  note addr = resolve_ok[OF a, of _]
  show ?thesis
    unfolding checkoutFromCart_def
    using p ne a(2) create
    by (auto simp: wp_if checkout_address_def opt_trim_def
        intro!: wp_seq_ok[OF validate_ok[OF r]] wp_bind_ok[OF getCart_ok[OF r]] wp_bind_ok[OF addr]
                wp_bind_ok[OF checkout_quote_ok[OF r]])
qed

lemma verify_ok:
  assumes r: "ready w uid" and k: "keyed w" and cfg: "isRazorpayConfigured rz" and sg: "signed rz d"
    and n: "order_of_payment w (pd_paymentId d) = None" "tget (failures w) (pd_paymentId d) = None"
    and p: "session_of w (pd_orderId d) = Some p" "pp_userId p = Some uid" "pp_addressId p = Some aid"
      "truthy (pp_shippingAddress p)"
    and a: "address_of w uid (trim aid) = Some a" "trim aid \<noteq> []"
    and c: "unclaimed w (paid_options d p)"
  shows "wp (verifyAndCheckout rz cfg0 api uuid uid d) (\<lambda>r w'. \<exists>x. r = Inr x) w"
proof -
  have aid: "aid \<noteq> []" using a(2) by auto
  have "ko_markPaid (paid_options d p)" by (simp add: paid_options_def)
  note co = checkout_ok[OF r k a c this, of cfg0 api uuid "pp_shippingAddress p" "Some ''RAZORPAY''"]
  have "wp (catching (session_checkout cfg0 api uuid uid d p) h) (\<lambda>r w'. \<exists>x. r = Inr x) w" for h
    unfolding wp_catching session_checkout_def p(3) wp_bind
    by (rule wp_mono[OF co]) (auto simp: wp_simps)
  then show ?thesis
    using assms aid
    by (auto simp: verifyAndCheckout_def wp_simps wp_verifySignature_ok session_of_def bind_eq_Some_conv Let_def)
qed

section \<open>Opening the payment of a ready cart\<close>

text \<open>What a delivery quote for the cart needs, with the fee it yields.\<close>

definition quotable :: "world \<Rightarrow> shipping_api \<Rightarrow> string \<Rightarrow> string \<Rightarrow> num \<Rightarrow> bool" where
  "quotable w api uid aid fee \<longleftrightarrow>
     (\<exists>a s1 sel pk. address_of w uid aid = Some a \<and>
        tget (streams w) (the (cs_streamId (enforced w (stored_cart w uid)))) = Some s1 \<and>
        tget (sellers w) (st_sellerId s1) = Some sel \<and> latest_pickup w (s_userId sel) = Some pk \<and>
        truthy (Option.bind (tget (users w) (s_userId sel)) u_phone) \<and>
        truthy (or_else (Option.bind (tget (users w) uid) u_phone) (a_phone a)) \<and>
        trim (a_zip pk) \<noteq> [] \<and> trim (a_zip a) \<noteq> [] \<and>
        dh_quote api (trim (a_zip pk)) (trim (a_zip a)) (estimateCartWeightGrams (length (cv_items (cart_of w uid))))
          = Inr (Some fee))"

lemma quote_ok:
  assumes r: "ready w uid" and s: "browsed uid w s" and q: "quotable w api uid aid fee"
  shows "wp (getDeliveryQuoteFromCart api uid aid)
     (\<lambda>r s'. \<exists>x. r = Inr x \<and> x = \<lparr>q_provider = Some ''DELHIVERY'', q_fee = fee\<rparr> \<and> browsed uid w s') s"
proof -
  note ne = ready_items[OF r] cart_of_fields(1)[OF ready_items[OF r]] ready_step(4)[OF r s]
  from q obtain a s1 sel pk where rows: "address_of w uid aid = Some a"
      "tget (streams w) (the (cs_streamId (enforced w (stored_cart w uid)))) = Some s1"
      "tget (sellers w) (st_sellerId s1) = Some sel" "latest_pickup w (s_userId sel) = Some pk"
      "truthy (Option.bind (tget (users w) (s_userId sel)) u_phone)"
      "truthy (or_else (Option.bind (tget (users w) uid) u_phone) (a_phone a))"
      "trim (a_zip pk) \<noteq> []" "trim (a_zip a) \<noteq> []"
      "dh_quote api (trim (a_zip pk)) (trim (a_zip a)) (estimateCartWeightGrams (length (cv_items (cart_of w uid))))
        = Inr (Some fee)"
    by (auto simp: quotable_def)
  have rows': "address_of s' uid aid = Some a" "latest_pickup s' (s_userId sel) = Some pk"
      "streams s' = streams w" "sellers s' = sellers w" "users s' = users w" if "browsed uid w s'" for s'
    using that same_db_fields[of w s'] rows(1,4) by (simp_all add: browsed_def address_of_def latest_pickup_def)
  show ?thesis
    unfolding getDeliveryQuoteFromCart_def
    apply (rule wp_bind_ok[OF getCart_ok[OF r s]])
    subgoal premises p for x s'
      using p ne rows rows'[of s'] by (simp add: wp_bind wp_reads wp_ret)
    done
qed

lemma formatted_address: "formatAddressLine a \<noteq> []"
proof -
  have j: "join sep ls \<noteq> []" if "ls \<noteq> []" "\<forall>l \<in> set ls. l \<noteq> []" for sep ls
    using that by (induction sep ls rule: join.induct) auto
  define ls where "ls = filter (\<lambda>s. s \<noteq> []) [trim (case a_contactName a of None \<Rightarrow> [] | Some s \<Rightarrow> s),
    trim (case a_phone a of None \<Rightarrow> [] | Some s \<Rightarrow> s), join '', '' (filter (\<lambda>s. s \<noteq> [])
      (map trim [a_line1 a, (case a_line2 a of None \<Rightarrow> [] | Some s \<Rightarrow> s), a_city a, a_state a, a_zip a, a_country a]))]"
  have "formatAddressLine a = (if ls = [] then ''-'' else join [CHR 0x0A] ls)"
    unfolding formatAddressLine_def Let_def ls_def ..
  moreover have "\<forall>l \<in> set ls. l \<noteq> []" by (simp add: ls_def)
  ultimately show ?thesis using j[of ls] by simp
qed

lemma prepare_ok:
  assumes r: "ready w uid" and q: "quotable w api uid aid fee" and a: "trim aid = aid" "aid \<noteq> []"
    and pos: "0 < nadd (cv_subtotal (cart_of w uid)) fee"
  shows "wp (prepareCheckoutForPayment api uid aid)
     (\<lambda>r s'. \<exists>x. r = Inr x \<and> (cp_total x = nadd (cv_subtotal (cart_of w uid)) fee \<and> cp_deliveryFee x = fee \<and>
        cp_shippingAddress x \<noteq> [] \<and> browsed uid w s')) w"
proof -
  note ne = ready_items[OF r] cart_of_fields(1)[OF ready_items[OF r]] ready_step(4)[OF r browsed_refl]
  from q obtain ad where ad: "address_of w uid (trim aid) = Some ad" "trim aid \<noteq> []" by (auto simp: quotable_def a)
  have quote: "wp (bind_act (catching (getDeliveryQuoteFromCart api uid aid) h) k) Q s"
    if "browsed uid w s" "\<And>s'. browsed uid w s' \<Longrightarrow> wp (k \<lparr>q_provider = Some ''DELHIVERY'', q_fee = fee\<rparr>) Q s'"
    for h k Q s
    unfolding wp_bind wp_catching by (rule wp_mono[OF quote_ok[OF r that(1) q]]) (auto simp: that(2))
  have np: "\<not> nadd (cv_subtotal (cart_of w uid)) fee \<le> 0" using pos by simp
  show ?thesis
    unfolding prepareCheckoutForPayment_def
    by (auto simp: ne wp_if wp_ret Let_def formatted_address np intro!: wp_seq_ok[OF validate_ok[OF r browsed_refl]]
        wp_bind_ok[OF getCart_ok[OF r]] wp_bind_ok[OF resolve_ok[OF ad]] quote)
qed

lemma ready_cong:
  assumes "clock w' = clock w" "products w' = products w" "streams w' = streams w" "buyers w' = buyers w"
    "stored_cart w' u = stored_cart w u"
  shows "ready w' u = ready w u"
proof -
  have e: "enforced w' st = enforced w st" for st
    using assms by (simp add: enforced_def cart_alive_def cong: option.case_cong if_cong)
  have c: "check_lines w' = check_lines w"
  proof
    show "check_lines w' xs = check_lines w xs" for xs
      by (induction xs) (simp_all add: assms cong: option.case_cong sum.case_cong)
  qed
  have v: "validateOrderItems w' = validateOrderItems w"
    unfolding validateOrderItems_def assertStreamAndProducts_def assms c ..
  have l: "line_cell w' = line_cell w" by (simp add: line_cell_def fun_eq_iff assms)
  show ?thesis by (simp add: ready_def e v l cart_of_cong[OF assms(1-3,5)] assms buyer_of_user_def)
qed

text \<open>
  A payment opened for a ready cart leaves the cart ready, with a session that names the user, the
  address and the fee.
\<close>

definition payable :: "world \<Rightarrow> string \<Rightarrow> string \<Rightarrow> opened_payment \<Rightarrow> world \<Rightarrow> bool" where
  "payable w uid aid op w' \<longleftrightarrow>
     ready w' uid \<and> products w' = products w \<and> addresses w' = addresses w \<and> orders w' = orders w \<and>
     failures w' = failures w \<and>
     (\<exists>p. session_of w' (op_razorpayOrderId op) = Some p \<and> pp_userId p = Some uid \<and> pp_addressId p = Some aid \<and>
          truthy (pp_shippingAddress p))"

lemma open_ok:
  assumes r: "ready w uid" and q: "quotable w api uid aid fee" and a: "trim aid = aid" "aid \<noteq> []"
    and cfg: "isRazorpayConfigured rz" and amount: "100 \<le> paise (nadd (cv_subtotal (cart_of w uid)) fee)"
    and gw: "\<forall>rq. rz_create rz rq = Inr i"
  shows "wp (createRazorpayOrder rz api uid aid)
           (\<lambda>r w'. \<exists>op. r = Inr op \<and> op_razorpayOrderId op = i \<and> op_deliveryFee op = fee \<and> payable w uid aid op w') w"
proof -
  have pos: "0 < nadd (cv_subtotal (cart_of w uid)) fee"
  proof (rule ccontr)
    assume "\<not> 0 < nadd (cv_subtotal (cart_of w uid)) fee"
    then have "paise (nadd (cv_subtotal (cart_of w uid)) fee) \<le> math_round 0"
      unfolding paise_def nmul_def using fl_mono[of "nadd (cv_subtotal (cart_of w uid)) fee * 100" 0]
      by (intro math_round_mono) simp
    with amount show False using math_round_of_int[of 0] by simp
  qed
  have opened: "payable w uid aid op (upd_cache (redis_set now (pendingKey i) v ttl) (s\<lparr>gateway := g\<rparr>))"
    if "browsed uid w s" "op_razorpayOrderId op = i" "now = clock s" "ttl = Some PENDING_TTL_SECONDS"
      "v = JsonText (pending_json p)" "pp_userId p = Some uid" "pp_addressId p = Some aid" "truthy (pp_shippingAddress p)"
    for s op now v ttl g p
    using that ready_browsed[OF r that(1)] same_db_fields[of w s] session_put[of "s\<lparr>gateway := g\<rparr>" i "pending_json p"]
      ready_cong[of "upd_cache (redis_set now (pendingKey i) v ttl) (s\<lparr>gateway := g\<rparr>)" s uid]
    by (simp add: payable_def browsed_def) (simp add: upd_cache_def stored_cart_def)
  have tail: "wp (open_prepared rz uid aid prep) (\<lambda>r w'. \<exists>op. r = Inr op \<and> op_razorpayOrderId op = i \<and>
        op_deliveryFee op = fee \<and> payable w uid aid op w') s"
    if "cp_total prep = nadd (cv_subtotal (cart_of w uid)) fee" "cp_deliveryFee prep = fee"
      "cp_shippingAddress prep \<noteq> []" "browsed uid w s" for prep s
    using that amount gw by (auto simp: open_prepared_def wp_simps create_gateway_order_outcome intro!: opened)
  have "wp (bind_act (prepareCheckoutForPayment api uid aid) (open_prepared rz uid aid))
      (\<lambda>r w'. \<exists>op. r = Inr op \<and> op_razorpayOrderId op = i \<and> op_deliveryFee op = fee \<and> payable w uid aid op w') w"
    by (rule wp_bind_ok[OF prepare_ok[OF r q a pos]]) (elim conjE, rule tail)
  then show ?thesis by (simp add: createRazorpayOrder_def wp_seq wp_require_gateway cfg)
qed

end
