(* ===== verification/ReplacementFacts.thy ===== *)
theory ReplacementFacts
  imports PaymentFacts
begin

text \<open>
  What holds of replacement requests: a request never reaches fulfilment before its balance is paid,
  an order has at most one request that is not rejected, and the statuses follow the edges below.
\<close>

section \<open>Building blocks\<close>

lemma wp_buyer_found [wp_simps]:
  "wp (buyer_found uid) Q w =
     (case buyer_of_user w uid of None \<Rightarrow> Q (Inl (NotFound ''Buyer not found'')) w | Some b \<Rightarrow> Q (Inr b) w)"
  by (cases "buyer_of_user w uid") (simp_all add: buyer_found_def wp_simps)

lemma wp_seller_found [wp_simps]:
  "wp (seller_found uid) Q w =
     (case seller_of_user w uid of None \<Rightarrow> Q (Inl (NotFound ''Seller not found'')) w | Some s1 \<Rightarrow> Q (Inr s1) w)"
  by (cases "seller_of_user w uid") (simp_all add: seller_found_def wp_simps)

lemma wp_buyer_forbidden [wp_simps]:
  "wp (buyer_forbidden uid) Q w =
     (case buyer_of_user w uid of None \<Rightarrow> Q (Inl (Forbidden ''Buyer not found'')) w | Some b \<Rightarrow> Q (Inr b) w)"
  by (cases "buyer_of_user w uid") (simp_all add: buyer_forbidden_def wp_simps)

lemma wp_request_where [wp_simps]:
  "wp (request_where i P) Q w =
     (case tget (replacements w) i of None \<Rightarrow> Q (Inl (NotFound ''Replacement not found'')) w
      | Some r \<Rightarrow> if P r then Q (Inr r) w else Q (Inl (NotFound ''Replacement not found'')) w)"
  by (cases "tget (replacements w) i") (simp_all add: request_where_def wp_simps)

lemma wp_balance_request [wp_simps]:
  "wp (balance_request i P text) Q w =
     (case tget (replacements w) i of None \<Rightarrow> Q (Inl (BadRequest text)) w
      | Some r \<Rightarrow> if P r then Q (Inr r) w else Q (Inl (BadRequest text)) w)"
  by (cases "tget (replacements w) i") (simp_all add: balance_request_def wp_simps)

lemma wp_save_request [wp_simps]:
  "wp (save_request i f) Q w =
     (case tget (replacements w) i of None \<Rightarrow> Q (Inl missing_row) w
      | Some r \<Rightarrow> Q (Inr (f r)) (upd_request i f w))"
  by (cases "tget (replacements w) i") (simp_all add: save_request_def wp_simps)

lemma wp_repl_view [wp_simps]: "wp (repl_view who b r) Q w = Q (Inr (mapReplacementDetail w who b r)) w"
  by (simp add: repl_view_def wp_simps)

lemma wp_fulfil [wp_simps]:
  "wp (assertSellerCanFulfill r) Q w =
     (if r_status r = AWAITING_PAYMENT then Q (Inl (BadRequest ''Waiting for buyer balance payment'')) w
      else if 0 < r_balanceDue r \<and> r_balanceStatus r \<noteq> BAL_PAID
      then Q (Inl (BadRequest ''Buyer has not paid the balance amount'')) w
      else Q (Inr ()) w)"
  by (simp add: assertSellerCanFulfill_def wp_simps)

lemma upd_request_get [simp]:
  "tget (replacements (upd_request i f w)) j =
     (if j = i then map_option f (tget (replacements w) i) else tget (replacements w) j)"
  by (simp add: upd_request_def)

lemma put_request_get [simp]:
  "tget (replacements (put_request r w)) j = (if j = r_id r then Some r else tget (replacements w) j)"
  by (simp add: put_request_def)

text \<open>Ratings and mails leave the requests alone.\<close>

definition rating_blind :: "(world \<Rightarrow> bool) \<Rightarrow> bool" where
  "rating_blind P \<longleftrightarrow>
     (\<forall>w x. P w \<longrightarrow> P (w\<lparr>buyerRatings := x\<rparr>)) \<and> (\<forall>w x. P w \<longrightarrow> P (w\<lparr>sellerRatings := x\<rparr>)) \<and>
     (\<forall>w x. P w \<longrightarrow> P (w\<lparr>outbox := x\<rparr>))"

lemma rating_blindD:
  "rating_blind P \<Longrightarrow> P w \<Longrightarrow> P (w\<lparr>buyerRatings := x\<rparr>)"
  "rating_blind P \<Longrightarrow> P w \<Longrightarrow> P (w\<lparr>sellerRatings := y\<rparr>)"
  "rating_blind P \<Longrightarrow> P w \<Longrightarrow> P (w\<lparr>outbox := z\<rparr>)"
  by (simp_all add: rating_blind_def)

lemma blind_ratings:
  assumes b: "rating_blind P"
  shows "keeps P (ensureBuyerRating bid)" "keeps P (ensureSellerRating sid)" "keeps P (getBuyerScore bid)"
    "keeps P (penalise_buyer bid score)" "keeps P (penalise_seller sid)" "keeps P (onReplacementRequested bid sid)"
    "keeps P (getSellerPublic sid)" "keeps P (mail_buyer bid subj)"
proof -
  note w = rating_blindD[OF b]
  show e: "keeps P (ensureBuyerRating bid)" for bid
    unfolding ensureBuyerRating_def by (intro keeps_rules keeps_writes w)
  show s: "keeps P (ensureSellerRating sid)" for sid
    unfolding ensureSellerRating_def by (intro keeps_rules keeps_writes w)
  show "keeps P (getBuyerScore bid)" unfolding getBuyerScore_def by (intro keeps_rules e)
  show p: "keeps P (penalise_buyer bid score)" for bid score
    unfolding penalise_buyer_def send_mail_def by (intro keeps_rules keeps_writes w)
  show q: "keeps P (penalise_seller sid)" for sid
    unfolding penalise_seller_def send_mail_def by (intro keeps_rules keeps_writes w s)
  show "keeps P (onReplacementRequested bid sid)"
    unfolding onReplacementRequested_def by (intro keeps_rules keeps_writes w e p q)
  show "keeps P (getSellerPublic sid)" unfolding getSellerPublic_def by (intro keeps_rules s)
  show "keeps P (mail_buyer bid subj)"
    unfolding mail_buyer_def send_mail_def by (intro keeps_rules keeps_writes w)
qed

lemma blind_mails:
  assumes b: "rating_blind P"
  shows "keeps P (sendSupportEmail r)" "keeps P (sendBuyerReceivedEmail r)" "keeps P (sendBuyerApprovedEmail r)"
proof -
  show "keeps P (sendSupportEmail r)"
    unfolding sendSupportEmail_def send_mail_def
    by (intro keeps_rules keeps_writes blind_ratings[OF b] rating_blindD[OF b])
qed (simp_all add: sendBuyerReceivedEmail_def sendBuyerApprovedEmail_def blind_ratings[OF b])

section \<open>The invariant of a request\<close>

definition fulfilling :: "replacement_status set" where
  "fulfilling = {APPROVED, R_PACKED, R_SHIPPED, R_DELIVERED}"

definition request_ok :: "replacement_row \<Rightarrow> bool" where
  "request_ok r \<longleftrightarrow>
     (r_status r \<in> fulfilling \<and> 0 < r_balanceDue r \<longrightarrow> r_balanceStatus r = BAL_PAID) \<and>
     (r_status r = AWAITING_PAYMENT \<longrightarrow> 0 < r_balanceDue r) \<and>
     (r_trackingId r \<noteq> None \<longrightarrow> r_status r \<in> {R_SHIPPED, R_DELIVERED}) \<and>
     (r_razorpayOrderId r \<noteq> None \<longrightarrow> 0 < r_balanceDue r \<and> r_status r \<in> insert AWAITING_PAYMENT fulfilling)"

text \<open>Every request is in order, and no order has two requests that are not rejected.\<close>

definition requests_ok :: "world \<Rightarrow> bool" where
  "requests_ok w \<longleftrightarrow>
     (\<forall>i r. tget (replacements w) i = Some r \<longrightarrow> request_ok r) \<and>
     (\<forall>i j r1 r2. tget (replacements w) i = Some r1 \<and> tget (replacements w) j = Some r2 \<and>
        r_orderId r1 = r_orderId r2 \<and> r_status r1 \<noteq> REJECTED \<and> r_status r2 \<noteq> REJECTED \<longrightarrow> i = j)"

lemma requests_ok_row: "requests_ok w \<Longrightarrow> tget (replacements w) i = Some r \<Longrightarrow> request_ok r"
  by (simp add: requests_ok_def)

lemma requests_ok_unique:
  "requests_ok w \<Longrightarrow> tget (replacements w) i = Some r1 \<Longrightarrow> tget (replacements w) j = Some r2 \<Longrightarrow>
   r_orderId r1 = r_orderId r2 \<Longrightarrow> r_status r1 \<noteq> REJECTED \<Longrightarrow> r_status r2 \<noteq> REJECTED \<Longrightarrow> i = j"
  unfolding requests_ok_def by blast

lemma requests_okI:
  "(\<And>i r. tget (replacements w) i = Some r \<Longrightarrow> request_ok r) \<Longrightarrow>
   (\<And>i j r1 r2. tget (replacements w) i = Some r1 \<Longrightarrow> tget (replacements w) j = Some r2 \<Longrightarrow>
      r_orderId r1 = r_orderId r2 \<Longrightarrow> r_status r1 \<noteq> REJECTED \<Longrightarrow> r_status r2 \<noteq> REJECTED \<Longrightarrow> i = j) \<Longrightarrow>
   requests_ok w"
  unfolding requests_ok_def by blast

lemma requests_ok_blind: "rating_blind requests_ok"
  by (simp add: rating_blind_def requests_ok_def)

lemma requests_ok_frame [simp]:
  "requests_ok (w\<lparr>files := fs\<rparr>) = requests_ok w" "requests_ok (w\<lparr>gateway := g\<rparr>) = requests_ok w"
  "requests_ok (upd_cache f w) = requests_ok w"
  by (simp_all add: requests_ok_def upd_cache_def)

text \<open>An update that keeps the order and does not revive a rejected request.\<close>

lemma requests_ok_upd:
  assumes ok: "requests_ok w"
    and f: "\<And>r. tget (replacements w) i = Some r \<Longrightarrow> request_ok r \<Longrightarrow>
              request_ok (f r) \<and> r_orderId (f r) = r_orderId r \<and> (r_status r = REJECTED \<longrightarrow> r_status (f r) = REJECTED)"
  shows "requests_ok (upd_request i f w)"
proof -
  have g: "request_ok (f r) \<and> r_orderId (f r) = r_orderId r \<and> (r_status r = REJECTED \<longrightarrow> r_status (f r) = REJECTED)"
    if "tget (replacements w) i = Some r" for r
    using f[OF that requests_ok_row[OF ok that]] .
  have old: "\<exists>r0. tget (replacements w) m = Some r0 \<and> r_orderId r0 = r_orderId r \<and>
                 (r_status r \<noteq> REJECTED \<longrightarrow> r_status r0 \<noteq> REJECTED)"
    if "tget (replacements (upd_request i f w)) m = Some r" for m r
    using that g by (cases "m = i") auto
  show ?thesis
  proof (rule requests_okI)
    fix j r1 assume "tget (replacements (upd_request i f w)) j = Some r1"
    then show "request_ok r1" using g requests_ok_row[OF ok, of j r1] by (auto split: if_splits)
  next
    fix j k r1 r2
    assume a: "tget (replacements (upd_request i f w)) j = Some r1" "tget (replacements (upd_request i f w)) k = Some r2"
      "r_orderId r1 = r_orderId r2" "r_status r1 \<noteq> REJECTED" "r_status r2 \<noteq> REJECTED"
    from old[OF a(1)] old[OF a(2)] a(3-5) show "j = k" using requests_ok_unique[OF ok, of j _ k] by fastforce
  qed
qed

lemma requests_ok_put:
  assumes ok: "requests_ok w" and r: "request_ok r" and none: "existing_request w (r_orderId r) = None"
  shows "requests_ok (put_request r w)"
proof -
  have "r_orderId r1 \<noteq> r_orderId r \<or> r_status r1 = REJECTED" if "tget (replacements w) j = Some r1" for j r1
    using none tget_in_rows[OF that] by (auto simp: existing_request_def tfirst_None)
  then have n: "\<not> (r_orderId r1 = r_orderId r \<and> r_status r1 \<noteq> REJECTED)"
    if "tget (replacements w) j = Some r1" for j r1 using that by blast
  show ?thesis
  proof (rule requests_okI)
    fix j r1 assume "tget (replacements (put_request r w)) j = Some r1"
    then show "request_ok r1" using r requests_ok_row[OF ok, of j r1] by (auto split: if_splits)
  next
    fix j k r1 r2
    assume a: "tget (replacements (put_request r w)) j = Some r1" "tget (replacements (put_request r w)) k = Some r2"
      "r_orderId r1 = r_orderId r2" "r_status r1 \<noteq> REJECTED" "r_status r2 \<noteq> REJECTED"
    show "j = k"
    proof (cases "j = r_id r")
      case True
      then show ?thesis using a n[of k r2] by (cases "k = r_id r") simp_all
    next
      case False
      show ?thesis
      proof (cases "k = r_id r")
        case True
        then show ?thesis using a False n[of j r1] by simp
      next
        case False2: False
        then show ?thesis using a False requests_ok_unique[OF ok, of j r1 k r2] by simp
      qed
    qed
  qed
qed

section \<open>New requests\<close>

lemma new_request_simps [simp]:
  "r_id (new_request i now oid bid d line p pr a) = i" "r_orderId (new_request i now oid bid d line p pr a) = oid"
  by (simp_all add: new_request_def Let_def split: prod.splits)

lemma new_request_ok: "request_ok (new_request i now oid bid d line p pr a)"
  by (simp add: new_request_def request_ok_def fulfilling_def resolveApprovalStatus_def)

lemma announce_ok: "rating_blind P \<Longrightarrow> keeps P (announce_request r)"
  unfolding announce_request_def repl_view_def by (intro keeps_rules blind_ratings blind_mails)

lemma request_guard_existing: "request_guard w oid o1 = Inr u \<Longrightarrow> existing_request w oid = None"
  by (auto simp: request_guard_def split: if_splits option.splits)

lemma wp_order_of_buyer [wp_simps]:
  "wp (order_of_buyer oid b) Q w =
     (case tget (orders w) oid of None \<Rightarrow> Q (Inl (NotFound ''Order not found'')) w
      | Some o1 \<Rightarrow> if o_buyerId o1 = Some (b_id b) then Q (Inr o1) w else Q (Inl (NotFound ''Order not found'')) w)"
  by (cases "tget (orders w) oid") (simp_all add: order_of_buyer_def wp_simps)

section \<open>The state machine of a request\<close>

datatype repl_op =
    Request string string string create_replacement
  | Decide string string bool "string option"
  | MarkPaid string string
  | OpenBalance string string
  | PayBalance string string payment_dto
  | PackRepl string string "upload option"
  | BookRepl string string
  | PollRepl string string
  | DeliverRepl string string

primrec run_repl_op :: "razorpay \<Rightarrow> config \<Rightarrow> shipping_api \<Rightarrow> repl_op \<Rightarrow> unit handler" where
  "run_repl_op rz cfg api (Request i uid oid d) = seq_act (createForOrder i uid oid d) (ret ())"
| "run_repl_op rz cfg api (Decide i admin ok note) = seq_act (decide i admin ok note) (ret ())"
| "run_repl_op rz cfg api (MarkPaid i pid) = seq_act (markBalancePaid i pid) (ret ())"
| "run_repl_op rz cfg api (OpenBalance i uid) = seq_act (createReplacementBalanceOrder rz uid i) (ret ())"
| "run_repl_op rz cfg api (PayBalance i uid d) = seq_act (verifyReplacementBalancePayment rz uid i d) (ret ())"
| "run_repl_op rz cfg api (PackRepl i uid f) = seq_act (uploadReplacementVideo cfg i uid f) (ret ())"
| "run_repl_op rz cfg api (BookRepl i uid) = seq_act (requestReplacementDelivery cfg api i uid) (ret ())"
| "run_repl_op rz cfg api (PollRepl i uid) = seq_act (getReplacementDeliveryStatus api i uid) (ret ())"
| "run_repl_op rz cfg api (DeliverRepl i uid) = seq_act (deliverReplacement i uid) (ret ())"

inductive repl_edge :: "replacement_status \<Rightarrow> replacement_status \<Rightarrow> bool" where
  reject: "repl_edge PENDING_ADMIN_REVIEW REJECTED"
| approve: "repl_edge PENDING_ADMIN_REVIEW APPROVED"
| await: "repl_edge PENDING_ADMIN_REVIEW AWAITING_PAYMENT"
| pay: "repl_edge AWAITING_PAYMENT APPROVED"
| pack: "repl_edge APPROVED R_PACKED"
| book: "repl_edge R_PACKED R_SHIPPED"
| deliver: "repl_edge R_SHIPPED R_DELIVERED"

inductive_simps repl_edge_simps: "repl_edge s t"

inductive_cases repl_edge_from: "repl_edge REJECTED t" "repl_edge R_DELIVERED t"

lemma wp_create_gateway_order_frame:
  "(\<And>e. Q (Inl e) w) \<Longrightarrow> (\<And>i. Q (Inr i) (w\<lparr>gateway := gateway w @ [GatewayOrder i (gr_amount rq)]\<rparr>)) \<Longrightarrow>
   wp (create_gateway_order rz rq) Q w"
  by (simp add: create_gateway_order_outcome split: sum.splits)

lemma wp_session_for_balance [wp_simps]:
  "wp (session_for_balance rz uid r i) Q w =
     Q (Inr \<lparr>bs_razorpayOrderId = i, bs_amount = paise (r_balanceDue r), bs_keyId = rz_keyId rz,
          bs_replacementId = r_id r, bs_balanceDue = r_balanceDue r, bs_prefill = prefill_of w uid\<rparr>) w"
  by (simp add: session_for_balance_def wp_simps)

lemma wp_repl_delivery_of [wp_simps]:
  "wp (repl_delivery_of r) Q w =
     Q (Inr \<lparr>rd_deliveryStatus = r_deliveryStatus r, rd_trackingId = r_trackingId r, rd_status = r_status r,
          rd_view = mapReplacementDetail w AsSeller False r\<rparr>) w"
  by (simp add: repl_delivery_of_def wp_simps)

lemma request_ok_writes:
  assumes "request_ok r"
  shows "r_status r = PENDING_ADMIN_REVIEW \<Longrightarrow>
      request_ok (r\<lparr>r_status := REJECTED, r_adminNote := n, r_decidedAt := d, r_decidedByAdminId := a\<rparr>)"
    "r_status r = PENDING_ADMIN_REVIEW \<Longrightarrow> resolveApprovalStatus (r_balanceDue r) = (st, bal) \<Longrightarrow>
      request_ok (r\<lparr>r_status := st, r_balanceStatus := bal, r_adminNote := n, r_decidedAt := d, r_decidedByAdminId := a\<rparr>)"
    "r_status r = AWAITING_PAYMENT \<Longrightarrow>
      request_ok (r\<lparr>r_status := APPROVED, r_balanceStatus := BAL_PAID, r_razorpayPaymentId := p\<rparr>)"
    "r_status r = AWAITING_PAYMENT \<Longrightarrow> 0 < r_balanceDue r \<Longrightarrow> request_ok (r\<lparr>r_razorpayOrderId := g\<rparr>)"
    "r_status r = APPROVED \<Longrightarrow> request_ok (r\<lparr>r_packingVideoUrl := u, r_packedAt := t, r_status := R_PACKED\<rparr>)"
    "r_status r = R_PACKED \<Longrightarrow> request_ok (r\<lparr>r_status := R_SHIPPED, r_shippedAt := t, r_carrierName := c,
        r_trackingId := tr, r_deliveryProvider := dp, r_trackingUrl := tu, r_deliveryStatus := ds\<rparr>)"
    "r_status r \<in> {R_SHIPPED, R_DELIVERED} \<Longrightarrow> request_ok (repl_polled ds now r)"
    "r_status r = R_SHIPPED \<Longrightarrow> request_ok (r\<lparr>r_status := R_DELIVERED, r_deliveredAt := t\<rparr>)"
  using assms
  by (auto simp: request_ok_def fulfilling_def resolveApprovalStatus_def repl_polled_def Let_def split: if_splits)

text \<open>A request whose balance can be verified was waiting for it.\<close>

lemma payable_waits:
  "request_ok r \<Longrightarrow> r_razorpayOrderId r = Some g \<Longrightarrow> r_balanceStatus r \<noteq> BAL_PAID \<Longrightarrow> r_status r = AWAITING_PAYMENT"
  by (auto simp: request_ok_def)

lemma tracked_shipped:
  "request_ok r \<Longrightarrow> truthy (r_trackingId r) \<Longrightarrow> r_status r \<in> {R_SHIPPED, R_DELIVERED}"
  by (cases "r_trackingId r") (auto simp: request_ok_def)

lemma repl_polled_simps [simp]:
  "r_orderId (repl_polled ds now r) = r_orderId r"
  "r_status (repl_polled ds now r) = (if isDelhiveryDeliveredStatus ds then R_DELIVERED else r_status r)"
  by (simp_all add: repl_polled_def Let_def)

text \<open>
  One step of any operation, seen on the table: nothing, one row updated along an edge (or with its
  status kept), or a new row.
\<close>

definition repl_step :: "string option \<Rightarrow> world \<Rightarrow> world \<Rightarrow> bool" where
  "repl_step new w w' \<longleftrightarrow>
     replacements w' = replacements w \<or>
     (\<exists>i f r. tget (replacements w) i = Some r \<and> replacements w' = tupd i f (replacements w) \<and>
        r_orderId (f r) = r_orderId r \<and> request_ok (f r) \<and>
        (r_status (f r) = r_status r \<or> repl_edge (r_status r) (r_status (f r)))) \<or>
     (\<exists>r. new = Some (r_id r) \<and> replacements w' = tput (r_id r) r (replacements w) \<and> request_ok r \<and>
        existing_request w (r_orderId r) = None \<and>
        r_status r \<in> {PENDING_ADMIN_REVIEW, APPROVED, AWAITING_PAYMENT})"

lemma repl_step_refl [simp]: "replacements w' = replacements w \<Longrightarrow> repl_step new w w'"
  by (simp add: repl_step_def)

lemma repl_step_upd:
  "tget (replacements w) i = Some r \<Longrightarrow> replacements w' = replacements (upd_request i f w) \<Longrightarrow>
   r_orderId (f r) = r_orderId r \<Longrightarrow> request_ok (f r) \<Longrightarrow>
   r_status (f r) = r_status r \<or> repl_edge (r_status r) (r_status (f r)) \<Longrightarrow> repl_step new w w'"
  unfolding repl_step_def upd_request_def by auto

lemma repl_step_new:
  "new = Some (r_id r) \<Longrightarrow> replacements w' = tput (r_id r) r (replacements w) \<Longrightarrow> request_ok r \<Longrightarrow>
   existing_request w (r_orderId r) = None \<Longrightarrow> r_status r \<in> {PENDING_ADMIN_REVIEW, APPROVED, AWAITING_PAYMENT} \<Longrightarrow>
   repl_step new w w'"
  unfolding repl_step_def by blast

lemma repl_step_ok:
  assumes "requests_ok w" "repl_step new w w'"
  shows "requests_ok w'"
proof -
  have cong: "requests_ok w1 = requests_ok w2" if "replacements w1 = replacements w2" for w1 w2
    using that by (simp add: requests_ok_def)
  from assms(2) consider (same) "replacements w' = replacements w"
    | (upd) i f r where "tget (replacements w) i = Some r" "replacements w' = tupd i f (replacements w)"
        "r_orderId (f r) = r_orderId r" "request_ok (f r)"
        "r_status (f r) = r_status r \<or> repl_edge (r_status r) (r_status (f r))"
    | (new) r where "replacements w' = tput (r_id r) r (replacements w)" "request_ok r"
        "existing_request w (r_orderId r) = None"
    unfolding repl_step_def by blast
  then show ?thesis
  proof cases
    case same
    then show ?thesis using assms(1) cong by blast
  next
    case upd
    then have "requests_ok (upd_request i f w)"
      by (intro requests_ok_upd[OF assms(1)]) (auto elim: repl_edge_from)
    then show ?thesis using upd(2) cong[of w' "upd_request i f w"] by (simp add: upd_request_def)
  next
    case new
    then have "requests_ok (put_request r w)" by (intro requests_ok_put assms(1))
    then show ?thesis using new(1) cong[of w' "put_request r w"] by (simp add: put_request_def)
  qed
qed

lemma submit_request_step:
  assumes none: "existing_request w oid = None"
  shows "wp (submit_request i bid oid d lpp) (\<lambda>_ w'. repl_step (Some i) w w') w"
proof -
  obtain line p pr where lpp: "lpp = (line, p, pr)" by (cases lpp)
  have rest: "wp (bind_act (reads clock) (\<lambda>now.
     let r = new_request i now oid bid d line p pr (AUTO_APPROVE_MIN_SCORE \<le> score)
     in seq_act (writes (put_request r)) (announce_request r))) (\<lambda>_ w'. repl_step (Some i) w w') s"
    if s: "replacements s = replacements w" for s score
  proof -
    let ?r = "new_request i (clock s) oid bid d line p pr (AUTO_APPROVE_MIN_SCORE \<le> score)"
    have "r_status ?r \<in> {PENDING_ADMIN_REVIEW, APPROVED, AWAITING_PAYMENT}"
      by (simp add: new_request_def resolveApprovalStatus_def)
    then have st: "repl_step (Some i) w w'" if "replacements w' = tput i ?r (replacements w)" for w'
      using that none by (intro repl_step_new[of _ ?r] new_request_ok) simp_all
    have "keeps (\<lambda>s'. replacements s' = tput i ?r (replacements w)) (announce_request ?r)"
      by (rule announce_ok) (simp add: rating_blind_def)
    from keeps_wp[OF this, of "put_request ?r s"] s
    have "wp (announce_request ?r) (\<lambda>_ s'. replacements s' = tput i ?r (replacements w)) (put_request ?r s)"
      by (simp add: put_request_def)
    then have "wp (announce_request ?r) (\<lambda>_ w'. repl_step (Some i) w w') (put_request ?r s)"
      by (rule wp_mono) (rule st)
    then show ?thesis by (simp add: wp_bind wp_seq wp_reads wp_writes Let_def)
  qed
  have score: "keeps (\<lambda>s. replacements s = replacements w) (getBuyerScore bid)"
    by (rule blind_ratings) (simp add: rating_blind_def)
  show ?thesis
    unfolding submit_request_def lpp prod.case by (rule wp_bind_keeps[OF score]) (simp_all add: rest)
qed

lemma createForOrder_step: "wp (createForOrder i uid oid d) (\<lambda>_ w'. repl_step (Some i) w w') w"
  by (auto simp: createForOrder_def wp_simps on_ok_def intro!: submit_request_step
        dest!: request_guard_existing split: option.splits sum.splits)

text \<open>Given rows in order, every operation takes such a step.\<close>

lemma step_at:
  assumes "requests_ok w" "tget (replacements w) i = Some r" "request_ok r \<Longrightarrow> request_ok (f r)"
    "replacements w' = replacements (upd_request i f w)" "r_orderId (f r) = r_orderId r"
    "r_status (f r) = r_status r \<or> repl_edge (r_status r) (r_status (f r))"
  shows "repl_step new w w'"
  using assms requests_ok_row[OF assms(1,2)] by (intro repl_step_upd) auto

lemma set_gateway_order_step:
  assumes "requests_ok w" "tget (replacements w) i = Some r" "r_status r = AWAITING_PAYMENT" "0 < r_balanceDue r"
    "replacements s = replacements w"
  shows "wp (set_gateway_order i g) (\<lambda>_ s'. repl_step new w s') s"
proof -
  have "repl_step new w (upd_request i (\<lambda>r. r\<lparr>r_razorpayOrderId := Some g\<rparr>) s)"
    using assms
    by (intro step_at[OF assms(1,2), where f = "\<lambda>r. r\<lparr>r_razorpayOrderId := Some g\<rparr>"] request_ok_writes(4))
       (simp_all add: upd_request_def)
  then show ?thesis using assms(5) by (simp add: set_gateway_order_def wp_simps)
qed

lemma decide_step: "requests_ok w \<Longrightarrow> wp (decide i admin ok note) (\<lambda>_ w'. repl_step new w w') w"
proof -
  assume w: "requests_ok w"
  have blind: "rating_blind (\<lambda>s. repl_step new w s)" by (simp add: rating_blind_def repl_step_def)
  have mails: "keeps (repl_step new w) (seq_act (mail_buyer b t) (repl_view AsAdmin True r2))"
    "keeps (repl_step new w) (seq_act (sendBuyerApprovedEmail r2) (repl_view AsAdmin True r2))" for b t r2
    unfolding repl_view_def by (intro keeps_rules blind_ratings[OF blind] blind_mails[OF blind])+
  have upd: "repl_step new w (upd_request i f w)"
    if "tget (replacements w) i = Some r" "request_ok r \<Longrightarrow> request_ok (f r)" "r_orderId (f r) = r_orderId r"
      "r_status (f r) = r_status r \<or> repl_edge (r_status r) (r_status (f r))" for f r
    using that by (intro step_at[OF w]) simp_all
  show ?thesis
    by (cases "tget (replacements w) i")
       (auto simp: decide_def wp_request_where wp_bind wp_reads wp_throw wp_save_request split_beta
          resolveApprovalStatus_def repl_edge.intros
          intro!: keeps_wp[OF mails(1)] keeps_wp[OF mails(2)] upd request_ok_writes split: if_splits)
qed

lemma fulfil_steps:
  assumes w: "requests_ok w"
  shows "wp (markBalancePaid i pid) (\<lambda>_ w'. repl_step new w w') w"
    "wp (uploadReplacementVideo cfg i uid file) (\<lambda>_ w'. repl_step new w w') w"
    "wp (requestReplacementDelivery cfg api i uid) (\<lambda>_ w'. repl_step new w w') w"
    "wp (getReplacementDeliveryStatus api i uid) (\<lambda>_ w'. repl_step new w w') w"
    "wp (deliverReplacement i uid) (\<lambda>_ w'. repl_step new w w') w"
proof -
  have upd: "repl_step new w w'"
    if "tget (replacements w) i = Some r" "replacements w' = replacements (upd_request i f w)"
      "request_ok r \<Longrightarrow> request_ok (f r)" "r_orderId (f r) = r_orderId r"
      "r_status (f r) = r_status r \<or> repl_edge (r_status r) (r_status (f r))" for w' f r
    using that by (intro step_at[OF w]) simp_all
  have poll: "repl_step new w w'"
    if "tget (replacements w) i = Some r" "truthy (r_trackingId r)"
      "replacements w' = replacements (upd_request i (repl_polled ds now) w)" for w' r ds now
    using that tracked_shipped[OF requests_ok_row[OF w that(1)] that(2)]
    by (intro upd[where f = "repl_polled ds now"]) (auto intro: request_ok_writes repl_edge.intros)
  note step = upd[where f = "\<lambda>r. r\<lparr>r_status := APPROVED, r_balanceStatus := BAL_PAID, r_razorpayPaymentId := p\<rparr>" for p]
    upd[where f = "\<lambda>r. r\<lparr>r_packingVideoUrl := u, r_packedAt := t, r_status := R_PACKED\<rparr>" for u t]
    upd[where f = "\<lambda>r. r\<lparr>r_status := R_SHIPPED, r_shippedAt := t, r_carrierName := c,
        r_trackingId := tr, r_deliveryProvider := dp, r_trackingUrl := tu, r_deliveryStatus := ds\<rparr>" for t c tr dp tu ds]
    upd[where f = "\<lambda>r. r\<lparr>r_status := R_DELIVERED, r_deliveredAt := t\<rparr>" for t]
  note s = wp_simps upd_request_def Let_def on_ok_def repl_edge.intros request_ok_writes
  show "wp (markBalancePaid i pid) (\<lambda>_ w'. repl_step new w w') w"
    by (cases "tget (replacements w) i") (auto simp: markBalancePaid_def s intro: step(1))
  show "wp (uploadReplacementVideo cfg i uid file) (\<lambda>_ w'. repl_step new w w') w"
    by (cases "tget (replacements w) i")
       (auto simp: uploadReplacementVideo_def s intro: step(2) split: option.splits)
  show "wp (requestReplacementDelivery cfg api i uid) (\<lambda>_ w'. repl_step new w w') w"
    by (cases "tget (replacements w) i")
       (auto simp: requestReplacementDelivery_def s intro: step(3) split: option.splits sum.splits)
  show "wp (getReplacementDeliveryStatus api i uid) (\<lambda>_ w'. repl_step new w w') w"
    by (cases "tget (replacements w) i")
       (auto simp: getReplacementDeliveryStatus_def s intro: poll split: option.splits sum.splits)
  show "wp (deliverReplacement i uid) (\<lambda>_ w'. repl_step new w w') w"
    by (cases "tget (replacements w) i")
       (auto simp: deliverReplacement_def s intro: step(4) split: option.splits)
qed

lemma open_balance_step:
  assumes w: "requests_ok w"
  shows "wp (createReplacementBalanceOrder rz uid i) (\<lambda>_ w'. repl_step new w w') w"
proof (cases "tget (replacements w) i")
  case None
  then show ?thesis
    by (auto simp: createReplacementBalanceOrder_def wp_seq wp_require_gateway on_ok_def wp_simps split: option.splits)
next
  case (Some r)
  have sess: "wp (seq_act (put_session key j) (session_for_balance rz uid r g)) (\<lambda>_ w'. repl_step new w w') s"
    if "repl_step new w s" for key j g s
    using that by (simp add: wp_simps repl_step_def upd_cache_def)
  have tail: "wp (seq_act (set_gateway_order i g) (seq_act (put_session key j) (session_for_balance rz uid r g)))
      (\<lambda>_ w'. repl_step new w w') (w\<lparr>gateway := gs\<rparr>)"
    if "r_status r = AWAITING_PAYMENT" "0 < r_balanceDue r" for g key j gs
    unfolding wp_seq[of "set_gateway_order i g"]
    using set_gateway_order_step[OF w Some that, of "w\<lparr>gateway := gs\<rparr>" g]
    by (rule wp_mono[OF _]) (simp, auto simp: on_ok_def intro: sess split: sum.splits)
  show ?thesis
    using Some tail
    by (auto simp: createReplacementBalanceOrder_def wp_seq[of "require_gateway rz"] wp_require_gateway
        wp_buyer_forbidden wp_balance_request wp_bind wp_reads wp_throw wp_session_for_balance on_ok_def
        create_gateway_order_outcome not_le split: option.splits sum.splits)
qed

lemma pay_balance_step:
  assumes w: "requests_ok w"
  shows "wp (verifyReplacementBalancePayment rz uid i d) (\<lambda>_ w'. repl_step new w w') w"
proof -
  have paid: "repl_step new w w'"
    if "tget (replacements w) i = Some r" "r_razorpayOrderId r = Some g" "r_balanceStatus r \<noteq> BAL_PAID"
      "replacements w' = replacements (upd_request i (\<lambda>r1. r1\<lparr>r_status := APPROVED, r_balanceStatus := BAL_PAID,
              r_razorpayPaymentId := p\<rparr>) w)" for w' r g p
    using that payable_waits[OF requests_ok_row[OF w that(1)] that(2,3)]
    by (intro step_at[OF w, where f = "\<lambda>r1. r1\<lparr>r_status := APPROVED, r_balanceStatus := BAL_PAID,
              r_razorpayPaymentId := p\<rparr>"]) (auto intro: request_ok_writes repl_edge.intros)
  show ?thesis
    by (auto simp: verifyReplacementBalancePayment_def wp_simps on_ok_def upd_request_def upd_cache_def
        intro!: wp_verifySignature paid split: option.splits)
qed

text \<open>The id of the request that an operation may add.\<close>

definition new_id :: "repl_op \<Rightarrow> string option" where
  "new_id op = (case op of Request i _ _ _ \<Rightarrow> Some i | _ \<Rightarrow> None)"

lemma run_repl_op_step:
  assumes "requests_ok w"
  shows "wp (run_repl_op rz cfg api op) (\<lambda>_ w'. repl_step (new_id op) w w') w"
proof -
  have fin: "wp (seq_act m (ret ())) (\<lambda>_ w'. repl_step new w w') w"
    if "wp m (\<lambda>_ w'. repl_step new w w') w" for m new
    unfolding wp_seq using that by (rule wp_mono) (auto simp: on_ok_def wp_ret split: sum.split)
  show ?thesis
    using assms by (cases op) (auto simp: new_id_def intro!: fin createForOrder_step decide_step fulfil_steps open_balance_step
        pay_balance_step)
qed

lemma run_repl_op_ok: "keeps requests_ok (run_repl_op rz cfg api op)"
  by (rule keepsI) (rule wp_mono[OF run_repl_op_step], auto intro: repl_step_ok)

end
