(* ===== verification/OrderQueries.thy ===== *)
theory OrderQueries
  imports Orders
begin

text \<open>
  The queries on orders, src/orders/orders.service.ts: pages of a buyer's and of a seller's orders,
  single orders and the counts behind the seller's tabs. \<open>contains\<close> with mode \<open>insensitive\<close> compares
  lower-case texts; a status that is no member of the enumeration makes the database client reject
  the query.
\<close>

section \<open>Filters\<close>

definition status_of_name :: "string \<Rightarrow> order_status option" where
  "status_of_name s = find (\<lambda>st. status_name st = s) [PENDING, PAID, PACKED, SHIPPED, DELIVERED, CANCELLED, RETURNED]"

definition invalid_enum :: exn where
  "invalid_enum = Crash ''PrismaClientValidationError''"

definition contains_ci :: "string \<Rightarrow> string \<Rightarrow> bool" where
  "contains_ci text pat = str_includes (to_lower text) (to_lower pat)"

fun split_on :: "char \<Rightarrow> string \<Rightarrow> string list" where
  "split_on c [] = [[]]"
| "split_on c (x # xs) =
     (if x = c then [] # split_on c xs
      else case split_on c xs of [] \<Rightarrow> [[x]] | y # ys \<Rightarrow> (x # y) # ys)"

fun all_statuses :: "string list \<Rightarrow> exn + order_status list" where
  "all_statuses [] = Inr []"
| "all_statuses (s # ss) =
     (case status_of_name s of
        None \<Rightarrow> Inl invalid_enum
      | Some st \<Rightarrow> (case all_statuses ss of Inl e \<Rightarrow> Inl e | Inr sts \<Rightarrow> Inr (st # sts)))"

text \<open>The \<open>statusClause\<close> of \<open>findSellerOrders\<close>: none, one status, or a comma-separated list of them.\<close>

definition status_clause :: "string option \<Rightarrow> exn + (order_status \<Rightarrow> bool)" where
  "status_clause f =
     (if \<not> truthy f then Inr (\<lambda>_. True)
      else if CHR '','' \<in> set (the f)
      then (case all_statuses (filter (\<lambda>s. s \<noteq> []) (map trim (split_on (CHR '','') (the f)))) of
              Inl e \<Rightarrow> Inl e
            | Inr sts \<Rightarrow> Inr (\<lambda>st. st \<in> set sts))
      else (case status_of_name (the f) of None \<Rightarrow> Inl invalid_enum | Some st \<Rightarrow> Inr (\<lambda>st'. st' = st)))"

section \<open>The buyer's orders\<close>

record buyer_query =
  bq_page :: nat
  bq_limit :: nat
  bq_status :: "order_status option"
  bq_search :: "string option"
  bq_date :: "string option"

definition matches_search :: "world \<Rightarrow> string option \<Rightarrow> order_row \<Rightarrow> bool" where
  "matches_search w search o1 \<longleftrightarrow>
     \<not> truthy search \<or> contains_ci (o_id o1) (the search) \<or>
     list_ex (\<lambda>it. case tget (products w) (oi_productId it) of None \<Rightarrow> False
                   | Some p \<Rightarrow> contains_ci (p_name p) (the search)) (o_items o1)"

definition buyer_orders :: "world \<Rightarrow> buyer_row \<Rightarrow> buyer_query \<Rightarrow> order_row list" where
  "buyer_orders w b q =
     newest_first o_createdAt (filter (\<lambda>o1. o_buyerId o1 = Some (b_id b) \<and>
        (case bq_status q of None \<Rightarrow> True | Some st \<Rightarrow> o_status o1 = st) \<and>
        in_range_opt (resolveSellerDateRange (clock w) (bq_date q)) (o_createdAt o1) \<and>
        matches_search w (bq_search q) o1) (trows (orders w)))"

definition findMyOrders :: "string \<Rightarrow> buyer_query \<Rightarrow> buyer_list_item page handler" where
  "findMyOrders uid q =
     reads (\<lambda>w. case buyer_of_user w uid of
        None \<Rightarrow> empty_page (bq_page q) (bq_limit q)
      | Some b \<Rightarrow> paginate (bq_page q) (bq_limit q) (mapBuyerOrderListItem w) (buyer_orders w b q))"

definition getRecentBuyerOrders :: "string \<Rightarrow> nat \<Rightarrow> buyer_list_item list handler" where
  "getRecentBuyerOrders uid limit =
     reads (\<lambda>w. case buyer_of_user w uid of
        None \<Rightarrow> []
      | Some b \<Rightarrow> map (mapBuyerOrderListItem w) (take (min limit 20) (newest_first o_createdAt
          (filter (\<lambda>o1. o_buyerId o1 = Some (b_id b)) (trows (orders w))))))"

definition getBuyerOrderDetail :: "string \<Rightarrow> string \<Rightarrow> buyer_detail handler" where
  "getBuyerOrderDetail oid uid =
     bind_act (the_buyer uid) (\<lambda>b.
     bind_act (the_order oid) (\<lambda>o1.
     if o_buyerId o1 \<noteq> Some (b_id b) then throw (NotFound ''Order not found'')
     else reads (\<lambda>w. mapBuyerOrderDetail w o1)))"

record order_help =
  oh_id :: string
  oh_status :: order_status
  oh_createdAt :: int
  oh_totalAmount :: num
  oh_shippingAddress :: "string option"
  oh_items :: "order_item_row list"
  oh_customer :: "user_row option" \<comment> \<open>name, email and phone of the buyer's user\<close>
  oh_phone :: string

definition getOrderHelp :: "string option \<Rightarrow> string \<Rightarrow> string \<Rightarrow> order_help handler" where
  "getOrderHelp supportPhone oid uid =
     bind_act (the_buyer uid) (\<lambda>b.
     bind_act (the_order oid) (\<lambda>o1.
     if o_buyerId o1 \<noteq> Some (b_id b) then throw (NotFound ''Order not found'')
     else reads (\<lambda>w. \<lparr>oh_id = o_id o1, oh_status = o_status o1, oh_createdAt = o_createdAt o1,
         oh_totalAmount = o_totalAmount o1, oh_shippingAddress = o_shippingAddress o1,
         oh_items = o_items o1, oh_customer = tget (users w) (b_userId b),
         oh_phone = (case supportPhone of None \<Rightarrow> ''+91 98765 43210'' | Some p \<Rightarrow> p)\<rparr>)))"

definition is_buyer_of :: "world \<Rightarrow> string \<Rightarrow> order_row \<Rightarrow> bool" where
  "is_buyer_of w uid o1 \<longleftrightarrow>
     (case o_buyerId o1 of None \<Rightarrow> False
      | Some bid \<Rightarrow> (case tget (buyers w) bid of None \<Rightarrow> False | Some b \<Rightarrow> b_userId b = uid))"

definition is_seller_of :: "world \<Rightarrow> string \<Rightarrow> order_row \<Rightarrow> bool" where
  "is_seller_of w uid o1 \<longleftrightarrow>
     (case seller_of_user w uid of None \<Rightarrow> False | Some s1 \<Rightarrow> order_has_seller w o1 (s_id s1))"

definition findOne :: "string \<Rightarrow> string \<Rightarrow> order_row handler" where
  "findOne oid uid =
     bind_act (the_order oid) (\<lambda>o1.
     bind_act (reads (\<lambda>w. is_buyer_of w uid o1 \<or> is_seller_of w uid o1)) (\<lambda>ok.
     if ok then ret o1 else throw (Forbidden ''You can only view your own orders'')))"

section \<open>The seller's orders\<close>

definition seller_orders :: "world \<Rightarrow> seller_row \<Rightarrow> string option \<Rightarrow> (order_status \<Rightarrow> bool) \<Rightarrow> order_row list" where
  "seller_orders w s1 date P =
     filter (\<lambda>o1. order_has_seller w o1 (s_id s1) \<and> P (o_status o1) \<and>
        in_range_opt (resolveSellerDateRange (clock w) date) (o_createdAt o1)) (trows (orders w))"

definition findSellerOrders ::
    "string \<Rightarrow> nat \<Rightarrow> nat \<Rightarrow> string option \<Rightarrow> string option \<Rightarrow> seller_view page handler" where
  "findSellerOrders uid page limit status date =
     bind_act (the_seller uid) (\<lambda>s1.
     bind_act (lift_res (status_clause status)) (\<lambda>P.
     reads (\<lambda>w. paginate page limit (mapSellerOrder w)
        (newest_first o_createdAt (seller_orders w s1 date P)))))"

definition getSellerOrderDetail :: "string \<Rightarrow> string \<Rightarrow> seller_view handler" where
  "getSellerOrderDetail oid uid =
     bind_act (the_seller uid) (\<lambda>s1.
     bind_act (the_order oid) (\<lambda>o1.
     seq_act (assert_sells o1 s1) (view_for_seller o1)))"

record order_counts =
  oc_all :: nat
  oc_new :: nat
  oc_packed :: nat
  oc_inTransit :: nat
  oc_delivered :: nat

definition getSellerOrderCounts :: "string \<Rightarrow> string option \<Rightarrow> order_counts handler" where
  "getSellerOrderCounts uid date =
     bind_act (the_seller uid) (\<lambda>s1.
     reads (\<lambda>w. let n = (\<lambda>P. length (seller_orders w s1 date P))
       in \<lparr>oc_all = n (\<lambda>_. True), oc_new = n (\<lambda>st. st = PAID), oc_packed = n (\<lambda>st. st = PACKED),
           oc_inTransit = n (\<lambda>st. st = SHIPPED), oc_delivered = n (\<lambda>st. st = DELIVERED)\<rparr>))"

record checkout_totals =
  ct_subtotal :: num
  ct_deliveryFee :: num
  ct_total :: num
  ct_streamId :: string

definition getCheckoutTotals :: "shipping_api \<Rightarrow> string \<Rightarrow> string option \<Rightarrow> checkout_totals handler" where
  "getCheckoutTotals api uid addressId =
     (if \<not> truthy (opt_trim addressId) then throw (BadRequest ''Shipping address is required'') else
      bind_act (prepareCheckoutForPayment api uid (the addressId)) (\<lambda>prep.
      ret \<lparr>ct_subtotal = cp_subtotal prep, ct_deliveryFee = cp_deliveryFee prep, ct_total = cp_total prep,
           ct_streamId = cp_streamId prep\<rparr>))"

section \<open>What the queries return\<close>

lemma status_of_name [simp]: "status_of_name (status_name st) = Some st"
  by (cases st) (simp_all add: status_of_name_def status_name_def)

lemma status_of_name_Some: "status_of_name s = Some st \<Longrightarrow> status_name st = s"
  by (auto simp: status_of_name_def split: if_splits)

lemma split_on_join: "join [c] (split_on c s) = s"
proof (induction s)
  case (Cons x s)
  have ne: "split_on c s \<noteq> []" by (cases s) (auto split: list.splits)
  then obtain y ys where y: "split_on c s = y # ys" by (cases "split_on c s") auto
  with Cons show ?case by (cases ys) auto
qed simp

lemma status_clause_name [simp]: "status_clause (Some (status_name st)) = Inr (\<lambda>st'. st' = st)"
  using status_of_name[of st] by (cases st) (simp_all add: status_clause_def status_name_def)

lemma wp_findSellerOrders:
  "wp (findSellerOrders uid page limit status date) Q w =
     (case seller_of_user w uid of None \<Rightarrow> Q (Inl (Forbidden ''User is not a registered seller'')) w
      | Some s1 \<Rightarrow>
          (case status_clause status of
             Inl e \<Rightarrow> Q (Inl e) w
           | Inr P \<Rightarrow> Q (Inr (paginate page limit (mapSellerOrder w)
                                (newest_first o_createdAt (seller_orders w s1 date P)))) w))"
  by (cases "seller_of_user w uid"; cases "status_clause status") (simp_all add: findSellerOrders_def wp_simps)

lemma paginate_total [simp]: "pg_total (paginate page limit view rows) = length rows"
  by (simp add: paginate_def Let_def)

lemma tabs_within:
  "length (filter (\<lambda>x. A x \<and> f x = PAID \<and> B x) xs) + length (filter (\<lambda>x. A x \<and> f x = PACKED \<and> B x) xs)
   + length (filter (\<lambda>x. A x \<and> f x = SHIPPED \<and> B x) xs) + length (filter (\<lambda>x. A x \<and> f x = DELIVERED \<and> B x) xs)
   \<le> length (filter (\<lambda>x. A x \<and> B x) xs)" for f :: "order_row \<Rightarrow> order_status"
  by (induction xs) auto

end
