(* ===== verification/Sample.thy ===== *)
theory Sample
  imports PaymentLiveness ReplacementFacts OrderQueries
begin

text \<open>
  A small shop in operation, on which the witnesses of the properties evaluate the model: one buyer,
  one seller with a pickup address, a product with variants and one without, a live stream that
  lists both, a stored cart with two cups, and orders in several states. The gateway and the shipping partner are
  concrete functions: the digest of a text is the text itself after the secret, orders and refunds
  are accepted, a shipment costs 40.
\<close>

section \<open>Parameters\<close>

definition sample_config :: config where
  "sample_config = \<lparr>cfg_allowDirectCheckout = Some ''true'', cfg_pickupLocation = Some ''WH'',
     cfg_baseUrls = [Some ''http://x/'']\<rparr>"

definition sample_api :: shipping_api where
  "sample_api = \<lparr>dh_configured = True, dh_quote = (\<lambda>_ _ _. Inr (Some 40)),
     dh_create = (\<lambda>_. Inr (Some \<lparr>sh_waybill = Some ''W1'', sh_trackingUrl = None, sh_status = None, sh_detail = []\<rparr>)),
     dh_track = (\<lambda>_. Inr (Some (Some ''In Transit'')))\<rparr>"

definition sample_rz :: razorpay where
  "sample_rz = \<lparr>rz_keyId = Some ''k'', rz_keySecret = Some ''s'', rz_hmac = (\<lambda>k t. k @ t),
     rz_create = (\<lambda>_. Inr ''g1''), rz_refund = (\<lambda>_ _. Inr (Some ''f1''))\<rparr>"

section \<open>Rows\<close>

definition sample_item :: variant_item where
  "sample_item = \<lparr>vi_id = ''v1'', vi_label = ''Red'', vi_selection = [(''Color'', ''Red'')],
     vi_sellingPrice = 700, vi_mrp = None, vi_discountPercent = None, vi_stock = 4, vi_sku = None\<rparr>"

definition sample_variants :: json where
  "sample_variants =
     variants_json [\<lparr>optionName = ''Color'', optionValues = [''Red'']\<rparr>] [sample_item]"

definition plain_product :: product_row where
  "plain_product = \<lparr>p_id = ''p1'', p_name = ''Cup'', p_price = 500, p_stock = 10, p_images = [],
     p_sellerId = ''s1'', p_variants = JNull, p_returnable = Some True, p_status = PS_ACTIVE,
     p_createdAt = 700000000, p_hsnCode = None, p_gstPercent = None\<rparr>"

definition variant_product :: product_row where
  "variant_product = \<lparr>p_id = ''p2'', p_name = ''Shirt'', p_price = 700, p_stock = 4, p_images = [],
     p_sellerId = ''s1'', p_variants = sample_variants, p_returnable = None, p_status = PS_ACTIVE,
     p_createdAt = 710000000, p_hsnCode = Some ''6109'', p_gstPercent = Some 5\<rparr>"

definition sample_stream :: stream_row where
  "sample_stream = \<lparr>st_id = ''t1'', st_sellerId = ''s1'', st_isLive = True, st_startedAt = Some 900000000,
     st_endedAt = None, st_createdAt = 800000000, st_products = [''p1'', ''p2''], st_sessionEndedAt = None,
     st_sessionSeconds = None, st_title = ''Show'', st_description = None, st_categoryId = None, st_visibility = PUBLIC,
     st_thumbnailUrl = None, st_livekitRoomName = Some ''t1'', st_livekitUrl = Some ''wss'', st_livekitEgressId = None,
     st_replayUrl = None, st_replayDurationSec = None, st_replayStatus = RS_NONE, st_viewCount = 0,
     st_broadcastStartedAt = Some 900000500, st_buyersNotifiedAt = Some 900000500,
     st_heartbeatAt = Some 999990000, st_reminderSentAt = None, st_durationSeconds = None\<rparr>"

definition ended_stream :: stream_row where
  "ended_stream = sample_stream\<lparr>st_id := ''t2'', st_isLive := False, st_endedAt := Some 999000000\<rparr>"

definition cup_line :: order_item_row where
  "cup_line = \<lparr>oi_id = ''i1'', oi_productId = ''p1'', oi_quantity = 1, oi_price = 500, oi_variantId = None,
     oi_variantLabel = None\<rparr>"

definition sample_order :: order_row where
  "sample_order = \<lparr>o_id = ''o1'', o_buyerId = Some ''b1'', o_streamId = Some ''t1'',
     o_shippingAddress = Some ''Road 1, 560001'', o_status = PAID, o_totalAmount = 500, o_deliveryFee = 0,
     o_deliveryProvider = None, o_borzoTrackingUrl = None, o_borzoOrderStatus = None, o_trackingId = None,
     o_carrierName = None, o_shippedAt = None, o_deliveredAt = None, o_packingVideoUrl = None,
     o_packedAt = None, o_deliveryStatus = None, o_razorpayOrderId = None, o_razorpayPaymentId = None,
     o_items = [cup_line], o_createdAt = 990000000, o_invoiceNumber = None\<rparr>"

definition delivered_order :: order_row where
  "delivered_order = sample_order\<lparr>o_id := ''o2'', o_status := DELIVERED, o_deliveredAt := Some 995000000\<rparr>"

definition cart_cup :: cart_item where
  "cart_cup = \<lparr>ci_productId = ''p1'', ci_quantity = 2, ci_size = None, ci_color = None, ci_variantId = None,
     ci_variantLabel = None\<rparr>"

definition cart_shirt :: cart_item where
  "cart_shirt = cart_cup\<lparr>ci_productId := ''p2'', ci_quantity := 1, ci_variantId := Some ''v1''\<rparr>"

definition sample_cart :: cart_state where
  "sample_cart = \<lparr>cs_items = [cart_cup], cs_streamId = Some ''t1'', cs_streamTitle = None,
     cs_expiresAt = None, cs_updatedAt = Some 999999000\<rparr>"

definition sample_pending :: pending where
  "sample_pending = \<lparr>pp_userId = Some ''u1'', pp_addressId = Some ''a1'', pp_shippingAddress = Some ''Road 1'',
     pp_amountPaise = Some 104000, pp_subtotal = Some 1000, pp_deliveryFee = Some 40,
     pp_deliveryProvider = Some ''DELHIVERY'', pp_streamId = Some ''t1''\<rparr>"

definition sample_payment :: payment_dto where
  "sample_payment = \<lparr>pd_orderId = ''g1'', pd_paymentId = ''y1'', pd_signature = ''sg1|y1''\<rparr>"

section \<open>The shop\<close>

definition sample :: world where
  "sample =
     \<lparr>clock = 1000000000,
      cache = \<lparr>texts = [(''orders:cart:u1'', JsonText (cart_json sample_cart), None),
                        (''payments:razorpay:pending:g1'', JsonText (pending_json sample_pending), None)],
               rsets = [(''orders:stream-carts:t1'', [''u1''], None)]\<rparr>,
      users = [(''u1'', \<lparr>u_id = ''u1'', u_email = ''b@x'', u_phone = Some ''9876543210'', u_name = ''Asha'', u_roles = [BUYER], u_password = ''00pw'', u_firstName = None,
                 u_middleName = None, u_lastName = None, u_gender = None, u_createdAt = 0\<rparr>),
               (''u2'', \<lparr>u_id = ''u2'', u_email = ''s@x'', u_phone = Some ''9876543211'', u_name = ''Ravi'', u_roles = [SELLER], u_password = ''00pw'', u_firstName = None,
                 u_middleName = None, u_lastName = None, u_gender = None, u_createdAt = 0\<rparr>)],
      buyers = [(''b1'', \<lparr>b_id = ''b1'', b_userId = ''u1'', b_createdAt = 0\<rparr>)],
      sellers = [(''s1'', \<lparr>s_id = ''s1'', s_userId = ''u2'', s_businessName = ''Store'', s_logoUrl = None,
                          s_status = VS_VERIFIED, s_commissionWaiverActive = False,
                 s_description = None, s_bannerUrl = None, s_websiteUrl = None, s_gstNumber = None,
                 s_businessAddress = None, s_primaryCategoryId = None, s_bankAccount = None, s_bankName = None,
                 s_accountHolderName = None, s_accountType = None, s_ifscCode = None, s_signatureUrl = None,
                 s_rejectionReason = None, s_categories = [], s_createdAt = 0\<rparr>)],
      addresses = [(''a1'', \<lparr>a_id = ''a1'', a_userId = ''u1'', a_type = SHIPPING, a_line1 = ''Road 1'', a_line2 = None,
                            a_city = ''C'', a_state = ''S'', a_zip = ''560001'', a_country = ''IN'',
                            a_contactName = None, a_phone = None, a_createdAt = 0,
                            a_isDefault = True, a_latitude = None, a_longitude = None\<rparr>),
                   (''a2'', \<lparr>a_id = ''a2'', a_userId = ''u2'', a_type = PICKUP, a_line1 = ''Road 2'', a_line2 = None,
                            a_city = ''C'', a_state = ''S'', a_zip = ''400001'', a_country = ''IN'',
                            a_contactName = None, a_phone = None, a_createdAt = 0,
                            a_isDefault = True, a_latitude = None, a_longitude = None\<rparr>)],
      products = [(''p1'', plain_product), (''p2'', variant_product)],
      streams = [(''t1'', sample_stream), (''t2'', ended_stream)],
      orders = [(''o1'', sample_order), (''o2'', delivered_order)],
      failures = [], replacements = [], buyerRatings = [], sellerRatings = [], overrideLogs = [],
      qualDays = [], shipments = [], outbox = [], gateway = [], files = [],
      categories = [(''k1'', \<lparr>c_id = ''k1'', c_name = ''Home'', c_slug = ''home''\<rparr>)], follows = [], pushDevices = [],
      changeRequests = [], notifications = [], faqs = [], tickets = [], media = []\<rparr>"

section \<open>What the witnesses use of it\<close>

lemmas sample_rows = plain_product_def variant_product_def sample_stream_def ended_stream_def
  sample_order_def delivered_order_def cup_line_def cart_cup_def cart_shirt_def

lemma keyed_sample: "keyed sample"
  by (auto simp: keyed_def sample_def tget_def sample_rows split: if_splits)

lemma orders_ok_sample: "orders_ok sample"
  by (auto simp: orders_ok_def order_ok_def sample_def tget_def sample_rows split: if_splits)

lemma requests_ok_sample: "requests_ok sample"
  by (simp add: requests_ok_def sample_def)

lemma ratings_ok_sample: "ratings_ok sample"
  by (simp add: ratings_ok_def sample_def)

lemma sample_cart_stored: "stored_cart sample u = (if u = ''u1'' then sample_cart else empty_cart)"
  by (simp add: stored_cart_def sample_def redis_get_def tget_def cartKey_def live_def json_parse_def)

lemma carts_indexed_sample: "carts_indexed sample"
  by (simp add: carts_indexed_def cart_indexed_def sample_cart_stored sample_cart_def holders_def)
     (simp add: sample_def redis_smembers_def streamCartHoldersKey_def tget_def live_def)

lemma carts_ok_sample: "carts_ok sample"
  by (simp add: carts_ok_def sample_cart_stored cart_lines_ok_def sample_cart_def line_key_def sample_rows
      variant_key_def opt_trim_def)

lemma signed_sample: "signed sample_rz sample_payment"
  by (simp add: signed_def sample_rz_def sample_payment_def trim_def is_space_def opt_trim_def)

text \<open>The stored cart is ready, the carrier quotes a fee for it and the gateway takes the amount.\<close>

definition sample_view :: cart_view where
  "sample_view = view_of sample (sample_cart\<lparr>cs_updatedAt := Some 1000000000\<rparr>)"

lemma enforced_sample: "enforced sample (stored_cart sample ''u1'') = sample_cart\<lparr>cs_updatedAt := Some 1000000000\<rparr>"
  by (simp add: sample_cart_stored enforced_def cart_alive_def sample_cart_def)
     (simp add: sample_def tget_def sample_rows)

lemma cart_sample: "cart_of sample ''u1'' = sample_view"
  by (simp add: cart_of_def enforced_sample sample_view_def) (simp add: sample_cart_def)

lemma sample_view_checks:
  "validateOrderItems sample ''t1'' (map line_of (cv_items sample_view)) = Inr ()"
  "map (line_cell sample) (map line_of (cv_items sample_view)) = [(''p1'', None)]"
  "length (cv_items sample_view) = 1"
  "100 \<le> paise (nadd (cv_subtotal sample_view) 40)"
  by code_simp+

lemma ready_sample: "ready sample ''u1''"
proof -
  have "buyer_of_user sample ''u1'' \<noteq> None" by code_simp
  then show ?thesis
    using sample_view_checks(1-3)
    by (auto simp: ready_def Let_def cart_sample enforced_sample sample_cart_def)
qed

lemma sample_amount: "100 \<le> paise (nadd (cv_subtotal (cart_of sample ''u1'')) 40)"
  unfolding cart_sample by (rule sample_view_checks(4))

lemma quotable_sample: "quotable sample sample_api ''u1'' ''a1'' 40"
proof -
  have "address_of sample ''u1'' ''a1'' \<noteq> None \<and> trim (a_zip (the (address_of sample ''u1'' ''a1''))) \<noteq> []"
    by code_simp
  moreover have "latest_pickup sample ''u2'' \<noteq> None \<and> trim (a_zip (the (latest_pickup sample ''u2''))) \<noteq> []"
    by code_simp
  ultimately obtain a pk where "address_of sample ''u1'' ''a1'' = Some a" "trim (a_zip a) \<noteq> []"
      "latest_pickup sample ''u2'' = Some pk" "trim (a_zip pk) \<noteq> []" by auto
  moreover have "tget (streams sample) ''t1'' = Some sample_stream" "tget (sellers sample) ''s1'' \<noteq> None"
      "map_option s_userId (tget (sellers sample) ''s1'') = Some ''u2''"
      "Option.bind (tget (users sample) ''u1'') u_phone = Some ''9876543210''"
      "Option.bind (tget (users sample) ''u2'') u_phone = Some ''9876543211''"
    by (simp_all add: sample_def tget_def)
  ultimately show ?thesis
    unfolding quotable_def enforced_sample cart_sample
    by (auto simp: sample_cart_def sample_stream_def sample_api_def)
qed

lemma sample_gateway: "isRazorpayConfigured sample_rz" "\<forall>rq. rz_create sample_rz rq = Inr (pd_orderId sample_payment)"
  by (simp_all add: isRazorpayConfigured_def sample_rz_def sample_payment_def opt_trim_def trim_def is_space_def)

lemma sample_unpaid:
  "order_of_payment sample (pd_paymentId sample_payment) = None"
  "tget (failures sample) (pd_paymentId sample_payment) = None"
  "\<forall>o1 \<in> set (trows (orders sample)). o_razorpayOrderId o1 \<noteq> Some (pd_orderId sample_payment)"
  by code_simp+

lemma sample_opened:
  "wp (createRazorpayOrder sample_rz sample_api ''u1'' ''a1'')
     (\<lambda>r w1. \<exists>op. r = Inr op \<and> op_razorpayOrderId op = ''g1'' \<and> op_deliveryFee op = 40) sample"
  using open_ok[OF ready_sample quotable_sample _ _ sample_gateway(1) sample_amount sample_gateway(2)]
  by (rule wp_mono) (auto simp: trim_def is_space_def sample_payment_def)

end
