(* ===== verification/CheckoutProperties.thy ===== *)
theory CheckoutProperties
  imports Sample
begin

text \<open>
  The properties of buying: what a verified payment, a checkout and the creation of an order leave
  behind, and what a cancellation gives back.
\<close>

section \<open>Inputs of the witnesses\<close>

definition sample_uuid :: "nat \<Rightarrow> string" where
  "sample_uuid n = replicate (Suc n) CHR ''n''"

definition sample_dto :: create_order where
  "sample_dto = \<lparr>co_items = [\<lparr>ol_productId = ''p1'', ol_quantity = 2, ol_variantId = None, ol_variantLabel = None\<rparr>,
     \<lparr>ol_productId = ''p2'', ol_quantity = 1, ol_variantId = Some ''v1'', ol_variantLabel = None\<rparr>],
     co_shippingAddress = None, co_streamId = Some ''t1''\<rparr>"

lemma sample_created: "\<not> isl (fst (createOrder sample_uuid sample_dto ''u1'' sample))"
  by code_simp

lemma sample_line_cells:
  "map (line_cell sample) (co_items sample_dto) = [(''p1'', None), (''p2'', Some ''v1'')]"
  by code_simp

lemma sample_verified:
  "\<not> isl (fst (verifyAndCheckout sample_rz sample_config sample_api sample_uuid ''u1'' sample_payment sample))"
  by code_simp

section \<open>Payments\<close>

text \<open>
  C1: A payment is settled. However a verification ends, the state it leaves is one of: nothing
  changed; the payment has an order, which the caller is told, and no refund was made; or the
  signature was right, the payment has no order, and its failure is on record together with exactly
  one refund of the recorded amount, or with none when the refund was refused.
\<close>

theorem payment_settles:
  assumes "keyed w" "pd_paymentId d \<noteq> []"
  shows "case verifyAndCheckout rz cfg api uuid uid d w of
      (Inl e, w') \<Rightarrow> w' = w \<or>
        signed rz d \<and> order_of_payment w (pd_paymentId d) = None \<and> order_of_payment w' (pd_paymentId d) = None \<and>
        (\<exists>f. tget (failures w') (pd_paymentId d) = Some f \<and>
           (f_refundStatus f = Some REFUNDED \<and>
              gateway w' = gateway w @ [GatewayRefund (pd_paymentId d) (f_amountPaise f)] \<or>
            f_refundStatus f = Some REFUND_FAILED \<and> gateway w' = gateway w))
    | (Inr k, w') \<Rightarrow> signed rz d \<and> gateway w' = gateway w \<and> failures w' = failures w \<and>
        (\<exists>o1. order_of_payment w' (pd_paymentId d) = Some o1 \<and> kr_orderId k = o_id o1 \<and>
           kr_status k = o_status o1 \<and> kr_totalAmount k = o_totalAmount o1 \<and> (w' = w \<or> o_status o1 = PAID))"
  using wp_verifyAndCheckout[OF assms, of rz cfg api uuid uid]
  by (auto simp: wp_def verify_post_def settled_failure_def split: prod.splits sum.splits)

theorem payment_settles_witness:
  "keyed sample \<and> pd_paymentId sample_payment \<noteq> [] \<and>
   \<not> isl (fst (verifyAndCheckout sample_rz sample_config sample_api sample_uuid ''u1'' sample_payment sample)) \<and>
   signed sample_rz sample_payment \<and>
   order_of_payment (snd (verifyAndCheckout sample_rz sample_config sample_api sample_uuid ''u1''
       sample_payment sample)) ''y1'' \<noteq> None"
proof -
  have i: "pd_paymentId sample_payment \<noteq> []" "pd_paymentId sample_payment = ''y1''"
    by (simp_all add: sample_payment_def)
  show ?thesis
    using payment_settles[OF keyed_sample i(1), of sample_rz sample_config sample_api sample_uuid "''u1''"] sample_verified
    by (auto simp: i(2) keyed_sample split: prod.splits sum.splits)
qed

text \<open>
  C6: A payment is verified once. After a verification that succeeded, any further verification of
  the same payment, by anyone and whatever the ids it would draw, returns the same order with the
  same total and changes nothing.
\<close>

theorem verify_idempotent:
  assumes "keyed w" "pd_paymentId d \<noteq> []"
    and "verifyAndCheckout rz cfg api uuid uid d w = (Inr k, w')"
  shows "\<exists>k2. verifyAndCheckout rz cfg2 api2 uuid2 uid2 d w' = (Inr k2, w') \<and>
           kr_orderId k2 = kr_orderId k \<and> kr_totalAmount k2 = kr_totalAmount k \<and> kr_status k2 = kr_status k"
proof -
  from wpD[OF wp_verifyAndCheckout[OF assms(1,2)] assms(3)] obtain o1
    where s: "signed rz d" and o1: "order_of_payment w' (pd_paymentId d) = Some o1"
      and k: "kr_orderId k = o_id o1" "kr_status k = o_status o1" "kr_totalAmount k = o_totalAmount o1"
    by (auto simp: verify_post_def)
  from verify_again[OF verify_configured[OF assms(3)] s o1] k show ?thesis
    by (auto simp: toCheckoutResponse_def)
qed

theorem verify_idempotent_witness:
  "\<exists>k w'. verifyAndCheckout sample_rz sample_config sample_api sample_uuid ''u1'' sample_payment sample = (Inr k, w') \<and>
     (\<exists>k2. verifyAndCheckout sample_rz sample_config sample_api sample_uuid ''u9'' sample_payment w' = (Inr k2, w') \<and>
        kr_orderId k2 = kr_orderId k)"
proof -
  have i: "pd_paymentId sample_payment \<noteq> []" by (simp add: sample_payment_def)
  from sample_verified obtain k w' where r: "verifyAndCheckout sample_rz sample_config sample_api sample_uuid ''u1''
      sample_payment sample = (Inr k, w')" by (rule run_ok)
  from verify_idempotent[OF keyed_sample i r] r show ?thesis by blast
qed



text \<open>
  C2: A ready cart can be bought. A user whose cart passes the checks of the checkout, with an
  address of theirs to which the carrier quotes a fee, can open a payment for it when the gateway
  accepts the amount; and a signed confirmation of that payment, not seen before, places an order
  that is paid.
\<close>

theorem ready_cart_is_ordered:
  assumes "keyed w" "ready w uid" "quotable w api uid aid fee" "trim aid = aid" "aid \<noteq> []"
    and "isRazorpayConfigured rz" "100 \<le> paise (nadd (cv_subtotal (cart_of w uid)) fee)"
    and "\<forall>rq. rz_create rz rq = Inr (pd_orderId d)" "signed rz d" "pd_paymentId d \<noteq> []"
    and "order_of_payment w (pd_paymentId d) = None" "tget (failures w) (pd_paymentId d) = None"
    and "\<forall>o1 \<in> set (trows (orders w)). o_razorpayOrderId o1 \<noteq> Some (pd_orderId d)"
  shows "wp (createRazorpayOrder rz api uid aid)
    (\<lambda>r w1. (\<exists>op. r = Inr op \<and> op_razorpayOrderId op = pd_orderId d) \<and>
       wp (verifyAndCheckout rz cfg api2 uuid uid d)
         (\<lambda>r w2. \<exists>k. r = Inr k \<and> kr_status k = PAID \<and>
            map_option o_id (order_of_payment w2 (pd_paymentId d)) = Some (kr_orderId k)) w1) w"
proof (rule wp_mono[OF wp_conj[THEN iffD2, OF conjI[OF wp_createRazorpayOrder open_ok[OF assms(2-8)]]]])
  fix r w1
  assume "open_post w uid aid r w1 \<and> (\<exists>op. r = Inr op \<and> op_razorpayOrderId op = pd_orderId d \<and>
      op_deliveryFee op = fee \<and> payable w uid aid op w1)"
  then obtain op where op: "r = Inr op" "op_razorpayOrderId op = pd_orderId d" "opened w uid aid op w1"
      "payable w uid aid op w1" by (auto simp: open_post_def)
  from op(2,4) obtain p where s: "session_of w1 (pd_orderId d) = Some p" "pp_userId p = Some uid"
      "pp_addressId p = Some aid" "truthy (pp_shippingAddress p)" and w1: "ready w1 uid" "products w1 = products w"
      "addresses w1 = addresses w" "orders w1 = orders w" "failures w1 = failures w"
    by (auto simp: payable_def)
  from assms(3) obtain a where a: "address_of w uid aid = Some a" by (auto simp: quotable_def)
  have n: "order_of_payment w1 (pd_paymentId d) = None" using assms(11) w1(4) order_of_payment_orders by metis
  have "\<forall>o1 \<in> set (trows (orders w)). o_razorpayPaymentId o1 \<noteq> Some (pd_paymentId d)"
    using assms(11) by (auto simp: order_of_payment_def tfirst_None)
  then have c: "unclaimed w1 (paid_options d p)"
    using assms(13) w1(4) by (auto simp: unclaimed_def paid_options_def)
  have k1: "keyed w1" using assms(1) op(3) by (auto simp: opened_def keyed_def)
  have "wp (verifyAndCheckout rz cfg api2 uuid uid d) (\<lambda>r w2. \<exists>k. r = Inr k) w1"
    using a assms(4,5) w1 s n c k1 by (intro verify_ok[where aid = aid and a = a and p = p] assms) (simp_all add: address_of_def assms)
  with wp_verifyAndCheckout[OF k1 assms(10)] have "wp (verifyAndCheckout rz cfg api2 uuid uid d)
      (\<lambda>r w2. verify_post w1 rz uid d r w2 \<and> (\<exists>k. r = Inr k)) w1" by (simp add: wp_conj)
  then show "(\<exists>op. r = Inr op \<and> op_razorpayOrderId op = pd_orderId d) \<and>
       wp (verifyAndCheckout rz cfg api2 uuid uid d)
         (\<lambda>r w2. \<exists>k. r = Inr k \<and> kr_status k = PAID \<and>
            map_option o_id (order_of_payment w2 (pd_paymentId d)) = Some (kr_orderId k)) w1"
    using op(1,2) n by (auto simp: verify_post_def elim!: wp_mono)
qed

theorem ready_cart_is_ordered_witness:
  "wp (createRazorpayOrder sample_rz sample_api ''u1'' ''a1'')
    (\<lambda>r w1. (\<exists>op. r = Inr op \<and> op_razorpayOrderId op = ''g1'') \<and>
       wp (verifyAndCheckout sample_rz sample_config sample_api sample_uuid ''u1'' sample_payment)
         (\<lambda>r w2. \<exists>k. r = Inr k \<and> kr_status k = PAID \<and>
            map_option o_id (order_of_payment w2 (pd_paymentId sample_payment)) = Some (kr_orderId k)) w1) sample"
proof -
  have i: "pd_paymentId sample_payment \<noteq> []" "pd_orderId sample_payment = ''g1''" by (simp_all add: sample_payment_def)
  show ?thesis
    using ready_cart_is_ordered[OF keyed_sample ready_sample quotable_sample _ _ sample_gateway(1) sample_amount
        sample_gateway(2) signed_sample i(1) sample_unpaid]
    by (simp add: trim_def is_space_def i)
qed

section \<open>Orders and stock\<close>

text \<open>
  C4: An order takes what it lists. \<open>createOrder\<close> either refuses and changes nothing, or stores a
  pending order of the caller whose rows are the lines at their current prices and whose total is the
  sum of its rows, and lowers every stock by exactly the quantities the lines ask of it.
\<close>

theorem order_takes_demand:
  assumes "keyed w"
  shows "case createOrder uuid dto uid w of
      (Inl e, w') \<Rightarrow> w' = w
    | (Inr o1, w') \<Rightarrow> tget (orders w') (uuid 0) = Some o1 \<and> o_status o1 = PENDING \<and>
        o_totalAmount o1 = rows_total (o_items o1) \<and> list_all2 (row_of w) (co_items dto) (o_items o1) \<and>
        (\<exists>b. buyer_of_user w uid = Some b \<and> o_buyerId o1 = Some (b_id b)) \<and>
        (\<forall>c. stock_avail (products w') c =
               map_option (\<lambda>n. n - demand w (co_items dto) c) (stock_avail (products w) c))"
proof (rule runI)
  fix e w' assume "createOrder uuid dto uid w = (Inl e, w')"
  then show "w' = w" by (auto simp: createOrder_run split: sum.splits prod.splits)
next
  fix o1 w' assume "createOrder uuid dto uid w = (Inr o1, w')"
  then obtain t where plan: "order_plan uuid dto uid w = Inr (o1, t)" and w': "w' = put_order o1 (w\<lparr>products := t\<rparr>)"
    by (auto simp: createOrder_run split: sum.splits prod.splits)
  show "tget (orders w') (uuid 0) = Some o1 \<and> o_status o1 = PENDING \<and>
        o_totalAmount o1 = rows_total (o_items o1) \<and> list_all2 (row_of w) (co_items dto) (o_items o1) \<and>
        (\<exists>b. buyer_of_user w uid = Some b \<and> o_buyerId o1 = Some (b_id b)) \<and>
        (\<forall>c. stock_avail (products w') c =
               map_option (\<lambda>n. n - demand w (co_items dto) c) (stock_avail (products w) c))"
    using order_planD[OF plan assms] order_plan_stock[OF plan assms] by (simp add: w')
qed

theorem order_takes_demand_witness:
  "\<exists>o1 w'. createOrder sample_uuid sample_dto ''u1'' sample = (Inr o1, w') \<and>
     stock_avail (products w') (''p1'', None) =
       map_option (\<lambda>n. n - demand sample (co_items sample_dto) (''p1'', None)) (stock_avail (products sample) (''p1'', None))"
proof -
  from sample_created obtain o1 w' where r: "createOrder sample_uuid sample_dto ''u1'' sample = (Inr o1, w')"
    by (rule run_ok)
  with order_takes_demand[OF keyed_sample, of sample_uuid sample_dto "''u1''"] show ?thesis by auto
qed

text \<open>
  C15: An order whose lines name different stocks cannot oversell. When the lines passed the checks and
  no two of them draw on the same product or variant, the order is stored, and no stock that was not
  negative becomes negative. (Lines that share a stock are checked one by one, and can.)
\<close>

theorem distinct_order_granted:
  assumes "keyed w" "buyer_of_user w uid = Some b" "truthy (co_streamId dto)"
    and "validateOrderItems w (the (co_streamId dto)) (co_items dto) = Inr ()"
    and "distinct (map (line_cell w) (co_items dto))"
  shows "wp (createOrder uuid dto uid) (\<lambda>r w'. (\<exists>o1. r = Inr o1) \<and>
     (\<forall>c n. stock_avail (products w) c = Some n \<and> 0 \<le> n \<longrightarrow>
        (\<exists>m. stock_avail (products w') c = Some m \<and> 0 \<le> m))) w"
proof -
  from order_plan_granted[OF assms] obtain o1 t where plan: "order_plan uuid dto uid w = Inr (o1, t)" by blast
  have "demand w (co_items dto) c \<le> n" if c: "stock_avail (products w) c = Some n" "0 \<le> n" for c n
    using order_plan_demand[OF plan assms(1,5) c] .
  then show ?thesis using order_plan_stock[OF plan assms(1)] by (auto simp: wp_createOrder plan)
qed

theorem distinct_order_granted_witness:
  "wp (createOrder sample_uuid sample_dto ''u1'') (\<lambda>r w'. (\<exists>o1. r = Inr o1) \<and>
     (\<exists>m. stock_avail (products w') (''p1'', None) = Some m \<and> 0 \<le> m)) sample"
proof -
  have b: "buyer_of_user sample ''u1'' = Some \<lparr>b_id = ''b1'', b_userId = ''u1'', b_createdAt = 0\<rparr>" by code_simp
  have v: "validateOrderItems sample (the (co_streamId sample_dto)) (co_items sample_dto) = Inr ()" by code_simp
  have t: "truthy (co_streamId sample_dto)" by (simp add: sample_dto_def)
  have n: "stock_avail (products sample) (''p1'', None) = Some 10" by code_simp
  have d: "distinct (map (line_cell sample) (co_items sample_dto))" by (simp add: sample_line_cells)
  from distinct_order_granted[OF keyed_sample b t v d, of sample_uuid] show ?thesis
    by (rule wp_mono) (use n in auto)
qed

text \<open>
  C14: A cancelled order gives its stock back. When an order was created, its buyer can cancel it at
  once, and then every stock is what it was before the order.
\<close>

theorem cancel_restores_stock:
  assumes "keyed w" "createOrder uuid dto uid w = (Inr o1, w1)" "\<forall>l \<in> set (co_items dto). 0 \<le> ol_quantity l"
  shows "wp (cancelOrder (o_id o1) uid) (\<lambda>r w2. (\<exists>o2. r = Inr o2 \<and> o_status o2 = CANCELLED) \<and>
           tget (orders w2) (o_id o1) = Some (o1\<lparr>o_status := CANCELLED\<rparr>) \<and>
           (\<forall>c. stock_avail (products w2) c = stock_avail (products w) c)) w1"
proof -
  from assms(2) obtain t where plan: "order_plan uuid dto uid w = Inr (o1, t)" and w1: "w1 = put_order o1 (w\<lparr>products := t\<rparr>)"
    by (auto simp: createOrder_run split: sum.splits prod.splits)
  note o1 = order_planD[OF plan assms(1)]
  from order_plan_return[OF plan assms(1,3)] obtain t2 where
    t2: "shift_all shift_table (moves 1 (o_items o1)) t = Inr t2" "stock_avail t2 = stock_avail (products w)" by blast
  from o1 obtain b where b: "buyer_of_user w uid = Some b" "o_buyerId o1 = Some (b_id b)" by blast
  have "buyer_of_user w1 uid = Some b" "tget (orders w1) (o_id o1) = Some o1" "products w1 = t"
    using b by (simp_all add: w1 buyer_of_user_def) (simp add: put_order_def)
  then show ?thesis
    using b o1 t2 by (simp add: wp_cancelOrder) (simp add: upd_order_def)
qed

theorem cancel_restores_stock_witness:
  "\<exists>o1 w1. createOrder sample_uuid sample_dto ''u1'' sample = (Inr o1, w1) \<and>
     wp (cancelOrder (o_id o1) ''u1'') (\<lambda>r w2. \<forall>c. stock_avail (products w2) c = stock_avail (products sample) c) w1"
proof -
  from sample_created obtain o1 w1 where r: "createOrder sample_uuid sample_dto ''u1'' sample = (Inr o1, w1)"
    by (rule run_ok)
  have "\<forall>l \<in> set (co_items sample_dto). 0 \<le> ol_quantity l" by (simp add: sample_dto_def)
  from cancel_restores_stock[OF keyed_sample r this] r show ?thesis by (auto simp: wp_conj)
qed

text \<open>
  C3: A checkout sells the cart or leaves the database alone. It ends in an order for exactly the
  lines and the subtotal of the cart plus the fee told to the caller, with stock lowered by the demand
  and the cart emptied; or in an error with nothing but the cart's own cache touched; or, when the
  payment's ids are already on another order, in an unpaid order left behind.
\<close>

theorem checkout_outcome:
  assumes "keyed w"
  shows "case checkoutFromCart cfg api uuid uid dto opts w of
      (Inl e, w') \<Rightarrow> same_db w w' \<or> e = Crash ''P2002'' \<and> left_behind w w'
    | (Inr k, w') \<Rightarrow> \<exists>o1. o_id o1 = uuid 0 \<and> placed w uid opts k w' o1"
  by (rule runI; drule wpD[OF wp_checkoutFromCart[OF assms]]) (simp_all add: checkout_post_def)

theorem checkout_outcome_witness:
  "keyed sample \<and>
   (case checkoutFromCart sample_config sample_api sample_uuid ''u1''
       \<lparr>kd_addressId = Some ''a1'', kd_shippingAddress = None, kd_paymentMethod = None\<rparr> no_options sample of
      (Inl e, w') \<Rightarrow> same_db sample w' \<or> e = Crash ''P2002'' \<and> left_behind sample w'
    | (Inr k, w') \<Rightarrow> \<exists>o1. o_id o1 = sample_uuid 0 \<and> placed sample ''u1'' no_options k w' o1)"
  by (rule conjI[OF keyed_sample checkout_outcome[OF keyed_sample]])

text \<open>
  C24: An unsigned payment changes nothing. Without the gateway's signature under the server's secret,
  neither the verification of a checkout nor that of a replacement's balance succeeds or writes.
\<close>

theorem unsigned_changes_nothing:
  assumes "\<not> signed rz d"
  shows "(\<exists>e. verifyAndCheckout rz cfg api uuid uid d w = (Inl e, w)) \<and>
         (\<exists>e. verifyReplacementBalancePayment rz uid rid d w = (Inl e, w))"
proof -
  have "wp (verifyAndCheckout rz cfg api uuid uid d) (\<lambda>r w'. isl r \<and> w' = w) w"
      "wp (verifyReplacementBalancePayment rz uid rid d) (\<lambda>r w'. isl r \<and> w' = w) w"
    unfolding verifyAndCheckout_def verifyReplacementBalancePayment_def wp_seq wp_require_gateway on_ok_simps
    using assms by (auto simp: intro!: wp_verifySignature)
  then show ?thesis by (auto simp: wp_def isl_def split: prod.splits)
qed

theorem unsigned_changes_nothing_witness:
  "\<not> signed sample_rz (sample_payment\<lparr>pd_signature := ''x''\<rparr>) \<and>
   (\<exists>e. verifyAndCheckout sample_rz sample_config sample_api sample_uuid ''u1''
          (sample_payment\<lparr>pd_signature := ''x''\<rparr>) sample = (Inl e, sample))"
proof -
  have u: "\<not> signed sample_rz (sample_payment\<lparr>pd_signature := ''x''\<rparr>)"
    by (simp add: signed_def sample_rz_def sample_payment_def trim_def is_space_def opt_trim_def)
  with unsigned_changes_nothing[OF u] show ?thesis by blast
qed

end
