(* ===== verification/OrderProperties.thy ===== *)
theory OrderProperties
  imports Sample
begin

text \<open>
  The properties of an order's life: which statuses an operation may move it between and for whom,
  what the rows record in each status, and what the lists, counts and timelines show of them.
\<close>

section \<open>Sequences of operations\<close>

text \<open>Requests arrive one after the other; one that is refused does not stop the next.\<close>

definition run_order_ops :: "config \<Rightarrow> shipping_api \<Rightarrow> order_op list \<Rightarrow> world \<Rightarrow> world" where
  "run_order_ops cfg api ops w = fold (\<lambda>op w. snd (run_order_op cfg api op w)) ops w"

lemma run_order_ops_induct:
  assumes "P w" "\<And>op w. op \<in> set ops \<Longrightarrow> P w \<Longrightarrow> wp (run_order_op cfg api op) (\<lambda>_. P) w"
  shows "P (run_order_ops cfg api ops w)"
  unfolding run_order_ops_def using assms
proof (induction ops arbitrary: w)
  case (Cons op ops)
  have "P (snd (run_order_op cfg api op w))"
    using Cons.prems(2)[of op w] Cons.prems(1) by (simp add: wp_def split: prod.splits)
  from Cons.IH[OF this] Cons.prems(2) show ?case by simp
qed simp

definition is_poll :: "order_op \<Rightarrow> bool" where
  "is_poll op = (case op of Poll _ _ \<Rightarrow> True | _ \<Rightarrow> False)"

lemma edge_up: "order_edge op s t \<Longrightarrow> \<not> is_poll op \<Longrightarrow> s < t"
  by (cases op) (auto simp: is_poll_def less_order_status_def)

lemma status_kept:
  assumes "\<not> is_poll op" "\<exists>s'. status_at w oid = Some s' \<and> s \<le> s'"
  shows "wp (run_order_op cfg api op) (\<lambda>_ w'. \<exists>s'. status_at w' oid = Some s' \<and> s \<le> s') w"
  using run_order_op_moves[of cfg api op w]
proof (rule wp_mono)
  fix r :: "exn + unit" and w' assume m: "moved_by op w w'"
  from assms(2) obtain s1 where s1: "status_at w oid = Some s1" "s \<le> s1" by blast
  from m have "status_at w' oid = status_at w oid \<or>
      (\<exists>a b. status_at w oid = Some a \<and> status_at w' oid = Some b \<and> order_edge op a b)"
    unfolding moved_by_def by blast
  then show "\<exists>s'. status_at w' oid = Some s' \<and> s \<le> s'"
    using s1 edge_up[OF _ assms(1)] by (metis less_imp_le option.inject order_trans)
qed

section \<open>The status of an order\<close>

text \<open>
  C21: Orders follow their state machine. Whatever the request and its outcome, every order keeps its
  status, except that the order the request names may move along an edge that the operation has:
  accept pays a pending order, pack and book advance a paid and a packed one, and so on.
\<close>

theorem order_edges_followed:
  "wp (run_order_op cfg api op)
     (\<lambda>_ w'. \<forall>oid. status_at w' oid = status_at w oid \<or>
        oid = target op \<and>
        (\<exists>s s'. status_at w oid = Some s \<and> status_at w' oid = Some s' \<and> order_edge op s s')) w"
  using run_order_op_moves[of cfg api op w] by (rule wp_mono) (simp add: moved_by_def)

text \<open>
  C22: Only the parties of an order can change it. A request on an order that fails changes nothing at
  all, and one that succeeds was made by the buyer of the order when it cancels or returns it, and
  otherwise by a seller one of whose products is on it.
\<close>

theorem order_ops_authorised:
  "case run_order_op cfg api op w of
     (Inl e, w') \<Rightarrow> w' = w
   | (Inr x, w') \<Rightarrow> (case tget (orders w) (target op) of None \<Rightarrow> False
       | Some o1 \<Rightarrow> if by_buyer op then \<exists>b. buyer_of_user w (actor op) = Some b \<and> o_buyerId o1 = Some (b_id b)
                    else \<exists>s1. seller_of_user w (actor op) = Some s1 \<and> order_has_seller w o1 (s_id s1))"
  by (rule runI; drule wpD[OF run_order_op_authorised])
     (auto simp: authorised_def split: option.splits if_splits)

text \<open>
  C13: The rows keep what their status promises. From rows that are right, any sequence of requests,
  refused ones included, leads to rows that are right: a packed order has its video and its instant, a
  shipped one a tracking id and its instant, a delivered or returned one the instant of delivery.
\<close>

theorem orders_stay_ok:
  assumes "\<And>oid o1. tget (orders w) oid = Some o1 \<Longrightarrow> order_ok o1"
    and "tget (orders (run_order_ops cfg api ops w)) oid = Some o1"
  shows "case o_status o1 of
      PACKED \<Rightarrow> o_packingVideoUrl o1 \<noteq> None \<and> o_packedAt o1 \<noteq> None
    | SHIPPED \<Rightarrow> o_trackingId o1 \<noteq> None \<and> o_shippedAt o1 \<noteq> None
    | DELIVERED \<Rightarrow> o_deliveredAt o1 \<noteq> None
    | RETURNED \<Rightarrow> o_deliveredAt o1 \<noteq> None
    | _ \<Rightarrow> True"
proof -
  have "orders_ok w" using assms(1) by (simp add: orders_ok_def)
  then have "orders_ok (run_order_ops cfg api ops w)"
    by (rule run_order_ops_induct) (rule keeps_wp[OF run_order_op_ok])
  then show ?thesis using assms(2) by (simp add: orders_ok_def order_ok_def)
qed

definition sample_ops :: "order_op list" where
  "sample_ops = [Cancel ''o1'' ''u1'', Accept ''o1'' ''u2'', Return ''o2'' ''u1'']"

lemma sample_ops_run:
  "map_option o_status (tget (orders (run_order_ops sample_config sample_api sample_ops sample)) ''o1'') = Some CANCELLED"
  "map_option o_status (tget (orders (run_order_ops sample_config sample_api sample_ops sample)) ''o2'') = Some RETURNED"
  by code_simp+

theorem orders_stay_ok_witness:
  "\<exists>o1. tget (orders (run_order_ops sample_config sample_api sample_ops sample)) ''o2'' = Some o1 \<and>
     o_status o1 = RETURNED \<and> o_deliveredAt o1 \<noteq> None"
proof -
  from sample_ops_run(2) obtain o1 where o1:
    "tget (orders (run_order_ops sample_config sample_api sample_ops sample)) ''o2'' = Some o1" "o_status o1 = RETURNED"
    by auto
  have ok: "order_ok o1" if "tget (orders sample) oid = Some o1" for oid o1
    using orders_ok_sample that by (simp add: orders_ok_def)
  from orders_stay_ok[OF ok o1(1)] o1 show ?thesis by auto
qed

text \<open>
  An order never goes back. Under any sequence of requests other than polls of the carrier, the
  status of an order never falls in the order pending, paid, packed, shipped, delivered, cancelled,
  returned. (A poll can mark a cancelled order as delivered.)
\<close>

theorem status_never_falls:
  assumes "status_at w oid = Some s" "\<forall>op \<in> set ops. \<not> is_poll op"
  shows "\<exists>s'. status_at (run_order_ops cfg api ops w) oid = Some s' \<and> s \<le> s'"
  by (rule run_order_ops_induct) (use assms in \<open>auto intro!: status_kept\<close>)

theorem status_never_falls_witness:
  "\<exists>s'. status_at (run_order_ops sample_config sample_api sample_ops sample) ''o1'' = Some s' \<and> PAID \<le> s'"
proof (rule status_never_falls)
  show "status_at sample ''o1'' = Some PAID" by code_simp
  show "\<forall>op \<in> set sample_ops. \<not> is_poll op" by (simp add: sample_ops_def is_poll_def)
qed

section \<open>What is shown of the orders\<close>

text \<open>
  The timeline of an order marks its first open step. The scan that builds the seller's timeline
  agrees with the reference by index: a step that is done is shown as done, the first one that is not
  as active, and all later open ones as upcoming; so at most one step is active, and one is unless
  all are done.
\<close>

theorem seller_timeline_reference:
  "buildSellerOrderTimeline o1 =
     map (\<lambda>(i, s1). shown s1 (if tl_done s1 then Done
             else if i = length (takeWhile tl_done (seller_steps o1)) then Active else Upcoming))
       (enumerate 0 (seller_steps o1)) \<and>
   length (filter (\<lambda>t. ts_state t = Active) (buildSellerOrderTimeline o1)) =
     (if list_all tl_done (seller_steps o1) then 0 else 1)"
  using mark_from[of "length (takeWhile tl_done (seller_steps o1))" 0 "seller_steps o1"]
    mark_scan_active[of False "seller_steps o1"]
  by (simp add: buildSellerOrderTimeline_def)

text \<open>
  C35: The counts on the seller's tabs are the sizes of the lists behind them. For every seller and
  day, the number shown for all, new, packed, in transit and delivered orders is the total that the
  list of that tab reports on any page.
\<close>

theorem tab_counts_match_lists:
  assumes "seller_of_user w uid = Some s1"
  shows "\<exists>c. getSellerOrderCounts uid date w = (Inr c, w) \<and>
     (\<forall>(st, n) \<in> set [(None, oc_all c), (Some ''PAID'', oc_new c), (Some ''PACKED'', oc_packed c),
                      (Some ''SHIPPED'', oc_inTransit c), (Some ''DELIVERED'', oc_delivered c)].
        \<exists>pg. findSellerOrders uid page limit st date w = (Inr pg, w) \<and> pg_total pg = n) \<and>
     oc_new c + oc_packed c + oc_inTransit c + oc_delivered c \<le> oc_all c"
proof -
  define n where "n P = length (seller_orders w s1 date P)" for P
  let ?c = "\<lparr>oc_all = n (\<lambda>_. True), oc_new = n (\<lambda>st. st = PAID), oc_packed = n (\<lambda>st. st = PACKED),
           oc_inTransit = n (\<lambda>st. st = SHIPPED), oc_delivered = n (\<lambda>st. st = DELIVERED)\<rparr>"
  have counts: "getSellerOrderCounts uid date w = (Inr ?c, w)"
    by (rule wp_equation) (simp add: getSellerOrderCounts_def wp_simps assms n_def Let_def)
  have l: "\<exists>pg. findSellerOrders uid page limit st date w = (Inr pg, w) \<and> pg_total pg = n P"
    if "status_clause st = Inr P" for st P
  proof -
    have "findSellerOrders uid page limit st date w = (Inr (paginate page limit (mapSellerOrder w)
        (newest_first o_createdAt (seller_orders w s1 date P))), w)"
      by (rule wp_equation) (simp add: wp_findSellerOrders assms that)
    then show ?thesis by (simp add: n_def)
  qed
  have "status_clause None = Inr (\<lambda>_. True)" "status_clause (Some ''PAID'') = Inr (\<lambda>st. st = PAID)"
      "status_clause (Some ''PACKED'') = Inr (\<lambda>st. st = PACKED)"
      "status_clause (Some ''SHIPPED'') = Inr (\<lambda>st. st = SHIPPED)"
      "status_clause (Some ''DELIVERED'') = Inr (\<lambda>st. st = DELIVERED)"
    using status_clause_name[of PAID] status_clause_name[of PACKED] status_clause_name[of SHIPPED]
      status_clause_name[of DELIVERED]
    by (simp_all add: status_clause_def status_name_def)
  note lists = this[THEN l]
  have "oc_new ?c + oc_packed ?c + oc_inTransit ?c + oc_delivered ?c \<le> oc_all ?c"
    by (simp add: n_def seller_orders_def tabs_within)
  then show ?thesis using lists counts by (intro exI[of _ ?c] conjI) simp_all
qed

theorem tab_counts_match_lists_witness:
  "\<exists>c. getSellerOrderCounts ''u2'' None sample = (Inr c, sample) \<and>
     (\<exists>pg. findSellerOrders ''u2'' 1 20 None None sample = (Inr pg, sample) \<and> pg_total pg = oc_all c)"
proof -
  have "seller_of_user sample ''u2'' \<noteq> None" by code_simp
  then obtain s1 where s1: "seller_of_user sample ''u2'' = Some s1" by blast
  from tab_counts_match_lists[OF s1, where date = None and page = 1 and limit = 20] show ?thesis by auto
qed

text \<open>
  Pages cut a list without loss. Read page by page, up to the number of pages the first answer
  gives, a list query returns every row once and in the order of the list; and a page says that there
  is a next one exactly when rows remain.
\<close>

theorem pages_partition:
  assumes "0 < limit"
  shows "concat (map (\<lambda>p. pg_data (paginate p limit view rows))
           [1..<Suc (pg_totalPages (paginate 1 limit view rows))]) = map view rows \<and>
         (\<forall>p \<ge> 1. pg_hasNext (paginate p limit view rows) \<longleftrightarrow> p * limit < length rows)"
proof -
  have "concat (map (\<lambda>p. pg_data (paginate p limit view rows)) ps) = map view (concat (map (\<lambda>p. slice p limit rows) ps))" for ps
    by (induction ps) (simp_all add: paginate_def Let_def)
  then show ?thesis using slices_all[OF assms, of rows] has_next[OF assms] by (simp add: paginate_def Let_def)
qed

theorem pages_partition_witness:
  "concat (map (\<lambda>p. pg_data (paginate p 2 o_id [sample_order, delivered_order, sample_order])) [1..<Suc 2]) =
     [''o1'', ''o2'', ''o1'']"
proof -
  have n: "pg_totalPages (paginate 1 2 o_id [sample_order, delivered_order, sample_order]) = 2" by code_simp
  have i: "map o_id [sample_order, delivered_order, sample_order] = [''o1'', ''o2'', ''o1'']" by code_simp
  show ?thesis
    using pages_partition[of 2 o_id "[sample_order, delivered_order, sample_order]"] unfolding n i by simp
qed

text \<open>
  Today is the Indian day around now. The range that the filter ''today'' resolves to contains the
  present instant, lasts 24 hours, and starts at midnight of Indian time.
\<close>

theorem today_range:
  assumes "0 \<le> now"
  shows "\<exists>lo hi. resolveSellerDateRange now (Some ''today'') = Some (lo, hi) \<and> lo \<le> now \<and> now < hi \<and>
           hi - lo = MS_PER_DAY \<and> (lo + IST_OFFSET) mod MS_PER_DAY = 0"
proof -
  define t where "t = (now + IST_OFFSET) div MS_PER_DAY"
  obtain y m d where c: "civil_of_day t = (y, m, d)" by (metis surj_pair)
  have t: "0 \<le> t" using assms by (simp add: t_def IST_OFFSET_def MS_PER_DAY_def MS_PER_HOUR_def)
  have "1970 \<le> y"
  proof (rule ccontr)
    assume "\<not> 1970 \<le> y"
    then have y: "y = 1969 \<or> y \<le> 1968" by linarith
    have "day_from_year (y + 1) \<le> 0"
    proof (cases "y = 1969")
      case False
      have "(y - 1968) div 4 * 4 \<le> y - 1968" "(y - 1600) div 400 * 400 \<le> y - 1600" "(y - 1900) div 100 * 100 > y - 2000"
        by presburger+
      then show ?thesis using y False by (simp add: day_from_year_def)
    qed (simp add: day_from_year_def)
    with year_of_day_bounds(2)[of t] civil_year[of t] t c show False by simp
  qed
  then have fy: "full_year y = y" by (simp add: full_year_def)
  have lo: "date_utc y (m - 1) d (- 5) (- 30) = t * MS_PER_DAY - IST_OFFSET"
    by (simp add: date_utc_def fy make_day_civil[OF c] IST_OFFSET_def)
  have hi: "date_utc y (m - 1) (d + 1) (- 5) (- 30) = (t + 1) * MS_PER_DAY - IST_OFFSET"
    by (simp add: date_utc_def fy make_day_next make_day_civil[OF c] IST_OFFSET_def)
  have "resolveSellerDateRange now (Some ''today'') =
      Some (t * MS_PER_DAY - IST_OFFSET, (t + 1) * MS_PER_DAY - IST_OFFSET)"
    using c by (simp add: resolveSellerDateRange_def ist_date_def t_def[symmetric] lo hi opt_trim_def trim_def is_space_def)
  moreover have "t * MS_PER_DAY \<le> now + IST_OFFSET \<and> now + IST_OFFSET < (t + 1) * MS_PER_DAY"
  proof -
    have "0 < MS_PER_DAY" by (simp add: MS_PER_DAY_def MS_PER_HOUR_def)
    note pos_mod_sign[OF this, of "now + IST_OFFSET"] pos_mod_bound[OF this, of "now + IST_OFFSET"]
    moreover have "t * MS_PER_DAY + (now + IST_OFFSET) mod MS_PER_DAY = now + IST_OFFSET" by (simp add: t_def)
    ultimately show ?thesis unfolding distrib_right mult_1 by linarith
  qed
  ultimately show ?thesis
    by (intro exI[of _ "t * MS_PER_DAY - IST_OFFSET"] exI[of _ "(t + 1) * MS_PER_DAY - IST_OFFSET"])
       (auto simp: distrib_right)
qed

theorem today_range_witness:
  "\<exists>lo hi. resolveSellerDateRange 1000000000 (Some ''today'') = Some (lo, hi) \<and> lo \<le> 1000000000 \<and> 1000000000 < hi"
  using today_range[of 1000000000] by auto

end
