(* ===== verification/CartProperties.thy ===== *)
theory CartProperties
  imports Sample
begin

text \<open>
  The properties of the live-stream cart, of the catalogue's variants and of the scores: what is read
  back, what every sequence of operations keeps, and when a cart dies.
\<close>

section \<open>The cart\<close>

datatype cart_op =
    Add string cart_dto
  | Update string string int "string option"
  | Remove string string "string option"
  | View string
  | StreamEnds string int

primrec run_cart_op :: "cart_op \<Rightarrow> unit handler" where
  "run_cart_op (Add uid d) = seq_act (addCartItem uid d) (ret ())"
| "run_cart_op (Update uid pid n v) = seq_act (updateCartItem uid pid n v) (ret ())"
| "run_cart_op (Remove uid pid v) = seq_act (removeCartItem uid pid v) (ret ())"
| "run_cart_op (View uid) = seq_act (getCart uid) (ret ())"
| "run_cart_op (StreamEnds sid e) = onStreamEnded sid e"

text \<open>Between two operations time passes: the clock never goes back.\<close>

definition run_cart_ops :: "(int \<times> cart_op) list \<Rightarrow> world \<Rightarrow> world" where
  "run_cart_ops ops w = fold (\<lambda>(dt, op) w. snd (run_cart_op op (w\<lparr>clock := clock w + max 0 dt\<rparr>))) ops w"

text \<open>What the DTO validators ask of a quantity.\<close>

definition op_valid :: "cart_op \<Rightarrow> bool" where
  "op_valid op = (case op of Add _ d \<Rightarrow> 1 \<le> ci_quantity (cd_item d) | Update _ _ n _ \<Rightarrow> 1 \<le> n | _ \<Rightarrow> True)"

text \<open>
  The index of a stream's carts is written without a time to live. With it and the two invariants of
  the carts, every operation and the passing of time keep the carts well formed and indexed.
\<close>

definition lasting :: "world \<Rightarrow> bool" where
  "lasting w \<longleftrightarrow> (\<forall>sid xs e. tget (rsets (cache w)) (streamCartHoldersKey sid) = Some (xs, e) \<longrightarrow> e = None)"

definition carts_good :: "world \<Rightarrow> bool" where
  "carts_good w \<longleftrightarrow> carts_ok w \<and> carts_indexed w \<and> lasting w"

lemma rsets_texts [simp]: "rsets (redis_set now k v ttl r) = rsets r" "rsets (redis_del k r) = tdel k (rsets r)"
  by (simp_all add: redis_set_def redis_del_def split: option.split)

lemma lasting_steps:
  assumes "lasting w"
  shows "lasting (index_w u s w)" "lasting (unindex_w u s w)" "lasting (clear_w u s w)" "lasting (save_w u st ttl w)"
    "lasting (enforce_w u st w)" "lasting (persist_w u st w)" "lasting (getCart_w u w)"
proof -
  have i: "lasting w \<Longrightarrow> lasting (index_w u s w)" for u s w
    by (auto simp: lasting_def index_w_def redis_sadd_def set_expiry_def Let_def split: option.splits)
  have n: "lasting w \<Longrightarrow> lasting (unindex_w u s w)" for u s w
    by (auto simp: lasting_def unindex_w_def redis_srem_def set_expiry_def Let_def split: option.splits if_splits)
  have c: "lasting w \<Longrightarrow> lasting (clear_w u s w)" for u s w
    unfolding clear_w_def by (rule n) (auto simp: lasting_def)
  have s: "lasting w \<Longrightarrow> lasting (save_w u st ttl w)" for u st ttl w
    by (auto simp: save_w_def intro!: c i) (auto simp: lasting_def)
  have e: "lasting w \<Longrightarrow> lasting (enforce_w u st w)" for u st w
    by (auto simp: enforce_w_def intro!: c i s)
  show "lasting (index_w u s w)" "lasting (unindex_w u s w)" "lasting (clear_w u s w)" "lasting (save_w u st ttl w)"
    "lasting (enforce_w u st w)" "lasting (persist_w u st w)" "lasting (getCart_w u w)"
    using assms by (auto simp: persist_w_def getCart_w_def Let_def intro!: i n c s e)
qed

lemma lasting_stream_end: "lasting w \<Longrightarrow> lasting (stream_end_w sid e w)"
proof -
  have "lasting w \<Longrightarrow> lasting (fold (refresh_w sid ex ttl) us w)" for ex ttl us
    by (induction us arbitrary: w) (simp_all add: refresh_w_def Let_def lasting_steps)
  then show "lasting w \<Longrightarrow> lasting (stream_end_w sid e w)" by (simp add: stream_end_w_def)
qed

lemma carts_ok_stream_end: "carts_ok w \<Longrightarrow> carts_ok (stream_end_w sid e w)"
proof -
  have r: "carts_ok (refresh_w sid ex ttl u w)" if "carts_ok w" for ex ttl u w
  proof -
    have "cart_lines_ok (stored_cart w u)" using that by (simp add: carts_ok_def)
    then have "cart_lines_ok ((stored_cart w u)\<lparr>cs_expiresAt := Some ex, cs_updatedAt := Some (clock w)\<rparr>)"
      by (simp add: cart_lines_ok_def)
    then show ?thesis using carts_ok_save[OF that] that by (simp add: refresh_w_def Let_def) (simp add: carts_ok_def)
  qed
  have "carts_ok w \<Longrightarrow> carts_ok (fold (refresh_w sid ex ttl) us w)" for ex ttl us
    by (induction us arbitrary: w) (simp_all add: r)
  then show "carts_ok w \<Longrightarrow> carts_ok (stream_end_w sid e w)" by (simp add: stream_end_w_def)
qed

lemma good_lines: "carts_good w \<Longrightarrow> cart_lines_ok (stored_cart w u)"
  by (simp add: carts_good_def carts_ok_def)

lemma good_steps:
  assumes "carts_good w"
  shows "cart_lines_ok st \<Longrightarrow> carts_good (enforce_w u st w)" "cart_lines_ok st \<Longrightarrow> carts_good (persist_w u st w)"
    "carts_good (getCart_w u w)" "carts_good (stream_end_w sid e w)"
  using assms
  by (simp_all add: carts_good_def carts_ok_enforce carts_indexed_enforce lasting_steps carts_ok_persist
      carts_indexed_persist carts_ok_getCart carts_indexed_getCart carts_ok_stream_end carts_indexed_stream_end
      lasting_stream_end)

lemma good_wait:
  assumes "carts_good w" "0 \<le> dt"
  shows "carts_good (w\<lparr>clock := clock w + dt\<rparr>)"
proof -
  let ?w = "w\<lparr>clock := clock w + dt\<rparr>"
  have "live (clock w + dt) x \<Longrightarrow> live (clock w) x" for x using assms(2) by (cases x) (auto simp: live_def)
  then have st: "stored_cart ?w u = stored_cart w u \<or> stored_cart ?w u = empty_cart" for u
    by (auto simp: stored_cart_def redis_get_def split: option.splits)
  have h: "holders ?w sid = holders w sid" for sid
  proof (cases "tget (rsets (cache w)) (streamCartHoldersKey sid)")
    case (Some x)
    then obtain a where "tget (rsets (cache w)) (streamCartHoldersKey sid) = Some (a, None)"
      using assms(1) by (cases x) (auto simp: carts_good_def lasting_def)
    then show ?thesis by (simp add: holders_def redis_smembers_def live_def)
  qed (simp add: holders_def redis_smembers_def)
  show ?thesis
    unfolding carts_good_def
  proof (intro conjI)
    have "cart_lines_ok (stored_cart ?w u)" for u using st[of u] good_lines[OF assms(1), of u] by auto
    then show "carts_ok ?w" by (simp add: carts_ok_def)
    have "cart_indexed ?w u" for u
      using st[of u] assms(1) by (auto simp: carts_good_def carts_indexed_def cart_indexed_def h)
    then show "carts_indexed ?w" by (simp add: carts_indexed_def)
    show "lasting ?w" using assms(1) by (simp add: carts_good_def lasting_def)
  qed
qed

lemma good_lines_edits:
  assumes "cart_lines_ok st"
  shows "1 \<le> ci_quantity d \<Longrightarrow> cs_items st' = put_line d (cs_items st) \<Longrightarrow> cart_lines_ok st'"
    "1 \<le> n \<Longrightarrow> cs_items st' = replace_line k (\<lambda>i. i\<lparr>ci_quantity := n\<rparr>) (cs_items st) \<Longrightarrow> cart_lines_ok st'"
    "cs_items st' = filter P (cs_items st) \<Longrightarrow> cart_lines_ok st'"
proof -
  show "1 \<le> ci_quantity d \<Longrightarrow> cs_items st' = put_line d (cs_items st) \<Longrightarrow> cart_lines_ok st'"
    using put_line_ok[of "cs_items st" d] assms by (simp add: cart_lines_ok_def)
  have "line_key (i\<lparr>ci_quantity := n\<rparr>) = line_key i" for i by (simp add: line_key_def)
  then show "1 \<le> n \<Longrightarrow> cs_items st' = replace_line k (\<lambda>i. i\<lparr>ci_quantity := n\<rparr>) (cs_items st) \<Longrightarrow> cart_lines_ok st'"
    using assms set_replace_line[of k "\<lambda>i. i\<lparr>ci_quantity := n\<rparr>" "cs_items st"] by (auto simp: cart_lines_ok_def)
  show "cs_items st' = filter P (cs_items st) \<Longrightarrow> cart_lines_ok st'"
    using assms by (auto simp: cart_lines_ok_def distinct_map_filter)
qed

lemma good_edit:
  assumes "carts_good w"
  shows "1 \<le> ci_quantity d \<Longrightarrow> cs_items st = put_line d (cs_items (enforced w (stored_cart w u))) \<Longrightarrow>
      carts_good (getCart_w u (persist_w u st (enforce_w u (stored_cart w u) w)))"
    "1 \<le> n \<Longrightarrow> cs_items st = replace_line k (\<lambda>i. i\<lparr>ci_quantity := n\<rparr>) (cs_items (enforced w (stored_cart w u))) \<Longrightarrow>
      carts_good (getCart_w u (persist_w u st (enforce_w u (stored_cart w u) w)))"
    "cs_items st = filter P (cs_items (enforced w (stored_cart w u))) \<Longrightarrow>
      carts_good (getCart_w u (persist_w u st (enforce_w u (stored_cart w u) w)))"
proof -
  note ok = cart_lines_ok_enforced[OF good_lines[OF assms, of u], of w]
  have "carts_good (getCart_w u (persist_w u st (enforce_w u (stored_cart w u) w)))" if "cart_lines_ok st"
    by (intro good_steps assms that good_lines)
  with good_lines_edits[OF ok] show
    "1 \<le> ci_quantity d \<Longrightarrow> cs_items st = put_line d (cs_items (enforced w (stored_cart w u))) \<Longrightarrow>
      carts_good (getCart_w u (persist_w u st (enforce_w u (stored_cart w u) w)))"
    "1 \<le> n \<Longrightarrow> cs_items st = replace_line k (\<lambda>i. i\<lparr>ci_quantity := n\<rparr>) (cs_items (enforced w (stored_cart w u))) \<Longrightarrow>
      carts_good (getCart_w u (persist_w u st (enforce_w u (stored_cart w u) w)))"
    "cs_items st = filter P (cs_items (enforced w (stored_cart w u))) \<Longrightarrow>
      carts_good (getCart_w u (persist_w u st (enforce_w u (stored_cart w u) w)))"
    by blast+
qed

lemma run_cart_op_good: "op_valid op \<Longrightarrow> keeps carts_good (run_cart_op op)"
proof (cases op)
  case (Add uid d)
  assume "op_valid op"
  then show ?thesis
    by (auto simp: Add addCartItem_def wp_simps op_valid_def on_ok_def intro!: keepsI good_edit(1)[where d = "cd_item d"]
        good_steps(1) good_lines split: option.split sum.split)
next
  case (Update uid pid n v)
  assume "op_valid op"
  then show ?thesis
    by (auto simp: Update updateCartItem_def wp_simps Let_def op_valid_def intro!: keepsI good_edit(2)[where n = n]
        good_steps(1) good_lines)
next
  case (Remove uid pid v)
  then show ?thesis
    by (auto simp: removeCartItem_def wp_simps Let_def intro!: keepsI
        good_edit(3)[where P = "\<lambda>i. line_key i \<noteq> (pid, variant_key v)"])
next
  case (View uid)
  then show ?thesis by (auto simp: wp_simps intro!: keepsI good_steps)
next
  case (StreamEnds sid e)
  then show ?thesis by (auto simp: wp_simps intro!: keepsI good_steps)
qed

lemma run_cart_ops_induct:
  assumes "P w" "\<And>dt op w. (dt, op) \<in> set ops \<Longrightarrow> P w \<Longrightarrow>
      wp (run_cart_op op) (\<lambda>_. P) (w\<lparr>clock := clock w + max 0 dt\<rparr>)"
  shows "P (run_cart_ops ops w)"
  unfolding run_cart_ops_def using assms
proof (induction ops arbitrary: w)
  case (Cons x ops)
  obtain dt op where x: "x = (dt, op)" by (cases x)
  have "P (snd (run_cart_op op (w\<lparr>clock := clock w + max 0 dt\<rparr>)))"
    using Cons.prems(2)[of dt op w] Cons.prems(1) by (simp add: wp_def x split: prod.splits)
  from Cons.IH[OF this] Cons.prems(2) show ?case by (simp add: x)
qed simp

text \<open>
  C18: Carts stay well formed and findable. However buyers add, change, remove and look, streams end
  and time passes between the requests, no cart ever holds two lines of the same product and variant
  or a quantity below one, and every cart with a stream is in the index of that stream's carts, from
  which the end of the stream finds it.
\<close>

theorem carts_stay_good:
  assumes "carts_ok w" "carts_indexed w" "lasting w" "\<forall>(dt, op) \<in> set ops. op_valid op"
  shows "distinct (map line_key (cs_items (stored_cart (run_cart_ops ops w) uid))) \<and>
     (\<forall>i \<in> set (cs_items (stored_cart (run_cart_ops ops w) uid)). 1 \<le> ci_quantity i) \<and>
     (cs_items (stored_cart (run_cart_ops ops w) uid) \<noteq> [] \<and>
        truthy (cs_streamId (stored_cart (run_cart_ops ops w) uid)) \<longrightarrow>
      uid \<in> holders (run_cart_ops ops w) (the (cs_streamId (stored_cart (run_cart_ops ops w) uid))))"
proof -
  have "carts_good w" using assms by (simp add: carts_good_def)
  then have "carts_good (run_cart_ops ops w)"
    by (rule run_cart_ops_induct)
       (use assms(4) in \<open>auto intro!: keeps_wp[OF run_cart_op_good] good_wait\<close>)
  then show ?thesis
    using good_lines[of "run_cart_ops ops w" uid]
    by (auto simp: carts_good_def carts_indexed_def cart_indexed_def cart_lines_ok_def)
qed

theorem carts_stay_good_witness:
  "distinct (map line_key (cs_items (stored_cart (run_cart_ops
      [(5, Add ''u1'' \<lparr>cd_item = cart_shirt, cd_streamId = Some ''t1'', cd_streamTitle = None\<rparr>), (9, StreamEnds ''t1'' 1000000000)]
      sample) ''u1'')))"
proof -
  let ?ops = "[(5, Add ''u1'' \<lparr>cd_item = cart_shirt, cd_streamId = Some ''t1'', cd_streamTitle = None\<rparr>),
    (9, StreamEnds ''t1'' 1000000000)]"
  have "lasting sample" by (simp add: lasting_def sample_def tget_def)
  moreover have "\<forall>(dt, op) \<in> set ?ops. op_valid op" by (simp add: op_valid_def sample_rows)
  ultimately show ?thesis
    using carts_stay_good[OF carts_ok_sample carts_indexed_sample, of ?ops "''u1''"] by simp
qed

text \<open>
  C28: A stored cart is read back. After a save, the cart of the user is exactly the one saved, with
  the instant of the save as its stamp, or empty when it has no items; and no other cart changes.
\<close>

theorem saved_cart_read_back:
  "wp (saveCartState uid st ttl) (\<lambda>r w'. r = Inr () \<and>
     (\<forall>v. stored_cart w' v =
        (if v \<noteq> uid then stored_cart w v
         else if cs_items st = [] then empty_cart else st\<lparr>cs_updatedAt := Some (clock w)\<rparr>))) w"
  by (simp add: wp_saveCartState)

text \<open>
  C25: A cart outlives its stream by a day. \<open>loadCartForUser\<close> returns the stored cart stamped anew
  when its own deadline has not passed and its stream is live, or has ended less than 24 hours ago to
  the second; otherwise it returns the empty cart, and deletes the stored one.
\<close>

theorem cart_outlives_stream:
  assumes "cs_items (stored_cart w uid) \<noteq> []" "cs_streamId (stored_cart w uid) = Some sid" "sid \<noteq> []"
    and "tget (streams w) sid = Some s1"
  shows "wp (loadCartForUser uid) (\<lambda>r w'. \<exists>st. r = Inr st \<and>
     (if (\<forall>e. cs_expiresAt (stored_cart w uid) = Some e \<longrightarrow> clock w < e) \<and>
         (st_isLive s1 \<or> clock w + 1000 \<le> effectiveEnd s1 + 24 * 60 * 60 * 1000)
      then cs_items st = cs_items (stored_cart w uid) \<and> cs_streamId st = Some sid \<and> stored_cart w' uid = st \<and>
        (\<not> st_isLive s1 \<longrightarrow> cs_expiresAt st = Some (effectiveEnd s1 + 24 * 60 * 60 * 1000))
      else st = empty_cart \<and> stored_cart w' uid = empty_cart)) w"
proof -
  have h: "computeExpiryFromEnd e = e + 24 * 60 * 60 * 1000" for e
    by (simp add: computeExpiryFromEnd_def POST_LIVE_CART_HOURS_def MS_PER_HOUR_def)
  have alive: "cart_alive w (stored_cart w uid) \<longleftrightarrow> (\<forall>e. cs_expiresAt (stored_cart w uid) = Some e \<longrightarrow> clock w < e) \<and>
      (st_isLive s1 \<or> clock w + 1000 \<le> effectiveEnd s1 + 24 * 60 * 60 * 1000)"
    using assms by (auto simp: cart_alive_def h)
  show ?thesis
    unfolding alive[symmetric]
    using assms by (simp add: wp_loadCartForUser stored_enforce) (simp add: enforced_def h)
qed

theorem cart_outlives_stream_witness:
  "wp (loadCartForUser ''u1'') (\<lambda>r w'. \<exists>st. r = Inr st \<and> cs_items st = [cart_cup]) sample"
proof -
  have s: "tget (streams sample) ''t1'' = Some sample_stream" by (simp add: sample_def tget_def)
  have c: "stored_cart sample ''u1'' = sample_cart" by (simp add: sample_cart_stored)
  have "wp (loadCartForUser ''u1'') (\<lambda>r w'. \<exists>st. r = Inr st \<and>
     (if (\<forall>e. cs_expiresAt (stored_cart sample ''u1'') = Some e \<longrightarrow> clock sample < e) \<and>
         (st_isLive sample_stream \<or> clock sample + 1000 \<le> effectiveEnd sample_stream + 24 * 60 * 60 * 1000)
      then cs_items st = cs_items (stored_cart sample ''u1'') \<and> cs_streamId st = Some ''t1'' \<and> stored_cart w' ''u1'' = st \<and>
        (\<not> st_isLive sample_stream \<longrightarrow> cs_expiresAt st = Some (effectiveEnd sample_stream + 24 * 60 * 60 * 1000))
      else st = empty_cart \<and> stored_cart w' ''u1'' = empty_cart)) sample"
    by (rule cart_outlives_stream[OF _ _ _ s]) (simp_all add: c sample_cart_def)
  then show ?thesis
    by (rule wp_mono) (auto simp: c sample_cart_def sample_stream_def)
qed

text \<open>
  C19: When a stream ends, its carts get a last day. For every cart of the stream, once the end of the
  stream was handled, the stored cart is gone at the latest 24 hours after the end (or one second from
  now, when that has passed), whatever happens to other carts.
\<close>

theorem ended_stream_clears_carts:
  assumes "carts_indexed w" "sid \<noteq> []" "cs_items (stored_cart w uid) \<noteq> []" "cs_streamId (stored_cart w uid) = Some sid"
  shows "wp (onStreamEnded sid endedAt) (\<lambda>r w'. r = Inr () \<and>
     (\<forall>t \<ge> max (endedAt + 24 * 60 * 60 * 1000) (clock w + 1000).
        stored_cart (w'\<lparr>clock := t\<rparr>) uid = empty_cart)) w"
proof -
  have h: "computeExpiryFromEnd e = e + 24 * 60 * 60 * 1000" for e
    by (simp add: computeExpiryFromEnd_def POST_LIVE_CART_HOURS_def MS_PER_HOUR_def)
  show ?thesis
    using stream_end_dead[OF assms, of endedAt] by (auto simp: wp_onStreamEnded dead_by_def stored_cart_def h)
qed

theorem ended_stream_clears_carts_witness:
  "wp (onStreamEnded ''t1'' 1000000000)
     (\<lambda>r w'. r = Inr () \<and> stored_cart (w'\<lparr>clock := 1086400000\<rparr>) ''u1'' = empty_cart) sample"
proof -
  have c: "cs_items (stored_cart sample ''u1'') \<noteq> []" "cs_streamId (stored_cart sample ''u1'') = Some ''t1''"
    by (simp_all add: sample_cart_stored sample_cart_def)
  have t: "clock sample = 1000000000" by (simp add: sample_def)
  have i: "''t1'' \<noteq> []" by simp
  from ended_stream_clears_carts[OF carts_indexed_sample i c, of 1000000000] show ?thesis
    by (rule wp_mono) (auto simp: t)
qed

end
