(* ===== verification/CatalogueProperties.thy ===== *)
theory CatalogueProperties
  imports Sample
begin

text \<open>
  The properties of the variants of a product and of the scores of buyers and sellers.
\<close>

section \<open>Variants\<close>



text \<open>
  A stock movement of a variant is exact. It is refused for an unknown variant and when the stock
  would fall below zero; otherwise the new column moves the stock of that variant alone, by the amount
  given, keeps the options, and the total that is stored with it is the sum of the new stocks.
\<close>

theorem variant_delta_exact:
  "case applyVariantStockDelta vs vid d of
     Inl e \<Rightarrow> (case variant_stock vs vid of None \<Rightarrow> e = BadRequest ''Invalid variant''
                | Some n \<Rightarrow> n + d < 0 \<and> e = BadRequest ''Insufficient stock for this variant'')
   | Inr (vs', tot) \<Rightarrow>
       (\<exists>n. variant_stock vs vid = Some n \<and> 0 \<le> n + d \<and> variant_stock vs' vid = Some (n + d)) \<and>
       (\<forall>j. j \<noteq> vid \<longrightarrow> variant_stock vs' j = variant_stock vs j) \<and>
       parseVariantOptions vs' = parseVariantOptions vs \<and> tot = total_stock (parseVariantItems vs')"
proof (cases "applyVariantStockDelta vs vid d")
  case (Inl e)
  then show ?thesis by (auto simp: applyVariantStockDelta_outcome split: option.splits if_splits)
next
  case (Inr x)
  then obtain vs' tot where r: "applyVariantStockDelta vs vid d = Inr (vs', tot)" by (cases x) auto
  from applyVariantStockDelta_items[OF r] applyVariantStockDelta_stock[OF r] r show ?thesis
    by (auto simp: option.map_ident)
qed

lemma sample_delta: "\<not> isl (applyVariantStockDelta sample_variants ''v1'' (-3))"
  by code_simp

theorem variant_delta_exact_witness:
  "\<exists>vs' tot. applyVariantStockDelta sample_variants ''v1'' (-3) = Inr (vs', tot) \<and>
     (\<exists>n. variant_stock sample_variants ''v1'' = Some n \<and> variant_stock vs' ''v1'' = Some (n + -3))"
proof -
  from sample_delta obtain vs' tot where r: "applyVariantStockDelta sample_variants ''v1'' (-3) = Inr (vs', tot)"
    by (cases "applyVariantStockDelta sample_variants ''v1'' (-3)") auto
  with variant_delta_exact[where vs = sample_variants and vid = "''v1''" and d = "- 3"] show ?thesis by auto
qed





section \<open>Scores\<close>

datatype rating_op =
    Submit string seller_rating_dto
  | PatchBuyer string string num "string option"
  | PatchSeller string string seller_patch
  | Delivered string
  | Requested string string
  | StreamTime string int

primrec run_rating_op :: "(int \<Rightarrow> int) \<Rightarrow> rating_op \<Rightarrow> unit handler" where
  "run_rating_op db (Submit uid d) = seq_act (submitSellerRating uid d) (ret ())"
| "run_rating_op db (PatchBuyer bid a score reason) = seq_act (adminPatchBuyerRating bid a score reason) (ret ())"
| "run_rating_op db (PatchSeller sid a d) = seq_act (adminPatchSellerRating sid a d) (ret ())"
| "run_rating_op db (Delivered bid) = recordDeliveredOrder bid"
| "run_rating_op db (Requested bid sid) = onReplacementRequested bid sid"
| "run_rating_op db (StreamTime sid secs) = seq_act (recordStreamDuration db sid secs) (ret ())"

text \<open>What the validators of the requests let through.\<close>

definition rating_valid :: "rating_op \<Rightarrow> bool" where
  "rating_valid op =
     (case op of Submit _ d \<Rightarrow> dto_ok d | PatchBuyer _ _ score _ \<Rightarrow> in_range score | PatchSeller _ _ d \<Rightarrow> patch_ok d | _ \<Rightarrow> True)"

lemma run_rating_op_ok: "rating_valid op \<Longrightarrow> keeps ratings_ok (run_rating_op db op)"
  by (cases op) (simp_all add: rating_valid_def keeps_seq keeps_ret keeps_ratings_submit keeps_ratings_patchBuyer
      keeps_ratings_patchSeller keeps_ratings_delivered keeps_ratings_onReplacement keeps_ratings_record)

text \<open>
  C29: Scores stay on their scale. Any sequence of valid ratings, overrides by administrators,
  deliveries, replacement requests with their penalties, and streaming times keeps every score of
  every buyer and seller between 0 and 5, and the counters from falling below zero.
\<close>

theorem scores_stay_in_range:
  assumes "\<forall>k r. tget (buyerRatings w) k = Some r \<longrightarrow> buyer_rating_ok r"
    "\<forall>k r. tget (sellerRatings w) k = Some r \<longrightarrow> seller_rating_ok r" "\<forall>op \<in> set ops. rating_valid op"
  shows "let w' = fold (\<lambda>op w. snd (run_rating_op db op w)) ops w in
         (\<forall>k r. tget (buyerRatings w') k = Some r \<longrightarrow>
            0 \<le> br_score r \<and> br_score r \<le> 5 \<and> 0 \<le> br_replacementCount r \<and> 0 \<le> br_deliveredCount r) \<and>
         (\<forall>k r. tget (sellerRatings w') k = Some r \<longrightarrow> 0 \<le> sr_overall r \<and> sr_overall r \<le> 5 \<and>
            in_range (sr_quality r) \<and> in_range (sr_originality r) \<and> in_range (sr_valueForMoney r))"
proof -
  have step: "ratings_ok (snd (run_rating_op db op w))" if "ratings_ok w" "rating_valid op" for op w
    using keeps_wp[OF run_rating_op_ok[OF that(2)] that(1), of db] by (simp add: wp_def split: prod.splits)
  have "ratings_ok w" using assms(1,2) by (simp add: ratings_ok_def)
  then have "ratings_ok (fold (\<lambda>op w. snd (run_rating_op db op w)) ops w)"
    using assms(3) by (induction ops arbitrary: w) (simp_all add: step)
  then show ?thesis by (simp add: Let_def ratings_ok_def buyer_rating_ok_def seller_rating_ok_def in_range_def)
qed

theorem scores_stay_in_range_witness:
  "\<exists>r. tget (buyerRatings (fold (\<lambda>op w. snd (run_rating_op id op w))
       [Requested ''b1'' ''s1'', PatchBuyer ''b1'' ''adm'' 1 None, Requested ''b1'' ''s1''] sample)) ''b1'' = Some r \<and>
     br_score r \<le> 5"
proof -
  let ?ops = "[Requested ''b1'' ''s1'', PatchBuyer ''b1'' ''adm'' 1 None, Requested ''b1'' ''s1'']"
  have "tget (buyerRatings (fold (\<lambda>op w. snd (run_rating_op id op w)) ?ops sample)) ''b1'' \<noteq> None"
    by code_simp
  moreover have "\<forall>k r. tget (buyerRatings sample) k = Some r \<longrightarrow> buyer_rating_ok r"
    "\<forall>k r. tget (sellerRatings sample) k = Some r \<longrightarrow> seller_rating_ok r"
    using ratings_ok_sample by (simp_all add: ratings_ok_def)
  ultimately show ?thesis
    using scores_stay_in_range[of sample ?ops id] by (auto simp: Let_def rating_valid_def in_range_def)
qed



end
