(* ===== verification/ReplacementProperties.thy ===== *)
theory ReplacementProperties
  imports Sample
begin

text \<open>
  The properties of replacements: when a request is accepted, how it may advance, and what every
  sequence of operations keeps of the requests.
\<close>

section \<open>Handlers that cannot fail\<close>

text \<open>The steps after the request was stored (scores, mails, the view) never throw.\<close>

definition succeeds :: "'a handler \<Rightarrow> bool" where
  "succeeds m \<longleftrightarrow> (\<forall>w. wp m (\<lambda>r _. \<not> isl r) w)"

named_theorems succeeds_rules

lemma succeeds_basic [succeeds_rules]:
  "succeeds (ret x)" "succeeds (reads f)" "succeeds (writes g)"
  by (simp_all add: succeeds_def wp_simps)

lemma succeeds_bind [succeeds_rules]: "succeeds m \<Longrightarrow> (\<And>x. succeeds (f x)) \<Longrightarrow> succeeds (bind_act m f)"
  unfolding succeeds_def wp_bind
proof
  fix w assume m: "\<forall>w. wp m (\<lambda>r _. \<not> isl r) w" and f: "\<And>x. \<forall>w. wp (f x) (\<lambda>r _. \<not> isl r) w"
  show "wp m (on_ok (\<lambda>x. wp (f x) (\<lambda>r _. \<not> isl r)) (\<lambda>r _. \<not> isl r)) w"
    by (rule wp_mono[OF m[THEN spec]]) (use f in \<open>auto simp: on_ok_def split: sum.split\<close>)
qed

lemma succeeds_seq [succeeds_rules]: "succeeds m \<Longrightarrow> succeeds n \<Longrightarrow> succeeds (seq_act m n)"
  by (simp add: seq_act_def succeeds_bind)

lemma succeeds_if [succeeds_rules]: "succeeds m \<Longrightarrow> succeeds n \<Longrightarrow> succeeds (if b then m else n)"
  by simp

lemma succeeds_case_option [succeeds_rules]:
  "succeeds m \<Longrightarrow> (\<And>y. succeeds (f y)) \<Longrightarrow> succeeds (case x of None \<Rightarrow> m | Some y \<Rightarrow> f y)"
  by (cases x) simp_all

lemma announce_succeeds: "succeeds (announce_request r)"
  unfolding announce_request_def onReplacementRequested_def penalise_buyer_def penalise_seller_def
    ensureBuyerRating_def ensureSellerRating_def sendSupportEmail_def sendBuyerReceivedEmail_def
    sendBuyerApprovedEmail_def mail_buyer_def getSellerPublic_def getBuyerScore_def repl_view_def Let_def
  by (intro succeeds_rules)

lemma run_succeeds: "succeeds m \<Longrightarrow> wp m Q w \<Longrightarrow> wp m (\<lambda>r w'. \<not> isl r \<and> Q r w') w"
  by (simp add: wp_conj succeeds_def)

section \<open>The request\<close>

lemma request_blind: "rating_blind (\<lambda>w. tget (replacements w) i = Some r)"
  by (simp add: rating_blind_def)

lemma submit_request_post:
  "wp (submit_request i bid oid d lpp) (\<lambda>r w'. \<not> isl r \<and> tget (replacements w') i = Some
     (case lpp of (line, p, pr) \<Rightarrow> new_request i (clock w) oid bid d line p pr (3 \<le> br_score (buyer_rating_of w bid)))) w"
proof (cases lpp)
  case (fields line p pr)
  show ?thesis
    unfolding fields submit_request_def
    by (simp add: getBuyerScore_def wp_simps Let_def AUTO_APPROVE_MIN_SCORE_def)
       (auto intro!: run_succeeds announce_succeeds keeps_wp[OF announce_ok[OF request_blind]])
qed

definition sample_request :: create_replacement where
  "sample_request = \<lparr>cr_reason = ''broken'', cr_description = None, cr_orderItemId = ''i1'', cr_variantId = None,
     cr_photoUrls = None\<rparr>"

lemma sample_requested: "\<not> isl (fst (createForOrder ''q1'' ''u1'' ''o2'' sample_request sample))"
  by code_simp

definition request_post ::
    "world \<Rightarrow> string \<Rightarrow> string \<Rightarrow> string \<Rightarrow> exn + replacement_view \<Rightarrow> world \<Rightarrow> bool" where
  "request_post w i uid oid r w' =
     (case r of Inl e \<Rightarrow> w' = w
      | Inr v \<Rightarrow> \<exists>b o1 t r. buyer_of_user w uid = Some b \<and> tget (orders w) oid = Some o1 \<and>
       o_buyerId o1 = Some (b_id b) \<and> o_status o1 = DELIVERED \<and> o_deliveredAt o1 = Some t \<and>
       clock w \<le> t + 3 * 24 * 60 * 60 * 1000 \<and>
       (\<forall>q \<in> set (trows (replacements w)). r_orderId q = oid \<longrightarrow> r_status q = REJECTED) \<and>
       tget (replacements w') i = Some r \<and> r_orderId r = oid \<and> r_buyerId r = b_id b \<and>
       r_status r = (if br_score (buyer_rating_of w (b_id b)) < 3 then PENDING_ADMIN_REVIEW
                     else if 0 < r_balanceDue r then AWAITING_PAYMENT else APPROVED))"

lemma createForOrder_post: "wp (createForOrder i uid oid d) (request_post w i uid oid) w"
proof -
  have guard: "o_status o1 = DELIVERED \<and> (\<exists>t. o_deliveredAt o1 = Some t \<and> clock w \<le> t + 3 * 24 * 60 * 60 * 1000) \<and>
      (\<forall>q \<in> set (trows (replacements w)). r_orderId q = oid \<longrightarrow> r_status q = REJECTED)"
    if "request_guard w oid o1 = Inr u" for o1 u
    using that by (auto simp: request_guard_def existing_request_def tfirst_None request_deadline_def SUBMIT_DAYS_def
        MS_PER_DAY_def MS_PER_HOUR_def split: if_splits option.splits)
  have new: "wp (submit_request i (b_id b) oid d lpp) (request_post w i uid oid) w"
    if b: "buyer_of_user w uid = Some b" and o1: "tget (orders w) oid = Some o1" "o_buyerId o1 = Some (b_id b)"
      and g: "request_guard w oid o1 = Inr u" for b o1 u lpp
  proof (rule wp_mono[OF submit_request_post])
    fix r :: "exn + replacement_view" and w' :: world
    assume r: "\<not> isl r \<and> tget (replacements w') i = Some (case lpp of (line, p, pr) \<Rightarrow>
        new_request i (clock w) oid (b_id b) d line p pr (3 \<le> br_score (buyer_rating_of w (b_id b))))"
    obtain line p pr where lpp: "lpp = (line, p, pr)" by (cases lpp)
    define q where "q = new_request i (clock w) oid (b_id b) d line p pr (3 \<le> br_score (buyer_rating_of w (b_id b)))"
    have q: "r_orderId q = oid" "r_buyerId q = b_id b" "r_status q = (if br_score (buyer_rating_of w (b_id b)) < 3
        then PENDING_ADMIN_REVIEW else if 0 < r_balanceDue q then AWAITING_PAYMENT else APPROVED)"
      by (auto simp: q_def new_request_def Let_def resolveApprovalStatus_def split: prod.split)
    from guard[OF g] obtain t where "o_status o1 = DELIVERED" "o_deliveredAt o1 = Some t"
      "clock w \<le> t + 3 * 24 * 60 * 60 * 1000"
      "\<forall>q \<in> set (trows (replacements w)). r_orderId q = oid \<longrightarrow> r_status q = REJECTED" by blast
    moreover have "tget (replacements w') i = Some q" using r by (simp add: lpp q_def)
    ultimately show "request_post w i uid oid r w'" using r b o1 q by (cases r) (auto simp: request_post_def)
  qed
  have same: "request_post w i uid oid (Inl e) w" for e by (simp add: request_post_def)
  show ?thesis
    by (auto simp: createForOrder_def wp_simps on_ok_def same intro!: new split: option.splits sum.splits)
qed



text \<open>
  C34: A request that is accepted was offered. When a buyer's request goes through, the order's detail
  page said so just before: it offered the replacement. (The page also offers it after the three days
  are over, when the request is refused.)
\<close>

theorem accepted_was_offered:
  assumes "tget (orders w) oid = Some o1" "o_id o1 = oid" "createForOrder i uid oid d w = (Inr v, w')"
  shows "\<exists>dt. getBuyerOrderDetail oid uid w = (Inr dt, w) \<and> bd_canRequestReplacement dt"
proof -
  have g: "wp (createForOrder i uid oid d) (\<lambda>r _. \<forall>v. r = Inr v \<longrightarrow>
      (\<exists>b. buyer_of_user w uid = Some b \<and> o_buyerId o1 = Some (b_id b)) \<and> request_guard w oid o1 = Inr ()) w"
    by (auto simp: createForOrder_def wp_simps on_ok_def assms(1) intro!: wp_mono[OF wp_const_True]
        split: option.splits sum.splits)
  from wpD[OF this assms(3)] obtain b where b: "buyer_of_user w uid = Some b" "o_buyerId o1 = Some (b_id b)"
    and guard: "request_guard w oid o1 = Inr ()" by auto
  have none: "\<forall>r \<in> set (requests_of w oid). r_status r = REJECTED"
    using guard by (auto simp: request_guard_def existing_request_def requests_of_def tfirst_None split: if_splits option.splits)
  have "getBuyerOrderDetail oid uid w = (Inr (mapBuyerOrderDetail w o1), w)"
    by (rule wp_equation) (simp add: getBuyerOrderDetail_def wp_simps b assms)
  moreover have "bd_canRequestReplacement (mapBuyerOrderDetail w o1)"
    using guard none
    by (auto simp: mapBuyerOrderDetail_def Let_def buyer_detail.defs buyer_list_item.defs assms request_guard_def
        list_ex_iff find_None_iff open_request_def mapBuyerOrderListItem_def split: if_splits option.splits)
  ultimately show ?thesis by blast
qed

theorem accepted_was_offered_witness:
  "\<exists>dt. getBuyerOrderDetail ''o2'' ''u1'' sample = (Inr dt, sample) \<and> bd_canRequestReplacement dt"
proof -
  from sample_requested obtain v w' where r: "createForOrder ''q1'' ''u1'' ''o2'' sample_request sample = (Inr v, w')"
    by (rule run_ok)
  have "tget (orders sample) ''o2'' = Some delivered_order" "o_id delivered_order = ''o2''"
    by (simp_all add: sample_def tget_def sample_rows)
  from accepted_was_offered[OF this r] show ?thesis .
qed

section \<open>Its life\<close>

text \<open>Requests on replacements, one after the other; a refused one does not stop the next.\<close>

definition run_repl_ops :: "razorpay \<Rightarrow> config \<Rightarrow> shipping_api \<Rightarrow> repl_op list \<Rightarrow> world \<Rightarrow> world" where
  "run_repl_ops rz cfg api ops w = fold (\<lambda>op w. snd (run_repl_op rz cfg api op w)) ops w"

lemma sample_ops_request:
  "tget (replacements (run_repl_ops sample_rz sample_config sample_api
      [Request ''q1'' ''u1'' ''o2'' sample_request, BookRepl ''q1'' ''u2''] sample)) ''q1'' \<noteq> None"
  by code_simp

lemma requests_ok_ops: "requests_ok w \<Longrightarrow> requests_ok (run_repl_ops rz cfg api ops w)"
  unfolding run_repl_ops_def
proof (induction ops arbitrary: w)
  case (Cons op ops)
  have "requests_ok (snd (run_repl_op rz cfg api op w))"
    using keeps_wp[OF run_repl_op_ok Cons.prems, of rz cfg api op] by (simp add: wp_def split: prod.splits)
  then show ?case using Cons.IH by simp
qed simp

text \<open>
  C12: Nothing is sent before it is paid, and an order is replaced once. From requests in order, any
  sequence of requests, decisions, payments, packing, booking, polling and delivery keeps this: a
  request that is being fulfilled has its balance paid, a tracking id belongs to a shipped or
  delivered one, and no order has two requests that are not rejected.
\<close>

theorem requests_stay_ok:
  assumes "requests_ok w"
  shows "let w' = run_repl_ops rz cfg api ops w in
     (\<forall>i r. tget (replacements w') i = Some r \<longrightarrow>
        (r_status r \<in> {APPROVED, R_PACKED, R_SHIPPED, R_DELIVERED} \<and> 0 < r_balanceDue r \<longrightarrow> r_balanceStatus r = BAL_PAID) \<and>
        (r_trackingId r \<noteq> None \<longrightarrow> r_status r \<in> {R_SHIPPED, R_DELIVERED})) \<and>
     (\<forall>i j r1 r2. tget (replacements w') i = Some r1 \<and> tget (replacements w') j = Some r2 \<and>
        r_orderId r1 = r_orderId r2 \<and> r_status r1 \<noteq> REJECTED \<and> r_status r2 \<noteq> REJECTED \<longrightarrow> i = j)"
  using requests_ok_ops[OF assms, of rz cfg api ops]
  by (auto simp: Let_def requests_ok_def request_ok_def fulfilling_def)

theorem requests_stay_ok_witness:
  "\<exists>q. tget (replacements (run_repl_ops sample_rz sample_config sample_api
      [Request ''q1'' ''u1'' ''o2'' sample_request, BookRepl ''q1'' ''u2''] sample)) ''q1'' = Some q \<and>
     (r_trackingId q = None \<or> r_status q \<in> {R_SHIPPED, R_DELIVERED})"
proof -
  let ?ops = "[Request ''q1'' ''u1'' ''o2'' sample_request, BookRepl ''q1'' ''u2'']"
  from sample_ops_request obtain q where
    q: "tget (replacements (run_repl_ops sample_rz sample_config sample_api ?ops sample)) ''q1'' = Some q" by blast
  from requests_stay_ok[OF requests_ok_sample, of sample_rz sample_config sample_api ?ops] q show ?thesis
    by (auto simp: Let_def)
qed

text \<open>
  C23: A replacement follows its state machine. Whatever the operation and its outcome, a stored
  request keeps its order and either keeps its status or moves along one edge: review to rejected,
  approved or waiting for payment, payment to approved, and then packed, shipped, delivered.
\<close>

theorem replacement_edges_followed:
  assumes "requests_ok w" "tget (replacements w) i = Some r" "new_id op \<noteq> Some i"
  shows "wp (run_repl_op rz cfg api op) (\<lambda>_ w'. \<exists>r'. tget (replacements w') i = Some r' \<and> r_orderId r' = r_orderId r \<and>
           (r_status r' = r_status r \<or> repl_edge (r_status r) (r_status r'))) w"
  using run_repl_op_step[OF assms(1), of rz cfg api op]
proof (rule wp_mono)
  fix x :: "exn + unit" and w' assume "repl_step (new_id op) w w'"
  then show "\<exists>r'. tget (replacements w') i = Some r' \<and> r_orderId r' = r_orderId r \<and>
           (r_status r' = r_status r \<or> repl_edge (r_status r) (r_status r'))"
    using assms(2,3) by (auto simp: repl_step_def)
qed

theorem replacement_edges_followed_witness:
  "\<exists>v w'. createForOrder ''q1'' ''u1'' ''o2'' sample_request sample = (Inr v, w') \<and>
     wp (run_repl_op sample_rz sample_config sample_api (Decide ''q1'' ''adm'' True None)) (\<lambda>_ w2.
        tget (replacements w2) ''q1'' \<noteq> None) w'"
proof -
  from sample_requested obtain v w' where r: "createForOrder ''q1'' ''u1'' ''o2'' sample_request sample = (Inr v, w')"
    by (rule run_ok)
  have ok: "requests_ok w'"
    using wpD[OF createForOrder_step r] requests_ok_sample by (rule repl_step_ok[rotated])
  from wpD[OF createForOrder_post r] obtain q where q: "tget (replacements w') ''q1'' = Some q"
    by (auto simp: request_post_def)
  have "new_id (Decide ''q1'' ''adm'' True None) \<noteq> Some ''q1''" by (simp add: new_id_def)
  from replacement_edges_followed[OF ok q this] have "wp (run_repl_op sample_rz sample_config sample_api
      (Decide ''q1'' ''adm'' True None)) (\<lambda>_ w2. tget (replacements w2) ''q1'' \<noteq> None) w'"
    by (rule wp_mono) auto
  with r show ?thesis by blast
qed

end
