(* ===== verification/Text.thy ===== *)
theory Text
  imports World
begin

text \<open>
  Text helpers the account and seller services share: words of a name, upper case, the characters a
  phone number keeps, and the patterns of the data-transfer objects (E.164 phone numbers, six-digit
  codes and PIN codes, IFSC and GSTIN), each written as the matching function of its regular expression.
\<close>

section \<open>Words and case\<close>

text \<open>\<open>s.trim().split(/\s+/).filter(Boolean)\<close>: the maximal runs without white space.\<close>

fun words_from :: "string \<Rightarrow> string \<Rightarrow> string list" where
  "words_from acc [] = (if acc = [] then [] else [rev acc])"
| "words_from acc (c # cs) =
     (if is_space c then (if acc = [] then words_from [] cs else rev acc # words_from [] cs)
      else words_from (c # acc) cs)"

definition words_of :: "string \<Rightarrow> string list" where
  "words_of s = words_from [] s"

definition upper_char :: "char \<Rightarrow> char" where
  "upper_char c = (let n = of_char c :: nat in if 97 \<le> n \<and> n \<le> 122 then char_of (n - 32) else c)"

definition to_upper :: "string \<Rightarrow> string" where
  "to_upper s = map upper_char s"

text \<open>\<open>s.slice(-n)\<close> for a positive \<open>n\<close>.\<close>

definition last_chars :: "nat \<Rightarrow> 'a list \<Rightarrow> 'a list" where
  "last_chars n s = drop (length s - n) s"

text \<open>\<open>Array.from(new Set(xs))\<close>: first occurrences, in order.\<close>

definition js_set :: "'a list \<Rightarrow> 'a list" where
  "js_set xs = rev (remdups (rev xs))"

text \<open>\<open>x || d\<close> of an optional string.\<close>

definition str_or :: "string option \<Rightarrow> string \<Rightarrow> string" where
  "str_or x d = (case nonempty x of None \<Rightarrow> d | Some s \<Rightarrow> s)"

section \<open>Patterns\<close>

definition is_upper :: "char \<Rightarrow> bool" where
  "is_upper c \<longleftrightarrow> 65 \<le> (of_char c :: nat) \<and> (of_char c :: nat) \<le> 90"

definition is_letter :: "char \<Rightarrow> bool" where
  "is_letter c \<longleftrightarrow> is_upper c \<or> (97 \<le> (of_char c :: nat) \<and> (of_char c :: nat) \<le> 122)"

definition is_digit19 :: "char \<Rightarrow> bool" where
  "is_digit19 c \<longleftrightarrow> is_digit c \<and> c \<noteq> CHR ''0''"

text \<open>A pattern that is a fixed sequence of character classes.\<close>

definition matches_classes :: "(char \<Rightarrow> bool) list \<Rightarrow> string \<Rightarrow> bool" where
  "matches_classes ps s \<longleftrightarrow> length s = length ps \<and> list_all (\<lambda>(p, c). p c) (zip ps s)"

text \<open>\<open>/^\+?[1-9]\d{1,14}$/\<close>\<close>

definition e164 :: "string \<Rightarrow> bool" where
  "e164 s \<longleftrightarrow>
     (let t = (case s of c # cs \<Rightarrow> if c = CHR ''+'' then cs else s | [] \<Rightarrow> [])
      in case t of [] \<Rightarrow> False
         | d # ds \<Rightarrow> is_digit19 d \<and> list_all is_digit ds \<and> 1 \<le> length ds \<and> length ds \<le> 14)"

text \<open>\<open>/^\d{6}$/\<close>, \<open>/^[1-9][0-9]{5}$/\<close>, \<open>/^\d{9,18}$/\<close>\<close>

definition six_digits :: "string \<Rightarrow> bool" where
  "six_digits = matches_classes (replicate 6 is_digit)"

definition pincode :: "string \<Rightarrow> bool" where
  "pincode = matches_classes (is_digit19 # replicate 5 is_digit)"

definition account_digits :: "string \<Rightarrow> bool" where
  "account_digits s \<longleftrightarrow> list_all is_digit s \<and> 9 \<le> length s \<and> length s \<le> 18"

text \<open>\<open>/^[A-Za-z]{4}0[A-Za-z0-9]{6}$/\<close>\<close>

definition ifsc :: "string \<Rightarrow> bool" where
  "ifsc = matches_classes (replicate 4 is_letter @ [\<lambda>c. c = CHR ''0''] @
      replicate 6 (\<lambda>c. is_letter c \<or> is_digit c))"

text \<open>\<open>/^[0-9]{2}[A-Z]{5}[0-9]{4}[A-Z][0-9A-Z]Z[0-9A-Z]$/\<close>\<close>

definition gstin :: "string \<Rightarrow> bool" where
  "gstin = matches_classes (replicate 2 is_digit @ replicate 5 is_upper @ replicate 4 is_digit @
      [is_upper, \<lambda>c. is_digit c \<or> is_upper c, \<lambda>c. c = CHR ''Z'', \<lambda>c. is_digit c \<or> is_upper c])"

section \<open>Facts\<close>

lemma to_upper_length [simp]: "length (to_upper s) = length s"
  by (simp add: to_upper_def)

lemma set_js_set [simp]: "set (js_set xs) = set xs"
  by (simp add: js_set_def)

lemma distinct_js_set [simp]: "distinct (js_set xs)"
  by (simp add: js_set_def)

lemma length_last_chars [simp]: "length (last_chars n s) = min n (length s)"
  by (simp add: last_chars_def)

lemma set_last_chars: "set (last_chars n s) \<subseteq> set s"
  by (simp add: last_chars_def set_drop_subset)

definition is_word :: "string \<Rightarrow> bool" where
  "is_word w \<longleftrightarrow> w \<noteq> [] \<and> list_all (\<lambda>c. \<not> is_space c) w"

lemma words_from_ok: "list_all (\<lambda>c. \<not> is_space c) acc \<Longrightarrow> list_all is_word (words_from acc s)"
  by (induction acc s rule: words_from.induct) (simp_all add: is_word_def)

lemma words_of_ok: "list_all is_word (words_of s)"
  by (simp add: words_of_def words_from_ok)

end
