(* ===== verification/Accounts.thy ===== *)
theory Accounts
  imports Text Ratings
begin

text \<open>
  What the account services exchange: the data-transfer objects of src/auth/dto with their
  validation, the composition of names and of a business address, and the one-time-code messages of
  src/auth/auth.service.ts and src/notifications/fast2sms.service.ts. The e-mail and UUID checks of
  the validation library are the parameters \<open>is_email\<close> and \<open>is_uuid\<close>.
\<close>

section \<open>Data-transfer objects\<close>

definition opt_valid :: "('a \<Rightarrow> bool) \<Rightarrow> 'a option \<Rightarrow> bool" where
  \<comment> \<open>\<open>@IsOptional()\<close>\<close>
  "opt_valid P x = (case x of None \<Rightarrow> True | Some y \<Rightarrow> P y)"

record login_dto =
  ld_email :: "string option"
  ld_phone :: "string option"
  ld_password :: string

definition login_dto_valid :: "(string \<Rightarrow> bool) \<Rightarrow> login_dto \<Rightarrow> bool" where
  "login_dto_valid is_email d \<longleftrightarrow> opt_valid is_email (ld_email d) \<and> opt_valid e164 (ld_phone d) \<and>
     6 \<le> length (ld_password d)"

record reset_dto =
  rs_phone :: string
  rs_code :: string
  rs_newPassword :: string

definition reset_dto_valid :: "reset_dto \<Rightarrow> bool" where
  "reset_dto_valid d \<longleftrightarrow> e164 (rs_phone d) \<and> six_digits (rs_code d) \<and> 6 \<le> length (rs_newPassword d)"

definition verify_reset_valid :: "string \<Rightarrow> string \<Rightarrow> bool" where
  "verify_reset_valid phone code \<longleftrightarrow> e164 phone \<and> six_digits code"

datatype phone_purpose = BUYER_REGISTER | SELLER_REGISTER

record names_dto =
  nm_name :: "string option"
  nm_firstName :: "string option"
  nm_middleName :: "string option"
  nm_lastName :: "string option"

record buyer_dto = names_dto +
  bd_email :: string
  bd_password :: string
  bd_gender :: "string option"
  bd_phone :: "string option"

definition GENDER_VALUES :: "string list" where
  "GENDER_VALUES = [''MALE'', ''FEMALE'', ''OTHER'', ''PREFER_NOT_TO_SAY'']"

text \<open>The first and last names are required and not empty; the legacy name is optional.\<close>

definition buyer_dto_valid :: "(string \<Rightarrow> bool) \<Rightarrow> buyer_dto \<Rightarrow> bool" where
  "buyer_dto_valid is_email d \<longleftrightarrow> is_email (bd_email d) \<and> bd_email d \<noteq> [] \<and> 6 \<le> length (bd_password d) \<and>
     truthy (nm_firstName d) \<and> truthy (nm_lastName d) \<and>
     (case bd_gender d of None \<Rightarrow> False | Some g \<Rightarrow> g \<in> set GENDER_VALUES)"

record pickup_dto =
  pk_line1 :: string
  pk_line2 :: "string option"
  pk_city :: string
  pk_state :: string
  pk_zip :: string

definition pickup_dto_valid :: "pickup_dto \<Rightarrow> bool" where
  "pickup_dto_valid d \<longleftrightarrow> pk_line1 d \<noteq> [] \<and> length (pk_line1 d) \<le> 200 \<and>
     opt_valid (\<lambda>s. length s \<le> 200) (pk_line2 d) \<and> pk_city d \<noteq> [] \<and> length (pk_city d) \<le> 100 \<and>
     pk_state d \<noteq> [] \<and> length (pk_state d) \<le> 50 \<and> pincode (pk_zip d)"

record seller_dto = names_dto +
  sd_email :: string
  sd_password :: string
  sd_gender :: "string option"
  sd_phone :: "string option"
  sd_businessName :: string
  sd_description :: "string option"
  sd_gstNumber :: "string option"
  sd_categoryIds :: "string list"
  sd_pickupAddress :: pickup_dto
  sd_bankAccount :: string
  sd_ifscCode :: string
  sd_bankName :: string
  sd_accountHolderName :: string
  sd_accountType :: string

text \<open>The transformation of \<open>categoryIds\<close>: trimmed, without empty ones.\<close>

definition clean_ids :: "string list \<Rightarrow> string list" where
  "clean_ids xs = filter (\<lambda>v. v \<noteq> []) (map trim xs)"

definition seller_dto_valid :: "(string \<Rightarrow> bool) \<Rightarrow> (string \<Rightarrow> bool) \<Rightarrow> seller_dto \<Rightarrow> bool" where
  "seller_dto_valid is_email is_uuid d \<longleftrightarrow> is_email (sd_email d) \<and> sd_email d \<noteq> [] \<and>
     6 \<le> length (sd_password d) \<and> truthy (nm_firstName d) \<and> truthy (nm_lastName d) \<and>
     (case sd_gender d of None \<Rightarrow> False | Some g \<Rightarrow> g \<in> set GENDER_VALUES) \<and>
     (case sd_phone d of None \<Rightarrow> False | Some p \<Rightarrow> p \<noteq> [] \<and> e164 p) \<and>
     sd_businessName d \<noteq> [] \<and> (truthy (sd_gstNumber d) \<longrightarrow> gstin (the (sd_gstNumber d))) \<and>
     1 \<le> length (sd_categoryIds d) \<and> list_all is_uuid (sd_categoryIds d) \<and>
     pickup_dto_valid (sd_pickupAddress d) \<and> account_digits (sd_bankAccount d) \<and> ifsc (sd_ifscCode d) \<and>
     sd_bankName d \<noteq> [] \<and> length (sd_bankName d) \<le> 200 \<and>
     sd_accountHolderName d \<noteq> [] \<and> length (sd_accountHolderName d) \<le> 200 \<and>
     sd_accountType d \<noteq> [] \<and> length (sd_accountType d) \<le> 50"

definition push_dto_valid :: "string \<Rightarrow> string option \<Rightarrow> bool" where
  "push_dto_valid token platform \<longleftrightarrow> 10 \<le> length token \<and> length token \<le> 4096 \<and>
     opt_valid (\<lambda>p. length p \<le> 32) platform"

section \<open>Names and addresses\<close>

definition formatPickupAsBusinessAddress :: "pickup_dto \<Rightarrow> string" where
  "formatPickupAsBusinessAddress p =
     join [CHR 0x0A] (filter (\<lambda>x. x \<noteq> [])
       [trim (pk_line1 p), str_or (opt_trim (pk_line2 p)) [],
        trim (pk_city p) @ '', '' @ trim (pk_state p) @ '' '' @ trim (pk_zip p), ''IN''])"

record name_parts =
  np_firstName :: string
  np_middleName :: "string option"
  np_lastName :: "string option"

definition splitLegacyName :: "string \<Rightarrow> name_parts" where
  "splitLegacyName name =
     (let parts = words_of name
      in case parts of
           [] \<Rightarrow> \<lparr>np_firstName = [], np_middleName = None, np_lastName = None\<rparr>
         | [p] \<Rightarrow> \<lparr>np_firstName = p, np_middleName = None, np_lastName = None\<rparr>
         | p # ps \<Rightarrow> \<lparr>np_firstName = p,
              np_middleName = (if 3 \<le> length parts then Some (join '' '' (butlast ps)) else None),
              np_lastName = Some (last ps)\<rparr>)"

text \<open>The \<open>lastName\<close> of the result is never null.\<close>

definition resolveNameParts :: "'a names_dto_scheme \<Rightarrow> name_parts" where
  "resolveNameParts d =
     (let legacy = splitLegacyName (str_or (nm_name d) [])
      in \<lparr>np_firstName = str_or (opt_trim (nm_firstName d)) (np_firstName legacy),
          np_middleName = (case nonempty (opt_trim (nm_middleName d)) of
              None \<Rightarrow> np_middleName legacy | Some m \<Rightarrow> Some m),
          np_lastName = Some (str_or (opt_trim (nm_lastName d)) (str_or (np_lastName legacy) []))\<rparr>)"

definition displayName :: "'a names_dto_scheme \<Rightarrow> string" where
  "displayName d =
     str_or (Some (trim (join '' '' (filter (\<lambda>s. s \<noteq> [])
         [str_or (nm_firstName d) [], str_or (nm_middleName d) [], str_or (nm_lastName d) []]))))
       (trim (str_or (nm_name d) []))"

section \<open>One-time codes\<close>

definition REFRESH_TTL_SECONDS :: nat where "REFRESH_TTL_SECONDS = 30 * 24 * 60 * 60"
definition OTP_TTL_SECONDS :: nat where "OTP_TTL_SECONDS = 10 * 60"
definition OTP_LENGTH :: nat where "OTP_LENGTH = 6"

datatype otp_env = TESTING | PRODUCTION

datatype otp_purpose = LOGIN | BUYER_SIGNUP | SELLER_SIGNUP | FORGOT_PASSWORD

text \<open>\<open>config.get\<close>: the environment, by name.\<close>

type_synonym environment = "string \<Rightarrow> string option"

definition otpEnv :: "environment \<Rightarrow> otp_env" where
  "otpEnv cfg = (if trim (str_or (cfg ''OTP_ENV'') []) = ''production'' then PRODUCTION else TESTING)"

definition isOtpProd :: "environment \<Rightarrow> bool" where
  "isOtpProd cfg \<longleftrightarrow> otpEnv cfg = PRODUCTION"

definition otpPurpose :: "otp_purpose option \<Rightarrow> otp_purpose" where
  "otpPurpose p = (case p of None \<Rightarrow> LOGIN | Some q \<Rightarrow> q)"

text \<open>What the log shows of an e-mail address or a phone number.\<close>

definition maskIdentifier :: "string \<Rightarrow> string" where
  "maskIdentifier ident =
     (let s = trim ident
      in if s = [] then []
         else if CHR ''@'' \<in> set s then
           (let u = takeWhile (\<lambda>c. c \<noteq> CHR ''@'') s;
                d = takeWhile (\<lambda>c. c \<noteq> CHR ''@'') (tl (dropWhile (\<lambda>c. c \<noteq> CHR ''@'') s));
                user = (if u \<noteq> [] then take 2 u @ ''***'' @ last_chars 1 u else ''***'')
            in user @ ''@'' @ d)
         else
           (let digits = filter (\<lambda>c. is_digit c \<or> c = CHR ''+'') s;
                bare = (case digits of c # cs \<Rightarrow> if c = CHR ''+'' then cs else digits | [] \<Rightarrow> [])
            in ''+**...'' @ last_chars 4 bare))"

definition isDltSmsRoute :: "environment \<Rightarrow> bool" where
  "isDltSmsRoute cfg \<longleftrightarrow> (case cfg ''FAST2SMS_ROUTE'' of None \<Rightarrow> False | Some r \<Rightarrow> trim r = ''dlt'')"

definition dltMessageIdForPurpose :: "environment \<Rightarrow> otp_purpose \<Rightarrow> string option" where
  "dltMessageIdForPurpose cfg p =
     nonempty (opt_trim (cfg (case p of
         FORGOT_PASSWORD \<Rightarrow> ''FAST2SMS_DLT_MSG_ID_FORGOT_PASSWORD''
       | SELLER_SIGNUP \<Rightarrow> ''FAST2SMS_DLT_MSG_ID_SELLER_SIGNUP''
       | BUYER_SIGNUP \<Rightarrow> ''FAST2SMS_DLT_MSG_ID_BUYER_SIGNUP''
       | LOGIN \<Rightarrow> ''FAST2SMS_DLT_MSG_ID_LOGIN'')))"

definition buildOtpSmsMessage :: "environment \<Rightarrow> otp_purpose option \<Rightarrow> string \<Rightarrow> string" where
  "buildOtpSmsMessage cfg p code =
     (let ttlMin = int_digits (math_round (of_nat OTP_TTL_SECONDS / 60));
          purpose = otpPurpose p;
          line1 = (case purpose of
              FORGOT_PASSWORD \<Rightarrow> ''Your Vybekart password reset OTP is '' @ code @ ''.''
            | SELLER_SIGNUP \<Rightarrow> ''Welcome to Vybekart Seller Partner. Your OTP is '' @ code @ ''.''
            | BUYER_SIGNUP \<Rightarrow> ''Welcome to Vybekart. Your Buyer signup OTP is '' @ code @ ''. Valid for '' @ ttlMin
                 @ '' minutes. Do not share.''
            | LOGIN \<Rightarrow> ''Your Vybekart login OTP is '' @ code @ ''.'');
          base = (if purpose = BUYER_SIGNUP then line1
                  else line1 @ '' Valid for '' @ ttlMin @ '' minutes. Do not share this code with anyone.'');
          appHash = trim (str_or (cfg ''ANDROID_SMS_APP_HASH'') [])
      in if appHash \<noteq> [] then ''<#> '' @ base @ [CHR 0x0A] @ appHash else base)"

section \<open>The SMS gateway\<close>

definition normalizeIndianPhone :: "string \<Rightarrow> string" where
  "normalizeIndianPhone phone =
     (let digits = filter is_digit phone
      in if length digits = 12 \<and> starts_with ''91'' digits then drop 2 digits else digits)"

text \<open>The form is posted when an API key is set; the answer of the gateway is only logged.\<close>

definition postBulkV2 :: "environment \<Rightarrow> (string \<times> string) list \<Rightarrow> unit handler" where
  "postBulkV2 cfg body =
     (if truthy (opt_trim (cfg ''FAST2SMS_API_KEY'')) then writes (send_mail (Sms body)) else ret ())"

definition sendTextSms :: "environment \<Rightarrow> string \<Rightarrow> string \<Rightarrow> unit handler" where
  "sendTextSms cfg toPhone message =
     (let route = trim (case cfg ''FAST2SMS_ROUTE'' of None \<Rightarrow> ''q'' | Some r \<Rightarrow> r);
          sender = nonempty (opt_trim (cfg ''FAST2SMS_SENDER_ID''))
      in postBulkV2 cfg ([(''route'', route), (''message'', message), (''numbers'', normalizeIndianPhone toPhone)]
           @ (case sender of None \<Rightarrow> [] | Some s \<Rightarrow> [(''sender_id'', s)])))"

definition sendDltSms :: "environment \<Rightarrow> string \<Rightarrow> string \<Rightarrow> string \<Rightarrow> unit handler" where
  "sendDltSms cfg toPhone messageId vals =
     (case nonempty (opt_trim (cfg ''FAST2SMS_SENDER_ID'')) of
        None \<Rightarrow> ret ()
      | Some sender \<Rightarrow>
          if trim messageId = [] then ret ()
          else postBulkV2 cfg [(''route'', ''dlt''), (''sender_id'', sender), (''message'', trim messageId),
             (''variables_values'', vals), (''numbers'', normalizeIndianPhone toPhone)])"

definition dispatchOtpSms :: "environment \<Rightarrow> string \<Rightarrow> otp_purpose option \<Rightarrow> string \<Rightarrow> unit handler" where
  "dispatchOtpSms cfg phone p code =
     (let purpose = otpPurpose p
      in if isDltSmsRoute cfg then
           (case dltMessageIdForPurpose cfg purpose of
              None \<Rightarrow> ret ()
            | Some messageId \<Rightarrow> sendDltSms cfg phone messageId code)
         else sendTextSms cfg phone (buildOtpSmsMessage cfg (Some purpose) code))"

section \<open>Facts\<close>

lemma keeps_dispatch:
  assumes "\<And>w m. P w \<Longrightarrow> P (send_mail m w)"
  shows "keeps P (dispatchOtpSms cfg phone p code)"
proof -
  have [keeps_rules]: "keeps P (postBulkV2 cfg body)" for body
    by (auto simp: postBulkV2_def assms intro!: keeps_rules keeps_writes)
  show ?thesis
    by (auto simp: dispatchOtpSms_def Let_def sendDltSms_def sendTextSms_def intro!: keeps_rules)
qed

text \<open>At most four digits of a phone number reach the log.\<close>

lemma mask_phone_length:
  "CHR ''@'' \<notin> set s \<Longrightarrow> length (maskIdentifier s) \<le> 10"
proof -
  assume a: "CHR ''@'' \<notin> set s"
  have "set (trim s) \<subseteq> set s"
    by (auto simp: trim_def dest!: set_dropWhileD)
  then have "CHR ''@'' \<notin> set (trim s)" using a by auto
  then show ?thesis by (auto simp: maskIdentifier_def Let_def)
qed

end
