(* ===== verification/Auth.thy ===== *)
theory Auth
  imports Accounts
begin

text \<open>
  Accounts, src/auth: log-in with a password or a one-time code, refresh tokens, registration of
  buyers and sellers, password reset, push devices, and the guards in front of the controllers.
  bcrypt, the JSON web tokens and the configuration are the parameters \<open>auth_env\<close>; what is drawn at
  random (ids, salts, codes) is an argument.
\<close>

section \<open>Parameters\<close>

record claims =
  cl_sub :: string
  cl_email :: string
  cl_roles :: "role list"
  cl_jti :: "string option"

text \<open>
  \<open>ae_sign opts now c\<close> is \<open>jwtService.sign(c, opts)\<close> at the time \<open>now\<close>, with the secret and lifetime
  of \<open>opts\<close> or the configured ones; \<open>ae_verify secret now t\<close> is \<open>None\<close> when \<open>verify\<close> throws.
\<close>

record auth_env =
  ae_cfg :: environment
  ae_hash :: "string \<Rightarrow> string \<Rightarrow> string" \<comment> \<open>\<open>bcrypt.hash\<close>: salt and password\<close>
  ae_compare :: "string \<Rightarrow> string \<Rightarrow> bool" \<comment> \<open>\<open>bcrypt.compare\<close>: password and hash\<close>
  ae_sign :: "(string \<times> string) option \<Rightarrow> int \<Rightarrow> claims \<Rightarrow> string"
  ae_verify :: "string \<Rightarrow> int \<Rightarrow> string \<Rightarrow> claims option"

definition jwt_refresh_secret :: "auth_env \<Rightarrow> string option" where
  "jwt_refresh_secret env = nonempty (ae_cfg env ''JWT_REFRESH_SECRET'')"

definition jwt_refresh_expires :: "auth_env \<Rightarrow> string" where
  "jwt_refresh_expires env = (case ae_cfg env ''JWT_REFRESH_EXPIRES_IN'' of None \<Rightarrow> ''30d'' | Some e \<Rightarrow> e)"

section \<open>Rows\<close>

definition user_by_phone :: "world \<Rightarrow> string \<Rightarrow> user_row option" where
  "user_by_phone w p = tfirst (\<lambda>u. u_phone u = Some p) (users w)"

definition user_by_email :: "world \<Rightarrow> string \<Rightarrow> user_row option" where
  "user_by_email w e = tfirst (\<lambda>u. u_email u = e) (users w)"

text \<open>\<open>{ equals: e, mode: 'insensitive' }\<close>\<close>

definition user_by_email_ci :: "world \<Rightarrow> string \<Rightarrow> user_row option" where
  "user_by_email_ci w e = tfirst (\<lambda>u. to_lower (u_email u) = to_lower e) (users w)"

text \<open>The look-up of log-in and of the one-time code: by e-mail when there is one, else by phone.\<close>

definition find_account :: "world \<Rightarrow> string option \<Rightarrow> string option \<Rightarrow> user_row option" where
  "find_account w email phone =
     (if truthy email then user_by_email_ci w (trim (the email))
      else case phone of None \<Rightarrow> None | Some p \<Rightarrow> user_by_phone w p)"

definition put_user :: "user_row \<Rightarrow> world \<Rightarrow> world" where
  "put_user u w = w\<lparr>users := tput (u_id u) u (users w)\<rparr>"

text \<open>The unique columns of a user, a buyer profile and a seller profile are checked by the database.\<close>

definition create_user :: "user_row \<Rightarrow> unit handler" where
  "create_user u =
     db_create (\<lambda>w. tget (users w) (u_id u) \<noteq> None \<or> user_by_email w (u_email u) \<noteq> None \<or>
         (case u_phone u of None \<Rightarrow> False | Some p \<Rightarrow> user_by_phone w p \<noteq> None)) (put_user u)"

definition create_buyer :: "buyer_row \<Rightarrow> unit handler" where
  "create_buyer b =
     db_create (\<lambda>w. tget (buyers w) (b_id b) \<noteq> None \<or> buyer_of_user w (b_userId b) \<noteq> None)
       (\<lambda>w. w\<lparr>buyers := tput (b_id b) b (buyers w)\<rparr>)"

definition put_seller :: "seller_row \<Rightarrow> world \<Rightarrow> world" where
  "put_seller s1 w = w\<lparr>sellers := tput (s_id s1) s1 (sellers w)\<rparr>"

definition create_seller :: "seller_row \<Rightarrow> unit handler" where
  "create_seller s1 =
     db_create (\<lambda>w. tget (sellers w) (s_id s1) \<noteq> None \<or> seller_of_user w (s_userId s1) \<noteq> None) (put_seller s1)"

definition create_address :: "address_row \<Rightarrow> unit handler" where
  "create_address a =
     db_create (\<lambda>w. tget (addresses w) (a_id a) \<noteq> None) (\<lambda>w. w\<lparr>addresses := tput (a_id a) a (addresses w)\<rparr>)"

text \<open>A text stored under a key that only ever holds raw strings.\<close>

definition raw_get :: "world \<Rightarrow> string \<Rightarrow> string option" where
  "raw_get w k = (case redis_get (clock w) (cache w) k of Some (Raw s) \<Rightarrow> Some s | _ \<Rightarrow> None)"

definition raw_set :: "string \<Rightarrow> string \<Rightarrow> nat \<Rightarrow> world \<Rightarrow> world" where
  "raw_set k v ttl w = upd_cache (redis_set (clock w) k (Raw v) (Some ttl)) w"

section \<open>Sessions\<close>

definition hasRole :: "user_row \<Rightarrow> role \<Rightarrow> bool" where
  "hasRole u r \<longleftrightarrow> r \<in> set (u_roles u)"

record auth_user =
  au_id :: string
  au_email :: string
  au_name :: string
  au_firstName :: "string option"
  au_lastName :: "string option"
  au_gender :: "string option"
  au_roles :: "role list"
  au_sellerProfileId :: "string option"
  au_buyerProfileId :: "string option"
  au_sellerStatus :: "verification_status option"

definition authUserResponse :: "world \<Rightarrow> user_row \<Rightarrow> auth_user" where
  "authUserResponse w u =
     (let seller = (if hasRole u SELLER then seller_of_user w (u_id u) else None);
          buyer = (if hasRole u BUYER then buyer_of_user w (u_id u) else None)
      in \<lparr>au_id = u_id u, au_email = u_email u, au_name = u_name u, au_firstName = u_firstName u,
          au_lastName = u_lastName u, au_gender = u_gender u, au_roles = u_roles u,
          au_sellerProfileId = map_option s_id seller, au_buyerProfileId = map_option b_id buyer,
          au_sellerStatus = map_option s_status seller\<rparr>)"

record auth_result =
  ar_access :: string
  ar_refresh :: "string option"
  ar_user :: auth_user

definition claims_of :: "user_row \<Rightarrow> claims" where
  "claims_of u = \<lparr>cl_sub = u_id u, cl_email = u_email u, cl_roles = u_roles u, cl_jti = None\<rparr>"

text \<open>The tokens of an authenticated user; a refresh token is remembered under its id.\<close>

definition issue_session :: "auth_env \<Rightarrow> string \<Rightarrow> user_row \<Rightarrow> auth_result handler" where
  "issue_session env jti u =
     bind_act (reads clock) (\<lambda>now.
     let access = ae_sign env None now (claims_of u)
     in bind_act (case jwt_refresh_secret env of
          None \<Rightarrow> ret None
        | Some secret \<Rightarrow>
            let t = ae_sign env (Some (secret, jwt_refresh_expires env)) now ((claims_of u)\<lparr>cl_jti := Some jti\<rparr>)
            in seq_act (writes (raw_set (refreshTokenKey jti) (u_id u) REFRESH_TTL_SECONDS)) (ret (nonempty (Some t))))
     (\<lambda>refresh. bind_act (reads (\<lambda>w. authUserResponse w u)) (\<lambda>au.
     ret \<lparr>ar_access = access, ar_refresh = refresh, ar_user = au\<rparr>)))"

definition login :: "auth_env \<Rightarrow> string \<Rightarrow> login_dto \<Rightarrow> auth_result handler" where
  "login env jti d =
     (if \<not> truthy (ld_email d) \<and> \<not> truthy (ld_phone d)
      then throw (BadRequest ''Either email or phone is required'') else
      bind_act (reads (\<lambda>w. find_account w (ld_email d) (ld_phone d))) (\<lambda>user.
      case user of None \<Rightarrow> throw (Unauthorized ''Please check your login credentials'') | Some u \<Rightarrow>
      if \<not> ae_compare env (ld_password d) (u_password u)
      then throw (Unauthorized ''Please check your login credentials'')
      else issue_session env jti u))"

definition invalid_refresh :: exn where
  "invalid_refresh = Unauthorized ''Invalid or expired refresh token''"

text \<open>The result of \<open>refresh\<close> has no refresh token.\<close>

definition refresh :: "auth_env \<Rightarrow> string \<Rightarrow> auth_result handler" where
  "refresh env token =
     (case jwt_refresh_secret env of
        None \<Rightarrow> throw (Unauthorized ''Refresh tokens are not configured'')
      | Some secret \<Rightarrow>
          catching
            (bind_act (reads clock) (\<lambda>now.
             case ae_verify env secret now token of
               None \<Rightarrow> throw (Crash ''JsonWebTokenError'')
             | Some c \<Rightarrow>
                 bind_act (reads (\<lambda>w. raw_get w (refreshTokenKey
                     (case cl_jti c of None \<Rightarrow> ''undefined'' | Some j \<Rightarrow> j)))) (\<lambda>stored.
                 if \<not> truthy stored \<or> stored \<noteq> Some (cl_sub c) then throw invalid_refresh else
                 bind_act (reads (\<lambda>w. tget (users w) (cl_sub c))) (\<lambda>user.
                 case user of None \<Rightarrow> throw (Unauthorized ''User not found'') | Some u \<Rightarrow>
                 bind_act (reads (\<lambda>w. authUserResponse w u)) (\<lambda>au.
                 ret \<lparr>ar_access = ae_sign env None now (claims_of u), ar_refresh = None, ar_user = au\<rparr>)))))
            (\<lambda>_. throw invalid_refresh))"

section \<open>One-time codes\<close>

text \<open>\<open>randomInt(10 ** 5, 10 ** 6 - 1).toString()\<close>: the drawn number lies in the first range.\<close>

definition otp_draw :: "int \<Rightarrow> bool" where
  "otp_draw n \<longleftrightarrow> 10 ^ (OTP_LENGTH - 1) \<le> n \<and> n < 10 ^ OTP_LENGTH - 1"

record otp_dto =
  od_email :: "string option"
  od_phone :: "string option"
  od_purpose :: "otp_purpose option"

definition otp_dto_valid :: "(string \<Rightarrow> bool) \<Rightarrow> otp_dto \<Rightarrow> bool" where
  "otp_dto_valid is_email d \<longleftrightarrow> opt_valid is_email (od_email d) \<and> opt_valid e164 (od_phone d) \<and>
     od_purpose d \<noteq> Some FORGOT_PASSWORD"

definition sendOtp :: "auth_env \<Rightarrow> int \<Rightarrow> otp_dto \<Rightarrow> string handler" where
  "sendOtp env n d =
     (if \<not> truthy (od_email d) \<and> \<not> truthy (od_phone d)
      then throw (BadRequest ''Either email or phone is required'') else
      let ident = the (or_else (od_email d) (od_phone d)); code = int_digits n
      in seq_act (writes (raw_set (otpKey ident) code OTP_TTL_SECONDS))
        (seq_act (if isOtpProd (ae_cfg env) \<and> truthy (od_phone d)
                  then dispatchOtpSms (ae_cfg env) (the (od_phone d)) (od_purpose d) code else ret ())
        (ret ''OTP sent successfully'')))"

record verify_otp_dto =
  vo_email :: "string option"
  vo_phone :: "string option"
  vo_code :: string

definition verify_otp_dto_valid :: "(string \<Rightarrow> bool) \<Rightarrow> verify_otp_dto \<Rightarrow> bool" where
  "verify_otp_dto_valid is_email d \<longleftrightarrow> opt_valid is_email (vo_email d) \<and> opt_valid e164 (vo_phone d) \<and>
     six_digits (vo_code d)"

definition bypass_code :: string where "bypass_code = ''796300''"

definition bypassed :: "auth_env \<Rightarrow> string \<Rightarrow> bool" where
  "bypassed env code \<longleftrightarrow> otpEnv (ae_cfg env) = TESTING \<and> code = bypass_code"

text \<open>\<open>!stored || stored !== code\<close> throws.\<close>

definition code_matches :: "string option \<Rightarrow> string \<Rightarrow> bool" where
  "code_matches stored code \<longleftrightarrow> truthy stored \<and> stored = Some code"

datatype otp_outcome =
    LoggedIn auth_result
  | NewUser "string option" "string option" \<comment> \<open>\<open>isNewUser\<close> with the e-mail and the phone\<close>

definition invalid_otp :: exn where
  "invalid_otp = Unauthorized ''Invalid or expired OTP''"

definition verifyOtp :: "auth_env \<Rightarrow> string \<Rightarrow> verify_otp_dto \<Rightarrow> otp_outcome handler" where
  "verifyOtp env jti d =
     (let code = trim (vo_code d);
          ident = trim (case or_else (vo_email d) (vo_phone d) of None \<Rightarrow> [] | Some i \<Rightarrow> i)
      in if \<not> truthy (vo_email d) \<and> \<not> truthy (vo_phone d)
         then throw (BadRequest ''Either email or phone is required'')
         else if ident = [] then throw (BadRequest ''Either email or phone is required'') else
         seq_act (if bypassed env code then ret () else
           bind_act (reads (\<lambda>w. raw_get w (otpKey ident))) (\<lambda>stored.
           if \<not> code_matches stored code then throw invalid_otp
           else writes (upd_cache (redis_del (otpKey ident)))))
         (bind_act (reads (\<lambda>w. find_account w (vo_email d) (vo_phone d))) (\<lambda>user.
          case user of
            Some u \<Rightarrow> bind_act (issue_session env jti u) (\<lambda>r. ret (LoggedIn r))
          | None \<Rightarrow> ret (NewUser (nonempty (vo_email d)) (nonempty (vo_phone d))))))"

section \<open>Registration\<close>

definition phone_taken :: exn where
  "phone_taken = Conflict ''This phone number is already registered with a different email. Sign in with the email linked to this number, or use the correct email.''"

definition email_taken :: exn where
  "email_taken = Conflict ''This email is already registered. Sign in or use a different email.''"

definition registration_failed :: exn where
  "registration_failed = Conflict ''Registration failed, please try again.''"

text \<open>Phone and e-mail of an account that registers; the account of the phone, if there is one.\<close>

definition check_identity :: "string \<Rightarrow> string \<Rightarrow> user_row option handler" where
  "check_identity phone email =
     bind_act (reads (\<lambda>w. user_by_phone w phone)) (\<lambda>byPhone.
     bind_act (reads (\<lambda>w. user_by_email w email)) (\<lambda>byEmail.
     case byPhone of
       Some u \<Rightarrow> if u_email u \<noteq> email then throw phone_taken else ret (Some u)
     | None \<Rightarrow> if byEmail \<noteq> None then throw email_taken else ret None))"

text \<open>
  The account written: an existing one gets the new password, names and role, a new one is created.
\<close>

definition account_row ::
    "string \<Rightarrow> user_row option \<Rightarrow> string \<Rightarrow> string \<Rightarrow> string \<Rightarrow> name_parts \<Rightarrow> string \<Rightarrow> string option \<Rightarrow> role \<Rightarrow>
     int \<Rightarrow> user_row" where
  "account_row uid existing email phone hash np full gender r now =
     (case existing of
        Some u \<Rightarrow>
          u\<lparr>u_password := hash, u_name := full, u_firstName := nonempty (Some (np_firstName np)),
            u_middleName := np_middleName np, u_lastName := nonempty (np_lastName np), u_gender := gender,
            u_roles := js_set (u_roles u @ [r])\<rparr>
      | None \<Rightarrow>
          \<lparr>u_id = uid, u_email = email, u_phone = Some phone, u_name = full, u_roles = [r], u_password = hash,
           u_firstName = nonempty (Some (np_firstName np)), u_middleName = np_middleName np,
           u_lastName = nonempty (np_lastName np), u_gender = gender, u_createdAt = now\<rparr>)"

definition save_account ::
    "string \<Rightarrow> user_row option \<Rightarrow> string \<Rightarrow> string \<Rightarrow> string \<Rightarrow> name_parts \<Rightarrow> string \<Rightarrow> string option \<Rightarrow> role \<Rightarrow>
     user_row handler" where
  "save_account uid existing email phone hash np full gender r =
     bind_act (reads (\<lambda>w. account_row uid existing email phone hash np full gender r (clock w))) (\<lambda>u.
     seq_act (if existing = None then create_user u else writes (put_user u)) (ret u))"

definition save_buyer_profile :: "string \<Rightarrow> user_row \<Rightarrow> unit handler" where
  "save_buyer_profile bid u =
     bind_act (reads (\<lambda>w. (clock w, buyer_of_user w (u_id u)))) (\<lambda>(now, existing).
     bind_act (case existing of
         Some b \<Rightarrow> ret b
       | None \<Rightarrow>
           let b = \<lparr>b_id = bid, b_userId = u_id u, b_createdAt = now\<rparr>
           in seq_act (create_buyer b) (ret b)) (\<lambda>b.
     bind_act (ensureBuyerRating (b_id b)) (\<lambda>_. ret ())))"

definition welcome_name :: "name_parts \<Rightarrow> string \<Rightarrow> string" where
  "welcome_name np full = str_or (Some (np_firstName np)) (str_or (Some full) ''there'')"

definition registerBuyer ::
    "auth_env \<Rightarrow> string \<Rightarrow> string \<Rightarrow> string \<Rightarrow> string \<Rightarrow> buyer_dto \<Rightarrow> auth_result handler" where
  "registerBuyer env salt uid bid jti d =
     (if \<not> truthy (bd_phone d) then throw (BadRequest ''Phone number is required for registration'') else
      let phone = trim (the (bd_phone d)); email = trim (bd_email d)
      in bind_act (check_identity phone email) (\<lambda>existing.
         let hash = ae_hash env salt (bd_password d); np = resolveNameParts d; full = displayName d
         in seq_act
           (catching
             (seq_act
               (atomic
                 (bind_act (save_account uid existing email phone hash np full (bd_gender d) BUYER) (\<lambda>u.
                  save_buyer_profile bid u)))
               (writes (send_mail (WelcomeMail email (welcome_name np full) BUYER))))
             (\<lambda>_. throw registration_failed))
           (login env jti \<lparr>ld_email = Some email, ld_phone = None, ld_password = bd_password d\<rparr>)))"

definition unset_default :: "(address_row \<Rightarrow> bool) \<Rightarrow> world \<Rightarrow> world" where
  "unset_default P w = w\<lparr>addresses :=
     map (\<lambda>(k, a). (k, if P a then a\<lparr>a_isDefault := False\<rparr> else a)) (addresses w)\<rparr>"

text \<open>The seller profile of the application; an existing one keeps what the form has not.\<close>

definition seller_application :: "seller_dto \<Rightarrow> seller_row \<Rightarrow> seller_row" where
  "seller_application d s1 = s1\<lparr>
     s_businessName := sd_businessName d, s_description := sd_description d, s_gstNumber := sd_gstNumber d,
     s_bankName := Some (trim (sd_bankName d)), s_accountHolderName := Some (trim (sd_accountHolderName d)),
     s_accountType := Some (trim (sd_accountType d)), s_bankAccount := Some (trim (sd_bankAccount d)),
     s_ifscCode := Some (to_upper (trim (sd_ifscCode d))), s_status := VS_PENDING, s_rejectionReason := None,
     s_primaryCategoryId := Some (hd (sd_categoryIds d)),
     s_businessAddress := Some (formatPickupAsBusinessAddress (sd_pickupAddress d))\<rparr>"

definition new_seller :: "string \<Rightarrow> string \<Rightarrow> int \<Rightarrow> seller_row" where
  "new_seller sid uid now = \<lparr>s_id = sid, s_userId = uid, s_businessName = [], s_logoUrl = None, s_status = VS_PENDING,
     s_commissionWaiverActive = False, s_description = None, s_bannerUrl = None, s_websiteUrl = None,
     s_gstNumber = None, s_businessAddress = None, s_primaryCategoryId = None, s_bankAccount = None,
     s_bankName = None, s_accountHolderName = None, s_accountType = None, s_ifscCode = None,
     s_signatureUrl = None, s_rejectionReason = None, s_categories = [], s_createdAt = now\<rparr>"

definition pickup_row :: "string \<Rightarrow> string \<Rightarrow> pickup_dto \<Rightarrow> int \<Rightarrow> address_row" where
  "pickup_row aid uid p now = \<lparr>a_id = aid, a_userId = uid, a_type = PICKUP, a_line1 = trim (pk_line1 p),
     a_line2 = opt_trim (pk_line2 p), a_city = trim (pk_city p), a_state = trim (pk_state p),
     a_zip = trim (pk_zip p), a_country = ''IN'', a_contactName = None, a_phone = None, a_createdAt = now,
     a_isDefault = True, a_latitude = None, a_longitude = None\<rparr>"

definition save_seller_profile :: "string \<Rightarrow> string \<Rightarrow> user_row \<Rightarrow> seller_dto \<Rightarrow> unit handler" where
  "save_seller_profile sid aid u d =
     bind_act (reads (\<lambda>w. (clock w, seller_of_user w (u_id u)))) (\<lambda>(now, existingSeller).
     let s1 = seller_application d (case existingSeller of Some s0 \<Rightarrow> s0 | None \<Rightarrow> new_seller sid (u_id u) now)
     in seq_act (if existingSeller = None then create_seller s1 else writes (put_seller s1))
       (bind_act (ensureSellerRating (s_id s1)) (\<lambda>_.
        seq_act (writes (unset_default (\<lambda>a. a_userId a = u_id u \<and> a_type a = PICKUP)))
       (seq_act (create_address (pickup_row aid (u_id u) (sd_pickupAddress d) now))
        (writes (put_seller (s1\<lparr>s_categories := sd_categoryIds d\<rparr>)))))))"

definition registerSeller ::
    "auth_env \<Rightarrow> string \<Rightarrow> string \<Rightarrow> string \<Rightarrow> string \<Rightarrow> string \<Rightarrow> seller_dto \<Rightarrow> auth_result handler" where
  "registerSeller env salt uid sid aid jti d =
     (let phone = str_or (opt_trim (sd_phone d)) []; email = trim (sd_email d)
      in if phone = [] then throw (BadRequest ''Phone number is required for registration'') else
      bind_act (check_identity phone email) (\<lambda>existing.
      bind_act (reads (\<lambda>w. filter (\<lambda>c. c_id c \<in> set (sd_categoryIds d)) (trows (categories w)))) (\<lambda>cats.
      if length cats \<noteq> length (sd_categoryIds d)
      then throw (BadRequest ''One or more category IDs are invalid'') else
      let hash = ae_hash env salt (sd_password d); np = resolveNameParts d; full = displayName d
      in seq_act
        (catching
          (seq_act
            (atomic
              (bind_act (save_account uid existing email phone hash np full (sd_gender d) SELLER) (\<lambda>u.
               save_seller_profile sid aid u d)))
            (seq_act (writes (send_mail (SellerApplicationMail (sd_email d) (map c_name cats))))
              (writes (send_mail (WelcomeMail email (welcome_name np full) SELLER)))))
          (\<lambda>e. throw (case e of Conflict _ \<Rightarrow> e | BadRequest _ \<Rightarrow> e | _ \<Rightarrow> registration_failed)))
        (login env jti \<lparr>ld_email = Some (sd_email d), ld_phone = None, ld_password = sd_password d\<rparr>))))"

section \<open>Password reset\<close>

definition no_such_phone :: exn where
  "no_such_phone = BadRequest ''No account found with this mobile number''"

definition resetKey :: "string \<Rightarrow> string" where
  "resetKey phone = otpKey (''reset:'' @ phone)"

definition forgotPassword :: "auth_env \<Rightarrow> int \<Rightarrow> string \<Rightarrow> string handler" where
  "forgotPassword env n raw =
     (let phone = trim raw
      in bind_act (reads (\<lambda>w. user_by_phone w phone)) (\<lambda>user.
         case user of None \<Rightarrow> throw no_such_phone | Some _ \<Rightarrow>
         let code = int_digits n
         in seq_act (writes (raw_set (resetKey phone) code OTP_TTL_SECONDS))
           (seq_act (if isOtpProd (ae_cfg env)
                     then dispatchOtpSms (ae_cfg env) phone (Some FORGOT_PASSWORD) code else ret ())
           (ret ''OTP sent to your mobile number''))))"

definition check_reset_code :: "auth_env \<Rightarrow> string \<Rightarrow> string \<Rightarrow> unit handler" where
  "check_reset_code env phone code =
     (if bypassed env (trim code) then ret () else
      bind_act (reads (\<lambda>w. raw_get w (resetKey phone))) (\<lambda>stored.
      if \<not> code_matches stored (trim code) then throw invalid_otp else ret ()))"

definition resetPassword :: "auth_env \<Rightarrow> string \<Rightarrow> reset_dto \<Rightarrow> string handler" where
  "resetPassword env salt d =
     seq_act (check_reset_code env (rs_phone d) (rs_code d))
     (bind_act (reads (\<lambda>w. user_by_phone w (rs_phone d))) (\<lambda>user.
      case user of None \<Rightarrow> throw no_such_phone | Some u \<Rightarrow>
      if ae_compare env (rs_newPassword d) (u_password u)
      then throw (BadRequest ''New password must be different from your previous password'') else
      seq_act (writes (put_user (u\<lparr>u_password := ae_hash env salt (rs_newPassword d)\<rparr>)))
      (seq_act (writes (upd_cache (redis_del (resetKey (rs_phone d)))))
       (ret ''Password reset successfully''))))"

text \<open>The result tells whether the account has a seller profile.\<close>

definition verifyResetPasswordOtp :: "auth_env \<Rightarrow> string \<Rightarrow> string \<Rightarrow> bool handler" where
  "verifyResetPasswordOtp env phone code =
     seq_act (check_reset_code env phone code)
     (bind_act (reads (\<lambda>w. user_by_phone w phone)) (\<lambda>user.
      case user of None \<Rightarrow> throw no_such_phone | Some u \<Rightarrow>
      reads (\<lambda>w. seller_of_user w (u_id u) \<noteq> None)))"

section \<open>Checks before sign-up\<close>

datatype phone_answer =
    PhoneExists bool
  | PhoneProfiles bool bool \<comment> \<open>\<open>hasBuyer\<close>, \<open>hasSeller\<close>\<close>

definition checkPhoneExists :: "string \<Rightarrow> phone_purpose option \<Rightarrow> phone_answer handler" where
  "checkPhoneExists raw purpose =
     reads (\<lambda>w.
       let user = user_by_phone w (trim raw);
           buyer = (case user of None \<Rightarrow> False | Some u \<Rightarrow> buyer_of_user w (u_id u) \<noteq> None);
           seller = (case user of None \<Rightarrow> False | Some u \<Rightarrow> seller_of_user w (u_id u) \<noteq> None)
       in case purpose of
            Some BUYER_REGISTER \<Rightarrow> PhoneExists buyer
          | Some SELLER_REGISTER \<Rightarrow> PhoneExists seller
          | None \<Rightarrow> PhoneProfiles buyer seller)"

definition checkEmailExists :: "string \<Rightarrow> string option \<Rightarrow> bool handler" where
  "checkEmailExists raw phone =
     (let email = trim raw
      in bind_act (reads (\<lambda>w. case nonempty (opt_trim phone) of
             None \<Rightarrow> None | Some p \<Rightarrow> user_by_phone w p)) (\<lambda>byPhone.
         case byPhone of
           Some u \<Rightarrow> if to_lower (u_email u) \<noteq> to_lower email then throw phone_taken else ret False
         | None \<Rightarrow> reads (\<lambda>w. user_by_email_ci w email \<noteq> None)))"

definition registerPushDevice :: "string \<Rightarrow> string \<Rightarrow> string option \<Rightarrow> bool handler" where
  "registerPushDevice uid token platform =
     (let t = trim token; plat = take 32 (str_or (opt_trim platform) ''android'')
      in seq_act (atomic
           (seq_act (writes (\<lambda>w. case tget (pushDevices w) t of
                 Some dv \<Rightarrow> if dv_userId dv \<noteq> uid then w\<lparr>pushDevices := tdel t (pushDevices w)\<rparr> else w
               | None \<Rightarrow> w))
             (writes (\<lambda>w. w\<lparr>pushDevices :=
                 tput t \<lparr>dv_userId = uid, dv_platform = plat\<rparr> (pushDevices w)\<rparr>))))
         (ret True))"

section \<open>Guards\<close>

text \<open>The user of a bearer token, with the payload the token library has checked.\<close>

definition jwt_validate :: "claims \<Rightarrow> user_row handler" where
  "jwt_validate payload =
     bind_act (reads (\<lambda>w. tget (users w) (cl_sub payload))) (\<lambda>user.
     case user of None \<Rightarrow> throw (Unauthorized ''Unauthorized'') | Some u \<Rightarrow> ret u)"

definition no_permission :: exn where
  "no_permission = Forbidden ''You do not have permission to access these resources''"

definition roles_guard :: "role list option \<Rightarrow> user_row option \<Rightarrow> exn + bool" where
  "roles_guard required user =
     (case required of None \<Rightarrow> Inr True | Some rs \<Rightarrow>
      (case user of None \<Rightarrow> Inl no_permission | Some u \<Rightarrow>
       if list_ex (\<lambda>r. r \<in> set rs) (u_roles u) then Inr True else Inl no_permission))"

definition buyer_access_guard :: "world \<Rightarrow> user_row option \<Rightarrow> exn + bool" where
  "buyer_access_guard w user =
     (case user of None \<Rightarrow> Inl no_permission | Some u \<Rightarrow>
      if BUYER \<in> set (u_roles u) \<or> SELLER \<in> set (u_roles u) \<or> buyer_of_user w (u_id u) \<noteq> None
      then Inr True else Inl no_permission)"

definition seller_verified_guard :: "bool \<Rightarrow> world \<Rightarrow> user_row option \<Rightarrow> exn + bool" where
  "seller_verified_guard skip w user =
     (if skip then Inr True else
      case user of None \<Rightarrow> Inr True | Some u \<Rightarrow>
      if SELLER \<notin> set (u_roles u) then Inr True else
      case seller_of_user w (u_id u) of
        None \<Rightarrow> Inl (Forbidden ''Seller profile not found'')
      | Some s1 \<Rightarrow>
          if s_status s1 \<noteq> VS_VERIFIED
          then Inl (Forbidden ''Your seller partner profile is under verification. You will be able to use seller features once VybeKart approves your application.'')
          else Inr True)"

end
