(* ===== verification/AuthFacts.thy ===== *)
theory AuthFacts
  imports Auth
begin

text \<open>
  What the account operations do, as equations for their weakest preconditions, and the
  well-formedness of the account tables: rows under their own ids, unique e-mails, phones and
  profiles, every profile with its user and role.
\<close>

section \<open>Runs\<close>

definition issued_session :: "auth_env \<Rightarrow> string \<Rightarrow> world \<Rightarrow> user_row \<Rightarrow> auth_result" where
  "issued_session env jti w u =
     \<lparr>ar_access = ae_sign env None (clock w) (claims_of u),
      ar_refresh = (case jwt_refresh_secret env of None \<Rightarrow> None | Some secret \<Rightarrow>
         nonempty (Some (ae_sign env (Some (secret, jwt_refresh_expires env)) (clock w) ((claims_of u)\<lparr>cl_jti := Some jti\<rparr>)))),
      ar_user = authUserResponse w u\<rparr>"

definition issued_w :: "auth_env \<Rightarrow> string \<Rightarrow> user_row \<Rightarrow> world \<Rightarrow> world" where
  "issued_w env jti u w =
     (if jwt_refresh_secret env = None then w else raw_set (refreshTokenKey jti) (u_id u) REFRESH_TTL_SECONDS w)"

lemma profiles_raw_set [simp]:
  "buyer_of_user (raw_set k v n w) uid = buyer_of_user w uid"
  "seller_of_user (raw_set k v n w) uid = seller_of_user w uid"
  "authUserResponse (raw_set k v n w) u = authUserResponse w u"
  by (simp_all add: raw_set_def upd_cache_def buyer_of_user_def seller_of_user_def authUserResponse_def)

lemma tables_raw_set [simp]:
  "users (raw_set k v n w) = users w" "buyers (raw_set k v n w) = buyers w"
  "sellers (raw_set k v n w) = sellers w" "clock (raw_set k v n w) = clock w"
  by (simp_all add: raw_set_def upd_cache_def)

lemma wp_issue_session [wp_simps]:
  "wp (issue_session env jti u) Q w = Q (Inr (issued_session env jti w u)) (issued_w env jti u w)"
  by (cases "jwt_refresh_secret env")
    (simp_all add: issue_session_def issued_session_def issued_w_def wp_simps Let_def)

lemma wp_login [wp_simps]:
  "wp (login env jti d) Q w =
     (if \<not> truthy (ld_email d) \<and> \<not> truthy (ld_phone d)
      then Q (Inl (BadRequest ''Either email or phone is required'')) w
      else case find_account w (ld_email d) (ld_phone d) of
          None \<Rightarrow> Q (Inl (Unauthorized ''Please check your login credentials'')) w
        | Some u \<Rightarrow> if ae_compare env (ld_password d) (u_password u)
            then Q (Inr (issued_session env jti w u)) (issued_w env jti u w)
            else Q (Inl (Unauthorized ''Please check your login credentials'')) w)"
  by (cases "find_account w (ld_email d) (ld_phone d)") (simp_all add: login_def wp_simps)

lemma wp_check_identity [wp_simps]:
  "wp (check_identity phone email) Q w =
     (case user_by_phone w phone of
        Some u \<Rightarrow> if u_email u \<noteq> email then Q (Inl phone_taken) w else Q (Inr (Some u)) w
      | None \<Rightarrow> if user_by_email w email \<noteq> None then Q (Inl email_taken) w else Q (Inr None) w)"
  by (cases "user_by_phone w phone") (simp_all add: check_identity_def wp_simps)

definition user_clash :: "user_row \<Rightarrow> world \<Rightarrow> bool" where
  "user_clash u w \<longleftrightarrow> tget (users w) (u_id u) \<noteq> None \<or> user_by_email w (u_email u) \<noteq> None \<or>
     (case u_phone u of None \<Rightarrow> False | Some p \<Rightarrow> user_by_phone w p \<noteq> None)"

lemma wp_save_account [wp_simps]:
  "wp (save_account uid existing email phone hash np full gender r) Q w =
     (let u = account_row uid existing email phone hash np full gender r (clock w)
      in if existing = None \<and> user_clash u w then Q (Inl (Crash ''P2002'')) w else Q (Inr u) (put_user u w))"
  by (cases existing) (simp_all add: save_account_def create_user_def user_clash_def wp_simps Let_def)

definition buyer_profile :: "string \<Rightarrow> user_row \<Rightarrow> world \<Rightarrow> buyer_row" where
  "buyer_profile bid u w = (case buyer_of_user w (u_id u) of Some b \<Rightarrow> b
     | None \<Rightarrow> \<lparr>b_id = bid, b_userId = u_id u, b_createdAt = clock w\<rparr>)"

definition buyer_profile_w :: "string \<Rightarrow> user_row \<Rightarrow> world \<Rightarrow> world" where
  "buyer_profile_w bid u w =
     (let b = buyer_profile bid u w;
          w1 = (if buyer_of_user w (u_id u) = None then w\<lparr>buyers := tput bid b (buyers w)\<rparr> else w)
      in w1\<lparr>buyerRatings := tput (b_id b) (buyer_rating_of w (b_id b)) (buyerRatings w)\<rparr>)"

lemma wp_save_buyer_profile [wp_simps]:
  "wp (save_buyer_profile bid u) Q w =
     (if buyer_of_user w (u_id u) = None \<and> tget (buyers w) bid \<noteq> None then Q (Inl (Crash ''P2002'')) w
      else Q (Inr ()) (buyer_profile_w bid u w))"
  by (cases "buyer_of_user w (u_id u)")
    (simp_all add: save_buyer_profile_def create_buyer_def buyer_profile_w_def buyer_profile_def wp_simps Let_def
      buyer_rating_of_def)

definition seller_profile :: "string \<Rightarrow> user_row \<Rightarrow> seller_dto \<Rightarrow> world \<Rightarrow> seller_row" where
  "seller_profile sid u d w = seller_application d (case seller_of_user w (u_id u) of Some s0 \<Rightarrow> s0
     | None \<Rightarrow> new_seller sid (u_id u) (clock w))"

definition seller_stage_w :: "string \<Rightarrow> user_row \<Rightarrow> seller_dto \<Rightarrow> world \<Rightarrow> world" where
  "seller_stage_w sid u d w =
     (let s1 = seller_profile sid u d w; sk = s_id s1
      in unset_default (\<lambda>a. a_userId a = u_id u \<and> a_type a = PICKUP)
           ((put_seller s1 w)\<lparr>sellerRatings := tput sk (seller_rating_of w sk) (sellerRatings w)\<rparr>))"

definition seller_profile_w :: "string \<Rightarrow> string \<Rightarrow> user_row \<Rightarrow> seller_dto \<Rightarrow> world \<Rightarrow> world" where
  "seller_profile_w sid aid u d w =
     (let w1 = seller_stage_w sid u d w
      in put_seller ((seller_profile sid u d w)\<lparr>s_categories := sd_categoryIds d\<rparr>)
           (w1\<lparr>addresses := tput aid (pickup_row aid (u_id u) (sd_pickupAddress d) (clock w)) (addresses w1)\<rparr>))"

lemma seller_profile_id:
  "seller_of_user w (u_id u) = None \<Longrightarrow> s_id (seller_profile sid u d w) = sid"
  "seller_of_user w (u_id u) = Some s0 \<Longrightarrow> s_id (seller_profile sid u d w) = s_id s0"
  by (simp_all add: seller_profile_def seller_application_def new_seller_def)

lemma tget_unset_default [simp]:
  "tget (addresses (unset_default P w)) k =
     map_option (\<lambda>a. if P a then a\<lparr>a_isDefault := False\<rparr> else a) (tget (addresses w) k)"
proof -
  have "map_of (map (\<lambda>(k, a). (k, f a)) t) k = map_option f (map_of t k)" for f :: "address_row \<Rightarrow> address_row" and t
    by (induction t) auto
  then show ?thesis by (simp add: unset_default_def tget_def)
qed

lemma wp_save_seller_profile [wp_simps]:
  "wp (save_seller_profile sid aid u d) Q w =
     (if seller_of_user w (u_id u) = None \<and> tget (sellers w) sid \<noteq> None then Q (Inl (Crash ''P2002'')) w
      else if tget (addresses w) aid \<noteq> None then Q (Inl (Crash ''P2002'')) (seller_stage_w sid u d w)
      else Q (Inr ()) (seller_profile_w sid aid u d w))"
proof (cases "seller_of_user w (u_id u)")
  case None
  then show ?thesis
    by (auto simp: save_seller_profile_def create_seller_def create_address_def seller_profile_w_def
        seller_stage_w_def seller_profile_def wp_simps Let_def pickup_row_def seller_application_def
        new_seller_def put_seller_def seller_rating_of_def)
next
  case (Some s0)
  then show ?thesis
    by (auto simp: save_seller_profile_def create_seller_def create_address_def seller_profile_w_def
        seller_stage_w_def seller_profile_def wp_simps Let_def pickup_row_def seller_application_def
        new_seller_def put_seller_def seller_rating_of_def)
qed

section \<open>Registration in one step\<close>

definition registered_buyer_w ::
    "auth_env \<Rightarrow> string \<Rightarrow> string \<Rightarrow> string \<Rightarrow> buyer_dto \<Rightarrow> user_row option \<Rightarrow> world \<Rightarrow> world" where
  "registered_buyer_w env salt uid bid d existing w =
     (let np = resolveNameParts d; full = displayName d;
          u = account_row uid existing (trim (bd_email d)) (trim (the (bd_phone d))) (ae_hash env salt (bd_password d))
                np full (bd_gender d) BUYER (clock w)
      in send_mail (WelcomeMail (trim (bd_email d)) (welcome_name np full) BUYER)
           (buyer_profile_w bid u (put_user u w)))"

lemma wp_registerBuyer:
  "wp (registerBuyer env salt uid bid jti d) Q w =
     (if \<not> truthy (bd_phone d) then Q (Inl (BadRequest ''Phone number is required for registration'')) w else
      let phone = trim (the (bd_phone d)); email = trim (bd_email d); byPhone = user_by_phone w phone;
          u = account_row uid byPhone email phone (ae_hash env salt (bd_password d)) (resolveNameParts d)
                (displayName d) (bd_gender d) BUYER (clock w)
      in if (case byPhone of Some v \<Rightarrow> u_email v \<noteq> email | None \<Rightarrow> False) then Q (Inl phone_taken) w
         else if byPhone = None \<and> user_by_email w email \<noteq> None then Q (Inl email_taken) w
         else if byPhone = None \<and> user_clash u w then Q (Inl registration_failed) w
         else if buyer_of_user (put_user u w) (u_id u) = None \<and> tget (buyers w) bid \<noteq> None
         then Q (Inl registration_failed) w
         else wp (login env jti \<lparr>ld_email = Some email, ld_phone = None, ld_password = bd_password d\<rparr>) Q
                (registered_buyer_w env salt uid bid d byPhone w))"
proof -
  have b: "buyers (put_user u w) = buyers w" for u by (simp add: put_user_def)
  show ?thesis
    by (cases "user_by_phone w (trim (the (bd_phone d)))")
      (simp_all add: registerBuyer_def wp_simps Let_def registered_buyer_w_def b)
qed

definition seller_account :: "auth_env \<Rightarrow> string \<Rightarrow> string \<Rightarrow> seller_dto \<Rightarrow> user_row option \<Rightarrow> int \<Rightarrow> user_row" where
  "seller_account env salt uid d existing now =
     account_row uid existing (trim (sd_email d)) (str_or (opt_trim (sd_phone d)) [])
       (ae_hash env salt (sd_password d)) (resolveNameParts d) (displayName d) (sd_gender d) SELLER now"

definition registered_seller_w ::
    "auth_env \<Rightarrow> string \<Rightarrow> string \<Rightarrow> string \<Rightarrow> string \<Rightarrow> seller_dto \<Rightarrow> user_row option \<Rightarrow> string list \<Rightarrow> world \<Rightarrow> world" where
  "registered_seller_w env salt uid sid aid d existing names w =
     (let u = seller_account env salt uid d existing (clock w)
      in send_mail (WelcomeMail (trim (sd_email d)) (welcome_name (resolveNameParts d) (displayName d)) SELLER)
           (send_mail (SellerApplicationMail (sd_email d) names)
             (seller_profile_w sid aid u d (put_user u w))))"

lemma wp_registerSeller:
  "wp (registerSeller env salt uid sid aid jti d) Q w =
     (let phone = str_or (opt_trim (sd_phone d)) []; email = trim (sd_email d); byPhone = user_by_phone w phone;
          cats = filter (\<lambda>c. c_id c \<in> set (sd_categoryIds d)) (trows (categories w));
          u = seller_account env salt uid d byPhone (clock w)
      in if phone = [] then Q (Inl (BadRequest ''Phone number is required for registration'')) w
         else if (case byPhone of Some v \<Rightarrow> u_email v \<noteq> email | None \<Rightarrow> False) then Q (Inl phone_taken) w
         else if byPhone = None \<and> user_by_email w email \<noteq> None then Q (Inl email_taken) w
         else if length cats \<noteq> length (sd_categoryIds d)
         then Q (Inl (BadRequest ''One or more category IDs are invalid'')) w
         else if byPhone = None \<and> user_clash u w then Q (Inl registration_failed) w
         else if seller_of_user (put_user u w) (u_id u) = None \<and> tget (sellers w) sid \<noteq> None
         then Q (Inl registration_failed) w
         else if tget (addresses w) aid \<noteq> None then Q (Inl registration_failed) w
         else wp (login env jti \<lparr>ld_email = Some (sd_email d), ld_phone = None, ld_password = sd_password d\<rparr>) Q
                (registered_seller_w env salt uid sid aid d byPhone (map c_name cats) w))"
proof -
  have b: "sellers (put_user u w) = sellers w" "addresses (put_user u w) = addresses w" for u
    by (simp_all add: put_user_def)
  show ?thesis
    by (cases "user_by_phone w (str_or (opt_trim (sd_phone d)) [])")
      (simp_all add: registerSeller_def wp_simps Let_def registered_seller_w_def seller_account_def b)
qed

section \<open>Well-formed accounts\<close>

definition unique_by :: "('r \<Rightarrow> 'x option) \<Rightarrow> (string, 'r) table \<Rightarrow> bool" where
  "unique_by f t \<longleftrightarrow>
     (\<forall>j k p q. tget t j = Some p \<longrightarrow> tget t k = Some q \<longrightarrow> f p = f q \<longrightarrow> f p \<noteq> None \<longrightarrow> j = k)"

definition users_ok :: "(string, user_row) table \<Rightarrow> bool" where
  "users_ok us \<longleftrightarrow> twf us \<and> (\<forall>k u. tget us k = Some u \<longrightarrow> u_id u = k \<and> distinct (u_roles u)) \<and>
     unique_by (\<lambda>u. Some (u_email u)) us \<and> unique_by u_phone us"

text \<open>A profile table: own ids, one profile per user, and the role of the user.\<close>

definition has_role :: "(string, user_row) table \<Rightarrow> string \<Rightarrow> role \<Rightarrow> bool" where
  "has_role us uid r \<longleftrightarrow> (case tget us uid of None \<Rightarrow> False | Some u \<Rightarrow> r \<in> set (u_roles u))"

definition profiles_ok ::
    "('r \<Rightarrow> string) \<Rightarrow> ('r \<Rightarrow> string) \<Rightarrow> role \<Rightarrow> (string, user_row) table \<Rightarrow> (string, 'r) table \<Rightarrow> bool" where
  "profiles_ok pid puser r us t \<longleftrightarrow> twf t \<and>
     (\<forall>k p. tget t k = Some p \<longrightarrow> pid p = k \<and> has_role us (puser p) r) \<and> unique_by (\<lambda>p. Some (puser p)) t"

definition accounts_ok :: "world \<Rightarrow> bool" where
  "accounts_ok w \<longleftrightarrow> users_ok (users w) \<and> profiles_ok b_id b_userId BUYER (users w) (buyers w) \<and>
     profiles_ok s_id s_userId SELLER (users w) (sellers w)"

text \<open>No account disappears or loses its e-mail, phone or a role.\<close>

definition users_grow :: "(string, user_row) table \<Rightarrow> (string, user_row) table \<Rightarrow> bool" where
  "users_grow us us' \<longleftrightarrow> (\<forall>k u. tget us k = Some u \<longrightarrow>
     (\<exists>u'. tget us' k = Some u' \<and> u_email u' = u_email u \<and> u_phone u' = u_phone u \<and>
        set (u_roles u) \<subseteq> set (u_roles u')))"

definition grown :: "world \<Rightarrow> world \<Rightarrow> bool" where
  "grown w w' \<longleftrightarrow> accounts_ok w' \<and> users_grow (users w) (users w')"

lemma users_grow_refl [simp]: "users_grow us us"
  by (simp add: users_grow_def)

lemma users_growD:
  assumes "users_grow us us'" "tget us k = Some u"
  obtains u' where "tget us' k = Some u'" "u_email u' = u_email u" "u_phone u' = u_phone u"
    "set (u_roles u) \<subseteq> set (u_roles u')"
  using assms unfolding users_grow_def by blast

lemma users_grow_trans:
  assumes "users_grow a b" "users_grow b c"
  shows "users_grow a c"
  unfolding users_grow_def
proof (intro allI impI)
  fix k u assume "tget a k = Some u"
  then obtain v where v: "tget b k = Some v" "u_email v = u_email u" "u_phone v = u_phone u"
      "set (u_roles u) \<subseteq> set (u_roles v)"
    by (rule users_growD[OF assms(1)])
  obtain x where "tget c k = Some x" "u_email x = u_email v" "u_phone x = u_phone v"
      "set (u_roles v) \<subseteq> set (u_roles x)"
    by (rule users_growD[OF assms(2) v(1)])
  with v show "\<exists>u'. tget c k = Some u' \<and> u_email u' = u_email u \<and> u_phone u' = u_phone u \<and>
      set (u_roles u) \<subseteq> set (u_roles u')"
    by auto
qed

lemma unique_by_put:
  assumes "unique_by f t" "\<And>j q. tget t j = Some q \<Longrightarrow> f q = f p \<Longrightarrow> f p \<noteq> None \<Longrightarrow> j = k"
  shows "unique_by f (tput k p t)"
  unfolding unique_by_def
proof (intro allI impI)
  fix i j x y
  assume i: "tget (tput k p t) i = Some x" and j: "tget (tput k p t) j = Some y"
    and e: "f x = f y" "f x \<noteq> None"
  consider "i = k" "j = k" | "i = k" "x = p" "tget t j = Some y" | "j = k" "y = p" "tget t i = Some x"
    | "tget t i = Some x" "tget t j = Some y"
    using i j that by (cases "i = k"; cases "j = k") simp_all
  then show "i = j"
  proof cases
    case 2 with assms(2)[OF 2(3)] e show ?thesis by simp
  next
    case 3 with assms(2)[OF 3(3)] e show ?thesis by simp
  next
    case 4 with assms(1) e show ?thesis by (simp add: unique_by_def)
  qed simp
qed

lemma unique_byD: "unique_by f t \<Longrightarrow> tget t j = Some p \<Longrightarrow> tget t k = Some q \<Longrightarrow> f p = f q \<Longrightarrow> f p \<noteq> None \<Longrightarrow> j = k"
  by (simp add: unique_by_def)

lemma grown_trans: "grown a b \<Longrightarrow> grown b c \<Longrightarrow> grown a c"
  unfolding grown_def by (blast intro: users_grow_trans)

lemma grown_same:
  "accounts_ok w \<Longrightarrow> users w' = users w \<Longrightarrow> buyers w' = buyers w \<Longrightarrow> sellers w' = sellers w \<Longrightarrow> grown w w'"
  by (simp add: grown_def accounts_ok_def)

lemma by_phone_row:
  assumes "users_ok (users w)" "user_by_phone w p = Some u"
  shows "tget (users w) (u_id u) = Some u" "u_phone u = Some p"
proof -
  from assms(2) have u: "u \<in> set (trows (users w))" "u_phone u = Some p"
    by (auto simp: user_by_phone_def dest: tfirst_Some)
  with assms(1) obtain k where "tget (users w) k = Some u"
    unfolding users_ok_def by (meson in_rows_tget)
  with assms(1) u show "tget (users w) (u_id u) = Some u" "u_phone u = Some p"
    by (auto simp: users_ok_def)
qed

lemma no_email_row: "user_by_email w e = None \<Longrightarrow> tget (users w) k = Some u \<Longrightarrow> u_email u \<noteq> e"
  by (auto simp: user_by_email_def tfirst_None dest: tget_in_rows)

lemma no_phone_row: "user_by_phone w p = None \<Longrightarrow> tget (users w) k = Some u \<Longrightarrow> u_phone u \<noteq> Some p"
  by (auto simp: user_by_phone_def tfirst_None dest: tget_in_rows)

lemma users_ok_put:
  assumes us: "users_ok us" and "u_id u = k" "distinct (u_roles u)"
    and "\<And>j v. tget us j = Some v \<Longrightarrow> u_email v = u_email u \<Longrightarrow> j = k"
    and "\<And>j v. tget us j = Some v \<Longrightarrow> u_phone v = u_phone u \<Longrightarrow> u_phone u \<noteq> None \<Longrightarrow> j = k"
  shows "users_ok (tput k u us)"
  using us assms(2,3) unfolding users_ok_def
  by (auto intro!: unique_by_put dest: assms(4,5) split: if_splits)

lemma users_ok_update:
  assumes us: "users_ok us" and "tget us k = Some u0" "u_id u = k" "u_email u = u_email u0"
    "u_phone u = u_phone u0" "distinct (u_roles u)"
  shows "users_ok (tput k u us)"
proof (rule users_ok_put[OF us assms(3,6)])
  fix j v assume j: "tget us j = Some v"
  from us have e: "unique_by (\<lambda>u. Some (u_email u)) us" and p: "unique_by u_phone us"
    by (simp_all add: users_ok_def)
  show "u_email v = u_email u \<Longrightarrow> j = k"
    using unique_byD[OF e j assms(2)] assms(4) by simp
  show "u_phone v = u_phone u \<Longrightarrow> u_phone u \<noteq> None \<Longrightarrow> j = k"
    using unique_byD[OF p j assms(2)] assms(5) by simp
qed

lemma users_grow_put:
  "(\<And>u0. tget us k = Some u0 \<Longrightarrow> u_email u = u_email u0 \<and> u_phone u = u_phone u0 \<and>
      set (u_roles u0) \<subseteq> set (u_roles u)) \<Longrightarrow> users_grow us (tput k u us)"
  by (auto simp: users_grow_def)

lemma has_role_grow: "users_grow us us' \<Longrightarrow> has_role us uid r \<Longrightarrow> has_role us' uid r"
  by (auto simp: has_role_def split: option.splits elim!: users_growD)

lemma profiles_ok_grow: "profiles_ok pid puser r us t \<Longrightarrow> users_grow us us' \<Longrightarrow> profiles_ok pid puser r us' t"
  by (auto simp: profiles_ok_def intro: has_role_grow)

lemma profiles_ok_put:
  assumes t: "profiles_ok pid puser r us t" and "pid p = k" "has_role us (puser p) r"
    and "\<And>j q. tget t j = Some q \<Longrightarrow> puser q = puser p \<Longrightarrow> j = k"
  shows "profiles_ok pid puser r us (tput k p t)"
  using t assms(2,3) unfolding profiles_ok_def
  by (auto intro!: unique_by_put dest: assms(4) split: if_splits)

lemma profile_row:
  assumes "profiles_ok pid puser r us t" "tfirst (\<lambda>p. puser p = uid) t = Some q"
  shows "tget t (pid q) = Some q" "puser q = uid"
proof -
  from assms(2) have q: "q \<in> set (trows t)" "puser q = uid" by (auto dest: tfirst_Some)
  with assms(1) obtain k where "tget t k = Some q" unfolding profiles_ok_def by (meson in_rows_tget)
  with assms(1) q show "tget t (pid q) = Some q" "puser q = uid" by (auto simp: profiles_ok_def)
qed

lemma no_profile: "tfirst (\<lambda>p. puser p = uid) t = None \<Longrightarrow> tget t j = Some q \<Longrightarrow> puser q \<noteq> uid"
  by (auto simp: tfirst_None dest: tget_in_rows)

lemma account_row_simps:
  "u_id (account_row uid ex e p h np f g r now) = (case ex of None \<Rightarrow> uid | Some u \<Rightarrow> u_id u)"
  "u_email (account_row uid ex e p h np f g r now) = (case ex of None \<Rightarrow> e | Some u \<Rightarrow> u_email u)"
  "u_phone (account_row uid ex e p h np f g r now) = (case ex of None \<Rightarrow> Some p | Some u \<Rightarrow> u_phone u)"
  "u_roles (account_row uid ex e p h np f g r now) = (case ex of None \<Rightarrow> [r] | Some u \<Rightarrow> js_set (u_roles u @ [r]))"
  "u_password (account_row uid ex e p h np f g r now) = h"
  by (simp_all add: account_row_def split: option.split)

lemma tables_put_user [simp]:
  "users (put_user u w) = tput (u_id u) u (users w)" "buyers (put_user u w) = buyers w"
  "sellers (put_user u w) = sellers w" "clock (put_user u w) = clock w" "addresses (put_user u w) = addresses w"
  by (simp_all add: put_user_def)

lemma grown_put_user:
  assumes "accounts_ok w" "users_ok (users (put_user u w))" "users_grow (users w) (users (put_user u w))"
  shows "grown w (put_user u w)"
  using assms by (auto simp: grown_def accounts_ok_def intro: profiles_ok_grow)

lemma account_saved:
  assumes w: "accounts_ok w" and u: "u = account_row uid (user_by_phone w phone) email phone h np f g r (clock w)"
    and fresh: "\<not> (user_by_phone w phone = None \<and> user_clash u w)"
  shows "grown w (put_user u w)" "has_role (users (put_user u w)) (u_id u) r"
proof -
  have us: "users_ok (users w)" using w by (simp add: accounts_ok_def)
  have "users_ok (users (put_user u w)) \<and> users_grow (users w) (users (put_user u w))"
  proof (cases "user_by_phone w phone")
    case None
    with fresh u have f: "tget (users w) (u_id u) = None" "user_by_email w (u_email u) = None" "u_phone u = Some phone"
      by (auto simp: user_clash_def account_row_simps)
    have "users_ok (tput (u_id u) u (users w))"
      by (rule users_ok_put[OF us refl]) (use u None no_email_row[OF f(2)] no_phone_row[OF None] f(3) in
          \<open>auto simp: account_row_simps\<close>)
    then show ?thesis using f(1) by (auto intro: users_grow_put)
  next
    case (Some v)
    note v = by_phone_row[OF us Some]
    have [simp]: "u_id u = u_id v" by (simp add: u Some account_row_simps)
    have "users_ok (tput (u_id v) u (users w))"
      by (rule users_ok_update[OF us v(1)]) (simp_all add: u Some account_row_simps)
    moreover have "users_grow (users w) (tput (u_id v) u (users w))"
      by (rule users_grow_put) (use v in \<open>auto simp: u Some account_row_simps\<close>)
    ultimately show ?thesis by simp
  qed
  then show "grown w (put_user u w)" by (blast intro: grown_put_user[OF w])
  show "has_role (users (put_user u w)) (u_id u) r"
    by (simp add: has_role_def u account_row_simps split: option.split)
qed

lemma grown_buyer_profile:
  assumes w: "accounts_ok w" and r: "has_role (users w) (u_id u) BUYER"
    and fresh: "\<not> (buyer_of_user w (u_id u) = None \<and> tget (buyers w) bid \<noteq> None)"
  shows "grown w (buyer_profile_w bid u w)"
proof (cases "buyer_of_user w (u_id u)")
  case None
  have "profiles_ok b_id b_userId BUYER (users w) (tput bid (buyer_profile bid u w) (buyers w))"
    using w r no_profile[of b_userId "u_id u" "buyers w"] None
    by (intro profiles_ok_put) (auto simp: accounts_ok_def buyer_profile_def buyer_of_user_def)
  then show ?thesis using w by (simp add: grown_def accounts_ok_def buyer_profile_w_def None Let_def)
next
  case (Some b)
  then show ?thesis using w by (auto simp: buyer_profile_w_def Let_def intro: grown_same)
qed

lemma seller_profile_user: "accounts_ok w \<Longrightarrow> s_userId (seller_profile sid u d w) = u_id u"
  using profile_row(2)[of s_id s_userId SELLER "users w" "sellers w" "u_id u"]
  by (simp add: seller_profile_def seller_application_def new_seller_def seller_of_user_def accounts_ok_def
      split: option.split)

lemma grown_put_seller:
  assumes w: "accounts_ok w" and r: "has_role (users w) (s_userId s1) SELLER"
    and own: "\<And>j q. tget (sellers w) j = Some q \<Longrightarrow> s_userId q = s_userId s1 \<Longrightarrow> j = s_id s1"
  shows "grown w (put_seller s1 w)"
proof -
  have "profiles_ok s_id s_userId SELLER (users w) (tput (s_id s1) s1 (sellers w))"
    using w r own by (intro profiles_ok_put) (auto simp: accounts_ok_def)
  then show ?thesis using w by (simp add: grown_def accounts_ok_def put_seller_def)
qed

lemma grown_seller_profile:
  assumes w: "accounts_ok w" and r: "has_role (users w) (u_id u) SELLER"
    and fresh: "\<not> (seller_of_user w (u_id u) = None \<and> tget (sellers w) sid \<noteq> None)"
  shows "grown w (seller_profile_w sid aid u d w)"
proof -
  let ?s = "seller_profile sid u d w"
  have own: "j = s_id ?s" if "tget (sellers w) j = Some q" "s_userId q = u_id u" for j q
  proof (cases "seller_of_user w (u_id u)")
    case None
    then show ?thesis using no_profile[of s_userId "u_id u" "sellers w" j q] that by (simp add: seller_of_user_def)
  next
    case (Some s0)
    from w have ok: "profiles_ok s_id s_userId SELLER (users w) (sellers w)" by (simp add: accounts_ok_def)
    note s0 = profile_row[OF ok Some[unfolded seller_of_user_def]]
    from ok have one: "unique_by (\<lambda>p. Some (s_userId p)) (sellers w)" by (simp add: profiles_ok_def)
    have "j = s_id s0" by (rule unique_byD[OF one that(1) s0(1)]) (simp_all add: that(2) s0(2))
    then show ?thesis using seller_profile_id(2)[of w u s0 sid d] Some by simp
  qed
  have g1: "grown w (put_seller ?s w)"
    using own r by (intro grown_put_seller[OF w]) (simp_all add: seller_profile_user[OF w])
  let ?w1 = "(seller_stage_w sid u d w)\<lparr>addresses :=
      tput aid (pickup_row aid (u_id u) (sd_pickupAddress d) (clock w)) (addresses (seller_stage_w sid u d w))\<rparr>"
  have same: "users ?w1 = users w" "sellers ?w1 = sellers (put_seller ?s w)" "buyers ?w1 = buyers w"
    by (simp_all add: seller_stage_w_def unset_default_def Let_def put_seller_def)
  have w1: "accounts_ok ?w1" using g1 same
    by (simp add: grown_def accounts_ok_def put_seller_def)
  have "grown ?w1 (put_seller (?s\<lparr>s_categories := sd_categoryIds d\<rparr>) ?w1)"
    using r own by (intro grown_put_seller[OF w1])
      (auto simp: same seller_profile_user[OF w] put_seller_def split: if_splits)
  then show ?thesis
    using same by (simp add: seller_profile_w_def Let_def grown_def)
qed

section \<open>Every operation keeps the accounts\<close>

datatype auth_op =
    Login string login_dto
  | Refresh string
  | SendOtp int otp_dto
  | VerifyOtp string verify_otp_dto
  | RegisterBuyer string string string string buyer_dto
  | RegisterSeller string string string string string seller_dto
  | ForgotPassword int string
  | ResetPassword string reset_dto
  | VerifyReset string string
  | CheckPhone string "phone_purpose option"
  | CheckEmail string "string option"
  | PushDevice string string "string option"
  | Wait nat \<comment> \<open>time passes, in milliseconds\<close>

fun run_auth_op :: "auth_env \<Rightarrow> auth_op \<Rightarrow> world \<Rightarrow> world" where
  "run_auth_op env (Login jti d) w = snd (login env jti d w)"
| "run_auth_op env (Refresh t) w = snd (refresh env t w)"
| "run_auth_op env (SendOtp n d) w = snd (sendOtp env n d w)"
| "run_auth_op env (VerifyOtp jti d) w = snd (verifyOtp env jti d w)"
| "run_auth_op env (RegisterBuyer salt uid bid jti d) w = snd (registerBuyer env salt uid bid jti d w)"
| "run_auth_op env (RegisterSeller salt uid sid aid jti d) w = snd (registerSeller env salt uid sid aid jti d w)"
| "run_auth_op env (ForgotPassword n p) w = snd (forgotPassword env n p w)"
| "run_auth_op env (ResetPassword salt d) w = snd (resetPassword env salt d w)"
| "run_auth_op env (VerifyReset p c) w = snd (verifyResetPasswordOtp env p c w)"
| "run_auth_op env (CheckPhone p q) w = snd (checkPhoneExists p q w)"
| "run_auth_op env (CheckEmail e p) w = snd (checkEmailExists e p w)"
| "run_auth_op env (PushDevice uid t p) w = snd (registerPushDevice uid t p w)"
| "run_auth_op env (Wait n) w = w\<lparr>clock := clock w + int n\<rparr>"

definition run_auth_ops :: "auth_env \<Rightarrow> auth_op list \<Rightarrow> world \<Rightarrow> world" where
  "run_auth_ops env ops w = fold (run_auth_op env) ops w"

text \<open>Operations that leave the account tables alone.\<close>

definition same_accounts :: "world \<Rightarrow> world \<Rightarrow> bool" where
  "same_accounts w w' \<longleftrightarrow> users w' = users w \<and> buyers w' = buyers w \<and> sellers w' = sellers w"

lemma keeps_same_writes: "(\<And>v. same_accounts v (f v)) \<Longrightarrow> keeps (same_accounts w) (writes f)"
  by (auto simp: keeps_def wp_simps same_accounts_def)

lemma same_accounts_simps [simp]:
  "same_accounts v v" "same_accounts v (raw_set k x n v)" "same_accounts v (upd_cache g v)"
  "same_accounts v (send_mail m v)" "same_accounts v (issued_w env jti u v)"
  by (simp_all add: same_accounts_def upd_cache_def send_mail_def issued_w_def)

lemma same_accounts_trans: "same_accounts a b \<Longrightarrow> same_accounts b c \<Longrightarrow> same_accounts a c"
  by (simp add: same_accounts_def)

lemma keeps_same_login [keeps_rules]: "keeps (same_accounts w) (login env jti d)"
  by (auto simp: keeps_def wp_simps split: option.split intro: same_accounts_trans)

lemma keeps_same_issue [keeps_rules]: "keeps (same_accounts w) (issue_session env jti u)"
  by (auto simp: keeps_def wp_simps intro: same_accounts_trans)

lemma keeps_same_sms [keeps_rules]: "keeps (same_accounts w) (dispatchOtpSms cfg phone p code)"
  by (rule keeps_dispatch) (auto intro: same_accounts_trans)

lemma keeps_same_ops:
  "keeps (same_accounts w) (refresh env t)"
  "keeps (same_accounts w) (sendOtp env n so)"
  "keeps (same_accounts w) (verifyOtp env jti vo)"
  "keeps (same_accounts w) (forgotPassword env n phone)"
  "keeps (same_accounts w) (verifyResetPasswordOtp env phone code)"
  "keeps (same_accounts w) (checkPhoneExists phone q)"
  "keeps (same_accounts w) (checkEmailExists em ph)"
  "keeps (same_accounts w) (registerPushDevice uid tok pl)"
  by (auto simp: refresh_def sendOtp_def verifyOtp_def forgotPassword_def verifyResetPasswordOtp_def
      check_reset_code_def checkPhoneExists_def checkEmailExists_def registerPushDevice_def Let_def
      same_accounts_def upd_cache_def split: option.split intro!: keeps_rules keeps_same_writes)

lemma grown_of_same: "accounts_ok w \<Longrightarrow> keeps (same_accounts w) m \<Longrightarrow> grown w (snd (m w))"
  using keepsD[of "same_accounts w" m w "fst (m w)" "snd (m w)"]
  by (auto simp: same_accounts_def intro: grown_same)

lemma grown_then_same: "grown w v \<Longrightarrow> same_accounts v v' \<Longrightarrow> grown w v'"
  by (auto simp: grown_def accounts_ok_def same_accounts_def)

lemma grown_frame [simp]:
  "grown w (send_mail m v) = grown w v" "grown w (upd_cache g v) = grown w v"
  by (simp_all add: grown_def accounts_ok_def send_mail_def upd_cache_def)

lemma wp_login_grown: "grown w v \<Longrightarrow> wp (login env jti d) (\<lambda>_. grown w) v"
  using keeps_wp[OF keeps_same_login, of v v env jti d]
  by (auto intro: wp_mono grown_then_same)

lemma grown_registerBuyer:
  assumes w: "accounts_ok w"
  shows "wp (registerBuyer env salt uid bid jti d) (\<lambda>_. grown w) w"
proof -
  let ?p = "trim (the (bd_phone d))"
  let ?u = "account_row uid (user_by_phone w ?p) (trim (bd_email d)) ?p (ae_hash env salt (bd_password d))
      (resolveNameParts d) (displayName d) (bd_gender d) BUYER (clock w)"
  have "grown w (registered_buyer_w env salt uid bid d (user_by_phone w ?p) w)"
    if f: "\<not> (user_by_phone w ?p = None \<and> user_clash ?u w)"
      "\<not> (buyer_of_user (put_user ?u w) (u_id ?u) = None \<and> tget (buyers w) bid \<noteq> None)"
  proof -
    note g = account_saved[OF w refl f(1)]
    have "grown w (buyer_profile_w bid ?u (put_user ?u w))"
      using f(2) g by (intro grown_trans[OF g(1)] grown_buyer_profile) (auto simp: grown_def)
    then show ?thesis by (simp add: registered_buyer_w_def Let_def)
  qed
  moreover have "grown w w" using w by (simp add: grown_def)
  ultimately show ?thesis by (auto simp: wp_registerBuyer Let_def intro: wp_login_grown)
qed

lemma grown_registerSeller:
  assumes w: "accounts_ok w"
  shows "wp (registerSeller env salt uid sid aid jti d) (\<lambda>_. grown w) w"
proof -
  let ?p = "str_or (opt_trim (sd_phone d)) []"
  let ?u = "seller_account env salt uid d (user_by_phone w ?p) (clock w)"
  have "grown w (registered_seller_w env salt uid sid aid d (user_by_phone w ?p) names w)"
    if f: "\<not> (user_by_phone w ?p = None \<and> user_clash ?u w)"
      "\<not> (seller_of_user (put_user ?u w) (u_id ?u) = None \<and> tget (sellers w) sid \<noteq> None)" for names
  proof -
    note g = account_saved[OF w seller_account_def f(1)]
    have "grown w (seller_profile_w sid aid ?u d (put_user ?u w))"
      using f(2) g by (intro grown_trans[OF g(1)] grown_seller_profile) (auto simp: grown_def)
    then show ?thesis by (simp add: registered_seller_w_def Let_def)
  qed
  moreover have "grown w w" using w by (simp add: grown_def)
  ultimately show ?thesis by (auto simp: wp_registerSeller Let_def intro: wp_login_grown)
qed

lemma grown_resetPassword:
  assumes w: "accounts_ok w"
  shows "wp (resetPassword env salt d) (\<lambda>_. grown w) w"
proof -
  have us: "users_ok (users w)" using w by (simp add: accounts_ok_def)
  have put: "grown w (put_user (u\<lparr>u_password := h\<rparr>) w)" if u: "user_by_phone w (rs_phone d) = Some u" for u h
  proof (rule grown_put_user[OF w])
    note r = by_phone_row(1)[OF us u]
    have "distinct (u_roles u)" using us r by (simp add: users_ok_def)
    then show "users_ok (users (put_user (u\<lparr>u_password := h\<rparr>) w))"
      using users_ok_update[OF us r, of "u\<lparr>u_password := h\<rparr>"] by simp
    show "users_grow (users w) (users (put_user (u\<lparr>u_password := h\<rparr>) w))"
      using r by (auto intro: users_grow_put)
  qed
  have "grown w w" using w by (simp add: grown_def)
  then show ?thesis using put
    by (cases "user_by_phone w (rs_phone d)")
      (auto simp: resetPassword_def check_reset_code_def wp_simps)
qed

lemma grown_of_wp: "wp m (\<lambda>_. grown w) v \<Longrightarrow> grown w (snd (m v))"
  by (simp add: wp_def split_beta)

lemma grown_step:
  assumes w: "accounts_ok w"
  shows "grown w (run_auth_op env oper w)"
  by (cases oper)
    (auto intro: grown_same[OF w] grown_of_same[OF w] keeps_same_ops keeps_same_login
      grown_of_wp[OF grown_registerBuyer[OF w]] grown_of_wp[OF grown_registerSeller[OF w]]
      grown_of_wp[OF grown_resetPassword[OF w]])

lemma grown_ops: "accounts_ok w \<Longrightarrow> grown w (run_auth_ops env ops w)"
proof (induction ops arbitrary: w)
  case Nil
  then show ?case by (simp add: run_auth_ops_def grown_def)
next
  case (Cons oper ops)
  have g: "grown w (run_auth_op env oper w)" using Cons.prems by (rule grown_step)
  then have "accounts_ok (run_auth_op env oper w)" by (simp add: grown_def)
  from grown_trans[OF g Cons.IH[OF this]] show ?case by (simp add: run_auth_ops_def)
qed

end
