(* ===== verification/AccountProperties.thy ===== *)
theory AccountProperties
  imports AuthFacts Sample
begin

text \<open>
  The properties of the accounts: the account tables stay well formed and no account is lost, a
  one-time code opens one session within ten minutes, a refresh token works for thirty days, and a
  registered buyer can log in, with the registration shown to replace the password of an existing account.
\<close>

section \<open>Sample parameters\<close>

text \<open>
  The production configuration with refresh tokens; a hash is the two characters of the salt and the
  password, a token names its user.
\<close>

definition sample_env :: auth_env where
  "sample_env = \<lparr>ae_cfg = (\<lambda>k. if k = ''OTP_ENV'' then Some ''production''
       else if k = ''JWT_REFRESH_SECRET'' then Some ''secret'' else None),
     ae_hash = (\<lambda>salt p. take 2 (salt @ ''00'') @ p), ae_compare = (\<lambda>p h. drop 2 h = p),
     ae_sign = (\<lambda>opts now c. if opts = None then ''access '' @ cl_sub c else ''refresh '' @ cl_sub c),
     ae_verify = (\<lambda>s1 now t. if t = ''refresh u1''
       then Some \<lparr>cl_sub = ''u1'', cl_email = ''b@x'', cl_roles = [BUYER], cl_jti = Some ''j1''\<rparr> else None)\<rparr>"




definition sample_login :: login_dto where
  "sample_login = \<lparr>ld_email = Some '' B@X'', ld_phone = None, ld_password = ''pw''\<rparr>"

definition sample_session :: auth_result where
  "sample_session = (case fst (login sample_env ''j1'' sample_login sample) of Inr r \<Rightarrow> r)"

definition sample_signup :: buyer_dto where
  "sample_signup = \<lparr>nm_name = None, nm_firstName = Some ''Mira'', nm_middleName = None, nm_lastName = Some ''Rao'',
     bd_email = ''m@y'', bd_password = ''secret1'', bd_gender = Some ''FEMALE'', bd_phone = Some ''9000000000''\<rparr>"

lemma sample_user_rows:
  "tget (users sample) k = Some u \<Longrightarrow> (k = ''u1'' \<and> u_id u = ''u1'' \<and> u_email u = ''b@x'' \<and>
      u_phone u = Some ''9876543210'' \<and> u_roles u = [BUYER]) \<or>
     (k = ''u2'' \<and> u_id u = ''u2'' \<and> u_email u = ''s@x'' \<and> u_phone u = Some ''9876543211'' \<and> u_roles u = [SELLER])"
  by (auto simp: sample_def tget_def split: if_splits)

lemma accounts_ok_sample: "accounts_ok sample"
proof -
  have "twf (users sample)" "twf (buyers sample)" "twf (sellers sample)"
    by (simp_all add: sample_def twf_def)
  moreover have "unique_by (\<lambda>u. Some (u_email u)) (users sample)" "unique_by u_phone (users sample)"
    unfolding unique_by_def by (auto dest!: sample_user_rows)
  moreover have b: "tget (buyers sample) k = Some b \<Longrightarrow> k = ''b1'' \<and> b_id b = ''b1'' \<and> b_userId b = ''u1''" for k b
    by (auto simp: sample_def tget_def split: if_splits)
  moreover have s1: "tget (sellers sample) k = Some b \<Longrightarrow> k = ''s1'' \<and> s_id b = ''s1'' \<and> s_userId b = ''u2''" for k b
    by (auto simp: sample_def tget_def split: if_splits)
  moreover have "unique_by (\<lambda>p. Some (b_userId p)) (buyers sample)" "unique_by (\<lambda>p. Some (s_userId p)) (sellers sample)"
    unfolding unique_by_def by (auto dest!: b s1)
  moreover have "has_role (users sample) ''u1'' BUYER" "has_role (users sample) ''u2'' SELLER" by code_simp+
  ultimately show ?thesis
    unfolding accounts_ok_def users_ok_def profiles_ok_def by (auto dest!: sample_user_rows)
qed

section \<open>One-time codes\<close>


definition elapse :: "nat \<Rightarrow> world \<Rightarrow> world" where
  "elapse ms w = w\<lparr>clock := clock w + int ms\<rparr>"

lemma elapse_simps [simp]:
  "clock (elapse n w) = clock w + int n" "cache (elapse n w) = cache w" "users (elapse n w) = users w"
  "buyers (elapse n w) = buyers w" "sellers (elapse n w) = sellers w"
  by (simp_all add: elapse_def)

lemma int_digits_nonempty [simp]: "int_digits n \<noteq> []"
  by (subst int_digits.simps) simp


lemma response_frame:
  "buyers w' = buyers w \<Longrightarrow> sellers w' = sellers w \<Longrightarrow> authUserResponse w' u = authUserResponse w u"
  by (simp add: authUserResponse_def buyer_of_user_def seller_of_user_def)



lemma raw_get_after:
  assumes "cache v = redis_set (clock w) k (Raw x) (Some (Suc n)) r" "clock v = clock w + d"
  shows "raw_get v k = (if d < 1000 * int (Suc n) then Some x else None)"
  using assms by (simp add: raw_get_def redis_get_after)








lemma raw_get_del: "raw_get (upd_cache (redis_del k) w) k = None"
  by (simp add: raw_get_def upd_cache_def)





section \<open>Refresh tokens\<close>

lemma login_run:
  "login env jti d w =
     (if \<not> truthy (ld_email d) \<and> \<not> truthy (ld_phone d)
      then (Inl (BadRequest ''Either email or phone is required''), w)
      else case find_account w (ld_email d) (ld_phone d) of
          None \<Rightarrow> (Inl (Unauthorized ''Please check your login credentials''), w)
        | Some u \<Rightarrow> if ae_compare env (ld_password d) (u_password u)
            then (Inr (issued_session env jti w u), issued_w env jti u w)
            else (Inl (Unauthorized ''Please check your login credentials''), w))"
  using wp_login[of env jti d "\<lambda>r v. (r, v) = login env jti d w" w]
  by (cases "find_account w (ld_email d) (ld_phone d)") (auto simp: wp_def split_beta split: if_splits)

lemma find_account_row:
  assumes "accounts_ok w" "find_account w e p = Some u"
  shows "tget (users w) (u_id u) = Some u"
proof -
  have us: "users_ok (users w)" using assms(1) by (simp add: accounts_ok_def)
  from assms(2) have "u \<in> set (trows (users w))"
    by (auto simp: find_account_def user_by_email_ci_def user_by_phone_def dest: tfirst_Some split: if_splits option.splits)
  then obtain k where "tget (users w) k = Some u" using us unfolding users_ok_def by (meson in_rows_tget)
  with us show ?thesis by (auto simp: users_ok_def)
qed

text \<open>
  C32: A refresh token lasts thirty days and speaks for one user. When a log-in handed out a refresh
  token and the token library gives its claims back later, \<open>refresh\<close> answers with a new access
  token of the same user and the same profile as long as thirty days have not passed since the
  log-in, and refuses the token from then on; the store is not touched.
\<close>

theorem refresh_lasts_thirty_days:
  assumes w: "accounts_ok w" and u: "find_account w (ld_email d) (ld_phone d) = Some u" "u_id u \<noteq> []"
    and secret: "jwt_refresh_secret env = Some secret"
    and logged: "login env jti d w = (Inr r, w1)" "ar_refresh r = Some token"
    and verify: "ae_verify env secret (clock w + int ms) token = Some ((claims_of u)\<lparr>cl_jti := Some jti\<rparr>)"
  shows "au_id (ar_user r) = u_id u \<and>
     refresh env token (elapse ms w1) =
       (if ms < 2592000000
        then (Inr \<lparr>ar_access = ae_sign env None (clock w + int ms) (claims_of u), ar_refresh = None,
                   ar_user = ar_user r\<rparr>, elapse ms w1)
        else (Inl invalid_refresh, elapse ms w1))"
proof -
  have r: "r = issued_session env jti w u" and w1: "w1 = raw_set (refreshTokenKey jti) (u_id u) REFRESH_TTL_SECONDS w"
    using logged(1) u(1) secret by (auto simp: login_run issued_w_def split: if_splits)
  have get: "raw_get (elapse ms w1) (refreshTokenKey jti) = (if ms < 2592000000 then Some (u_id u) else None)"
    using raw_get_after[of "elapse ms w1" w "refreshTokenKey jti" "u_id u" 2591999 "cache w" "int ms"]
    by (simp add: w1 raw_set_def upd_cache_def REFRESH_TTL_SECONDS_def)
  have row: "tget (users (elapse ms w1)) (u_id u) = Some u"
    using find_account_row[OF w u(1)] by (simp add: w1)
  have resp: "authUserResponse (elapse ms w1) u = ar_user r"
    unfolding r issued_session_def auth_result.simps by (rule response_frame) (simp_all add: w1)
  have [simp]: "cl_sub (claims_of u) = u_id u" by (simp add: claims_of_def)
  have c: "clock (elapse ms w1) = clock w + int ms" by (simp add: w1)
  have "refresh env token (elapse ms w1) =
       (if ms < 2592000000
        then (Inr \<lparr>ar_access = ae_sign env None (clock w + int ms) (claims_of u), ar_refresh = None,
                   ar_user = ar_user r\<rparr>, elapse ms w1)
        else (Inl invalid_refresh, elapse ms w1))"
    unfolding refresh_def secret option.case
    by (simp add: catching_def bind_act_def reads_def ret_def throw_def c verify get row resp u(2) truthy_def
        del: elapse_simps)
  moreover have "au_id (ar_user r) = u_id u" by (simp add: r issued_session_def authUserResponse_def Let_def)
  ultimately show ?thesis by simp
qed

theorem refresh_lasts_thirty_days_witness:
  "au_id (ar_user sample_session) = ''u1'' \<and>
   refresh sample_env ''refresh u1'' (elapse 1000 (snd (login sample_env ''j1'' sample_login sample))) =
     (Inr \<lparr>ar_access = ''access u1'', ar_refresh = None, ar_user = ar_user sample_session\<rparr>,
      elapse 1000 (snd (login sample_env ''j1'' sample_login sample)))"
proof -
  let ?c = "\<lparr>cl_sub = ''u1'', cl_email = ''b@x'', cl_roles = [BUYER], cl_jti = None\<rparr>"
  have "case find_account sample (ld_email sample_login) (ld_phone sample_login) of None \<Rightarrow> False
      | Some u \<Rightarrow> u_id u = ''u1'' \<and> claims_of u = ?c \<and> ae_compare sample_env (ld_password sample_login) (u_password u)"
    by code_simp
  then obtain u where u: "find_account sample (ld_email sample_login) (ld_phone sample_login) = Some u"
      "u_id u = ''u1''" "claims_of u = ?c" "ae_compare sample_env (ld_password sample_login) (u_password u)"
    by (auto split: option.splits)
  have "truthy (ld_email sample_login)" by code_simp
  then have log: "login sample_env ''j1'' sample_login sample =
      (Inr sample_session, snd (login sample_env ''j1'' sample_login sample))"
    using u(1,4) by (simp add: sample_session_def login_run)
  have secret: "jwt_refresh_secret sample_env = Some ''secret''" by code_simp
  from log have ss: "sample_session = issued_session sample_env ''j1'' sample u"
    using u(1,4) \<open>truthy (ld_email sample_login)\<close> by (simp add: login_run)
  have tok: "ar_refresh sample_session = Some ''refresh u1''"
    unfolding ss issued_session_def by (simp add: secret nonempty_def) (simp add: sample_env_def u(3))
  have ne: "u_id u \<noteq> []" by (simp add: u(2))
  have verify: "ae_verify sample_env ''secret'' (clock sample + int 1000) ''refresh u1'' =
      Some ((claims_of u)\<lparr>cl_jti := Some ''j1''\<rparr>)"
    by (simp add: sample_env_def u(3))
  have "ae_sign sample_env None (clock sample + int 1000) (claims_of u) = ''access u1''"
    by (simp add: sample_env_def u(3))
  then show ?thesis
    using refresh_lasts_thirty_days[OF accounts_ok_sample u(1) ne secret log tok verify] u(2) by simp
qed

section \<open>Registration\<close>

lemma tfirst_tput_new: "tfirst P t = None \<Longrightarrow> tget t k = None \<Longrightarrow> P r \<Longrightarrow> tfirst P (tput k r t) = Some r"
proof -
  have "find P (xs @ [r]) = Some r" if "find P xs = None" "P r" for xs
    using that by (induction xs) (auto split: if_splits)
  then show "tfirst P t = None \<Longrightarrow> tget t k = None \<Longrightarrow> P r \<Longrightarrow> tfirst P (tput k r t) = Some r"
    by (simp add: tfirst_def trows_tput_new)
qed

text \<open>
  C17: A registered buyer can log in, and nobody else as that buyer. With a phone number and an e-mail
  address that no account has, in any case of letters, registration creates the account with the
  buyer role and profile and opens its session; afterwards a log-in with that e-mail succeeds for
  exactly the passwords bcrypt accepts for the stored hash, and opens the session of the same account.
\<close>

theorem registered_buyer_logs_in:
  assumes w: "accounts_ok w"
    and phone: "truthy (bd_phone d)" "user_by_phone w (trim (the (bd_phone d))) = None"
    and email: "trim (bd_email d) \<noteq> []" "user_by_email_ci w (trim (bd_email d)) = None"
    and ids: "tget (users w) uid = None" "tget (buyers w) bid = None"
    and bcrypt: "ae_compare env (bd_password d) (ae_hash env salt (bd_password d))"
  shows "case registerBuyer env salt uid bid jti d w of
      (Inl e, w1) \<Rightarrow> False
    | (Inr r, w1) \<Rightarrow>
        au_id (ar_user r) = uid \<and> au_roles (ar_user r) = [BUYER] \<and> au_buyerProfileId (ar_user r) = Some bid \<and>
        (\<forall>pw jti'. case login env jti' \<lparr>ld_email = Some (bd_email d), ld_phone = None, ld_password = pw\<rparr> w1 of
            (Inr r2, w2) \<Rightarrow> ae_compare env pw (ae_hash env salt (bd_password d)) \<and> au_id (ar_user r2) = uid
          | (Inl e, w2) \<Rightarrow> \<not> ae_compare env pw (ae_hash env salt (bd_password d)) \<and> w2 = w1 \<and>
              e = Unauthorized ''Please check your login credentials'')"
proof -
  let ?u = "account_row uid None (trim (bd_email d)) (trim (the (bd_phone d))) (ae_hash env salt (bd_password d))
      (resolveNameParts d) (displayName d) (bd_gender d) BUYER (clock w)"
  let ?w1 = "registered_buyer_w env salt uid bid d None w"
  let ?w2 = "issued_w env jti ?u ?w1"
  have noemail: "user_by_email w (trim (bd_email d)) = None"
    using email(2) by (auto simp: user_by_email_ci_def user_by_email_def tfirst_None)
  have nobuyer: "buyer_of_user (put_user ?u w) uid = None"
  proof (cases "buyer_of_user w uid")
    case (Some b)
    from w have "profiles_ok b_id b_userId BUYER (users w) (buyers w)" by (simp add: accounts_ok_def)
    then have "has_role (users w) uid BUYER"
      using profile_row[of b_id b_userId BUYER "users w" "buyers w" uid b] Some
      by (auto simp: buyer_of_user_def profiles_ok_def)
    with ids(1) show ?thesis by (simp add: has_role_def)
  qed (simp add: buyer_of_user_def)
  have us: "users ?w1 = tput uid ?u (users w)" "buyers ?w1 = tput bid \<lparr>b_id = bid, b_userId = uid, b_createdAt = clock w\<rparr> (buyers w)"
    using nobuyer
    by (simp_all add: registered_buyer_w_def Let_def send_mail_def buyer_profile_w_def buyer_profile_def account_row_simps)
  have ci: "user_by_email_ci v (trim (bd_email d)) = Some ?u" if "users v = users ?w1" for v
    using email(2) ids(1) by (simp add: user_by_email_ci_def that us tfirst_tput_new account_row_simps)
  have e: "truthy (Some (bd_email d))" "truthy (Some (trim (bd_email d)))" using email(1) by auto
  have found: "find_account v (Some (bd_email d)) None = Some ?u" "find_account v (Some (trim (bd_email d))) None = Some ?u"
    if "users v = users ?w1" for v
    using ci[OF that] e by (simp_all add: find_account_def)
  have clash: "\<not> user_clash ?u w" using ids(1) noemail phone(2) by (simp add: user_clash_def account_row_simps)
  have login1: "login env jti \<lparr>ld_email = Some (trim (bd_email d)), ld_phone = None, ld_password = bd_password d\<rparr> ?w1 =
      (Inr (issued_session env jti ?w1 ?u), ?w2)"
    using e bcrypt by (simp add: login_run found account_row_simps)
  have reg: "registerBuyer env salt uid bid jti d w = (Inr (issued_session env jti ?w1 ?u), ?w2)"
  proof (rule wp_equation)
    fix Q
    have "wp (login env jti \<lparr>ld_email = Some (trim (bd_email d)), ld_phone = None, ld_password = bd_password d\<rparr>) Q ?w1 =
        Q (Inr (issued_session env jti ?w1 ?u)) ?w2"
      using login1 by (simp add: wp_def)
    then show "wp (registerBuyer env salt uid bid jti d) Q w = Q (Inr (issued_session env jti ?w1 ?u)) ?w2"
      using phone noemail clash nobuyer ids(2)
      by (simp add: wp_registerBuyer Let_def account_row_simps)
  qed
  have users2: "users ?w2 = users ?w1" by (simp add: issued_w_def)
  have b: "buyer_of_user ?w1 uid = Some \<lparr>b_id = bid, b_userId = uid, b_createdAt = clock w\<rparr>"
    using nobuyer ids(2) unfolding buyer_of_user_def us(2)
    by (simp add: tfirst_tput_new put_user_def)
  have resp: "au_id (ar_user (issued_session env jti ?w1 ?u)) = uid"
     "au_roles (ar_user (issued_session env jti ?w1 ?u)) = [BUYER]"
     "au_buyerProfileId (ar_user (issued_session env jti ?w1 ?u)) = Some bid"
    using b by (simp_all add: issued_session_def authUserResponse_def Let_def account_row_simps hasRole_def)
  have who: "au_id (ar_user (issued_session env j v ?u)) = uid" for j v
    by (simp add: issued_session_def authUserResponse_def Let_def account_row_simps)
  show ?thesis
    unfolding reg using resp e
    by (simp add: login_run found[OF users2] who account_row_simps)
qed

theorem registered_buyer_logs_in_witness:
  "case registerBuyer sample_env ''ab'' ''u9'' ''b9'' ''j9'' sample_signup sample of
      (Inl e, w1) \<Rightarrow> False
    | (Inr r, w1) \<Rightarrow>
        au_id (ar_user r) = ''u9'' \<and> au_roles (ar_user r) = [BUYER] \<and> au_buyerProfileId (ar_user r) = Some ''b9'' \<and>
        (\<forall>pw jti'. case login sample_env jti' \<lparr>ld_email = Some (bd_email sample_signup), ld_phone = None, ld_password = pw\<rparr> w1 of
            (Inr r2, w2) \<Rightarrow> ae_compare sample_env pw (ae_hash sample_env ''ab'' (bd_password sample_signup)) \<and>
              au_id (ar_user r2) = ''u9''
          | (Inl e, w2) \<Rightarrow> \<not> ae_compare sample_env pw (ae_hash sample_env ''ab'' (bd_password sample_signup)) \<and> w2 = w1 \<and>
              e = Unauthorized ''Please check your login credentials'')"
  by (rule registered_buyer_logs_in[OF accounts_ok_sample]) code_simp+

text \<open>
  The phone number and the e-mail address of an account are enough to replace its password: no code
  and no earlier password is asked for.
\<close>

theorem registration_replaces_password:
  assumes w: "accounts_ok w"
    and taken: "truthy (bd_phone d)" "user_by_phone w (trim (the (bd_phone d))) = Some u" "u_email u = trim (bd_email d)"
    and profile: "buyer_of_user w (u_id u) = Some b"
  shows "\<exists>u'. tget (users (snd (registerBuyer env salt uid bid jti d w))) (u_id u) = Some u' \<and>
     u_password u' = ae_hash env salt (bd_password d)"
proof -
  let ?w1 = "registered_buyer_w env salt uid bid d (Some u) w"
  let ?d = "\<lparr>ld_email = Some (trim (bd_email d)), ld_phone = None, ld_password = bd_password d\<rparr>"
  have p: "buyer_of_user (put_user v w) (u_id u) = Some b" for v
    using profile by (simp add: buyer_of_user_def)
  have "snd (registerBuyer env salt uid bid jti d w) = snd (login env jti ?d ?w1)"
    using wp_registerBuyer[of env salt uid bid jti d "\<lambda>r v. v = snd (login env jti ?d ?w1)" w] taken p
    by (simp add: wp_def split_beta Let_def account_row_simps)
  moreover have "users (snd (login env jti ?d v)) = users v" for v
    by (auto simp: login_run issued_w_def split: option.split)
  moreover have "tget (users ?w1) (u_id u) =
      Some (account_row uid (Some u) (trim (bd_email d)) (trim (the (bd_phone d))) (ae_hash env salt (bd_password d))
        (resolveNameParts d) (displayName d) (bd_gender d) BUYER (clock w))"
    using p by (simp add: registered_buyer_w_def Let_def send_mail_def buyer_profile_w_def account_row_simps)
  ultimately show ?thesis by (simp add: account_row_simps)
qed

section \<open>The account tables\<close>

text \<open>
  C11: The account tables stay well formed. Whatever the sequence of log-ins, codes, registrations,
  resets and checks, every user, buyer and seller row stays under its own id, no two users share an
  e-mail address or a phone number, no user has two buyer or two seller profiles, every profile
  belongs to a user with its role, and no account disappears or loses its e-mail, phone or a role.
\<close>

theorem accounts_stay_ok:
  assumes "accounts_ok w"
  shows "accounts_ok (run_auth_ops env ops w) \<and> users_grow (users w) (users (run_auth_ops env ops w))"
  using grown_ops[OF assms, of env ops] by (simp add: grown_def)

theorem accounts_stay_ok_witness:
  "let ops = [RegisterBuyer ''ab'' ''u9'' ''b9'' ''j9'' sample_signup, Wait 5, Login ''j1'' sample_login]
   in accounts_ok (run_auth_ops sample_env ops sample) \<and>
      users_grow (users sample) (users (run_auth_ops sample_env ops sample))"
  unfolding Let_def by (rule accounts_stay_ok[OF accounts_ok_sample])

end
