(* ===== verification/LiveKit.thy ===== *)
theory LiveKit
  imports Text
begin

text \<open>
  The media server client, src/livekit/livekit.service.ts and src/livekit/livekit-network.util.ts:
  its configuration, the addresses of recordings, tokens, rooms and the recording of a room. The
  functions of the LiveKit library and the host name of a URL are the parameters \<open>livekit\<close>; what
  the server was asked is logged in \<open>media\<close>.
\<close>

section \<open>Parameters\<close>

record egress_file =
  ef_filename :: "string option"
  ef_location :: "string option"
  ef_duration :: int \<comment> \<open>as reported, in nanoseconds or seconds\<close>

record egress_info =
  eg_roomName :: "string option"
  eg_statusFailed :: bool \<comment> \<open>the status is \<open>EGRESS_FAILED\<close> or \<open>EGRESS_ABORTED\<close>\<close>
  eg_error :: "string option"
  eg_file :: "egress_file option" \<comment> \<open>the first file result\<close>

record livekit =
  lk_cfg :: "string \<Rightarrow> string option" \<comment> \<open>\<open>config.get\<close>\<close>
  lk_hostname :: "string \<Rightarrow> string option" \<comment> \<open>\<open>new URL(s).hostname\<close>, \<open>None\<close> when it throws\<close>
  lk_sdkCreateRoom :: "string \<Rightarrow> json \<Rightarrow> exn + unit" \<comment> \<open>name, and the value whose JSON text is the metadata\<close>
  lk_sdkDeleteRoom :: "string \<Rightarrow> exn + unit"
  lk_sdkToken :: "int \<Rightarrow> string \<Rightarrow> string \<Rightarrow> bool \<Rightarrow> bool \<Rightarrow> string"
    \<comment> \<open>time, room, identity, \<open>canPublish\<close>, \<open>canSubscribe\<close>\<close>
  lk_sdkStartEgress :: "string \<Rightarrow> string \<Rightarrow> exn + string option" \<comment> \<open>room and file path\<close>
  lk_sdkStopEgress :: "string \<Rightarrow> exn + egress_info"

definition lk_text :: "livekit \<Rightarrow> string \<Rightarrow> string option" where
  \<comment> \<open>\<open>config.get(k)?.trim()\<close>, empty as absent\<close>
  "lk_text lk k = nonempty (opt_trim (lk_cfg lk k))"

section \<open>Addresses\<close>

text \<open>\<open>s.replace(/\/$/, '')\<close> and \<open>s.replace(/^\/+/, '')\<close>\<close>

definition strip_slash :: "string \<Rightarrow> string" where
  "strip_slash s = (if s \<noteq> [] \<and> last s = CHR ''/'' then butlast s else s)"

definition strip_slashes :: "string \<Rightarrow> string" where
  "strip_slashes s = dropWhile (\<lambda>c. c = CHR ''/'') s"

definition normalizeLiveKitApiUrl :: "string \<Rightarrow> string" where
  "normalizeLiveKitApiUrl raw =
     (let t = strip_slash (trim raw)
      in if starts_with ''wss://'' t then ''https://'' @ drop 6 t
         else if starts_with ''ws://'' t then ''http://'' @ drop 5 t else t)"

text \<open>The host \<open>name.supabase.co\<close> with a name of letters, digits and hyphens.\<close>

definition supabase_name :: "string \<Rightarrow> string option" where
  "supabase_name host =
     (let n = length host - length ''.supabase.co''; name = take n host
      in if length ''.supabase.co'' < length host \<and> to_lower (drop n host) = ''.supabase.co'' \<and>
           list_all (\<lambda>c. is_letter c \<or> is_digit c \<or> c = CHR ''-'') name then Some name else None)"

definition supabaseStorageS3EndpointFromSupabaseUrl :: "livekit \<Rightarrow> string \<Rightarrow> string option" where
  "supabaseStorageS3EndpointFromSupabaseUrl lk url =
     (case lk_hostname lk (strip_slash (trim url)) of None \<Rightarrow> None | Some host \<Rightarrow>
      case supabase_name host of None \<Rightarrow> None
      | Some name \<Rightarrow> Some (''https://'' @ name @ ''.storage.supabase.co/storage/v1/s3''))"

definition durationSecondsFromFileInfo :: "int \<Rightarrow> int option" where
  "durationSecondsFromFileInfo d =
     (if d = 0 then None
      else let n = fl (of_int d) in
        if 1000000 < n then Some (math_round (ndiv n 1000000000)) else Some (math_round n))"

section \<open>Configuration\<close>

definition lk_url :: "livekit \<Rightarrow> string option" where
  "lk_url lk =
     (case lk_text lk ''LIVEKIT_URL'' of None \<Rightarrow> None | Some raw \<Rightarrow>
      if lk_text lk ''LIVEKIT_API_KEY'' \<noteq> None \<and> lk_text lk ''LIVEKIT_API_SECRET'' \<noteq> None
      then nonempty (Some (normalizeLiveKitApiUrl raw)) else None)"

definition isConfigured :: "livekit \<Rightarrow> bool" where
  "isConfigured lk \<longleftrightarrow> lk_url lk \<noteq> None"

definition recordingUsesSupabase :: "livekit \<Rightarrow> bool" where
  "recordingUsesSupabase lk \<longleftrightarrow>
     lk_text lk ''LIVEKIT_RECORDING_USE_SUPABASE'' \<in> {Some ''true'', Some ''1''}"

record s3_params =
  s3_bucket :: string
  s3_region :: string
  s3_access :: string
  s3_secret :: string
  s3_endpoint :: string
  s3_forcePathStyle :: bool

definition getEgressRecordingS3Params :: "livekit \<Rightarrow> s3_params option" where
  "getEgressRecordingS3Params lk =
     (let bucket = lk_text lk ''LIVEKIT_RECORDING_S3_BUCKET'';
          access = (case lk_text lk ''LIVEKIT_RECORDING_S3_ACCESS_KEY'' of
              None \<Rightarrow> lk_text lk ''AWS_ACCESS_KEY_ID'' | Some a \<Rightarrow> Some a);
          secret = (case lk_text lk ''LIVEKIT_RECORDING_S3_SECRET'' of
              None \<Rightarrow> lk_text lk ''AWS_SECRET_ACCESS_KEY'' | Some a \<Rightarrow> Some a)
      in if bucket = None \<or> access = None \<or> secret = None then None else
      let useSb = recordingUsesSupabase lk;
          endpoint = (case lk_text lk ''LIVEKIT_RECORDING_S3_ENDPOINT'' of
              Some e \<Rightarrow> e
            | None \<Rightarrow> if useSb then (case lk_text lk ''SUPABASE_URL'' of None \<Rightarrow> []
                | Some u \<Rightarrow> str_or (supabaseStorageS3EndpointFromSupabaseUrl lk u) []) else [])
      in if useSb \<and> endpoint = [] then None else
      let fs = lk_cfg lk ''LIVEKIT_RECORDING_S3_FORCE_PATH_STYLE''
      in Some \<lparr>s3_bucket = the bucket,
           s3_region = str_or (lk_text lk ''LIVEKIT_RECORDING_S3_REGION'') (if useSb then ''local'' else ''us-east-1''),
           s3_access = the access, s3_secret = the secret, s3_endpoint = endpoint,
           s3_forcePathStyle = (if fs \<in> {Some ''false'', Some ''0''} then False
                                else if fs \<in> {Some ''true'', Some ''1''} then True else useSb)\<rparr>)"

definition isReplayRecordingConfigured :: "livekit \<Rightarrow> bool" where
  "isReplayRecordingConfigured lk \<longleftrightarrow> isConfigured lk \<and> getEgressRecordingS3Params lk \<noteq> None"

definition not_configured :: exn where
  "not_configured = BadRequest ''LiveKit is not configured. Set LIVEKIT_URL, LIVEKIT_API_KEY, and LIVEKIT_API_SECRET.''"

definition getLiveKitUrl :: "livekit \<Rightarrow> exn + string" where
  "getLiveKitUrl lk = (case lk_url lk of None \<Rightarrow> Inl not_configured | Some u \<Rightarrow> Inr u)"

definition getWebSocketUrl :: "livekit \<Rightarrow> exn + string" where
  "getWebSocketUrl lk =
     (case lk_url lk of None \<Rightarrow> Inl not_configured | Some u \<Rightarrow>
        Inr (if starts_with ''https://'' u then ''wss://'' @ drop 8 u
             else if starts_with ''http://'' u then ''ws://'' @ drop 7 u else u))"

section \<open>Rooms and tokens\<close>

definition log_media :: "media_call \<Rightarrow> world \<Rightarrow> world" where
  "log_media c w = w\<lparr>media := media w @ [c]\<rparr>"

definition createRoom :: "livekit \<Rightarrow> string \<Rightarrow> json \<Rightarrow> unit handler" where
  "createRoom lk room metadata =
     (if \<not> isConfigured lk then throw not_configured
      else seq_act (writes (log_media (CreateRoom room))) (lift_res (lk_sdkCreateRoom lk room metadata)))"

text \<open>An error of the server is swallowed: the room may already be gone.\<close>

definition deleteRoom :: "livekit \<Rightarrow> string \<Rightarrow> unit handler" where
  "deleteRoom lk room =
     (if \<not> isConfigured lk then ret ()
      else catching (seq_act (writes (log_media (DeleteRoom room))) (lift_res (lk_sdkDeleteRoom lk room)))
        (\<lambda>_. ret ()))"

definition createToken :: "livekit \<Rightarrow> string \<Rightarrow> string \<Rightarrow> bool \<Rightarrow> bool \<Rightarrow> string handler" where
  "createToken lk room identity canPublish canSubscribe =
     (if \<not> isConfigured lk then throw not_configured
      else reads (\<lambda>w. lk_sdkToken lk (clock w) room identity canPublish canSubscribe))"

definition createPublisherToken :: "livekit \<Rightarrow> string \<Rightarrow> string \<Rightarrow> string handler" where
  "createPublisherToken lk room identity = createToken lk room identity True True"

definition createSubscriberToken :: "livekit \<Rightarrow> string \<Rightarrow> string \<Rightarrow> string handler" where
  "createSubscriberToken lk room identity = createToken lk room identity False True"

section \<open>Recording\<close>

definition buildSupabasePublicObjectUrl :: "livekit \<Rightarrow> string \<Rightarrow> string option" where
  "buildSupabasePublicObjectUrl lk objectKey =
     (let key = strip_slashes objectKey
      in if key = [] then None else
      case (nonempty (map_option strip_slash (opt_trim (lk_cfg lk ''SUPABASE_URL''))),
            lk_text lk ''LIVEKIT_RECORDING_S3_BUCKET'') of
        (Some base, Some bucket) \<Rightarrow> Some (base @ ''/storage/v1/object/public/'' @ bucket @ ''/'' @ key)
      | _ \<Rightarrow> None)"

definition publicReplayUrlForStreamId :: "livekit \<Rightarrow> string \<Rightarrow> string option" where
  "publicReplayUrlForStreamId lk sid =
     (if \<not> recordingUsesSupabase lk \<or> trim sid = [] then None
      else buildSupabasePublicObjectUrl lk (''vybekart-replays/'' @ trim sid @ ''.mp4''))"

definition extractReplayFromEgress :: "livekit \<Rightarrow> egress_info \<Rightarrow> string option \<times> int option" where
  "extractReplayFromEgress lk info =
     (let dur = (case eg_file info of None \<Rightarrow> None | Some f \<Rightarrow> durationSecondsFromFileInfo (ef_duration f))
      in if recordingUsesSupabase lk then
           (let room = nonempty (opt_trim (eg_roomName info));
                fn = (case eg_file info of None \<Rightarrow> None | Some f \<Rightarrow> nonempty (opt_trim (ef_filename f)));
                objectKey = (case fn of Some n \<Rightarrow> Some n
                  | None \<Rightarrow> map_option (\<lambda>r. ''vybekart-replays/'' @ r @ ''.mp4'') room)
            in (Option.bind objectKey (buildSupabasePublicObjectUrl lk), dur))
         else (case eg_file info of None \<Rightarrow> None | Some f \<Rightarrow> nonempty (ef_location f), dur))"

text \<open>URL, duration and failure of a finished recording, from an answer or from a webhook.\<close>

record egress_result =
  er_replayUrl :: "string option"
  er_durationSec :: "int option"
  er_failed :: bool

definition applyEgressWebhookResult :: "livekit \<Rightarrow> egress_info \<Rightarrow> egress_result" where
  "applyEgressWebhookResult lk info =
     (let r = extractReplayFromEgress lk info
      in \<lparr>er_replayUrl = fst r, er_durationSec = snd r,
          er_failed = (eg_statusFailed info \<or> truthy (opt_trim (eg_error info)))\<rparr>)"

definition startRoomRecording :: "livekit \<Rightarrow> string \<Rightarrow> string option handler" where
  "startRoomRecording lk room =
     (if \<not> isReplayRecordingConfigured lk then ret None
      else seq_act (writes (log_media (StartRecording room)))
        (bind_act (lift_res (lk_sdkStartEgress lk room (''vybekart-replays/'' @ room @ ''.mp4'')))
          (\<lambda>eid. ret (nonempty eid))))"

definition stopRoomRecording :: "livekit \<Rightarrow> string \<Rightarrow> egress_result handler" where
  "stopRoomRecording lk eid =
     (if \<not> isConfigured lk then ret \<lparr>er_replayUrl = None, er_durationSec = None, er_failed = True\<rparr>
      else seq_act (writes (log_media (StopRecording eid)))
        (catching (bind_act (lift_res (lk_sdkStopEgress lk eid)) (\<lambda>info. ret (applyEgressWebhookResult lk info)))
          (\<lambda>_. ret \<lparr>er_replayUrl = None, er_durationSec = None, er_failed = True\<rparr>)))"

section \<open>Errors of the network\<close>

fun err_message :: "exn \<Rightarrow> string" where
  "err_message (BadRequest m) = m"
| "err_message (Unauthorized m) = m"
| "err_message (Forbidden m) = m"
| "err_message (NotFound m) = m"
| "err_message (Conflict m) = m"
| "err_message (ServiceUnavailable m) = m"
| "err_message (BadGateway m) = m"
| "err_message (Crash m) = m"

text \<open>The message of an error stands for the messages and codes along its causes.\<close>

definition isLiveKitUnreachableError :: "exn \<Rightarrow> bool" where
  "isLiveKitUnreachableError e \<longleftrightarrow>
     list_ex (str_includes (to_lower (err_message e)))
       [''econnrefused'', ''enotfound'', ''etimedout'', ''fetch failed'', ''connect timeout'',
        ''und_err_connect_timeout'', ''socket hang up'', ''econnreset'', ''network'']"

definition liveKitUnreachableMessage :: "exn \<Rightarrow> string" where
  "liveKitUnreachableMessage e =
     (let base = ''LiveKit server is unreachable from the API. Verify LIVEKIT_URL (use https://your-project.livekit.cloud for LiveKit Cloud), API key/secret, and that the project is active.''
      in if err_message e \<noteq> [] \<and> \<not> str_includes (err_message e) ''fetch failed''
         then base @ '' ('' @ err_message e @ '')'' else base)"

section \<open>Facts\<close>

lemma wp_deleteRoom [wp_simps]:
  "wp (deleteRoom lk room) Q w = Q (Inr ()) (if isConfigured lk then log_media (DeleteRoom room) w else w)"
  by (cases "lk_sdkDeleteRoom lk room") (simp_all add: deleteRoom_def wp_simps)

definition stop_result :: "livekit \<Rightarrow> string \<Rightarrow> egress_result" where
  "stop_result lk eid =
     (case lk_sdkStopEgress lk eid of
        Inl _ \<Rightarrow> \<lparr>er_replayUrl = None, er_durationSec = None, er_failed = True\<rparr>
      | Inr info \<Rightarrow> if isConfigured lk then applyEgressWebhookResult lk info
                    else \<lparr>er_replayUrl = None, er_durationSec = None, er_failed = True\<rparr>)"

lemma wp_stopRoomRecording [wp_simps]:
  "wp (stopRoomRecording lk eid) Q w =
     Q (Inr (stop_result lk eid)) (if isConfigured lk then log_media (StopRecording eid) w else w)"
  by (cases "lk_sdkStopEgress lk eid") (simp_all add: stopRoomRecording_def stop_result_def wp_simps)

end
