(* ===== verification/Broadcast.thy ===== *)
theory Broadcast
  imports Text
begin

text \<open>
  Push messages: src/notifications/firebase-push.service.ts, the broadcast to buyers when a live
  starts or ends (buyer-live-broadcast.service.ts) and the reminder of a scheduled live
  (scheduled-live-reminder.service.ts). Firebase is the parameter \<open>push_env\<close>; an accepted multicast is
  an entry of the outbox.
\<close>

record push_env =
  pv_enabled :: bool
  pv_error :: "string list \<Rightarrow> string option" \<comment> \<open>a rejected multicast, with its message\<close>

definition sendToTokens ::
    "push_env \<Rightarrow> string list \<Rightarrow> string \<Rightarrow> string \<Rightarrow> (string \<times> string) list \<Rightarrow> unit handler" where
  "sendToTokens pv tokens title body data =
     (if \<not> pv_enabled pv \<or> tokens = [] then ret ()
      else case pv_error pv tokens of
          Some e \<Rightarrow> throw (Crash e)
        | None \<Rightarrow> writes (send_mail (Push tokens title body data)))"

text \<open>\<open>for (let i = 0; i < unique.length; i += batchSize)\<close> with slices of \<open>batchSize\<close>.\<close>

function batches :: "nat \<Rightarrow> 'a list \<Rightarrow> 'a list list" where
  "batches n xs = (if xs = [] \<or> n = 0 then [] else take n xs # batches n (drop n xs))"
  by pat_completeness auto
termination
  by (relation "measure (\<lambda>(n, xs). length xs)") auto

declare batches.simps [simp del]

definition BATCH_SIZE :: nat where "BATCH_SIZE = 500"

definition unique_tokens :: "string list \<Rightarrow> string list" where
  "unique_tokens tokens = js_set (filter (\<lambda>t. trim t \<noteq> []) tokens)"

definition sendToTokensBatched ::
    "push_env \<Rightarrow> string list \<Rightarrow> string \<Rightarrow> string \<Rightarrow> (string \<times> string) list \<Rightarrow> unit handler" where
  "sendToTokensBatched pv tokens title body data =
     (if \<not> pv_enabled pv \<or> tokens = [] then ret ()
      else for_each (batches BATCH_SIZE (unique_tokens tokens)) (\<lambda>b. sendToTokens pv b title body data))"

section \<open>The audience\<close>

text \<open>A buyer by profile or role who is not a seller without a buyer profile, nor the host.\<close>

definition in_audience :: "world \<Rightarrow> string \<Rightarrow> user_row \<Rightarrow> bool" where
  "in_audience w host u \<longleftrightarrow>
     (let buyer = (buyer_of_user w (u_id u) \<noteq> None); seller = (seller_of_user w (u_id u) \<noteq> None)
      in \<not> (seller \<and> \<not> buyer) \<and> (buyer \<or> BUYER \<in> set (u_roles u)) \<and> (host \<noteq> [] \<longrightarrow> u_id u \<noteq> host))"

definition getBuyerLiveAudienceFcmTokens :: "world \<Rightarrow> string \<Rightarrow> string list" where
  "getBuyerLiveAudienceFcmTokens w host =
     js_set (map fst (filter (\<lambda>(t, dv). trim t \<noteq> [] \<and>
       (case tget (users w) (dv_userId dv) of None \<Rightarrow> False | Some u \<Rightarrow> in_audience w host u)) (pushDevices w)))"

definition FCM_DATA_MAX :: nat where "FCM_DATA_MAX = 900"

text \<open>At most \<open>n\<close> characters; a longer text ends in an ellipsis (character 133).\<close>

definition clip :: "string \<Rightarrow> nat \<Rightarrow> string" where
  "clip s n = (let t = trim s in if length t \<le> n then t else take (n - 1) t @ [CHR 0x85])"

definition notify_buyers ::
    "push_env \<Rightarrow> (string \<Rightarrow> string) \<Rightarrow> string \<Rightarrow> string \<Rightarrow> string \<Rightarrow> string \<Rightarrow> string \<Rightarrow> string \<Rightarrow> unit handler" where
  "notify_buyers pv headline kind fallback sid title host seller =
     (if \<not> pv_enabled pv then ret () else
      catching
        (bind_act (reads (\<lambda>w. getBuyerLiveAudienceFcmTokens w host)) (\<lambda>tokens.
         if tokens = [] then ret () else
         let name = clip (str_or (Some seller) ''A seller'') 80
         in sendToTokensBatched pv tokens (clip (headline name) 120) (clip (str_or (Some title) fallback) 200)
              [(''type'', kind), (''streamId'', clip sid 64), (''sellerName'', clip name FCM_DATA_MAX),
               (''streamTitle'', clip title FCM_DATA_MAX)]))
        (\<lambda>_. ret ()))"

definition notifyBuyersSellerWentLive :: "push_env \<Rightarrow> string \<Rightarrow> string \<Rightarrow> string \<Rightarrow> string \<Rightarrow> unit handler" where
  "notifyBuyersSellerWentLive pv sid title host seller =
     notify_buyers pv (\<lambda>name. name @ '' is live'') ''SELLER_LIVE_STARTED'' ''Tap to watch'' sid title host seller"

definition notifyBuyersLiveEnded :: "push_env \<Rightarrow> string \<Rightarrow> string \<Rightarrow> string \<Rightarrow> string \<Rightarrow> unit handler" where
  "notifyBuyersLiveEnded pv sid title host seller =
     notify_buyers pv (\<lambda>name. ''Live ended: '' @ name) ''SELLER_LIVE_ENDED'' ''The stream has ended'' sid title host seller"

section \<open>Reminders of scheduled lives\<close>

definition reminder_due :: "int \<Rightarrow> stream_row \<Rightarrow> bool" where
  "reminder_due now st \<longleftrightarrow> \<not> st_isLive st \<and> st_endedAt st = None \<and> st_reminderSentAt st = None \<and>
     (case st_startedAt st of None \<Rightarrow> False | Some t \<Rightarrow> now - 120000 \<le> t \<and> t \<le> now + 120000)"

definition seller_display :: "world \<Rightarrow> seller_row \<Rightarrow> string" where
  "seller_display w s1 =
     str_or (case tget (users w) (s_userId s1) of None \<Rightarrow> None | Some u \<Rightarrow> Some (trim (u_name u)))
       (str_or (Some (trim (s_businessName s1))) ''A seller'')"

text \<open>A failed push to the seller skips the rest of the stream, so that it is tried again.\<close>

definition remind :: "push_env \<Rightarrow> int \<Rightarrow> stream_row \<Rightarrow> unit handler" where
  "remind pv now st =
     bind_act (reads (\<lambda>w. tget (sellers w) (st_sellerId st))) (\<lambda>seller.
     case seller of None \<Rightarrow> throw missing_row | Some s1 \<Rightarrow>
     bind_act (reads (\<lambda>w. map fst (filter (\<lambda>(t, dv). dv_userId dv = s_userId s1) (pushDevices w)))) (\<lambda>devices.
     bind_act (catching (seq_act (sendToTokens pv devices ''Time to go live''
             (''Your scheduled live '' @ [CHR 0x22] @ st_title st @ [CHR 0x22] @ '' is starting.'')
             [(''type'', ''SELLER_GO_LIVE_REMINDER''), (''streamId'', st_id st)]) (ret True)) (\<lambda>_. ret False)) (\<lambda>sent.
     if \<not> sent then ret () else
     bind_act (reads (\<lambda>w. clip (seller_display w s1) 80)) (\<lambda>name.
     seq_act
       (catching
         (bind_act (reads (\<lambda>w. getBuyerLiveAudienceFcmTokens w (s_userId s1))) (\<lambda>tokens.
          if tokens = [] then ret () else
          sendToTokensBatched pv tokens (clip ''Live starting soon'' 120)
            (clip (name @ [CHR 0x27] @ ''s scheduled live '' @ [CHR 0x22] @ st_title st @ [CHR 0x22] @ '' is starting.'') 200)
            [(''type'', ''SCHEDULED_LIVE_STARTING''), (''streamId'', clip (st_id st) 64),
             (''sellerName'', clip name FCM_DATA_MAX), (''streamTitle'', clip (st_title st) FCM_DATA_MAX)]))
         (\<lambda>_. ret ()))
       (writes (\<lambda>w. w\<lparr>streams := tupd (st_id st) (\<lambda>s. s\<lparr>st_reminderSentAt := Some now\<rparr>) (streams w)\<rparr>))))))"

definition sendDueReminders :: "push_env \<Rightarrow> unit handler" where
  "sendDueReminders pv =
     (if \<not> pv_enabled pv then ret () else
      bind_act (reads clock) (\<lambda>now.
      bind_act (reads (\<lambda>w. filter (reminder_due now) (trows (streams w)))) (\<lambda>due.
      for_each due (remind pv now))))"

section \<open>Facts\<close>

lemma concat_batches: "0 < n \<Longrightarrow> concat (batches n xs) = xs"
  by (induction n xs rule: batches.induct) (subst batches.simps, simp)

lemma batches_bounded: "b \<in> set (batches n xs) \<Longrightarrow> b \<noteq> [] \<and> length b \<le> n"
proof (induction n xs rule: batches.induct)
  case (1 n xs)
  then show ?case by (subst (asm) batches.simps) (auto split: if_splits)
qed

lemma clip_length: "0 < n \<Longrightarrow> length (clip s n) \<le> n"
  by (auto simp: clip_def Let_def)

text \<open>A broadcast only adds to the outbox and never fails.\<close>

lemma sendToTokens_out: "\<exists>ms r. sendToTokens pv ts t b d w = (r, w\<lparr>outbox := outbox w @ ms\<rparr>)"
  by (auto simp: sendToTokens_def ret_def throw_def writes_def send_mail_def split: option.split
      intro: exI[of _ "[]"])

lemma for_each_out:
  assumes "\<And>x w. \<exists>ms r. f x w = (r, w\<lparr>outbox := outbox w @ ms\<rparr>)"
  shows "\<exists>ms r. for_each xs f w = (r, w\<lparr>outbox := outbox w @ ms\<rparr>)"
proof (induction xs arbitrary: w)
  case Nil
  then show ?case by (auto simp: ret_def intro: exI[of _ "[]"])
next
  case (Cons x xs)
  obtain ms r where 1: "f x w = (r, w\<lparr>outbox := outbox w @ ms\<rparr>)" using assms by blast
  obtain ns q where 2: "for_each xs f (w\<lparr>outbox := outbox w @ ms\<rparr>) = (q, w\<lparr>outbox := (outbox w @ ms) @ ns\<rparr>)"
    using Cons.IH[of "w\<lparr>outbox := outbox w @ ms\<rparr>"] by auto
  show ?case using 1 2 by (cases r) (auto simp: seq_act_def bind_act_def)
qed

lemma notify_out: "\<exists>ms. notify_buyers pv h k f sid t host s w = (Inr (), w\<lparr>outbox := outbox w @ ms\<rparr>)"
proof -
  have none: "\<exists>ms. (Inr (), w) = (Inr () :: exn + unit, w\<lparr>outbox := outbox w @ ms\<rparr>)" by (rule exI[of _ "[]"]) simp
  have "\<exists>ms r. sendToTokensBatched pv ts t b d w = (r, w\<lparr>outbox := outbox w @ ms\<rparr>)" for ts t b d
    using for_each_out[OF sendToTokens_out] none by (auto simp: sendToTokensBatched_def ret_def)
  then obtain g r where g: "\<And>ts t b d. sendToTokensBatched pv ts t b d w =
      (r ts t b d, w\<lparr>outbox := outbox w @ g ts t b d\<rparr>)"
    by metis
  show ?thesis
  proof (cases "pv_enabled pv \<and> getBuyerLiveAudienceFcmTokens w host \<noteq> []")
    case True
    then show ?thesis
      by (auto simp: notify_buyers_def catching_def bind_act_def reads_def Let_def g ret_def split: sum.split)
  next
    case False
    then show ?thesis using none by (auto simp: notify_buyers_def catching_def bind_act_def reads_def ret_def)
  qed
qed

end
