(* ===== verification/Streams.thy ===== *)
theory Streams
  imports LiveKit Broadcast Cart Ratings Paging Calendar
begin

text \<open>
  Live streams, src/streams/streams.service.ts: creating and scheduling, going live, updating,
  stopping and removing, the views of a stream, join tokens, and the periodic sweeps. The media
  server is the parameter \<open>livekit\<close>, the push service \<open>push_env\<close>. An ended stream also settles the
  carts that belong to it (\<open>Cart\<close>), the seller's streaming time (\<open>Ratings\<close>) and its engagement keys.
\<close>

section \<open>Rows\<close>

definition upd_stream :: "string \<Rightarrow> (stream_row \<Rightarrow> stream_row) \<Rightarrow> world \<Rightarrow> world" where
  "upd_stream sid f w = w\<lparr>streams := tupd sid f (streams w)\<rparr>"

text \<open>\<open>stream.update\<close> and \<open>stream.delete\<close> of a missing row are rejected by the database.\<close>

definition update_stream :: "string \<Rightarrow> (stream_row \<Rightarrow> stream_row) \<Rightarrow> stream_row handler" where
  "update_stream sid f =
     bind_act (reads (\<lambda>w. tget (streams w) sid)) (\<lambda>row.
     case row of None \<Rightarrow> throw missing_row | Some st \<Rightarrow>
     seq_act (writes (upd_stream sid f)) (ret (f st)))"

text \<open>Deleting a stream removes its product rows and session and unlinks its orders.\<close>

definition delete_stream_w :: "string \<Rightarrow> world \<Rightarrow> world" where
  "delete_stream_w sid w = w\<lparr>streams := tdel sid (streams w),
     orders := map (\<lambda>(k, o1). (k, if o_streamId o1 = Some sid then o1\<lparr>o_streamId := None\<rparr> else o1)) (orders w)\<rparr>"

definition delete_stream :: "string \<Rightarrow> unit handler" where
  "delete_stream sid =
     bind_act (reads (\<lambda>w. tget (streams w) sid)) (\<lambda>row.
     if row = None then throw missing_row else writes (delete_stream_w sid))"

text \<open>
  \<open>stream.create\<close> with its product rows: the pair of stream and product is unique, so a product
  listed twice is rejected.
\<close>

definition create_stream :: "stream_row \<Rightarrow> unit handler" where
  "create_stream st =
     db_create (\<lambda>w. tget (streams w) (st_id st) \<noteq> None \<or> \<not> distinct (st_products st))
       (\<lambda>w. w\<lparr>streams := tput (st_id st) st (streams w)\<rparr>)"

definition new_stream :: "string \<Rightarrow> string \<Rightarrow> int \<Rightarrow> stream_row" where
  "new_stream sid seller now = \<lparr>st_id = sid, st_sellerId = seller, st_isLive = False, st_startedAt = None, st_endedAt = None,
     st_createdAt = now, st_products = [], st_sessionEndedAt = None, st_sessionSeconds = None, st_title = [],
     st_description = None, st_categoryId = None, st_visibility = PUBLIC, st_thumbnailUrl = None,
     st_livekitRoomName = None, st_livekitUrl = None, st_livekitEgressId = None, st_replayUrl = None,
     st_replayDurationSec = None, st_replayStatus = RS_NONE, st_viewCount = 0, st_broadcastStartedAt = None,
     st_buyersNotifiedAt = None, st_heartbeatAt = None, st_reminderSentAt = None, st_durationSeconds = None\<rparr>"

section \<open>Notifications\<close>

definition seller_user :: "world \<Rightarrow> stream_row \<Rightarrow> string option" where
  "seller_user w st = map_option s_userId (tget (sellers w) (st_sellerId st))"

definition seller_name :: "world \<Rightarrow> stream_row \<Rightarrow> string" where
  "seller_name w st =
     str_or (case tget (sellers w) (st_sellerId st) of None \<Rightarrow> None
             | Some s1 \<Rightarrow> map_option (\<lambda>u. trim (u_name u)) (tget (users w) (s_userId s1))) ''A seller''"

definition queueNotifyBuyersLiveStarted :: "push_env \<Rightarrow> stream_row \<Rightarrow> unit handler" where
  "queueNotifyBuyersLiveStarted pv st =
     bind_act (reads (\<lambda>w. (str_or (seller_user w st) [], seller_name w st))) (\<lambda>(host, name).
     notifyBuyersSellerWentLive pv (st_id st) (st_title st) host name)"

definition queueNotifyBuyersLiveEnded :: "push_env \<Rightarrow> bool \<Rightarrow> stream_row \<Rightarrow> unit handler" where
  "queueNotifyBuyersLiveEnded pv notifyBuyers st =
     (if \<not> notifyBuyers then ret () else
      bind_act (reads (\<lambda>w. (str_or (seller_user w st) [], seller_name w st))) (\<lambda>(host, name).
      notifyBuyersLiveEnded pv (st_id st) (st_title st) host name))"

section \<open>Recording\<close>

definition tryStartStreamRecording :: "livekit \<Rightarrow> string \<Rightarrow> string \<Rightarrow> bool handler" where
  "tryStartStreamRecording lk sid room =
     (if \<not> isReplayRecordingConfigured lk then ret False else
      catching
        (bind_act (startRoomRecording lk room) (\<lambda>egress.
         if \<not> truthy egress then ret False else
         bind_act (update_stream sid (\<lambda>st. st\<lparr>st_livekitEgressId := egress, st_replayStatus := RS_RECORDING\<rparr>))
           (\<lambda>_. ret True)))
        (\<lambda>_. ret False))"

definition ensureStreamRecordingStarted :: "livekit \<Rightarrow> string \<Rightarrow> string \<Rightarrow> string option \<Rightarrow> unit handler" where
  "ensureStreamRecordingStarted lk sid room egress =
     (if truthy egress \<or> \<not> isReplayRecordingConfigured lk then ret ()
      else bind_act (tryStartStreamRecording lk sid room) (\<lambda>_. ret ()))"

text \<open>The columns that ending a stream writes.\<close>

record replay_patch =
  rp_clearEgress :: bool
  rp_replayUrl :: "string option"
  rp_durationSec :: "int option"
  rp_status :: "replay_status option"

definition no_patch :: replay_patch where
  "no_patch = \<lparr>rp_clearEgress = False, rp_replayUrl = None, rp_durationSec = None, rp_status = None\<rparr>"

definition apply_replay :: "replay_patch \<Rightarrow> stream_row \<Rightarrow> stream_row" where
  "apply_replay p st = st\<lparr>
     st_livekitEgressId := if rp_clearEgress p then None else st_livekitEgressId st,
     st_replayUrl := (case rp_replayUrl p of None \<Rightarrow> st_replayUrl st | Some u \<Rightarrow> Some u),
     st_replayDurationSec := (case rp_durationSec p of None \<Rightarrow> st_replayDurationSec st | Some d \<Rightarrow> Some d),
     st_replayStatus := dflt (st_replayStatus st) (rp_status p)\<rparr>"

text \<open>The patch for the answer of the recorder; \<open>optimistic\<close> is the expected address.\<close>

definition replay_patch_of :: "string option \<Rightarrow> egress_result \<Rightarrow> replay_patch" where
  "replay_patch_of optimistic r =
     (let url = (case nonempty (er_replayUrl r) of Some u \<Rightarrow> Some u
                 | None \<Rightarrow> if \<not> er_failed r then optimistic else None)
      in if truthy url then
           no_patch\<lparr>rp_clearEgress := True, rp_replayUrl := url, rp_durationSec := er_durationSec r,
             rp_status := Some RS_READY\<rparr>
         else if er_failed r then no_patch\<lparr>rp_clearEgress := True, rp_status := Some RS_FAILED\<rparr>
         else if truthy optimistic then
           no_patch\<lparr>rp_clearEgress := True, rp_replayUrl := optimistic, rp_status := Some RS_READY\<rparr>
         else no_patch\<lparr>rp_clearEgress := True, rp_status := Some RS_FAILED\<rparr>)"

definition finalizeLiveRecordingAndRoom :: "livekit \<Rightarrow> stream_row \<Rightarrow> replay_patch handler" where
  "finalizeLiveRecordingAndRoom lk st =
     (let recording = isReplayRecordingConfigured lk;
          optimistic = (if recording then publicReplayUrlForStreamId lk (st_id st) else None)
      in bind_act
        (if truthy (st_livekitEgressId st) \<and> recording then
           catching
             (bind_act (stopRoomRecording lk (the (st_livekitEgressId st))) (\<lambda>r. ret (replay_patch_of optimistic r)))
             (\<lambda>_. ret (if truthy optimistic
                then no_patch\<lparr>rp_clearEgress := True, rp_replayUrl := optimistic, rp_status := Some RS_READY\<rparr>
                else no_patch\<lparr>rp_clearEgress := True, rp_status := Some RS_FAILED\<rparr>))
         else if truthy (st_livekitEgressId st) then ret (no_patch\<lparr>rp_clearEgress := True\<rparr>)
         else if recording then ret (no_patch\<lparr>rp_status := Some RS_FAILED\<rparr>)
         else ret no_patch)
        (\<lambda>patch.
         seq_act (if truthy (st_livekitRoomName st) then deleteRoom lk (the (st_livekitRoomName st)) else ret ())
           (ret patch)))"

section \<open>Going live\<close>

text \<open>The products named must be the seller's own; the error lists the others.\<close>

definition own_product :: "world \<Rightarrow> string \<Rightarrow> string \<Rightarrow> product_row option" where
  "own_product w seller pid =
     (case tget (products w) pid of None \<Rightarrow> None | Some p \<Rightarrow> if p_sellerId p = seller then Some p else None)"

definition check_own_products :: "string \<Rightarrow> string list \<Rightarrow> unit handler" where
  "check_own_products seller pids =
     bind_act (reads (\<lambda>w. filter (\<lambda>pid. own_product w seller pid = None) pids)) (\<lambda>invalid.
     if invalid \<noteq> [] then throw (BadRequest (''Products not found or not owned by you: '' @ join '', '' invalid))
     else ret ())"

definition first_image :: "world \<Rightarrow> string \<Rightarrow> string list \<Rightarrow> string option" where
  "first_image w seller pids =
     (case pids of [] \<Rightarrow> None | pid # _ \<Rightarrow>
      case own_product w seller pid of None \<Rightarrow> None | Some p \<Rightarrow>
      case p_images p of [] \<Rightarrow> None | img # _ \<Rightarrow> Some img)"

record create_dto =
  gl_title :: string
  gl_description :: "string option"
  gl_categoryId :: "string option"
  gl_visibility :: "visibility option"
  gl_productIds :: "string list option"
  gl_thumbnailUrl :: "string option"

definition not_a_seller :: exn where
  "not_a_seller = Forbidden ''User is not a registered seller''"

definition room_metadata :: "string \<Rightarrow> string \<Rightarrow> string list \<Rightarrow> json" where
  "room_metadata title seller pids =
     JObj [(''title'', JStr title), (''sellerId'', JStr seller), (''productIds'', JArr (map JStr pids))]"

definition gateway_error :: "exn \<Rightarrow> exn" where
  "gateway_error e =
     (if isLiveKitUnreachableError e then BadGateway (liveKitUnreachableMessage e) else e)"

definition createStream :: "livekit \<Rightarrow> string \<Rightarrow> create_dto \<Rightarrow> string \<Rightarrow> (stream_row \<times> string) handler" where
  "createStream lk sid d uid =
     (if \<not> isConfigured lk then throw not_configured else
      bind_act (reads (\<lambda>w. seller_of_user w uid)) (\<lambda>seller.
      case seller of None \<Rightarrow> throw not_a_seller | Some s1 \<Rightarrow>
      let pids = dflt [] (gl_productIds d)
      in if length pids < 1 \<or> 3 < length pids
         then throw (BadRequest ''Select between 1 and 3 products to go live.'') else
      seq_act (check_own_products (s_id s1) pids) (
      bind_act (reads (\<lambda>w. case nonempty (opt_trim (gl_thumbnailUrl d)) of
            Some t \<Rightarrow> Some t | None \<Rightarrow> nonempty (opt_trim (first_image w (s_id s1) pids)))) (\<lambda>thumb.
      bind_act (reads (\<lambda>w. truthy (gl_categoryId d) \<and> tget (categories w) (the (gl_categoryId d)) = None)) (\<lambda>bad.
      if bad then throw (BadRequest (''Category not found: '' @ the (gl_categoryId d))) else
      bind_act (reads clock) (\<lambda>now.
      let row = (new_stream sid (s_id s1) now)\<lparr>st_title := gl_title d, st_description := gl_description d,
            st_categoryId := gl_categoryId d, st_visibility := dflt PUBLIC (gl_visibility d), st_isLive := True,
            st_startedAt := Some now, st_heartbeatAt := Some now, st_thumbnailUrl := thumb, st_products := pids\<rparr>
      in seq_act (create_stream row)
        (catching
          (seq_act (createRoom lk sid (room_metadata (gl_title d) (s_id s1) pids))
          (bind_act (lift_res (getLiveKitUrl lk)) (\<lambda>url.
           bind_act (createPublisherToken lk sid (''seller-'' @ uid)) (\<lambda>token.
           bind_act (update_stream sid (\<lambda>st. st\<lparr>st_livekitRoomName := Some sid, st_livekitUrl := Some url\<rparr>)) (\<lambda>updated.
           bind_act (tryStartStreamRecording lk sid sid) (\<lambda>_. ret (updated, token)))))))
          (\<lambda>e. seq_act (catching (delete_stream sid) (\<lambda>_. ret ())) (throw (gateway_error e))))))))))"

record schedule_dto =
  sc_title :: string
  sc_description :: "string option"
  sc_scheduledAt :: "int option" \<comment> \<open>\<open>new Date(s).getTime()\<close>, \<open>None\<close> for NaN\<close>
  sc_productIds :: "string list"

definition scheduleStream :: "string \<Rightarrow> schedule_dto \<Rightarrow> string \<Rightarrow> stream_row handler" where
  "scheduleStream sid d uid =
     bind_act (reads (\<lambda>w. seller_of_user w uid)) (\<lambda>seller.
     case seller of None \<Rightarrow> throw not_a_seller | Some s1 \<Rightarrow>
     bind_act (reads clock) (\<lambda>now.
     if (case sc_scheduledAt d of None \<Rightarrow> True | Some t \<Rightarrow> \<not> now < t)
     then throw (BadRequest ''Scheduled time must be in the future'') else
     seq_act (check_own_products (s_id s1) (sc_productIds d))
     (bind_act (reads (\<lambda>w. first_image w (s_id s1) (sc_productIds d))) (\<lambda>thumb.
      let row = (new_stream sid (s_id s1) now)\<lparr>st_title := sc_title d, st_description := sc_description d,
            st_startedAt := sc_scheduledAt d, st_thumbnailUrl := thumb, st_products := sc_productIds d\<rparr>
      in seq_act (create_stream row) (ret row)))))"

text \<open>The minutely clean-up: scheduled streams more than two minutes late, at most 200 a time.\<close>

definition missed_schedule :: "int \<Rightarrow> stream_row \<Rightarrow> bool" where
  "missed_schedule now st \<longleftrightarrow> \<not> st_isLive st \<and> st_endedAt st = None \<and> st_livekitRoomName st = None \<and>
     (case st_startedAt st of None \<Rightarrow> False | Some t \<Rightarrow> t \<le> now - 2 * 60 * 1000)"

definition deleteMissedScheduledStreams :: "unit handler" where
  "deleteMissedScheduledStreams =
     bind_act (reads (\<lambda>w. take 200 (filter (missed_schedule (clock w)) (trows (streams w))))) (\<lambda>missed.
     for_each missed (\<lambda>st. catching (delete_stream (st_id st)) (\<lambda>_. ret ())))"

definition EARLY_MS :: int where "EARLY_MS = 15 * 60 * 1000"
definition LATE_MS :: int where "LATE_MS = 4 * 60 * 60 * 1000"

definition not_found_stream :: "string \<Rightarrow> exn" where
  "not_found_stream sid = NotFound (''Stream with ID '' @ sid @ '' not found'')"

text \<open>The guards of \<open>startScheduledStream\<close>, in order.\<close>

definition check_start :: "int \<Rightarrow> stream_row \<Rightarrow> exn + unit" where
  "check_start now st =
     (if st_isLive st then Inl (BadRequest ''Stream is already live'')
      else if st_endedAt st \<noteq> None then Inl (BadRequest ''This stream has already ended'')
      else case st_startedAt st of
        None \<Rightarrow> Inl (BadRequest ''This stream has no scheduled start time'')
      | Some planned \<Rightarrow>
          if now < planned - EARLY_MS
          then Inl (BadRequest ''You can start this live up to 15 minutes before the scheduled time'')
          else if planned + LATE_MS < now
          then Inl (BadRequest ''This scheduled live is outside the allowed start window'')
          else if truthy (st_livekitRoomName st)
          then Inl (BadRequest ''This stream is already set up; refresh or contact support'')
          else Inr ())"

definition startScheduledStream :: "livekit \<Rightarrow> string \<Rightarrow> string \<Rightarrow> (stream_row \<times> string) handler" where
  "startScheduledStream lk sid uid =
     (if \<not> isConfigured lk then throw not_configured else
      bind_act (reads (\<lambda>w. (tget (streams w) sid, clock w))) (\<lambda>(row, now).
      case row of None \<Rightarrow> throw (not_found_stream sid) | Some st \<Rightarrow>
      bind_act (reads (\<lambda>w. seller_user w st)) (\<lambda>host.
      if host \<noteq> Some uid then throw (Forbidden ''You can only start your own streams'') else
      seq_act (lift_res (check_start now st))
      (catching
        (seq_act (createRoom lk sid (room_metadata (st_title st) (st_sellerId st) (st_products st)))
        (bind_act (lift_res (getLiveKitUrl lk)) (\<lambda>url.
         bind_act (createPublisherToken lk sid (''seller-'' @ uid)) (\<lambda>token.
         bind_act (update_stream sid (\<lambda>s. s\<lparr>st_isLive := True, st_startedAt := Some now, st_heartbeatAt := Some now,
              st_livekitRoomName := Some sid, st_livekitUrl := Some url\<rparr>)) (\<lambda>updated.
         bind_act (tryStartStreamRecording lk sid sid) (\<lambda>_. ret (updated, token)))))))
        (\<lambda>e. throw (gateway_error e))))))"

section \<open>Views\<close>

record engagement =
  en_likes :: nat
  en_comments :: nat
  en_bids :: nat
  en_topBid :: num

text \<open>The JSON array under an engagement key; a text that is not JSON makes \<open>JSON.parse\<close> throw.\<close>

definition stored_array :: "string \<Rightarrow> json list handler" where
  "stored_array k =
     bind_act (reads (\<lambda>w. redis_get (clock w) (cache w) k)) (\<lambda>v.
     case v of
       None \<Rightarrow> ret []
     | Some (JsonText (JArr xs)) \<Rightarrow> ret xs
     | Some _ \<Rightarrow> throw (Crash ''SyntaxError''))"

definition bid_amount :: "json \<Rightarrow> num" where
  "bid_amount b = (case get_prop b ''amount'' of Some (JNum x) \<Rightarrow> x | _ \<Rightarrow> 0)"

definition top_bid :: "json list \<Rightarrow> num" where
  "top_bid bids = foldl (\<lambda>m b. if m < bid_amount b then bid_amount b else m) 0 bids"

definition getEngagementSummary :: "string \<Rightarrow> engagement handler" where
  "getEngagementSummary sid =
     bind_act (stored_array (streamLikesKey sid)) (\<lambda>likedBy.
     bind_act (stored_array (streamCommentsKey sid)) (\<lambda>comments.
     bind_act (stored_array (streamBidsKey sid)) (\<lambda>bids.
     ret \<lparr>en_likes = length likedBy, en_comments = length comments, en_bids = length bids,
          en_topBid = (if bids = [] then 0 else top_bid bids)\<rparr>)))"

definition shown_viewers :: "world \<Rightarrow> stream_row \<Rightarrow> int" where
  "shown_viewers w st =
     max (st_viewCount st) (int (redis_scard (clock w) (cache w) (streamViewersKey (st_id st))))"

record stream_view =
  sv_stream :: stream_row
  sv_seller :: "seller_row option"
  sv_products :: "product_row list"
  sv_category :: "category_row option"
  sv_viewCount :: int
  sv_engagement :: "engagement option"

definition stream_view_of :: "engagement option \<Rightarrow> world \<Rightarrow> stream_row \<Rightarrow> stream_view" where
  "stream_view_of en w st =
     \<lparr>sv_stream = st, sv_seller = tget (sellers w) (st_sellerId st),
      sv_products = List.map_filter (tget (products w)) (st_products st),
      sv_category = Option.bind (st_categoryId st) (tget (categories w)),
      sv_viewCount = shown_viewers w st, sv_engagement = en\<rparr>"

text \<open>\<open>orderBy: { startedAt: 'desc' }\<close> puts rows without a start first.\<close>

definition latest_start_first :: "stream_row list \<Rightarrow> stream_row list" where
  "latest_start_first rows =
     filter (\<lambda>s. st_startedAt s = None) rows @
     newest_first (\<lambda>s. the (st_startedAt s)) (filter (\<lambda>s. st_startedAt s \<noteq> None) rows)"

definition is_active :: "string option \<Rightarrow> stream_row \<Rightarrow> bool" where
  "is_active category st \<longleftrightarrow> st_isLive st \<and> st_endedAt st = None \<and> st_broadcastStartedAt st \<noteq> None \<and>
     (truthy category \<longrightarrow> st_categoryId st = category)"

definition findAllActive :: "nat \<Rightarrow> nat \<Rightarrow> string option \<Rightarrow> stream_view page handler" where
  "findAllActive page limit category =
     reads (\<lambda>w. paginate page limit (stream_view_of None w)
       (latest_start_first (filter (is_active category) (trows (streams w)))))"

definition findStream :: "string \<Rightarrow> stream_view handler" where
  "findStream sid =
     bind_act (reads (\<lambda>w. tget (streams w) sid)) (\<lambda>row.
     case row of None \<Rightarrow> throw (not_found_stream sid) | Some st \<Rightarrow>
     bind_act (getEngagementSummary sid) (\<lambda>en. reads (\<lambda>w. stream_view_of (Some en) w st)))"

definition assertStreamOwnership :: "string \<Rightarrow> string \<Rightarrow> stream_row handler" where
  "assertStreamOwnership sid uid =
     bind_act (reads (\<lambda>w. tget (streams w) sid)) (\<lambda>row.
     case row of None \<Rightarrow> throw (not_found_stream sid) | Some st \<Rightarrow>
     bind_act (reads (\<lambda>w. seller_user w st)) (\<lambda>host.
     if host \<noteq> Some uid then throw (Forbidden ''You can only modify your own streams'') else ret st))"

text \<open>The seller's live stream, with the time until which it can be taken up again.\<close>

definition findSellerActiveLive :: "string \<Rightarrow> (stream_view \<times> int) option option handler" where
  "findSellerActiveLive uid =
     bind_act (reads (\<lambda>w. seller_of_user w uid)) (\<lambda>seller.
     case seller of None \<Rightarrow> ret None | Some s1 \<Rightarrow>
     bind_act (reads (\<lambda>w. latest_start_first
         (filter (\<lambda>st. st_sellerId st = s_id s1 \<and> st_isLive st \<and> st_endedAt st = None) (trows (streams w))))) (\<lambda>rows.
     case rows of [] \<Rightarrow> ret (Some None) | st # _ \<Rightarrow>
     bind_act (getEngagementSummary (st_id st)) (\<lambda>en.
     bind_act (reads (\<lambda>w. stream_view_of (Some en) w st)) (\<lambda>view.
     let lastBeat = dflt (st_createdAt st) (or_else (st_heartbeatAt st) (st_startedAt st))
     in ret (Some (Some (view, lastBeat + 5 * 60 * 1000)))))))"

section \<open>Ending a stream\<close>

text \<open>The fields of an update; a description or a picture may be given as null.\<close>

record update_dto =
  us_title :: "string option"
  us_description :: "string option option"
  us_categoryId :: "string option option"
  us_visibility :: "visibility option"
  us_productIds :: "string list option"
  us_thumbnailUrl :: "string option option"
  us_isLive :: "bool option"
  us_scheduledAt :: "int option"

definition apply_update :: "update_dto \<Rightarrow> stream_row \<Rightarrow> stream_row" where
  "apply_update d st = st\<lparr>
     st_title := dflt (st_title st) (us_title d),
     st_description := dflt (st_description st) (us_description d),
     st_categoryId := (case us_categoryId d of None \<Rightarrow> st_categoryId st | Some c \<Rightarrow> nonempty c),
     st_visibility := dflt (st_visibility st) (us_visibility d),
     st_startedAt := (case us_scheduledAt d of None \<Rightarrow> st_startedAt st | Some t \<Rightarrow> Some t),
     st_isLive := dflt (st_isLive st) (us_isLive d)\<rparr>"

text \<open>The row is connected to an existing category; products are replaced as a whole.\<close>

definition write_update :: "string \<Rightarrow> update_dto \<Rightarrow> (stream_row \<Rightarrow> stream_row) \<Rightarrow> stream_row handler" where
  "write_update sid d f =
     bind_act (reads (\<lambda>w. case us_categoryId d of None \<Rightarrow> False
         | Some c \<Rightarrow> truthy c \<and> tget (categories w) (the c) = None)) (\<lambda>bad.
     if bad then throw missing_row
     else if \<not> distinct (dflt [] (us_productIds d)) then throw (Crash ''P2002'')
     else update_stream sid f)"

text \<open>Streams end: the carts get their expiry and the engagement keys go.\<close>

definition settle_ended :: "string \<Rightarrow> int \<Rightarrow> unit handler" where
  "settle_ended sid endedAt =
     seq_act (onStreamEnded sid endedAt) (writes (upd_cache (clearStreamEphemeralKeys sid)))"

definition updateStream :: "livekit \<Rightarrow> push_env \<Rightarrow> string \<Rightarrow> update_dto \<Rightarrow> string \<Rightarrow> stream_row handler" where
  "updateStream lk pv sid d uid =
     bind_act (assertStreamOwnership sid uid) (\<lambda>st.
     let ends = st_isLive st \<and> us_isLive d = Some False
     in bind_act
       (case us_productIds d of
          None \<Rightarrow> ret (case us_thumbnailUrl d of None \<Rightarrow> id | Some t \<Rightarrow> (\<lambda>s. s\<lparr>st_thumbnailUrl := t\<rparr>))
        | Some pids \<Rightarrow>
            if length pids < 1 \<or> 3 < length pids
            then throw (BadRequest ''Provide between 1 and 3 products for this stream'')
            else seq_act (check_own_products (st_sellerId st) pids)
              (bind_act (reads (\<lambda>w. first_image w (st_sellerId st) pids)) (\<lambda>thumb.
               ret (\<lambda>s. s\<lparr>st_thumbnailUrl := thumb, st_products := pids\<rparr>))))
       (\<lambda>listing.
        bind_act (if ends then finalizeLiveRecordingAndRoom lk st else ret no_patch) (\<lambda>patch.
        bind_act (reads clock) (\<lambda>now.
        bind_act (write_update sid d (\<lambda>s.
            let s' = apply_replay patch (listing (apply_update d s))
            in if ends then s'\<lparr>st_endedAt := Some now\<rparr> else s')) (\<lambda>updated.
        seq_act (if ends then
            seq_act (queueNotifyBuyersLiveEnded pv True updated) (settle_ended sid (dflt now (st_endedAt updated)))
          else ret ())
        (ret updated))))))"

definition removeStream :: "livekit \<Rightarrow> push_env \<Rightarrow> string \<Rightarrow> string \<Rightarrow> stream_row handler" where
  "removeStream lk pv sid uid =
     bind_act (assertStreamOwnership sid uid) (\<lambda>st.
     bind_act (finalizeLiveRecordingAndRoom lk st) (\<lambda>_.
     seq_act (delete_stream sid)
     (seq_act (writes (upd_cache (clearStreamEphemeralKeys sid)))
     (seq_act (if st_isLive st then queueNotifyBuyersLiveEnded pv True st else ret ())
     (ret st)))))"

record end_summary =
  es_durationSeconds :: int
  es_viewCount :: int
  es_likes :: nat
  es_comments :: nat
  es_ordersPlaced :: nat
  es_revenueTotal :: num
  es_replayUrl :: "string option"
  es_replayStatus :: replay_status
  es_replaySaved :: bool
  es_recordingConfigured :: bool

definition duration_seconds :: "int \<Rightarrow> int \<Rightarrow> int" where
  "duration_seconds startedAt endedAt = math_round (ndiv (of_int (max 0 (endedAt - startedAt))) 1000)"

definition orders_during :: "world \<Rightarrow> string \<Rightarrow> int \<Rightarrow> int \<Rightarrow> order_row list" where
  "orders_during w sid lo hi =
     filter (\<lambda>o1. o_streamId o1 = Some sid \<and> lo \<le> o_createdAt o1 \<and> o_createdAt o1 \<le> hi) (trows (orders w))"

definition buildStreamEndSummary ::
    "livekit \<Rightarrow> string \<Rightarrow> int \<Rightarrow> int \<Rightarrow> int \<Rightarrow> string option \<Rightarrow> replay_status \<Rightarrow> end_summary handler" where
  "buildStreamEndSummary lk sid startedAt endedAt viewCount replayUrl replayStatus =
     bind_act (getEngagementSummary sid) (\<lambda>en.
     bind_act (reads (\<lambda>w. orders_during w sid startedAt endedAt)) (\<lambda>placed.
     ret \<lparr>es_durationSeconds = duration_seconds startedAt endedAt, es_viewCount = viewCount,
          es_likes = en_likes en, es_comments = en_comments en, es_ordersPlaced = length placed,
          es_revenueTotal = foldl (\<lambda>s o1. nadd s (o_totalAmount o1)) 0 placed,
          es_replayUrl = replayUrl, es_replayStatus = replayStatus,
          es_replaySaved = (replayStatus = RS_READY \<and> truthy (opt_trim replayUrl)),
          es_recordingConfigured = isReplayRecordingConfigured lk\<rparr>))"

definition stopStream ::
    "(int \<Rightarrow> int) \<Rightarrow> livekit \<Rightarrow> push_env \<Rightarrow> string \<Rightarrow> string \<Rightarrow> (stream_row \<times> end_summary) handler" where
  "stopStream db_date lk pv sid uid =
     bind_act (assertStreamOwnership sid uid) (\<lambda>st.
     let startedAt = dflt (st_createdAt st) (st_startedAt st)
     in bind_act (finalizeLiveRecordingAndRoom lk st) (\<lambda>patch.
     bind_act (reads clock) (\<lambda>endedAt.
     let secs = duration_seconds startedAt endedAt
     in bind_act (update_stream sid (\<lambda>s. apply_replay patch
          (s\<lparr>st_isLive := False, st_endedAt := Some endedAt, st_durationSeconds := Some secs\<rparr>))) (\<lambda>updated.
     seq_act (writes (upd_stream sid (\<lambda>s. s\<lparr>st_sessionSeconds := Some secs, st_sessionEndedAt := Some endedAt\<rparr>)))
     (seq_act (if 0 < secs then bind_act (recordStreamDuration db_date (st_sellerId st) secs) (\<lambda>_. ret ()) else ret ())
     (seq_act (if st_isLive st then queueNotifyBuyersLiveEnded pv True updated else ret ())
     (seq_act (onStreamEnded sid endedAt)
     (bind_act (buildStreamEndSummary lk sid startedAt endedAt (st_viewCount st) (st_replayUrl updated)
          (st_replayStatus updated)) (\<lambda>summary.
      seq_act (writes (upd_cache (clearStreamEphemeralKeys sid)))
      (ret (updated, summary)))))))))))"

section \<open>While a stream is live\<close>

definition touchSellerHeartbeat :: "string \<Rightarrow> string \<Rightarrow> int handler" where
  "touchSellerHeartbeat sid uid =
     bind_act (assertStreamOwnership sid uid) (\<lambda>_.
     bind_act (reads clock) (\<lambda>beat.
     bind_act (update_stream sid (\<lambda>s. s\<lparr>st_heartbeatAt := Some beat\<rparr>)) (\<lambda>_. ret beat)))"

definition room_of :: "string \<Rightarrow> string" where "room_of sid = ''stream:'' @ sid"

definition emitBroadcastStarted :: "string \<Rightarrow> unit handler" where
  "emitBroadcastStarted sid =
     writes (\<lambda>w. send_mail (Emit (room_of sid) ''broadcast_started''
       (JObj [(''streamId'', JStr sid), (''timestamp'', JStr (iso_string (clock w)))])) w)"

text \<open>\<open>None\<close> is the answer \<open>not_live\<close>, otherwise the time the broadcast started.\<close>

definition markBroadcastStarted :: "livekit \<Rightarrow> push_env \<Rightarrow> string \<Rightarrow> string option \<Rightarrow> int option handler" where
  "markBroadcastStarted lk pv sid uid =
     seq_act (if truthy uid then bind_act (assertStreamOwnership sid (the uid)) (\<lambda>_. ret ()) else ret ())
     (bind_act (reads (\<lambda>w. (tget (streams w) sid, clock w))) (\<lambda>(row, now).
      case row of None \<Rightarrow> ret None | Some st \<Rightarrow>
      if \<not> st_isLive st \<or> st_endedAt st \<noteq> None then ret None else
      let started = dflt now (st_broadcastStartedAt st)
      in bind_act (update_stream sid (\<lambda>s. s\<lparr>st_broadcastStartedAt := Some started\<rparr>)) (\<lambda>updated.
         seq_act (if st_buyersNotifiedAt updated = None then
             bind_act (update_stream sid (\<lambda>s. s\<lparr>st_buyersNotifiedAt := Some now\<rparr>)) (\<lambda>_.
             queueNotifyBuyersLiveStarted pv updated)
           else ret ())
         (seq_act (if st_broadcastStartedAt st = None then emitBroadcastStarted sid else ret ())
         (seq_act (ensureStreamRecordingStarted lk sid (dflt sid (st_livekitRoomName st)) (st_livekitEgressId st))
         (ret (Some started)))))))"

text \<open>One view per person and stream in ten minutes, counted under a key that is set once.\<close>

definition viewer_join_key :: "string \<Rightarrow> string \<Rightarrow> string" where
  "viewer_join_key sid who = ''stream:viewer:join:'' @ sid @ '':'' @ who"

definition count_view :: "string \<Rightarrow> string \<Rightarrow> unit handler" where
  "count_view sid who =
     bind_act (reads (\<lambda>w. redis_setNx (clock w) (viewer_join_key sid who) (Raw ''1'') 600 (cache w))) (\<lambda>(first, c).
     seq_act (writes (\<lambda>w. w\<lparr>cache := c\<rparr>))
     (if first then
        catching (bind_act (update_stream sid (\<lambda>s. s\<lparr>st_viewCount := st_viewCount s + 1\<rparr>)) (\<lambda>_. ret ()))
          (\<lambda>_. ret ())
      else ret ()))"

definition check_joinable :: "stream_row \<Rightarrow> exn + unit" where
  "check_joinable st =
     (if \<not> st_isLive st then Inl (BadRequest ''This stream is not live'')
      else if \<not> truthy (st_livekitRoomName st) \<or> \<not> truthy (st_livekitUrl st)
      then Inl (BadRequest ''Stream does not have LiveKit configured'') else Inr ())"

record join_answer =
  ja_token :: string
  ja_url :: string
  ja_room :: string

definition no_stream_short :: "string \<Rightarrow> exn" where
  "no_stream_short sid = NotFound (''Stream '' @ sid @ '' not found'')"

definition getJoinToken :: "livekit \<Rightarrow> string \<Rightarrow> string \<Rightarrow> string \<Rightarrow> join_answer handler" where
  "getJoinToken lk sid uid identity =
     bind_act (reads (\<lambda>w. tget (streams w) sid)) (\<lambda>row.
     case row of None \<Rightarrow> throw (no_stream_short sid) | Some st \<Rightarrow>
     seq_act (lift_res (check_joinable st))
     (bind_act (reads (\<lambda>w. (seller_user w st = Some uid, seller_of_user w uid))) (\<lambda>(isOwner, seller).
      if isOwner \<and> (case seller of None \<Rightarrow> True | Some s1 \<Rightarrow> s_status s1 \<noteq> VS_VERIFIED)
      then throw (Forbidden ''Your seller account must be verified before you can go live.'') else
      let room = the (st_livekitRoomName st)
      in bind_act (if isOwner then createPublisherToken lk room (str_or (Some identity) (''seller-'' @ uid))
                   else createSubscriberToken lk room (str_or (Some identity) (''viewer-'' @ uid))) (\<lambda>token.
      seq_act (if \<not> isOwner then count_view sid uid else ret ())
      (ret \<lparr>ja_token = token, ja_url = the (st_livekitUrl st), ja_room = room\<rparr>)))))"

text \<open>\<open>identity.replace(/[^a-zA-Z0-9_-]/g, '').slice(0, 128) || 'viewer'\<close>\<close>

definition safe_identity :: "string \<Rightarrow> string" where
  "safe_identity s =
     str_or (Some (take 128 (filter (\<lambda>c. is_letter c \<or> is_digit c \<or> c = CHR ''_'' \<or> c = CHR ''-'') s))) ''viewer''"

definition getViewerToken :: "livekit \<Rightarrow> string \<Rightarrow> string \<Rightarrow> join_answer handler" where
  "getViewerToken lk sid identity =
     bind_act (reads (\<lambda>w. tget (streams w) sid)) (\<lambda>row.
     case row of None \<Rightarrow> throw (no_stream_short sid) | Some st \<Rightarrow>
     seq_act (lift_res (check_joinable st))
     (let room = the (st_livekitRoomName st)
      in bind_act (createSubscriberToken lk room identity) (\<lambda>token.
         seq_act (count_view sid (safe_identity identity))
         (bind_act (lift_res (getWebSocketUrl lk)) (\<lambda>url.
          ret \<lparr>ja_token = token, ja_url = url, ja_room = room\<rparr>)))))"

section \<open>Stale lives\<close>

definition is_zombie :: "int \<Rightarrow> stream_row \<Rightarrow> bool" where
  "is_zombie now st \<longleftrightarrow> st_isLive st \<and> st_endedAt st = None \<and>
     (let staleStart = now - 8 * 60 * 60 * 1000; legacyCutoff = now - 24 * 60 * 60 * 1000;
          orphanCutoff = now - 5 * 60 * 1000;
          before = (\<lambda>t cut. case t of None \<Rightarrow> False | Some x \<Rightarrow> x < cut)
      in before (st_heartbeatAt st) orphanCutoff \<or>
         (st_heartbeatAt st = None \<and> before (st_startedAt st) orphanCutoff) \<or>
         before (st_startedAt st) staleStart \<or>
         (st_startedAt st = None \<and> st_createdAt st < legacyCutoff))"

definition end_zombie :: "livekit \<Rightarrow> push_env \<Rightarrow> stream_row \<Rightarrow> unit handler" where
  "end_zombie lk pv st =
     catching
       (bind_act (finalizeLiveRecordingAndRoom lk st) (\<lambda>patch.
        bind_act (reads clock) (\<lambda>endedAt.
        bind_act (update_stream (st_id st) (\<lambda>s. apply_replay patch (s\<lparr>st_isLive := False, st_endedAt := Some endedAt\<rparr>))) (\<lambda>updated.
        seq_act (settle_ended (st_id st) endedAt) (queueNotifyBuyersLiveEnded pv False updated)))))
       (\<lambda>_. ret ())"

definition sweepZombieLiveStreams :: "bool \<Rightarrow> livekit \<Rightarrow> push_env \<Rightarrow> unit handler" where
  "sweepZombieLiveStreams disabled lk pv =
     (if disabled then ret () else
      bind_act (reads (\<lambda>w. filter (is_zombie (clock w)) (trows (streams w)))) (\<lambda>zombies.
      for_each zombies (end_zombie lk pv)))"

section \<open>Webhooks of the media server\<close>

definition handleTrackPublished :: "livekit \<Rightarrow> push_env \<Rightarrow> string option \<Rightarrow> bool \<Rightarrow> unit handler" where
  "handleTrackPublished lk pv room isVideo =
     (case nonempty (opt_trim room) of None \<Rightarrow> ret () | Some sid \<Rightarrow>
      if \<not> isVideo then ret () else
      catching (bind_act (markBroadcastStarted lk pv sid None) (\<lambda>_. ret ())) (\<lambda>_. ret ()))"

definition handleEgressEnded :: "livekit \<Rightarrow> egress_info option \<Rightarrow> unit handler" where
  "handleEgressEnded lk egress =
     (case egress of None \<Rightarrow> ret () | Some info \<Rightarrow>
      case nonempty (opt_trim (eg_roomName info)) of None \<Rightarrow> ret () | Some sid \<Rightarrow>
      let r = applyEgressWebhookResult lk info;
          url = (case nonempty (er_replayUrl r) of Some u \<Rightarrow> Some u
                 | None \<Rightarrow> if \<not> er_failed r then publicReplayUrlForStreamId lk sid else None);
          patch = (if truthy url then
              no_patch\<lparr>rp_clearEgress := True, rp_replayUrl := url, rp_durationSec := er_durationSec r,
                rp_status := Some RS_READY\<rparr>
            else if er_failed r then no_patch\<lparr>rp_clearEgress := True, rp_status := Some RS_FAILED\<rparr>
            else no_patch\<lparr>rp_clearEgress := True\<rparr>)
      in catching (bind_act (update_stream sid (apply_replay patch)) (\<lambda>_. ret ())) (\<lambda>_. ret ()))"

datatype webhook_event =
    TrackPublished "string option" bool \<comment> \<open>room, and whether the track is a video\<close>
  | EgressEnded "egress_info option"
  | OtherEvent

text \<open>
  \<open>receive\<close> is the receiver of the media server's library, which checks the signature of the body
  unless told to skip that.
\<close>

definition handleRawPayload ::
    "livekit \<Rightarrow> push_env \<Rightarrow> (string \<Rightarrow> string option \<Rightarrow> bool \<Rightarrow> exn + webhook_event) \<Rightarrow> string \<Rightarrow> string option \<Rightarrow>
     unit handler" where
  "handleRawPayload lk pv receive body authorization =
     (if lk_text lk ''LIVEKIT_API_KEY'' = None \<or> lk_text lk ''LIVEKIT_API_SECRET'' = None \<or> body = [] then ret () else
      let skip = lk_cfg lk ''LIVEKIT_WEBHOOK_SKIP_VERIFY'' \<in> {Some ''true'', Some ''1''}
      in bind_act (lift_res (receive body authorization skip)) (\<lambda>event.
         case event of
           TrackPublished room isVideo \<Rightarrow> handleTrackPublished lk pv room isVideo
         | EgressEnded egress \<Rightarrow> handleEgressEnded lk egress
         | OtherEvent \<Rightarrow> ret ()))"

end
