(* ===== verification/Engagement.thy ===== *)
theory Engagement
  imports Streams
begin

text \<open>
  What viewers do on a stream: likes, comments, bids, following the seller, the shop of the stream
  and the state a viewer polls (src/streams/streams.service.ts), and the socket events of
  src/streams/streams.gateway.ts. Likes, comments and bids are JSON arrays in Redis that live 48 hours
  after the last change.
\<close>

definition STREAM_ENGAGEMENT_TTL_SECONDS :: nat where "STREAM_ENGAGEMENT_TTL_SECONDS = 48 * 60 * 60"

definition store_array :: "string \<Rightarrow> json list \<Rightarrow> unit handler" where
  "store_array k xs = writes (\<lambda>w. upd_cache
     (redis_set (clock w) k (JsonText (JArr xs)) (Some STREAM_ENGAGEMENT_TTL_SECONDS)) w)"

section \<open>Likes, comments and bids\<close>

definition toggled :: "string \<Rightarrow> json list \<Rightarrow> json list" where
  "toggled uid likedBy = (if JStr uid \<in> set likedBy then remove1 (JStr uid) likedBy else likedBy @ [JStr uid])"

text \<open>The result: whether the user likes the stream now, and the number of likes.\<close>

definition toggleLike :: "string \<Rightarrow> string \<Rightarrow> (bool \<times> nat) handler" where
  "toggleLike sid uid =
     bind_act (findStream sid) (\<lambda>_.
     bind_act (stored_array (streamLikesKey sid)) (\<lambda>likedBy.
     let after = toggled uid likedBy
     in seq_act (store_array (streamLikesKey sid) after) (ret (JStr uid \<notin> set likedBy, length after))))"

definition user_name :: "world \<Rightarrow> string \<Rightarrow> string" where
  "user_name w uid = (case tget (users w) uid of None \<Rightarrow> ''user'' | Some u \<Rightarrow> u_name u)"

definition addComment :: "string \<Rightarrow> string \<Rightarrow> string \<Rightarrow> json handler" where
  "addComment sid uid text =
     bind_act (findStream sid) (\<lambda>_.
     bind_act (reads (\<lambda>w. (clock w, user_name w uid))) (\<lambda>(now, name).
     bind_act (stored_array (streamCommentsKey sid)) (\<lambda>comments.
     let comment = JObj [(''id'', JStr (''cmt-'' @ int_digits now)), (''userId'', JStr uid), (''userName'', JStr name),
           (''text'', JStr (trim text)), (''createdAt'', JStr (iso_string now))]
     in seq_act (store_array (streamCommentsKey sid) (last_chars 50 (comments @ [comment]))) (ret comment))))"

definition getComments :: "string \<Rightarrow> json list handler" where
  "getComments sid = bind_act (findStream sid) (\<lambda>_. stored_array (streamCommentsKey sid))"

text \<open>The amount is \<open>None\<close> when it is not finite; the result is the bid and the highest of the kept bids.\<close>

definition addBid :: "string \<Rightarrow> string \<Rightarrow> num option \<Rightarrow> (json \<times> num) handler" where
  "addBid sid uid amount =
     bind_act (findStream sid) (\<lambda>_.
     case amount of None \<Rightarrow> throw (BadRequest ''Bid amount must be a positive number'') | Some a \<Rightarrow>
     if a \<le> 0 then throw (BadRequest ''Bid amount must be a positive number'') else
     bind_act (reads (\<lambda>w. (clock w, user_name w uid))) (\<lambda>(now, name).
     bind_act (stored_array (streamBidsKey sid)) (\<lambda>bids.
     let bid = JObj [(''id'', JStr (''bid-'' @ int_digits now)), (''userId'', JStr uid), (''userName'', JStr name),
           (''amount'', JNum a), (''createdAt'', JStr (iso_string now))];
         latest = last_chars 100 (bids @ [bid])
     in seq_act (store_array (streamBidsKey sid) latest) (ret (bid, top_bid latest)))))"

record live_state =
  ls_isLive :: bool
  ls_isBroadcasting :: bool
  ls_title :: string
  ls_viewCount :: int
  ls_engagement :: engagement
  ls_comments :: "json list"

definition getLiveState :: "string \<Rightarrow> live_state handler" where
  "getLiveState sid =
     bind_act (reads (\<lambda>w. tget (streams w) sid)) (\<lambda>row.
     case row of None \<Rightarrow> throw (not_found_stream sid) | Some st \<Rightarrow>
     bind_act (getEngagementSummary sid) (\<lambda>en.
     bind_act (reads (\<lambda>w. shown_viewers w st)) (\<lambda>viewers.
     bind_act (getComments sid) (\<lambda>comments.
     ret \<lparr>ls_isLive = st_isLive st, ls_isBroadcasting = (st_broadcastStartedAt st \<noteq> None), ls_title = st_title st,
          ls_viewCount = viewers, ls_engagement = en, ls_comments = last_chars 30 comments\<rparr>))))"

section \<open>Following and the shop\<close>

text \<open>The upsert leaves an existing row as it is.\<close>

definition followSeller :: "string \<Rightarrow> string \<Rightarrow> string handler" where
  "followSeller sid uid =
     bind_act (findStream sid) (\<lambda>view.
     if \<not> st_isLive (sv_stream view) \<or> st_endedAt (sv_stream view) \<noteq> None
     then throw (BadRequest ''You can only follow during a live stream'') else
     case sv_seller view of None \<Rightarrow> throw (NotFound ''Seller not found'') | Some s1 \<Rightarrow>
     bind_act (reads (\<lambda>w. buyer_of_user w uid)) (\<lambda>buyer.
     case buyer of None \<Rightarrow> throw (NotFound ''Buyer profile not found'') | Some b \<Rightarrow>
     seq_act (writes (\<lambda>w. let k = (b_id b, s_id s1) in case tget (follows w) k of Some _ \<Rightarrow> w
         | None \<Rightarrow> w\<lparr>follows := tput k \<lparr>fw_buyerId = b_id b, fw_sellerId = s_id s1, fw_createdAt = clock w\<rparr> (follows w)\<rparr>))
       (ret (s_id s1))))"

datatype store_sort = BEST_SELLER | AUCTION | SOLD

record store_query =
  sq_search :: "string option"
  sq_sort :: "store_sort option"
  sq_minPrice :: "num option"
  sq_maxPrice :: "num option"

definition in_store :: "string \<Rightarrow> store_query \<Rightarrow> product_row \<Rightarrow> bool" where
  "in_store seller q p \<longleftrightarrow> p_sellerId p = seller \<and> p_status p = PS_ACTIVE \<and>
     (truthy (sq_search q) \<longrightarrow> str_includes (to_lower (p_name p)) (to_lower (the (sq_search q)))) \<and>
     (case sq_minPrice q of None \<Rightarrow> True | Some lo \<Rightarrow> lo \<le> p_price p) \<and>
     (case sq_maxPrice q of None \<Rightarrow> True | Some hi \<Rightarrow> p_price p \<le> hi)"

text \<open>\<open>updatedAt\<close>, a column the database keeps, is the argument \<open>touched\<close>.\<close>

definition getStoreProducts ::
    "(product_row \<Rightarrow> int) \<Rightarrow> string \<Rightarrow> store_query \<Rightarrow> (seller_row \<times> product_row list) handler" where
  "getStoreProducts touched sid q =
     bind_act (findStream sid) (\<lambda>view.
     case sv_seller view of None \<Rightarrow> throw (NotFound ''Seller not found'') | Some s1 \<Rightarrow>
     bind_act (reads (\<lambda>w. filter (in_store (s_id s1) q) (trows (products w)))) (\<lambda>rows.
     ret (s1, take 60 (case sq_sort q of
         Some SOLD \<Rightarrow> newest_first touched rows
       | Some AUCTION \<Rightarrow> sort_key (\<lambda>p. - p_price p) rows
       | _ \<Rightarrow> newest_first p_createdAt rows))))"

section \<open>Socket events\<close>

text \<open>A viewer's socket, by its id; the room keeps the sockets that are connected.\<close>

definition emit_count :: "string \<Rightarrow> nat \<Rightarrow> unit handler" where
  "emit_count sid n = writes (send_mail (Emit (room_of sid) ''viewer_count''
     (JObj [(''streamId'', JStr sid), (''count'', JNum (of_nat n))])))"

definition track :: "(int \<Rightarrow> redis \<Rightarrow> nat \<times> redis) \<Rightarrow> nat handler" where
  "track f = bind_act (reads (\<lambda>w. f (clock w) (cache w))) (\<lambda>(n, c).
     seq_act (writes (\<lambda>w. w\<lparr>cache := c\<rparr>)) (ret n))"

definition handleJoinRoom :: "string \<Rightarrow> string \<Rightarrow> unit handler" where
  "handleJoinRoom sid sock =
     (if sid = [] then ret () else
      bind_act (track (\<lambda>now. trackViewerJoin now sid sock)) (\<lambda>n. emit_count sid n))"

definition handleDisconnect :: "string option \<Rightarrow> string \<Rightarrow> unit handler" where
  "handleDisconnect joined sock =
     (if \<not> truthy joined then ret () else
      bind_act (track (\<lambda>now. trackViewerLeave now (the joined) sock)) (\<lambda>n. emit_count (the joined) n))"

definition handleChatMessage :: "string \<Rightarrow> string \<Rightarrow> string option \<Rightarrow> string \<Rightarrow> unit handler" where
  "handleChatMessage sid message sender sock =
     (if sid = [] \<or> message = [] then ret () else
      writes (\<lambda>w. send_mail (Emit (room_of sid) ''new_message''
        (JObj [(''streamId'', JStr sid), (''message'', JStr message), (''senderName'', JStr (dflt ''Anonymous'' sender)),
               (''senderId'', JStr sock), (''timestamp'', JStr (iso_string (clock w)))])) w))"

definition handleLikeStream :: "string \<Rightarrow> string \<Rightarrow> unit handler" where
  "handleLikeStream sid sock =
     (if sid = [] then ret () else writes (send_mail (Emit (room_of sid) ''floating_hearts''
        (JObj [(''streamId'', JStr sid), (''from'', JStr sock)]))))"

definition handlePinProduct :: "string \<Rightarrow> string \<Rightarrow> string option \<Rightarrow> unit handler" where
  "handlePinProduct sid pid name =
     (if sid = [] \<or> pid = [] then ret () else
      writes (\<lambda>w. send_mail (Emit (room_of sid) ''pinned_product''
        (JObj [(''streamId'', JStr sid), (''productId'', JStr pid), (''productName'', JStr (dflt [] name)),
               (''timestamp'', JStr (iso_string (clock w)))])) w))"

end
