(* ===== verification/StreamFacts.thy ===== *)
theory StreamFacts
  imports Engagement
begin

text \<open>
  Facts about live streams: what a well-formed stream row is, the life of a stream from scheduled over
  on air to over, exact equations for the steps that end a stream, and the proof that every operation,
  sweep and webhook only moves streams forward. The engagement arrays have their own invariant.
\<close>

section \<open>The life of a stream\<close>

datatype phase = Scheduled | OnAir | Over

definition stream_phase :: "stream_row \<Rightarrow> phase" where
  "stream_phase st = (if st_endedAt st \<noteq> None then Over else if st_isLive st then OnAir else Scheduled)"

inductive phase_step :: "phase \<Rightarrow> phase \<Rightarrow> bool" where
  stays: "phase_step p p"
| goes_live: "phase_step Scheduled OnAir"
| ends: "phase_step OnAir Over"
| given_up: "phase_step Scheduled Over"

inductive_simps phase_step_simps [simp]:
  "phase_step Over p" "phase_step OnAir p" "phase_step p Over" "phase_step Scheduled p"

lemma phase_step_trans: "phase_step p q \<Longrightarrow> phase_step q r \<Longrightarrow> phase_step p r"
  by (cases p; cases q) auto

text \<open>A stream keeps its seller; it goes on air, is announced and is broadcast at most once.\<close>

definition stream_edge :: "stream_row \<Rightarrow> stream_row \<Rightarrow> bool" where
  "stream_edge st st' \<longleftrightarrow> phase_step (stream_phase st) (stream_phase st') \<and>
     st_id st' = st_id st \<and> st_sellerId st' = st_sellerId st \<and> st_createdAt st' = st_createdAt st \<and>
     (st_broadcastStartedAt st \<noteq> None \<longrightarrow> st_broadcastStartedAt st' = st_broadcastStartedAt st) \<and>
     (st_buyersNotifiedAt st \<noteq> None \<longrightarrow> st_buyersNotifiedAt st' = st_buyersNotifiedAt st) \<and>
     st_viewCount st \<le> st_viewCount st'"

definition stream_ok :: "world \<Rightarrow> string \<Rightarrow> stream_row \<Rightarrow> bool" where
  "stream_ok w k st \<longleftrightarrow> k = st_id st \<and> st_startedAt st \<noteq> None \<and>
     (st_isLive st \<longrightarrow> st_endedAt st = None \<and> check_joinable st = Inr ()) \<and>
     (st_replayStatus st = RS_READY \<longrightarrow> truthy (st_replayUrl st)) \<and>
     distinct (st_products st) \<and> length (st_products st) \<in> {1..3} \<and>
     (\<forall>pid \<in> set (st_products st). own_product w (st_sellerId st) pid \<noteq> None) \<and>
     0 \<le> st_viewCount st \<and> (st_buyersNotifiedAt st \<noteq> None \<longrightarrow> st_broadcastStartedAt st \<noteq> None)"

definition streams_ok :: "world \<Rightarrow> bool" where
  "streams_ok w \<longleftrightarrow> twf (streams w) \<and> (\<forall>k st. tget (streams w) k = Some st \<longrightarrow> stream_ok w k st)"

lemma streams_okD: "streams_ok w \<Longrightarrow> tget (streams w) k = Some st \<Longrightarrow> stream_ok w k st"
  by (simp add: streams_ok_def)

lemma stream_edge_refl [simp]: "stream_edge st st"
  by (simp add: stream_edge_def stays)

lemma stream_edge_trans: "stream_edge a b \<Longrightarrow> stream_edge b c \<Longrightarrow> stream_edge a c"
  by (auto simp: stream_edge_def intro: phase_step_trans)

text \<open>\<open>advanced w v\<close>: the state \<open>v\<close> is well formed and no stream of \<open>w\<close> has gone back.\<close>

definition advanced :: "world \<Rightarrow> world \<Rightarrow> bool" where
  "advanced w v \<longleftrightarrow> streams_ok v \<and> products v = products w \<and>
     (\<forall>k st st'. tget (streams w) k = Some st \<longrightarrow> tget (streams v) k = Some st' \<longrightarrow> stream_edge st st')"

lemma advanced_refl: "streams_ok w \<Longrightarrow> advanced w w"
  by (auto simp: advanced_def)

lemma stream_ok_cong: "products v' = products v \<Longrightarrow> stream_ok v' = stream_ok v"
  by (intro ext) (simp add: stream_ok_def own_product_def)

lemma streams_ok_cong: "streams v' = streams v \<Longrightarrow> products v' = products v \<Longrightarrow> streams_ok v' = streams_ok v"
  by (simp add: streams_ok_def stream_ok_cong[of v' v])

lemma advanced_frame:
  "advanced w v \<Longrightarrow> streams v' = streams v \<Longrightarrow> products v' = products v \<Longrightarrow> advanced w v'"
  by (simp add: advanced_def streams_ok_cong[of v' v])

lemma advanced_fields [simp]:
  "advanced w (v\<lparr>outbox := a\<rparr>) = advanced w v" "advanced w (v\<lparr>media := b\<rparr>) = advanced w v"
  "advanced w (v\<lparr>cache := c\<rparr>) = advanced w v" "advanced w (upd_cache g v) = advanced w v"
  by (simp_all add: advanced_def streams_ok_def stream_ok_def own_product_def upd_cache_def)

lemma upd_stream_fields [simp]:
  "streams (upd_stream k f v) = tupd k f (streams v)" "products (upd_stream k f v) = products v"
  "clock (upd_stream k f v) = clock v" "cache (upd_stream k f v) = cache v" "orders (upd_stream k f v) = orders v"
  "qualDays (upd_stream k f v) = qualDays v" "sellers (upd_stream k f v) = sellers v"
  "media (upd_stream k f v) = media v"
  by (simp_all add: upd_stream_def)

lemma keeps_advanced_frame:
  "(\<And>v. streams (f v) = streams v \<and> products (f v) = products v) \<Longrightarrow> keeps (advanced w) (writes f)"
  by (rule keeps_writes) (auto intro: advanced_frame)

text \<open>A step of one row that keeps it well formed and moves it along an edge.\<close>

definition row_step :: "world \<Rightarrow> (stream_row \<Rightarrow> stream_row) \<Rightarrow> stream_row \<Rightarrow> bool" where
  "row_step w f st \<longleftrightarrow> (stream_ok w (st_id st) st \<longrightarrow> stream_ok w (st_id st) (f st) \<and> stream_edge st (f st))"

lemma advanced_update:
  assumes v: "advanced w v" and f: "\<And>st. tget (streams v) k = Some st \<Longrightarrow> row_step v f st"
  shows "advanced w (upd_stream k f v)"
proof -
  have ok: "stream_ok v j st \<and> (j = k \<longrightarrow> stream_ok v k (f st) \<and> stream_edge st (f st))"
    if "tget (streams v) j = Some st" for j st
    using streams_okD[of v j st] v f[of st] that by (auto simp: advanced_def row_step_def stream_ok_def)
  have cong: "stream_ok (upd_stream k f v) = stream_ok v"
    by (rule stream_ok_cong) (simp add: upd_stream_def)
  show ?thesis
    unfolding advanced_def
  proof (intro conjI allI impI)
    show "streams_ok (upd_stream k f v)"
      using v ok unfolding streams_ok_def cong
      by (auto simp: upd_stream_def advanced_def streams_ok_def split: if_splits)
    show "products (upd_stream k f v) = products w" using v by (simp add: advanced_def upd_stream_def)
  next
    fix j st st' assume a: "tget (streams w) j = Some st" "tget (streams (upd_stream k f v)) j = Some st'"
    then obtain s where s: "tget (streams v) j = Some s" "st' = (if j = k then f s else s)"
      by (auto simp: upd_stream_def split: if_splits)
    have "stream_edge st s" using v a(1) s(1) by (simp add: advanced_def)
    then show "stream_edge st st'" using ok[OF s(1)] s(2) by (auto intro: stream_edge_trans)
  qed
qed

lemma keeps_update_stream:
  "(\<And>v st. row_step v f st) \<Longrightarrow> keeps (advanced w) (update_stream k f)"
  by (auto simp: update_stream_def intro!: keeps_rules keeps_writes advanced_update)

lemma advanced_delete: "advanced w v \<Longrightarrow> advanced w (delete_stream_w k v)"
  using stream_ok_cong[of "delete_stream_w k v" v]
  by (simp add: advanced_def delete_stream_w_def streams_ok_def)

lemma keeps_delete_stream: "keeps (advanced w) (delete_stream k)"
  by (auto simp: delete_stream_def intro!: keeps_rules keeps_writes advanced_delete)

section \<open>Steps that leave the streams alone\<close>

definition final_patch :: "livekit \<Rightarrow> stream_row \<Rightarrow> replay_patch" where
  "final_patch lk st =
     (let recording = isReplayRecordingConfigured lk
      in if truthy (st_livekitEgressId st) \<and> recording then
           replay_patch_of (publicReplayUrlForStreamId lk (st_id st)) (stop_result lk (the (st_livekitEgressId st)))
         else if truthy (st_livekitEgressId st) then no_patch\<lparr>rp_clearEgress := True\<rparr>
         else if recording then no_patch\<lparr>rp_status := Some RS_FAILED\<rparr> else no_patch)"

definition final_calls :: "livekit \<Rightarrow> stream_row \<Rightarrow> media_call list" where
  "final_calls lk st =
     (if truthy (st_livekitEgressId st) \<and> isReplayRecordingConfigured lk
      then [StopRecording (the (st_livekitEgressId st))] else []) @
     (if truthy (st_livekitRoomName st) \<and> isConfigured lk then [DeleteRoom (the (st_livekitRoomName st))] else [])"

lemma wp_finalize [wp_simps]:
  "wp (finalizeLiveRecordingAndRoom lk st) Q w =
     Q (Inr (final_patch lk st)) (w\<lparr>media := media w @ final_calls lk st\<rparr>)"
  by (simp add: finalizeLiveRecordingAndRoom_def final_patch_def final_calls_def Let_def wp_simps log_media_def
      isReplayRecordingConfigured_def)

definition ended_out :: "push_env \<Rightarrow> bool \<Rightarrow> stream_row \<Rightarrow> world \<Rightarrow> mail list" where
  "ended_out pv b st w = outbox (snd (queueNotifyBuyersLiveEnded pv b st w))"

lemma wp_queueEnded [wp_simps]:
  "wp (queueNotifyBuyersLiveEnded pv b st) Q w = Q (Inr ()) (w\<lparr>outbox := ended_out pv b st w\<rparr>)"
proof -
  have "\<exists>ms. queueNotifyBuyersLiveEnded pv b st w = (Inr (), w\<lparr>outbox := outbox w @ ms\<rparr>)"
    using notify_out[of pv _ _ _ "st_id st" "st_title st" "str_or (seller_user w st) []" "seller_name w st" w]
    by (auto simp: queueNotifyBuyersLiveEnded_def notifyBuyersLiveEnded_def bind_act_def reads_def ret_def
        intro: exI[of _ "[]"])
  then show ?thesis by (auto simp: wp_def ended_out_def)
qed

definition started_out :: "push_env \<Rightarrow> stream_row \<Rightarrow> world \<Rightarrow> mail list" where
  "started_out pv st w = outbox (snd (queueNotifyBuyersLiveStarted pv st w))"

lemma wp_queueStarted [wp_simps]:
  "wp (queueNotifyBuyersLiveStarted pv st) Q w = Q (Inr ()) (w\<lparr>outbox := started_out pv st w\<rparr>)"
proof -
  have "\<exists>ms. queueNotifyBuyersLiveStarted pv st w = (Inr (), w\<lparr>outbox := outbox w @ ms\<rparr>)"
    using notify_out[of pv _ _ _ "st_id st" "st_title st" "str_or (seller_user w st) []" "seller_name w st" w]
    by (auto simp: queueNotifyBuyersLiveStarted_def notifyBuyersSellerWentLive_def bind_act_def reads_def)
  then show ?thesis by (auto simp: wp_def started_out_def)
qed

text \<open>The end of a stream touches only the key space.\<close>

lemma upd_cache_twice [simp]: "upd_cache f (upd_cache g w) = upd_cache (\<lambda>c. f (g c)) w"
  by (simp add: upd_cache_def)

lemma stream_end_cache: "\<exists>f. stream_end_w sid e w = upd_cache f w"
proof -
  have one: "\<exists>f. refresh_w s x t u v = upd_cache f v" for s x t u v
    using upd_cache_def[of "\<lambda>c. c" v]
    by (auto simp: refresh_w_def Let_def unindex_w_def save_w_def clear_w_def index_w_def intro: exI[of _ "\<lambda>c. c"])
  have "\<exists>f. fold (refresh_w s x t) us v = upd_cache f v" for s x t us v
  proof (induction us arbitrary: v)
    case Nil
    have "v = upd_cache (\<lambda>c. c) v" by (simp add: upd_cache_def)
    then show ?case by auto
  next
    case (Cons u us)
    obtain f where f: "refresh_w s x t u v = upd_cache f v" using one by blast
    from Cons.IH[of "upd_cache f v"] show ?case by (auto simp: f)
  qed
  then show ?thesis by (simp add: stream_end_w_def)
qed

lemma stream_end_frame [simp]:
  "streams (stream_end_w sid e w) = streams w" "products (stream_end_w sid e w) = products w"
  "clock (stream_end_w sid e w) = clock w" "orders (stream_end_w sid e w) = orders w"
  "qualDays (stream_end_w sid e w) = qualDays w" "sellers (stream_end_w sid e w) = sellers w"
  "media (stream_end_w sid e w) = media w"
  using stream_end_cache[of sid e w] by (auto simp: upd_cache_def)

definition settled_w :: "string \<Rightarrow> int \<Rightarrow> world \<Rightarrow> world" where
  "settled_w sid endedAt w = upd_cache (clearStreamEphemeralKeys sid) (stream_end_w sid endedAt w)"

lemma wp_settle_ended [wp_simps]: "wp (settle_ended sid e) Q w = Q (Inr ()) (settled_w sid e w)"
  by (simp add: settle_ended_def settled_w_def wp_simps)

lemma settled_frame [simp]:
  "streams (settled_w sid e w) = streams w" "products (settled_w sid e w) = products w"
  "clock (settled_w sid e w) = clock w" "media (settled_w sid e w) = media w"
  by (simp_all add: settled_w_def upd_cache_def)

lemma advanced_settled [simp]:
  "advanced w (stream_end_w sid e v) = advanced w v" "advanced w (settled_w sid e v) = advanced w v"
  by (simp_all add: advanced_def streams_ok_def stream_ok_def own_product_def)

lemma wp_update_stream [wp_simps]:
  "wp (update_stream sid f) Q w =
     (case tget (streams w) sid of None \<Rightarrow> Q (Inl missing_row) w | Some st \<Rightarrow> Q (Inr (f st)) (upd_stream sid f w))"
  by (simp add: update_stream_def wp_simps split: option.split)

lemma wp_check_own [wp_simps]:
  "wp (check_own_products seller pids) Q w =
     (if \<forall>pid \<in> set pids. own_product w seller pid \<noteq> None then Q (Inr ()) w
      else Q (Inl (BadRequest (''Products not found or not owned by you: '' @
             join '', '' (filter (\<lambda>pid. own_product w seller pid = None) pids)))) w)"
  by (auto simp: check_own_products_def wp_simps filter_empty_conv)

lemma wp_assertOwner:
  "wp (assertStreamOwnership sid uid) Q w =
     (case tget (streams w) sid of None \<Rightarrow> Q (Inl (not_found_stream sid)) w
      | Some st \<Rightarrow> if seller_user w st = Some uid then Q (Inr st) w
                    else Q (Inl (Forbidden ''You can only modify your own streams'')) w)"
  by (simp add: assertStreamOwnership_def wp_simps split: option.split)

text \<open>What an engagement key holds now; a text that is no array is an error of \<open>JSON.parse\<close>.\<close>

definition array_of :: "world \<Rightarrow> string \<Rightarrow> exn + json list" where
  "array_of w k = fst (stored_array k w)"

lemma wp_stored_array [wp_simps]: "wp (stored_array k) Q w = Q (array_of w k) w"
  by (simp add: wp_def array_of_def stored_array_def bind_act_def reads_def ret_def throw_def
      split: option.split text_val.split json.split)

text \<open>Handlers that write none of the tables of streams and products.\<close>

lemma keeps_advanced_media [keeps_rules]:
  "keeps (advanced w) (createRoom lk room m)" "keeps (advanced w) (deleteRoom lk room)"
  "keeps (advanced w) (startRoomRecording lk room)" "keeps (advanced w) (createToken lk room i a b)"
  "keeps (advanced w) (createPublisherToken lk room i)" "keeps (advanced w) (createSubscriberToken lk room i)"
  by (auto simp: createRoom_def deleteRoom_def startRoomRecording_def createToken_def log_media_def
      createPublisherToken_def createSubscriberToken_def intro!: keeps_rules keeps_advanced_frame)

lemma keeps_advanced_reads [keeps_rules]:
  "keeps (advanced w) (assertStreamOwnership sid uid)" "keeps (advanced w) (check_own_products s1 pids)"
  "keeps (advanced w) (stored_array k)" "keeps (advanced w) (getEngagementSummary sid)"
  "keeps (advanced w) (finalizeLiveRecordingAndRoom lk st)" "keeps (advanced w) (queueNotifyBuyersLiveEnded pv b st)"
  "keeps (advanced w) (queueNotifyBuyersLiveStarted pv st)" "keeps (advanced w) (onStreamEnded sid e)"
  "keeps (advanced w) (settle_ended sid e)" "keeps (advanced w) (emitBroadcastStarted sid)"
proof -
  have s: "keeps (advanced w) (stored_array k)" for k by (auto simp: keeps_def wp_simps)
  show "keeps (advanced w) (stored_array k)" by (rule s)
  show "keeps (advanced w) (getEngagementSummary sid)"
    by (auto simp: getEngagementSummary_def intro!: keeps_rules s)
  show "keeps (advanced w) (assertStreamOwnership sid uid)" "keeps (advanced w) (check_own_products s1 pids)"
    by (auto simp: assertStreamOwnership_def check_own_products_def intro!: keeps_rules)
  show "keeps (advanced w) (finalizeLiveRecordingAndRoom lk st)" "keeps (advanced w) (queueNotifyBuyersLiveEnded pv b st)"
    "keeps (advanced w) (queueNotifyBuyersLiveStarted pv st)" "keeps (advanced w) (onStreamEnded sid e)"
    "keeps (advanced w) (settle_ended sid e)" "keeps (advanced w) (emitBroadcastStarted sid)"
    by (auto simp: keeps_def wp_simps emitBroadcastStarted_def send_mail_def elim: advanced_frame)
qed

section \<open>Steps of a row\<close>

definition patch_ok :: "replay_patch \<Rightarrow> bool" where
  "patch_ok p \<longleftrightarrow> (rp_status p = Some RS_READY \<longrightarrow> rp_replayUrl p \<noteq> None) \<and> rp_replayUrl p \<noteq> Some []"

lemma patch_ok_new [simp]:
  "patch_ok no_patch" "patch_ok (no_patch\<lparr>rp_clearEgress := True\<rparr>)"
  "truthy u \<Longrightarrow> patch_ok (no_patch\<lparr>rp_clearEgress := b, rp_replayUrl := u, rp_durationSec := d, rp_status := Some RS_READY\<rparr>)"
  "truthy u \<Longrightarrow> patch_ok (no_patch\<lparr>rp_clearEgress := b, rp_replayUrl := u, rp_status := Some RS_READY\<rparr>)"
  "patch_ok (no_patch\<lparr>rp_clearEgress := b, rp_status := Some RS_FAILED\<rparr>)"
  "patch_ok (no_patch\<lparr>rp_status := Some RS_FAILED\<rparr>)"
  by (auto simp: patch_ok_def no_patch_def dest: truthy_Some)

lemma patch_ok_final [simp]: "patch_ok (final_patch lk st)"
  by (simp add: final_patch_def Let_def replay_patch_of_def)

lemma apply_replay_fields [simp]:
  "st_id (apply_replay p st) = st_id st" "st_sellerId (apply_replay p st) = st_sellerId st"
  "st_isLive (apply_replay p st) = st_isLive st" "st_startedAt (apply_replay p st) = st_startedAt st"
  "st_endedAt (apply_replay p st) = st_endedAt st" "st_createdAt (apply_replay p st) = st_createdAt st"
  "st_products (apply_replay p st) = st_products st" "st_viewCount (apply_replay p st) = st_viewCount st"
  "st_broadcastStartedAt (apply_replay p st) = st_broadcastStartedAt st"
  "st_buyersNotifiedAt (apply_replay p st) = st_buyersNotifiedAt st"
  "st_livekitRoomName (apply_replay p st) = st_livekitRoomName st"
  "st_livekitUrl (apply_replay p st) = st_livekitUrl st"
  "st_durationSeconds (apply_replay p st) = st_durationSeconds st"
  "st_sessionSeconds (apply_replay p st) = st_sessionSeconds st"
  "st_sessionEndedAt (apply_replay p st) = st_sessionEndedAt st"
  by (simp_all add: apply_replay_def)

lemma replay_kept:
  "patch_ok p \<Longrightarrow> (st_replayStatus st = RS_READY \<longrightarrow> truthy (st_replayUrl st)) \<Longrightarrow>
   st_replayStatus (apply_replay p st) = RS_READY \<longrightarrow> truthy (st_replayUrl (apply_replay p st))"
  by (auto simp: apply_replay_def patch_ok_def dflt_def split: option.splits)

lemma row_step_comp: "row_step v f st \<Longrightarrow> row_step v g (f st) \<Longrightarrow> row_step v (\<lambda>s. g (f s)) st"
  by (auto simp: row_step_def stream_edge_def intro: phase_step_trans)

lemma row_step_replay: "patch_ok p \<Longrightarrow> row_step v (apply_replay p) st"
  using replay_kept[of p st]
  by (simp add: row_step_def stream_ok_def stream_edge_def stream_phase_def stays check_joinable_def)

lemma row_step_off:
  "row_step v (\<lambda>s. s\<lparr>st_isLive := False, st_endedAt := Some e\<rparr>) st"
  "row_step v (\<lambda>s. s\<lparr>st_isLive := False, st_endedAt := Some e, st_durationSeconds := d s\<rparr>) st"
  by (simp_all add: row_step_def stream_ok_def stream_edge_def stream_phase_def phase_step.intros)

lemmas row_step_ended = row_step_comp[OF row_step_off(1) row_step_replay] row_step_comp[OF row_step_off(2) row_step_replay]

text \<open>Fields that no condition of a row reads may change freely.\<close>

lemma row_step_plain:
  "row_step v (\<lambda>s. s\<lparr>st_sessionSeconds := a, st_sessionEndedAt := b\<rparr>) st"
  "row_step v (\<lambda>s. s\<lparr>st_heartbeatAt := c\<rparr>) st"
  "row_step v (\<lambda>s. s\<lparr>st_reminderSentAt := c\<rparr>) st"
  "row_step v (\<lambda>s. s\<lparr>st_viewCount := st_viewCount s + 1\<rparr>) st"
  "row_step v (\<lambda>s. s\<lparr>st_livekitEgressId := x, st_replayStatus := RS_RECORDING\<rparr>) st"
  by (simp_all add: row_step_def stream_ok_def stream_edge_def stream_phase_def stays check_joinable_def)

section \<open>Operations move streams forward\<close>

lemma keeps_advanced_record [keeps_rules]:
  "keeps (advanced w) (recordStreamDuration db s1 secs)"
  by (auto simp: recordStreamDuration_def refreshCommissionWaiver_def getLiveRewardStatus_def Let_def
      intro!: keeps_rules keeps_advanced_frame)

lemma keeps_advanced_try [keeps_rules]: "keeps (advanced w) (tryStartStreamRecording lk sid room)"
  by (auto simp: tryStartStreamRecording_def intro!: keeps_rules keeps_update_stream row_step_plain)

lemma keeps_advanced_ensure [keeps_rules]: "keeps (advanced w) (ensureStreamRecordingStarted lk sid room e)"
  by (auto simp: ensureStreamRecordingStarted_def intro!: keeps_rules)

lemma keeps_advanced_summary [keeps_rules]: "keeps (advanced w) (buildStreamEndSummary lk sid a b c d e)"
  by (auto simp: buildStreamEndSummary_def intro!: keeps_rules)

lemma keeps_advanced_clear [keeps_rules]: "keeps (advanced w) (writes (upd_cache f))"
  by (rule keeps_advanced_frame) (simp add: upd_cache_def)

lemma keeps_advanced_stop: "keeps (advanced w) (stopStream db lk pv sid uid)"
proof -
  have fin: "keeps (advanced w) (bind_act (finalizeLiveRecordingAndRoom lk st) f)"
    if "\<And>p. patch_ok p \<Longrightarrow> keeps (advanced w) (f p)" for st and f :: "replay_patch \<Rightarrow> 'a handler"
    by (rule keeps_bind_res[where R = patch_ok]) (use that in \<open>auto simp: wp_simps elim: advanced_frame\<close>)
  show ?thesis
    unfolding stopStream_def Let_def
    by (intro keeps_rules fin keeps_update_stream row_step_ended keeps_writes advanced_update row_step_plain(1))
qed

lemma keeps_advanced_remove: "keeps (advanced w) (removeStream lk pv sid uid)"
  unfolding removeStream_def by (intro keeps_rules keeps_delete_stream)

lemma keeps_advanced_heartbeat: "keeps (advanced w) (touchSellerHeartbeat sid uid)"
  unfolding touchSellerHeartbeat_def by (intro keeps_rules keeps_update_stream row_step_plain)

lemma keeps_advanced_view [keeps_rules]: "keeps (advanced w) (count_view sid who)"
  by (auto simp: count_view_def redis_setNx_def split: option.split
      intro!: keeps_rules keeps_update_stream row_step_plain keeps_advanced_frame)

lemma keeps_advanced_tokens: 
  "keeps (advanced w) (getJoinToken lk sid uid i)" "keeps (advanced w) (getViewerToken lk sid i)"
  unfolding getJoinToken_def getViewerToken_def Let_def by (intro keeps_rules)+

lemma keeps_advanced_zombies: "keeps (advanced w) (sweepZombieLiveStreams off lk pv)"
proof -
  have "keeps (advanced w) (end_zombie lk pv st)" for st
    unfolding end_zombie_def
    by (intro keeps_rules keeps_bind_res[where R = patch_ok] keeps_update_stream row_step_ended)
       (auto simp: wp_simps elim: advanced_frame)
  then show ?thesis unfolding sweepZombieLiveStreams_def by (intro keeps_rules)
qed

lemma keeps_advanced_cleanup: "keeps (advanced w) deleteMissedScheduledStreams"
  unfolding deleteMissedScheduledStreams_def by (intro keeps_rules keeps_delete_stream)

lemma keeps_advanced_egress: "keeps (advanced w) (handleEgressEnded lk e)"
  unfolding handleEgressEnded_def Let_def
  by (intro keeps_rules keeps_update_stream row_step_replay) simp_all

section \<open>Operations that put a stream on the list or on air\<close>

lemma tupd_tput [simp]: "tupd k f (tput k r t) = tput k (f r) t"
  by (simp add: tupd_def) (simp add: tput_def)

lemma advanced_new:
  assumes w: "streams_ok w" and fresh: "tget (streams w) k = None" and row: "stream_ok w k row"
    and v: "streams v = tput k row (streams w)" "products v = products w"
  shows "advanced w v"
proof -
  have "stream_ok v = stream_ok w" by (rule stream_ok_cong[OF v(2)])
  then show ?thesis using w fresh row v by (auto simp: advanced_def streams_ok_def)
qed

lemma advanced_gone:
  assumes w: "streams_ok w" and fresh: "tget (streams w) k = None"
    and v: "streams v = tdel k (tput k row (streams w))" "products v = products w"
  shows "advanced w v"
proof -
  have "stream_ok v = stream_ok w" by (rule stream_ok_cong[OF v(2)])
  then show ?thesis using w fresh v by (auto simp: advanced_def streams_ok_def split: if_splits)
qed

text \<open>The address of the media server is not empty once it is configured.\<close>

lemma getLiveKitUrl_cases: "isConfigured lk \<Longrightarrow> \<exists>u. u \<noteq> [] \<and> getLiveKitUrl lk = Inr u"
  by (auto simp: isConfigured_def getLiveKitUrl_def lk_url_def nonempty_def split: option.splits if_splits
      dest: truthy_Some)

lemma wp_createRoom [wp_simps]:
  "wp (createRoom lk room m) Q w =
     (if isConfigured lk then Q (lk_sdkCreateRoom lk room m) (log_media (CreateRoom room) w)
      else Q (Inl not_configured) w)"
  by (simp add: createRoom_def wp_simps)

lemma wp_createToken [wp_simps]:
  "wp (createPublisherToken lk room i) Q w =
     (if isConfigured lk then Q (Inr (lk_sdkToken lk (clock w) room i True True)) w else Q (Inl not_configured) w)"
  "wp (createSubscriberToken lk room i) Q w =
     (if isConfigured lk then Q (Inr (lk_sdkToken lk (clock w) room i False True)) w else Q (Inl not_configured) w)"
  by (simp_all add: createPublisherToken_def createSubscriberToken_def createToken_def wp_simps)

lemma wp_create_stream [wp_simps]:
  "wp (create_stream st) Q w =
     (if tget (streams w) (st_id st) \<noteq> None \<or> \<not> distinct (st_products st) then Q (Inl (Crash ''P2002'')) w
      else Q (Inr ()) (w\<lparr>streams := tput (st_id st) st (streams w)\<rparr>))"
  by (simp add: create_stream_def wp_simps)

lemma wp_delete_stream [wp_simps]:
  "wp (delete_stream sid) Q w =
     (if tget (streams w) sid = None then Q (Inl missing_row) w else Q (Inr ()) (delete_stream_w sid w))"
  by (simp add: delete_stream_def wp_simps)

text \<open>Trying to record never throws.\<close>

lemma wp_try:
  assumes v: "advanced w v" and q: "\<And>b v'. advanced w v' \<Longrightarrow> Q (Inr b) v'"
  shows "wp (tryStartStreamRecording lk sid room) Q v"
proof -
  have r: "\<exists>b. fst (tryStartStreamRecording lk sid room v) = Inr b"
    by (auto simp: tryStartStreamRecording_def catching_def ret_def split: sum.split prod.split)
  obtain b v' where run: "tryStartStreamRecording lk sid room v = (Inr b, v')"
    using r by (cases "tryStartStreamRecording lk sid room v") auto
  then show ?thesis using keepsD[OF keeps_advanced_try v run] q by (simp add: wp_def)
qed

lemma advanced_schedule:
  assumes w: "streams_ok w" and n: "length (sc_productIds d) \<in> {1..3}"
  shows "wp (scheduleStream sid d uid) (\<lambda>_. advanced w) w"
proof (cases "seller_of_user w uid")
  case None
  then show ?thesis using w by (simp add: scheduleStream_def wp_simps advanced_refl)
next
  case (Some s1)
  let ?row = "\<lambda>t. (new_stream sid (s_id s1) (clock w))\<lparr>st_title := sc_title d, st_description := sc_description d,
      st_startedAt := Some t, st_thumbnailUrl := first_image w (s_id s1) (sc_productIds d), st_products := sc_productIds d\<rparr>"
  have "stream_ok w sid (?row t)" if "distinct (sc_productIds d)"
    "\<forall>pid \<in> set (sc_productIds d). own_product w (s_id s1) pid \<noteq> None" for t
    using n that by (simp add: stream_ok_def new_stream_def)
  then have "advanced w (w\<lparr>streams := tput sid (?row t) (streams w)\<rparr>)"
    if "distinct (sc_productIds d)" "\<forall>pid \<in> set (sc_productIds d). own_product w (s_id s1) pid \<noteq> None"
      "tget (streams w) sid = None" for t
    using that by (intro advanced_new[OF w, of sid "?row t"]) auto
  then show ?thesis using w Some
    by (cases "sc_scheduledAt d") (auto simp: scheduleStream_def wp_simps advanced_refl Let_def new_stream_def)
qed

text \<open>Going live: the row was put on air and has its room when recording is tried.\<close>

lemma advanced_create:
  assumes w: "streams_ok w" and sid: "sid \<noteq> []"
  shows "wp (createStream lk sid d uid) (\<lambda>_. advanced w) w"
proof (cases "isConfigured lk \<and> seller_of_user w uid \<noteq> None")
  case False
  then show ?thesis using w by (cases "seller_of_user w uid") (auto simp: createStream_def wp_simps advanced_refl)
next
  case True
  then obtain s1 u where s1: "seller_of_user w uid = Some s1" and u: "u \<noteq> []" "getLiveKitUrl lk = Inr u"
    and conf: "isConfigured lk"
    using getLiveKitUrl_cases by blast
  define pids where "pids = dflt [] (gl_productIds d)"
  have up: "advanced w (upd_stream sid f v)"
    if "streams v = tput sid row (streams w)" "products v = products w" "tget (streams w) sid = None"
      "stream_ok w sid (f row)" for f v row
    by (rule advanced_new[OF w that(3,4)]) (simp_all add: upd_stream_def that)
  have down: "advanced w (delete_stream_w sid v)"
    if "streams v = tput sid row (streams w)" "products v = products w" "tget (streams w) sid = None" for v row
    by (rule advanced_gone[OF w that(3), of _ row]) (simp_all add: delete_stream_w_def that)
  show ?thesis
    using w conf s1 u sid
    by (cases "lk_sdkCreateRoom lk sid (room_metadata (gl_title d) (s_id s1) pids)")
      (auto simp: createStream_def pids_def[symmetric] wp_simps advanced_refl Let_def new_stream_def log_media_def
        stream_ok_def check_joinable_def Suc_le_eq intro!: wp_try up down)
qed

lemma advanced_same: "streams_ok w \<Longrightarrow> streams v = streams w \<Longrightarrow> products v = products w \<Longrightarrow> advanced w v"
  by (rule advanced_frame[OF advanced_refl])

text \<open>A write of the row that was read, after steps that leave the streams alone.\<close>

lemma advanced_upd_same:
  assumes w: "streams_ok w" and st: "tget (streams w) k = Some st"
    and v: "streams v = streams w" "products v = products w"
    and f: "stream_ok w k (f st)" "stream_edge st (f st)"
  shows "advanced w (upd_stream k f v)"
proof (rule advanced_update[OF advanced_same[OF w v]])
  fix s assume "tget (streams v) k = Some s"
  then have s: "s = st" using st v by simp
  have "st_id st = k" using streams_okD[OF w st] by (simp add: stream_ok_def)
  then show "row_step v f s" using f stream_ok_cong[OF v(2)] by (simp add: row_step_def s)
qed

lemma check_start_ok: "check_start now st = Inr () \<Longrightarrow> stream_phase st = Scheduled \<and> \<not> st_isLive st"
  by (auto simp: check_start_def stream_phase_def split: option.splits if_splits)

lemma advanced_start:
  assumes w: "streams_ok w" and sid: "sid \<noteq> []"
  shows "wp (startScheduledStream lk sid uid) (\<lambda>_. advanced w) w"
proof (cases "isConfigured lk \<and> (\<exists>st. tget (streams w) sid = Some st \<and> seller_user w st = Some uid)")
  case False
  then show ?thesis using w
    by (auto simp: startScheduledStream_def wp_simps advanced_refl split: option.split)
next
  case True
  then obtain st u where st: "tget (streams w) sid = Some st" "seller_user w st = Some uid"
    and conf: "isConfigured lk" and u: "u \<noteq> []" "getLiveKitUrl lk = Inr u"
    using getLiveKitUrl_cases by blast
  have ok: "stream_ok w sid st" by (rule streams_okD[OF w st(1)])
  let ?f = "\<lambda>s. s\<lparr>st_isLive := True, st_startedAt := Some (clock w), st_heartbeatAt := Some (clock w),
      st_livekitRoomName := Some sid, st_livekitUrl := Some u\<rparr>"
  have "stream_ok w sid (?f st)" "stream_edge st (?f st)" if "check_start (clock w) st = Inr ()"
    using ok check_start_ok[OF that] sid u(1)
    by (simp_all add: stream_ok_def stream_edge_def stream_phase_def check_joinable_def goes_live split: if_splits)
  then have up: "advanced w (upd_stream sid ?f v)"
    if "check_start (clock w) st = Inr ()" "streams v = streams w" "products v = products w" for v
    using that by (intro advanced_upd_same[OF w st(1)]) auto
  show ?thesis
    using w conf st u
    by (cases "lk_sdkCreateRoom lk sid (room_metadata (st_title st) (st_sellerId st) (st_products st))";
        cases "check_start (clock w) st")
      (auto simp: startScheduledStream_def wp_simps advanced_refl log_media_def intro!: wp_try up intro: advanced_same)
qed

lemma advanced_broadcast:
  assumes w: "streams_ok w"
  shows "wp (markBroadcastStarted lk pv sid uid) (\<lambda>_. advanced w) w"
proof (cases "tget (streams w) sid")
  case None
  then show ?thesis using w by (auto simp: markBroadcastStarted_def wp_simps wp_assertOwner advanced_refl)
next
  case (Some st)
  let ?b = "dflt (clock w) (st_broadcastStartedAt st)"
  let ?f = "\<lambda>s. s\<lparr>st_broadcastStartedAt := Some ?b\<rparr>"
  have ok: "stream_ok w sid st" by (rule streams_okD[OF w Some])
  have one: "stream_ok w sid (?f st)" "stream_edge st (?f st)"
    using ok by (auto simp: stream_ok_def stream_edge_def stream_phase_def check_joinable_def stays dflt_def
        split: option.split)
  have up: "advanced w (upd_stream sid ?f w)" using one by (intro advanced_upd_same[OF w Some]) auto
  have two: "advanced w (upd_stream sid (\<lambda>s. s\<lparr>st_buyersNotifiedAt := Some n\<rparr>) (upd_stream sid ?f w))"
    if "st_buyersNotifiedAt st = None" for n
  proof (rule advanced_update[OF up])
    fix s assume "tget (streams (upd_stream sid ?f w)) sid = Some s"
    then have "s = ?f st" by (simp add: upd_stream_def Some)
    then show "row_step (upd_stream sid ?f w) (\<lambda>s. s\<lparr>st_buyersNotifiedAt := Some n\<rparr>) s"
      using that by (simp add: row_step_def stream_ok_def stream_edge_def stream_phase_def stays check_joinable_def)
  qed
  have tail: "wp (ensureStreamRecordingStarted lk sid room e) (on_ok (\<lambda>x. wp (ret y) (\<lambda>_. advanced w)) (\<lambda>_. advanced w)) v"
    if "advanced w v" for v room e y
    using keeps_wp[OF keeps_advanced_ensure that] by (rule wp_mono) (simp add: on_ok_def wp_ret split: sum.split)
  show ?thesis
    using w Some up two
    by (auto simp: markBroadcastStarted_def wp_simps wp_assertOwner advanced_refl Let_def emitBroadcastStarted_def
        send_mail_def split: option.split intro!: tail intro: advanced_frame)
qed

section \<open>Updates, reminders and webhooks\<close>

definition bad_category :: "update_dto \<Rightarrow> world \<Rightarrow> bool" where
  "bad_category d w \<longleftrightarrow> (case us_categoryId d of None \<Rightarrow> False
     | Some c \<Rightarrow> truthy c \<and> tget (categories w) (the c) = None)"

lemma wp_write_update [wp_simps]:
  "wp (write_update sid d f) Q w =
     (if bad_category d w then Q (Inl missing_row) w
      else if \<not> distinct (dflt [] (us_productIds d)) then Q (Inl (Crash ''P2002'')) w
      else wp (update_stream sid f) Q w)"
  by (simp add: write_update_def wp_simps bad_category_def)

lemma apply_update_fields [simp]:
  "st_id (apply_update d st) = st_id st" "st_sellerId (apply_update d st) = st_sellerId st"
  "st_endedAt (apply_update d st) = st_endedAt st" "st_createdAt (apply_update d st) = st_createdAt st"
  "st_products (apply_update d st) = st_products st" "st_viewCount (apply_update d st) = st_viewCount st"
  "st_broadcastStartedAt (apply_update d st) = st_broadcastStartedAt st"
  "st_buyersNotifiedAt (apply_update d st) = st_buyersNotifiedAt st"
  "st_livekitRoomName (apply_update d st) = st_livekitRoomName st"
  "st_livekitUrl (apply_update d st) = st_livekitUrl st"
  "st_replayUrl (apply_update d st) = st_replayUrl st" "st_replayStatus (apply_update d st) = st_replayStatus st"
  "st_isLive (apply_update d st) = dflt (st_isLive st) (us_isLive d)"
  "st_startedAt st \<noteq> None \<Longrightarrow> st_startedAt (apply_update d st) \<noteq> None"
  by (simp_all add: apply_update_def split: option.split)

text \<open>The row an update writes, for the listing \<open>b\<close> of its products.\<close>

lemma updated_row:
  assumes ok: "stream_ok w sid st" and d: "us_isLive d \<noteq> Some True" and p: "patch_ok p"
    and b: "distinct b" "length b \<in> {1..3}" "\<forall>pid \<in> set b. own_product w (st_sellerId st) pid \<noteq> None"
    and ends: "ends \<longleftrightarrow> st_isLive st \<and> us_isLive d = Some False"
    and s: "s = apply_replay p ((apply_update d st)\<lparr>st_thumbnailUrl := a, st_products := b\<rparr>)"
    and r: "r = (if ends then s\<lparr>st_endedAt := Some now\<rparr> else s)"
  shows "stream_ok w sid r" "stream_edge st r"
proof -
  have live: "dflt (st_isLive st) (us_isLive d) = (st_isLive st \<and> \<not> ends)"
    using d ends by (cases "us_isLive d") (auto simp: dflt_def)
  have replay: "st_replayStatus s = RS_READY \<longrightarrow> truthy (st_replayUrl s)"
    unfolding s by (rule replay_kept[OF p]) (use ok in \<open>simp add: stream_ok_def\<close>)
  have f: "st_isLive s = (st_isLive st \<and> \<not> ends)" "st_id s = st_id st" "st_sellerId s = st_sellerId st"
    "st_endedAt s = st_endedAt st" "st_createdAt s = st_createdAt st" "st_products s = b"
    "st_viewCount s = st_viewCount st" "st_broadcastStartedAt s = st_broadcastStartedAt st"
    "st_buyersNotifiedAt s = st_buyersNotifiedAt st" "check_joinable s = (if st_isLive st \<and> \<not> ends then check_joinable st
      else Inl (BadRequest ''This stream is not live''))" "st_startedAt s \<noteq> None"
    using ok by (simp_all add: s live check_joinable_def stream_ok_def)
  have fr: "check_joinable (s\<lparr>st_endedAt := Some now\<rparr>) = check_joinable s" by (simp add: check_joinable_def)
  show "stream_ok w sid r" using ok b replay f by (simp add: r stream_ok_def fr)
  show "stream_edge st r" using ends f
    by (cases "st_endedAt st") (auto simp: r stream_edge_def stream_phase_def phase_step.intros)
qed

lemma advanced_update_op:
  assumes w: "streams_ok w" and d: "us_isLive d \<noteq> Some True"
  shows "wp (updateStream lk pv sid d uid) (\<lambda>_. advanced w) w"
proof (cases "\<exists>st. tget (streams w) sid = Some st \<and> seller_user w st = Some uid")
  case False
  then show ?thesis using w by (auto simp: updateStream_def wp_simps wp_assertOwner advanced_refl split: option.split)
next
  case True
  then obtain st where st: "tget (streams w) sid = Some st" "seller_user w st = Some uid" by blast
  have ok: "stream_ok w sid st" by (rule streams_okD[OF w st(1)])
  let ?ends = "st_isLive st \<and> us_isLive d = Some False"
  have rest: "advanced w (upd_stream sid (\<lambda>s. let s' = apply_replay p (L (apply_update d s))
      in if ?ends then s'\<lparr>st_endedAt := Some now\<rparr> else s') v)"
    if "streams v = streams w" "products v = products w" "patch_ok p" "distinct b" "length b \<in> {1..3}"
      "\<forall>pid \<in> set b. own_product w (st_sellerId st) pid \<noteq> None"
      "L (apply_update d st) = (apply_update d st)\<lparr>st_thumbnailUrl := a, st_products := b\<rparr>" for v p L a b now
    using updated_row[OF ok d that(3-6) refl refl refl, where a = a and now = now] that(1,2,7)
    by (intro advanced_upd_same[OF w st(1)]) (simp_all add: Let_def)
  have own: "distinct (st_products st)" "length (st_products st) \<in> {1..3}"
    "\<forall>pid \<in> set (st_products st). own_product w (st_sellerId st) pid \<noteq> None"
    using ok by (simp_all add: stream_ok_def)
  let ?rest = "\<lambda>L. bind_act (if ?ends then finalizeLiveRecordingAndRoom lk st else ret no_patch) (\<lambda>patch.
        bind_act (reads clock) (\<lambda>now.
        bind_act (write_update sid d (\<lambda>s. let s' = apply_replay patch (L (apply_update d s))
            in if ?ends then s'\<lparr>st_endedAt := Some now\<rparr> else s')) (\<lambda>updated.
        seq_act (if ?ends then
            seq_act (queueNotifyBuyersLiveEnded pv True updated) (settle_ended sid (dflt now (st_endedAt updated)))
          else ret ())
        (ret updated))))"
  have run: "wp (?rest L) (\<lambda>_. advanced w) w"
    if b: "distinct (dflt [] (us_productIds d)) \<Longrightarrow> distinct b" "length b \<in> {1..3}"
      "\<forall>pid \<in> set b. own_product w (st_sellerId st) pid \<noteq> None"
      "L (apply_update d st) = (apply_update d st)\<lparr>st_thumbnailUrl := a, st_products := b\<rparr>" for L a b
    using rest[of "w\<lparr>media := media w @ final_calls lk st\<rparr>" "final_patch lk st" b L a] rest[of w no_patch b L a] b w
    by (cases ?ends)
      (auto simp: wp_simps st advanced_refl)
  show ?thesis
  proof (cases "us_productIds d")
    case None
    have "wp (?rest (case us_thumbnailUrl d of None \<Rightarrow> id | Some t \<Rightarrow> (\<lambda>s. s\<lparr>st_thumbnailUrl := t\<rparr>))) (\<lambda>_. advanced w) w"
      by (rule run[where b = "st_products st" and a = "case us_thumbnailUrl d of None \<Rightarrow> st_thumbnailUrl (apply_update d st) | Some t \<Rightarrow> t"])
        (use own in \<open>auto split: option.split\<close>)
    then show ?thesis using st None by (simp add: updateStream_def wp_bind wp_ret wp_assertOwner Let_def)
  next
    case (Some pids)
    show ?thesis
    proof (cases "length pids \<in> {1..3} \<and> (\<forall>pid \<in> set pids. own_product w (st_sellerId st) pid \<noteq> None)")
      case True
      have "wp (?rest (\<lambda>s. s\<lparr>st_thumbnailUrl := first_image w (st_sellerId st) pids, st_products := pids\<rparr>)) (\<lambda>_. advanced w) w"
        by (rule run[where b = pids]) (use True in \<open>auto simp: Some dflt_def\<close>)
      then show ?thesis using st Some True
        by (simp add: updateStream_def wp_bind wp_seq wp_ret wp_reads wp_assertOwner wp_check_own Let_def Suc_le_eq)
    next
      case False
      then show ?thesis using st Some w
        by (auto simp: updateStream_def wp_simps wp_assertOwner Let_def Suc_le_eq advanced_refl)
    qed
  qed
qed

lemma keeps_advanced_send [keeps_rules]:
  "keeps (advanced w) (sendToTokens pv ts t b dt)" "keeps (advanced w) (sendToTokensBatched pv ts t b dt)"
  by (auto simp: sendToTokens_def sendToTokensBatched_def send_mail_def split: option.split
      intro!: keeps_rules keeps_advanced_frame)

lemma keeps_advanced_reminders: "keeps (advanced w) (sendDueReminders pv)"
proof -
  have f: "advanced w (v\<lparr>streams := tupd k (\<lambda>s. s\<lparr>st_reminderSentAt := Some n\<rparr>) (streams v)\<rparr>)"
    if "advanced w v" for v k n
    using advanced_update[OF that row_step_plain(3)] by (simp add: upd_stream_def)
  have "keeps (advanced w) (remind pv now st)" for now st
    unfolding remind_def by (intro keeps_rules keeps_writes f) (auto intro!: keeps_rules)
  then show ?thesis unfolding sendDueReminders_def by (intro keeps_rules)
qed

lemma advanced_webhook:
  assumes w: "streams_ok w"
  shows "wp (handleRawPayload lk pv receive body auth) (\<lambda>_. advanced w) w"
proof -
  have b: "wp (catching (bind_act (markBroadcastStarted lk pv sid None) (\<lambda>_. ret ())) (\<lambda>_. ret ())) (\<lambda>_. advanced w) w" for sid
    unfolding wp_simps using advanced_broadcast[OF w]
    by (rule wp_mono) (simp add: wp_simps on_ok_def split: sum.split)
  have t: "wp (handleTrackPublished lk pv r v) (\<lambda>_. advanced w) w" for r v
    using b w by (auto simp: handleTrackPublished_def wp_ret advanced_refl split: option.split)
  have e: "wp (handleEgressEnded lk i) (\<lambda>_. advanced w) w" for i
    by (rule keeps_wp[OF keeps_advanced_egress advanced_refl[OF w]])
  show ?thesis using w t e
    by (auto simp: handleRawPayload_def Let_def wp_bind wp_ret wp_lift_res on_ok_def advanced_refl
        split: sum.split webhook_event.split)
qed

section \<open>Every operation\<close>

datatype stream_op =
    Create string create_dto string
  | Schedule string schedule_dto string
  | Start string string
  | Change string update_dto string
  | Delete string string
  | Stop string string
  | Heartbeat string string
  | Broadcast string string
  | JoinToken string string string
  | ViewerToken string string
  | CleanUp
  | SweepZombies bool
  | SendReminders
  | Webhook string "string option"
  | Pass nat \<comment> \<open>time passes, in milliseconds\<close>

record stream_env =
  se_livekit :: livekit
  se_push :: push_env
  se_date :: "int \<Rightarrow> int"
  se_receive :: "string \<Rightarrow> string option \<Rightarrow> bool \<Rightarrow> exn + webhook_event"

fun run_stream_op :: "stream_env \<Rightarrow> stream_op \<Rightarrow> world \<Rightarrow> world" where
  "run_stream_op env (Create sid d uid) w = snd (createStream (se_livekit env) sid d uid w)"
| "run_stream_op env (Schedule sid d uid) w = snd (scheduleStream sid d uid w)"
| "run_stream_op env (Start sid uid) w = snd (startScheduledStream (se_livekit env) sid uid w)"
| "run_stream_op env (Change sid d uid) w = snd (updateStream (se_livekit env) (se_push env) sid d uid w)"
| "run_stream_op env (Delete sid uid) w = snd (removeStream (se_livekit env) (se_push env) sid uid w)"
| "run_stream_op env (Stop sid uid) w = snd (stopStream (se_date env) (se_livekit env) (se_push env) sid uid w)"
| "run_stream_op env (Heartbeat sid uid) w = snd (touchSellerHeartbeat sid uid w)"
| "run_stream_op env (Broadcast sid uid) w =
     snd (markBroadcastStarted (se_livekit env) (se_push env) sid (Some uid) w)"
| "run_stream_op env (JoinToken sid uid i) w = snd (getJoinToken (se_livekit env) sid uid i w)"
| "run_stream_op env (ViewerToken sid i) w = snd (getViewerToken (se_livekit env) sid i w)"
| "run_stream_op env CleanUp w = snd (deleteMissedScheduledStreams w)"
| "run_stream_op env (SweepZombies off) w = snd (sweepZombieLiveStreams off (se_livekit env) (se_push env) w)"
| "run_stream_op env SendReminders w = snd (sendDueReminders (se_push env) w)"
| "run_stream_op env (Webhook body auth) w =
     snd (handleRawPayload (se_livekit env) (se_push env) (se_receive env) body auth w)"
| "run_stream_op env (Pass n) w = w\<lparr>clock := clock w + int n\<rparr>"

definition run_stream_ops :: "stream_env \<Rightarrow> stream_op list \<Rightarrow> world \<Rightarrow> world" where
  "run_stream_ops env ops w = fold (run_stream_op env) ops w"

text \<open>
  What the DTO validators and the database ask: a new id is not empty, a schedule names one to three
  products. An update that switches \<open>isLive\<close> on is left out: it puts even an ended stream on air
  again, without a room.
\<close>

fun stream_op_valid :: "stream_op \<Rightarrow> bool" where
  "stream_op_valid (Create sid d uid) = (sid \<noteq> [])"
| "stream_op_valid (Schedule sid d uid) = (length (sc_productIds d) \<in> {1..3})"
| "stream_op_valid (Start sid uid) = (sid \<noteq> [])"
| "stream_op_valid (Change sid d uid) = (us_isLive d \<noteq> Some True)"
| "stream_op_valid _ = True"

lemma advanced_of_wp: "wp m (\<lambda>_. advanced w) w \<Longrightarrow> advanced w (snd (m w))"
  by (simp add: wp_def split_beta)

lemma advanced_of_keeps: "streams_ok w \<Longrightarrow> keeps (advanced w) m \<Longrightarrow> advanced w (snd (m w))"
  by (rule advanced_of_wp) (auto intro: keeps_wp[where P = "advanced w"] advanced_refl)

lemma advanced_step:
  assumes w: "streams_ok w" and v: "stream_op_valid x"
  shows "advanced w (run_stream_op env x w)"
proof -
  note k = advanced_of_keeps[OF w]
  show ?thesis
  proof (cases x)
    case (Pass n)
    then show ?thesis using w by (simp add: advanced_same)
  qed (use w v in \<open>auto intro!: advanced_of_wp[OF advanced_create] advanced_of_wp[OF advanced_schedule]
        advanced_of_wp[OF advanced_start] advanced_of_wp[OF advanced_update_op] advanced_of_wp[OF advanced_broadcast]
        advanced_of_wp[OF advanced_webhook] k[OF keeps_advanced_remove] k[OF keeps_advanced_stop]
        k[OF keeps_advanced_heartbeat] k[OF keeps_advanced_tokens(1)] k[OF keeps_advanced_tokens(2)]
        k[OF keeps_advanced_cleanup] k[OF keeps_advanced_zombies] k[OF keeps_advanced_reminders]\<close>)
qed

lemma streams_ok_run: "streams_ok w \<Longrightarrow> list_all stream_op_valid ops \<Longrightarrow> streams_ok (run_stream_ops env ops w)"
proof (induction ops arbitrary: w)
  case (Cons x ops)
  have "streams_ok (run_stream_op env x w)" using advanced_step[of w x env] Cons.prems by (simp add: advanced_def)
  from Cons.IH[OF this] Cons.prems show ?case by (simp add: run_stream_ops_def)
qed (simp add: run_stream_ops_def)

section \<open>The key space when a stream ends\<close>

lemma get_refresh_other:
  "k \<noteq> cartKey u \<Longrightarrow> redis_get t (cache (refresh_w sid e ttl u w)) k = redis_get t (cache w) k"
  by (simp add: refresh_w_def Let_def save_w_def clear_w_def index_w_def redis_get_set_other)

lemma get_stream_end_other:
  assumes "\<And>u. k \<noteq> cartKey u"
  shows "redis_get t (cache (stream_end_w sid e w)) k = redis_get t (cache w) k"
proof -
  have "redis_get t (cache (fold (refresh_w sid x ttl) us v)) k = redis_get t (cache v) k" for x ttl us v
    by (induction us arbitrary: v) (simp_all add: get_refresh_other[OF assms])
  then show ?thesis by (simp add: stream_end_w_def)
qed

lemma stream_keys_no_cart [simp]:
  "streamLikesKey s \<noteq> cartKey u" "streamCommentsKey s \<noteq> cartKey u" "streamBidsKey s \<noteq> cartKey u"
  by (simp_all add: streamLikesKey_def streamCommentsKey_def streamBidsKey_def cartKey_def)

lemma array_of_cong: "clock v = clock w \<Longrightarrow> redis_get (clock w) (cache v) k = redis_get (clock w) (cache w) k \<Longrightarrow>
    array_of v k = array_of w k"
  by (simp add: array_of_def stored_array_def bind_act_def reads_def ret_def throw_def
      split: option.split text_val.split json.split)

lemma array_of_None: "redis_get (clock w) (cache w) k = None \<Longrightarrow> array_of w k = Inr []"
  by (simp add: array_of_def stored_array_def bind_act_def reads_def ret_def)

lemma get_clear [simp]:
  "redis_get t (clearStreamEphemeralKeys sid c) k =
     (if k \<in> {streamLikesKey sid, streamCommentsKey sid, streamBidsKey sid, streamViewersKey sid} then None
      else redis_get t c k)"
  by (simp add: clearStreamEphemeralKeys_def)

lemma members_clear [simp]:
  "redis_smembers t (clearStreamEphemeralKeys sid c) k =
     (if k \<in> {streamLikesKey sid, streamCommentsKey sid, streamBidsKey sid, streamViewersKey sid} then []
      else redis_smembers t c k)"
  by (simp add: clearStreamEphemeralKeys_def smembers_del)

text \<open>After the end nothing is left under the engagement keys, and the carts have their last day.\<close>

definition engagement_gone :: "string \<Rightarrow> world \<Rightarrow> bool" where
  "engagement_gone sid w \<longleftrightarrow> array_of w (streamLikesKey sid) = Inr [] \<and> array_of w (streamCommentsKey sid) = Inr [] \<and>
     array_of w (streamBidsKey sid) = Inr [] \<and> redis_scard (clock w) (cache w) (streamViewersKey sid) = 0"

lemma engagement_gone_clear [simp]: "engagement_gone sid (upd_cache (clearStreamEphemeralKeys sid) w)"
  by (simp add: engagement_gone_def array_of_None redis_scard_def upd_cache_def)

definition carts_expire :: "string \<Rightarrow> int \<Rightarrow> world \<Rightarrow> world \<Rightarrow> bool" where
  "carts_expire sid endedAt w w' \<longleftrightarrow>
     (\<forall>u t. cs_items (stored_cart w u) \<noteq> [] \<and> cs_streamId (stored_cart w u) = Some sid \<and>
        max (endedAt + 24 * 60 * 60 * 1000) (clock w + 1000) \<le> t \<longrightarrow> stored_cart (w'\<lparr>clock := t\<rparr>) u = empty_cart)"

lemma stored_cart_cong: "clock v = clock w \<Longrightarrow> cache v = cache w \<Longrightarrow> stored_cart v = stored_cart w"
  by (rule ext) (simp add: stored_cart_def)

lemma carts_expire_settled:
  assumes idx: "carts_indexed w" and sid: "sid \<noteq> []" and v: "clock v = clock w" "cache v = cache w"
    and v': "\<And>u t. redis_get t (cache (stream_end_w sid e v)) (cartKey u) = None \<Longrightarrow> redis_get t (cache v') (cartKey u) = None"
  shows "carts_expire sid e w v'"
proof -
  have iv: "carts_indexed v"
    using idx v by (simp add: carts_indexed_def cart_indexed_def holders_def stored_cart_cong[OF v])
  have h: "computeExpiryFromEnd e = e + 24 * 60 * 60 * 1000"
    by (simp add: computeExpiryFromEnd_def POST_LIVE_CART_HOURS_def MS_PER_HOUR_def)
  show ?thesis
    unfolding carts_expire_def
  proof (intro allI impI)
    fix u t
    assume a: "cs_items (stored_cart w u) \<noteq> [] \<and> cs_streamId (stored_cart w u) = Some sid \<and>
      max (e + 24 * 60 * 60 * 1000) (clock w + 1000) \<le> t"
    then have "redis_get t (cache (stream_end_w sid e v)) (cartKey u) = None"
      using stream_end_dead[OF iv sid, of u e] by (simp add: stored_cart_cong[OF v] dead_by_def h v(1))
    from v'[OF this] show "stored_cart (v'\<lparr>clock := t\<rparr>) u = empty_cart" by (simp add: stored_cart_def)
  qed
qed

section \<open>Stopping\<close>

text \<open>The session's time is booked before the carts are settled and the summary is drawn up.\<close>

definition booked_w :: "(int \<Rightarrow> int) \<Rightarrow> string \<Rightarrow> int \<Rightarrow> world \<Rightarrow> world" where
  "booked_w db s1 secs w = (if 0 < secs then snd (recordStreamDuration db s1 secs w) else w)"

lemma wp_record:
  assumes "tget (sellers w) s1 \<noteq> None"
  shows "wp (recordStreamDuration db s1 secs) Q w =
     Q (fst (recordStreamDuration db s1 secs w)) (snd (recordStreamDuration db s1 secs w))"
    "\<not> isl (fst (recordStreamDuration db s1 secs w))"
    "clock (snd (recordStreamDuration db s1 secs w)) = clock w"
    "cache (snd (recordStreamDuration db s1 secs w)) = cache w"
    "streams (snd (recordStreamDuration db s1 secs w)) = streams w"
    "orders (snd (recordStreamDuration db s1 secs w)) = orders w"
    "seconds_on (snd (recordStreamDuration db s1 secs w)) s1 (istDateOnly (clock w)) =
       seconds_on w s1 (istDateOnly (clock w)) + secs"
proof -
  have "wp (recordStreamDuration db s1 secs) (\<lambda>r v. \<not> isl r \<and> clock v = clock w \<and> cache v = cache w \<and>
      streams v = streams w \<and> orders v = orders w \<and>
      seconds_on v s1 (istDateOnly (clock w)) = seconds_on w s1 (istDateOnly (clock w)) + secs) w"
    using assms by (auto simp: recordStreamDuration_def refreshCommissionWaiver_def getLiveRewardStatus_def wp_simps
        Let_def seconds_on_def)
  then show "wp (recordStreamDuration db s1 secs) Q w =
     Q (fst (recordStreamDuration db s1 secs w)) (snd (recordStreamDuration db s1 secs w))"
    "\<not> isl (fst (recordStreamDuration db s1 secs w))"
    "clock (snd (recordStreamDuration db s1 secs w)) = clock w"
    "cache (snd (recordStreamDuration db s1 secs w)) = cache w"
    "streams (snd (recordStreamDuration db s1 secs w)) = streams w"
    "orders (snd (recordStreamDuration db s1 secs w)) = orders w"
    "seconds_on (snd (recordStreamDuration db s1 secs w)) s1 (istDateOnly (clock w)) =
       seconds_on w s1 (istDateOnly (clock w)) + secs"
    by (simp_all add: wp_def split_beta)
qed

section \<open>The sweep of stale lives\<close>

definition zombie_row :: "livekit \<Rightarrow> int \<Rightarrow> stream_row \<Rightarrow> stream_row" where
  "zombie_row lk now st = apply_replay (final_patch lk st) (st\<lparr>st_isLive := False, st_endedAt := Some now\<rparr>)"

definition zombie_w :: "livekit \<Rightarrow> stream_row \<Rightarrow> world \<Rightarrow> world" where
  "zombie_w lk st w =
     (let v = w\<lparr>media := media w @ final_calls lk st\<rparr>
      in if tget (streams w) (st_id st) = None then v
         else settled_w (st_id st) (clock w) (upd_stream (st_id st)
           (\<lambda>s. apply_replay (final_patch lk st) (s\<lparr>st_isLive := False, st_endedAt := Some (clock w)\<rparr>)) v))"

lemma wp_end_zombie [wp_simps]: "wp (end_zombie lk pv st) Q w = Q (Inr ()) (zombie_w lk st w)"
  by (cases "tget (streams w) (st_id st)")
    (simp_all add: end_zombie_def queueNotifyBuyersLiveEnded_def zombie_w_def wp_simps Let_def)

lemma wp_sweep:
  "wp (sweepZombieLiveStreams False lk pv) Q w =
     Q (Inr ()) (fold (zombie_w lk) (filter (is_zombie (clock w)) (trows (streams w))) w)"
  by (simp add: sweepZombieLiveStreams_def wp_simps wp_for_each_fold[OF wp_end_zombie])

text \<open>Carts of the stream are dead at the latest a day after its end; other carts are not touched.\<close>

definition expiring :: "string \<Rightarrow> int \<Rightarrow> world \<Rightarrow> world \<Rightarrow> bool" where
  "expiring sid now w w' \<longleftrightarrow> (\<forall>u. cs_items (stored_cart w u) \<noteq> [] \<and> cs_streamId (stored_cart w u) = Some sid \<longrightarrow>
     dead_by (max (computeExpiryFromEnd now) (now + 1000)) w' u)"

lemma expiring_carts: "clock w = now \<Longrightarrow> expiring sid now w w' \<Longrightarrow> carts_expire sid now w w'"
  by (auto simp: carts_expire_def expiring_def dead_by_def stored_cart_def computeExpiryFromEnd_def
      POST_LIVE_CART_HOURS_def MS_PER_HOUR_def)

lemma stored_cart_stream_end_other:
  assumes "cs_streamId (stored_cart w u) \<noteq> Some sid"
  shows "stored_cart (stream_end_w sid e w) u = stored_cart w u"
proof -
  have one: "stored_cart (refresh_w sid x ttl v a) u = stored_cart a u"
    if "cs_streamId (stored_cart a u) \<noteq> Some sid" for x ttl v a
    using that by (cases "v = u") (simp_all add: refresh_w_def Let_def)
  have "stored_cart (fold (refresh_w sid x ttl) us a) u = stored_cart a u"
    if "cs_streamId (stored_cart a u) \<noteq> Some sid" for x ttl us a
    using that by (induction us arbitrary: a) (simp_all add: one)
  then show ?thesis using assms by (simp add: stream_end_w_def)
qed

lemma dead_by_clear [simp]: "dead_by t w u \<Longrightarrow> dead_by t (upd_cache (clearStreamEphemeralKeys sid) w) u"
  by (simp add: dead_by_def upd_cache_def)

lemma dead_by_settled:
  assumes "dead_by (max (computeExpiryFromEnd (clock w)) (clock w + 1000)) w u"
  shows "dead_by (max (computeExpiryFromEnd (clock w)) (clock w + 1000)) (settled_w sid (clock w) w) u"
  unfolding settled_w_def stream_end_w_def
  by (intro dead_by_clear dead_by_fold_keep)
     (use assms seconds_bound[of "computeExpiryFromEnd (clock w) - clock w"] in \<open>auto\<close>)

lemma engagement_gone_stream_end [simp]: "engagement_gone j (stream_end_w sid e w) = engagement_gone j w"
proof -
  have "redis_smembers t (cache (refresh_w s x ttl u v)) (streamViewersKey j) = redis_smembers t (cache v) (streamViewersKey j)"
    for t s x ttl u v
    by (simp add: refresh_w_def Let_def save_w_def clear_w_def index_w_def unindex_w_def redis_smembers_def
        redis_sadd_def redis_srem_def redis_set_def redis_del_def streamViewersKey_def streamCartHoldersKey_def cartKey_def
        split: option.split)
  then have "redis_smembers t (cache (fold (refresh_w s x ttl) us v)) (streamViewersKey j) =
      redis_smembers t (cache v) (streamViewersKey j)" for t s x ttl us v
    by (induction us arbitrary: v) simp_all
  then have m: "redis_smembers t (cache (stream_end_w sid e w)) (streamViewersKey j) =
      redis_smembers t (cache w) (streamViewersKey j)" for t
    by (simp add: stream_end_w_def)
  have a: "array_of (stream_end_w sid e w) k = array_of w k" if "\<And>u. k \<noteq> cartKey u" for k
    by (rule array_of_cong) (simp_all add: get_stream_end_other[OF that])
  show ?thesis by (simp add: engagement_gone_def a m redis_scard_def)
qed

lemma array_of_clear:
  "array_of w k = Inr [] \<Longrightarrow> array_of (upd_cache (clearStreamEphemeralKeys sid) w) k = Inr []"
  using array_of_cong[of "upd_cache (clearStreamEphemeralKeys sid) w" w k]
  by (cases "k \<in> {streamLikesKey sid, streamCommentsKey sid, streamBidsKey sid, streamViewersKey sid}")
    (auto simp: upd_cache_def intro: array_of_None)

lemma engagement_gone_settled [simp]: "engagement_gone j w \<Longrightarrow> engagement_gone j (settled_w sid e w)"
  using engagement_gone_stream_end[of j sid e w]
  by (auto simp: settled_w_def engagement_gone_def array_of_clear redis_scard_def)

lemma carts_indexed_cong:
  assumes "clock v = clock w" "cache v = cache w"
  shows "carts_indexed v = carts_indexed w"
  using assms by (simp add: carts_indexed_def cart_indexed_def holders_def stored_cart_cong[OF assms])

lemma carts_indexed_wiped:
  assumes "carts_indexed w"
  shows "carts_indexed (upd_cache (clearStreamEphemeralKeys sid) w)"
proof -
  have "stored_cart (upd_cache (clearStreamEphemeralKeys sid) w) u = stored_cart w u" for u
    by (simp add: stored_cart_def upd_cache_def streamLikesKey_def streamCommentsKey_def streamBidsKey_def
        streamViewersKey_def cartKey_def)
  moreover have "holders (upd_cache (clearStreamEphemeralKeys sid) w) s = holders w s" for s
    by (simp add: holders_def upd_cache_def streamLikesKey_def streamCommentsKey_def streamBidsKey_def
        streamViewersKey_def streamCartHoldersKey_def)
  ultimately show ?thesis using assms by (simp add: carts_indexed_def cart_indexed_def)
qed

text \<open>One step of the sweep.\<close>

lemma zombie_step:
  fixes lk
  assumes z: "tget (streams w) (st_id z) = Some z" and sid: "st_id z \<noteq> []" and idx: "carts_indexed w"
  defines "w1 \<equiv> zombie_w lk z w"
  shows "clock w1 = clock w" "carts_indexed w1"
    "tget (streams w1) j = (if j = st_id z then Some (zombie_row lk (clock w) z) else tget (streams w) j)"
    "expiring (st_id z) (clock w) w w1" "engagement_gone (st_id z) w1"
    "cs_streamId (stored_cart w u) \<noteq> Some (st_id z) \<Longrightarrow> stored_cart w1 u = stored_cart w u"
    "dead_by (max (computeExpiryFromEnd (clock w)) (clock w + 1000)) w u \<Longrightarrow>
       dead_by (max (computeExpiryFromEnd (clock w)) (clock w + 1000)) w1 u"
    "engagement_gone k w \<Longrightarrow> engagement_gone k w1"
proof -
  define v where "v = upd_stream (st_id z)
      (\<lambda>s. apply_replay (final_patch lk z) (s\<lparr>st_isLive := False, st_endedAt := Some (clock w)\<rparr>))
      (w\<lparr>media := media w @ final_calls lk z\<rparr>)"
  have w1: "w1 = settled_w (st_id z) (clock w) v" by (simp add: w1_def zombie_w_def z v_def)
  have v: "clock v = clock w" "cache v = cache w" by (simp_all add: v_def)
  note iv = carts_indexed_cong[OF v] and sv = stored_cart_cong[OF v]
  show "clock w1 = clock w" by (simp add: w1 v)
  show "carts_indexed w1"
    using idx by (simp add: w1 settled_w_def carts_indexed_wiped carts_indexed_stream_end iv)
  show "tget (streams w1) j = (if j = st_id z then Some (zombie_row lk (clock w) z) else tget (streams w) j)"
    by (simp add: w1 v_def z zombie_row_def)
  show "expiring (st_id z) (clock w) w w1"
    using stream_end_dead[of v "st_id z" _ "clock w"] idx sid
    by (auto simp: expiring_def w1 settled_w_def iv sv v intro!: dead_by_clear)
  show "engagement_gone (st_id z) w1" by (simp add: w1 settled_w_def)
  show "stored_cart w1 u = stored_cart w u" if "cs_streamId (stored_cart w u) \<noteq> Some (st_id z)"
  proof -
    have "stored_cart w1 u = stored_cart (stream_end_w (st_id z) (clock w) v) u"
      by (simp add: w1 settled_w_def stored_cart_def upd_cache_def streamLikesKey_def streamCommentsKey_def
          streamBidsKey_def streamViewersKey_def cartKey_def)
    then show ?thesis using stored_cart_stream_end_other[of v u "st_id z"] that by (simp add: sv)
  qed
  show "dead_by (max (computeExpiryFromEnd (clock w)) (clock w + 1000)) w1 u"
    if "dead_by (max (computeExpiryFromEnd (clock w)) (clock w + 1000)) w u"
    using dead_by_settled[of v u "st_id z"] that by (simp add: w1 v) (simp add: dead_by_def v)
  show "engagement_gone k w1" if "engagement_gone k w"
  proof -
    have "array_of v x = array_of w x" for x by (rule array_of_cong) (simp_all add: v)
    then have "engagement_gone k v" using that by (simp add: engagement_gone_def v)
    then show ?thesis by (simp add: w1)
  qed
qed

lemma sweep_fold:
  assumes "distinct (map st_id zs)" "\<And>z. z \<in> set zs \<Longrightarrow> tget (streams w) (st_id z) = Some z \<and> st_id z \<noteq> []"
    and "carts_indexed w"
  shows "clock (fold (zombie_w lk) zs w) = clock w \<and>
     (\<forall>z \<in> set zs. tget (streams (fold (zombie_w lk) zs w)) (st_id z) = Some (zombie_row lk (clock w) z) \<and>
        expiring (st_id z) (clock w) w (fold (zombie_w lk) zs w) \<and> engagement_gone (st_id z) (fold (zombie_w lk) zs w)) \<and>
     (\<forall>j. j \<notin> st_id ` set zs \<longrightarrow> tget (streams (fold (zombie_w lk) zs w)) j = tget (streams w) j) \<and>
     (\<forall>u. dead_by (max (computeExpiryFromEnd (clock w)) (clock w + 1000)) w u \<longrightarrow>
        dead_by (max (computeExpiryFromEnd (clock w)) (clock w + 1000)) (fold (zombie_w lk) zs w) u) \<and>
     (\<forall>k. engagement_gone k w \<longrightarrow> engagement_gone k (fold (zombie_w lk) zs w))"
  using assms
proof (induction zs arbitrary: w)
  case (Cons z zs)
  let ?w = "zombie_w lk z w" let ?v = "fold (zombie_w lk) zs ?w"
  have z: "tget (streams w) (st_id z) = Some z" "st_id z \<noteq> []" using Cons.prems(2) by auto
  note step = zombie_step[OF z Cons.prems(3), where lk = lk]
  have dis: "st_id z \<notin> st_id ` set zs" "distinct (map st_id zs)" using Cons.prems(1) by auto
  have rest: "tget (streams ?w) (st_id y) = Some y \<and> st_id y \<noteq> []" if "y \<in> set zs" for y
  proof -
    have "st_id y \<noteq> st_id z" using dis(1) that by (metis imageI)
    then show ?thesis using Cons.prems(2)[of y] that step(3)[of "st_id y"] by simp
  qed
  note ih = Cons.IH[OF dis(2) rest step(2), unfolded step(1)]
  have e: "expiring (st_id y) (clock w) w ?v" if "y \<in> set zs" for y
  proof -
    have ne: "st_id y \<noteq> st_id z" using dis(1) that by (metis imageI)
    have "stored_cart ?w u = stored_cart w u" if "cs_streamId (stored_cart w u) = Some (st_id y)" for u
      using step(6)[of u] that ne by simp
    moreover have "expiring (st_id y) (clock w) ?w ?v" using ih that by blast
    ultimately show ?thesis by (simp add: expiring_def)
  qed
  have ez: "expiring (st_id z) (clock w) w ?v" using step(4) ih by (simp add: expiring_def)
  have tz: "tget (streams ?v) (st_id z) = Some (zombie_row lk (clock w) z)"
    using ih dis(1) step(3)[of "st_id z"] by auto
  have oth: "tget (streams ?v) j = tget (streams w) j" if "j \<notin> st_id ` set (z # zs)" for j
    using ih that step(3)[of j] by auto
  show ?case using ih e ez tz oth step(5,7,8) by auto
qed simp

end
