(* ===== verification/EngagementFacts.thy ===== *)
theory EngagementFacts
  imports StreamFacts
begin

text \<open>
  The invariant of likes, comments and bids: what the three engagement keys of a stream may hold, and
  that every viewer action keeps it. The keys of different kinds never meet, because they end
  differently.
\<close>

lemma engagement_keys [simp]:
  "streamLikesKey a \<noteq> streamCommentsKey b" "streamLikesKey a \<noteq> streamBidsKey b"
  "streamCommentsKey a \<noteq> streamLikesKey b" "streamCommentsKey a \<noteq> streamBidsKey b"
  "streamBidsKey a \<noteq> streamLikesKey b" "streamBidsKey a \<noteq> streamCommentsKey b"
  "streamLikesKey a = streamLikesKey b \<longleftrightarrow> a = b" "streamCommentsKey a = streamCommentsKey b \<longleftrightarrow> a = b"
  "streamBidsKey a = streamBidsKey b \<longleftrightarrow> a = b"
  by (auto simp: streamLikesKey_def streamCommentsKey_def streamBidsKey_def dest: arg_cong[where f = rev])

definition likes_ok :: "text_val \<Rightarrow> bool" where
  "likes_ok v \<longleftrightarrow> (\<exists>us. v = JsonText (JArr (map JStr us)) \<and> distinct us)"

definition comments_ok :: "text_val \<Rightarrow> bool" where
  "comments_ok v \<longleftrightarrow> (\<exists>cs. v = JsonText (JArr cs) \<and> length cs \<le> 50)"

definition bids_ok :: "text_val \<Rightarrow> bool" where
  "bids_ok v \<longleftrightarrow> (\<exists>bs. v = JsonText (JArr bs) \<and> length bs \<le> 100 \<and> (\<forall>b \<in> set bs. 0 < bid_amount b))"

definition engagement_ok :: "world \<Rightarrow> bool" where
  "engagement_ok w \<longleftrightarrow> (\<forall>sid v e.
     (tget (texts (cache w)) (streamLikesKey sid) = Some (v, e) \<longrightarrow> likes_ok v) \<and>
     (tget (texts (cache w)) (streamCommentsKey sid) = Some (v, e) \<longrightarrow> comments_ok v) \<and>
     (tget (texts (cache w)) (streamBidsKey sid) = Some (v, e) \<longrightarrow> bids_ok v))"

text \<open>What is read under the keys is of the same shape; an expired key reads as the empty array.\<close>

lemma array_of_cases:
  "array_of w k = (case tget (texts (cache w)) k of None \<Rightarrow> Inr []
     | Some (v, e) \<Rightarrow> if \<not> live (clock w) e then Inr []
         else case v of JsonText (JArr xs) \<Rightarrow> Inr xs | _ \<Rightarrow> Inl (Crash ''SyntaxError''))"
  by (simp add: array_of_def stored_array_def bind_act_def reads_def ret_def throw_def redis_get_def
      split: option.split text_val.split json.split)

lemma array_of_cond:
  assumes "\<And>v e. tget (texts (cache w)) k = Some (v, e) \<Longrightarrow> \<exists>xs. v = JsonText (JArr xs) \<and> R xs" "R []"
  shows "\<exists>xs. array_of w k = Inr xs \<and> R xs"
proof (cases "tget (texts (cache w)) k")
  case (Some p)
  obtain v e where p: "p = (v, e)" by (cases p)
  obtain xs where "v = JsonText (JArr xs)" "R xs" using assms(1)[of v e] Some p by blast
  then show ?thesis using assms(2) by (simp add: array_of_cases Some p)
qed (use assms(2) in \<open>simp add: array_of_cases\<close>)

lemma engagement_arrays:
  assumes "engagement_ok w"
  obtains us cs bs where
    "array_of w (streamLikesKey sid) = Inr (map JStr us)" "distinct us"
    "array_of w (streamCommentsKey sid) = Inr cs" "length cs \<le> 50"
    "array_of w (streamBidsKey sid) = Inr bs" "length bs \<le> 100" "\<forall>b \<in> set bs. 0 < bid_amount b"
proof -
  have ok: "tget (texts (cache w)) (streamLikesKey sid) = Some (v, e) \<Longrightarrow> likes_ok v"
    "tget (texts (cache w)) (streamCommentsKey sid) = Some (v, e) \<Longrightarrow> comments_ok v"
    "tget (texts (cache w)) (streamBidsKey sid) = Some (v, e) \<Longrightarrow> bids_ok v" for v e
    using assms by (simp_all add: engagement_ok_def)
  have "\<exists>xs. array_of w (streamLikesKey sid) = Inr xs \<and> (\<exists>us. xs = map JStr us \<and> distinct us)"
    by (rule array_of_cond) (fastforce simp: likes_ok_def dest!: ok(1))+
  moreover have "\<exists>cs. array_of w (streamCommentsKey sid) = Inr cs \<and> length cs \<le> 50"
    by (rule array_of_cond) (auto simp: comments_ok_def dest!: ok(2))
  moreover have "\<exists>bs. array_of w (streamBidsKey sid) = Inr bs \<and> length bs \<le> 100 \<and> (\<forall>b \<in> set bs. 0 < bid_amount b)"
    by (rule array_of_cond) (auto simp: bids_ok_def dest!: ok(3))
  ultimately show ?thesis using that by blast
qed

section \<open>Writing and reading an array\<close>

definition stored_w :: "string \<Rightarrow> json list \<Rightarrow> world \<Rightarrow> world" where
  "stored_w k xs w = upd_cache (redis_set (clock w) k (JsonText (JArr xs)) (Some STREAM_ENGAGEMENT_TTL_SECONDS)) w"

lemma wp_store_array [wp_simps]: "wp (store_array k xs) Q w = Q (Inr ()) (stored_w k xs w)"
  by (simp add: store_array_def stored_w_def wp_simps)

lemma stored_w_fields [simp]: "clock (stored_w k xs w) = clock w" "streams (stored_w k xs w) = streams w"
  by (simp_all add: stored_w_def upd_cache_def)

lemma texts_stored: "tget (texts (cache (stored_w k xs w))) j =
    (if j = k then Some (JsonText (JArr xs), Some (expiry_at (clock w) STREAM_ENGAGEMENT_TTL_SECONDS))
     else tget (texts (cache w)) j)"
  by (simp add: stored_w_def upd_cache_def redis_set_def STREAM_ENGAGEMENT_TTL_SECONDS_def)

lemma array_of_stored [simp]: "array_of (stored_w k xs w) j = (if j = k then Inr xs else array_of w j)"
  by (cases "j = k") (simp_all add: array_of_cases texts_stored live_def expiry_at_def STREAM_ENGAGEMENT_TTL_SECONDS_def
      split: option.split)

lemma engagement_ok_stored:
  assumes "engagement_ok w"
  shows "distinct us \<Longrightarrow> engagement_ok (stored_w (streamLikesKey sid) (map JStr us) w)"
    "length cs \<le> 50 \<Longrightarrow> engagement_ok (stored_w (streamCommentsKey sid) cs w)"
    "length bs \<le> 100 \<Longrightarrow> \<forall>b \<in> set bs. 0 < bid_amount b \<Longrightarrow> engagement_ok (stored_w (streamBidsKey sid) bs w)"
  using assms by (auto simp: engagement_ok_def texts_stored likes_ok_def comments_ok_def bids_ok_def)

text \<open>Looking a stream up writes nothing; it succeeds when the arrays can be read.\<close>

definition summary_of :: "string \<Rightarrow> world \<Rightarrow> engagement" where
  "summary_of sid w = (let ar = (\<lambda>k. case array_of w k of Inr xs \<Rightarrow> xs | Inl _ \<Rightarrow> []); bids = ar (streamBidsKey sid)
     in \<lparr>en_likes = length (ar (streamLikesKey sid)), en_comments = length (ar (streamCommentsKey sid)),
         en_bids = length bids, en_topBid = (if bids = [] then 0 else top_bid bids)\<rparr>)"

lemma wp_summary:
  assumes "engagement_ok w"
  shows "wp (getEngagementSummary sid) Q w = Q (Inr (summary_of sid w)) w"
  by (rule engagement_arrays[OF assms, of sid]) (simp add: getEngagementSummary_def summary_of_def wp_simps)

lemma wp_findStream:
  assumes "engagement_ok w"
  shows "wp (findStream sid) Q w =
     (case tget (streams w) sid of None \<Rightarrow> Q (Inl (not_found_stream sid)) w
      | Some st \<Rightarrow> Q (Inr (stream_view_of (Some (summary_of sid w)) w st)) w)"
  by (cases "tget (streams w) sid") (simp_all add: findStream_def wp_simps wp_summary[OF assms])

lemma last_chars_le: "length (last_chars n xs) \<le> n"
  by (simp add: last_chars_def)

section \<open>Viewer actions\<close>

lemma toggled_likes:
  "distinct us \<Longrightarrow> \<exists>vs. toggled u (map JStr us) = map JStr vs \<and> distinct vs \<and>
     set vs = (if u \<in> set us then set us - {u} else insert u (set us))"
proof -
  assume d: "distinct us"
  have r: "remove1 (JStr u) (map JStr us) = map JStr (remove1 u us)" by (induction us) auto
  have m: "JStr u \<in> set (map JStr us) \<longleftrightarrow> u \<in> set us" by auto
  show ?thesis
    using d r m by (cases "u \<in> set us")
      (auto simp: toggled_def intro: exI[of _ "remove1 u us"] exI[of _ "us @ [u]"])
qed

definition found :: "string \<Rightarrow> world \<Rightarrow> bool" where
  "found sid w \<longleftrightarrow> tget (streams w) sid \<noteq> None"

lemma wp_toggle:
  assumes "engagement_ok w" "array_of w (streamLikesKey sid) = Inr likedBy"
  shows "wp (toggleLike sid uid) Q w =
     (if found sid w then Q (Inr (JStr uid \<notin> set likedBy, length (toggled uid likedBy)))
        (stored_w (streamLikesKey sid) (toggled uid likedBy) w)
      else Q (Inl (not_found_stream sid)) w)"
  by (rule engagement_arrays[OF assms(1), of sid])
    (simp add: toggleLike_def wp_findStream[OF assms(1)] wp_simps assms(2) found_def Let_def split: option.split)

datatype viewer_op =
    Like string string
  | Comment string string string
  | Bid string string "num option"
  | Idle nat \<comment> \<open>time passes, in milliseconds\<close>

fun run_viewer_op :: "viewer_op \<Rightarrow> world \<Rightarrow> world" where
  "run_viewer_op (Like sid uid) w = snd (toggleLike sid uid w)"
| "run_viewer_op (Comment sid uid text) w = snd (addComment sid uid text w)"
| "run_viewer_op (Bid sid uid a) w = snd (addBid sid uid a w)"
| "run_viewer_op (Idle n) w = w\<lparr>clock := clock w + int n\<rparr>"

definition run_viewer_ops :: "viewer_op list \<Rightarrow> world \<Rightarrow> world" where
  "run_viewer_ops ops w = fold run_viewer_op ops w"

lemma engagement_ok_of_wp: "wp m (\<lambda>_. engagement_ok) w \<Longrightarrow> engagement_ok (snd (m w))"
  by (simp add: wp_def split_beta)

lemma engagement_ok_step:
  assumes w: "engagement_ok w"
  shows "engagement_ok (run_viewer_op x w)"
proof (cases x)
  case (Like sid uid)
  obtain us where us: "array_of w (streamLikesKey sid) = Inr (map JStr us)" "distinct us"
    by (rule engagement_arrays[OF w, of sid]) auto
  obtain vs where "toggled uid (map JStr us) = map JStr vs" "distinct vs" using toggled_likes[OF us(2)] by blast
  then have "wp (toggleLike sid uid) (\<lambda>_. engagement_ok) w"
    using w by (simp add: wp_toggle[OF w us(1)] engagement_ok_stored)
  then show ?thesis using Like by (auto dest: engagement_ok_of_wp)
next
  case (Comment sid uid t)
  have "wp (addComment sid uid t) (\<lambda>_. engagement_ok) w"
    by (rule engagement_arrays[OF w, of sid])
      (auto simp: addComment_def wp_simps wp_findStream[OF w] w Let_def last_chars_le
        intro!: engagement_ok_stored split: option.split)
  then show ?thesis using Comment by (auto dest: engagement_ok_of_wp)
next
  case (Bid sid uid a)
  obtain bs where bs: "array_of w (streamBidsKey sid) = Inr bs" "\<forall>b \<in> set bs. 0 < bid_amount b"
    by (rule engagement_arrays[OF w, of sid])
  have ok: "engagement_ok (stored_w (streamBidsKey sid) (last_chars 100 (bs @ [n])) w)" if "0 < bid_amount n" for n
    by (rule engagement_ok_stored(3)[OF w last_chars_le]) (use set_last_chars[of 100 "bs @ [n]"] that bs(2) in auto)
  have "wp (addBid sid uid a) (\<lambda>_. engagement_ok) w"
  proof (cases "tget (streams w) sid")
    case None
    then show ?thesis using w by (simp add: addBid_def wp_simps wp_findStream)
  next
    case (Some st)
    then show ?thesis using w
      by (cases a) (simp_all add: addBid_def wp_simps wp_findStream Let_def bs(1) ok bid_amount_def not_le)
  qed
  then show ?thesis using Bid by (auto dest: engagement_ok_of_wp)
next
  case (Idle n)
  then show ?thesis using w by (simp add: engagement_ok_def)
qed

lemma engagement_ok_run: "engagement_ok w \<Longrightarrow> engagement_ok (run_viewer_ops ops w)"
  by (induction ops arbitrary: w) (simp_all add: run_viewer_ops_def engagement_ok_step)

text \<open>The highest bid bounds every bid that is kept.\<close>

lemma top_bid_ge: "b \<in> set bs \<Longrightarrow> bid_amount b \<le> top_bid bs"
proof -
  have mono: "m \<le> foldl (\<lambda>m b. if m < bid_amount b then bid_amount b else m) m bs" for m bs
  proof (induction bs arbitrary: m)
    case (Cons b bs)
    show ?case using Cons[of m] Cons[of "bid_amount b"] by auto
  qed simp
  have "b \<in> set bs \<Longrightarrow> bid_amount b \<le> foldl (\<lambda>m b. if m < bid_amount b then bid_amount b else m) m bs" for m
  proof (induction bs arbitrary: m)
    case (Cons c bs)
    show ?case
    proof (cases "b = c")
      case True
      then show ?thesis using mono[of "if m < bid_amount b then bid_amount b else m" bs] by (auto split: if_splits)
    next
      case False
      then show ?thesis using Cons by simp
    qed
  qed simp
  then show "b \<in> set bs \<Longrightarrow> bid_amount b \<le> top_bid bs" by (simp add: top_bid_def)
qed

lemma toggle_twice:
  assumes w: "engagement_ok w" and f: "found sid w"
    and us: "array_of w (streamLikesKey sid) = Inr (map JStr us)" "distinct us"
  shows "wp (seq_act (toggleLike sid uid) (toggleLike sid uid)) (\<lambda>r v. r = Inr (uid \<in> set us, length us) \<and>
     (\<exists>vs. array_of v (streamLikesKey sid) = Inr (map JStr vs) \<and> distinct vs \<and> set vs = set us)) w"
proof -
  obtain vs where vs: "toggled uid (map JStr us) = map JStr vs" "distinct vs"
    "set vs = (if uid \<in> set us then set us - {uid} else insert uid (set us))"
    using toggled_likes[OF us(2)] by blast
  obtain xs where xs: "toggled uid (map JStr vs) = map JStr xs" "distinct xs"
    "set xs = (if uid \<in> set vs then set vs - {uid} else insert uid (set vs))"
    using toggled_likes[OF vs(2)] by blast
  have same: "set xs = set us" using vs(3) xs(3) by (auto split: if_splits)
  have len: "length xs = length us" using same xs(2) us(2) by (metis distinct_card)
  have v: "engagement_ok (stored_w (streamLikesKey sid) (map JStr vs) w)"
    by (rule engagement_ok_stored(1)[OF w vs(2)])
  have in_vs: "JStr uid \<notin> JStr ` set vs \<longleftrightarrow> uid \<in> set us" using vs(3) by (auto split: if_splits)
  show ?thesis
    using f xs same
    by (auto simp: wp_seq wp_toggle[OF w us(1)] vs(1) wp_toggle[OF v, of _ "map JStr vs"] found_def len in_vs)
qed

end
