(* ===== verification/StreamProperties.thy ===== *)
theory StreamProperties
  imports EngagementFacts Sample
begin

text \<open>
  The properties of live streams: what every sequence of requests, sweeps and webhooks keeps, what
  stopping a stream settles, what the sweep of stale lives leaves behind, and the bounds of likes,
  comments and bids. The witnesses run on the shop of \<open>Sample\<close>, with a media server that accepts
  everything.
\<close>

definition sample_livekit :: livekit where
  "sample_livekit = \<lparr>lk_cfg = (\<lambda>k. if k = ''LIVEKIT_URL'' then Some ''wss://m''
       else if k \<in> {''LIVEKIT_API_KEY'', ''LIVEKIT_API_SECRET''} then Some ''k'' else None),
     lk_hostname = (\<lambda>_. None), lk_sdkCreateRoom = (\<lambda>_ _. Inr ()), lk_sdkDeleteRoom = (\<lambda>_. Inr ()),
     lk_sdkToken = (\<lambda>_ room who _ _. room @ ''/'' @ who), lk_sdkStartEgress = (\<lambda>_ _. Inr None),
     lk_sdkStopEgress = (\<lambda>_. Inl (Crash ''none''))\<rparr>"

definition sample_push :: push_env where
  "sample_push = \<lparr>pv_enabled = False, pv_error = (\<lambda>_. None)\<rparr>"


lemma streams_ok_sample: "streams_ok sample"
  by (auto simp: streams_ok_def stream_ok_def sample_def tget_def twf_def sample_rows check_joinable_def own_product_def
      split: if_splits)

section \<open>Stopping a stream\<close>

text \<open>
  C8: Stopping a live settles everything that hangs on it. When its seller stops a stream, the row is off air with the
  end, the duration and the session of this moment; the day's streaming time grows by the duration;
  every cart of the stream expires within 24 hours; likes, comments, bids and viewers are cleared, after
  the summary has counted them together with the orders placed during the stream; other streams are as before.
\<close>

theorem stop_settles:
  assumes "tget (streams w) sid = Some st" "seller_user w st = Some uid" "sid \<noteq> []" "carts_indexed w"
    and "array_of w (streamLikesKey sid) = Inr likes" "array_of w (streamCommentsKey sid) = Inr comments"
      "array_of w (streamBidsKey sid) = Inr bids"
  shows "wp (stopStream db lk pv sid uid) (\<lambda>r w'. \<exists>row sm st'. r = Inr (row, sm) \<and>
     (let started = dflt (st_createdAt st) (st_startedAt st); now = clock w; secs = duration_seconds started now;
          day = istDateOnly now in
       tget (streams w') sid = Some st' \<and> \<not> st_isLive st' \<and> st_endedAt st' = Some now \<and>
       st_durationSeconds st' = Some secs \<and> st_sessionSeconds st' = Some secs \<and> st_sessionEndedAt st' = Some now \<and>
       (\<forall>j. j \<noteq> sid \<longrightarrow> tget (streams w') j = tget (streams w) j) \<and>
       (0 < secs \<longrightarrow> seconds_on w' (st_sellerId st) day = seconds_on w (st_sellerId st) day + secs) \<and>
       carts_expire sid now w w' \<and> engagement_gone sid w' \<and>
       es_likes sm = length likes \<and> es_comments sm = length comments \<and> es_durationSeconds sm = secs \<and>
       es_viewCount sm = st_viewCount st \<and> es_ordersPlaced sm = length (orders_during w sid started now))) w"
proof -
  let ?secs = "duration_seconds (dflt (st_createdAt st) (st_startedAt st)) (clock w)"
  let ?f = "\<lambda>s. apply_replay (final_patch lk st)
      (s\<lparr>st_isLive := False, st_endedAt := Some (clock w), st_durationSeconds := Some ?secs\<rparr>)"
  let ?v = "upd_stream sid (\<lambda>s. s\<lparr>st_sessionSeconds := Some ?secs, st_sessionEndedAt := Some (clock w)\<rparr>)
      (upd_stream sid ?f (w\<lparr>media := media w @ final_calls lk st\<rparr>))"
  have "tget (sellers ?v) (st_sellerId st) \<noteq> None" using assms(2) by (auto simp: seller_user_def)
  note rec = wp_record[OF this, of db ?secs]
  have same: "seconds_on ?v = seconds_on w" by (intro ext) (simp add: seconds_on_def)
  define b where "b = booked_w db (st_sellerId st) ?secs ?v"
  define c where "c = (if st_isLive st then b\<lparr>outbox := ended_out pv True (?f st) b\<rparr> else b)"
  have b: "clock b = clock w" "cache b = cache w" "streams b = streams ?v" "orders b = orders w"
    using rec(3-6) by (simp_all add: b_def booked_w_def del: tupd_tput)
  have bs: "seconds_on b (st_sellerId st) (istDateOnly (clock w)) =
       seconds_on w (st_sellerId st) (istDateOnly (clock w)) + ?secs" if "0 < ?secs"
    using rec(7) that by (simp add: b_def booked_w_def same)
  have out: "seconds_on (b\<lparr>outbox := x\<rparr>) = seconds_on b" for x by (intro ext) (simp add: seconds_on_def)
  have c: "clock c = clock w" "cache c = cache w" "streams c = streams ?v" "orders c = orders w"
    "0 < ?secs \<longrightarrow> seconds_on c (st_sellerId st) (istDateOnly (clock w)) =
       seconds_on w (st_sellerId st) (istDateOnly (clock w)) + ?secs"
    using b bs by (simp_all add: c_def out)
  define e where "e = stream_end_w sid (clock w) c"
  have arr: "array_of e k = array_of w k" if "\<And>u. k \<noteq> cartKey u" for k
    by (rule array_of_cong) (simp_all add: e_def c get_stream_end_other[OF that])
  have ord: "orders_during e sid x y = orders_during w sid x y" for x y
    by (simp add: orders_during_def e_def c)
  have exp: "carts_expire sid (clock w) w (upd_cache (clearStreamEphemeralKeys sid) e)"
    by (rule carts_expire_settled[OF assms(4,3) c(1,2)]) (simp add: e_def upd_cache_def)
  have row: "tget (streams e) j = (if j = sid then Some ((?f st)\<lparr>st_sessionSeconds := Some ?secs,
      st_sessionEndedAt := Some (clock w)\<rparr>) else tget (streams w) j)" for j
    using assms(1) by (simp add: e_def c(3))
  have es: "seconds_on e = seconds_on c" by (intro ext) (simp add: seconds_on_def e_def)
  have sec: "seconds_on (upd_cache g e) = seconds_on e" for g
    by (intro ext) (simp add: seconds_on_def upd_cache_def)
  have run: "wp (stopStream db lk pv sid uid) Q w =
      wp (buildStreamEndSummary lk sid (dflt (st_createdAt st) (st_startedAt st)) (clock w) (st_viewCount st)
           (st_replayUrl (?f st)) (st_replayStatus (?f st)))
         (on_ok (\<lambda>sm. wp (seq_act (writes (upd_cache (clearStreamEphemeralKeys sid))) (ret (?f st, sm))) Q) Q) e" for Q
    using rec(2) assms(1,2)
    by (cases "0 < ?secs"; cases "st_isLive st"; cases "fst (recordStreamDuration db (st_sellerId st) ?secs ?v)")
      (simp_all add: stopStream_def wp_simps wp_assertOwner Let_def rec(1) e_def c_def b_def booked_w_def)
  show ?thesis
    unfolding run
    by (simp add: buildStreamEndSummary_def getEngagementSummary_def wp_simps Let_def arr assms(5-7) ord row exp)
      (auto simp: es c sec)
qed

theorem stop_settles_witness:
  "wp (stopStream istDateOnly sample_livekit sample_push ''t1'' ''u2'') (\<lambda>r w'. \<exists>row sm. r = Inr (row, sm) \<and>
     es_likes sm = 0 \<and> es_ordersPlaced sm = 2 \<and> engagement_gone ''t1'' w' \<and>
     map_option st_endedAt (tget (streams w') ''t1'') = Some (Some 1000000000) \<and>
     carts_expire ''t1'' 1000000000 sample w') sample"
proof -
  have s: "tget (streams sample) ''t1'' = Some sample_stream" "seller_user sample sample_stream = Some ''u2''"
    "clock sample = 1000000000"
    by (simp_all add: sample_def tget_def seller_user_def sample_stream_def)
  have a: "array_of sample (streamLikesKey ''t1'') = Inr []" "array_of sample (streamCommentsKey ''t1'') = Inr []"
    "array_of sample (streamBidsKey ''t1'') = Inr []"
    by (rule array_of_None; simp add: sample_def redis_get_def tget_def streamLikesKey_def streamCommentsKey_def
        streamBidsKey_def)+
  have o: "length (orders_during sample ''t1'' 900000000 1000000000) = 2"
    by (simp add: orders_during_def trows_def sample_def sample_rows)
  have d: "dflt (st_createdAt sample_stream) (st_startedAt sample_stream) = 900000000"
    by (simp add: sample_stream_def dflt_def)
  show ?thesis
    by (rule wp_mono[OF stop_settles[OF s(1,2) _ carts_indexed_sample a]]) (auto simp: Let_def s(3) d o)
qed

section \<open>Every operation\<close>



text \<open>
  C31: The sweep leaves no stale live. It always completes; afterwards no stream is stale: each stale one is
  off air and over now, its likes, comments, bids and viewers are gone and its carts expire within a day;
  every other stream is untouched.
\<close>

theorem sweep_ends_stale_lives:
  assumes "streams_ok w" "carts_indexed w" "\<And>k. tget (streams w) k \<noteq> None \<Longrightarrow> k \<noteq> []"
  shows "wp (sweepZombieLiveStreams False lk pv) (\<lambda>r w'. r = Inr () \<and>
     (\<forall>k st'. tget (streams w') k = Some st' \<longrightarrow> \<not> is_zombie (clock w) st') \<and>
     (\<forall>k st. tget (streams w) k = Some st \<longrightarrow>
        (if is_zombie (clock w) st
         then (\<exists>st'. tget (streams w') k = Some st' \<and> \<not> st_isLive st' \<and> st_endedAt st' = Some (clock w)) \<and>
           engagement_gone k w' \<and> carts_expire k (clock w) w w'
         else tget (streams w') k = Some st))) w"
proof -
  define zs where "zs = filter (is_zombie (clock w)) (trows (streams w))"
  let ?v = "fold (zombie_w lk) zs w"
  have row: "tget (streams w) (st_id z) = Some z \<and> st_id z \<noteq> []" if "z \<in> set zs" for z
  proof -
    have "z \<in> set (trows (streams w))" using that by (simp add: zs_def)
    then obtain k where k: "tget (streams w) k = Some z"
      using in_rows_tget assms(1) by (metis streams_ok_def)
    then show ?thesis using streams_okD[OF assms(1) k] assms(3)[of k] by (auto simp: stream_ok_def)
  qed
  have "distinct (map st_id (trows (streams w)))"
  proof -
    have "map st_id (trows (streams w)) = map fst (streams w)"
      using streams_okD[OF assms(1)] assms(1)
      by (auto simp: trows_def streams_ok_def twf_def tget_def stream_ok_def)
    then show ?thesis using assms(1) by (simp add: streams_ok_def twf_def)
  qed
  then have dis: "distinct (map st_id zs)" by (simp add: zs_def distinct_map_filter)
  note run = sweep_fold[OF dis row assms(2), of lk]
  have key: "k = st_id st" if "tget (streams w) k = Some st" for k st
    using streams_okD[OF assms(1) that] by (simp add: stream_ok_def)
  have mem: "k \<in> st_id ` set zs \<longleftrightarrow> is_zombie (clock w) st" if st: "tget (streams w) k = Some st" for k st
  proof
    assume "k \<in> st_id ` set zs"
    then obtain z where "z \<in> set zs" "k = st_id z" by blast
    moreover from this have "z = st" using row[of z] st by simp
    ultimately show "is_zombie (clock w) st" by (simp add: zs_def)
  next
    assume "is_zombie (clock w) st"
    then have "st \<in> set zs" using tget_in_rows[OF st] by (simp add: zs_def)
    then show "k \<in> st_id ` set zs" using key[OF st] by blast
  qed
  have off: "\<not> st_isLive (zombie_row lk t z)" "st_endedAt (zombie_row lk t z) = Some t"
    "\<not> is_zombie u (zombie_row lk t z)" for t u z
    by (simp_all add: zombie_row_def is_zombie_def)
  have kept: "tget (streams ?v) k = tget (streams w) k" if "k \<notin> st_id ` set zs" for k using run that by blast
  have ended: "tget (streams ?v) (st_id z) = Some (zombie_row lk (clock w) z)" "engagement_gone (st_id z) ?v"
    "carts_expire (st_id z) (clock w) w ?v" if "z \<in> set zs" for z
    using run that expiring_carts[OF refl] by blast+
  have none: "\<not> is_zombie (clock w) st'" if st': "tget (streams ?v) k = Some st'" for k st'
  proof (cases "k \<in> st_id ` set zs")
    case True
    then obtain z where "z \<in> set zs" "k = st_id z" by blast
    then have "st' = zombie_row lk (clock w) z" using ended(1)[of z] st' by simp
    then show ?thesis by (simp add: off(3))
  next
    case False
    then show ?thesis using kept[OF False] st' mem[of k st'] by simp
  qed
  have each: "if is_zombie (clock w) st
       then (\<exists>st'. tget (streams ?v) k = Some st' \<and> \<not> st_isLive st' \<and> st_endedAt st' = Some (clock w)) \<and>
         engagement_gone k ?v \<and> carts_expire k (clock w) w ?v
       else tget (streams ?v) k = Some st" if st: "tget (streams w) k = Some st" for k st
  proof (cases "is_zombie (clock w) st")
    case True
    then have "st \<in> set zs" using tget_in_rows[OF st] by (simp add: zs_def)
    from ended[OF this] show ?thesis using True key[OF st] off(1,2) by simp
  next
    case False
    then show ?thesis using kept[of k] mem[OF st] st by simp
  qed
  show ?thesis unfolding wp_sweep zs_def[symmetric] using none each by blast
qed

text \<open>
  C33: Likes, comments and bids stay bounded. After any viewer actions a stream has no two likes of one
  user, at most 50 comments and at most 100 bids, all of them positive and none above the highest bid
  shown; and a like that is toggled twice is as it was.
\<close>

theorem engagement_stays_bounded:
  assumes "engagement_ok w"
  shows "let v = run_viewer_ops ops w in
     \<exists>likers comments bids. array_of v (streamLikesKey sid) = Inr (map JStr likers) \<and> distinct likers \<and>
       array_of v (streamCommentsKey sid) = Inr comments \<and> length comments \<le> 50 \<and>
       array_of v (streamBidsKey sid) = Inr bids \<and> length bids \<le> 100 \<and>
       (\<forall>b \<in> set bids. 0 < bid_amount b \<and> bid_amount b \<le> top_bid bids) \<and>
       wp (getEngagementSummary sid) (\<lambda>r _. \<exists>en. r = Inr en \<and> en_likes en = length likers) v \<and>
       (tget (streams v) sid \<noteq> None \<longrightarrow>
          wp (seq_act (toggleLike sid uid) (toggleLike sid uid)) (\<lambda>r v'. r = Inr (uid \<in> set likers, length likers) \<and>
            (\<exists>again. array_of v' (streamLikesKey sid) = Inr (map JStr again) \<and> set again = set likers)) v)"
proof -
  have v: "engagement_ok (run_viewer_ops ops w)" by (rule engagement_ok_run[OF assms])
  obtain us cs bs where
    a: "array_of (run_viewer_ops ops w) (streamLikesKey sid) = Inr (map JStr us)" "distinct us"
      "array_of (run_viewer_ops ops w) (streamCommentsKey sid) = Inr cs" "length cs \<le> 50"
      "array_of (run_viewer_ops ops w) (streamBidsKey sid) = Inr bs" "length bs \<le> 100" "\<forall>b \<in> set bs. 0 < bid_amount b"
    by (rule engagement_arrays[OF v, of sid])
  have twice: "wp (seq_act (toggleLike sid uid) (toggleLike sid uid)) (\<lambda>r v'. r = Inr (uid \<in> set us, length us) \<and>
      (\<exists>again. array_of v' (streamLikesKey sid) = Inr (map JStr again) \<and> set again = set us)) (run_viewer_ops ops w)"
    if "tget (streams (run_viewer_ops ops w)) sid \<noteq> None"
    using toggle_twice[OF v, of sid us uid] a that by (auto simp: found_def elim!: wp_mono)
  have likes: "en_likes (summary_of sid (run_viewer_ops ops w)) = length us" by (simp add: summary_of_def Let_def a)
  show ?thesis
    unfolding Let_def
    by (rule exI[of _ us], rule exI[of _ cs], rule exI[of _ bs])
      (use a twice likes in \<open>auto simp: wp_summary[OF v] top_bid_ge\<close>)
qed

definition evening :: "viewer_op list" where
  "evening = [Like ''t1'' ''u1'', Comment ''t1'' ''u1'' ''hi'', Bid ''t1'' ''u1'' (Some 250), Like ''t1'' ''u2'']"

lemma engagement_ok_sample: "engagement_ok sample"
  by (simp add: engagement_ok_def sample_def tget_def streamLikesKey_def streamCommentsKey_def streamBidsKey_def)

theorem engagement_stays_bounded_witness:
  "\<exists>likers. array_of (run_viewer_ops evening sample) (streamLikesKey ''t1'') = Inr (map JStr likers) \<and> distinct likers"
  using engagement_stays_bounded[OF engagement_ok_sample, of evening "''t1''" "''u1''"] by (auto simp: Let_def)

theorem sweep_ends_stale_lives_witness:
  "wp (sweepZombieLiveStreams False sample_livekit sample_push) (\<lambda>r w'. r = Inr () \<and>
     map_option st_isLive (tget (streams w') ''t1'') = Some False \<and> engagement_gone ''t1'' w')
   (sample\<lparr>clock := 1000400000\<rparr>)"
proof -
  let ?w = "sample\<lparr>clock := 1000400000\<rparr>"
  have ok: "streams_ok ?w" using streams_ok_sample streams_ok_cong[of ?w sample] by simp
  have c: "stored_cart ?w u = stored_cart sample u" for u
    by (simp add: stored_cart_def sample_def redis_get_def tget_def cartKey_def live_def)
  have i: "carts_indexed ?w"
    by (simp add: carts_indexed_def cart_indexed_def c sample_cart_stored sample_cart_def holders_def)
       (simp add: sample_def redis_smembers_def streamCartHoldersKey_def tget_def live_def)
  have k: "tget (streams ?w) k \<noteq> None \<Longrightarrow> k \<noteq> []" for k by (auto simp: sample_def tget_def split: if_splits)
  have t: "tget (streams ?w) ''t1'' = Some sample_stream" "is_zombie (clock ?w) sample_stream"
    by (simp_all add: sample_def tget_def is_zombie_def sample_stream_def Let_def)
  show ?thesis
  proof (rule wp_mono[OF sweep_ends_stale_lives[OF ok i k]])
    fix r :: "exn + unit" and w' :: world
    assume a: "r = Inr () \<and> (\<forall>k st'. tget (streams w') k = Some st' \<longrightarrow> \<not> is_zombie (clock ?w) st') \<and>
      (\<forall>k st. tget (streams ?w) k = Some st \<longrightarrow>
        (if is_zombie (clock ?w) st
         then (\<exists>st'. tget (streams w') k = Some st' \<and> \<not> st_isLive st' \<and> st_endedAt st' = Some (clock ?w)) \<and>
           engagement_gone k w' \<and> carts_expire k (clock ?w) ?w w'
         else tget (streams w') k = Some st))"
    then show "r = Inr () \<and> map_option st_isLive (tget (streams w') ''t1'') = Some False \<and> engagement_gone ''t1'' w'"
    proof -
      have "if is_zombie (clock ?w) sample_stream
         then (\<exists>st'. tget (streams w') ''t1'' = Some st' \<and> \<not> st_isLive st' \<and> st_endedAt st' = Some (clock ?w)) \<and>
           engagement_gone ''t1'' w' \<and> carts_expire ''t1'' (clock ?w) ?w w'
         else tget (streams w') ''t1'' = Some sample_stream" using a t(1) by blast
      then obtain st' where "tget (streams w') ''t1'' = Some st'" "\<not> st_isLive st'" "engagement_gone ''t1'' w'"
        unfolding if_P[OF t(2)] by blast
      moreover have "r = Inr ()" using a by blast
      ultimately show ?thesis by simp
    qed
  qed
qed

section \<open>Late starts\<close>

text \<open>
  A scheduled stream may be started up to four hours late, but the clean-up, which runs every minute,
  deletes it two minutes after its time; with at most 200 such streams it is then not found.
\<close>

theorem late_start_is_gone:
  assumes st: "tget (streams w) sid = Some st" and row: "st_id st = sid"
    and late: "st_startedAt st = Some t" "t + 2 * 60 * 1000 \<le> clock w" "\<not> st_isLive st" "st_endedAt st = None"
      "st_livekitRoomName st = None"
    and few: "length (filter (missed_schedule (clock w)) (trows (streams w))) \<le> 200"
  shows "wp deleteMissedScheduledStreams (\<lambda>r w'. r = Inr () \<and> tget (streams w') sid = None) w"
proof -
  define missed where "missed = filter (missed_schedule (clock w)) (trows (streams w))"
  have mem: "sid \<in> st_id ` set missed"
    using tget_in_rows[OF st] row late by (force simp: missed_def missed_schedule_def)
  let ?del = "\<lambda>s v. if tget (streams v) (st_id s) = None then v else delete_stream_w (st_id s) v"
  have body: "wp (catching (delete_stream (st_id s)) (\<lambda>_. ret ())) Q v = Q (Inr ()) (?del s v)" for s Q v
    by (simp add: wp_simps)
  have gone: "tget (streams (fold ?del ss v)) k = (if k \<in> st_id ` set ss then None else tget (streams v) k)" for ss v k
    by (induction ss arbitrary: v) (auto simp: delete_stream_w_def)
  have "take 200 missed = missed" using few by (simp add: missed_def)
  then show ?thesis
    using mem by (simp add: deleteMissedScheduledStreams_def wp_bind wp_reads missed_def[symmetric]
        wp_for_each_fold[OF body] gone)
qed

text \<open>An update may switch \<open>isLive\<close> on again after the end: the stream is on air and over at once.\<close>

definition switch_on :: update_dto where
  "switch_on = \<lparr>us_title = None, us_description = None, us_categoryId = None, us_visibility = None,
     us_productIds = None, us_thumbnailUrl = None, us_isLive = Some True, us_scheduledAt = None\<rparr>"

theorem update_revives_ended:
  assumes "tget (streams w) sid = Some st" "seller_user w st = Some uid" "st_endedAt st \<noteq> None"
  shows "wp (updateStream lk pv sid switch_on uid) (\<lambda>r w'. \<exists>st'. tget (streams w') sid = Some st' \<and>
     st_isLive st' \<and> st_endedAt st' = st_endedAt st \<and> st_livekitRoomName st' = st_livekitRoomName st) w"
  using assms by (simp add: updateStream_def wp_simps wp_assertOwner Let_def switch_on_def bad_category_def dflt_def)

end
