(* ===== verification/SellerReview.thy ===== *)
theory SellerReview
  imports Broadcast Ratings Paging
begin

text \<open>
  The review of sellers, the first half of src/src/sellers/sellers.service.ts: what an administrator sees of
  a seller, and the five operations that move its verification status: approve, reject, request changes,
  resubmit, and reset the registration. \<open>db_date\<close> is the one of \<open>Ratings\<close>, and \<open>push_env\<close> Firebase.
\<close>

section \<open>What is shown\<close>

record user_shown =
  uv_id :: string
  uv_name :: string
  uv_email :: string
  uv_phone :: "string option"
  uv_createdAt :: int

definition user_view :: "world \<Rightarrow> string \<Rightarrow> user_shown option" where
  "user_view w uid = map_option (\<lambda>u. \<lparr>uv_id = u_id u, uv_name = u_name u, uv_email = u_email u,
     uv_phone = u_phone u, uv_createdAt = u_createdAt u\<rparr>) (tget (users w) uid)"

definition seller_categories :: "world \<Rightarrow> seller_row \<Rightarrow> category_row list" where
  "seller_categories w s1 = List.map_filter (tget (categories w)) (s_categories s1)"

definition change_requests_of :: "world \<Rightarrow> string \<Rightarrow> change_request_row list" where
  "change_requests_of w sid = newest_first cr_createdAt (filter (\<lambda>r. cr_sellerId r = sid) (changeRequests w))"

definition pickup_of :: "world \<Rightarrow> string \<Rightarrow> address_row option" where
  "pickup_of w uid = tfirst (\<lambda>a. a_userId a = uid \<and> a_type a = PICKUP) (addresses w)"

definition follower_count :: "world \<Rightarrow> string \<Rightarrow> nat" where
  "follower_count w sid = tcount (\<lambda>f. fw_sellerId f = sid) (follows w)"

record seller_page =
  sf_seller :: seller_row
  sf_user :: "user_shown option"
  sf_categories :: "category_row list"
  sf_products :: "product_row list"
  sf_streams :: "stream_row list"
  sf_pickupAddress :: "address_row option"
  sf_latestChangeRequest :: "change_request_row option"

definition no_profile :: exn where
  "no_profile = NotFound ''Seller profile not found''"

definition own_seller :: "string \<Rightarrow> seller_row handler" where
  "own_seller uid =
     bind_act (reads (\<lambda>w. seller_of_user w uid))
       (\<lambda>seller. case seller of None \<Rightarrow> throw no_profile | Some s1 \<Rightarrow> ret s1)"

definition findSellerProfile :: "string \<Rightarrow> seller_page handler" where
  "findSellerProfile uid =
     bind_act (own_seller uid) (\<lambda>s1.
     reads (\<lambda>w.
       \<lparr> sf_seller = s1, sf_user = user_view w uid, sf_categories = seller_categories w s1,
         sf_products = take 50 (filter (\<lambda>p. p_sellerId p = s_id s1) (trows (products w))),
         sf_streams = take 20 (newest_first st_createdAt
           (filter (\<lambda>st. st_sellerId st = s_id s1) (trows (streams w)))),
         sf_pickupAddress = pickup_of w uid,
         sf_latestChangeRequest = (case change_requests_of w (s_id s1) of [] \<Rightarrow> None | r # _ \<Rightarrow> Some r) \<rparr>))"

text \<open>The \<open>updatedAt\<close> column is kept by the database client: \<open>touched\<close> gives it for a seller id.\<close>

definition findAllForAdmin ::
    "(string \<Rightarrow> int) \<Rightarrow> verification_status option \<Rightarrow> (seller_row \<times> user_shown option \<times> category_row list) list handler" where
  "findAllForAdmin touched status =
     reads (\<lambda>w. map (\<lambda>s1. (s1, user_view w (s_userId s1), seller_categories w s1))
       (newest_first (\<lambda>s1. touched (s_id s1))
         (filter (\<lambda>s1. case status of None \<Rightarrow> True | Some v \<Rightarrow> s_status s1 = v) (trows (sellers w)))))"

record admin_seller =
  as_seller :: seller_row
  as_user :: "user_shown option"
  as_changeRequests :: "change_request_row list"
  as_categories :: "category_row list"
  as_primaryCategory :: "category_row option"
  as_rating :: "seller_rating_row option"
  as_pickupAddresses :: "address_row list"
  as_liveReward :: live_reward_status
  as_replacementPercent :: num
  as_followers :: nat

definition no_seller :: exn where
  "no_seller = NotFound ''Seller not found''"

definition seller_by_id :: "string \<Rightarrow> seller_row handler" where
  "seller_by_id sid =
     bind_act (reads (\<lambda>w. tget (sellers w) sid))
       (\<lambda>seller. case seller of None \<Rightarrow> throw no_seller | Some s1 \<Rightarrow> ret s1)"

definition findOneSellerForAdmin :: "(int \<Rightarrow> int) \<Rightarrow> string \<Rightarrow> admin_seller handler" where
  "findOneSellerForAdmin db_date sid =
     bind_act (seller_by_id sid) (\<lambda>s1.
     bind_act (getLiveRewardStatus db_date (s_id s1)) (\<lambda>reward.
     reads (\<lambda>w.
       \<lparr> as_seller = s1, as_user = user_view w (s_userId s1),
         as_changeRequests = take 10 (change_requests_of w sid), as_categories = seller_categories w s1,
         as_primaryCategory = Option.bind (s_primaryCategoryId s1) (tget (categories w)),
         as_rating = tget (sellerRatings w) sid,
         as_pickupAddresses =
           filter (\<lambda>a. a_userId a = s_userId s1 \<and> a_type a = PICKUP) (trows (addresses w)),
         as_liveReward = reward, as_replacementPercent = seller_replacement_percent w (s_id s1),
         as_followers = follower_count w (s_id s1) \<rparr>)))"

section \<open>Moving the status\<close>

text \<open>A push to the seller's devices; whatever it throws is swallowed.\<close>

definition bestEffortPushToSellerUser ::
    "push_env \<Rightarrow> string \<Rightarrow> string \<Rightarrow> string \<Rightarrow> (string \<times> string) list \<Rightarrow> unit handler" where
  "bestEffortPushToSellerUser pv uid title body data =
     catching
       (bind_act (reads (\<lambda>w. filter (\<lambda>t. t \<noteq> []) (map fst (filter (\<lambda>(t, dv). dv_userId dv = uid) (pushDevices w)))))
         (\<lambda>tokens. sendToTokensBatched pv tokens title body data))
       (\<lambda>_. ret ())"

definition upd_seller :: "string \<Rightarrow> (seller_row \<Rightarrow> seller_row) \<Rightarrow> world \<Rightarrow> world" where
  "upd_seller sid f w = w\<lparr>sellers := tupd sid f (sellers w)\<rparr>"

text \<open>\<open>seller.update\<close>, answering with the row written.\<close>

definition update_seller :: "string \<Rightarrow> (seller_row \<Rightarrow> seller_row) \<Rightarrow> seller_row handler" where
  "update_seller sid f =
     bind_act (reads (\<lambda>w. tget (sellers w) sid)) (\<lambda>row.
     case row of None \<Rightarrow> throw missing_row
     | Some s1 \<Rightarrow> seq_act (writes (upd_seller sid f)) (ret (f s1)))"

definition verification_data :: "string \<Rightarrow> string \<Rightarrow> (string \<times> string) list" where
  "verification_data status sid =
     [(''type'', ''SELLER_VERIFICATION''), (''status'', status), (''sellerId'', sid)]"

definition approve :: "push_env \<Rightarrow> string \<Rightarrow> seller_row handler" where
  "approve pv sid =
     bind_act (seller_by_id sid) (\<lambda>seller.
     if s_status seller \<noteq> VS_PENDING \<and> s_status seller \<noteq> VS_REJECTED \<and> s_status seller \<noteq> VS_NEEDS_CHANGES
     then throw (BadRequest ''Seller can only be approved when pending, rejected, or needs changes'')
     else
       bind_act (update_seller sid (\<lambda>s1. s1\<lparr>s_status := VS_VERIFIED, s_rejectionReason := None\<rparr>)) (\<lambda>updated.
       seq_act (bestEffortPushToSellerUser pv (s_userId updated) ''Seller verification approved''
           ''Your seller account is verified. You can now start selling on VybeKart.''
           (verification_data ''VERIFIED'' sid))
         (ret updated)))"

definition reject :: "push_env \<Rightarrow> string \<Rightarrow> string \<Rightarrow> seller_row handler" where
  "reject pv sid reason =
     bind_act (seller_by_id sid) (\<lambda>seller.
     if s_status seller \<noteq> VS_PENDING \<and> s_status seller \<noteq> VS_VERIFIED \<and> s_status seller \<noteq> VS_NEEDS_CHANGES
     then throw (BadRequest ''Seller cannot be rejected in this state'')
     else
       bind_act (update_seller sid (\<lambda>s1. s1\<lparr>s_status := VS_REJECTED,
           s_rejectionReason := Some (str_or (Some reason) ''Not approved'')\<rparr>)) (\<lambda>updated.
       seq_act (bestEffortPushToSellerUser pv (s_userId updated) ''Seller verification rejected''
           (dflt ''Your seller application was rejected.'' (s_rejectionReason updated))
           (verification_data ''REJECTED'' sid))
         (ret updated)))"

record changes_input =
  ci_sellerId :: string
  ci_adminUserId :: string
  ci_sections :: "string list"
  ci_note :: "string option"

definition requestChanges :: "(int \<Rightarrow> int) \<Rightarrow> push_env \<Rightarrow> changes_input \<Rightarrow> admin_seller handler" where
  "requestChanges db_date pv d =
     bind_act (seller_by_id (ci_sellerId d)) (\<lambda>seller.
     if s_status seller \<noteq> VS_PENDING \<and> s_status seller \<noteq> VS_VERIFIED \<and> s_status seller \<noteq> VS_NEEDS_CHANGES
     then throw (BadRequest ''Seller cannot be marked as needs-changes in this state'')
     else
       seq_act
         (atomic
           (bind_act (update_seller (ci_sellerId d) (\<lambda>s1. s1\<lparr>s_status := VS_NEEDS_CHANGES\<rparr>)) (\<lambda>_.
            writes (\<lambda>w. w\<lparr>changeRequests := changeRequests w @
              [\<lparr> cr_sellerId = ci_sellerId d, cr_createdByAdminId = Some (ci_adminUserId d),
                 cr_note = nonempty (opt_trim (ci_note d)), cr_sections = ci_sections d,
                 cr_statusAtCreation = s_status seller, cr_createdAt = clock w \<rparr>]\<rparr>))))
       (seq_act
         (bestEffortPushToSellerUser pv (s_userId seller) ''Changes requested''
           (str_or (opt_trim (ci_note d))
             ''VybeKart has requested changes to your seller onboarding details.'')
           (verification_data ''NEEDS_CHANGES'' (ci_sellerId d)))
       (findOneSellerForAdmin db_date (ci_sellerId d))))"

text \<open>What a resubmission must contain; \<open>!x?.trim()\<close> is the negation of \<open>filled\<close>.\<close>

definition filled :: "string option \<Rightarrow> bool" where
  "filled x \<longleftrightarrow> truthy (opt_trim x)"

definition missing_fields :: "world \<Rightarrow> seller_row \<Rightarrow> string list" where
  "missing_fields w s1 =
     map fst (filter (\<lambda>(_, present). \<not> present)
       [(''businessName'', filled (Some (s_businessName s1))),
        (''businessAddress'', filled (s_businessAddress s1)),
        (''primaryCategoryId'', filled (s_primaryCategoryId s1)),
        (''categories'', s_categories s1 \<noteq> []),
        (''pickupAddress'', pickup_of w (s_userId s1) \<noteq> None),
        (''bankName'', filled (s_bankName s1)),
        (''accountHolderName'', filled (s_accountHolderName s1)),
        (''bankAccount'', filled (s_bankAccount s1)),
        (''ifscCode'', filled (s_ifscCode s1)),
        (''accountType'', filled (s_accountType s1)),
        (''signatureUrl'', filled (s_signatureUrl s1))])"

definition resubmitForReview :: "string \<Rightarrow> seller_row handler" where
  "resubmitForReview uid =
     bind_act (own_seller uid) (\<lambda>seller.
     if s_status seller \<noteq> VS_NEEDS_CHANGES
     then throw (BadRequest ''Resubmission is only allowed in needs-changes'')
     else
       bind_act (reads (\<lambda>w. missing_fields w seller)) (\<lambda>missing.
       if missing \<noteq> []
       then throw (BadRequest (''Please complete seller onboarding before resubmitting: '' @ join '', '' missing))
       else update_seller (s_id seller) (\<lambda>s1. s1\<lparr>s_status := VS_PENDING, s_rejectionReason := None\<rparr>)))"

definition blank_registration :: "seller_row \<Rightarrow> seller_row" where
  "blank_registration s1 = s1\<lparr>
     s_businessName := ''Pending re-registration'', s_description := None, s_logoUrl := None,
     s_bannerUrl := None, s_websiteUrl := None, s_gstNumber := None, s_businessAddress := None,
     s_primaryCategoryId := None, s_bankAccount := None, s_bankName := None, s_accountHolderName := None,
     s_accountType := None, s_ifscCode := None, s_signatureUrl := None, s_status := VS_PENDING,
     s_rejectionReason := Some
       ''Your registration was reset by VybeKart. Please complete seller onboarding again in the app.''\<rparr>"

definition reregisterSeller :: "(int \<Rightarrow> int) \<Rightarrow> string \<Rightarrow> admin_seller handler" where
  "reregisterSeller db_date sid =
     bind_act (seller_by_id sid) (\<lambda>seller.
     seq_act
       (atomic
         (seq_act (writes (upd_seller sid (\<lambda>s1. s1\<lparr>s_categories := []\<rparr>)))
         (seq_act (writes (\<lambda>w. w\<lparr>addresses :=
             filter (\<lambda>(_, a). \<not> (a_userId a = s_userId seller \<and> a_type a = PICKUP)) (addresses w)\<rparr>))
         (bind_act (update_seller sid blank_registration) (\<lambda>_. ret ())))))
     (findOneSellerForAdmin db_date sid))"

section \<open>Facts\<close>

lemma wp_own_seller [wp_simps]:
  "wp (own_seller uid) Q w =
     (case seller_of_user w uid of None \<Rightarrow> Q (Inl no_profile) w | Some s1 \<Rightarrow> Q (Inr s1) w)"
  by (cases "seller_of_user w uid") (simp_all add: own_seller_def wp_simps)

lemma wp_seller_by_id [wp_simps]:
  "wp (seller_by_id sid) Q w =
     (case tget (sellers w) sid of None \<Rightarrow> Q (Inl no_seller) w | Some s1 \<Rightarrow> Q (Inr s1) w)"
  by (cases "tget (sellers w) sid") (simp_all add: seller_by_id_def wp_simps)

lemma wp_update_seller [wp_simps]:
  "wp (update_seller sid f) Q w =
     (case tget (sellers w) sid of None \<Rightarrow> Q (Inl missing_row) w
      | Some s1 \<Rightarrow> Q (Inr (f s1)) (upd_seller sid f w))"
  by (cases "tget (sellers w) sid") (simp_all add: update_seller_def wp_simps)

text \<open>A push only adds to the outbox, and never fails.\<close>

lemma push_to_seller_out:
  "\<exists>ms. bestEffortPushToSellerUser pv uid t b d w = (Inr (), w\<lparr>outbox := outbox w @ ms\<rparr>)"
proof -
  have none: "\<exists>ms. w = w\<lparr>outbox := outbox w @ ms\<rparr>" by (rule exI[of _ "[]"]) simp
  have "\<exists>ms r. sendToTokensBatched pv ts t b d w = (r, w\<lparr>outbox := outbox w @ ms\<rparr>)" for ts
    using for_each_out[OF sendToTokens_out] none by (auto simp: sendToTokensBatched_def ret_def)
  then obtain g r where "sendToTokensBatched pv ts t b d w = (r ts, w\<lparr>outbox := outbox w @ g ts\<rparr>)" for ts
    by metis
  then show ?thesis
    by (simp add: bestEffortPushToSellerUser_def catching_def bind_act_def reads_def ret_def split: sum.split) blast
qed

lemma wp_push_to_seller:
  "(\<And>ms. Q (Inr ()) (w\<lparr>outbox := outbox w @ ms\<rparr>)) \<Longrightarrow> wp (bestEffortPushToSellerUser pv uid t b d) Q w"
  using push_to_seller_out[of pv uid t b d w] by (auto simp: wp_def)

lemma missing_none:
  "missing_fields w s1 = [] \<longleftrightarrow>
     filled (Some (s_businessName s1)) \<and> filled (s_businessAddress s1) \<and> filled (s_primaryCategoryId s1) \<and>
     s_categories s1 \<noteq> [] \<and> pickup_of w (s_userId s1) \<noteq> None \<and> filled (s_bankName s1) \<and>
     filled (s_accountHolderName s1) \<and> filled (s_bankAccount s1) \<and> filled (s_ifscCode s1) \<and>
     filled (s_accountType s1) \<and> filled (s_signatureUrl s1)"
  by (simp add: missing_fields_def)

lemma wp_findOneSellerForAdmin:
  "(tget (sellers w) sid = None \<Longrightarrow> Q (Inl no_seller) w) \<Longrightarrow>
   (\<And>v. tget (sellers w) sid \<noteq> None \<Longrightarrow> Q (Inr v) w) \<Longrightarrow> wp (findOneSellerForAdmin db_date sid) Q w"
  by (cases "tget (sellers w) sid") (simp_all add: findOneSellerForAdmin_def getLiveRewardStatus_def wp_simps)

end
