(* ===== verification/Storage.thy ===== *)
theory Storage
  imports LiveKit
begin

text \<open>
  Object storage, src/src/storage/supabase-storage.service.ts and storage-cleanup.service.ts: addresses
  of objects, uploads, and the hourly sweep that removes recordings older than a day and clears the
  pointers of their streams. The storage service is the parameter \<open>supabase\<close>: its answer to an upload,
  and its answers to the listing and deleting requests of a sweep as functions of the delete requests
  accepted before.
\<close>

section \<open>Addresses and uploads\<close>

record object_row =
  ob_name :: string
  ob_created :: "int option" \<comment> \<open>\<open>Date.parse(created_at)\<close> where it is a number\<close>

record supabase =
  sb_cfg :: "string \<Rightarrow> string option" \<comment> \<open>\<open>config.get\<close>\<close>
  sb_upload :: "string \<Rightarrow> string \<Rightarrow> string \<Rightarrow> (int \<times> string) option"
    \<comment> \<open>address, content type and bytes to the status and body of a refusal\<close>
  sb_rows :: "string list list \<Rightarrow> string \<Rightarrow> nat \<Rightarrow> exn + object_row list"
    \<comment> \<open>delete requests so far, prefix and offset to a page of 100, oldest first\<close>
  sb_delete :: "string list \<Rightarrow> bool" \<comment> \<open>the delete request is accepted\<close>

definition sb_text :: "supabase \<Rightarrow> string \<Rightarrow> string option" where
  "sb_text sb k = nonempty (opt_trim (sb_cfg sb k))"

text \<open>\<open>encodeURIComponent\<close> of an ASCII text.\<close>

definition hex_digit :: "nat \<Rightarrow> char" where
  "hex_digit n = (if n < 10 then char_of (48 + n) else char_of (55 + n))"

definition unreserved :: "char \<Rightarrow> bool" where
  "unreserved c \<longleftrightarrow> is_letter c \<or> is_digit c \<or> c \<in> set ''-_.!~*()'' \<or> c = CHR 0x27"

definition encodeURIComponent :: "string \<Rightarrow> string" where
  "encodeURIComponent s =
     concat (map (\<lambda>c. if unreserved c then [c]
       else let n = of_char c :: nat in [CHR ''%'', hex_digit (n div 16), hex_digit (n mod 16)]) s)"

definition supabaseUrl :: "supabase \<Rightarrow> string option" where
  "supabaseUrl sb = nonempty (map_option strip_slash (opt_trim (sb_cfg sb ''SUPABASE_URL'')))"

definition serviceRoleKey :: "supabase \<Rightarrow> string option" where
  "serviceRoleKey sb = sb_text sb ''SUPABASE_SERVICE_ROLE_KEY''"

definition publicBucket :: "supabase \<Rightarrow> string" where
  "publicBucket sb = str_or (sb_text sb ''SUPABASE_PUBLIC_BUCKET'') ''Vybekart''"

definition buildPublicUrl :: "supabase \<Rightarrow> string \<Rightarrow> string \<Rightarrow> string option" where
  "buildPublicUrl sb bucket objectKey =
     (let key = strip_slashes objectKey
      in case supabaseUrl sb of
           None \<Rightarrow> None
         | Some base \<Rightarrow> if bucket = [] \<or> key = [] then None
             else Some (base @ ''/storage/v1/object/public/'' @ encodeURIComponent bucket @ ''/'' @ key))"

definition uploadPublicObject ::
    "supabase \<Rightarrow> string \<Rightarrow> string \<Rightarrow> string \<Rightarrow> string \<Rightarrow> exn + string" where
  "uploadPublicObject sb bucket objectKey contentType bytes =
     (case supabaseUrl sb of
        None \<Rightarrow> Inl (Crash ''SUPABASE_URL is required for Storage uploads'')
      | Some base \<Rightarrow>
          if serviceRoleKey sb = None
          then Inl (Crash ''SUPABASE_SERVICE_ROLE_KEY is required for Storage API operations'')
          else
            let key = strip_slashes objectKey;
                url = base @ ''/storage/v1/object/'' @ encodeURIComponent bucket @ ''/'' @ key
            in case sb_upload sb url contentType bytes of
                 Some (status, body) \<Rightarrow>
                   Inl (Crash (''Supabase upload failed ('' @ int_digits status @ ''): '' @ body))
               | None \<Rightarrow>
                   Inr (str_or (buildPublicUrl sb bucket key)
                     (base @ ''/storage/v1/object/public/'' @ bucket @ ''/'' @ key)))"

section \<open>The sweep of old recordings\<close>

definition is_hex_ci :: "char \<Rightarrow> bool" where
  "is_hex_ci c \<longleftrightarrow> is_digit c \<or> lower_char c \<in> set ''abcdef''"

text \<open>\<open>/^[0-9a-f]{8}-[0-9a-f]{4}-[1-5][0-9a-f]{3}-[89ab][0-9a-f]{3}-[0-9a-f]{12}$/i\<close>\<close>

definition uuid_shape :: "string \<Rightarrow> bool" where
  "uuid_shape = matches_classes
     (replicate 8 is_hex_ci @ [\<lambda>c. c = CHR ''-''] @ replicate 4 is_hex_ci @ [\<lambda>c. c = CHR ''-''] @
      [\<lambda>c. c \<in> set ''12345''] @ replicate 3 is_hex_ci @ [\<lambda>c. c = CHR ''-''] @
      [\<lambda>c. lower_char c \<in> set ''89ab''] @ replicate 3 is_hex_ci @ [\<lambda>c. c = CHR ''-''] @
      replicate 12 is_hex_ci)"

text \<open>\<open>s.split('/').pop()\<close>, and a final \<open>.mp4\<close> in any case taken off.\<close>

definition last_segment :: "string \<Rightarrow> string" where
  "last_segment s = rev (takeWhile (\<lambda>c. c \<noteq> CHR ''/'') (rev s))"

definition strip_mp4 :: "string \<Rightarrow> string" where
  "strip_mp4 s = (if 4 \<le> length s \<and> to_lower (last_chars 4 s) = ''.mp4'' then take (length s - 4) s else s)"

definition extractStreamIdFromReplayKey :: "string \<Rightarrow> string option" where
  "extractStreamIdFromReplayKey objectKey =
     (let base = strip_mp4 (last_segment objectKey) in if uuid_shape base then Some base else None)"

definition replay_prefix :: string where "replay_prefix = ''vybekart-replays/''"

definition old_keys :: "int \<Rightarrow> object_row list \<Rightarrow> string list" where
  "old_keys cutoff rows =
     map (\<lambda>r. replay_prefix @ ob_name r)
       (filter (\<lambda>r. case ob_created r of None \<Rightarrow> False | Some t \<Rightarrow> t < cutoff) rows)"

text \<open>
  One sweep: at most \<open>pages\<close> pages are listed. A refused delete is logged only, so its keys count as
  deleted all the same; \<open>dels\<close> holds the accepted requests, \<open>gone\<close> the keys counted. A rejected listing
  leaves the sweep before any stream is updated.
\<close>

fun sweep_pages ::
    "supabase \<Rightarrow> int \<Rightarrow> nat \<Rightarrow> nat \<Rightarrow> string list list \<Rightarrow> string list \<Rightarrow> exn + string list \<times> string list list" where
  "sweep_pages sb cutoff 0 offset dels gone = Inr (gone, dels)"
| "sweep_pages sb cutoff (Suc pages) offset dels gone =
     (case sb_rows sb dels replay_prefix offset of
        Inl e \<Rightarrow> Inl e
      | Inr rows \<Rightarrow>
          let keys = old_keys cutoff rows
          in if rows = [] \<or> keys = [] then Inr (gone, dels)
             else sweep_pages sb cutoff pages (offset + length rows)
               (if sb_delete sb keys then dels @ [keys] else dels) (gone @ keys))"

definition CLEANUP_PAGES :: nat where "CLEANUP_PAGES = 200"

definition cleanup_enabled :: "supabase \<Rightarrow> bool" where
  "cleanup_enabled sb \<longleftrightarrow>
     to_lower (trim (case sb_cfg sb ''CLEANUP_REPLAYS_ENABLED'' of None \<Rightarrow> ''true'' | Some s \<Rightarrow> s)) \<noteq> ''false''"

definition clear_replay :: "stream_row \<Rightarrow> stream_row" where
  "clear_replay st = st\<lparr> st_replayUrl := None, st_replayDurationSec := None, st_livekitEgressId := None,
     st_replayStatus := RS_NONE \<rparr>"

text \<open>\<open>updateMany({ where: { id: { in: ids }, replayUrl: { not: null } }, data })\<close>\<close>

definition clear_replays :: "string list \<Rightarrow> world \<Rightarrow> world" where
  "clear_replays ids w =
     w\<lparr> streams := map (\<lambda>(k, st). (k, if k \<in> set ids \<and> st_replayUrl st \<noteq> None then clear_replay st else st))
       (streams w) \<rparr>"

definition deleteOldReplays :: "supabase \<Rightarrow> unit handler" where
  "deleteOldReplays sb =
     (if \<not> cleanup_enabled sb then ret () else
      bind_act (reads clock) (\<lambda>now.
      bind_act (lift_res (sweep_pages sb (now - MS_PER_DAY) CLEANUP_PAGES 0 [] [])) (\<lambda>(gone, dels).
      writes (clear_replays (List.map_filter extractStreamIdFromReplayKey gone)))))"

section \<open>Facts\<close>

text \<open>Every key the sweep counts is older than the cutoff in some page it was shown.\<close>

lemma old_keys_old: "k \<in> set (old_keys cutoff rows) \<Longrightarrow>
  \<exists>r \<in> set rows. k = replay_prefix @ ob_name r \<and> (\<exists>t. ob_created r = Some t \<and> t < cutoff)"
  by (auto simp: old_keys_def split: option.splits)

lemma sweep_gone:
  assumes "sweep_pages sb cutoff pages offset dels gone = Inr (gone', dels')"
    and "\<And>dels offset rows. sb_rows sb dels replay_prefix offset = Inr rows \<Longrightarrow> set rows \<subseteq> objs"
  shows "set gone' \<subseteq> set gone \<union> {replay_prefix @ ob_name r | r. r \<in> objs \<and> (\<exists>t. ob_created r = Some t \<and> t < cutoff)}"
  using assms(1)
proof (induction pages arbitrary: offset dels gone)
  case (Suc pages)
  let ?old = "{replay_prefix @ ob_name r | r. r \<in> objs \<and> (\<exists>t. ob_created r = Some t \<and> t < cutoff)}"
  show ?case
  proof (cases "sb_rows sb dels replay_prefix offset")
    case (Inr rows)
    have k: "set (old_keys cutoff rows) \<subseteq> ?old"
      using old_keys_old assms(2)[OF Inr] by blast
    show ?thesis
    proof (cases "rows = [] \<or> old_keys cutoff rows = []")
      case True
      then show ?thesis using Suc.prems Inr by (auto simp: Let_def)
    next
      case False
      then have "sweep_pages sb cutoff pages (offset + length rows)
          (if sb_delete sb (old_keys cutoff rows) then dels @ [old_keys cutoff rows] else dels)
          (gone @ old_keys cutoff rows) = Inr (gone', dels')"
        using Suc.prems Inr by (simp add: Let_def)
      from Suc.IH[OF this] show ?thesis using k by auto
    qed
  qed (use Suc.prems in simp)
qed simp

lemma tget_clear_replays: "tget (streams (clear_replays ids w)) k =
  map_option (\<lambda>st. if k \<in> set ids \<and> st_replayUrl st \<noteq> None then clear_replay st else st) (tget (streams w) k)"
  unfolding clear_replays_def by (simp add: tget_map_rows)

end
