(* ===== verification/Pricing.thy ===== *)
theory Pricing
  imports Json
begin

text \<open>
  What a seller is paid for a sale, src/src/pricing/seller-payout-calculator.ts, computed in binary64 in
  the order of the code. A note that quotes the logistics base keeps the number itself, between the two
  pieces of its text.
\<close>

section \<open>The calculator\<close>

datatype payout_note =
    Note string
  | NoteBase string num string

record payout_item =
  pl_key :: string
  pl_label :: string
  pl_amount :: num
  pl_note :: payout_note

record payout =
  po_customerPrice :: num
  po_netSettlement :: num
  po_commissionWaiverActive :: bool
  po_commissionRate :: num
  po_deductions :: "payout_item list"
  po_taxes :: "payout_item list"
  po_info :: "payout_item list"
  po_disclaimers :: "payout_note list"

record payout_config =
  pc_paymentGatewayRate :: num
  pc_serviceGstRate :: num
  pc_vybeKartCommissionRate :: num
  pc_logisticsBaseInr :: num
  pc_tdsRate :: num
  pc_tcsRate :: num

definition DEFAULT_PAYOUT_CONFIG :: payout_config where
  "DEFAULT_PAYOUT_CONFIG =
     \<lparr> pc_paymentGatewayRate = fl (2 / 100), pc_serviceGstRate = fl (18 / 100),
       pc_vybeKartCommissionRate = fl (5 / 100), pc_logisticsBaseInr = 75, pc_tdsRate = fl (1 / 1000),
       pc_tcsRate = fl (5 / 1000) \<rparr>"

definition EPSILON :: num where "EPSILON = pow2 (-52)"

definition roundInr :: "num \<Rightarrow> num" where
  "roundInr v = ndiv (of_int (math_round (nmul (nadd v EPSILON) 100))) 100"

text \<open>The amounts of the calculation before they are rounded.\<close>

record amounts =
  pa_gatewayGst :: num
  pa_gatewayTotal :: num
  pa_logisticsGst :: num
  pa_logisticsTotal :: num
  pa_commissionGst :: num
  pa_commissionTotal :: num
  pa_netSettlement :: num
  pa_tds :: num
  pa_tcs :: num
  pa_inputGstCredits :: num

definition payout_amounts :: "payout_config \<Rightarrow> num \<Rightarrow> bool \<Rightarrow> amounts" where
  "payout_amounts cfg customerPrice waiver =
     (let commissionRate = (if waiver then 0 else pc_vybeKartCommissionRate cfg);
          gatewayBase = nmul customerPrice (pc_paymentGatewayRate cfg);
          gatewayGst = nmul gatewayBase (pc_serviceGstRate cfg);
          gatewayTotal = nadd gatewayBase gatewayGst;
          logisticsBase = pc_logisticsBaseInr cfg;
          logisticsGst = nmul logisticsBase (pc_serviceGstRate cfg);
          logisticsTotal = nadd logisticsBase logisticsGst;
          commissionBase = nmul (nsub (nsub customerPrice gatewayTotal) logisticsTotal) commissionRate;
          commissionGst = nmul commissionBase (pc_serviceGstRate cfg);
          commissionTotal = nadd commissionBase commissionGst;
          netSettlement =
            nsub (nsub (nsub customerPrice gatewayTotal) logisticsTotal) commissionTotal;
          taxableBase = ndiv netSettlement (fl (112 / 100));
          tds = nmul taxableBase (pc_tdsRate cfg);
          tcs = nmul taxableBase (pc_tcsRate cfg)
      in \<lparr> pa_gatewayGst = gatewayGst, pa_gatewayTotal = gatewayTotal, pa_logisticsGst = logisticsGst,
           pa_logisticsTotal = logisticsTotal, pa_commissionGst = commissionGst,
           pa_commissionTotal = commissionTotal, pa_netSettlement = netSettlement, pa_tds = tds,
           pa_tcs = tcs,
           pa_inputGstCredits = nadd (nadd (nadd commissionGst gatewayGst) logisticsGst) tcs \<rparr>)"

definition payout_line :: "string \<Rightarrow> string \<Rightarrow> num \<Rightarrow> payout_note \<Rightarrow> payout_item" where
  "payout_line key label amount nt =
     \<lparr> pl_key = key, pl_label = label, pl_amount = amount, pl_note = nt \<rparr>"

definition payout_deductions :: "payout_config \<Rightarrow> bool \<Rightarrow> amounts \<Rightarrow> payout_item list" where
  "payout_deductions cfg waiver a =
     [payout_line ''gateway'' ''Payment gateway fees'' (- roundInr (pa_gatewayTotal a))
        (Note ''2% of customer price + 18% GST on fee''),
      payout_line ''logistics'' ''Logistics (estimated)'' (- roundInr (pa_logisticsTotal a))
        (NoteBase ''Rs'' (pc_logisticsBaseInr cfg) '' base + 18% GST''),
      payout_line ''commission'' ''Vybekart commission''
        (if pa_commissionTotal a \<le> 0 then 0 else - roundInr (pa_commissionTotal a))
        (Note (if waiver then ''0% commission waiver active''
               else ''5% of (customer price - gateway - logistics) + 18% GST''))]"

definition payout_taxes :: "amounts \<Rightarrow> payout_item list" where
  "payout_taxes a =
     [payout_line ''gst_commission'' ''GST on commission'' (roundInr (pa_commissionGst a))
        (Note ''18% on commission base''),
      payout_line ''gst_gateway'' ''GST on payment gateway'' (roundInr (pa_gatewayGst a))
        (Note ''18% on gateway fee''),
      payout_line ''gst_logistics'' ''GST on logistics'' (roundInr (pa_logisticsGst a))
        (Note ''18% on logistics base''),
      payout_line ''tds'' ''TDS (income tax)'' (roundInr (pa_tds a))
        (Note ''0.1% of taxable base (net settlement / 1.12)''),
      payout_line ''tcs'' ''TCS (GST)'' (roundInr (pa_tcs a)) (Note ''0.5% of taxable base'')]"

definition calculateSellerPayout :: "num \<Rightarrow> bool \<Rightarrow> payout_config \<Rightarrow> payout" where
  "calculateSellerPayout customerPrice waiver cfg =
     (let a = payout_amounts cfg customerPrice waiver
      in \<lparr> po_customerPrice = roundInr customerPrice,
           po_netSettlement = roundInr (pa_netSettlement a),
           po_commissionWaiverActive = waiver,
           po_commissionRate = (if waiver then 0 else pc_vybeKartCommissionRate cfg),
           po_deductions = payout_deductions cfg waiver a,
           po_taxes = payout_taxes a,
           po_info = [payout_line ''input_gst_credits'' ''Input GST credits (info)''
             (roundInr (pa_inputGstCredits a)) (Note ''Commission + gateway + logistics GST + TCS'')],
           po_disclaimers =
             [Note ''Product price is what shoppers pay. Delivery is added separately at checkout.'',
              NoteBase ''Logistics deduction is estimated (Rs'' (pc_logisticsBaseInr cfg)
                '' + GST). Actual shipping may differ.'',
              Note ''TDS and TCS are statutory withholdings shown for transparency.''] \<rparr>)"

section \<open>Facts\<close>

text \<open>With the waiver no commission is taken, and the seller is never paid less than without it as long
  as the commission is not negative.\<close>

lemma nmul_zero [simp]: "nmul x 0 = 0" "nmul 0 x = 0"
  by (simp_all add: nmul_def)

lemma nadd_zeros [simp]: "nadd 0 0 = 0"
  by (simp add: nadd_def)

lemma roundInr_mono: "x \<le> y \<Longrightarrow> roundInr x \<le> roundInr y"
proof -
  assume "x \<le> y"
  then have "nadd x EPSILON \<le> nadd y EPSILON" by (intro nadd_mono) simp_all
  then have "nmul (nadd x EPSILON) 100 \<le> nmul (nadd y EPSILON) 100"
    unfolding nmul_def by (intro fl_mono) simp
  then have "math_round (nmul (nadd x EPSILON) 100) \<le> math_round (nmul (nadd y EPSILON) 100)"
    unfolding math_round_def by (intro floor_mono) simp
  then show ?thesis unfolding roundInr_def ndiv_def by (intro fl_mono divide_right_mono) simp_all
qed

lemma waived_commission:
  "pa_commissionTotal (payout_amounts cfg p True) = 0" "pa_commissionGst (payout_amounts cfg p True) = 0"
  by (simp_all add: payout_amounts_def Let_def)

lemma net_by_commission:
  "\<exists>base. \<forall>waiver. pa_netSettlement (payout_amounts cfg p waiver) =
     nsub base (pa_commissionTotal (payout_amounts cfg p waiver))"
  unfolding payout_amounts_def Let_def amounts.simps by (rule exI, rule allI, rule refl)

lemma waiver_pays_more:
  assumes "0 \<le> pa_commissionTotal (payout_amounts cfg p False)"
  shows "po_netSettlement (calculateSellerPayout p False cfg) \<le> po_netSettlement (calculateSellerPayout p True cfg)"
proof -
  obtain base where base: "pa_netSettlement (payout_amounts cfg p waiver) =
      nsub base (pa_commissionTotal (payout_amounts cfg p waiver))" for waiver
    using net_by_commission by blast
  have "pa_netSettlement (payout_amounts cfg p False) \<le> pa_netSettlement (payout_amounts cfg p True)"
    using assms unfolding base waived_commission nsub_def by (intro fl_mono) simp
  then show ?thesis by (simp add: calculateSellerPayout_def Let_def roundInr_mono)
qed

end
