(* ===== verification/SellerDesk.thy ===== *)
theory SellerDesk
  imports SellerReview Storage Pricing Accounts
begin

text \<open>
  The seller's own pages, the second half of src/src/sellers/sellers.service.ts: profile, bank details,
  store details and pictures, signature, pickup address, the dashboard and the pricing preview. A field of
  an update that is \<open>undefined\<close> is \<open>None\<close>; \<open>null\<close> is \<open>Some None\<close>. The server's local calendar is the
  parameter \<open>local_calendar\<close>: midnight of the day so many days back, and the label of a day.
\<close>

section \<open>Profile and bank details\<close>

record profile_dto =
  ud_description :: "string option option"
  ud_bankAccount :: "string option option"
  ud_ifscCode :: "string option option"
  ud_logoUrl :: "string option option"
  ud_bannerUrl :: "string option option"

definition present_valid :: "('a \<Rightarrow> bool) \<Rightarrow> 'a option option \<Rightarrow> bool" where
  "present_valid P x = opt_valid (opt_valid P) x"

definition profile_dto_valid :: "(string \<Rightarrow> bool) \<Rightarrow> profile_dto \<Rightarrow> bool" where
  "profile_dto_valid is_url d \<longleftrightarrow>
     present_valid (\<lambda>s. length s \<le> 2000) (ud_description d) \<and> present_valid account_digits (ud_bankAccount d) \<and>
     present_valid ifsc (ud_ifscCode d) \<and> present_valid is_url (ud_logoUrl d) \<and>
     present_valid is_url (ud_bannerUrl d)"

definition apply_profile :: "profile_dto \<Rightarrow> seller_row \<Rightarrow> seller_row" where
  "apply_profile d s1 = s1\<lparr>
     s_description := dflt (s_description s1) (ud_description d),
     s_bankAccount := dflt (s_bankAccount s1) (ud_bankAccount d),
     s_ifscCode := dflt (s_ifscCode s1) (ud_ifscCode d),
     s_logoUrl := dflt (s_logoUrl s1) (ud_logoUrl d),
     s_bannerUrl := dflt (s_bannerUrl s1) (ud_bannerUrl d)\<rparr>"

definition updateProfile :: "string \<Rightarrow> profile_dto \<Rightarrow> (seller_row \<times> user_shown option \<times> category_row list) handler" where
  "updateProfile uid d =
     bind_act (own_seller uid) (\<lambda>s1.
     bind_act (update_seller (s_id s1) (apply_profile d)) (\<lambda>s2.
     reads (\<lambda>w. (s2, user_view w uid, seller_categories w s2))))"

record bank_dto =
  bk_bankName :: "string option option"
  bk_accountHolderName :: "string option option"
  bk_bankAccount :: "string option option"
  bk_ifscCode :: "string option option"
  bk_accountType :: "string option option"

definition bank_dto_valid :: "bank_dto \<Rightarrow> bool" where
  "bank_dto_valid d \<longleftrightarrow>
     present_valid (\<lambda>s. length s \<le> 200) (bk_bankName d) \<and>
     present_valid (\<lambda>s. length s \<le> 200) (bk_accountHolderName d) \<and>
     present_valid account_digits (bk_bankAccount d) \<and> present_valid ifsc (bk_ifscCode d) \<and>
     present_valid (\<lambda>s. length s \<le> 50) (bk_accountType d)"

record bank_details =
  bv_bankName :: "string option"
  bv_accountHolderName :: "string option"
  bv_accountNumber :: "string option"
  bv_ifscCode :: "string option"
  bv_accountType :: "string option"

definition masked_account :: "seller_row \<Rightarrow> string option" where
  "masked_account s1 = map_option (\<lambda>a. ''xxxx'' @ last_chars 5 a) (nonempty (s_bankAccount s1))"

definition getBankDetails :: "string \<Rightarrow> bank_details handler" where
  "getBankDetails uid =
     bind_act (own_seller uid) (\<lambda>s1.
     ret \<lparr> bv_bankName = s_bankName s1, bv_accountHolderName = s_accountHolderName s1,
           bv_accountNumber = masked_account s1, bv_ifscCode = s_ifscCode s1,
           bv_accountType = s_accountType s1 \<rparr>)"

definition apply_bank :: "bank_dto \<Rightarrow> seller_row \<Rightarrow> seller_row" where
  "apply_bank d s1 = s1\<lparr>
     s_bankName := dflt (s_bankName s1) (bk_bankName d),
     s_accountHolderName := dflt (s_accountHolderName s1) (bk_accountHolderName d),
     s_bankAccount := dflt (s_bankAccount s1) (bk_bankAccount d),
     s_ifscCode := dflt (s_ifscCode s1) (bk_ifscCode d),
     s_accountType := dflt (s_accountType s1) (bk_accountType d)\<rparr>"

text \<open>The answer selects bank name, holder, IFSC code and account type.\<close>

definition updateBankDetails ::
    "string \<Rightarrow> bank_dto \<Rightarrow> (string option \<times> string option \<times> string option \<times> string option) handler" where
  "updateBankDetails uid d =
     bind_act (own_seller uid) (\<lambda>s1.
     bind_act (update_seller (s_id s1) (apply_bank d)) (\<lambda>s2.
     ret (s_bankName s2, s_accountHolderName s2, s_ifscCode s2, s_accountType s2)))"

section \<open>Store details\<close>

definition formatPickupAddressRecord :: "address_row \<Rightarrow> string" where
  "formatPickupAddressRecord a =
     join [CHR 0x0A] (filter (\<lambda>x. x \<noteq> [])
       [trim (a_line1 a), str_or (opt_trim (a_line2 a)) [],
        trim (a_city a) @ '', '' @ trim (a_state a) @ '' '' @ trim (a_zip a), trim (a_country a)])"

record pickup_shown =
  pw_id :: string
  pw_line1 :: string
  pw_line2 :: "string option"
  pw_city :: string
  pw_state :: string
  pw_zip :: string
  pw_country :: string

definition pickup_view :: "address_row \<Rightarrow> pickup_shown" where
  "pickup_view a = \<lparr> pw_id = a_id a, pw_line1 = a_line1 a, pw_line2 = a_line2 a, pw_city = a_city a,
     pw_state = a_state a, pw_zip = a_zip a, pw_country = a_country a \<rparr>"

definition pickups_of :: "world \<Rightarrow> string \<Rightarrow> address_row list" where
  "pickups_of w uid = filter (\<lambda>a. a_userId a = uid \<and> a_type a = PICKUP) (trows (addresses w))"

definition newest_pickup :: "world \<Rightarrow> string \<Rightarrow> address_row option" where
  "newest_pickup w uid = (case newest_first a_createdAt (pickups_of w uid) of [] \<Rightarrow> None | a # _ \<Rightarrow> Some a)"

definition default_pickup :: "world \<Rightarrow> string \<Rightarrow> address_row option" where
  "default_pickup w uid = find a_isDefault (pickups_of w uid)"

definition shown_address :: "world \<Rightarrow> string \<Rightarrow> seller_row \<Rightarrow> string option" where
  "shown_address w uid s1 =
     (if filled (s_businessAddress s1) then s_businessAddress s1
      else map_option formatPickupAddressRecord (or_else (default_pickup w uid) (pickup_of w uid)))"

record store_details =
  sx_businessName :: string
  sx_businessAddress :: "string option"
  sx_gstNumber :: "string option"
  sx_primaryCategoryId :: "string option"
  sx_primaryCategory :: "category_row option"
  sx_description :: "string option"
  sx_logoUrl :: "string option"
  sx_bannerUrl :: "string option"
  sx_websiteUrl :: "string option"
  sx_pickupAddress :: "pickup_shown option"

text \<open>A seller without a primary category is given its first category, and the row is updated.\<close>

definition fill_primary :: "seller_row \<Rightarrow> seller_row handler" where
  "fill_primary s1 =
     (case s_categories s1 of
        c # _ \<Rightarrow> if truthy (s_primaryCategoryId s1) then ret s1
                else update_seller (s_id s1) (\<lambda>s2. s2\<lparr>s_primaryCategoryId := Some c\<rparr>)
      | [] \<Rightarrow> ret s1)"

definition getStoreDetails :: "string \<Rightarrow> store_details handler" where
  "getStoreDetails uid =
     bind_act (own_seller uid) (\<lambda>s0.
     bind_act (fill_primary s0) (\<lambda>s1.
     reads (\<lambda>w.
       \<lparr> sx_businessName = s_businessName s1, sx_businessAddress = shown_address w uid s1,
         sx_gstNumber = s_gstNumber s1, sx_primaryCategoryId = s_primaryCategoryId s1,
         sx_primaryCategory = Option.bind (s_primaryCategoryId s1) (tget (categories w)),
         sx_description = s_description s1, sx_logoUrl = s_logoUrl s1, sx_bannerUrl = s_bannerUrl s1,
         sx_websiteUrl = s_websiteUrl s1, sx_pickupAddress = map_option pickup_view (newest_pickup w uid) \<rparr>)))"

record store_dto =
  ts_businessName :: "string option option"
  ts_businessAddress :: "string option option"
  ts_gstNumber :: "string option option"
  ts_primaryCategoryId :: "string option option"
  ts_description :: "string option option"
  ts_logoUrl :: "string option option"
  ts_bannerUrl :: "string option option"
  ts_websiteUrl :: "string option option"

text \<open>\<open>dto.x?.trim() || null\<close> of a field that is given\<close>

definition blank_null :: "string option option \<Rightarrow> string option option" where
  "blank_null x = map_option (\<lambda>v. nonempty (opt_trim v)) x"

definition apply_store :: "store_dto \<Rightarrow> seller_row \<Rightarrow> seller_row" where
  "apply_store d s1 = s1\<lparr>
     s_businessName := (case ts_businessName d of Some (Some n) \<Rightarrow> n | _ \<Rightarrow> s_businessName s1),
     s_businessAddress := dflt (s_businessAddress s1) (ts_businessAddress d),
     s_gstNumber := dflt (s_gstNumber s1) (ts_gstNumber d),
     s_primaryCategoryId := dflt (s_primaryCategoryId s1) (blank_null (ts_primaryCategoryId d)),
     s_description := dflt (s_description s1) (ts_description d),
     s_logoUrl := dflt (s_logoUrl s1) (ts_logoUrl d),
     s_bannerUrl := dflt (s_bannerUrl s1) (ts_bannerUrl d),
     s_websiteUrl := dflt (s_websiteUrl s1) (blank_null (ts_websiteUrl d))\<rparr>"

text \<open>What the database client refuses: \<open>null\<close> for the required name, an unknown category.\<close>

definition store_refusal :: "world \<Rightarrow> store_dto \<Rightarrow> exn option" where
  "store_refusal w d =
     (if ts_businessName d = Some None then Some (Crash ''PrismaClientValidationError'')
      else case blank_null (ts_primaryCategoryId d) of
        Some (Some c) \<Rightarrow> if tget (categories w) c = None then Some (Crash ''P2003'') else None
      | _ \<Rightarrow> None)"

definition updateStoreDetails :: "string \<Rightarrow> store_dto \<Rightarrow> store_details handler" where
  "updateStoreDetails uid d =
     bind_act (own_seller uid) (\<lambda>s1.
     bind_act (reads (\<lambda>w. store_refusal w d)) (\<lambda>refused.
     case refused of Some e \<Rightarrow> throw e
     | None \<Rightarrow> bind_act (update_seller (s_id s1) (apply_store d)) (\<lambda>_. getStoreDetails uid)))"

section \<open>Pictures and signature\<close>

datatype store_image = Logo | Banner

record image_file =
  im_mimetype :: string
  im_buffer :: string

definition STORE_IMAGE_MIME_EXT :: "string \<Rightarrow> string option" where
  "STORE_IMAGE_MIME_EXT = map_of
     [(''image/jpeg'', ''.jpg''), (''image/jpg'', ''.jpg''), (''image/png'', ''.png''),
      (''image/webp'', ''.webp''), (''image/gif'', ''.gif'')]"

definition image_stem :: "store_image \<Rightarrow> string" where
  "image_stem kind = (case kind of Logo \<Rightarrow> ''logo'' | Banner \<Rightarrow> ''banner'')"

definition set_image :: "store_image \<Rightarrow> string \<Rightarrow> seller_row \<Rightarrow> seller_row" where
  "set_image kind url s1 =
     (case kind of Logo \<Rightarrow> s1\<lparr>s_logoUrl := Some url\<rparr> | Banner \<Rightarrow> s1\<lparr>s_bannerUrl := Some url\<rparr>)"

definition saveStoreImage :: "supabase \<Rightarrow> string \<Rightarrow> image_file option \<Rightarrow> store_image \<Rightarrow> string handler" where
  "saveStoreImage sb uid file kind =
     (case file of None \<Rightarrow> throw (BadRequest ''Image file is required'')
      | Some f \<Rightarrow>
        if im_buffer f = [] then throw (BadRequest ''Image file is required'') else
        bind_act (own_seller uid) (\<lambda>s1.
        let mime = to_lower (im_mimetype f)
        in case STORE_IMAGE_MIME_EXT mime of
             None \<Rightarrow> throw (BadRequest ''Image must be JPEG, PNG, WebP, or GIF'')
           | Some ext \<Rightarrow>
             bind_act (reads (\<lambda>w. ''vybekart-images/store/'' @ s_id s1 @ ''/'' @ image_stem kind @ ''-'' @
                 int_digits (clock w) @ ext)) (\<lambda>objectKey.
             bind_act (lift_res (uploadPublicObject sb (publicBucket sb) objectKey mime (im_buffer f))) (\<lambda>url.
             bind_act (update_seller (s_id s1) (set_image kind url)) (\<lambda>_. ret url)))))"

definition uploadStoreLogo :: "supabase \<Rightarrow> string \<Rightarrow> image_file option \<Rightarrow> string handler" where
  "uploadStoreLogo sb uid file = saveStoreImage sb uid file Logo"

definition uploadStoreBanner :: "supabase \<Rightarrow> string \<Rightarrow> image_file option \<Rightarrow> string handler" where
  "uploadStoreBanner sb uid file = saveStoreImage sb uid file Banner"

definition getSignature :: "string \<Rightarrow> string option handler" where
  "getSignature uid = bind_act (own_seller uid) (\<lambda>s1. ret (s_signatureUrl s1))"

definition updateSignature :: "string \<Rightarrow> string option option \<Rightarrow> string option handler" where
  "updateSignature uid url =
     bind_act (own_seller uid) (\<lambda>s1.
     bind_act (update_seller (s_id s1) (\<lambda>s2. s2\<lparr>s_signatureUrl := dflt (s_signatureUrl s2) url\<rparr>))
       (\<lambda>s2. ret (s_signatureUrl s2)))"

section \<open>Pickup address\<close>

definition getPickupAddress :: "string \<Rightarrow> pickup_shown option handler" where
  "getPickupAddress uid =
     bind_act (own_seller uid) (\<lambda>_. reads (\<lambda>w. map_option pickup_view (newest_pickup w uid)))"

record pickup_update =
  pu_line1 :: string
  pu_line2 :: "string option"
  pu_city :: string
  pu_state :: string
  pu_zip :: string
  pu_country :: "string option"

definition pickup_update_valid :: "pickup_update \<Rightarrow> bool" where
  "pickup_update_valid d \<longleftrightarrow> length (pu_line1 d) \<le> 350 \<and> opt_valid (\<lambda>s. length s \<le> 350) (pu_line2 d) \<and>
     length (pu_city d) \<le> 120 \<and> length (pu_state d) \<le> 120 \<and> length (pu_zip d) \<le> 20 \<and>
     opt_valid (\<lambda>s. length s \<le> 2) (pu_country d)"

definition set_pickup :: "pickup_update \<Rightarrow> address_row \<Rightarrow> address_row" where
  "set_pickup d a = a\<lparr>
     a_line1 := trim (pu_line1 d), a_line2 := nonempty (opt_trim (pu_line2 d)), a_city := trim (pu_city d),
     a_state := trim (pu_state d), a_zip := trim (pu_zip d),
     a_country := str_or (opt_trim (pu_country d)) ''IN'', a_isDefault := True\<rparr>"

definition new_pickup :: "string \<Rightarrow> string \<Rightarrow> int \<Rightarrow> address_row" where
  "new_pickup aid uid now =
     \<lparr> a_id = aid, a_userId = uid, a_type = PICKUP, a_line1 = [], a_line2 = None, a_city = [],
       a_state = [], a_zip = [], a_country = ''IN'', a_contactName = None, a_phone = None,
       a_createdAt = now, a_isDefault = True, a_latitude = None, a_longitude = None \<rparr>"

definition put_address :: "address_row \<Rightarrow> world \<Rightarrow> world" where
  "put_address a w = w\<lparr>addresses := tput (a_id a) a (addresses w)\<rparr>"

definition legacy_address :: "address_row \<Rightarrow> string" where
  "legacy_address a =
     a_line1 a @ (case nonempty (a_line2 a) of None \<Rightarrow> [] | Some l \<Rightarrow> '', '' @ l) @ '', '' @ a_city a @ '', '' @
     a_state a @ '' '' @ a_zip a"

definition updatePickupAddress :: "string \<Rightarrow> pickup_update \<Rightarrow> string \<Rightarrow> pickup_shown handler" where
  "updatePickupAddress uid d aid =
     bind_act (own_seller uid) (\<lambda>s1.
     bind_act (reads (\<lambda>w. newest_pickup w uid)) (\<lambda>existing.
     bind_act (reads clock) (\<lambda>now.
     let row = (case existing of Some a \<Rightarrow> set_pickup d a | None \<Rightarrow> set_pickup d (new_pickup aid uid now))
     in seq_act
          (case existing of Some _ \<Rightarrow> writes (put_address row)
           | None \<Rightarrow> db_create (\<lambda>w. tget (addresses w) aid \<noteq> None) (put_address row))
        (bind_act (update_seller (s_id s1) (\<lambda>s2. s2\<lparr>s_businessAddress := Some (legacy_address row)\<rparr>)) (\<lambda>_.
         ret (pickup_view row))))))"

section \<open>Dashboard\<close>

record local_calendar =
  lc_dayStart :: "int \<Rightarrow> nat \<Rightarrow> int" \<comment> \<open>\<open>new Date(y, m, d - k)\<close> of an instant's local date\<close>
  lc_dayLabel :: "int \<Rightarrow> string" \<comment> \<open>\<open>toLocaleDateString('en-IN', { day: 'numeric', month: 'short' })\<close>\<close>

definition seller_sales :: "world \<Rightarrow> string \<Rightarrow> int \<Rightarrow> int \<Rightarrow> order_row list" where
  "seller_sales w sid lo hi =
     filter (\<lambda>o1. order_has_seller w o1 sid \<and> o_status o1 \<in> {PAID, SHIPPED, DELIVERED} \<and>
       lo \<le> o_createdAt o1 \<and> o_createdAt o1 < hi) (trows (orders w))"

text \<open>\<open>_sum.totalAmount ?? 0\<close>\<close>

definition amount_sum :: "order_row list \<Rightarrow> num" where
  "amount_sum os = foldl (\<lambda>t o1. nadd t (o_totalAmount o1)) 0 os"

definition GRACE_MS :: int where "GRACE_MS = 4 * MS_PER_HOUR"

definition getUpcomingScheduledStreams :: "string \<Rightarrow> stream_row list handler" where
  "getUpcomingScheduledStreams sid =
     reads (\<lambda>w. sort_key (\<lambda>st. dflt 0 (st_startedAt st))
       (filter (\<lambda>st. st_sellerId st = sid \<and> st_endedAt st = None \<and> \<not> st_isLive st \<and>
          (case st_startedAt st of None \<Rightarrow> False | Some t \<Rightarrow> clock w - GRACE_MS \<le> t)) (trows (streams w))))"

text \<open>In descending order the database puts a missing start first.\<close>

definition getActiveLiveStream :: "string \<Rightarrow> stream_row option handler" where
  "getActiveLiveStream sid =
     reads (\<lambda>w. let live = filter (\<lambda>st. st_sellerId st = sid \<and> st_endedAt st = None \<and> st_isLive st) (trows (streams w))
       in case filter (\<lambda>st. st_startedAt st = None) live @
            newest_first (\<lambda>st. dflt 0 (st_startedAt st)) (filter (\<lambda>st. st_startedAt st \<noteq> None) live) of
            [] \<Rightarrow> None | st # _ \<Rightarrow> Some st)"

record live_session =
  ls_id :: string
  ls_title :: string
  ls_description :: "string option"
  ls_isLive :: bool
  ls_startedAt :: "int option"
  ls_endedAt :: "int option"
  ls_thumbnailUrl :: "string option"

definition mapSession :: "stream_row \<Rightarrow> live_session" where
  "mapSession st = \<lparr> ls_id = st_id st, ls_title = st_title st, ls_description = st_description st,
     ls_isLive = st_isLive st, ls_startedAt = st_startedAt st, ls_endedAt = st_endedAt st,
     ls_thumbnailUrl = st_thumbnailUrl st \<rparr>"

text \<open>Seven days, the oldest first: label, revenue and number of orders.\<close>

definition getLast7DaysChartSeries ::
    "local_calendar \<Rightarrow> string \<Rightarrow> ((string \<times> num) list \<times> (string \<times> nat) list) handler" where
  "getLast7DaysChartSeries lc sid =
     reads (\<lambda>w. let days = map (\<lambda>k. lc_dayStart lc (clock w) k) [6, 5, 4, 3, 2, 1, 0];
                     sales = (\<lambda>lo. seller_sales w sid lo (lo + MS_PER_DAY))
       in (map (\<lambda>lo. (lc_dayLabel lc lo, amount_sum (sales lo))) days,
           map (\<lambda>lo. (lc_dayLabel lc lo, length (sales lo))) days))"

record dashboard =
  da_productCount :: nat
  da_todayRevenue :: num
  da_todayOrders :: nat
  da_totalOrders :: nat
  da_followers :: nat
  da_liveReward :: live_reward_status
  da_revenueLast7Days :: "(string \<times> num) list"
  da_ordersLast7Days :: "(string \<times> nat) list"
  da_scheduledLiveSessions :: "live_session list"
  da_activeLiveSession :: "live_session option"
  da_nextLiveSession :: "live_session option"

definition getDashboardStats :: "string \<Rightarrow> nat handler" where
  "getDashboardStats sid = reads (\<lambda>w. tcount (\<lambda>p. p_sellerId p = sid) (products w))"

definition getMyDashboardStats :: "(int \<Rightarrow> int) \<Rightarrow> local_calendar \<Rightarrow> string \<Rightarrow> dashboard handler" where
  "getMyDashboardStats db_date lc uid =
     bind_act (own_seller uid) (\<lambda>s1.
     bind_act (reads (\<lambda>w. let lo = lc_dayStart lc (clock w) 0 in seller_sales w (s_id s1) lo (lo + MS_PER_DAY))) (\<lambda>today.
     bind_act (reads (\<lambda>w. tcount (\<lambda>o1. order_has_seller w o1 (s_id s1)) (orders w))) (\<lambda>total_orders.
     bind_act (getUpcomingScheduledStreams (s_id s1)) (\<lambda>upcoming.
     bind_act (getActiveLiveStream (s_id s1)) (\<lambda>liveNow.
     bind_act (getDashboardStats (s_id s1)) (\<lambda>productCount.
     bind_act (getLast7DaysChartSeries lc (s_id s1)) (\<lambda>(revenue, counts).
     bind_act (reads (\<lambda>w. follower_count w (s_id s1))) (\<lambda>followers.
     bind_act (getLiveRewardStatus db_date (s_id s1)) (\<lambda>reward.
     ret \<lparr> da_productCount = productCount, da_todayRevenue = amount_sum today,
           da_todayOrders = length today, da_totalOrders = total_orders, da_followers = followers,
           da_liveReward = reward, da_revenueLast7Days = revenue, da_ordersLast7Days = counts,
           da_scheduledLiveSessions = map mapSession upcoming,
           da_activeLiveSession = map_option mapSession liveNow,
           da_nextLiveSession = (case upcoming of [] \<Rightarrow> None | st # _ \<Rightarrow> Some (mapSession st)) \<rparr>)))))))))"

definition change_percent :: "num \<Rightarrow> num \<Rightarrow> num" where
  "change_percent today yesterday =
     (let c = (if 0 < yesterday then nmul (ndiv (nsub today yesterday) yesterday) 100
               else if 0 < today then 100 else 0)
      in ndiv (of_int (math_round (nmul c 10))) 10)"

definition getRevenueToday :: "local_calendar \<Rightarrow> string \<Rightarrow> (num \<times> num) handler" where
  "getRevenueToday lc uid =
     bind_act (own_seller uid) (\<lambda>s1.
     reads (\<lambda>w. let lo = lc_dayStart lc (clock w) 0;
                     today = amount_sum (seller_sales w (s_id s1) lo (lo + MS_PER_DAY));
                     yesterday = amount_sum (seller_sales w (s_id s1) (lo - MS_PER_DAY) lo)
       in (today, change_percent today yesterday)))"

section \<open>Pricing preview\<close>

record pricing_query =
  pq_customerPrice :: num
  pq_gstPercent :: "num option"
  pq_logisticsBase :: "num option"

text \<open>A configured base that is no number makes the amounts \<open>NaN\<close>: the preview is then \<open>None\<close>.\<close>

definition logistics_base :: "(string \<Rightarrow> string option) \<Rightarrow> pricing_query \<Rightarrow> num option" where
  "logistics_base cfg q =
     (case pq_logisticsBase q of
        Some b \<Rightarrow> Some b
      | None \<Rightarrow> case cfg ''LOGISTICS_BASE_INR'' of None \<Rightarrow> Some 75 | Some s \<Rightarrow> js_Number_opt (Some (JStr s)))"

definition getPricingPreview ::
    "(string \<Rightarrow> string option) \<Rightarrow> string \<Rightarrow> pricing_query \<Rightarrow> (payout option \<times> num option) handler" where
  "getPricingPreview cfg uid q =
     bind_act (own_seller uid) (\<lambda>s1.
     ret (map_option (\<lambda>b. calculateSellerPayout (pq_customerPrice q) (s_commissionWaiverActive s1)
            (DEFAULT_PAYOUT_CONFIG\<lparr>pc_logisticsBaseInr := b\<rparr>)) (logistics_base cfg q),
          pq_gstPercent q))"

end
