(* ===== verification/SellerProperties.thy ===== *)
theory SellerProperties
  imports SellerDesk Sample
begin

text \<open>
  The requests on sellers as operations, and the state machine of their verification: which request may
  move which seller's status where. The witnesses run on the shop of \<open>Sample\<close>.
\<close>

section \<open>Requests\<close>

record seller_env =
  sv_date :: "int \<Rightarrow> int"
  sv_push :: push_env
  sv_storage :: supabase

datatype seller_op =
    Approve string
  | Reject string string
  | RequestChanges changes_input
  | Resubmit string
  | Reregister string
  | UpdateProfile string profile_dto
  | UpdateBank string bank_dto
  | GetStore string
  | UpdateStore string store_dto
  | UploadImage string "image_file option" store_image
  | UpdateSignature string "string option option"
  | UpdatePickup string pickup_update string

definition ignoring :: "'a handler \<Rightarrow> unit handler" where
  "ignoring m = bind_act m (\<lambda>_. ret ())"

fun run_seller_op :: "seller_env \<Rightarrow> seller_op \<Rightarrow> unit handler" where
  "run_seller_op env (Approve sid) = ignoring (approve (sv_push env) sid)"
| "run_seller_op env (Reject sid reason) = ignoring (reject (sv_push env) sid reason)"
| "run_seller_op env (RequestChanges d) = ignoring (requestChanges (sv_date env) (sv_push env) d)"
| "run_seller_op env (Resubmit uid) = ignoring (resubmitForReview uid)"
| "run_seller_op env (Reregister sid) = ignoring (reregisterSeller (sv_date env) sid)"
| "run_seller_op env (UpdateProfile uid d) = ignoring (updateProfile uid d)"
| "run_seller_op env (UpdateBank uid d) = ignoring (updateBankDetails uid d)"
| "run_seller_op env (GetStore uid) = ignoring (getStoreDetails uid)"
| "run_seller_op env (UpdateStore uid d) = ignoring (updateStoreDetails uid d)"
| "run_seller_op env (UploadImage uid file kind) = ignoring (saveStoreImage (sv_storage env) uid file kind)"
| "run_seller_op env (UpdateSignature uid url) = ignoring (updateSignature uid url)"
| "run_seller_op env (UpdatePickup uid d aid) = ignoring (updatePickupAddress uid d aid)"

definition run_seller_ops :: "seller_env \<Rightarrow> seller_op list \<Rightarrow> world \<Rightarrow> world" where
  "run_seller_ops env ops w = fold (\<lambda>op w. snd (run_seller_op env op w)) ops w"

text \<open>The edges: an administrator's request names the seller, a resubmission comes from its user.\<close>

fun seller_edge :: "seller_op \<Rightarrow> world \<Rightarrow> seller_row \<Rightarrow> verification_status \<Rightarrow> bool" where
  "seller_edge (Approve sid) w s1 v \<longleftrightarrow> s_id s1 = sid \<and> s_status s1 \<noteq> VS_VERIFIED \<and> v = VS_VERIFIED"
| "seller_edge (Reject sid reason) w s1 v \<longleftrightarrow> s_id s1 = sid \<and> s_status s1 \<noteq> VS_REJECTED \<and> v = VS_REJECTED"
| "seller_edge (RequestChanges d) w s1 v \<longleftrightarrow>
     s_id s1 = ci_sellerId d \<and> s_status s1 \<noteq> VS_REJECTED \<and> v = VS_NEEDS_CHANGES"
| "seller_edge (Resubmit uid) w s1 v \<longleftrightarrow>
     s_userId s1 = uid \<and> s_status s1 = VS_NEEDS_CHANGES \<and> missing_fields w s1 = [] \<and> v = VS_PENDING"
| "seller_edge (Reregister sid) w s1 v \<longleftrightarrow> s_id s1 = sid \<and> v = VS_PENDING"
| "seller_edge _ w s1 v \<longleftrightarrow> False"

section \<open>What an update keeps\<close>

definition sellers_keyed :: "world \<Rightarrow> bool" where
  "sellers_keyed w \<longleftrightarrow> twf (sellers w) \<and> (\<forall>k s1. tget (sellers w) k = Some s1 \<longrightarrow> s_id s1 = k)"

definition seller_ident :: "seller_row \<Rightarrow> string \<times> string \<times> verification_status" where
  "seller_ident s1 = (s_id s1, s_userId s1, s_status s1)"

definition idents :: "world \<Rightarrow> string \<Rightarrow> (string \<times> string \<times> verification_status) option" where
  "idents w k = map_option seller_ident (tget (sellers w) k)"

definition review_step :: "seller_op \<Rightarrow> world \<Rightarrow> exn + 'a \<Rightarrow> world \<Rightarrow> bool" where
  "review_step op w r w' \<longleftrightarrow> sellers_keyed w' \<and> (isl r \<longrightarrow> w' = w) \<and>
     (\<forall>k. idents w' k = idents w k \<or>
        (\<exists>s1 v. tget (sellers w) k = Some s1 \<and> seller_edge op w s1 v \<and>
           idents w' k = Some (s_id s1, s_userId s1, v)))"

lemma sellers_keyedD:
  "sellers_keyed w \<Longrightarrow> seller_of_user w uid = Some s1 \<Longrightarrow> tget (sellers w) (s_id s1) = Some s1 \<and> s_userId s1 = uid"
proof -
  assume k: "sellers_keyed w" and "seller_of_user w uid = Some s1"
  then have s1: "s1 \<in> set (trows (sellers w)) \<and> s_userId s1 = uid" unfolding seller_of_user_def by (blast dest: tfirst_Some)
  then obtain j where j: "tget (sellers w) j = Some s1" using k by (auto simp: sellers_keyed_def dest: in_rows_tget)
  then have "s_id s1 = j" using k by (simp add: sellers_keyed_def)
  then show ?thesis using j s1 by simp
qed

lemma keyed_upd:
  assumes "sellers_keyed w" "\<And>s1. s_id (f s1) = s_id s1"
  shows "sellers_keyed (upd_seller sid f w)"
  using assms by (auto simp: sellers_keyed_def upd_seller_def)

lemma own_seller_upd:
  assumes "sellers_keyed w" "seller_of_user w uid = Some s1" "\<And>s1. s_userId (f s1) = s_userId s1"
  shows "seller_of_user (upd_seller (s_id s1) f w) uid \<noteq> None"
proof -
  have "tget (sellers (upd_seller (s_id s1) f w)) (s_id s1) = Some (f s1)"
    using sellers_keyedD[OF assms(1,2)] by (simp add: upd_seller_def)
  then have "f s1 \<in> set (trows (sellers (upd_seller (s_id s1) f w)))" by (rule tget_in_rows)
  moreover have "s_userId (f s1) = uid" using sellers_keyedD[OF assms(1,2)] assms(3) by simp
  ultimately show ?thesis unfolding seller_of_user_def tfirst_None by blast
qed

lemma idents_upd: "(\<And>s1. seller_ident (f s1) = seller_ident s1) \<Longrightarrow> idents (upd_seller sid f w) = idents w"
  by (rule ext) (auto simp: idents_def upd_seller_def option.map_comp comp_def)

lemma step_refl: "sellers_keyed w \<Longrightarrow> review_step op w r w"
  by (simp add: review_step_def)

lemma step_quiet:
  assumes "sellers_keyed w" "\<And>s1. seller_ident (f s1) = seller_ident s1"
  shows "review_step op w (Inr x) (upd_seller sid f w)"
proof -
  have "s_id (f s1) = s_id s1" for s1 using assms(2)[of s1] by (simp add: seller_ident_def)
  then show ?thesis using assms by (simp add: review_step_def keyed_upd idents_upd)
qed

lemma step_edge:
  assumes "sellers_keyed w" "tget (sellers w) sid = Some s1" "\<And>s1. s_id (f s1) = s_id s1"
    "s_userId (f s1) = s_userId s1" "seller_edge op w s1 (s_status (f s1))"
  shows "review_step op w (Inr x) (upd_seller sid f w)"
proof -
  have k: "sellers_keyed (upd_seller sid f w)" using assms(1,3) by (rule keyed_upd)
  have "idents (upd_seller sid f w) k = idents w k" if "k \<noteq> sid" for k
    using that by (simp add: idents_def upd_seller_def)
  moreover have "idents (upd_seller sid f w) sid = Some (s_id s1, s_userId s1, s_status (f s1))"
    using assms(2-4) by (simp add: idents_def upd_seller_def seller_ident_def)
  ultimately have "idents (upd_seller sid f w) k = idents w k \<or>
      (\<exists>s1 v. tget (sellers w) k = Some s1 \<and> seller_edge op w s1 v \<and>
        idents (upd_seller sid f w) k = Some (s_id s1, s_userId s1, v))" for k
    using assms(2,5) by (cases "k = sid") blast+
  then show ?thesis using k by (simp add: review_step_def)
qed

text \<open>Writes to other tables do not matter.\<close>

lemma step_frame:
  assumes "review_step op w r w1" "sellers w2 = sellers w1"
  shows "review_step op w (Inr x) w2"
  using assms by (simp add: review_step_def sellers_keyed_def idents_def)

lemma keyed_frame: "sellers w2 = sellers w1 \<Longrightarrow> sellers_keyed w1 \<Longrightarrow> sellers_keyed w2"
  by (simp add: sellers_keyed_def)

section \<open>The operations\<close>

lemma wp_ignoring [wp_simps]:
  "wp (ignoring m) Q w = wp m (\<lambda>r w'. case r of Inl e \<Rightarrow> Q (Inl e) w' | Inr x \<Rightarrow> Q (Inr ()) w') w"
  unfolding ignoring_def wp_bind wp_ret by (intro arg_cong[of _ _ "\<lambda>q. wp m q w"] ext) (auto simp: on_ok_def split: sum.split)

lemma ignored:
  "wp m (\<lambda>r w'. review_step op w r w') w \<Longrightarrow> wp (ignoring m) (\<lambda>r w'. review_step op w r w') w"
  unfolding wp_ignoring by (erule wp_mono) (auto simp: review_step_def split: sum.split)

lemma tput_twice: "tput k x (tput k y t) = tput k x t"
  by (simp add: tput_def)

lemma step_edge_frame:
  assumes "sellers_keyed w" "tget (sellers w) sid = Some s1" "\<And>s1. s_id (f s1) = s_id s1"
    "s_userId (f s1) = s_userId s1" "seller_edge op w s1 (s_status (f s1))" "sellers w' = tupd sid f (sellers w)"
  shows "review_step op w (Inr x) w'"
  using step_frame[OF step_edge[OF assms(1-5)]] assms(6) by (simp add: upd_seller_def)

lemma step_approve:
  assumes "sellers_keyed w"
  shows "wp (approve pv sid) (\<lambda>r w'. review_step (Approve sid) w r w') w"
proof (cases "tget (sellers w) sid")
  case (Some s1)
  have i: "s_id s1 = sid" using assms Some by (auto simp: sellers_keyed_def)
  show ?thesis
  proof (cases "s_status s1 = VS_VERIFIED")
    case False
    note e = step_edge_frame[OF assms Some, of "\<lambda>s1. s1\<lparr>s_status := VS_VERIFIED, s_rejectionReason := None\<rparr>" "Approve sid"]
    have "s_status s1 = VS_PENDING \<or> s_status s1 = VS_REJECTED \<or> s_status s1 = VS_NEEDS_CHANGES"
      using False by (cases "s_status s1") simp_all
    then show ?thesis using Some False
      by (auto simp: approve_def wp_simps upd_seller_def i intro!: wp_push_to_seller e)
  qed (simp add: approve_def wp_simps Some step_refl assms)
qed (simp add: approve_def wp_simps step_refl assms)

lemma step_reject:
  assumes "sellers_keyed w"
  shows "wp (reject pv sid reason) (\<lambda>r w'. review_step (Reject sid reason) w r w') w"
proof (cases "tget (sellers w) sid")
  case (Some s1)
  have i: "s_id s1 = sid" using assms Some by (auto simp: sellers_keyed_def)
  show ?thesis
  proof (cases "s_status s1 = VS_REJECTED")
    case False
    note e = step_edge_frame[OF assms Some, of "\<lambda>s1. s1\<lparr>s_status := VS_REJECTED,
        s_rejectionReason := Some (str_or (Some reason) ''Not approved'')\<rparr>" "Reject sid reason"]
    have "s_status s1 = VS_PENDING \<or> s_status s1 = VS_VERIFIED \<or> s_status s1 = VS_NEEDS_CHANGES"
      using False by (cases "s_status s1") simp_all
    then show ?thesis using Some False
      by (auto simp: reject_def wp_simps upd_seller_def i intro!: wp_push_to_seller e)
  qed (simp add: reject_def wp_simps Some step_refl assms)
qed (simp add: reject_def wp_simps step_refl assms)

lemma step_requestChanges:
  assumes "sellers_keyed w"
  shows "wp (requestChanges db pv d) (\<lambda>r w'. review_step (RequestChanges d) w r w') w"
proof (cases "tget (sellers w) (ci_sellerId d)")
  case (Some s1)
  have i: "s_id s1 = ci_sellerId d" using assms Some by (auto simp: sellers_keyed_def)
  show ?thesis
  proof (cases "s_status s1 = VS_REJECTED")
    case False
    note e = step_edge_frame[OF assms Some, of "\<lambda>s1. s1\<lparr>s_status := VS_NEEDS_CHANGES\<rparr>" "RequestChanges d"]
    have "s_status s1 = VS_PENDING \<or> s_status s1 = VS_VERIFIED \<or> s_status s1 = VS_NEEDS_CHANGES"
      using False by (cases "s_status s1") simp_all
    then show ?thesis using Some False
      by (auto simp: requestChanges_def wp_simps upd_seller_def i
          intro!: wp_push_to_seller wp_findOneSellerForAdmin e)
  qed (simp add: requestChanges_def wp_simps Some step_refl assms)
qed (simp add: requestChanges_def wp_simps step_refl assms)

lemma step_resubmit:
  assumes "sellers_keyed w"
  shows "wp (resubmitForReview uid) (\<lambda>r w'. review_step (Resubmit uid) w r w') w"
proof (cases "seller_of_user w uid")
  case (Some s1)
  note k = sellers_keyedD[OF assms Some]
  have u: "s_userId s1 = uid" using k by (rule conjunct2)
  note e = step_edge[OF assms conjunct1[OF k], of "\<lambda>s1. s1\<lparr>s_status := VS_PENDING, s_rejectionReason := None\<rparr>" "Resubmit uid"]
  show ?thesis
    by (cases "s_status s1 = VS_NEEDS_CHANGES"; cases "missing_fields w s1 = []")
      (auto simp: resubmitForReview_def wp_simps Some step_refl assms conjunct1[OF k] u intro!: e)
qed (simp add: resubmitForReview_def wp_simps step_refl assms)

lemma step_reregister:
  assumes "sellers_keyed w"
  shows "wp (reregisterSeller db sid) (\<lambda>r w'. review_step (Reregister sid) w r w') w"
proof (cases "tget (sellers w) sid")
  case (Some s1)
  let ?c = "\<lambda>s1. s1\<lparr>s_categories := []\<rparr>"
  have i: "s_id s1 = sid" using assms Some by (auto simp: sellers_keyed_def)
  have "tupd sid blank_registration (tupd sid ?c (sellers w)) = tupd sid (\<lambda>s1. blank_registration (?c s1)) (sellers w)"
    using Some by (simp add: tupd_def tput_twice)
  note t = this
  note e = step_edge_frame[OF assms Some, of "\<lambda>s1. blank_registration (?c s1)" "Reregister sid"]
  show ?thesis using Some
    by (auto simp: reregisterSeller_def wp_simps upd_seller_def t i intro!: wp_findOneSellerForAdmin e)
      (simp_all add: blank_registration_def i)
qed (simp add: reregisterSeller_def wp_simps step_refl assms)

text \<open>An update of the seller's own row that leaves its identity and its status.\<close>

lemma step_own_update:
  assumes "sellers_keyed w" "\<And>s1. seller_ident (f s1) = seller_ident s1"
    and "\<And>x v Q. wp (g x) Q v = Q (Inr (h x v)) v"
  shows "wp (bind_act (own_seller uid) (\<lambda>s1. bind_act (update_seller (s_id s1) f) g))
    (\<lambda>r w'. review_step op w r w') w"
proof (cases "seller_of_user w uid")
  case (Some s1)
  show ?thesis
    using conjunct1[OF sellers_keyedD[OF assms(1) Some]] step_quiet[OF assms(1,2)]
    by (simp add: wp_simps Some assms(3))
qed (simp add: wp_simps step_refl assms(1))

lemma ident_updates:
  "seller_ident (apply_profile d1 s1) = seller_ident s1" "seller_ident (apply_bank d2 s1) = seller_ident s1"
  "seller_ident (apply_store d3 s1) = seller_ident s1" "seller_ident (set_image kind url s1) = seller_ident s1"
  "seller_ident (s1\<lparr>s_signatureUrl := x\<rparr>) = seller_ident s1"
  "seller_ident (s1\<lparr>s_businessAddress := x\<rparr>) = seller_ident s1"
  "seller_ident (s1\<lparr>s_primaryCategoryId := x\<rparr>) = seller_ident s1"
  by (simp_all add: seller_ident_def apply_profile_def apply_bank_def apply_store_def set_image_def
      split: store_image.split)

lemma step_profile: "sellers_keyed w \<Longrightarrow> wp (updateProfile uid d) (\<lambda>r w'. review_step op w r w') w"
  unfolding updateProfile_def by (rule step_own_update) (simp_all add: ident_updates wp_simps)

lemma step_bank: "sellers_keyed w \<Longrightarrow> wp (updateBankDetails uid d) (\<lambda>r w'. review_step op w r w') w"
  unfolding updateBankDetails_def by (rule step_own_update) (simp_all add: ident_updates wp_simps)

lemma step_signature: "sellers_keyed w \<Longrightarrow> wp (updateSignature uid url) (\<lambda>r w'. review_step op w r w') w"
  unfolding updateSignature_def by (rule step_own_update) (simp_all add: ident_updates wp_simps)

lemma step_image:
  assumes "sellers_keyed w"
  shows "wp (saveStoreImage sb uid file kind) (\<lambda>r w'. review_step op w r w') w"
proof (cases "seller_of_user w uid")
  case (Some s1)
  have q: "review_step op w (Inr x) (upd_seller (s_id s1) (set_image kind url) w)" for x :: string and url
    by (rule step_quiet[OF assms]) (simp add: ident_updates)
  show ?thesis
    using conjunct1[OF sellers_keyedD[OF assms Some]]
    by (auto simp: saveStoreImage_def wp_simps step_refl assms Let_def Some q on_ok_def
        split: option.split sum.split)
qed (auto simp: saveStoreImage_def wp_simps step_refl assms split: option.split)

lemma step_pickup:
  assumes "sellers_keyed w"
  shows "wp (updatePickupAddress uid d aid) (\<lambda>r w'. review_step op w r w') w"
proof (cases "seller_of_user w uid")
  case (Some s1)
  have q: "review_step op w (Inr x) (upd_seller (s_id s1) (\<lambda>s2. s2\<lparr>s_businessAddress := b\<rparr>) (put_address a w))"
    for x :: pickup_shown and a b
    by (rule step_frame[OF step_quiet[OF assms, of "\<lambda>s2. s2\<lparr>s_businessAddress := b\<rparr>" op undefined "s_id s1"]])
      (simp_all add: ident_updates upd_seller_def put_address_def)
  have "tget (sellers (put_address a w)) (s_id s1) = Some s1" for a
    using sellers_keyedD[OF assms Some] by (simp add: put_address_def)
  then show ?thesis
    by (cases "newest_pickup w uid") (simp_all add: updatePickupAddress_def wp_simps step_refl assms Let_def Some q)
qed (simp add: updatePickupAddress_def wp_simps step_refl assms)

text \<open>Reading the store details may fill in the primary category.\<close>

lemma step_getStore_after:
  assumes "review_step op w (Inr ()) w1" "seller_of_user w1 uid \<noteq> None"
  shows "wp (getStoreDetails uid) (\<lambda>r w'. review_step op w r w') w1"
proof -
  obtain s1 where s1: "seller_of_user w1 uid = Some s1" using assms(2) by auto
  have k: "sellers_keyed w1" using assms(1) by (simp add: review_step_def)
  have "review_step op w (Inr x) (upd_seller (s_id s1) (\<lambda>s2. s2\<lparr>s_primaryCategoryId := c\<rparr>) w1)"
    for x :: store_details and c
    using assms(1) keyed_upd[OF k, of "\<lambda>s2. s2\<lparr>s_primaryCategoryId := c\<rparr>"]
      idents_upd[of "\<lambda>s2. s2\<lparr>s_primaryCategoryId := c\<rparr>" "s_id s1" w1]
    by (simp add: review_step_def ident_updates)
  moreover have "review_step op w (Inr x) w1" for x :: store_details using assms(1) refl by (rule step_frame)
  ultimately show ?thesis
    using conjunct1[OF sellers_keyedD[OF k s1]]
    by (cases "s_categories s1") (simp_all add: getStoreDetails_def fill_primary_def wp_simps s1)
qed

lemma step_getStore:
  assumes "sellers_keyed w"
  shows "wp (getStoreDetails uid) (\<lambda>r w'. review_step op w r w') w"
proof (cases "seller_of_user w uid")
  case None
  then show ?thesis by (simp add: getStoreDetails_def wp_simps step_refl assms)
next
  case Some
  then show ?thesis using step_getStore_after[OF step_refl[OF assms]] by simp
qed

lemma step_store:
  assumes "sellers_keyed w"
  shows "wp (updateStoreDetails uid d) (\<lambda>r w'. review_step op w r w') w"
proof (cases "seller_of_user w uid")
  case (Some s1)
  have "review_step op w (Inr ()) (upd_seller (s_id s1) (apply_store d) w)"
    by (rule step_quiet[OF assms]) (simp add: ident_updates)
  moreover have "seller_of_user (upd_seller (s_id s1) (apply_store d) w) uid \<noteq> None"
    by (rule own_seller_upd[OF assms Some]) (simp add: apply_store_def)
  ultimately have "wp (getStoreDetails uid) (\<lambda>r w'. review_step op w r w') (upd_seller (s_id s1) (apply_store d) w)"
    by (rule step_getStore_after)
  then show ?thesis
    using conjunct1[OF sellers_keyedD[OF assms Some]]
    by (cases "store_refusal w d") (simp_all add: updateStoreDetails_def wp_simps step_refl assms Some)
qed (simp add: updateStoreDetails_def wp_simps step_refl assms)

lemma run_seller_op_step: "sellers_keyed w \<Longrightarrow> wp (run_seller_op env op) (\<lambda>r w'. review_step op w r w') w"
  by (cases op) (auto intro!: ignored step_approve step_reject step_requestChanges step_resubmit step_reregister
      step_profile step_bank step_signature step_image step_pickup step_getStore step_store)

section \<open>The state machine\<close>

text \<open>The seller a review request is about.\<close>

fun review_target :: "seller_op \<Rightarrow> world \<Rightarrow> seller_row option" where
  "review_target (Approve sid) w = tget (sellers w) sid"
| "review_target (Reject sid reason) w = tget (sellers w) sid"
| "review_target (RequestChanges d) w = tget (sellers w) (ci_sellerId d)"
| "review_target (Resubmit uid) w = seller_of_user w uid"
| "review_target (Reregister sid) w = tget (sellers w) sid"
| "review_target _ w = None"

definition review_answer :: "seller_op \<Rightarrow> world \<Rightarrow> seller_row \<Rightarrow> exn + 'a \<Rightarrow> world \<Rightarrow> bool" where
  "review_answer op w s1 r w' \<longleftrightarrow>
     (if \<exists>v. seller_edge op w s1 v
      then \<not> isl r \<and> (\<exists>s2. tget (sellers w') (s_id s1) = Some s2 \<and> seller_edge op w s1 (s_status s2))
      else isl r)"

lemma answer_ignored:
  "wp m (\<lambda>r w'. review_answer op w s1 r w') w \<Longrightarrow> wp (ignoring m) (\<lambda>r w'. review_answer op w s1 r w') w"
  unfolding wp_ignoring
  by (erule wp_mono, cases "\<exists>v. seller_edge op w s1 v") (auto simp: review_answer_def split: sum.split)

lemma answer_ok:
  "case tget (sellers w') (s_id s1) of None \<Rightarrow> False | Some s2 \<Rightarrow> seller_edge op w s1 (s_status s2) \<Longrightarrow>
   review_answer op w s1 (Inr x) w'"
  by (auto simp: review_answer_def split: option.splits)

lemma answer_refused: "\<forall>v. \<not> seller_edge op w s1 v \<Longrightarrow> review_answer op w s1 (Inl e) w'"
  by (simp add: review_answer_def)

lemma review_answered:
  assumes "sellers_keyed w" "review_target op w = Some s1"
  shows "wp (run_seller_op env op) (\<lambda>r w'. review_answer op w s1 r w') w"
proof (cases op)
  case (Approve sid)
  then have t: "tget (sellers w) sid = Some s1" "s_id s1 = sid" using assms by (auto simp: sellers_keyed_def)
  show ?thesis unfolding Approve run_seller_op.simps
    by (rule answer_ignored, cases "s_status s1")
      (auto simp: approve_def wp_simps t upd_seller_def intro!: wp_push_to_seller answer_refused answer_ok)
next
  case (Reject sid reason)
  then have t: "tget (sellers w) sid = Some s1" "s_id s1 = sid" using assms by (auto simp: sellers_keyed_def)
  show ?thesis unfolding Reject run_seller_op.simps
    by (rule answer_ignored, cases "s_status s1")
      (auto simp: reject_def wp_simps t upd_seller_def intro!: wp_push_to_seller answer_refused answer_ok)
next
  case (RequestChanges d)
  then have t: "tget (sellers w) (ci_sellerId d) = Some s1" "s_id s1 = ci_sellerId d"
    using assms by (auto simp: sellers_keyed_def)
  show ?thesis unfolding RequestChanges run_seller_op.simps
    by (rule answer_ignored, cases "s_status s1")
      (auto simp: requestChanges_def wp_simps t upd_seller_def
        intro!: wp_push_to_seller wp_findOneSellerForAdmin answer_refused answer_ok)
next
  case (Resubmit uid)
  then have own: "seller_of_user w uid = Some s1" using assms(2) by simp
  have t: "tget (sellers w) (s_id s1) = Some s1" "s_userId s1 = uid" using sellers_keyedD[OF assms(1) own] by auto
  show ?thesis unfolding Resubmit run_seller_op.simps
    by (rule answer_ignored, cases "s_status s1 = VS_NEEDS_CHANGES"; cases "missing_fields w s1 = []")
      (auto simp: resubmitForReview_def wp_simps own t upd_seller_def intro!: answer_refused answer_ok)
next
  case (Reregister sid)
  then have t: "tget (sellers w) sid = Some s1" "s_id s1 = sid" using assms by (auto simp: sellers_keyed_def)
  show ?thesis unfolding Reregister run_seller_op.simps
    by (rule answer_ignored)
      (auto simp: reregisterSeller_def wp_simps t upd_seller_def blank_registration_def
        intro!: wp_findOneSellerForAdmin answer_ok)
qed (use assms in auto)

text \<open>Over a sequence of requests nobody is verified but by an approval.\<close>

lemma run_seller_ops_verified:
  assumes "sellers_keyed w" "idents w k = Some (i, u, v)"
    and "idents (run_seller_ops env ops w) k = Some (i', u', VS_VERIFIED)"
  shows "v = VS_VERIFIED \<or> Approve k \<in> set ops"
  using assms
proof (induction ops arbitrary: w v)
  case Nil
  then show ?case by (simp add: run_seller_ops_def)
next
  case (Cons op ops)
  obtain r w1 where run: "run_seller_op env op w = (r, w1)" by (cases "run_seller_op env op w")
  have step: "review_step op w r w1" using run_seller_op_step[OF Cons.prems(1), of env op] run by (simp add: wp_def)
  then have k1: "sellers_keyed w1" by (simp add: review_step_def)
  have end1: "idents (run_seller_ops env ops w1) k = Some (i', u', VS_VERIFIED)"
    using Cons.prems(3) run by (simp add: run_seller_ops_def)
  show ?case
  proof (cases "idents w1 k = idents w k")
    case True
    then show ?thesis using Cons.IH[OF k1 _ end1, of v] Cons.prems(2) by auto
  next
    case False
    then obtain s1 v1 where s1: "tget (sellers w) k = Some s1" "seller_edge op w s1 v1"
      "idents w1 k = Some (s_id s1, s_userId s1, v1)"
      using step unfolding review_step_def by blast
    have sid: "s_id s1 = k" using Cons.prems(1) s1(1) by (simp add: sellers_keyed_def)
    have "i = s_id s1" "u = s_userId s1" using Cons.prems(2) s1(1) by (simp_all add: idents_def seller_ident_def)
    then have "v1 = VS_VERIFIED \<or> Approve k \<in> set ops" using Cons.IH[OF k1 _ end1, of v1] s1(3) by simp
    moreover have "v1 = VS_VERIFIED \<Longrightarrow> op = Approve k" using s1(2) sid by (cases op) auto
    ultimately show ?thesis by auto
  qed
qed

text \<open>
  C16: The verification of a seller follows its state machine. A request that fails changes nothing. Whatever
  the request, every seller keeps its id, its user and its status, except that the seller a review names may
  move along the edge of that review: an approval verifies one that is not verified, a rejection rejects
  one that is not rejected, requested changes send back one that is not rejected, a reset starts again, and a
  resubmission returns to pending only from requested changes and with nothing missing. A review answers
  without an exception exactly when its edge is there. And after any sequence of requests nobody is
  verified who was not at the start, unless an approval names the seller.
\<close>

theorem verification_edges_followed:
  assumes "sellers_keyed w"
  shows "wp (run_seller_op env op) (\<lambda>r w'. (isl r \<longrightarrow> w' = w) \<and>
       (\<forall>k. idents w' k = idents w k \<or>
          (\<exists>s1 v. tget (sellers w) k = Some s1 \<and> seller_edge op w s1 v \<and>
             idents w' k = Some (s_id s1, s_userId s1, v))) \<and>
       (\<forall>s1. review_target op w = Some s1 \<longrightarrow> review_answer op w s1 r w')) w \<and>
     (\<forall>k s1 s2. tget (sellers w) k = Some s1 \<longrightarrow> tget (sellers (run_seller_ops env ops w)) k = Some s2 \<longrightarrow>
        s_status s2 = VS_VERIFIED \<longrightarrow> s_status s1 = VS_VERIFIED \<or> Approve k \<in> set ops)"
proof (intro conjI allI impI)
  have "wp (run_seller_op env op) (\<lambda>r w'. review_target op w = Some s1 \<longrightarrow> review_answer op w s1 r w') w" for s1
    by (cases "review_target op w = Some s1") (simp_all add: review_answered assms)
  note each = this
  have a: "wp (run_seller_op env op) (\<lambda>r w'. \<forall>s1. review_target op w = Some s1 \<longrightarrow> review_answer op w s1 r w') w"
    using each by (cases "run_seller_op env op w") (simp add: wp_def)
  have "wp (run_seller_op env op) (\<lambda>r w'. review_step op w r w' \<and>
      (\<forall>s1. review_target op w = Some s1 \<longrightarrow> review_answer op w s1 r w')) w"
    unfolding wp_conj using run_seller_op_step[OF assms] a by blast
  then show "wp (run_seller_op env op) (\<lambda>r w'. (isl r \<longrightarrow> w' = w) \<and>
       (\<forall>k. idents w' k = idents w k \<or>
          (\<exists>s1 v. tget (sellers w) k = Some s1 \<and> seller_edge op w s1 v \<and>
             idents w' k = Some (s_id s1, s_userId s1, v))) \<and>
       (\<forall>s1. review_target op w = Some s1 \<longrightarrow> review_answer op w s1 r w')) w"
    by (rule wp_mono) (simp add: review_step_def)
next
  fix k s1 s2
  assume s: "tget (sellers w) k = Some s1" "tget (sellers (run_seller_ops env ops w)) k = Some s2"
    "s_status s2 = VS_VERIFIED"
  then have "idents w k = Some (s_id s1, s_userId s1, s_status s1)"
    "idents (run_seller_ops env ops w) k = Some (s_id s2, s_userId s2, VS_VERIFIED)"
    by (simp_all add: idents_def seller_ident_def)
  then show "s_status s1 = VS_VERIFIED \<or> Approve k \<in> set ops" by (rule run_seller_ops_verified[OF assms])
qed

definition sample_sellers :: seller_env where
  "sample_sellers = \<lparr> sv_date = istDateOnly, sv_push = \<lparr>pv_enabled = False, pv_error = (\<lambda>_. None)\<rparr>,
     sv_storage = \<lparr> sb_cfg = (\<lambda>_. None), sb_upload = (\<lambda>_ _ _. None), sb_rows = (\<lambda>_ _ _. Inr []),
       sb_delete = (\<lambda>_. True) \<rparr> \<rparr>"

lemma sellers_keyed_sample: "sellers_keyed sample"
  by (auto simp: sellers_keyed_def sample_def tget_def twf_def split: if_splits)

lemma sample_s1: "map_option s_status (tget (sellers sample) ''s1'') = Some VS_VERIFIED"
  by (simp add: sample_def tget_def)

theorem verification_edges_followed_witness:
  "wp (run_seller_op sample_sellers (Reject ''s1'' ''no papers'')) (\<lambda>r w'. \<not> isl r \<and>
     (\<exists>s2. tget (sellers w') ''s1'' = Some s2 \<and> s_status s2 = VS_REJECTED)) sample"
proof -
  obtain s1 where s1: "tget (sellers sample) ''s1'' = Some s1" "s_status s1 = VS_VERIFIED"
    using sample_s1 by auto
  then have i: "s_id s1 = ''s1''" using sellers_keyed_sample by (simp add: sellers_keyed_def)
  show ?thesis
    using conjunct1[OF verification_edges_followed[OF sellers_keyed_sample, of sample_sellers "Reject ''s1'' ''no papers''" "[]"]]
    by (rule wp_mono) (use s1 i in \<open>auto simp: review_answer_def\<close>)
qed

end
