(* ===== verification/Buyers.thy ===== *)
theory Buyers
  imports SellerReview Accounts OrderQueries
begin

text \<open>
  The buyer's own pages, src/src/buyers/buyers.service.ts: profile, feed, notifications, referral codes, help,
  addresses, and the sellers a buyer follows. The table of recently viewed products is not part of the
  state: the feed takes its rows as an argument, and leaves it alone. At most one address of a user is
  the default one.
\<close>

section \<open>Profile\<close>

record account_shown =
  av_id :: string
  av_name :: string
  av_firstName :: "string option"
  av_middleName :: "string option"
  av_lastName :: "string option"
  av_email :: string
  av_phone :: "string option"
  av_createdAt :: int

definition account_view :: "user_row \<Rightarrow> account_shown" where
  "account_view u = \<lparr> av_id = u_id u, av_name = u_name u, av_firstName = u_firstName u,
     av_middleName = u_middleName u, av_lastName = u_lastName u, av_email = u_email u,
     av_phone = u_phone u, av_createdAt = u_createdAt u \<rparr>"

definition no_buyer :: exn where
  "no_buyer = NotFound ''Buyer profile not found''"

definition own_buyer :: "string \<Rightarrow> buyer_row handler" where
  "own_buyer uid =
     bind_act (reads (\<lambda>w. buyer_of_user w uid))
       (\<lambda>buyer. case buyer of None \<Rightarrow> throw no_buyer | Some b \<Rightarrow> ret b)"

definition orders_of :: "world \<Rightarrow> buyer_row \<Rightarrow> order_row list" where
  "orders_of w b = newest_first o_createdAt (filter (\<lambda>o1. o_buyerId o1 = Some (b_id b)) (trows (orders w)))"

definition findBuyer :: "string \<Rightarrow> (buyer_row \<times> account_shown option \<times> order_row list) handler" where
  "findBuyer uid =
     bind_act (own_buyer uid) (\<lambda>b.
     reads (\<lambda>w. (b, map_option account_view (tget (users w) uid), take 20 (orders_of w b))))"

record buyer_profile_dto =
  bp_firstName :: "string option"
  bp_middleName :: "string option"
  bp_lastName :: "string option"
  bp_name :: "string option"

text \<open>Names given in parts, or a single old-style name taken apart.\<close>

definition resolved_names :: "buyer_profile_dto \<Rightarrow> string \<times> string option \<times> string" where
  "resolved_names d =
     (let firstName = str_or (opt_trim (bp_firstName d)) [];
          middleName = nonempty (opt_trim (bp_middleName d));
          lastName = str_or (opt_trim (bp_lastName d)) []
      in if firstName = [] \<and> lastName = [] \<and> truthy (opt_trim (bp_name d)) then
           (let parts = words_of (the (bp_name d)); first = (case parts of [] \<Rightarrow> [] | p # _ \<Rightarrow> p)
            in (first, (if 2 < length parts then Some (join '' '' (butlast (tl parts))) else None),
                (if 1 < length parts then last parts else first)))
         else (firstName, middleName, lastName))"

definition updateBuyerProfile :: "string \<Rightarrow> buyer_profile_dto \<Rightarrow> account_shown handler" where
  "updateBuyerProfile uid d =
     bind_act (own_buyer uid) (\<lambda>b.
     let (first, middle, last) = resolved_names d
     in if first = [] \<or> last = [] then throw (BadRequest ''First name and last name are required'') else
     bind_act (reads (\<lambda>w. tget (users w) uid)) (\<lambda>user.
     case user of None \<Rightarrow> throw missing_row | Some u \<Rightarrow>
     let fullName = join '' '' (filter (\<lambda>s. s \<noteq> []) [first, str_or middle [], last]);
         u' = u\<lparr>u_name := fullName, u_firstName := Some first, u_middleName := middle, u_lastName := Some last\<rparr>
     in seq_act (writes (\<lambda>w. w\<lparr>users := tput uid u' (users w)\<rparr>)) (ret (account_view u'))))"

section \<open>Feed\<close>

record viewed_row =
  vw_id :: string
  vw_buyerId :: string
  vw_productId :: string
  vw_viewedAt :: int

record product_teaser =
  cd_id :: string
  cd_name :: string
  cd_price :: num
  cd_images :: "string list"
  cd_sellerName :: "string option"

definition product_card :: "world \<Rightarrow> product_row \<Rightarrow> product_teaser" where
  "product_card w p = \<lparr> cd_id = p_id p, cd_name = p_name p, cd_price = p_price p, cd_images = p_images p,
     cd_sellerName = map_option s_businessName (tget (sellers w) (p_sellerId p)) \<rparr>"

record feed =
  fd_upcomingLive :: "stream_row list"
  fd_archivedLives :: "stream_row list"
  fd_recentlyViewed :: "(string \<times> int \<times> product_teaser option) list"
  fd_recommendedProducts :: "product_teaser list"

definition feed_upcoming :: "int \<Rightarrow> stream_row \<Rightarrow> bool" where
  "feed_upcoming now st \<longleftrightarrow> \<not> st_isLive st \<and> st_endedAt st = None \<and> st_visibility st = PUBLIC \<and>
     (case st_startedAt st of None \<Rightarrow> False | Some t \<Rightarrow> now < t)"

definition feed_archived :: "stream_row \<Rightarrow> bool" where
  "feed_archived st \<longleftrightarrow> \<not> st_isLive st \<and> st_endedAt st \<noteq> None \<and> st_replayUrl st \<noteq> None \<and>
     st_replayStatus st = RS_READY \<and> st_visibility st = PUBLIC"

definition getFeed :: "viewed_row list \<Rightarrow> string \<Rightarrow> feed handler" where
  "getFeed viewed uid =
     bind_act (own_buyer uid) (\<lambda>b.
     reads (\<lambda>w.
       \<lparr> fd_upcomingLive = take 20 (sort_key (\<lambda>st. dflt 0 (st_startedAt st))
           (filter (feed_upcoming (clock w)) (trows (streams w)))),
         fd_archivedLives = take 20 (newest_first (\<lambda>st. dflt 0 (st_endedAt st))
           (filter feed_archived (trows (streams w)))),
         fd_recentlyViewed = map (\<lambda>v. (vw_id v, vw_viewedAt v, map_option (product_card w) (tget (products w) (vw_productId v))))
           (take 10 (newest_first vw_viewedAt (filter (\<lambda>v. vw_buyerId v = b_id b) viewed))),
         fd_recommendedProducts = map (product_card w) (take 20 (newest_first p_createdAt
           (filter (\<lambda>p. p_status p = PS_ACTIVE) (trows (products w))))) \<rparr>))"

section \<open>Notifications\<close>

definition category_of_name :: "string \<Rightarrow> notification_category option" where
  "category_of_name = map_of [(''SALES'', NC_SALES), (''ORDERS'', NC_ORDERS), (''IMPORTANT'', NC_IMPORTANT),
     (''OTHER'', NC_OTHER)]"

text \<open>A name that is no category is rejected by the database client.\<close>

definition getNotifications :: "string \<Rightarrow> string option \<Rightarrow> notification_row list handler" where
  "getNotifications uid category =
     bind_act (own_buyer uid) (\<lambda>b.
     let mine = (\<lambda>w P. take 50 (newest_first nt_createdAt
           (filter (\<lambda>n. nt_buyerId n = b_id b \<and> P n) (trows (notifications w)))))
     in case nonempty category of
          None \<Rightarrow> reads (\<lambda>w. mine w (\<lambda>_. True))
        | Some c \<Rightarrow> (case category_of_name (to_upper c) of
            None \<Rightarrow> throw invalid_enum
          | Some k \<Rightarrow> reads (\<lambda>w. mine w (\<lambda>n. nt_category n = k))))"

definition markNotificationRead :: "string \<Rightarrow> string \<Rightarrow> notification_row handler" where
  "markNotificationRead uid nid =
     bind_act (own_buyer uid) (\<lambda>b.
     bind_act (reads (\<lambda>w. case tget (notifications w) nid of None \<Rightarrow> None
         | Some n \<Rightarrow> if nt_buyerId n = b_id b then Some n else None)) (\<lambda>notif.
     case notif of None \<Rightarrow> throw (NotFound ''Notification not found'')
     | Some n \<Rightarrow>
       seq_act (writes (\<lambda>w. w\<lparr>notifications := tput nid (n\<lparr>nt_isRead := True\<rparr>) (notifications w)\<rparr>))
         (ret (n\<lparr>nt_isRead := True\<rparr>))))"

definition read_all :: "string \<Rightarrow> (string \<times> notification_row) list \<Rightarrow> (string \<times> notification_row) list" where
  "read_all bid = map (\<lambda>(k, n). (k, if nt_buyerId n = bid \<and> \<not> nt_isRead n then n\<lparr>nt_isRead := True\<rparr> else n))"

definition markAllNotificationsRead :: "string \<Rightarrow> bool handler" where
  "markAllNotificationsRead uid =
     bind_act (own_buyer uid) (\<lambda>b.
     seq_act (writes (\<lambda>w. w\<lparr>notifications := read_all (b_id b) (notifications w)\<rparr>)) (ret True))"

section \<open>Referrals\<close>

text \<open>\<open>id.replace(/-/g, '').slice(0, 6).toUpperCase()\<close>\<close>

definition referral_code :: "string \<Rightarrow> string" where
  "referral_code uid = to_upper (take 6 (filter (\<lambda>c. c \<noteq> CHR ''-'') uid))"

record referral =
  rf_code :: string
  rf_inviteReward :: int
  rf_friendReward :: int
  rf_inviteText :: string

definition getReferrals :: "string \<Rightarrow> referral handler" where
  "getReferrals uid =
     bind_act (reads (\<lambda>w. tget (users w) uid)) (\<lambda>user.
     case user of None \<Rightarrow> throw (NotFound ''User not found'')
     | Some u \<Rightarrow> let code = referral_code (u_id u)
       in ret \<lparr> rf_code = code, rf_inviteReward = 100, rf_friendReward = 80,
            rf_inviteText = ''Use my VybeKart referral code '' @ code @
              '' and get Rs80 off on your first purchase.'' \<rparr>)"

definition applyReferral :: "string \<Rightarrow> string \<Rightarrow> (int \<times> string) handler" where
  "applyReferral uid code =
     (if code = [] \<or> length (trim code) < 4 then throw (BadRequest ''Invalid referral code'')
      else if to_upper (trim code) = referral_code uid
      then throw (BadRequest ''You cannot apply your own referral code'')
      else ret (80, ''Referral code applied successfully''))"

section \<open>Help\<close>

definition mentions :: "string list \<Rightarrow> faq_row \<Rightarrow> bool" where
  "mentions pats f = list_ex (\<lambda>p. contains_ci (fq_question f) p) pats"

record help_page =
  hp_recentOrders :: "order_row list"
  hp_account :: "faq_row list"
  hp_orders :: "faq_row list"

definition getHelpSupport :: "string \<Rightarrow> help_page handler" where
  "getHelpSupport uid =
     bind_act (own_buyer uid) (\<lambda>b.
     reads (\<lambda>w.
       let fqs = take 12 (sort_key fq_sortOrder (faqs w));
           account = filter (mentions [''password'', ''account'', ''login'', ''profile'']) fqs;
           order = filter (mentions [''order'', ''return'', ''exchange'', ''refund'', ''delivery'']) fqs
       in \<lparr> hp_recentOrders = take 6 (orders_of w b),
            hp_account = (if account \<noteq> [] then account else take 2 fqs),
            hp_orders = (if order \<noteq> [] then order else take 3 (drop 2 fqs)) \<rparr>))"

section \<open>Addresses\<close>

definition addresses_of :: "world \<Rightarrow> string \<Rightarrow> address_row list" where
  "addresses_of w uid = filter (\<lambda>a. a_userId a = uid) (trows (addresses w))"

text \<open>\<open>orderBy: [{ isDefault: 'desc' }, { createdAt: 'desc' }]\<close>\<close>

definition listAddresses :: "string \<Rightarrow> address_row list handler" where
  "listAddresses uid =
     reads (\<lambda>w. let rows = newest_first a_createdAt (addresses_of w uid)
       in filter a_isDefault rows @ filter (\<lambda>a. \<not> a_isDefault a) rows)"

record address_dto =
  ad_line1 :: string
  ad_line2 :: "string option"
  ad_city :: string
  ad_state :: string
  ad_zip :: string
  ad_country :: "string option"
  ad_isDefault :: "bool option"
  ad_latitude :: "num option"
  ad_longitude :: "num option"
  ad_contactName :: "string option"
  ad_phone :: "string option"

definition address_dto_valid :: "address_dto \<Rightarrow> bool" where
  "address_dto_valid d \<longleftrightarrow> ad_line1 d \<noteq> [] \<and> length (ad_line1 d) \<le> 200 \<and>
     opt_valid (\<lambda>s. length s \<le> 200) (ad_line2 d) \<and> length (ad_city d) \<le> 100 \<and> length (ad_state d) \<le> 100 \<and>
     length (ad_zip d) \<le> 20 \<and> opt_valid (\<lambda>s. length s \<le> 2) (ad_country d) \<and>
     opt_valid (\<lambda>s. length s \<le> 120) (ad_contactName d) \<and> opt_valid (\<lambda>s. length s \<le> 20) (ad_phone d)"

text \<open>\<open>updateMany({ where: { userId, id: { not } }, data: { isDefault: false } })\<close>\<close>

definition clear_defaults :: "string \<Rightarrow> string option \<Rightarrow> world \<Rightarrow> world" where
  "clear_defaults uid except w =
     w\<lparr>addresses := map (\<lambda>(k, a). (k, if a_userId a = uid \<and> Some k \<noteq> except then a\<lparr>a_isDefault := False\<rparr> else a))
        (addresses w)\<rparr>"

definition new_address :: "string \<Rightarrow> string \<Rightarrow> int \<Rightarrow> address_dto \<Rightarrow> address_row" where
  "new_address aid uid now d =
     \<lparr> a_id = aid, a_userId = uid, a_type = SHIPPING, a_line1 = trim (ad_line1 d),
       a_line2 = nonempty (opt_trim (ad_line2 d)), a_city = trim (ad_city d), a_state = trim (ad_state d),
       a_zip = trim (ad_zip d), a_country = trim (dflt ''IN'' (ad_country d)),
       a_contactName = nonempty (opt_trim (ad_contactName d)), a_phone = nonempty (opt_trim (ad_phone d)),
       a_createdAt = now, a_isDefault = dflt False (ad_isDefault d), a_latitude = ad_latitude d,
       a_longitude = ad_longitude d \<rparr>"

definition createAddress :: "string \<Rightarrow> address_dto \<Rightarrow> string \<Rightarrow> address_row handler" where
  "createAddress uid d aid =
     seq_act (if ad_isDefault d = Some True then writes (clear_defaults uid None) else ret ())
     (bind_act (reads clock) (\<lambda>now.
      let a = new_address aid uid now d
      in seq_act (db_create (\<lambda>w. tget (addresses w) aid \<noteq> None) (\<lambda>w. w\<lparr>addresses := tput aid a (addresses w)\<rparr>))
           (ret a)))"

text \<open>An update field is absent (\<open>None\<close>); a nullable one may be \<open>null\<close> (\<open>Some None\<close>).\<close>

record address_patch =
  ap_line1 :: "string option"
  ap_line2 :: "string option option"
  ap_city :: "string option"
  ap_state :: "string option"
  ap_zip :: "string option"
  ap_country :: "string option"
  ap_isDefault :: "bool option"
  ap_latitude :: "num option option"
  ap_longitude :: "num option option"
  ap_contactName :: "string option option"
  ap_phone :: "string option option"

definition clean_text :: "string option \<Rightarrow> string option" where
  "clean_text x = nonempty (opt_trim x)"

definition apply_address :: "address_patch \<Rightarrow> address_row \<Rightarrow> address_row" where
  "apply_address d a = a\<lparr>
     a_line1 := dflt (a_line1 a) (map_option trim (ap_line1 d)),
     a_line2 := dflt (a_line2 a) (map_option clean_text (ap_line2 d)),
     a_city := dflt (a_city a) (map_option trim (ap_city d)),
     a_state := dflt (a_state a) (map_option trim (ap_state d)),
     a_zip := dflt (a_zip a) (map_option trim (ap_zip d)),
     a_country := dflt (a_country a) (map_option trim (ap_country d)),
     a_isDefault := dflt (a_isDefault a) (ap_isDefault d),
     a_latitude := dflt (a_latitude a) (ap_latitude d),
     a_longitude := dflt (a_longitude a) (ap_longitude d),
     a_contactName := dflt (a_contactName a) (map_option clean_text (ap_contactName d)),
     a_phone := dflt (a_phone a) (map_option clean_text (ap_phone d))\<rparr>"

definition own_address :: "string \<Rightarrow> string \<Rightarrow> address_row handler" where
  "own_address uid aid =
     bind_act (reads (\<lambda>w. case tget (addresses w) aid of None \<Rightarrow> None
         | Some a \<Rightarrow> if a_userId a = uid then Some a else None))
       (\<lambda>row. case row of None \<Rightarrow> throw (NotFound ''Address not found'') | Some a \<Rightarrow> ret a)"

definition updateAddress :: "string \<Rightarrow> string \<Rightarrow> address_patch \<Rightarrow> address_row handler" where
  "updateAddress uid aid d =
     bind_act (own_address uid aid) (\<lambda>a.
     seq_act (if ap_isDefault d = Some True then writes (clear_defaults uid (Some aid)) else ret ())
     (seq_act (writes (\<lambda>w. w\<lparr>addresses := tupd aid (apply_address d) (addresses w)\<rparr>))
      (ret (apply_address d a))))"

definition deleteAddress :: "string \<Rightarrow> string \<Rightarrow> bool handler" where
  "deleteAddress uid aid =
     bind_act (own_address uid aid) (\<lambda>_.
     seq_act (writes (\<lambda>w. w\<lparr>addresses := tdel aid (addresses w)\<rparr>)) (ret True))"

section \<open>Following\<close>

record followed =
  fl_sellerId :: string
  fl_businessName :: string
  fl_description :: "string option"
  fl_logoUrl :: "string option"
  fl_overall :: num
  fl_replacementPercent :: num
  fl_followedAt :: int

definition followed_view :: "world \<Rightarrow> follow_row \<Rightarrow> followed option" where
  "followed_view w f = map_option (\<lambda>s1.
     \<lparr> fl_sellerId = s_id s1, fl_businessName = s_businessName s1, fl_description = s_description s1,
       fl_logoUrl = s_logoUrl s1,
       fl_overall = (case tget (sellerRatings w) (s_id s1) of None \<Rightarrow> 5 | Some r \<Rightarrow> sr_overall r),
       fl_replacementPercent = seller_replacement_percent w (s_id s1), fl_followedAt = fw_createdAt f \<rparr>)
     (tget (sellers w) (fw_sellerId f))"

definition listFollowing :: "string \<Rightarrow> followed list handler" where
  "listFollowing uid =
     bind_act (own_buyer uid) (\<lambda>b.
     reads (\<lambda>w. List.map_filter (followed_view w) (newest_first fw_createdAt
       (filter (\<lambda>f. fw_buyerId f = b_id b) (trows (follows w))))))"

definition unfollow :: "string \<Rightarrow> string \<Rightarrow> (bool \<times> string) handler" where
  "unfollow uid sid =
     bind_act (own_buyer uid) (\<lambda>b.
     seq_act (writes (\<lambda>w. w\<lparr>follows := tdel (b_id b, sid) (follows w)\<rparr>)) (ret (True, sid)))"

definition getSellerPublicProfile :: "string \<Rightarrow> (seller_row \<times> seller_public) handler" where
  "getSellerPublicProfile sid =
     bind_act (seller_by_id sid) (\<lambda>s1.
     bind_act (getSellerPublic sid) (\<lambda>pub. ret (s1, pub)))"

section \<open>At most one default address\<close>

lemma wp_own_buyer [wp_simps]:
  "wp (own_buyer uid) Q w =
     (case buyer_of_user w uid of None \<Rightarrow> Q (Inl no_buyer) w | Some b \<Rightarrow> Q (Inr b) w)"
  by (cases "buyer_of_user w uid") (simp_all add: own_buyer_def wp_simps)

definition own_row :: "world \<Rightarrow> string \<Rightarrow> string \<Rightarrow> address_row option" where
  "own_row w uid aid = (case tget (addresses w) aid of None \<Rightarrow> None
     | Some a \<Rightarrow> if a_userId a = uid then Some a else None)"

lemma own_rowD: "own_row w uid aid = Some a \<Longrightarrow> tget (addresses w) aid = Some a \<and> a_userId a = uid"
  by (auto simp: own_row_def split: option.splits if_splits)

lemma wp_own_address [wp_simps]:
  "wp (own_address uid aid) Q w =
     (case own_row w uid aid of None \<Rightarrow> Q (Inl (NotFound ''Address not found'')) w | Some a \<Rightarrow> Q (Inr a) w)"
  unfolding own_address_def own_row_def[symmetric] by (cases "own_row w uid aid") (simp_all add: wp_simps)

definition defaults :: "world \<Rightarrow> string \<Rightarrow> string set" where
  "defaults w uid = {k. \<exists>a. tget (addresses w) k = Some a \<and> a_userId a = uid \<and> a_isDefault a}"

definition one_default :: "world \<Rightarrow> bool" where
  "one_default w \<longleftrightarrow> (\<forall>uid. \<exists>k. defaults w uid \<subseteq> {k})"

lemma tget_clear_defaults:
  "tget (addresses (clear_defaults uid except w)) k =
     map_option (\<lambda>a. if a_userId a = uid \<and> Some k \<noteq> except then a\<lparr>a_isDefault := False\<rparr> else a) (tget (addresses w) k)"
  unfolding clear_defaults_def by (simp add: tget_map_rows)

lemma defaults_clear:
  "defaults (clear_defaults uid except w) u =
     (if u = uid then defaults w u \<inter> {k. Some k = except} else defaults w u)"
proof (rule set_eqI)
  fix k
  show "k \<in> defaults (clear_defaults uid except w) u \<longleftrightarrow>
      k \<in> (if u = uid then defaults w u \<inter> {k. Some k = except} else defaults w u)"
    by (cases "tget (addresses w) k") (auto simp: defaults_def tget_clear_defaults)
qed

lemma defaults_put:
  "defaults (w\<lparr>addresses := tput aid a (addresses w)\<rparr>) u =
     (if a_userId a = u \<and> a_isDefault a then insert aid (defaults w u) else defaults w u - {aid})"
  by (auto simp: defaults_def)

lemma one_default_sub: "one_default w \<Longrightarrow> (\<And>u. defaults w' u \<subseteq> defaults w u) \<Longrightarrow> one_default w'"
  unfolding one_default_def by (meson order_trans)

lemma one_default_clear: "one_default w \<Longrightarrow> one_default (clear_defaults uid except w)"
  by (erule one_default_sub) (simp add: defaults_clear)

lemma one_default_put:
  assumes "one_default w" "a_isDefault a \<Longrightarrow> defaults w (a_userId a) \<subseteq> {aid}"
  shows "one_default (w\<lparr>addresses := tput aid a (addresses w)\<rparr>)"
  unfolding one_default_def
proof
  fix u
  obtain k where k: "defaults w u \<subseteq> {k}" using assms(1) unfolding one_default_def by blast
  show "\<exists>k. defaults (w\<lparr>addresses := tput aid a (addresses w)\<rparr>) u \<subseteq> {k}"
  proof (cases "a_userId a = u \<and> a_isDefault a")
    case True
    then show ?thesis using assms(2) by (intro exI[of _ aid]) (simp add: defaults_put)
  next
    case False
    then show ?thesis using k by (intro exI[of _ k]) (simp only: defaults_put if_False, blast)
  qed
qed

text \<open>An address that is made the default one leaves no other default of the user.\<close>

lemma createAddress_defaults:
  "wp (createAddress uid d aid) (\<lambda>r w'. (one_default w \<longrightarrow> one_default w') \<and>
     (ad_isDefault d = Some True \<longrightarrow> \<not> isl r \<longrightarrow> defaults w' uid = {aid})) w"
proof (cases "ad_isDefault d = Some True")
  case True
  let ?v = "clear_defaults uid None w"
  let ?a = "new_address aid uid (clock ?v) d"
  have a: "a_userId ?a = uid" "a_isDefault ?a" using True by (simp_all add: new_address_def dflt_def)
  have "defaults ?v uid = {}" by (simp add: defaults_clear)
  then have "one_default w \<Longrightarrow> one_default (?v\<lparr>addresses := tput aid ?a (addresses ?v)\<rparr>)"
    "defaults (?v\<lparr>addresses := tput aid ?a (addresses ?v)\<rparr>) uid = {aid}"
    using a one_default_put[OF one_default_clear, of w ?a uid None aid] by (simp_all add: defaults_put)
  then show ?thesis using True by (simp add: createAddress_def wp_simps Let_def one_default_clear)
next
  case False
  have "\<not> a_isDefault (new_address aid uid (clock w) d)"
    using False by (cases "ad_isDefault d") (simp_all add: new_address_def dflt_def)
  then have "one_default w \<Longrightarrow> one_default (w\<lparr>addresses := tput aid (new_address aid uid (clock w) d) (addresses w)\<rparr>)"
    by (intro one_default_put) simp_all
  then show ?thesis using False by (simp add: createAddress_def wp_simps Let_def)
qed

lemma updateAddress_defaults:
  assumes "one_default w"
  shows "wp (updateAddress uid aid d) (\<lambda>r w'. one_default w') w"
proof (cases "own_row w uid aid")
  case (Some a)
  note own = own_rowD[OF Some]
  show ?thesis
  proof (cases "ap_isDefault d = Some True")
    case True
    let ?v = "clear_defaults uid (Some aid) w"
    have t: "tget (addresses ?v) aid = Some a" using own by (simp add: tget_clear_defaults)
    have "one_default (?v\<lparr>addresses := tput aid (apply_address d a) (addresses ?v)\<rparr>)"
      by (rule one_default_put[OF one_default_clear[OF assms]]) (use own in \<open>auto simp: defaults_clear apply_address_def\<close>)
    then show ?thesis using True t by (simp add: updateAddress_def wp_simps Some tupd_def)
  next
    case False
    have "a_isDefault (apply_address d a) \<Longrightarrow> a_isDefault a"
      using False by (cases "ap_isDefault d") (simp_all add: apply_address_def dflt_def)
    then have "a_isDefault (apply_address d a) \<Longrightarrow> aid \<in> defaults w uid" using own by (simp add: defaults_def)
    moreover obtain k where "defaults w uid \<subseteq> {k}" using assms unfolding one_default_def by blast
    ultimately have "a_isDefault (apply_address d a) \<Longrightarrow> defaults w (a_userId (apply_address d a)) \<subseteq> {aid}"
      using own by (auto simp: apply_address_def)
    from one_default_put[OF assms this] show ?thesis
      using False own by (simp add: updateAddress_def wp_simps Some tupd_def)
  qed
qed (simp add: updateAddress_def wp_simps assms)

lemma deleteAddress_defaults: "one_default w \<Longrightarrow> wp (deleteAddress uid aid) (\<lambda>_ w'. one_default w') w"
proof -
  assume o: "one_default w"
  then have "one_default (w\<lparr>addresses := tdel aid (addresses w)\<rparr>)"
    by (rule one_default_sub) (auto simp: defaults_def split: if_splits)
  then show ?thesis using o by (cases "own_row w uid aid") (simp_all add: deleteAddress_def wp_simps)
qed

section \<open>Reading notifications\<close>

definition unread :: "world \<Rightarrow> string \<Rightarrow> string set" where
  "unread w bid = {k. \<exists>n. tget (notifications w) k = Some n \<and> nt_buyerId n = bid \<and> \<not> nt_isRead n}"

lemma tget_read_all: "tget (read_all bid ns) k =
  map_option (\<lambda>n. if nt_buyerId n = bid \<and> \<not> nt_isRead n then n\<lparr>nt_isRead := True\<rparr> else n) (tget ns k)"
  unfolding read_all_def by (rule tget_map_rows)

text \<open>Reading all leaves none of the buyer's notifications unread, and nobody else's touched.\<close>

lemma read_all_reads:
  assumes "buyer_of_user w uid = Some b"
  shows "wp (markAllNotificationsRead uid) (\<lambda>r w'. r = Inr True \<and> unread w' (b_id b) = {} \<and>
    (\<forall>bid. bid \<noteq> b_id b \<longrightarrow> unread w' bid = unread w bid)) w"
proof -
  let ?w = "w\<lparr>notifications := read_all (b_id b) (notifications w)\<rparr>"
  have "k \<in> unread ?w bid \<longleftrightarrow> bid \<noteq> b_id b \<and> k \<in> unread w bid" for k bid
    by (cases "tget (notifications w) k") (auto simp: unread_def tget_read_all)
  then have "unread ?w bid = (if bid = b_id b then {} else unread w bid)" for bid by auto
  then show ?thesis using assms by (simp add: markAllNotificationsRead_def wp_simps)
qed

end
