(* ===== verification/Admin.thy ===== *)
theory Admin
  imports SellerReview OrderQueries Calendar
begin

text \<open>
  The administrator's pages, src/src/admin/admin.service.ts, with the users list
  (src/src/users/users.service.ts) and the version gate of the app (src/src/app-config/app-config.service.ts).
  The review of sellers that the service delegates is in \<open>SellerReview\<close>. The version gate has one row
  of its own table, the state of its handlers.
\<close>

section \<open>The version gate\<close>

record android_config =
  ac_minAndroidVersionCode :: int
  ac_latestAndroidVersionName :: "string option"

type_synonym 'a config_handler = "(android_config option, 'a) action"

definition default_android :: android_config where
  "default_android = \<lparr> ac_minAndroidVersionCode = 1, ac_latestAndroidVersionName = Some ''1.0'' \<rparr>"

text \<open>The upsert with an empty \<open>update\<close>: create the row, or leave it.\<close>

definition ensureRow :: "android_config config_handler" where
  "ensureRow =
     bind_act (reads (dflt default_android)) (\<lambda>row. seq_act (writes (\<lambda>_. Some row)) (ret row))"

definition getPublicAndroid :: "android_config config_handler" where
  "getPublicAndroid = ensureRow"

definition getMinAndroidVersionCode :: "int config_handler" where
  "getMinAndroidVersionCode = bind_act ensureRow (\<lambda>row. ret (ac_minAndroidVersionCode row))"

record config_patch =
  cp_minAndroidVersionCode :: "int option"
  cp_latestAndroidVersionName :: "string option option"

definition updateAndroidConfig :: "config_patch \<Rightarrow> android_config config_handler" where
  "updateAndroidConfig d =
     bind_act ensureRow (\<lambda>row.
     let new = \<lparr> ac_minAndroidVersionCode = dflt (ac_minAndroidVersionCode row) (cp_minAndroidVersionCode d),
                 ac_latestAndroidVersionName = dflt (ac_latestAndroidVersionName row) (cp_latestAndroidVersionName d) \<rparr>
     in seq_act (writes (\<lambda>_. Some new)) (ret new))"

definition patchAppConfig :: "config_patch \<Rightarrow> android_config config_handler" where
  "patchAppConfig d =
     (if cp_minAndroidVersionCode d = None \<and> cp_latestAndroidVersionName d = None then getPublicAndroid
      else bind_act (updateAndroidConfig d) (\<lambda>_. getPublicAndroid))"

section \<open>Users\<close>

definition getMe :: "string \<Rightarrow> (string \<times> string \<times> string \<times> role list) handler" where
  "getMe uid =
     bind_act (reads (\<lambda>w. tget (users w) uid)) (\<lambda>user.
     case user of None \<Rightarrow> throw (NotFound ''User not found'')
     | Some u \<Rightarrow> ret (u_id u, u_email u, u_name u, u_roles u))"

record user_entry =
  ui_user :: user_shown
  ui_roles :: "role list"
  ui_sellerProfile :: "string option"
  ui_buyerProfile :: "string option"

definition user_item :: "world \<Rightarrow> user_row \<Rightarrow> user_entry" where
  "user_item w u = \<lparr> ui_user = \<lparr>uv_id = u_id u, uv_name = u_name u, uv_email = u_email u, uv_phone = u_phone u,
       uv_createdAt = u_createdAt u\<rparr>, ui_roles = u_roles u,
     ui_sellerProfile = map_option s_id (seller_of_user w (u_id u)),
     ui_buyerProfile = map_option b_id (buyer_of_user w (u_id u)) \<rparr>"

definition findAllUsers :: "nat \<Rightarrow> nat \<Rightarrow> user_entry page handler" where
  "findAllUsers page limit =
     reads (\<lambda>w. paginate page limit (user_item w) (newest_first u_createdAt (trows (users w))))"

definition findUserByEmail :: "string \<Rightarrow> user_entry option handler" where
  "findUserByEmail email = reads (\<lambda>w. map_option (user_item w) (tfirst (\<lambda>u. u_email u = email) (users w)))"

section \<open>Buyers\<close>

text \<open>A list with its total; the pages of the two directories.\<close>

record 'a directory_page =
  dr_items :: "'a list"
  dr_total :: nat
  dr_page :: nat
  dr_limit :: nat

definition directory :: "nat \<Rightarrow> nat \<Rightarrow> ('r \<Rightarrow> 'a) \<Rightarrow> 'r list \<Rightarrow> 'a directory_page" where
  "directory page limit view rows = \<lparr> dr_items = map view (slice page limit rows), dr_total = length rows,
     dr_page = page, dr_limit = limit \<rparr>"

text \<open>\<open>contains\<close> in any of name, e-mail and phone; a missing phone never matches.\<close>

definition user_matches :: "string \<Rightarrow> user_row \<Rightarrow> bool" where
  "user_matches q u \<longleftrightarrow> contains_ci (u_name u) q \<or> contains_ci (u_email u) q \<or>
     (case u_phone u of None \<Rightarrow> False | Some p \<Rightarrow> contains_ci p q)"

definition user_search :: "world \<Rightarrow> string option \<Rightarrow> string \<Rightarrow> bool" where
  "user_search w q uid \<longleftrightarrow>
     (case nonempty (opt_trim q) of None \<Rightarrow> True
      | Some t \<Rightarrow> (case tget (users w) uid of None \<Rightarrow> False | Some u \<Rightarrow> user_matches t u))"

record buyer_entry =
  bi_buyerId :: string
  bi_userId :: string
  bi_user :: "user_shown option"
  bi_score :: num
  bi_replacementCount :: nat

definition buyer_item :: "world \<Rightarrow> buyer_row \<Rightarrow> buyer_entry" where
  "buyer_item w b = \<lparr> bi_buyerId = b_id b, bi_userId = b_userId b, bi_user = user_view w (b_userId b),
     bi_score = (case tget (buyerRatings w) (b_id b) of None \<Rightarrow> 5 | Some r \<Rightarrow> br_score r),
     bi_replacementCount = tcount (\<lambda>r. r_buyerId r = b_id b) (replacements w) \<rparr>"

definition listBuyers :: "string option \<Rightarrow> nat \<Rightarrow> nat \<Rightarrow> buyer_entry directory_page handler" where
  "listBuyers q page limit =
     reads (\<lambda>w. directory page limit (buyer_item w)
       (newest_first b_createdAt (filter (\<lambda>b. user_search w q (b_userId b)) (trows (buyers w)))))"

record order_entry =
  ao_id :: string
  ao_status :: order_status
  ao_totalAmount :: num
  ao_createdAt :: int
  ao_sellerName :: "string option"

definition first_seller :: "world \<Rightarrow> order_row \<Rightarrow> seller_row option" where
  "first_seller w o1 = (case o_items o1 of [] \<Rightarrow> None
     | it # _ \<Rightarrow> Option.bind (item_seller w it) (tget (sellers w)))"

definition admin_order :: "world \<Rightarrow> order_row \<Rightarrow> order_entry" where
  "admin_order w o1 = \<lparr> ao_id = o_id o1, ao_status = o_status o1, ao_totalAmount = o_totalAmount o1,
     ao_createdAt = o_createdAt o1, ao_sellerName = map_option s_businessName (first_seller w o1) \<rparr>"

record buyer_page =
  by_buyer :: buyer_row
  by_user :: user_shown
  by_rating :: "buyer_rating_row option"
  by_replacements :: "(replacement_row \<times> (order_status \<times> num) option) list"
  by_orders :: "order_entry list"
  by_addresses :: "address_row list"
  by_following :: "(string \<times> string \<times> string option) list"
  by_supportTickets :: "ticket_row list"
  by_lastOrderAt :: "int option"
  by_lastReplacementAt :: "int option"

definition first_opt :: "'a list \<Rightarrow> 'a option" where
  "first_opt xs = (case xs of [] \<Rightarrow> None | x # _ \<Rightarrow> Some x)"

definition getBuyerDetailForAdmin :: "string \<Rightarrow> buyer_page handler" where
  "getBuyerDetailForAdmin bid =
     bind_act (reads (\<lambda>w. tget (buyers w) bid)) (\<lambda>buyer.
     case buyer of None \<Rightarrow> throw (NotFound ''Buyer not found'') | Some b \<Rightarrow>
     bind_act (reads (\<lambda>w. user_view w (b_userId b))) (\<lambda>user.
     case user of None \<Rightarrow> throw missing_row | Some u \<Rightarrow>
     reads (\<lambda>w.
       let repls = take 50 (newest_first r_createdAt (filter (\<lambda>r. r_buyerId r = bid) (trows (replacements w))));
           ords = take 30 (newest_first o_createdAt (filter (\<lambda>o1. o_buyerId o1 = Some bid) (trows (orders w))))
       in \<lparr> by_buyer = b, by_user = u, by_rating = tget (buyerRatings w) bid,
            by_replacements = map (\<lambda>r. (r, map_option (\<lambda>o1. (o_status o1, o_totalAmount o1))
              (tget (orders w) (r_orderId r)))) repls,
            by_orders = map (admin_order w) ords,
            by_addresses = filter (\<lambda>a. a_userId a = uv_id u \<and> a_type a = SHIPPING) (trows (addresses w)),
            by_following = List.map_filter (\<lambda>f. map_option (\<lambda>s1. (s_id s1, s_businessName s1, s_logoUrl s1))
              (tget (sellers w) (fw_sellerId f))) (filter (\<lambda>f. fw_buyerId f = bid) (trows (follows w))),
            by_supportTickets = take 20 (newest_first tk_createdAt
              (filter (\<lambda>t. tk_userId t = uv_id u) (tickets w))),
            by_lastOrderAt = map_option o_createdAt (first_opt ords),
            by_lastReplacementAt = map_option r_createdAt (first_opt repls) \<rparr>)))"

section \<open>Sellers and packing videos\<close>

record seller_entry =
  si_sellerId :: string
  si_businessName :: string
  si_status :: verification_status
  si_owner :: "user_shown option"
  si_overall :: num
  si_replacementPercent :: num

definition seller_item :: "world \<Rightarrow> seller_row \<Rightarrow> seller_entry" where
  "seller_item w s1 = \<lparr> si_sellerId = s_id s1, si_businessName = s_businessName s1, si_status = s_status s1,
     si_owner = user_view w (s_userId s1),
     si_overall = (case tget (sellerRatings w) (s_id s1) of None \<Rightarrow> 5 | Some r \<Rightarrow> sr_overall r),
     si_replacementPercent = seller_replacement_percent w (s_id s1) \<rparr>"

definition seller_search :: "world \<Rightarrow> string option \<Rightarrow> seller_row \<Rightarrow> bool" where
  "seller_search w q s1 \<longleftrightarrow>
     (case nonempty (opt_trim q) of None \<Rightarrow> True
      | Some t \<Rightarrow> contains_ci (s_businessName s1) t \<or> user_search w q (s_userId s1))"

definition listSellerDirectory :: "string option \<Rightarrow> nat \<Rightarrow> nat \<Rightarrow> seller_entry directory_page handler" where
  "listSellerDirectory q page limit =
     reads (\<lambda>w. directory page limit (seller_item w)
       (newest_first s_createdAt (filter (seller_search w q) (trows (sellers w)))))"

record packing_entry =
  pk_orderId :: string
  pk_packedAt :: "string option"
  pk_packingVideoUrl :: "string option"
  pk_streamId :: "string option"
  pk_seller :: "(string \<times> string \<times> string) option"

definition packing_video :: "world \<Rightarrow> order_row \<Rightarrow> packing_entry" where
  "packing_video w o1 = \<lparr> pk_orderId = o_id o1, pk_packedAt = map_option iso_string (o_packedAt o1),
     pk_packingVideoUrl = o_packingVideoUrl o1, pk_streamId = o_streamId o1,
     pk_seller = map_option (\<lambda>s1. (s_id s1, s_businessName s1, s_userId s1)) (first_seller w o1) \<rparr>"

text \<open>Latest packed first; in descending order the database puts a missing instant first.\<close>

definition listPackingVideos :: "string option \<Rightarrow> packing_entry list handler" where
  "listPackingVideos sellerId =
     reads (\<lambda>w. let rows = filter (\<lambda>o1. o_packingVideoUrl o1 \<noteq> None \<and>
           (case nonempty sellerId of None \<Rightarrow> True | Some sid \<Rightarrow> order_has_seller w o1 sid)) (trows (orders w))
       in map (packing_video w) (take 200 (filter (\<lambda>o1. o_packedAt o1 = None) rows @
            newest_first (\<lambda>o1. dflt 0 (o_packedAt o1)) (filter (\<lambda>o1. o_packedAt o1 \<noteq> None) rows))))"

section \<open>Facts\<close>

lemma wp_ensureRow [wp_simps]:
  "wp ensureRow Q s = Q (Inr (dflt default_android s)) (Some (dflt default_android s))"
  by (simp add: ensureRow_def wp_simps)

text \<open>A patch is read back, a field that is absent keeps its value, and the gate never fails.\<close>

lemma patch_read_back:
  "wp (patchAppConfig d) (\<lambda>r s'. \<exists>row. r = Inr row \<and> s' = Some row \<and>
     ac_minAndroidVersionCode row = dflt (ac_minAndroidVersionCode (dflt default_android s)) (cp_minAndroidVersionCode d) \<and>
     ac_latestAndroidVersionName row =
       dflt (ac_latestAndroidVersionName (dflt default_android s)) (cp_latestAndroidVersionName d)) s"
  by (auto simp: patchAppConfig_def getPublicAndroid_def updateAndroidConfig_def Let_def wp_simps dflt_def split: option.split)

text \<open>The pages of a directory are its rows: every buyer that matches is on exactly one page.\<close>

lemma directory_pages:
  assumes "0 < limit"
  shows "concat (map (\<lambda>p. dr_items (directory p limit view rows)) [1..<Suc (total_pages (length rows) limit)])
    = map view rows"
proof -
  have "concat (map (\<lambda>p. map view (slice p limit rows)) [1..<Suc (total_pages (length rows) limit)]) =
      map view (concat (map (\<lambda>p. slice p limit rows) [1..<Suc (total_pages (length rows) limit)]))"
    by (simp add: map_concat comp_def)
  then show ?thesis by (simp only: directory_def directory_page.simps slices_all[OF assms])
qed

end
