(* ===== verification/Listings.thy ===== *)
theory Listings
  imports SellerReview OrderQueries
begin

text \<open>
  The catalogue as sellers maintain it, src/src/products/products.service.ts, and the categories with their
  form hints (src/src/categories/categories.service.ts). Of a product the columns of \<open>product_row\<close> are
  modelled; its other columns (description, brand, sizes) are stored as given and read by nobody
  here. The brand service of the network and the collation of the locale are parameters.
\<close>

section \<open>Products\<close>

record product_dto =
  pd_name :: "string option"
  pd_price :: "num option"
  pd_stock :: "int option"
  pd_images :: "string list option"
  pd_status :: "string option"
  pd_returnable :: "bool option"
  pd_hsnCode :: "string option"
  pd_gstPercent :: "num option"
  pd_variants :: "json option" \<comment> \<open>\<open>JNull\<close> for \<open>null\<close>\<close>

definition product_status_of :: "string \<Rightarrow> product_status option" where
  "product_status_of = map_of [(''DRAFT'', PS_DRAFT), (''ACTIVE'', PS_ACTIVE), (''OUT_OF_STOCK'', PS_OUT_OF_STOCK)]"

text \<open>A status is any string for the data-transfer object; the database client knows three.\<close>

definition dto_status :: "product_dto \<Rightarrow> exn + product_status option" where
  "dto_status d = (case pd_status d of None \<Rightarrow> Inr None
     | Some s \<Rightarrow> (case product_status_of s of None \<Rightarrow> Inl invalid_enum | Some v \<Rightarrow> Inr (Some v)))"

text \<open>What both \<open>create\<close> and \<open>update\<close> write of the plain fields.\<close>

definition apply_product :: "product_dto \<Rightarrow> product_status option \<Rightarrow> product_row \<Rightarrow> product_row" where
  "apply_product d status p = p\<lparr>
     p_name := dflt (p_name p) (pd_name d), p_price := dflt (p_price p) (pd_price d),
     p_stock := dflt (p_stock p) (pd_stock d), p_images := dflt (p_images p) (pd_images d),
     p_status := dflt (p_status p) status,
     p_returnable := or_else (pd_returnable d) (p_returnable p), p_hsnCode := or_else (pd_hsnCode d) (p_hsnCode p),
     p_gstPercent := or_else (pd_gstPercent d) (p_gstPercent p)\<rparr>"

definition apply_variants :: "normalized_variants \<Rightarrow> product_row \<Rightarrow> product_row" where
  "apply_variants nv p = p\<lparr>p_price := nv_minPrice nv, p_stock := nv_totalStock nv, p_variants := nv_json nv\<rparr>"

definition blank_product :: "string \<Rightarrow> string \<Rightarrow> int \<Rightarrow> product_row" where
  "blank_product pid sid now =
     \<lparr> p_id = pid, p_name = [], p_price = 0, p_stock = 0, p_images = [], p_sellerId = sid, p_variants = JNull,
       p_returnable = Some True, p_status = PS_DRAFT, p_createdAt = now, p_hsnCode = None,
       p_gstPercent = None \<rparr>"

definition put_product :: "product_row \<Rightarrow> world \<Rightarrow> world" where
  "put_product p w = w\<lparr>products := tput (p_id p) p (products w)\<rparr>"

definition createProduct :: "string \<Rightarrow> product_dto \<Rightarrow> string \<Rightarrow> product_row handler" where
  "createProduct uid d pid =
     bind_act (reads (\<lambda>w. seller_of_user w uid)) (\<lambda>seller.
     case seller of None \<Rightarrow> throw (Forbidden ''User is not a registered seller'') | Some s1 \<Rightarrow>
     bind_act (lift_res (case nonnull (pd_variants d) of None \<Rightarrow> Inr None
         | Some v \<Rightarrow> (case validateAndNormalizeSellerVariants (Some v) of Inl e \<Rightarrow> Inl e | Inr nv \<Rightarrow> Inr (Some nv)))) (\<lambda>norm.
     bind_act (lift_res (dto_status d)) (\<lambda>status.
     bind_act (reads clock) (\<lambda>now.
     let base = apply_product d status (blank_product pid (s_id s1) now);
         p = (case norm of None \<Rightarrow> base | Some nv \<Rightarrow> apply_variants nv base)
     in seq_act (db_create (\<lambda>w. tget (products w) pid \<noteq> None) (put_product p)) (ret p)))))"

text \<open>\<open>Math.max(1, Number(page) || 1)\<close> and \<open>Math.min(100, Math.max(1, Number(limit) || 20))\<close> of integers.\<close>

definition page_no :: "int option \<Rightarrow> nat" where
  "page_no x = (case x of None \<Rightarrow> 1 | Some n \<Rightarrow> nat (max 1 n))"

definition page_limit :: "int option \<Rightarrow> nat" where
  "page_limit x = (case x of None \<Rightarrow> 20 | Some n \<Rightarrow> if n = 0 then 20 else nat (min 100 (max 1 n)))"

definition findAllProducts :: "int option \<Rightarrow> int option \<Rightarrow> (product_row \<times> string option) page handler" where
  "findAllProducts page limit =
     reads (\<lambda>w. paginate (page_no page) (page_limit limit)
       (\<lambda>p. (p, map_option s_businessName (tget (sellers w) (p_sellerId p))))
       (newest_first p_createdAt (trows (products w))))"

definition no_product :: exn where
  "no_product = NotFound ''Product not found''"

definition findProduct :: "string \<Rightarrow> (product_row \<times> seller_row option) handler" where
  "findProduct pid =
     bind_act (reads (\<lambda>w. tget (products w) pid)) (\<lambda>row.
     case row of None \<Rightarrow> throw no_product | Some p \<Rightarrow> reads (\<lambda>w. (p, tget (sellers w) (p_sellerId p))))"

definition own_listing :: "string \<Rightarrow> string \<Rightarrow> string \<Rightarrow> product_row handler" where
  "own_listing verb pid uid =
     bind_act (findProduct pid) (\<lambda>(p, seller).
     case seller of None \<Rightarrow> throw missing_row
     | Some s1 \<Rightarrow> if s_userId s1 \<noteq> uid then throw (Forbidden (''You can only '' @ verb @ '' your own products''))
                  else ret p)"

definition updateProduct :: "string \<Rightarrow> product_dto \<Rightarrow> string \<Rightarrow> product_row handler" where
  "updateProduct pid d uid =
     bind_act (own_listing ''update'' pid uid) (\<lambda>p.
     bind_act (lift_res (case pd_variants d of None \<Rightarrow> Inr None
         | Some v \<Rightarrow> (case validateAndNormalizeSellerVariants (Some v) of Inl e \<Rightarrow> Inl e | Inr nv \<Rightarrow> Inr (Some nv)))) (\<lambda>norm.
     bind_act (lift_res (dto_status d)) (\<lambda>status.
     let base = apply_product d status p;
         p' = (case norm of None \<Rightarrow> base | Some nv \<Rightarrow> apply_variants nv base)
     in seq_act (writes (\<lambda>w. w\<lparr>products := tput pid p' (products w)\<rparr>)) (ret p'))))"

text \<open>An ordered product is held by its order items; the streams that show it lose it with the row.\<close>

definition ordered_product :: "world \<Rightarrow> string \<Rightarrow> bool" where
  "ordered_product w pid \<longleftrightarrow> list_ex (\<lambda>o1. list_ex (\<lambda>it. oi_productId it = pid) (o_items o1)) (trows (orders w))"

definition delete_product_w :: "string \<Rightarrow> world \<Rightarrow> world" where
  "delete_product_w pid w = w\<lparr>products := tdel pid (products w),
     streams := map (\<lambda>(k, st). (k, st\<lparr>st_products := filter (\<lambda>q. q \<noteq> pid) (st_products st)\<rparr>)) (streams w)\<rparr>"

definition removeProduct :: "string \<Rightarrow> string \<Rightarrow> product_row handler" where
  "removeProduct pid uid =
     bind_act (own_listing ''delete'' pid uid) (\<lambda>p.
     bind_act (reads (\<lambda>w. ordered_product w pid)) (\<lambda>held.
     if held then throw (Crash ''P2003'') else seq_act (writes (delete_product_w pid)) (ret p)))"

definition listing_tab :: "string option \<Rightarrow> product_row \<Rightarrow> bool" where
  "listing_tab tab p \<longleftrightarrow>
     (if tab = Some ''active'' then p_status p = PS_ACTIVE \<and> 0 < p_stock p
      else if tab = Some ''out_of_stock'' then p_status p = PS_OUT_OF_STOCK \<or> (p_status p = PS_ACTIVE \<and> p_stock p = 0)
      else if tab = Some ''draft'' then p_status p = PS_DRAFT else True)"

definition my_listings :: "world \<Rightarrow> string \<Rightarrow> string option \<Rightarrow> string option \<Rightarrow> product_row list" where
  "my_listings w uid search tab =
     newest_first p_createdAt (filter (\<lambda>p.
       (case tget (sellers w) (p_sellerId p) of None \<Rightarrow> False | Some s1 \<Rightarrow> s_userId s1 = uid) \<and>
       (case nonempty (opt_trim search) of None \<Rightarrow> True | Some q \<Rightarrow> contains_ci (p_name p) q) \<and>
       listing_tab tab p) (trows (products w)))"

definition findMyProducts ::
    "string \<Rightarrow> int option \<Rightarrow> int option \<Rightarrow> string option \<Rightarrow> string option \<Rightarrow> product_row page handler" where
  "findMyProducts uid page limit search tab =
     reads (\<lambda>w. paginate (page_no page) (page_limit limit) id (my_listings w uid search tab))"

section \<open>Categories\<close>

datatype form_kind = Fashion | Electronics | General

text \<open>\<open>locale_le\<close> is \<open>a.localeCompare(b) <= 0\<close>; a list is sorted by insertion, which is stable.\<close>

fun insert_by :: "('a \<Rightarrow> 'a \<Rightarrow> bool) \<Rightarrow> 'a \<Rightarrow> 'a list \<Rightarrow> 'a list" where
  "insert_by le x [] = [x]"
| "insert_by le x (y # ys) = (if le x y then x # y # ys else y # insert_by le x ys)"

definition sort_by :: "('a \<Rightarrow> 'a \<Rightarrow> bool) \<Rightarrow> 'a list \<Rightarrow> 'a list" where
  "sort_by le xs = foldr (insert_by le) xs []"

definition findAllCategories :: "(string \<Rightarrow> string \<Rightarrow> bool) \<Rightarrow> category_row list handler" where
  "findAllCategories db_le = reads (\<lambda>w. sort_by (\<lambda>a b. db_le (c_name a) (c_name b)) (trows (categories w)))"

text \<open>\<open>parent\<close> gives the parent of a category id, a column the rows do not carry.\<close>

definition findCategory :: "(string \<Rightarrow> string option) \<Rightarrow> string \<Rightarrow> (category_row \<times> category_row list) handler" where
  "findCategory parent cid =
     bind_act (reads (\<lambda>w. tget (categories w) cid)) (\<lambda>row.
     case row of None \<Rightarrow> throw (NotFound ''Category not found'')
     | Some c \<Rightarrow> reads (\<lambda>w. (c, filter (\<lambda>k. parent (c_id k) = Some cid) (trows (categories w)))))"

definition classifySlug :: "string \<Rightarrow> form_kind" where
  "classifySlug slug =
     (let s = to_lower slug
      in if list_ex (str_includes s) [''electronic'', ''mobile'', ''computer'', ''gadget'', ''phone'', ''laptop'',
              ''audio'', ''tv'', ''camera''] then Electronics
         else if list_ex (str_includes s) [''fashion'', ''apparel'', ''clothing'', ''beauty'', ''footwear'', ''jewel'',
              ''bag'', ''accessories''] then Fashion
         else General)"

definition staticBrands :: "form_kind \<Rightarrow> string list" where
  "staticBrands kind =
     (case kind of
        Electronics \<Rightarrow> [''Samsung'', ''Apple'', ''Sony'', ''LG'', ''OnePlus'', ''Xiaomi'', ''Realme'', ''HP'', ''Dell'',
          ''Lenovo'', ''Boat'', ''JBL'']
      | Fashion \<Rightarrow> [''Zara'', ''H&M'', ''Mango'', ''FabIndia'', ''Biba'', ''Manyavar'', ''Puma'', ''Nike'', ''Adidas'']
      | General \<Rightarrow> [])"

definition attributeHints :: "form_kind \<Rightarrow> (string \<times> string) list" where
  "attributeHints kind =
     (case kind of
        Electronics \<Rightarrow> [(''processor'', ''Processor / SoC''), (''ram'', ''RAM''), (''storage'', ''Storage''),
          (''display'', ''Display''), (''battery'', ''Battery''), (''warranty'', ''Warranty'')]
      | Fashion \<Rightarrow> [(''fabricCare'', ''Fabric care''), (''fit'', ''Fit''), (''pattern'', ''Pattern'')]
      | General \<Rightarrow> [(''notes'', ''Additional notes'')])"

datatype brands_source = StaticBrands | ExternalBrands | MixedBrands

record category_metadata =
  cm_slug :: string
  cm_formKind :: form_kind
  cm_brands :: "string list"
  cm_attributeHints :: "(string \<times> string) list"
  cm_brandsSource :: brands_source

text \<open>\<open>replace(/\s+/g, '-')\<close>\<close>

fun dash_spaces :: "bool \<Rightarrow> string \<Rightarrow> string" where
  "dash_spaces after [] = []"
| "dash_spaces after (c # cs) =
     (if is_space c then (if after then dash_spaces True cs else CHR ''-'' # dash_spaces True cs)
      else c # dash_spaces False cs)"

text \<open>\<open>api\<close> is the answer of the brand service: the brands of its products, or \<open>None\<close> when it fails.\<close>

definition getMetadata ::
    "(string \<Rightarrow> string \<Rightarrow> bool) \<Rightarrow> string option list option \<Rightarrow> string option \<Rightarrow> category_metadata" where
  "getMetadata locale_le api slug =
     (let normalized = dash_spaces False (to_lower (str_or slug ''general''));
          kind = classifySlug normalized; static = staticBrands kind;
          fromApi = (case api of None \<Rightarrow> [] | Some bs \<Rightarrow> List.map_filter (\<lambda>b. nonempty (opt_trim b)) bs);
          merged = js_set (static @ fromApi)
      in \<lparr> cm_slug = normalized, cm_formKind = kind, cm_brands = sort_by locale_le merged,
           cm_attributeHints = attributeHints kind,
           cm_brandsSource = (if fromApi = [] then StaticBrands
             else if length static < length merged then MixedBrands else ExternalBrands) \<rparr>)"

section \<open>Facts\<close>

text \<open>The three tabs of a listing never overlap, and with stock never negative they hold every product.\<close>

lemma tabs_disjoint:
  "\<not> (listing_tab (Some ''active'') p \<and> listing_tab (Some ''out_of_stock'') p)"
  "\<not> (listing_tab (Some ''active'') p \<and> listing_tab (Some ''draft'') p)"
  "\<not> (listing_tab (Some ''out_of_stock'') p \<and> listing_tab (Some ''draft'') p)"
  by (auto simp: listing_tab_def)

lemma tabs_cover:
  "0 \<le> p_stock p \<Longrightarrow> listing_tab (Some ''active'') p \<or> listing_tab (Some ''out_of_stock'') p \<or> listing_tab (Some ''draft'') p"
  by (cases "p_status p") (auto simp: listing_tab_def)

lemma wp_findProduct [wp_simps]:
  "wp (findProduct pid) Q w = (case tget (products w) pid of None \<Rightarrow> Q (Inl no_product) w
     | Some p \<Rightarrow> Q (Inr (p, tget (sellers w) (p_sellerId p))) w)"
  by (cases "tget (products w) pid") (simp_all add: findProduct_def wp_simps)

definition owner :: "world \<Rightarrow> product_row \<Rightarrow> string option" where
  "owner w p = map_option s_userId (tget (sellers w) (p_sellerId p))"

lemma wp_own_listing [wp_simps]:
  "wp (own_listing verb pid uid) Q w = (case tget (products w) pid of None \<Rightarrow> Q (Inl no_product) w
     | Some p \<Rightarrow> if owner w p = None then Q (Inl missing_row) w
                 else if owner w p \<noteq> Some uid then Q (Inl (Forbidden (''You can only '' @ verb @ '' your own products''))) w
                 else Q (Inr p) w)"
  by (cases "tget (products w) pid"; cases "tget (sellers w) (p_sellerId (the (tget (products w) pid)))")
    (auto simp: own_listing_def owner_def wp_simps)

text \<open>Only the seller of a product changes it; a request that fails changes nothing; an update keeps the
  seller, the id and the age; with variants the price and the stock are those of the variants.\<close>

lemma updateProduct_owner:
  "wp (updateProduct pid d uid) (\<lambda>r w'. (isl r \<longrightarrow> w' = w) \<and>
     (\<forall>p'. r = Inr p' \<longrightarrow> (\<exists>p. tget (products w) pid = Some p \<and> owner w p = Some uid \<and>
        p_id p' = p_id p \<and> p_sellerId p' = p_sellerId p \<and> p_createdAt p' = p_createdAt p \<and>
        w' = w\<lparr>products := tput pid p' (products w)\<rparr>))) w"
proof (cases "tget (products w) pid")
  case (Some p)
  have kept: "p_id (apply_product d st p) = p_id p" "p_sellerId (apply_product d st p) = p_sellerId p"
    "p_createdAt (apply_product d st p) = p_createdAt p" "p_id (apply_variants nv q) = p_id q"
    "p_sellerId (apply_variants nv q) = p_sellerId q" "p_createdAt (apply_variants nv q) = p_createdAt q" for st nv q
    by (simp_all add: apply_product_def apply_variants_def)
  show ?thesis
    by (cases "pd_variants d"; cases "dto_status d"; cases "validateAndNormalizeSellerVariants (pd_variants d)")
      (simp_all add: updateProduct_def wp_simps Some Let_def kept)
qed (simp add: updateProduct_def wp_simps)

lemma updateProduct_variants:
  assumes "pd_variants d = Some v" "validateAndNormalizeSellerVariants (Some v) = Inr nv"
  shows "wp (updateProduct pid d uid) (\<lambda>r w'. \<forall>p'. r = Inr p' \<longrightarrow>
     p_price p' = nv_minPrice nv \<and> p_stock p' = nv_totalStock nv \<and> p_variants p' = nv_json nv) w"
  by (cases "tget (products w) pid"; cases "dto_status d")
    (simp_all add: updateProduct_def wp_simps assms Let_def apply_variants_def)

lemma removeProduct_held:
  "ordered_product w pid \<Longrightarrow> wp (removeProduct pid uid) (\<lambda>r w'. isl r \<and> w' = w) w"
  by (cases "tget (products w) pid") (simp_all add: removeProduct_def wp_simps)

text \<open>The brands of a category come sorted, each once, and hold the built-in ones whatever the network says.\<close>

lemma set_insert_by [simp]: "set (insert_by le x xs) = insert x (set xs)"
  by (induction xs) auto

lemma set_sort_by [simp]: "set (sort_by le xs) = set xs"
  unfolding sort_by_def by (induction xs) simp_all

lemma distinct_insert_by: "distinct xs \<Longrightarrow> x \<notin> set xs \<Longrightarrow> distinct (insert_by le x xs)"
  by (induction xs) auto

lemma distinct_sort_by: "distinct xs \<Longrightarrow> distinct (sort_by le xs)"
proof (induction xs)
  case (Cons x xs)
  then have "x \<notin> set (sort_by le xs)" by simp
  with Cons show ?case by (simp add: sort_by_def distinct_insert_by)
qed (simp add: sort_by_def)

lemma metadata_brands:
  "distinct (cm_brands (getMetadata le api slug))"
  "set (staticBrands (cm_formKind (getMetadata le api slug))) \<subseteq> set (cm_brands (getMetadata le api slug))"
  by (simp_all add: getMetadata_def Let_def distinct_sort_by)

end
