(* ===== verification/Mail.thy ===== *)
theory Mail
  imports Storage OrderQueries OrderViews
begin

text \<open>
  Mail: src/src/mail/mail.service.ts with its choice of provider and sender, the snapshot of a shipping
  address taken apart (templates/shipping-address.util.ts), and the mails of a placed order
  (order-notification.service.ts, templates/order-email.template.ts). The two providers are the
  parameters of \<open>mail_env\<close>: each accepts a letter or rejects it with a message. A letter is its plain text;
  the HTML rendering of the same data is not modelled. Number and date formats of the locale \<open>en-IN\<close> are
  parameters.
\<close>

section \<open>Providers\<close>

record mail_env =
  me_cfg :: "string \<Rightarrow> string option"
  me_resend :: "letter \<Rightarrow> string option" \<comment> \<open>the refusal of the HTTP provider, if any\<close>
  me_smtp :: "letter \<Rightarrow> string option"

definition me_text :: "mail_env \<Rightarrow> string \<Rightarrow> string option" where
  "me_text me k = nonempty (opt_trim (me_cfg me k))"

text \<open>\<open>config.get(k1)?.trim() || \<dots> || d\<close>\<close>

fun first_setting :: "mail_env \<Rightarrow> string list \<Rightarrow> string \<Rightarrow> string" where
  "first_setting me [] d = d"
| "first_setting me (k # ks) d = (case me_text me k of Some v \<Rightarrow> v | None \<Rightarrow> first_setting me ks d)"

definition handed :: "string option \<Rightarrow> letter \<Rightarrow> unit handler" where
  "handed refusal l = (case refusal of Some e \<Rightarrow> throw (Crash e) | None \<Rightarrow> writes (send_mail (Letter l)))"

text \<open>An SMTP host that is missing or looks like an address is no host.\<close>

definition smtp_host :: "mail_env \<Rightarrow> string option" where
  "smtp_host me = (case me_text me ''MAIL_HOST'' of None \<Rightarrow> None
     | Some h \<Rightarrow> if str_includes h ''@'' then None else Some h)"

definition supportFrom :: "mail_env \<Rightarrow> string" where
  "supportFrom me = first_setting me [''CONTACT_EMAIL'', ''MAIL_FROM''] ''Vybekart <contact@vybekart.co.in>''"

definition opsFrom :: "mail_env \<Rightarrow> string" where
  "opsFrom me = first_setting me [''SUPPORT_EMAIL'', ''MAIL_FROM''] ''Vybekart Support <support@vybekart.co.in>''"

definition noreplyFrom :: "mail_env \<Rightarrow> string" where
  "noreplyFrom me = ''Vybekart <'' @ first_setting me [''NOREPLY_EMAIL''] ''noreply@vybekart.co.in'' @ ''>''"

text \<open>The HTTP provider when it has a key, else SMTP, else the mail is dropped with a log entry.\<close>

definition mail_send :: "mail_env \<Rightarrow> letter \<Rightarrow> unit handler" where
  "mail_send me l =
     (if me_text me ''RESEND_API_KEY'' \<noteq> None then handed (me_resend me l) l
      else if smtp_host me = None then ret ()
      else handed (me_smtp me l) l)"

definition letter_to :: "string \<Rightarrow> string \<Rightarrow> string \<Rightarrow> string \<Rightarrow> letter" where
  "letter_to from dest subject body =
     \<lparr> lt_from = from, lt_to = dest, lt_subject = subject, lt_text = Some body, lt_replyTo = None, lt_attachments = [] \<rparr>"

definition sendToSupport :: "mail_env \<Rightarrow> string \<Rightarrow> string \<Rightarrow> unit handler" where
  "sendToSupport me subject body =
     mail_send me (letter_to (opsFrom me) (first_setting me [''SUPPORT_EMAIL''] ''support@vybekart.co.in'') subject body)"

definition sendToBuyer :: "mail_env \<Rightarrow> string \<Rightarrow> string \<Rightarrow> string \<Rightarrow> unit handler" where
  "sendToBuyer me dest subject body = mail_send me (letter_to (supportFrom me) dest subject body)"

definition sendTransactional :: "mail_env \<Rightarrow> string \<Rightarrow> string \<Rightarrow> string \<Rightarrow> unit handler" where
  "sendTransactional me dest subject body = mail_send me (letter_to (noreplyFrom me) dest subject body)"

text \<open>templates/vybekart-email-layout.ts: five replacements, the ampersand first.\<close>

fun escapeHtml :: "string \<Rightarrow> string" where
  "escapeHtml [] = []"
| "escapeHtml (c # cs) =
     (if c = CHR ''&'' then ''&amp;'' else if c = CHR ''<'' then ''&lt;'' else if c = CHR ''>'' then ''&gt;''
      else if c = CHR 0x22 then ''&quot;'' else if c = CHR 0x27 then ''&#39;'' else [c]) @ escapeHtml cs"

section \<open>Shipping addresses\<close>

definition looksLikePhone :: "string \<Rightarrow> bool" where
  "looksLikePhone v \<longleftrightarrow> (let n = length (filter is_digit v) in 8 \<le> n \<and> n \<le> 15)"

record shipping_parts =
  sh_contactName :: "string option"
  sh_phone :: "string option"
  sh_addressLine :: string

definition text_lines :: "string \<Rightarrow> string list" where
  "text_lines s = filter (\<lambda>l. l \<noteq> []) (map trim (split_on (CHR 0x0A) s))"

definition parseShippingAddressSnapshot :: "string option \<Rightarrow> shipping_parts" where
  "parseShippingAddressSnapshot raw =
     (let trimmed = str_or (opt_trim raw) []
      in if trimmed = [] \<or> trimmed = ''-'' then \<lparr>sh_contactName = None, sh_phone = None, sh_addressLine = ''-''\<rparr>
         else case text_lines trimmed of
           [l] \<Rightarrow> if looksLikePhone l then \<lparr>sh_contactName = None, sh_phone = Some l, sh_addressLine = ''-''\<rparr>
                  else \<lparr>sh_contactName = None, sh_phone = None, sh_addressLine = l\<rparr>
         | ls \<Rightarrow>
             (let name = (case ls of l # _ \<Rightarrow> if looksLikePhone l then None else Some l | [] \<Rightarrow> None);
                  rest = (if name = None then ls else tl ls);
                  phone = (case rest of l # _ \<Rightarrow> if looksLikePhone l then Some l else None | [] \<Rightarrow> None);
                  rest' = (if phone = None then rest else tl rest)
              in \<lparr>sh_contactName = name, sh_phone = phone, sh_addressLine = str_or (Some (join '', '' rest')) ''-''\<rparr>))"

section \<open>The mails of a placed order\<close>

text \<open>common/utils/public-base-url.ts; \<open>env\<close> are the variables of the process.\<close>

definition publicBaseUrl :: "mail_env \<Rightarrow> (string \<Rightarrow> string option) \<Rightarrow> string" where
  "publicBaseUrl me env =
     (case List.map_filter (\<lambda>x. nonempty (opt_trim x))
        [me_cfg me ''API_PUBLIC_URL'', me_cfg me ''RENDER_EXTERNAL_URL'', env ''API_PUBLIC_URL'', env ''RENDER_EXTERNAL_URL''] of
        [] \<Rightarrow> ''http://localhost:3000'' | u # _ \<Rightarrow> strip_slash u)"

definition is_web_url :: "string \<Rightarrow> bool" where
  "is_web_url s \<longleftrightarrow> starts_with ''http://'' (to_lower s) \<or> starts_with ''https://'' (to_lower s)"

definition drop_slash :: "string \<Rightarrow> string" where
  "drop_slash s = (if starts_with ''/'' s then tl s else s)"

definition resolveProductImageUrl :: "mail_env \<Rightarrow> (string \<Rightarrow> string option) \<Rightarrow> string option \<Rightarrow> string" where
  "resolveProductImageUrl me env raw =
     (let s = str_or (opt_trim raw) []; base = publicBaseUrl me env
      in if s = [] then [] else if is_web_url s then s
         else if starts_with ''/uploads/'' s then base @ s
         else if starts_with ''uploads/'' s then base @ ''/'' @ s
         else if starts_with ''/'' s then base @ s
         else case nonempty (map_option strip_slash (me_cfg me ''SUPABASE_URL'')) of
             Some u \<Rightarrow> u @ ''/storage/v1/object/public/'' @
               encodeURIComponent (first_setting me [''SUPABASE_PUBLIC_BUCKET''] ''Vybekart'') @ ''/'' @ drop_slash s
           | None \<Rightarrow> base @ ''/uploads/'' @ drop_slash s)"

record mail_item =
  el_productName :: string
  el_variantLabel :: "string option"
  el_quantity :: int
  el_unitPrice :: num
  el_lineTotal :: num
  el_imageUrl :: string

record order_email =
  oe_orderId :: string
  oe_orderShortId :: string
  oe_status :: order_status
  oe_placedAt :: string
  oe_paymentMethod :: string
  oe_paymentReference :: "string option"
  oe_shippingAddress :: string
  oe_shipping :: shipping_parts
  oe_streamTitle :: "string option"
  oe_subtotal :: num
  oe_deliveryFee :: num
  oe_totalAmount :: num
  oe_deliveryProvider :: "string option"
  oe_buyerName :: string
  oe_sellerBusinessName :: string
  oe_items :: "mail_item list"

record locale_formats =
  lo_inr :: "num \<Rightarrow> string" \<comment> \<open>\<open>formatInr\<close>\<close>
  lo_placedAt :: "int \<Rightarrow> string" \<comment> \<open>\<open>toLocaleString('en-IN', \<dots>)\<close> in the Indian time zone\<close>
  lo_longDate :: "int \<Rightarrow> string" \<comment> \<open>\<open>toLocaleDateString('en-IN', \<dots>)\<close> with the month's name\<close>

definition item_product :: "world \<Rightarrow> order_item_row \<Rightarrow> product_row option" where
  "item_product w it = tget (products w) (oi_productId it)"

definition line_amount :: "order_item_row \<Rightarrow> num" where
  "line_amount it = nmul (oi_price it) (of_int (oi_quantity it))"

definition email_line :: "mail_env \<Rightarrow> (string \<Rightarrow> string option) \<Rightarrow> order_item_row \<Rightarrow> product_row \<Rightarrow> mail_item" where
  "email_line me env it p = \<lparr> el_productName = p_name p, el_variantLabel = oi_variantLabel it,
     el_quantity = oi_quantity it, el_unitPrice = oi_price it, el_lineTotal = line_amount it,
     el_imageUrl = resolveProductImageUrl me env (case p_images p of [] \<Rightarrow> None | u # _ \<Rightarrow> Some u) \<rparr>"

definition order_buyer_user :: "world \<Rightarrow> order_row \<Rightarrow> user_row option" where
  "order_buyer_user w o1 =
     Option.bind (o_buyerId o1) (\<lambda>bid. Option.bind (tget (buyers w) bid) (\<lambda>b. tget (users w) (b_userId b)))"

definition order_seller :: "world \<Rightarrow> order_row \<Rightarrow> seller_row option" where
  "order_seller w o1 = (case o_items o1 of [] \<Rightarrow> None
     | it # _ \<Rightarrow> Option.bind (item_seller w it) (tget (sellers w)))"

definition buildPayload ::
    "mail_env \<Rightarrow> (string \<Rightarrow> string option) \<Rightarrow> locale_formats \<Rightarrow> world \<Rightarrow> order_row \<Rightarrow> order_email" where
  "buildPayload me env lo w o1 =
     (let snapshot = str_or (opt_trim (o_shippingAddress o1)) ''-''
      in \<lparr> oe_orderId = o_id o1, oe_orderShortId = to_upper (last_chars 8 (o_id o1)), oe_status = o_status o1,
           oe_placedAt = lo_placedAt lo (o_createdAt o1),
           oe_paymentMethod = (if truthy (o_razorpayPaymentId o1) then ''Razorpay'' else ''Online''),
           oe_paymentReference = o_razorpayPaymentId o1, oe_shippingAddress = snapshot,
           oe_shipping = parseShippingAddressSnapshot (Some snapshot),
           oe_streamTitle = Option.bind (o_streamId o1) (\<lambda>sid. map_option st_title (tget (streams w) sid)),
           oe_subtotal = foldl (\<lambda>s it. nadd s (line_amount it)) 0 (o_items o1),
           oe_deliveryFee = o_deliveryFee o1, oe_totalAmount = o_totalAmount o1,
           oe_deliveryProvider = o_deliveryProvider o1,
           oe_buyerName = str_or (opt_trim (map_option u_name (order_buyer_user w o1))) ''Customer'',
           oe_sellerBusinessName = str_or (opt_trim (map_option s_businessName (order_seller w o1))) ''Seller Partner'',
           oe_items = List.map_filter (\<lambda>it. map_option (email_line me env it) (item_product w it)) (o_items o1) \<rparr>)"

text \<open>The plain texts. A line that is empty is left out of the buyer's mail (\<open>filter(Boolean)\<close>).\<close>

definition when_given :: "string \<Rightarrow> string option \<Rightarrow> string" where
  "when_given label x = (case nonempty x of None \<Rightarrow> [] | Some v \<Rightarrow> label @ v)"

definition item_text :: "locale_formats \<Rightarrow> mail_item \<Rightarrow> string" where
  "item_text lo l = ''- '' @ el_productName l @
     (case nonempty (el_variantLabel l) of None \<Rightarrow> [] | Some v \<Rightarrow> '' ('' @ v @ '')'') @ '' x '' @
     int_digits (el_quantity l) @ '' = '' @ lo_inr lo (el_lineTotal l)"

definition newline :: string where "newline = [CHR 0x0A]"

definition buyer_mail_text :: "locale_formats \<Rightarrow> order_email \<Rightarrow> string" where
  "buyer_mail_text lo o1 =
     join newline (filter (\<lambda>l. l \<noteq> [])
       ([''Hi '' @ oe_buyerName o1 @ '','', [],
         ''Your Vybekart order #'' @ oe_orderShortId o1 @ '' is confirmed.'',
         ''Status: '' @ status_name (oe_status o1), ''Placed: '' @ oe_placedAt o1,
         ''Payment: '' @ oe_paymentMethod o1, when_given ''Reference: '' (oe_paymentReference o1), [],
         when_given ''Recipient: '' (sh_contactName (oe_shipping o1)),
         when_given ''Phone: '' (sh_phone (oe_shipping o1)),
         ''Delivery address: '' @ sh_addressLine (oe_shipping o1), [], ''Items:''] @
        map (item_text lo) (oe_items o1) @
        [[], ''Subtotal: '' @ lo_inr lo (oe_subtotal o1),
         ''Shipping: '' @ (if 0 < oe_deliveryFee o1 then lo_inr lo (oe_deliveryFee o1) else ''Free''),
         ''Total: '' @ lo_inr lo (oe_totalAmount o1)]))"

definition seller_mail_text :: "locale_formats \<Rightarrow> order_email \<Rightarrow> string" where
  "seller_mail_text lo o1 =
     join newline
       ([''Hello '' @ oe_sellerBusinessName o1 @ '','', [],
         ''New paid order #'' @ oe_orderShortId o1 @ '' from '' @ oe_buyerName o1 @ ''.'',
         ''Placed: '' @ oe_placedAt o1, when_given ''Recipient: '' (sh_contactName (oe_shipping o1)),
         when_given ''Phone: '' (sh_phone (oe_shipping o1)),
         ''Delivery address: '' @ sh_addressLine (oe_shipping o1), [], ''Items:''] @
        map (item_text lo) (oe_items o1) @
        [[], ''Total (incl. shipping): '' @ lo_inr lo (oe_totalAmount o1)])"

definition sendOrderPlacedEmailsInternal ::
    "mail_env \<Rightarrow> (string \<Rightarrow> string option) \<Rightarrow> locale_formats \<Rightarrow> string \<Rightarrow> unit handler" where
  "sendOrderPlacedEmailsInternal me env lo oid =
     bind_act (reads (\<lambda>w. tget (orders w) oid)) (\<lambda>order.
     case order of None \<Rightarrow> ret () | Some o1 \<Rightarrow>
     bind_act (reads (\<lambda>w. nonempty (opt_trim (map_option u_email (order_buyer_user w o1))))) (\<lambda>buyerEmail.
     bind_act (reads (\<lambda>w. nonempty (opt_trim (map_option u_email
         (Option.bind (order_seller w o1) (\<lambda>s1. tget (users w) (s_userId s1))))))) (\<lambda>sellerEmail.
     if buyerEmail = None \<and> sellerEmail = None then ret () else
     bind_act (reads (\<lambda>w. buildPayload me env lo w o1)) (\<lambda>payload.
     seq_act
       (case buyerEmail of None \<Rightarrow> ret () | Some e \<Rightarrow>
          sendTransactional me e (''Order confirmed - #'' @ oe_orderShortId payload @ '' | Vybekart'')
            (buyer_mail_text lo payload))
       (case sellerEmail of None \<Rightarrow> ret () | Some e \<Rightarrow>
          sendTransactional me e (''New order - #'' @ oe_orderShortId payload @ '' | Vybekart Seller'')
            (seller_mail_text lo payload))))))"

definition sendOrderPlacedEmails ::
    "mail_env \<Rightarrow> (string \<Rightarrow> string option) \<Rightarrow> locale_formats \<Rightarrow> string \<Rightarrow> unit handler" where
  "sendOrderPlacedEmails me env lo oid =
     catching (sendOrderPlacedEmailsInternal me env lo oid) (\<lambda>_. ret ())"

section \<open>Facts\<close>

text \<open>Escaped text has none of the five characters that HTML gives a meaning, the ampersand apart.\<close>

lemma escaped_harmless: "c \<in> {CHR ''<'', CHR ''>'', CHR 0x22, CHR 0x27} \<Longrightarrow> c \<notin> set (escapeHtml s)"
  by (induction s) (auto split: if_splits)

lemma wp_handed [wp_simps]:
  "wp (handed r l) Q w = (case r of Some e \<Rightarrow> Q (Inl (Crash e)) w | None \<Rightarrow> Q (Inr ()) (send_mail (Letter l) w))"
  by (cases r) (simp_all add: handed_def wp_simps)

lemma wp_mail_send [wp_simps]:
  "wp (mail_send me l) Q w =
     (if me_text me ''RESEND_API_KEY'' \<noteq> None then wp (handed (me_resend me l) l) Q w
      else if smtp_host me = None then Q (Inr ()) w else wp (handed (me_smtp me l) l) Q w)"
  by (simp add: mail_send_def wp_simps)

text \<open>A mail is handed over once or not at all, and nothing else changes.\<close>

definition at_most_mail :: "letter \<Rightarrow> world \<Rightarrow> world \<Rightarrow> bool" where
  "at_most_mail l w w' \<longleftrightarrow> w' = w \<or> w' = send_mail (Letter l) w"

lemma mail_send_once: "wp (mail_send me l) (\<lambda>r w'. at_most_mail l w w' \<and> (isl r \<longrightarrow> w' = w)) w"
  by (auto simp: wp_simps at_most_mail_def split: option.split)

text \<open>The order mails never fail, and touch only the outbox.\<close>

definition only_mails :: "world \<Rightarrow> world \<Rightarrow> bool" where
  "only_mails w w' \<longleftrightarrow> (\<exists>ms. w' = w\<lparr>outbox := outbox w @ ms\<rparr>)"

lemma only_mails_refl [simp]: "only_mails w w"
  unfolding only_mails_def by (rule exI[of _ "[]"]) simp

lemma only_mails_send: "only_mails w v \<Longrightarrow> only_mails w (send_mail m v)"
  by (auto simp: only_mails_def send_mail_def)

lemma keeps_only_mails [keeps_rules]: "keeps (only_mails w) (mail_send me l)"
  by (rule keepsI) (auto simp: wp_simps only_mails_send split: option.split)

lemma keeps_transactional [keeps_rules]: "keeps (only_mails w) (sendTransactional me d s b)"
  unfolding sendTransactional_def by (rule keeps_only_mails)

lemma keeps_order_mails: "keeps (only_mails w) (sendOrderPlacedEmails me env lo oid)"
  unfolding sendOrderPlacedEmails_def sendOrderPlacedEmailsInternal_def by (intro keeps_rules)

lemma order_mails_quiet:
  "wp (sendOrderPlacedEmails me env lo oid) (\<lambda>r w'. r = Inr () \<and> only_mails w w') w"
proof -
  have "wp (sendOrderPlacedEmails me env lo oid) (\<lambda>r w'. r = Inr ()) w"
    unfolding sendOrderPlacedEmails_def wp_catching by (rule wpI) (simp add: wp_ret split: sum.split)
  then show ?thesis unfolding wp_conj using keeps_wp[OF keeps_order_mails only_mails_refl] by blast
qed

end
