(* ===== verification/Support.thy ===== *)
theory Support
  imports Mail Calendar Accounts
begin

text \<open>
  Support, src/src/support/support.service.ts: questions and contacts, tickets, and the mails that carry
  feedback and concerns; and the mail that announces a new seller
  (src/src/auth/seller-registration-notifier.service.ts). A message is saved as a ticket first, then mailed
  on a best effort: through the HTTP provider if it has a key, else through SMTP. The plain texts are
  modelled, the HTML versions of the same rows are not. The id of a new ticket is an argument.
\<close>

section \<open>Contacts and escalation\<close>

definition getFaqs :: "faq_row list handler" where
  "getFaqs = reads (\<lambda>w. sort_key fq_sortOrder (faqs w))"

record contact =
  ct_name :: string
  ct_phone :: string
  ct_email :: string

definition setting_or :: "mail_env \<Rightarrow> string \<Rightarrow> string \<Rightarrow> string" where
  \<comment> \<open>\<open>config.get(k) ?? d\<close>\<close>
  "setting_or me k d = dflt d (me_cfg me k)"

definition getAccountManagerContact :: "mail_env \<Rightarrow> contact" where
  "getAccountManagerContact me =
     \<lparr> ct_name = setting_or me ''SUPPORT_ACCOUNT_MANAGER_NAME'' ''Support Team'',
       ct_phone = setting_or me ''SUPPORT_ACCOUNT_MANAGER_PHONE'' [],
       ct_email = setting_or me ''SUPPORT_ACCOUNT_MANAGER_EMAIL'' ''support@vybekart.com'' \<rparr>"

definition escalation_level :: "int \<Rightarrow> string \<Rightarrow> string \<Rightarrow> string \<Rightarrow> string \<Rightarrow> json" where
  "escalation_level level title description contactName contactEmail =
     JObj [(''level'', JNum (of_int level)), (''title'', JStr title), (''description'', JStr description),
       (''contactName'', JStr contactName), (''contactEmail'', JStr contactEmail)]"

definition defaultEscalationLevels :: "json list" where
  "defaultEscalationLevels =
     [escalation_level 1 ''Zonal head''
        (''The Zonal head is in charge of a zone'' @ [CHR 0x27] @
         ''s relationships and growth, and should be able to respond to your concerns quickly.'')
        ''Zonal head'' ''zonal@vybekart.com'',
      escalation_level 2 ''City CEO'' ''If your concern is still unresolved, highlight it to the City CEO.''
        ''City CEO'' ''city-ceo@vybekart.com'',
      escalation_level 3 ''Vybekart'' ''If your concern is still unresolved, highlight it to Vybekart.''
        ''Vybekart'' ''support@vybekart.com'']"

text \<open>\<open>parse\<close> is \<open>JSON.parse\<close>, \<open>None\<close> when it throws. Anything but an array gives the built-in levels, and so does
  the built-in text when nothing is configured.\<close>

definition getEscalationLevels :: "(string \<Rightarrow> json option) \<Rightarrow> mail_env \<Rightarrow> json list" where
  "getEscalationLevels parse me =
     (case me_cfg me ''SUPPORT_ESCALATION_LEVELS_JSON'' of
        None \<Rightarrow> defaultEscalationLevels
      | Some raw \<Rightarrow> (case parse raw of Some (JArr levels) \<Rightarrow> levels | _ \<Rightarrow> defaultEscalationLevels))"

section \<open>Tickets\<close>

record ticket =
  ti_id :: string
  ti_subject :: string
  ti_createdAt :: int

definition create_ticket :: "string \<Rightarrow> string \<Rightarrow> string \<Rightarrow> string \<Rightarrow> ticket handler" where
  "create_ticket uid subject message tid =
     bind_act (reads clock) (\<lambda>now.
     seq_act (writes (\<lambda>w. w\<lparr>tickets := tickets w @
         [\<lparr> tk_userId = uid, tk_subject = subject, tk_message = message, tk_createdAt = now \<rparr>]\<rparr>))
       (ret \<lparr> ti_id = tid, ti_subject = subject, ti_createdAt = now \<rparr>))"

definition reportIssue :: "string \<Rightarrow> string \<Rightarrow> string \<Rightarrow> string \<Rightarrow> ticket handler" where
  "reportIssue uid subject message tid = create_ticket uid subject message tid"

section \<open>Feedback\<close>

datatype feedback_from = FromBuyer | FromSeller

record feedback_dto =
  fb_subject :: "string option"
  fb_message :: string
  fb_role :: "string option"

definition feedback_valid :: "feedback_dto \<Rightarrow> bool" where
  "feedback_valid d \<longleftrightarrow> (case fb_subject d of None \<Rightarrow> True | Some s \<Rightarrow> 3 \<le> length s \<and> length s \<le> 200) \<and>
     10 \<le> length (fb_message d) \<and> length (fb_message d) \<le> 5000 \<and>
     (case fb_role d of None \<Rightarrow> True | Some r \<Rightarrow> r \<in> {''buyer'', ''seller''})"

definition feedback_role :: "feedback_dto \<Rightarrow> feedback_from" where
  "feedback_role d = (if fb_role d = Some ''seller'' then FromSeller else FromBuyer)"

definition default_topic :: "feedback_from \<Rightarrow> string" where
  "default_topic role = (case role of FromSeller \<Rightarrow> ''Seller partner app feedback'' | FromBuyer \<Rightarrow> ''Shopper app feedback'')"

definition role_tag :: "feedback_from \<Rightarrow> string" where
  "role_tag role = (case role of FromSeller \<Rightarrow> ''seller'' | FromBuyer \<Rightarrow> ''buyer'')"

definition appFeedbackTicketRef :: "string \<Rightarrow> string" where
  "appFeedbackTicketRef tid = to_upper (take 10 (filter (\<lambda>c. c \<noteq> CHR ''-'') tid))"

text \<open>Rows of the mail about who writes: labels and values.\<close>

definition common_rows :: "user_row \<Rightarrow> (string \<times> string) list" where
  "common_rows u = [(''User ID'', u_id u), (''Name'', u_name u), (''Email'', u_email u), (''Phone'', dflt ''-'' (u_phone u))]"

definition buildBuyerFeedbackMetaRows :: "world \<Rightarrow> string \<Rightarrow> (string \<times> string) list" where
  "buildBuyerFeedbackMetaRows w uid =
     (case tget (users w) uid of
        None \<Rightarrow> [(''User ID'', uid @ '' (record not found)'')]
      | Some u \<Rightarrow> [(''Role'', ''Shopper (buyer app)'')] @ common_rows u @
          [(''Buyer profile'', if buyer_of_user w uid \<noteq> None then ''Yes'' else ''No''),
           (''Registered'', iso_string (u_createdAt u))])"

definition buildSellerFeedbackMetaRows :: "world \<Rightarrow> string \<Rightarrow> (string \<times> string) list" where
  "buildSellerFeedbackMetaRows w uid =
     (case tget (users w) uid of
        None \<Rightarrow> [(''User ID'', uid @ '' (record not found)'')]
      | Some u \<Rightarrow> [(''Role'', ''Seller partner'')] @ common_rows u @
          [(''Store / business'', dflt ''-'' (map_option s_businessName (seller_of_user w uid))),
           (''Seller profile ID'', dflt ''-'' (map_option s_id (seller_of_user w uid))),
           (''Registered'', iso_string (u_createdAt u))])"

definition feedback_subject :: "feedback_from \<Rightarrow> string \<Rightarrow> string" where
  "feedback_subject role ref = ''VybeKart '' @
     (case role of FromSeller \<Rightarrow> ''Seller partner'' | FromBuyer \<Rightarrow> ''Shopper'') @ '' app feedback | Ref '' @ ref"

definition ensureNonEmptySubject :: "string \<Rightarrow> string \<Rightarrow> feedback_from \<Rightarrow> string" where
  "ensureNonEmptySubject subject ref role =
     (if trim subject \<noteq> [] then trim subject else feedback_subject role ref)"

definition meta_text :: "(string \<times> string) list \<Rightarrow> string" where
  "meta_text rows = join newline (map (\<lambda>(l, v). l @ '': '' @ v) rows)"

definition feedback_text :: "feedback_from \<Rightarrow> ticket \<Rightarrow> string \<Rightarrow> (string \<times> string) list \<Rightarrow> string" where
  "feedback_text role t message rows =
     join newline
       [''VybeKart - '' @ (case role of FromSeller \<Rightarrow> ''Seller partner feedback'' | FromBuyer \<Rightarrow> ''Shopper feedback''), [],
        (case role of FromSeller \<Rightarrow> ''A VybeKart seller partner shared feedback from the partner app.''
         | FromBuyer \<Rightarrow> ''A VybeKart shopper shared feedback from the mobile app.''), [],
        ''Reference: '' @ appFeedbackTicketRef (ti_id t), ''Ticket ID: '' @ ti_id t, ''Category: '' @ default_topic role,
        [], ''--- Submitter ---'', meta_text rows, [], ''--- Message ---'', message, [],
        ''Submitted: '' @ iso_string (ti_createdAt t)]"

text \<open>One attempt through the first provider that is configured; whether the letter went out.\<close>

definition best_effort :: "mail_env \<Rightarrow> letter \<Rightarrow> letter \<Rightarrow> bool handler" where
  "best_effort me via_http via_smtp =
     (if me_text me ''RESEND_API_KEY'' \<noteq> None
      then catching (seq_act (handed (me_resend me via_http) via_http) (ret True)) (\<lambda>_. ret False)
      else if smtp_host me = None then ret False
      else catching (seq_act (handed (me_smtp me via_smtp) via_smtp) (ret True)) (\<lambda>_. ret False))"

definition DEFAULT_FROM :: string where
  "DEFAULT_FROM = ''VybeKart Support <onboarding@resend.dev>''"

definition submitAppFeedback :: "mail_env \<Rightarrow> string \<Rightarrow> feedback_dto \<Rightarrow> string \<Rightarrow> (ticket \<times> bool) handler" where
  "submitAppFeedback me uid d tid =
     (let role = feedback_role d; message = trim (fb_message d)
      in bind_act (create_ticket uid (str_or (opt_trim (fb_subject d)) (default_topic role))
             (''[APP_FEEDBACK|'' @ role_tag role @ '']'' @ newline @ message) tid) (\<lambda>t.
         case nonempty (Some (trim (ct_email (getAccountManagerContact me)))) of None \<Rightarrow> ret (t, False)
         | Some dest \<Rightarrow>
           bind_act (reads (\<lambda>w. tget (users w) uid)) (\<lambda>user.
           bind_act (reads (\<lambda>w. case role of FromSeller \<Rightarrow> buildSellerFeedbackMetaRows w uid
               | FromBuyer \<Rightarrow> buildBuyerFeedbackMetaRows w uid)) (\<lambda>rows.
           let ref = appFeedbackTicketRef (ti_id t);
               l = \<lparr> lt_from = setting_or me ''MAIL_FROM'' DEFAULT_FROM, lt_to = dest,
                     lt_subject = ensureNonEmptySubject (feedback_subject role ref) ref role,
                     lt_text = Some (feedback_text role t message rows),
                     lt_replyTo = Some (str_or (opt_trim (map_option u_email user)) ''noreply@vybekart.com''),
                     lt_attachments = [] \<rparr>
           in bind_act (best_effort me l l) (\<lambda>emailed. ret (t, emailed))))))"

section \<open>Concerns\<close>

record concern_dto =
  cn_toEmail :: string
  cn_toName :: string
  cn_subject :: string
  cn_message :: string
  cn_escalationLevel :: "string option"

definition concern_valid :: "concern_dto \<Rightarrow> bool" where
  "concern_valid d \<longleftrightarrow> 1 \<le> length (cn_toEmail d) \<and> length (cn_toEmail d) \<le> 255 \<and>
     1 \<le> length (cn_toName d) \<and> length (cn_toName d) \<le> 255 \<and> 5 \<le> length (cn_subject d) \<and> length (cn_subject d) \<le> 500 \<and>
     10 \<le> length (cn_message d) \<and> length (cn_message d) \<le> 5000 \<and>
     (case cn_escalationLevel d of None \<Rightarrow> True | Some e \<Rightarrow> length e \<le> 50)"

definition concern_text :: "locale_formats \<Rightarrow> concern_dto \<Rightarrow> string \<Rightarrow> user_row \<Rightarrow> seller_row option \<Rightarrow> string" where
  "concern_text lo d tid u s1 =
     (let name = str_or (Some (u_name u)) ''Seller''
      in join newline (filter (\<lambda>l. l \<noteq> [])
        [''Dear '' @ cn_toName d @ '','', [],
         ''I am writing to bring to your kind attention the following concern submitted through the VybeKart seller support escalation channel.'',
         when_given ''Escalation level: '' (cn_escalationLevel d), ''Reference: Ticket #'' @ tid,
         ''Subject: '' @ cn_subject d, [], ''--- SELLER DETAILS ---'', ''Name: '' @ name, ''Email: '' @ u_email u,
         ''Phone: '' @ str_or (u_phone u) ''-'', ''Business name: '' @ str_or (map_option s_businessName s1) ''-'',
         ''Business address: '' @ str_or (Option.bind s1 s_businessAddress) ''-'',
         ''GST number: '' @ str_or (Option.bind s1 s_gstNumber) ''-'',
         ''Registered on: '' @ lo_longDate lo (u_createdAt u), ''User ID: '' @ u_id u, [],
         ''--- CONCERN / MESSAGE ---'', cn_message d, [],
         ''I request you to look into the matter at the earliest. Please reply to this email for any further information.'',
         [], ''Yours sincerely,'', name, u_email u]))"

definition submitConcern :: "locale_formats \<Rightarrow> mail_env \<Rightarrow> string \<Rightarrow> concern_dto \<Rightarrow> string \<Rightarrow> ticket handler" where
  "submitConcern lo me uid d tid =
     bind_act (create_ticket uid (cn_subject d) (cn_message d) tid) (\<lambda>t.
     case nonempty (Some (trim (cn_toEmail d))) of None \<Rightarrow> ret t
     | Some dest \<Rightarrow>
       bind_act (reads (\<lambda>w. tget (users w) uid)) (\<lambda>user.
       case user of None \<Rightarrow> ret t
       | Some u \<Rightarrow>
         if u_email u = [] then ret t else
         bind_act (reads (\<lambda>w. seller_of_user w uid)) (\<lambda>s1.
         let l = (\<lambda>from. \<lparr> lt_from = from, lt_to = dest, lt_subject = cn_subject d,
                   lt_text = Some (concern_text lo d (ti_id t) u s1), lt_replyTo = Some (u_email u), lt_attachments = [] \<rparr>)
         in seq_act (best_effort me (l (setting_or me ''MAIL_FROM'' DEFAULT_FROM)) (l (u_email u))) (ret t))))"

section \<open>A new seller\<close>

definition registration_rows :: "seller_dto \<Rightarrow> string list \<Rightarrow> (string \<times> string) list" where
  "registration_rows d categoryNames =
     (let p = sd_pickupAddress d; shown = (\<lambda>x. str_or (Some (trim x)) ''-'');
          full = str_or (Some (join '' '' (filter (\<lambda>s. s \<noteq> [])
              [str_or (nm_firstName d) [], str_or (nm_middleName d) [], str_or (nm_lastName d) []])))
            (str_or (nm_name d) ''-'')
      in [(''Section'', ''Create account & identity''), (''Full name'', full), (''Email'', sd_email d),
          (''Phone'', str_or (sd_phone d) []), (''Password'', ''******** (submitted; not stored in email)''), ([], []),
          (''Section'', ''Step 1-2 - Business & store''), (''Business / store name'', sd_businessName d),
          (''GST number'', str_or (opt_trim (sd_gstNumber d)) ''-''),
          (''Store description'', str_or (opt_trim (sd_description d)) ''-''),
          (''Categories'', if categoryNames = [] then ''-'' else join '', '' categoryNames), ([], []),
          (''Section'', ''Step 3 - Pickup address''),
          (''Pickup address'', join newline (filter (\<lambda>l. l \<noteq> [])
             [''Line 1: '' @ pk_line1 p, when_given ''Line 2: '' (pk_line2 p), ''City: '' @ pk_city p,
              ''State: '' @ pk_state p, ''PIN: '' @ pk_zip p])), ([], []),
          (''Section'', ''Step 4 - Banking''), (''Bank name'', shown (sd_bankName d)),
          (''Account holder name'', shown (sd_accountHolderName d)), (''Account type'', shown (sd_accountType d)),
          (''Bank account'', shown (sd_bankAccount d)), (''IFSC'', shown (sd_ifscCode d))])"

definition registration_text :: "(string \<times> string) list \<Rightarrow> string" where
  "registration_text rows =
     join newline (filter (\<lambda>l. l \<noteq> []) (map (\<lambda>(l, v). if l \<noteq> [] \<and> v \<noteq> [] then l @ '': '' @ v else v) rows))"

text \<open>A refusal of the HTTP provider, which gets no plain text, falls back to SMTP, sent in the applicant's name.\<close>

definition notifyNewSellerApplication :: "mail_env \<Rightarrow> seller_dto \<Rightarrow> string list \<Rightarrow> unit handler" where
  "notifyNewSellerApplication me d categoryNames =
     (let l = (\<lambda>from body. \<lparr> lt_from = from,
            lt_to = first_setting me [''SELLER_REGISTRATION_NOTIFY_EMAIL''] ''vybekart88@gmail.com'',
            lt_subject = ''New seller registration - '' @ trim (sd_businessName d), lt_text = body,
            lt_replyTo = Some (trim (sd_email d)), lt_attachments = [] \<rparr>);
          http = l (setting_or me ''MAIL_FROM'' ''VybeKart <onboarding@resend.dev>'') None;
          smtp = l (trim (sd_email d)) (Some (registration_text (registration_rows d categoryNames)))
      in bind_act
           (if me_text me ''RESEND_API_KEY'' \<noteq> None
            then catching (seq_act (handed (me_resend me http) http) (ret True)) (\<lambda>_. ret False) else ret False) (\<lambda>sent.
         if sent \<or> smtp_host me = None then ret ()
         else catching (handed (me_smtp me smtp) smtp) (\<lambda>_. ret ())))"

section \<open>Facts\<close>

lemma wp_best_effort [wp_simps]:
  "wp (best_effort me lh ls) Q w =
     (if me_text me ''RESEND_API_KEY'' \<noteq> None then
        (if me_resend me lh = None then Q (Inr True) (send_mail (Letter lh) w) else Q (Inr False) w)
      else if smtp_host me = None then Q (Inr False) w
      else if me_smtp me ls = None then Q (Inr True) (send_mail (Letter ls) w) else Q (Inr False) w)"
  by (cases "me_resend me lh"; cases "me_smtp me ls") (simp_all add: best_effort_def wp_simps)

lemma wp_create_ticket [wp_simps]:
  "wp (create_ticket uid s m tid) Q w =
     Q (Inr \<lparr> ti_id = tid, ti_subject = s, ti_createdAt = clock w \<rparr>)
       (w\<lparr>tickets := tickets w @ [\<lparr> tk_userId = uid, tk_subject = s, tk_message = m, tk_createdAt = clock w \<rparr>]\<rparr>)"
  by (simp add: create_ticket_def wp_simps)

text \<open>Feedback is never lost: the request succeeds whatever the mail provider does, the ticket with the
  whole message is stored, and \<open>emailed\<close> is told exactly when a letter went out.\<close>

lemma feedback_kept:
  "wp (submitAppFeedback me uid d tid) (\<lambda>r w'. \<exists>t emailed. r = Inr (t, emailed) \<and>
     tickets w' = tickets w @ [\<lparr> tk_userId = uid, tk_subject = ti_subject t,
       tk_message = ''[APP_FEEDBACK|'' @ role_tag (feedback_role d) @ '']'' @ newline @ trim (fb_message d),
       tk_createdAt = clock w \<rparr>] \<and>
     (if emailed then \<exists>l. outbox w' = outbox w @ [Letter l] else outbox w' = outbox w)) w"
  by (cases "nonempty (Some (trim (ct_email (getAccountManagerContact me))))")
    (auto simp: submitAppFeedback_def Let_def wp_simps send_mail_def)

lemma concern_kept:
  "wp (submitConcern lo me uid d tid) (\<lambda>r w'. \<not> isl r \<and>
     tickets w' = tickets w @ [\<lparr> tk_userId = uid, tk_subject = cn_subject d, tk_message = cn_message d,
       tk_createdAt = clock w \<rparr>]) w"
  by (cases "nonempty (Some (trim (cn_toEmail d)))"; cases "tget (users w) uid")
    (auto simp: submitConcern_def Let_def wp_simps send_mail_def)

end
