(* ===== verification/SellerCsv.thy ===== *)
theory SellerCsv
  imports Text
begin

text \<open>
  The list of sellers an administrator uploads for an outreach mail
  (src/src/seller-emails/seller-email-csv.util.ts): the CSV reader as the loop of the code, a step
  function on its local variables iterated while the index is inside the text; the rows it yields; and
  the recipients read from them. The loop is then shown to stop and to agree with a one-pass reading of
  the characters (\<open>csv_scan\<close>), and to read back every table written with quoted cells.
\<close>

section \<open>The reader\<close>

text \<open>The local variables \<open>rows\<close>, \<open>row\<close>, \<open>field\<close>, \<open>i\<close> and \<open>inQuotes\<close>.\<close>

record csv_state =
  cs_rows :: "string list list"
  cs_row :: "string list"
  cs_field :: string
  cs_i :: nat
  cs_inQuotes :: bool

definition csv_start :: csv_state where
  "csv_start = \<lparr> cs_rows = [], cs_row = [], cs_field = [], cs_i = 0, cs_inQuotes = False \<rparr>"

text \<open>\<open>row.some((cell) => cell.length > 0)\<close> decides whether a row is kept.\<close>

definition some_cell :: "string list \<Rightarrow> bool" where
  "some_cell row = list_ex (\<lambda>cell. cell \<noteq> []) row"

definition keep_row :: "string list list \<Rightarrow> string list \<Rightarrow> string list list" where
  "keep_row rows row = (if some_cell row then rows @ [row] else rows)"

abbreviation quote_char :: char where "quote_char \<equiv> CHR 0x22"
abbreviation newline_char :: char where "newline_char \<equiv> CHR 0x0A"
abbreviation return_char :: char where "return_char \<equiv> CHR 0x0D"

definition csv_step :: "string \<Rightarrow> csv_state \<Rightarrow> csv_state" where
  "csv_step content s =
     (let i = cs_i s; c = content ! i
      in if cs_inQuotes s then
           (if c = quote_char then
              (if i + 1 < length content \<and> content ! (i + 1) = quote_char
               then s\<lparr> cs_field := cs_field s @ [quote_char], cs_i := i + 2 \<rparr>
               else s\<lparr> cs_inQuotes := False, cs_i := i + 1 \<rparr>)
            else s\<lparr> cs_field := cs_field s @ [c], cs_i := i + 1 \<rparr>)
         else if c = quote_char then s\<lparr> cs_inQuotes := True, cs_i := i + 1 \<rparr>
         else if c = CHR '','' then
           s\<lparr> cs_row := cs_row s @ [cs_field s], cs_field := [], cs_i := i + 1 \<rparr>
         else if c = newline_char then
           s\<lparr> cs_rows := keep_row (cs_rows s) (cs_row s @ [cs_field s]), cs_row := [], cs_field := [],
              cs_i := i + 1 \<rparr>
         else if c = return_char then s\<lparr> cs_i := i + 1 \<rparr>
         else s\<lparr> cs_field := cs_field s @ [c], cs_i := i + 1 \<rparr>)"

lemma csv_step_advances: "cs_i s < cs_i (csv_step content s)"
  by (simp add: csv_step_def Let_def)

lemma csv_step_inside:
  "cs_i s < length content \<Longrightarrow> cs_i (csv_step content s) \<le> length content"
  by (simp add: csv_step_def Let_def)

function csv_loop :: "string \<Rightarrow> csv_state \<Rightarrow> csv_state" where
  "csv_loop content s =
     (if cs_i s < length content then csv_loop content (csv_step content s) else s)"
  by pat_completeness auto
termination
  by (relation "measure (\<lambda>(content, s). length content - cs_i s)")
    (auto simp: csv_step_advances diff_less_mono2)

declare csv_loop.simps [simp del]

text \<open>The last row, which may lack its newline, is kept after the loop.\<close>

definition csv_finish :: "csv_state \<Rightarrow> string list list" where
  "csv_finish s = keep_row (cs_rows s) (cs_row s @ [cs_field s])"

definition csv_table :: "string \<Rightarrow> string list list" where
  "csv_table content = csv_finish (csv_loop content csv_start)"

text \<open>\<open>h.trim().toLowerCase().replace(/\s+/g, '_')\<close>\<close>

fun squash_spaces :: "bool \<Rightarrow> string \<Rightarrow> string" where
  "squash_spaces after [] = []"
| "squash_spaces after (c # cs) =
     (if is_space c then (if after then squash_spaces True cs else CHR ''_'' # squash_spaces True cs)
      else c # squash_spaces False cs)"

definition header_name :: "string \<Rightarrow> string" where
  "header_name h = squash_spaces False (to_lower (trim h))"

text \<open>\<open>obj[headers[c]] = (rows[r][c] ?? '').trim()\<close>: of two equal headers the later column stays.\<close>

definition csv_record :: "string list \<Rightarrow> string list \<Rightarrow> (string \<rightharpoonup> string)" where
  "csv_record headers row =
     fold (\<lambda>c obj. obj(headers ! c \<mapsto> trim (if c < length row then row ! c else [])))
       [0..<length headers] (\<lambda>_. None)"

definition parseCsv :: "string \<Rightarrow> (string \<rightharpoonup> string) list" where
  "parseCsv content =
     (case csv_table content of
        [] \<Rightarrow> []
      | header # body \<Rightarrow> map (csv_record (map header_name header)) body)"

section \<open>Recipients\<close>

record seller_recipient =
  sr_email :: string
  sr_storeName :: string
  sr_contactName :: string
  sr_phone :: "string option"
  sr_city :: "string option"

text \<open>\<open>r.a || r.b || \<dots> || d\<close>\<close>

fun first_cell :: "(string \<rightharpoonup> string) \<Rightarrow> string list \<Rightarrow> string \<Rightarrow> string" where
  "first_cell r [] d = d"
| "first_cell r (k # ks) d = (case nonempty (r k) of None \<Rightarrow> first_cell r ks d | Some s \<Rightarrow> s)"

definition normalizeSellerEmailRow :: "(string \<rightharpoonup> string) \<Rightarrow> seller_recipient option" where
  "normalizeSellerEmailRow r =
     (let email = to_lower (trim (first_cell r [''email'', ''e-mail''] []));
          storeName = trim (first_cell r [''store_name'', ''store'', ''storename''] []);
          contactName = trim (first_cell r [''contact_name'', ''contact'', ''name''] storeName)
      in if email = [] \<or> \<not> str_includes email ''@'' then None
         else if storeName = [] \<or> contactName = [] then None
         else Some \<lparr> sr_email = email, sr_storeName = storeName, sr_contactName = contactName,
                sr_phone = nonempty (Some (trim (first_cell r [''phone'', ''mobile''] []))),
                sr_city = nonempty (Some (trim (first_cell r [''city''] []))) \<rparr>)"

fun new_recipients :: "string list \<Rightarrow> (string \<rightharpoonup> string) list \<Rightarrow> seller_recipient list" where
  "new_recipients seen [] = []"
| "new_recipients seen (r # rs) =
     (case normalizeSellerEmailRow r of
        None \<Rightarrow> new_recipients seen rs
      | Some n \<Rightarrow> if sr_email n \<in> set seen then new_recipients seen rs
                  else n # new_recipients (sr_email n # seen) rs)"

definition parseSellerEmailRecipients :: "string \<Rightarrow> seller_recipient list" where
  "parseSellerEmailRecipients csvContent = new_recipients [] (parseCsv csvContent)"

text \<open>seller-email.service.ts, \<open>parseRecipientsFromCsv\<close>: a file without a usable row is refused.\<close>

definition no_recipients :: exn where
  "no_recipients =
     BadRequest ''No valid rows found. CSV needs columns: email, store_name, contact_name''"

definition parseRecipientsFromCsv :: "string \<Rightarrow> exn + seller_recipient list" where
  "parseRecipientsFromCsv csvContent =
     (let rows = parseSellerEmailRecipients csvContent
      in if rows = [] then Inl no_recipients else Inr rows)"

section \<open>The loop stops\<close>

text \<open>The loop is the iteration of its body up to the end of the text, after as many rounds as there
  are characters at most.\<close>

lemma csv_loop_iterates:
  "cs_i s \<le> length content \<Longrightarrow>
   \<exists>n \<le> length content - cs_i s. csv_loop content s = (csv_step content ^^ n) s \<and>
     cs_i (csv_loop content s) = length content"
proof (induction content s rule: csv_loop.induct)
  case (1 content s)
  show ?case
  proof (cases "cs_i s < length content")
    case True
    have "cs_i (csv_step content s) \<le> length content" using True by (rule csv_step_inside)
    then obtain n where n: "n \<le> length content - cs_i (csv_step content s)"
      "csv_loop content (csv_step content s) = (csv_step content ^^ n) (csv_step content s)"
      "cs_i (csv_loop content (csv_step content s)) = length content"
      using 1(1)[OF True] by blast
    have "Suc n \<le> length content - cs_i s" using n(1) csv_step_advances[of s content] True by linarith
    then show ?thesis
      using n(2,3) True by (intro exI[of _ "Suc n"]) (simp add: csv_loop.simps[of _ s] funpow_swap1)
  next
    case False
    then show ?thesis using 1(2) by (intro exI[of _ 0]) (simp add: csv_loop.simps)
  qed
qed

section \<open>One pass over the characters\<close>

fun csv_scan :: "bool \<Rightarrow> string list list \<Rightarrow> string list \<Rightarrow> string \<Rightarrow> string \<Rightarrow> string list list" where
  "csv_scan q rows row field [] = keep_row rows (row @ [field])"
| "csv_scan True rows row field (c # cs) =
     (if c = quote_char then
        (case cs of
           d # ds \<Rightarrow> if d = quote_char then csv_scan True rows row (field @ [quote_char]) ds
                    else csv_scan False rows row field cs
         | [] \<Rightarrow> csv_scan False rows row field cs)
      else csv_scan True rows row (field @ [c]) cs)"
| "csv_scan False rows row field (c # cs) =
     (if c = quote_char then csv_scan True rows row field cs
      else if c = CHR '','' then csv_scan False rows (row @ [field]) [] cs
      else if c = newline_char then csv_scan False (keep_row rows (row @ [field])) [] [] cs
      else if c = return_char then csv_scan False rows row field cs
      else csv_scan False rows row (field @ [c]) cs)"

lemma csv_loop_scans:
  "csv_finish (csv_loop content s) =
     csv_scan (cs_inQuotes s) (cs_rows s) (cs_row s) (cs_field s) (drop (cs_i s) content)"
proof (induction content s rule: csv_loop.induct)
  case (1 content s)
  show ?case
  proof (cases "cs_i s < length content")
    case True
    then have d: "drop (cs_i s) content = content ! cs_i s # drop (Suc (cs_i s)) content"
      by (rule Cons_nth_drop_Suc[symmetric])
    have e: "drop (Suc (cs_i s)) content =
        (if Suc (cs_i s) < length content then content ! Suc (cs_i s) # drop (Suc (Suc (cs_i s))) content
         else [])"
      using Cons_nth_drop_Suc[of "Suc (cs_i s)" content] by simp
    have "csv_finish (csv_loop content s) = csv_finish (csv_loop content (csv_step content s))"
      using True by (simp add: csv_loop.simps[of _ s])
    also have "\<dots> = csv_scan (cs_inQuotes (csv_step content s)) (cs_rows (csv_step content s))
        (cs_row (csv_step content s)) (cs_field (csv_step content s))
        (drop (cs_i (csv_step content s)) content)"
      by (rule 1[OF True])
    also have "\<dots> = csv_scan (cs_inQuotes s) (cs_rows s) (cs_row s) (cs_field s) (drop (cs_i s) content)"
      by (cases "cs_inQuotes s"; cases "content ! cs_i s = quote_char")
        (auto simp: d csv_step_def Let_def e)
    finally show ?thesis .
  qed (simp add: csv_loop.simps csv_finish_def)
qed

lemma csv_table_scans: "csv_table content = csv_scan False [] [] [] content"
  by (simp add: csv_table_def csv_loop_scans csv_start_def)

section \<open>Reading back a quoted table\<close>

definition quoted_cell :: "string \<Rightarrow> string" where
  "quoted_cell cell =
     [quote_char] @ concat (map (\<lambda>c. if c = quote_char then [quote_char, quote_char] else [c]) cell)
       @ [quote_char]"

definition quoted_table :: "string list list \<Rightarrow> string" where
  "quoted_table rows = concat (map (\<lambda>row. join '','' (map quoted_cell row) @ [newline_char]) rows)"

lemma scan_quoted_chars:
  "csv_scan True rows row field
     (concat (map (\<lambda>c. if c = quote_char then [quote_char, quote_char] else [c]) cell) @ rest) =
   csv_scan True rows row (field @ cell) rest"
  by (induction cell arbitrary: field) auto

lemma scan_quoted_cell:
  assumes "rest = [] \<or> hd rest \<noteq> quote_char"
  shows "csv_scan False rows row field (quoted_cell cell @ rest) =
    csv_scan False rows row (field @ cell) rest"
  using assms by (cases rest) (auto simp: quoted_cell_def scan_quoted_chars)

lemma scan_quoted_row:
  "csv_scan False rows row [] (join '','' (map quoted_cell cells) @ newline_char # rest) =
     csv_scan False (keep_row rows (row @ (if cells = [] then [[]] else cells))) [] [] rest"
proof (induction cells arbitrary: row)
  case (Cons c cs)
  then show ?case by (cases cs) (simp_all add: scan_quoted_cell)
qed simp

lemma scan_quoted_table:
  "csv_scan False rows [] [] (quoted_table table) = rows @ List.filter some_cell table"
proof (induction table arbitrary: rows)
  case Nil
  then show ?case by (simp add: quoted_table_def keep_row_def some_cell_def)
next
  case (Cons row table)
  have "csv_scan False rows [] [] (quoted_table (row # table)) =
      csv_scan False (keep_row rows (if row = [] then [[]] else row)) [] [] (quoted_table table)"
    using scan_quoted_row[of rows "[]" row "quoted_table table"] by (simp add: quoted_table_def)
  then show ?case by (cases "row = []") (simp_all add: Cons keep_row_def some_cell_def)
qed

lemma quoted_table_read_back: "csv_table (quoted_table table) = List.filter some_cell table"
  by (simp add: csv_table_scans scan_quoted_table)

section \<open>Recipients are usable and distinct\<close>

definition usable_recipient :: "seller_recipient \<Rightarrow> bool" where
  "usable_recipient n \<longleftrightarrow> str_includes (sr_email n) ''@'' \<and> sr_storeName n \<noteq> [] \<and> sr_contactName n \<noteq> []"

lemma normalized_usable: "normalizeSellerEmailRow r = Some n \<Longrightarrow> usable_recipient n"
  by (auto simp: normalizeSellerEmailRow_def Let_def usable_recipient_def split: if_splits)

lemma new_recipients_usable: "list_all usable_recipient (new_recipients seen rs)"
  by (induction rs arbitrary: seen) (auto split: option.split dest: normalized_usable)

lemma new_recipients_distinct:
  "distinct (map sr_email (new_recipients seen rs)) \<and>
   sr_email ` set (new_recipients seen rs) \<inter> set seen = {}"
proof (induction rs arbitrary: seen)
  case (Cons r rs)
  show ?case
  proof (cases "normalizeSellerEmailRow r")
    case (Some n)
    then show ?thesis using Cons[of seen] Cons[of "sr_email n # seen"] by auto
  qed (simp add: Cons)
qed simp

lemma recipients_distinct: "distinct (map sr_email (parseSellerEmailRecipients content))"
  unfolding parseSellerEmailRecipients_def by (rule conjunct1[OF new_recipients_distinct])

text \<open>
  C40: the CSV reader of the outreach mails ends on every text: its \<open>while\<close> loop takes at most one round
  per character and leaves with the index at the end of the text, also inside an open quote. What it
  has read is what a single pass over the characters reads; a table printed with quoted cells (commas,
  quotes and line breaks inside) is read back cell by cell, rows without text dropped; and the
  recipients found in any text have distinct addresses and all have an address, a store and a contact.
\<close>

theorem csv_reader_ends:
  "(\<exists>n. n \<le> length content \<and> csv_loop content csv_start = (csv_step content ^^ n) csv_start \<and>
      cs_i (csv_loop content csv_start) = length content) \<and>
   csv_table content = csv_scan False [] [] [] content \<and>
   csv_table (quoted_table table) = List.filter some_cell table \<and>
   distinct (map sr_email (parseSellerEmailRecipients content)) \<and>
   list_all usable_recipient (parseSellerEmailRecipients content)"
proof (intro conjI)
  show "\<exists>n. n \<le> length content \<and> csv_loop content csv_start = (csv_step content ^^ n) csv_start \<and>
      cs_i (csv_loop content csv_start) = length content"
    using csv_loop_iterates[of csv_start content] by (simp add: csv_start_def)
  show "list_all usable_recipient (parseSellerEmailRecipients content)"
    unfolding parseSellerEmailRecipients_def by (rule new_recipients_usable)
qed (rule csv_table_scans quoted_table_read_back recipients_distinct)+

end
