(* ===== verification/Outreach.thy ===== *)
theory Outreach
  imports Mail SellerCsv Calendar
begin

text \<open>
  Signed links of the seller outreach (src/src/seller-outreach: seller-outreach-interest.util.ts and
  seller-outreach.service.ts), and the daily report of users (src/src/reports/daily-users-report.service.ts)
  with the CSV file it attaches. The keyed hash is the parameter \<open>hmac\<close>. The interest service keeps the
  instants of recent clicks in memory, beside the database.
\<close>

section \<open>Signed links\<close>

record interest =
  in_email :: string
  in_store :: string
  in_contact :: string

definition canonicalPayload :: "interest \<Rightarrow> string" where
  "canonicalPayload p = join ''|'' [to_lower (trim (in_email p)), trim (in_store p), trim (in_contact p)]"

type_synonym hmac = "string \<Rightarrow> string \<Rightarrow> string" \<comment> \<open>secret and text to the base64url digest\<close>

definition signSellerInterest :: "hmac \<Rightarrow> interest \<Rightarrow> string \<Rightarrow> string" where
  "signSellerInterest hmac p secret = hmac secret (canonicalPayload p)"

definition verifySellerInterest :: "hmac \<Rightarrow> interest \<Rightarrow> string \<Rightarrow> string \<Rightarrow> bool" where
  "verifySellerInterest hmac p sig secret \<longleftrightarrow>
     secret \<noteq> [] \<and> trim sig \<noteq> [] \<and> signSellerInterest hmac p secret = trim sig"

text \<open>\<open>URLSearchParams.toString\<close> of ASCII values.\<close>

definition formEncode :: "string \<Rightarrow> string" where
  "formEncode s =
     concat (map (\<lambda>c. if is_letter c \<or> is_digit c \<or> c \<in> set ''*-._'' then [c]
       else if c = CHR '' '' then ''+''
       else let n = of_char c :: nat in [CHR ''%'', hex_digit (n div 16), hex_digit (n mod 16)]) s)"

definition buildSellerInterestUrl :: "hmac \<Rightarrow> string \<Rightarrow> interest \<Rightarrow> string \<Rightarrow> string" where
  "buildSellerInterestUrl hmac apiBaseUrl p secret =
     strip_slash apiBaseUrl @ ''/public/seller-outreach/interested?'' @
     join ''&'' (map (\<lambda>(k, v). k @ ''='' @ formEncode v)
       [(''email'', to_lower (trim (in_email p))), (''store'', trim (in_store p)),
        (''contact'', trim (in_contact p)), (''sig'', signSellerInterest hmac p secret)])"

section \<open>A click\<close>

record outreach =
  or_recent :: "(string, int) table" \<comment> \<open>the instants of clicks that were notified\<close>
  or_world :: world

definition on_world :: "'a handler \<Rightarrow> (outreach, 'a) action" where
  "on_world m = (\<lambda>s. case m (or_world s) of (r, w) \<Rightarrow> (r, s\<lparr>or_world := w\<rparr>))"

definition interestSecret :: "mail_env \<Rightarrow> string" where
  "interestSecret me = first_setting me [''SELLER_OUTREACH_INTEREST_SECRET'', ''JWT_SECRET''] []"

definition notifyTo :: "mail_env \<Rightarrow> string" where
  "notifyTo me = first_setting me [''SELLER_OUTREACH_INTEREST_TO'', ''CEO_EMAIL'', ''SUPPORT_EMAIL''] ''ceo@vybekart.co.in''"

definition DEDUPE_MS :: int where "DEDUPE_MS = 6 * MS_PER_HOUR"

definition dedupeKey :: "interest \<Rightarrow> string" where
  "dedupeKey p = in_email p @ ''|'' @ in_store p"

definition shouldNotify :: "interest \<Rightarrow> (outreach, bool) action" where
  "shouldNotify p =
     bind_act (reads (\<lambda>s. (clock (or_world s), tget (or_recent s) (dedupeKey p)))) (\<lambda>(now, last).
     if (case last of None \<Rightarrow> False | Some t \<Rightarrow> t \<noteq> 0 \<and> now - t < DEDUPE_MS) then ret False
     else seq_act (writes (\<lambda>s. s\<lparr>or_recent := tput (dedupeKey p) now (or_recent s)\<rparr>)) (ret True))"

definition interest_notice :: "mail_env \<Rightarrow> interest \<Rightarrow> letter" where
  "interest_notice me p = \<lparr>
     lt_from = (case me_cfg me ''SELLER_OUTREACH_FROM'' of None \<Rightarrow> supportFrom me | Some f \<Rightarrow> trim f),
     lt_to = notifyTo me, lt_subject = ''Seller interest: '' @ in_store p,
     lt_text = Some (join newline
       [in_contact p @ '' ('' @ in_email p @ '') is interested in the Vybekart seller partner program.'', [],
        ''Store: '' @ in_store p, ''Contact: '' @ in_contact p, ''Email: '' @ in_email p, [],
        ''They clicked '' @ [CHR 0x22] @ ''I'' @ [CHR 0x27] @ ''m Interested'' @ [CHR 0x22] @ '' in the outreach email.'']),
     lt_replyTo = None, lt_attachments = [] \<rparr>"

definition interest_thanks :: "interest \<Rightarrow> string" where
  "interest_thanks p = join newline
     [''Hi '' @ in_contact p @ '','', [],
      ''Thank you for your interest in joining Vybekart as a seller partner.'',
      ''Our team has received your response and will reach out to you shortly with next steps.'', [],
      ''In the meantime, you can download the Vybekart app and keep your store name, address, and contact number handy.'',
      [], ''- Team Vybekart'']"

definition interest_mails :: "mail_env \<Rightarrow> interest \<Rightarrow> unit handler" where
  "interest_mails me p =
     seq_act (mail_send me (interest_notice me p))
       (sendTransactional me (in_email p) ''We received your interest - Vybekart seller partners'' (interest_thanks p))"

datatype click_answer = InvalidLink | CouldNotRecord | InterestReceived | AlreadyOnFile

definition click_ok :: "click_answer \<Rightarrow> bool" where
  "click_ok a \<longleftrightarrow> a \<in> {InterestReceived, AlreadyOnFile}"

definition click_message :: "click_answer \<Rightarrow> string" where
  "click_message a = (case a of
      InvalidLink \<Rightarrow> ''Invalid or expired link.''
    | CouldNotRecord \<Rightarrow> ''We could not record your interest right now. Please email us directly.''
    | InterestReceived \<Rightarrow> ''Thank you! We have received your interest and sent you a confirmation email.''
    | AlreadyOnFile \<Rightarrow> ''Thank you! We already have your interest on file. Our team will be in touch soon.'')"

definition handleInterestClick :: "hmac \<Rightarrow> mail_env \<Rightarrow> interest \<Rightarrow> string \<Rightarrow> (outreach, click_answer) action" where
  "handleInterestClick hmac me p sig =
     (if \<not> verifySellerInterest hmac p sig (interestSecret me) then ret InvalidLink
      else bind_act (shouldNotify p) (\<lambda>notify.
        if \<not> notify then ret AlreadyOnFile
        else catching (seq_act (on_world (interest_mails me p)) (ret InterestReceived)) (\<lambda>_. ret CouldNotRecord)))"

text \<open>seller-outreach.controller.ts: the status of the page, and what it says.\<close>

definition interested :: "hmac \<Rightarrow> mail_env \<Rightarrow> interest \<Rightarrow> string \<Rightarrow> (outreach, int \<times> string) action" where
  "interested hmac me raw sig =
     (let p = \<lparr> in_email = trim (in_email raw), in_store = trim (in_store raw), in_contact = trim (in_contact raw) \<rparr>
      in if in_email p = [] \<or> in_store p = [] \<or> in_contact p = [] \<or> trim sig = []
         then ret (400, ''Missing information in this link.'')
         else bind_act (handleInterestClick hmac me p sig) (\<lambda>a.
           ret (if click_ok a then 200 else 400, click_message a)))"

section \<open>The daily report\<close>

text \<open>The columns \<open>isActive\<close> and \<open>updatedAt\<close> of a user are given by its id.\<close>

record user_columns =
  uc_isActive :: "string \<Rightarrow> bool"
  uc_updatedAt :: "string \<Rightarrow> int"

definition csv_special :: "char \<Rightarrow> bool" where
  "csv_special c \<longleftrightarrow> c \<in> {quote_char, CHR '','', return_char, newline_char}"

definition csvEscape :: "string \<Rightarrow> string" where
  "csvEscape s = (if list_ex csv_special s then quoted_cell s else s)"

definition role_name :: "role \<Rightarrow> string" where
  "role_name r = (case r of BUYER \<Rightarrow> ''BUYER'' | SELLER \<Rightarrow> ''SELLER'' | ADMIN \<Rightarrow> ''ADMIN'')"

definition report_headers :: "string list" where
  "report_headers = [''id'', ''email'', ''phone'', ''name'', ''isActive'', ''roles'', ''createdAt'', ''updatedAt'']"

definition report_cells :: "user_columns \<Rightarrow> user_row \<Rightarrow> string list" where
  "report_cells uc u =
     [u_id u, u_email u, dflt [] (u_phone u), u_name u, if uc_isActive uc (u_id u) then ''true'' else ''false'',
      join ''|'' (map role_name (u_roles u)), iso_string (u_createdAt u), iso_string (uc_updatedAt uc (u_id u))]"

definition crlf :: string where "crlf = [return_char, newline_char]"

definition buildCsv :: "user_columns \<Rightarrow> user_row list \<Rightarrow> string" where
  "buildCsv uc us =
     join crlf (join '','' report_headers # map (\<lambda>u. join '','' (map csvEscape (report_cells uc u))) us) @ crlf"

record analysis =
  an_total :: nat
  an_newLast24h :: nat
  an_buyers :: nat
  an_sellers :: nat
  an_admins :: nat

definition role_count :: "role \<Rightarrow> user_row list \<Rightarrow> nat" where
  "role_count r us = length (filter (\<lambda>x. x = r) (concat (map u_roles us)))"

definition buildAnalysis :: "user_row list \<Rightarrow> int \<Rightarrow> analysis" where
  "buildAnalysis us since = \<lparr> an_total = length us,
     an_newLast24h = length (filter (\<lambda>u. since \<le> u_createdAt u) us), an_buyers = role_count BUYER us,
     an_sellers = role_count SELLER us, an_admins = role_count ADMIN us \<rparr>"

definition nat_text :: "nat \<Rightarrow> string" where
  "nat_text n = int_digits (int n)"

definition report_day :: "int \<Rightarrow> string" where
  "report_day now = take 10 (iso_string now)"

definition report_rows :: "int \<Rightarrow> analysis \<Rightarrow> (string \<times> string) list" where
  "report_rows now a =
     [(''Total active users'', nat_text (an_total a)), (''New active users (last 24h)'', nat_text (an_newLast24h a)),
      (''Users (buyers)'', nat_text (an_buyers a)), (''Seller partners'', nat_text (an_sellers a)),
      (''Admins'', nat_text (an_admins a)), (''CSV attachment'', ''users-'' @ report_day now @ ''.csv'')]"

definition report_letter :: "string \<Rightarrow> string \<Rightarrow> int \<Rightarrow> analysis \<Rightarrow> string \<Rightarrow> letter" where
  "report_letter from dest now a csv =
     (let subject = ''VybeKart - Daily Users Report ('' @ report_day now @ '')''; file = ''users-'' @ report_day now @ ''.csv''
      in \<lparr> lt_from = from, lt_to = dest, lt_subject = subject,
           lt_text = Some (join newline
             ([subject, [], ''Daily snapshot of active users: '' @ nat_text (an_total a) @ '' total, '' @
                 nat_text (an_newLast24h a) @ '' new (last 24h).'', [], ''Generated at: '' @ iso_string now,
               ''Attachment: '' @ file, [], ''--- Summary ---''] @
              map (\<lambda>(k, v). k @ '': '' @ v) (report_rows now a) @
              [[], ''Note: Password column is excluded from CSV.''])),
           lt_replyTo = None, lt_attachments = [(file, csv)] \<rparr>)"

definition isTruthyFlag :: "string option \<Rightarrow> bool" where
  "isTruthyFlag v \<longleftrightarrow> to_lower (trim (dflt [] v)) \<in> {''true'', ''1'', ''yes''}"

definition sendDailyUsersReport :: "mail_env \<Rightarrow> user_columns \<Rightarrow> unit handler" where
  "sendDailyUsersReport me uc =
     (if \<not> isTruthyFlag (Some (dflt ''true'' (me_cfg me ''DAILY_USERS_REPORT_ENABLED''))) then ret () else
      bind_act (reads (\<lambda>w. (clock w, newest_first u_createdAt (filter (\<lambda>u. uc_isActive uc (u_id u)) (trows (users w)))))) (\<lambda>(now, us).
      let l = report_letter (first_setting me [''SUPPORT_ACCOUNT_MANAGER_EMAIL'', ''MAIL_FROM''] ''VybeKart Support <onboarding@resend.dev>'')
                (first_setting me [''DAILY_USERS_REPORT_TO''] ''vybekart88@gmail.com'') now
                (buildAnalysis us (now - MS_PER_DAY)) (buildCsv uc us)
      in if me_text me ''RESEND_API_KEY'' \<noteq> None then handed (me_resend me l) l
         else if smtp_host me = None then
           throw (Crash (''Daily users report cannot send: RESEND_API_KEY not set and '' @
             (if me_text me ''MAIL_HOST'' = None then ''MAIL_HOST is missing''
              else ''MAIL_HOST looks like an email (must be hostname)'')))
         else handed (me_smtp me l) l))"

section \<open>The attachment is read back\<close>

lemma scan_plain:
  "list_all (\<lambda>c. \<not> csv_special c) cell \<Longrightarrow>
   csv_scan False rows row field (cell @ rest) = csv_scan False rows row (field @ cell) rest"
  by (induction cell arbitrary: field) (auto simp: csv_special_def)

lemma scan_escaped:
  assumes "rest = [] \<or> hd rest \<noteq> quote_char"
  shows "csv_scan False rows row [] (csvEscape cell @ rest) = csv_scan False rows row cell rest"
proof (cases "list_ex csv_special cell")
  case True
  then show ?thesis using scan_quoted_cell[OF assms, of rows row "[]" cell] by (simp add: csvEscape_def)
next
  case False
  then have "list_all (\<lambda>c. \<not> csv_special c) cell" by (auto simp: list_all_iff list_ex_iff)
  from scan_plain[OF this, of rows row "[]" rest] False show ?thesis by (simp add: csvEscape_def)
qed

lemma scan_line:
  "cells \<noteq> [] \<Longrightarrow> csv_scan False rows row [] (join '','' (map csvEscape cells) @ crlf @ rest) =
     csv_scan False (keep_row rows (row @ cells)) [] [] rest"
proof (induction cells arbitrary: row)
  case (Cons c cs)
  then show ?case by (cases cs) (simp_all add: scan_escaped crlf_def)
qed simp

definition csv_lines :: "string list list \<Rightarrow> string" where
  "csv_lines table = concat (map (\<lambda>cells. join '','' (map csvEscape cells) @ crlf) table)"

lemma scan_lines:
  "\<forall>cells \<in> set table. cells \<noteq> [] \<Longrightarrow>
   csv_scan False rows [] [] (csv_lines table) = rows @ filter some_cell table"
proof (induction table arbitrary: rows)
  case Nil
  then show ?case by (simp add: csv_lines_def keep_row_def some_cell_def)
next
  case (Cons cells table)
  then have "csv_scan False rows [] [] (csv_lines (cells # table)) =
      csv_scan False (keep_row rows cells) [] [] (csv_lines table)"
    using scan_line[of cells rows "[]" "csv_lines table"] by (simp add: csv_lines_def)
  then show ?case using Cons by (simp add: keep_row_def)
qed

lemma join_ended: "ls \<noteq> [] \<Longrightarrow> join sep ls @ sep = concat (map (\<lambda>l. l @ sep) ls)"
  by (induction sep ls rule: join.induct) simp_all

lemma plain_headers: "map csvEscape report_headers = report_headers"
  by (simp add: report_headers_def csvEscape_def csv_special_def)

lemma buildCsv_lines: "buildCsv uc us = csv_lines (report_headers # map (report_cells uc) us)"
proof -
  have "buildCsv uc us = concat (map (\<lambda>l. l @ crlf)
      (join '','' report_headers # map (\<lambda>u. join '','' (map csvEscape (report_cells uc u))) us))"
    unfolding buildCsv_def by (rule join_ended) simp
  then show ?thesis by (simp add: csv_lines_def plain_headers comp_def)
qed

text \<open>The reader of the outreach lists recovers every cell of the report, whatever names and addresses hold.\<close>

lemma report_read_back: "csv_table (buildCsv uc us) = report_headers # map (report_cells uc) us"
proof -
  have "some_cell (report_cells uc u)" for u by (simp add: some_cell_def report_cells_def)
  moreover have "some_cell report_headers" by (simp add: some_cell_def report_headers_def)
  moreover have "\<forall>cells \<in> set (report_headers # map (report_cells uc) us). cells \<noteq> []"
    by (auto simp: report_headers_def report_cells_def)
  ultimately show ?thesis
    using scan_lines[of "report_headers # map (report_cells uc) us" "[]"]
    by (simp add: csv_table_scans buildCsv_lines)
qed

section \<open>Clicks\<close>

lemma wp_on_world: "wp (on_world m) Q s = wp m (\<lambda>r w. Q r (s\<lparr>or_world := w\<rparr>)) (or_world s)"
  by (simp add: wp_def on_world_def split: prod.splits)

text \<open>Nothing is sent or remembered for a link whose signature does not fit.\<close>

lemma unsigned_click: "\<not> verifySellerInterest hmac p sig (interestSecret me) \<Longrightarrow>
  handleInterestClick hmac me p sig s = (Inr InvalidLink, s)"
  by (simp add: handleInterestClick_def ret_def)

text \<open>The signature does not fix where one field ends and the next begins.\<close>

lemma signature_ambiguous:
  "signSellerInterest hmac \<lparr>in_email = ''a@x'', in_store = ''Shop|Ann'', in_contact = ''Lee''\<rparr> secret =
   signSellerInterest hmac \<lparr>in_email = ''a@x'', in_store = ''Shop'', in_contact = ''Ann|Lee''\<rparr> secret"
  by (simp add: signSellerInterest_def canonicalPayload_def trim_def is_space_def)

text \<open>A click whose mails were refused is remembered all the same: trying again sends nothing and is told
  that the interest is on file.\<close>

lemma refused_click_remembered:
  assumes "verifySellerInterest hmac p sig (interestSecret me)" "tget (or_recent s) (dedupeKey p) = None"
    and "me_text me ''RESEND_API_KEY'' \<noteq> None" "me_resend me (interest_notice me p) \<noteq> None"
    and "clock (or_world s) \<noteq> 0"
  shows "\<exists>s'. handleInterestClick hmac me p sig s = (Inr CouldNotRecord, s') \<and> or_world s' = or_world s \<and>
    handleInterestClick hmac me p sig s' = (Inr AlreadyOnFile, s')"
proof -
  let ?s = "s\<lparr>or_recent := tput (dedupeKey p) (clock (or_world s)) (or_recent s)\<rparr>"
  obtain e where e: "me_resend me (interest_notice me p) = Some e" using assms(4) by auto
  have "interest_mails me p (or_world s) = (Inl (Crash e), or_world s)"
    by (rule wp_equation) (use assms(3) e in \<open>simp add: interest_mails_def wp_simps\<close>)
  then have 1: "handleInterestClick hmac me p sig s = (Inr CouldNotRecord, ?s)"
    using assms(1,2) by (simp add: handleInterestClick_def shouldNotify_def bind_act_def reads_def seq_act_def
        writes_def ret_def catching_def on_world_def)
  have "handleInterestClick hmac me p sig ?s = (Inr AlreadyOnFile, ?s)"
    using assms(1,5) by (simp add: handleInterestClick_def shouldNotify_def bind_act_def reads_def ret_def
        DEDUPE_MS_def MS_PER_HOUR_def)
  with 1 show ?thesis by auto
qed

end
