(* ===== verification/InvoiceTax.thy ===== *)
theory InvoiceTax
  imports Pricing Mail
begin

text \<open>
  What a tax invoice computes, src/src/invoices/invoice-tax.util.ts: the states of a GST number and of a PIN
  code, the tax inside an inclusive amount, and amounts in Indian words; with the company's own data
  (src/src/company/company-info.ts) that its footer shows.
\<close>

section \<open>States\<close>

definition STATE_NAMES :: "string \<Rightarrow> string option" where
  "STATE_NAMES = map_of
     [(''01'', ''JAMMU AND KASHMIR''), (''02'', ''HIMACHAL PRADESH''), (''03'', ''PUNJAB''), (''04'', ''CHANDIGARH''),
      (''05'', ''UTTARAKHAND''), (''06'', ''HARYANA''), (''07'', ''DELHI''), (''08'', ''RAJASTHAN''),
      (''09'', ''UTTAR PRADESH''), (''10'', ''BIHAR''), (''11'', ''SIKKIM''), (''12'', ''ARUNACHAL PRADESH''),
      (''13'', ''NAGALAND''), (''14'', ''MANIPUR''), (''15'', ''MIZORAM''), (''16'', ''TRIPURA''), (''17'', ''MEGHALAYA''),
      (''18'', ''ASSAM''), (''19'', ''WEST BENGAL''), (''20'', ''JHARKHAND''), (''21'', ''ODISHA''),
      (''22'', ''CHHATTISGARH''), (''23'', ''MADHYA PRADESH''), (''24'', ''GUJARAT''), (''27'', ''MAHARASHTRA''),
      (''29'', ''KARNATAKA''), (''30'', ''GOA''), (''32'', ''KERALA''), (''33'', ''TAMIL NADU''), (''34'', ''PUDUCHERRY''),
      (''36'', ''TELANGANA''), (''37'', ''ANDHRA PRADESH'')]"

definition extractPanFromGstin :: "string option \<Rightarrow> string option" where
  "extractPanFromGstin gst =
     (case gst of None \<Rightarrow> None
      | Some g \<Rightarrow> if length g < 12 then None
          else let pan = to_upper (take 10 (drop 2 g))
               in if matches_classes (replicate 5 is_upper @ replicate 4 is_digit @ [is_upper]) pan then Some pan else None)"

definition stateCodeFromGstin :: "string option \<Rightarrow> string option" where
  "stateCodeFromGstin gst =
     (case gst of None \<Rightarrow> None
      | Some g \<Rightarrow> if length g < 2 then None
          else if list_all is_digit (take 2 g) then Some (take 2 g) else None)"

definition extractPinFromText :: "string option \<Rightarrow> string option" where
  "extractPinFromText t = Option.bind (nonempty t) (pin_match False)"

text \<open>The zone of a PIN code, its first digit, stands for one state each.\<close>

definition stateCodeFromPin :: "string option \<Rightarrow> string option" where
  "stateCodeFromPin pin =
     Option.bind (extractPinFromText pin) (\<lambda>m. map_of
       [(CHR ''1'', ''11''), (CHR ''2'', ''20''), (CHR ''3'', ''24''), (CHR ''4'', ''27''), (CHR ''5'', ''29''),
        (CHR ''6'', ''33''), (CHR ''7'', ''36''), (CHR ''8'', ''19'')] (hd m))"

definition stateNameFromCode :: "string option \<Rightarrow> string option" where
  "stateNameFromCode code = Option.bind (nonempty code) STATE_NAMES"

section \<open>The tax inside an amount\<close>

datatype tax_kind = CGST | SGST | IGST

record tax_line =
  tx_ratePercent :: num
  tx_kind :: tax_kind
  tx_amount :: num

definition DEFAULT_GST_PERCENT :: num where "DEFAULT_GST_PERCENT = 18"

definition shippingGstPercent :: num where "shippingGstPercent = 18"

definition intra_state :: "string option \<Rightarrow> string option \<Rightarrow> bool" where
  "intra_state seller buyer \<longleftrightarrow> truthy seller \<and> truthy buyer \<and> seller = buyer"

definition splitGstInclusive ::
    "num \<Rightarrow> num option \<Rightarrow> string option \<Rightarrow> string option \<Rightarrow> num \<times> tax_line list" where
  "splitGstInclusive amountIncl gstPercent seller buyer =
     (let rate = dflt DEFAULT_GST_PERCENT gstPercent;
          net = roundInr (ndiv amountIncl (nadd 1 (ndiv rate 100)));
          taxTotal = roundInr (nsub amountIncl net)
      in if intra_state seller buyer then
           (let half = roundInr (ndiv taxTotal 2); other = roundInr (nsub taxTotal half)
            in (net, [\<lparr>tx_ratePercent = ndiv rate 2, tx_kind = CGST, tx_amount = half\<rparr>,
                      \<lparr>tx_ratePercent = ndiv rate 2, tx_kind = SGST, tx_amount = other\<rparr>]))
         else (net, [\<lparr>tx_ratePercent = rate, tx_kind = IGST, tx_amount = taxTotal\<rparr>]))"

section \<open>Amounts in words\<close>

definition ones :: "string list" where
  "ones = [[], ''One'', ''Two'', ''Three'', ''Four'', ''Five'', ''Six'', ''Seven'', ''Eight'', ''Nine'', ''Ten'',
     ''Eleven'', ''Twelve'', ''Thirteen'', ''Fourteen'', ''Fifteen'', ''Sixteen'', ''Seventeen'', ''Eighteen'', ''Nineteen'']"

definition tens :: "string list" where
  "tens = [[], [], ''Twenty'', ''Thirty'', ''Forty'', ''Fifty'', ''Sixty'', ''Seventy'', ''Eighty'', ''Ninety'']"

text \<open>An index past the end reads \<open>undefined\<close>, which a template prints as such. Amounts are not negative.\<close>

definition word_at :: "string list \<Rightarrow> nat \<Rightarrow> string" where
  "word_at ws n = (if n < length ws then ws ! n else ''undefined'')"

definition spaced :: "string \<Rightarrow> string" where
  "spaced s = '' '' @ s"

definition twoDigits :: "nat \<Rightarrow> string" where
  "twoDigits n =
     (if n < 20 then word_at ones n
      else trim (word_at tens (n div 10) @ (if n mod 10 \<noteq> 0 then spaced (word_at ones (n mod 10)) else [])))"

definition threeDigits :: "nat \<Rightarrow> string" where
  "threeDigits n =
     (if n < 100 then twoDigits n
      else word_at ones (n div 100) @ '' Hundred'' @
        (if n mod 100 \<noteq> 0 then spaced (twoDigits (n mod 100)) else []))"

definition amountInWordsInr :: "num \<Rightarrow> string" where
  "amountInWordsInr amount =
     (let rupees = nat (math_round amount);
          crore = rupees div 10000000; lakh = rupees mod 10000000 div 100000;
          thousand = rupees mod 100000 div 1000; hundred = rupees mod 1000
      in if rupees = 0 then ''Zero only''
         else trim (join '' '' (
             (if crore \<noteq> 0 then [twoDigits crore @ '' Crore''] else []) @
             (if lakh \<noteq> 0 then [twoDigits lakh @ '' Lakh''] else []) @
             (if thousand \<noteq> 0 then [twoDigits thousand @ '' Thousand''] else []) @
             (if hundred \<noteq> 0 then [threeDigits hundred] else []))) @ '' only'')"

section \<open>The company\<close>

record company =
  co_tradeName :: string
  co_legalName :: string
  co_platformBrand :: string
  co_gstin :: string
  co_pan :: string
  co_addressLines :: "string list"
  co_proprietorLine :: string
  co_contactEmail :: string
  co_website :: string
  co_operatorSummary :: string

definition formatCompanyAddressLines :: "string list" where
  "formatCompanyAddressLines =
     [''B/1A/702, NEPTUNE SWARAJYA'', ''NEPTUNE SWARAJYA, Ambivli'', ''Kalyan, Thane'', ''Maharashtra - 421102, India'']"

definition getVybeKartCompanyInfo :: "mail_env \<Rightarrow> company" where
  "getVybeKartCompanyInfo me =
     (let tradeName = first_setting me [''VYBEKART_TRADE_NAME''] ''LIVORA RETAIL'';
          legalName = first_setting me [''VYBEKART_LEGAL_NAME''] ''BHAVANA KAMLESH PRAJAPATI'';
          platformBrand = first_setting me [''VYBEKART_PLATFORM_BRAND''] ''Vybekart''
      in \<lparr> co_tradeName = tradeName, co_legalName = legalName, co_platformBrand = platformBrand,
           co_gstin = first_setting me [''VYBEKART_PLATFORM_GSTIN''] ''27BPYPP3775D1Z6'',
           co_pan = first_setting me [''VYBEKART_PAN''] ''BPYPP3775D'',
           co_addressLines = (case me_text me ''VYBEKART_REGISTERED_OFFICE'' of
               None \<Rightarrow> formatCompanyAddressLines | Some office \<Rightarrow> text_lines office),
           co_proprietorLine = ''BHAVANA KAMLESH PRAJAPATI (Proprietor)'',
           co_contactEmail = first_setting me [''SUPPORT_EMAIL'', ''VYBEKART_CONTACT_EMAIL''] ''contact@vybekart.co.in'',
           co_website = first_setting me [''ALPHA_WEBSITE_URL''] ''https://vybekart.co.in'',
           co_operatorSummary = platformBrand @ '' is operated by '' @ tradeName @ '' (proprietorship of '' @ legalName @ '').'' \<rparr>)"

end
