(* ===== verification/InvoiceFacts.thy ===== *)
theory InvoiceFacts
  imports InvoiceTax
begin

text \<open>
  The arithmetic of invoices: amounts of whole paise are closed under the roundings of the code, so the net
  amount and the taxes of a line add up to its total; and amounts in words can be read back.
\<close>

section \<open>Whole paise\<close>

text \<open>An amount of \<open>k\<close> paise in rupees, as the number that \<open>roundInr\<close> produces.\<close>

definition whole_paise :: "int \<Rightarrow> num" where
  "whole_paise k = ndiv (of_int k) 100"

definition cents :: "num \<Rightarrow> int" where
  "cents v = math_round (nmul (nadd v EPSILON) 100)"

lemma roundInr_cents: "roundInr v = whole_paise (cents v)"
  by (simp add: roundInr_def whole_paise_def cents_def)

definition in_paise :: "int \<Rightarrow> bool" where
  "in_paise k \<longleftrightarrow> 0 \<le> k \<and> k \<le> 2 ^ 40"

lemma paise_fl [simp]: "fl (whole_paise k) = whole_paise k"
  by (simp add: whole_paise_def ndiv_def)

lemma paise_mono: "j \<le> k \<Longrightarrow> whole_paise j \<le> whole_paise k"
  unfolding whole_paise_def ndiv_def by (intro fl_mono divide_right_mono) simp_all

lemma paise_0 [simp]: "whole_paise 0 = 0"
  by (simp add: whole_paise_def ndiv_def)

lemma in_paise_rat: "in_paise k \<Longrightarrow> 0 \<le> (of_int k :: rat) \<and> (of_int k :: rat) \<le> 1099511627776"
proof -
  assume "in_paise k"
  then have "(of_int k :: rat) \<le> of_int 1099511627776" by (simp only: of_int_le_iff in_paise_def) simp
  then show ?thesis using \<open>in_paise k\<close> by (simp add: in_paise_def)
qed

lemma paise_near:
  assumes "in_paise k"
  shows "\<bar>whole_paise k - of_int k / 100\<bar> \<le> 1 / 1000000"
proof -
  have "\<bar>(of_int k :: rat) / 100\<bar> < pow2 34" using in_paise_rat[OF assms] by (simp add: pow2_def)
  from fl_error[OF this] have "\<bar>whole_paise k - of_int k / 100\<bar> \<le> pow2 (- 20)" by (simp add: whole_paise_def ndiv_def)
  also have "\<dots> \<le> 1 / 1000000" by (simp add: pow2_def)
  finally show ?thesis .
qed

text \<open>A value near a number of paise, or between two of them, is rounded to it.\<close>

lemma cents_near:
  assumes "0 \<le> v" "v \<le> 2 ^ 34"
  shows "\<bar>of_int (cents v) - 100 * v\<bar> \<le> 1 / 2 + 1 / 1000"
proof -
  let ?a = "nadd v EPSILON" let ?m = "nmul ?a 100"
  have e: "0 \<le> EPSILON" "EPSILON \<le> 1 / 1000000" by (simp_all add: EPSILON_def pow2_def)
  have v: "v \<le> 17179869184" using assms by simp
  have small: "pow2 (- 19) \<le> 1 / 500000" "pow2 (- 13) \<le> 1 / 8000" by (simp_all add: pow2_def)
  have "\<bar>v + EPSILON\<bar> < 34359738368" using assms v e by linarith
  then have "\<bar>v + EPSILON\<bar> < pow2 35" by (simp add: pow2_def)
  from fl_error[OF this] have "\<bar>?a - (v + EPSILON)\<bar> \<le> pow2 (- 19)" by (simp add: nadd_def)
  then have a: "\<bar>?a - (v + EPSILON)\<bar> \<le> 1 / 500000" using small by linarith
  have a0: "0 \<le> ?a" using assms e by simp
  have "\<bar>?a * 100\<bar> < 2199023255552" using a a0 v e by linarith
  then have "\<bar>?a * 100\<bar> < pow2 41" by (simp add: pow2_def)
  from fl_error[OF this] have "\<bar>?m - ?a * 100\<bar> \<le> pow2 (- 13)" by (simp add: nmul_def)
  then have m: "\<bar>?m - ?a * 100\<bar> \<le> 1 / 8000" using small by linarith
  have r: "of_int (cents v) \<le> ?m + 1 / 2" "?m + 1 / 2 < of_int (cents v) + 1"
    unfolding cents_def math_round_def by linarith+
  show ?thesis using r m a e by linarith
qed

lemma cents_exact:
  assumes "in_paise k" "0 \<le> v" "\<bar>v - of_int k / 100\<bar> \<le> 1 / 1000"
  shows "cents v = k"
proof -
  have "v \<le> 17179869184" using in_paise_rat[OF assms(1)] assms(3) by linarith
  then have "v \<le> 2 ^ 34" by simp
  from cents_near[OF assms(2) this] assms(3)
  have "\<bar>of_int (cents v) - of_int k\<bar> < (1 :: rat)" by linarith
  then have "\<bar>of_int (cents v - k)\<bar> < (1 :: rat)" by simp
  then show ?thesis by linarith
qed

lemma cents_paise [simp]: "in_paise k \<Longrightarrow> cents (whole_paise k) = k"
  using paise_near[of k] paise_mono[of 0 k] by (intro cents_exact) (auto simp: in_paise_def)

lemma cents_mono: "x \<le> y \<Longrightarrow> cents x \<le> cents y"
proof -
  assume "x \<le> y"
  then have "nadd x EPSILON \<le> nadd y EPSILON" by (intro nadd_mono) simp_all
  then have "nmul (nadd x EPSILON) 100 \<le> nmul (nadd y EPSILON) 100"
    unfolding nmul_def by (intro fl_mono) simp
  then show ?thesis unfolding cents_def by (rule math_round_mono)
qed

lemma cents_between: "0 \<le> v \<Longrightarrow> v \<le> whole_paise k \<Longrightarrow> in_paise k \<Longrightarrow> 0 \<le> cents v \<and> cents v \<le> k"
  using cents_mono[of 0 v] cents_mono[of v "whole_paise k"] cents_paise[of 0] by (auto simp: in_paise_def)

text \<open>Differences of whole paise are whole paise.\<close>

lemma roundInr_sub:
  assumes "in_paise k" "0 \<le> j" "j \<le> k"
  shows "roundInr (nsub (whole_paise k) (whole_paise j)) = whole_paise (k - j)"
proof -
  let ?d = "whole_paise k - whole_paise j"
  have d: "in_paise (k - j)" and j: "in_paise j" using assms by (auto simp: in_paise_def)
  have jk: "(of_int j :: rat) \<le> of_int k" using assms by simp
  note near = paise_near[OF assms(1)] paise_near[OF j] and b = in_paise_rat[OF assms(1)] in_paise_rat[OF j]
  have "\<bar>?d\<bar> < 34359738368" using near b jk by linarith
  then have "\<bar>?d\<bar> < pow2 35" by (simp add: pow2_def)
  from fl_error[OF this] have "\<bar>nsub (whole_paise k) (whole_paise j) - ?d\<bar> \<le> pow2 (- 19)" by (simp add: nsub_def)
  also have "\<dots> \<le> 1 / 500000" by (simp add: pow2_def)
  finally have "\<bar>nsub (whole_paise k) (whole_paise j) - ?d\<bar> \<le> 1 / 500000" .
  then have "\<bar>nsub (whole_paise k) (whole_paise j) - of_int (k - j) / 100\<bar> \<le> 1 / 1000"
    using near unfolding of_int_diff diff_divide_distrib by linarith
  moreover have "0 \<le> nsub (whole_paise k) (whole_paise j)" using paise_mono[OF assms(3)] by simp
  ultimately show ?thesis by (simp add: roundInr_cents cents_exact[OF d])
qed

section \<open>The tax inside an amount\<close>

definition gst_divisor :: "num \<Rightarrow> num" where
  "gst_divisor rate = nadd 1 (ndiv rate 100)"

lemma gst_divisor_near:
  assumes "0 \<le> rate" "rate \<le> 100"
  shows "1 \<le> gst_divisor rate" "\<bar>gst_divisor rate - (1 + rate / 100)\<bar> \<le> 1 / 1000000000000000"
proof -
  let ?q = "ndiv rate 100"
  have small: "pow2 (- 53) \<le> 1 / 4000000000000000" "pow2 (- 52) \<le> 1 / 4000000000000000" by (simp_all add: pow2_def)
  have "\<bar>rate / 100\<bar> < pow2 1" using assms by (simp add: pow2_def)
  from fl_error[OF this] have q: "\<bar>?q - rate / 100\<bar> \<le> 1 / 4000000000000000" using small by (simp add: ndiv_def)
  have q0: "0 \<le> ?q" using assms by simp
  show "1 \<le> gst_divisor rate" unfolding gst_divisor_def nadd_def using q0 by (intro fl_ge) simp_all
  have "\<bar>1 + ?q\<bar> < 4" using q q0 assms by linarith
  then have "\<bar>1 + ?q\<bar> < pow2 2" by (simp add: pow2_def)
  from fl_error[OF this] have "\<bar>gst_divisor rate - (1 + ?q)\<bar> \<le> pow2 (- 52)" by (simp add: gst_divisor_def nadd_def)
  then show "\<bar>gst_divisor rate - (1 + rate / 100)\<bar> \<le> 1 / 1000000000000000" using q small by linarith
qed

lemma quotient_diff: "d \<noteq> 0 \<Longrightarrow> e \<noteq> 0 \<Longrightarrow> a / d - a / e = a * (e - d) / (d * e)" for a d e :: rat
  by (simp add: field_simps)

lemma gst_net:
  assumes "in_paise k" "0 \<le> rate" "rate \<le> 100"
  defines "n \<equiv> cents (ndiv (whole_paise k) (gst_divisor rate))"
  shows "0 \<le> n" "n \<le> k" "\<bar>of_int n - of_int k / (1 + rate / 100)\<bar> \<le> 51 / 100"
proof -
  let ?A = "whole_paise k" and ?a = "of_int k / 100 :: rat" and ?d = "gst_divisor rate" and ?D = "1 + rate / 100"
  let ?v = "ndiv ?A ?d"
  note d = gst_divisor_near[OF assms(2,3)] and k = in_paise_rat[OF assms(1)] and near = paise_near[OF assms(1)]
  have A0: "0 \<le> ?A" using paise_mono[of 0 k] assms(1) by (simp add: in_paise_def)
  have v: "0 \<le> ?v" "?v \<le> ?A"
    using A0 d(1) by (simp_all add: ndiv_def fl_nonneg fl_le divide_le_eq mult_left_mono[of 1 ?d ?A, simplified] order_trans[OF zero_le_one])
  then show "0 \<le> n" "n \<le> k" using cents_between[OF v assms(1)] by (simp_all add: n_def)
  have A: "?A \<le> 17179869184" using near k by linarith
  have "?A / ?d \<le> ?A" using A0 d(1) mult_left_mono[OF d(1) A0] by (simp add: divide_le_eq)
  then have "\<bar>?A / ?d\<bar> < pow2 35" using A A0 d(1) by (simp add: pow2_def)
  from fl_error[OF this] have "\<bar>?v - ?A / ?d\<bar> \<le> pow2 (- 19)" by (simp add: ndiv_def)
  then have 1: "\<bar>?v - ?A / ?d\<bar> \<le> 1 / 500000" by (rule order_trans) (simp add: pow2_def)
  have "\<bar>?A / ?d - ?a / ?d\<bar> = \<bar>?A - ?a\<bar> / ?d"
    unfolding diff_divide_distrib[symmetric] abs_divide using d(1) by (simp only: abs_of_nonneg order_trans[OF zero_le_one])
  also have "\<dots> \<le> \<bar>?A - ?a\<bar>" using d(1) mult_left_mono[OF d(1), of "\<bar>?A - ?a\<bar>"] by (simp add: divide_le_eq)
  finally have 2: "\<bar>?A / ?d - ?a / ?d\<bar> \<le> 1 / 1000000" using near by linarith
  have D: "1 \<le> ?D" using assms(2) by simp
  have dD: "1 \<le> ?d * ?D" using mult_mono[OF d(1) D] d(1) by simp
  have "?a / ?d - ?a / ?D = ?a * (?D - ?d) / (?d * ?D)" using d(1) D by (intro quotient_diff) linarith+
  then have "\<bar>?a / ?d - ?a / ?D\<bar> = \<bar>?a * (?D - ?d)\<bar> / (?d * ?D)" using dD by (simp add: abs_divide)
  also have "\<dots> \<le> \<bar>?a * (?D - ?d)\<bar>"
    using dD mult_left_mono[OF dD, of "\<bar>?a * (?D - ?d)\<bar>"] by (simp add: divide_le_eq)
  also have "\<dots> = ?a * \<bar>?d - ?D\<bar>" using k by (simp add: abs_mult abs_minus_commute)
  also have "\<dots> \<le> 17179869184 * (1 / 1000000000000000)" using d(2) k by (intro mult_mono) linarith+
  finally have 3: "\<bar>?a / ?d - ?a / ?D\<bar> \<le> 1 / 50000" by simp
  have "?v \<le> 2 ^ 34" using v A by simp
  from cents_near[OF v(1) this] have "\<bar>of_int n - 100 * ?v\<bar> \<le> 1 / 2 + 1 / 1000" by (simp add: n_def)
  moreover have "x / e = 100 * (x / 100 / e)" for x e :: rat by simp
  then have "of_int k / ?D = 100 * (?a / ?D)" by blast
  ultimately show "\<bar>of_int n - of_int k / ?D\<bar> \<le> 51 / 100" using 1 2 3 by linarith
qed

lemma half_paise:
  assumes "in_paise t"
  defines "h \<equiv> cents (ndiv (whole_paise t) 2)"
  shows "0 \<le> h" "h \<le> t" "\<bar>2 * h - t\<bar> \<le> 1"
proof -
  let ?A = "whole_paise t" let ?v = "ndiv ?A 2"
  note k = in_paise_rat[OF assms(1)] and near = paise_near[OF assms(1)]
  have A0: "0 \<le> ?A" using paise_mono[of 0 t] assms(1) by (simp add: in_paise_def)
  have v: "0 \<le> ?v" "?v \<le> ?A" using A0 by (simp_all add: ndiv_def fl_nonneg fl_le)
  then show "0 \<le> h" "h \<le> t" using cents_between[OF v assms(1)] by (simp_all add: h_def)
  have A: "?A \<le> 17179869184" using near k by linarith
  have "\<bar>?A / 2\<bar> < pow2 35" using A A0 by (simp add: pow2_def)
  from fl_error[OF this] have "\<bar>?v - ?A / 2\<bar> \<le> pow2 (- 19)" by (simp add: ndiv_def)
  then have 1: "\<bar>?v - ?A / 2\<bar> \<le> 1 / 500000" by (rule order_trans) (simp add: pow2_def)
  have "?v \<le> 2 ^ 34" using v A by simp
  from cents_near[OF v(1) this] have "\<bar>of_int h - 100 * ?v\<bar> \<le> 1 / 2 + 1 / 1000" by (simp add: h_def)
  then have "\<bar>2 * of_int h - of_int t\<bar> < (2 :: rat)" using 1 near by linarith
  then have "\<bar>of_int (2 * h - t)\<bar> < (2 :: rat)" by simp
  then show "\<bar>2 * h - t\<bar> \<le> 1" by linarith
qed

section \<open>Amounts in words\<close>

lemma join_append: "xs \<noteq> [] \<Longrightarrow> ys \<noteq> [] \<Longrightarrow> join sep (xs @ ys) = join sep xs @ sep @ join sep ys"
proof (induction sep xs rule: join.induct)
  case (2 sep x)
  then show ?case by (cases ys) simp_all
qed simp_all

lemma join_concat:
  "xss \<noteq> [] \<Longrightarrow> list_all (\<lambda>xs. xs \<noteq> []) xss \<Longrightarrow> join sep (map (join sep) xss) = join sep (concat xss)"
proof (induction xss)
  case (Cons xs xss)
  then show ?case by (cases xss) (simp_all add: join_append)
qed simp

lemma words_from_word: "list_all (\<lambda>c. \<not> is_space c) w \<Longrightarrow> words_from acc (w @ s) = words_from (rev w @ acc) s"
  by (induction w arbitrary: acc) simp_all

lemma words_of_join: "list_all is_word ws \<Longrightarrow> words_of (join '' '' ws) = ws"
proof (induction "'' ''" ws rule: join.induct)
  case (2 x)
  then show ?case using words_from_word[of x "[]" "[]"] by (simp add: words_of_def is_word_def)
next
  case (3 x y zs)
  then show ?case using words_from_word[of x "[]" "'' '' @ join '' '' (y # zs)"]
    by (simp add: words_of_def is_word_def is_space_def)
qed (simp add: words_of_def)

lemma join_ends:
  "ws \<noteq> [] \<Longrightarrow> list_all is_word ws \<Longrightarrow>
   join '' '' ws \<noteq> [] \<and> \<not> is_space (hd (join '' '' ws)) \<and> \<not> is_space (last (join '' '' ws))"
proof (induction "'' ''" ws rule: join.induct)
  case (2 x)
  then have "x \<noteq> []" "\<forall>c \<in> set x. \<not> is_space c" by (auto simp: is_word_def list_all_iff)
  then show ?case by (metis hd_in_set join.simps(2) last_in_set)
next
  case (3 x y zs)
  then show ?case by (cases x) (simp_all add: is_word_def)
qed simp

lemma trim_join: "list_all is_word ws \<Longrightarrow> trim (join '' '' ws) = join '' '' ws"
proof (cases "ws = []")
  case False
  assume "list_all is_word ws"
  from join_ends[OF False this] obtain c cs where j: "join '' '' ws = c # cs" "\<not> is_space c" "\<not> is_space (last (join '' '' ws))"
    by (cases "join '' '' ws") simp_all
  obtain ds d where r: "join '' '' ws = ds @ [d]" using j(1) by (metis list.distinct(1) rev_exhaust)
  then have d: "\<not> is_space d" using j(3) by simp
  have "dropWhile is_space (ds @ [d]) = ds @ [d]" using j(1,2) r by simp
  then show ?thesis using d by (simp add: trim_def r)
qed (simp add: trim_def)

text \<open>What the words of a number mean, read from the left.\<close>

definition word_value :: "string \<Rightarrow> nat" where
  "word_value w = (case map_of (zip (tl ones) [1..<20] @ zip (drop 2 tens) [20, 30, 40, 50, 60, 70, 80, 90]) w of
     None \<Rightarrow> 0 | Some n \<Rightarrow> n)"

fun read_words :: "nat \<Rightarrow> nat \<Rightarrow> string list \<Rightarrow> nat" where
  "read_words t c [] = t + c"
| "read_words t c (w # ws) =
     (if w = ''Crore'' then read_words (t + c * 10000000) 0 ws
      else if w = ''Lakh'' then read_words (t + c * 100000) 0 ws
      else if w = ''Thousand'' then read_words (t + c * 1000) 0 ws
      else if w = ''Hundred'' then read_words t (c * 100) ws
      else read_words t (c + word_value w) ws)"

definition two_words :: "nat \<Rightarrow> string list" where
  "two_words n =
     (if n < 20 then [ones ! n] else tens ! (n div 10) # (if n mod 10 = 0 then [] else [ones ! (n mod 10)]))"

definition plain_word :: "string \<Rightarrow> bool" where
  "plain_word w \<longleftrightarrow> is_word w \<and> w \<notin> {''Crore'', ''Lakh'', ''Thousand'', ''Hundred''}"

definition two_ok :: "nat \<Rightarrow> bool" where
  "two_ok n \<longleftrightarrow> twoDigits n = join '' '' (two_words n) \<and> list_all plain_word (two_words n) \<and>
     sum_list (map word_value (two_words n)) = n"

lemma ones_ok: "list_all (\<lambda>i. plain_word (ones ! i) \<and> word_value (ones ! i) = i) [1..<20]"
  by code_simp

lemma tens_ok: "list_all (\<lambda>i. plain_word (tens ! i) \<and> word_value (tens ! i) = 10 * i) [2..<10]"
  by code_simp

lemma twoDigits_ok: "0 < n \<Longrightarrow> n < 100 \<Longrightarrow> two_ok n"
proof (cases "n < 20")
  case True
  assume "0 < n"
  then have "n \<in> set [1..<20]" using True by simp
  then show ?thesis using ones_ok True
    by (simp add: two_ok_def two_words_def twoDigits_def word_at_def ones_def list_all_iff)
next
  case False
  assume "n < 100"
  define t o1 where "t = n div 10" and "o1 = n mod 10"
  have n: "n = 10 * t + o1" "o1 < 10" "2 \<le> t" "t < 10" using False \<open>n < 100\<close> by (auto simp: t_def o1_def)
  then have "t \<in> set [2..<10]" by (simp only: set_upt atLeastLessThan_iff)
  then have t: "plain_word (tens ! t)" "word_value (tens ! t) = 10 * t" using tens_ok by (auto simp: list_all_iff)
  have o1: "plain_word (ones ! o1)" "word_value (ones ! o1) = o1" if "o1 \<noteq> 0"
    using that n(2) ones_ok by (auto simp: list_all_iff)
  have len: "t < length tens" "o1 < length ones" using n by (simp_all add: tens_def ones_def)
  have "trim (join '' '' ws) = join '' '' ws" if "list_all plain_word ws" for ws
    using that by (intro trim_join) (auto simp: list_all_iff plain_word_def)
  note trim = this[of "[tens ! t]"] this[of "[tens ! t, ones ! o1]"]
  have two: "two_words n = tens ! t # (if o1 = 0 then [] else [ones ! o1])"
    using False by (simp add: two_words_def t_def o1_def)
  have dig: "twoDigits n = trim (tens ! t @ (if o1 \<noteq> 0 then '' '' @ ones ! o1 else []))"
    using False len by (simp add: twoDigits_def word_at_def spaced_def t_def o1_def)
  show ?thesis
  proof (cases "o1 = 0")
    case True
    then show ?thesis unfolding two_ok_def two dig using t trim(1) n(1) by simp
  next
    case False
    then show ?thesis unfolding two_ok_def two dig using t o1 trim(2) n(1) by simp
  qed
qed

lemma plain_is_word: "list_all plain_word ws \<Longrightarrow> list_all is_word ws"
  by (auto simp: list_all_iff plain_word_def)

lemma read_plain:
  "list_all plain_word us \<Longrightarrow> read_words t c (us @ ws) = read_words t (c + sum_list (map word_value us)) ws"
  by (induction us arbitrary: c) (simp_all add: plain_word_def add.assoc)

lemma read_two: "0 < n \<Longrightarrow> n < 100 \<Longrightarrow> read_words t c (two_words n @ ws) = read_words t (c + n) ws"
  using twoDigits_ok[of n] read_plain[of "two_words n" t c ws] by (simp add: two_ok_def)

definition three_words :: "nat \<Rightarrow> string list" where
  "three_words n = (if n < 100 then two_words n
     else [ones ! (n div 100), ''Hundred''] @ (if n mod 100 = 0 then [] else two_words (n mod 100)))"

lemma keyword_words:
  "list_all is_word [''Crore'', ''Lakh'', ''Thousand'', ''Hundred'', ''only'', ''Zero'']"
  by (simp add: is_word_def is_space_def)

lemma two_words_ne [simp]: "two_words n \<noteq> []"
  by (simp add: two_words_def)

lemma three_words_ne [simp]: "three_words n \<noteq> []"
  by (simp add: three_words_def)

lemma three_ok:
  assumes "0 < n" "n < 1000"
  shows "threeDigits n = join '' '' (three_words n)" "list_all is_word (three_words n)"
    "read_words t 0 (three_words n @ ws) = read_words t n ws"
proof -
  define h m where "h = n div 100" and "m = n mod 100"
  have n: "n = h * 100 + m" "m < 100" "h < 10" using assms by (auto simp: h_def m_def)
  have m: "twoDigits m = join '' '' (two_words m)" "list_all is_word (two_words m)" if "m \<noteq> 0"
    using twoDigits_ok[of m] that n(2) by (simp_all add: two_ok_def plain_is_word)
  have small: "twoDigits n = join '' '' (two_words n)" "list_all is_word (two_words n)" if "n < 100"
    using twoDigits_ok[of n] that assms by (simp_all add: two_ok_def plain_is_word)
  have h: "plain_word (ones ! h)" "word_value (ones ! h) = h" if "h \<noteq> 0"
    using ones_ok that n(3) by (auto simp: list_all_iff)
  have len: "h < length ones" using n(3) by (simp add: ones_def)
  have h0: "n < 100 \<longleftrightarrow> h = 0" using n by auto
  note defs = three_words_def threeDigits_def h_def[symmetric] m_def[symmetric]
  have j: "join '' '' (w # two_words m) = w @ '' '' @ join '' '' (two_words m)" for w
    using join_append[of "[w]" "two_words m" "'' ''"] by simp
  show "threeDigits n = join '' '' (three_words n)"
    using m(1) small(1) len h0 j[of "''Hundred''"] by (cases "m = 0") (auto simp: defs word_at_def spaced_def)
  show "list_all is_word (three_words n)"
    using m(2) small(2) h(1) keyword_words h0 by (auto simp: defs plain_word_def)
  show "read_words t 0 (three_words n @ ws) = read_words t n ws"
    using h h0 n read_two[of n t 0 ws] read_two[of m t "h * 100" ws] assms(1)
    by (auto simp: defs plain_word_def)
qed

text \<open>The words of a whole amount, group by group.\<close>

definition group_words :: "nat \<Rightarrow> string list \<Rightarrow> string list" where
  "group_words n unit = (if n = 0 then [] else two_words n @ unit)"

definition amount_words :: "nat \<Rightarrow> string list list" where
  "amount_words r =
     [group_words (r div 10000000) [''Crore''], group_words (r mod 10000000 div 100000) [''Lakh''],
      group_words (r mod 100000 div 1000) [''Thousand''],
      (if r mod 1000 = 0 then [] else three_words (r mod 1000))]"

definition group_text :: "nat \<Rightarrow> string \<Rightarrow> string list" where
  "group_text n unit = (if n \<noteq> 0 then [twoDigits n @ '' '' @ unit] else [])"

lemma group_ok:
  assumes "n < 100" "is_word unit" "unit \<in> {''Crore'', ''Lakh'', ''Thousand''}"
  shows "group_text n unit = map (join '' '') (filter (\<lambda>ws. ws \<noteq> []) [group_words n [unit]])"
    "list_all is_word (group_words n [unit])"
  using twoDigits_ok[of n] assms join_append[of "two_words n" "[unit]" "'' ''"]
  by (auto simp: group_text_def group_words_def two_ok_def plain_is_word)

lemma amount_words_text:
  assumes "r < 1000000000"
  shows "group_text (r div 10000000) ''Crore'' @ group_text (r mod 10000000 div 100000) ''Lakh'' @
     group_text (r mod 100000 div 1000) ''Thousand'' @ (if r mod 1000 \<noteq> 0 then [threeDigits (r mod 1000)] else [])
     = map (join '' '') (filter (\<lambda>ws. ws \<noteq> []) (amount_words r))"
    "list_all is_word (concat (amount_words r))"
proof -
  have b: "r div 10000000 < 100" "r mod 10000000 div 100000 < 100" "r mod 100000 div 1000 < 100" "r mod 1000 < 1000"
    using assms by (simp_all add: div_less_iff_less_mult)
  have u: "is_word ''Crore''" "is_word ''Lakh''" "is_word ''Thousand''" using keyword_words by simp_all
  note g = group_ok[OF b(1) u(1)] group_ok[OF b(2) u(2)] group_ok[OF b(3) u(3)]
  note three = three_ok[of "r mod 1000"] b(4)
  show "group_text (r div 10000000) ''Crore'' @ group_text (r mod 10000000 div 100000) ''Lakh'' @
     group_text (r mod 100000 div 1000) ''Thousand'' @ (if r mod 1000 \<noteq> 0 then [threeDigits (r mod 1000)] else [])
     = map (join '' '') (filter (\<lambda>ws. ws \<noteq> []) (amount_words r))"
    using g(1,3,5) three(1) b(4) by (simp add: amount_words_def)
  show "list_all is_word (concat (amount_words r))"
    using g(2,4,6) three(2) b(4) by (simp add: amount_words_def)
qed

lemma read_group:
  assumes "n < 100" "(unit, v) \<in> {(''Crore'', 10000000), (''Lakh'', 100000), (''Thousand'', 1000)}"
  shows "read_words t 0 (group_words n [unit] @ ws) = read_words (t + n * v) 0 ws"
  using assms read_two[of n t 0 "unit # ws"] by (auto simp: group_words_def)

lemma indian_digits:
  "r div 10000000 * 10000000 + r mod 10000000 div 100000 * 100000 + r mod 100000 div 1000 * 1000 + r mod 1000 = r" for r :: nat
proof -
  have 1: "r mod 100000 = r mod 10000000 mod 100000" by (simp add: mod_mod_cancel)
  have 2: "r mod 1000 = r mod 100000 mod 1000" by (simp add: mod_mod_cancel)
  have a: "r mod 100000 div 1000 * 1000 + r mod 1000 = r mod 100000" unfolding 2 by (rule div_mult_mod_eq)
  have b: "r mod 10000000 div 100000 * 100000 + r mod 100000 = r mod 10000000" unfolding 1 by (rule div_mult_mod_eq)
  show ?thesis using a b div_mult_mod_eq[of r 10000000] by linarith
qed

lemma no_value: "word_value ''only'' = 0" "word_value ''Zero'' = 0"
  by code_simp+

lemma amount_words_read:
  assumes "r < 1000000000"
  shows "read_words 0 0 (concat (amount_words r) @ [''only'']) = r"
proof -
  have b: "r div 10000000 < 100" "r mod 10000000 div 100000 < 100" "r mod 100000 div 1000 < 100" "r mod 1000 < 1000"
    using assms by (simp_all add: div_less_iff_less_mult)
  have last: "read_words t 0 ((if r mod 1000 = 0 then [] else three_words (r mod 1000)) @ [''only'']) = t + r mod 1000" for t
    using three_ok(3)[of "r mod 1000" t "[''only'']"] b(4) by (simp add: no_value)
  show ?thesis
    using indian_digits[of r]
    by (simp add: amount_words_def read_group[OF b(1), of "''Crore''" 10000000] read_group[OF b(2), of "''Lakh''" 100000]
        read_group[OF b(3), of "''Thousand''" 1000] last)
qed

lemma concat_filled: "concat (filter (\<lambda>ws. ws \<noteq> []) xss) = concat xss"
  by (induction xss) simp_all

lemma amountInWords_text:
  assumes "nat (math_round amount) < 1000000000"
  defines "r \<equiv> nat (math_round amount)"
  shows "amountInWordsInr amount = join '' '' (if r = 0 then [''Zero'', ''only''] else concat (amount_words r) @ [''only''])"
proof (cases "r = 0")
  case False
  have r: "r < 1000000000" using assms(1) by (simp add: r_def)
  note txts = amount_words_text[OF r]
  let ?xss = "filter (\<lambda>ws. ws \<noteq> []) (amount_words r)"
  have ne: "concat (amount_words r) \<noteq> []"
  proof
    assume "concat (amount_words r) = []"
    with amount_words_read[OF r] have "read_words 0 0 [''only''] = r" by simp
    then show False using False by (simp add: no_value)
  qed
  have c: "concat ?xss = concat (amount_words r)" by (rule concat_filled)
  have "?xss \<noteq> []" using ne by (auto simp: filter_empty_conv)
  moreover have "list_all (\<lambda>ws. ws \<noteq> []) ?xss" by (simp add: list_all_iff)
  ultimately have j: "join '' '' (map (join '' '') ?xss) = join '' '' (concat (amount_words r))"
    using join_concat c by metis
  have "amountInWordsInr amount = trim (join '' '' (group_text (r div 10000000) ''Crore'' @
      group_text (r mod 10000000 div 100000) ''Lakh'' @ group_text (r mod 100000 div 1000) ''Thousand'' @
      (if r mod 1000 \<noteq> 0 then [threeDigits (r mod 1000)] else []))) @ '' only''"
    using False unfolding amountInWordsInr_def Let_def r_def[symmetric] group_text_def by simp
  also have "\<dots> = trim (join '' '' (concat (amount_words r))) @ '' only''" unfolding txts(1) j ..
  also have "\<dots> = join '' '' (concat (amount_words r) @ [''only''])"
    using join_append[OF ne, of "[''only'']" "'' ''"] trim_join[OF txts(2)] by simp
  finally show ?thesis using False by simp
qed (simp add: amountInWordsInr_def r_def)

text \<open>
  C38: an amount in words says the amount: read word by word (ten, hundred, thousand, lakh, crore), the text
  printed on an invoice for any amount below a hundred crore gives back its whole rupees. From a
  hundred crore on the code prints the word \<open>undefined\<close>.
\<close>

theorem amount_words_read_back:
  assumes "0 \<le> amount" "math_round amount < 10 ^ 9"
  shows "read_words 0 0 (words_of (amountInWordsInr amount)) = nat (math_round amount)"
proof -
  let ?r = "nat (math_round amount)"
  have r: "?r < 1000000000" using assms by simp
  have w: "list_all is_word (concat (amount_words ?r) @ [''only''])" "list_all is_word [''Zero'', ''only'']"
    using amount_words_text(2)[OF r] keyword_words by simp_all
  show ?thesis
  proof (cases "?r = 0")
    case True
    then show ?thesis using words_of_join[OF w(2)] by (simp add: amountInWords_text[OF r] no_value)
  next
    case False
    then show ?thesis using words_of_join[OF w(1)] amount_words_read[OF r] by (simp add: amountInWords_text[OF r])
  qed
qed

theorem amount_words_read_back_witness:
  "read_words 0 0 (words_of (amountInWordsInr 123456789)) = 123456789"
  using amount_words_read_back[of 123456789] by (simp add: math_round_of_int[of 123456789, simplified])

lemma hundred_crore: "amountInWordsInr 1000000000 = ''undefined Crore only''"
  using math_round_of_int[of 1000000000]
  by (simp add: amountInWordsInr_def twoDigits_def word_at_def tens_def trim_def is_space_def)


text \<open>
  C37: the tax inside an amount of whole paise (up to ten billion rupees, at a rate up to 100 per cent): the
  net amount and the taxes are whole paise, none negative, and add up to the amount exactly; the net
  amount is the exact quotient up to rounding; within a state the tax is split into two parts that
  differ by at most one paisa, otherwise it is one.
\<close>

theorem gst_split_adds_up:
  assumes "0 \<le> k" "k \<le> 2 ^ 40" "0 \<le> rate" "rate \<le> 100"
  shows "\<exists>n ts. fst (splitGstInclusive (whole_paise k) (Some rate) seller buyer) = whole_paise n \<and>
     map tx_amount (snd (splitGstInclusive (whole_paise k) (Some rate) seller buyer)) = map whole_paise ts \<and>
     0 \<le> n \<and> list_all (\<lambda>t. 0 \<le> t) ts \<and> n + sum_list ts = k \<and>
     \<bar>of_int n - of_int k / (1 + rate / 100)\<bar> \<le> 51 / 100 \<and>
     (if intra_state seller buyer
      then map tx_kind (snd (splitGstInclusive (whole_paise k) (Some rate) seller buyer)) = [CGST, SGST] \<and> \<bar>ts ! 0 - ts ! 1\<bar> \<le> 1
      else map tx_kind (snd (splitGstInclusive (whole_paise k) (Some rate) seller buyer)) = [IGST])"
proof -
  have k: "in_paise k" using assms by (simp add: in_paise_def)
  define n where "n = cents (ndiv (whole_paise k) (gst_divisor rate))"
  note n = gst_net[OF k assms(3,4), folded n_def]
  have t: "in_paise (k - n)" using n assms by (simp add: in_paise_def)
  define h where "h = cents (ndiv (whole_paise (k - n)) 2)"
  note h = half_paise[OF t, folded h_def]
  have net: "roundInr (ndiv (whole_paise k) (nadd 1 (ndiv rate 100))) = whole_paise n"
    by (simp add: roundInr_cents n_def gst_divisor_def)
  have tax: "roundInr (nsub (whole_paise k) (whole_paise n)) = whole_paise (k - n)" by (rule roundInr_sub[OF k n(1,2)])
  have half: "roundInr (ndiv (whole_paise (k - n)) 2) = whole_paise h" by (simp add: roundInr_cents h_def)
  have other: "roundInr (nsub (whole_paise (k - n)) (whole_paise h)) = whole_paise (k - n - h)" by (rule roundInr_sub[OF t h(1,2)])
  note split = splitGstInclusive_def Let_def dflt_def net tax half other
  show ?thesis
  proof (cases "intra_state seller buyer")
    case True
    show ?thesis
      by (rule exI[of _ n], rule exI[of _ "[h, k - n - h]"]) (use n h True in \<open>simp add: split\<close>)
  next
    case False
    show ?thesis
      by (rule exI[of _ n], rule exI[of _ "[k - n]"]) (use n False in \<open>simp add: split\<close>)
  qed
qed

theorem gst_split_adds_up_witness:
  "\<exists>n ts. fst (splitGstInclusive (whole_paise 99900) (Some 18) (Some ''27'') (Some ''27'')) = whole_paise n \<and>
     n + sum_list ts = 99900 \<and> \<bar>of_int n - (99900 :: rat) / (1 + 18 / 100)\<bar> \<le> 51 / 100 \<and> \<bar>ts ! 0 - ts ! 1\<bar> \<le> 1"
  using gst_split_adds_up[of 99900 18 "Some ''27''" "Some ''27''"] by (auto simp: intra_state_def)

end
