(* ===== verification/Invoices.thy ===== *)
theory Invoices
  imports InvoiceFacts SellerDesk "HOL-Library.Multiset"
begin

text \<open>
  Tax invoices, src/src/invoices/invoices.service.ts: the number of a delivered order or replacement, given
  out once, and the pages of the document, one per seller. The drawing of the PDF is not modelled: a
  document is its content. \<open>ymd\<close> gives year, month and day of an instant in the server's local time.
\<close>

section \<open>The document\<close>

record invoice_line =
  il_slNo :: nat
  il_description :: string
  il_hsnCode :: "string option"
  il_unitPriceIncl :: num
  il_quantity :: int
  il_netAmount :: num
  il_taxes :: "tax_line list"
  il_totalAmount :: num

record invoice_party =
  ip_name :: string
  ip_lines :: "string list"
  ip_pan :: "string option"
  ip_gstin :: "string option"
  ip_stateCode :: "string option"
  ip_stateName :: "string option"

record address_block =
  ab_name :: string
  ab_lines :: "string list"
  ab_stateCode :: "string option"
  ab_stateName :: "string option"

record invoice_branding =
  ib_platformBrand :: string
  ib_tradeName :: string
  ib_gstin :: string

record invoice_page =
  iv_pageNo :: nat
  iv_pageTotal :: nat
  iv_orderNumber :: string
  iv_invoiceNumber :: string
  iv_orderDate :: int
  iv_invoiceDate :: int
  iv_invoiceDetails :: string
  iv_soldBy :: invoice_party
  iv_billing :: address_block
  iv_shipping :: address_block
  iv_placeOfSupply :: string
  iv_placeOfDelivery :: string
  iv_lineItems :: "invoice_line list"
  iv_totalTax :: num
  iv_grandTotal :: num
  iv_amountInWords :: string
  iv_paymentTransactionId :: "string option"
  iv_paymentDateTime :: int
  iv_paymentMode :: string
  iv_branding :: invoice_branding
  iv_originalOrderRef :: "string option" \<comment> \<open>given for a replacement\<close>

record invoice_doc =
  id_filename :: string
  id_pages :: "invoice_page list"

section \<open>Parties\<close>

definition buildInvoiceBranding :: "mail_env \<Rightarrow> invoice_branding" where
  "buildInvoiceBranding me = (let c = getVybeKartCompanyInfo me
     in \<lparr>ib_platformBrand = co_platformBrand c, ib_tradeName = co_tradeName c, ib_gstin = co_gstin c\<rparr>)"

definition resolveSellerAddress :: "world \<Rightarrow> seller_row \<Rightarrow> string" where
  "resolveSellerAddress w s1 =
     (if filled (s_businessAddress s1) then trim (the (s_businessAddress s1))
      else case newest_pickup w (s_userId s1) of None \<Rightarrow> []
        | Some a \<Rightarrow> join newline (filter (\<lambda>x. x \<noteq> [])
            [a_line1 a, str_or (a_line2 a) [], a_city a @ '', '' @ a_state a @ '' '' @ a_zip a, a_country a]))"

definition not_invoice_ready :: exn where
  "not_invoice_ready = Unprocessable
     ''Seller business details are incomplete for tax invoice. Please contact support.''"

definition sellerInvoiceReady :: "string \<Rightarrow> string \<Rightarrow> bool" where
  "sellerInvoiceReady name address \<longleftrightarrow> trim name \<noteq> [] \<and> trim address \<noteq> []"

definition buildAddressBlock :: "string option \<Rightarrow> string \<Rightarrow> address_block" where
  "buildAddressBlock raw buyerName =
     (let parsed = parseShippingAddressSnapshot raw;
          code = stateCodeFromPin (extractPinFromText (Some (sh_addressLine parsed)))
      in \<lparr> ab_name = dflt buyerName (sh_contactName parsed),
           ab_lines = filter (\<lambda>l. l \<noteq> []) (map trim (split_on (CHR '','') (sh_addressLine parsed))),
           ab_stateCode = code, ab_stateName = stateNameFromCode code \<rparr>)"

definition buildSoldByParty :: "seller_row \<Rightarrow> string \<Rightarrow> invoice_party" where
  "buildSoldByParty s1 address =
     (let gst = opt_trim (s_gstNumber s1); code = stateCodeFromGstin gst
      in \<lparr> ip_name = s_businessName s1, ip_lines = text_lines address, ip_pan = extractPanFromGstin gst,
           ip_gstin = gst, ip_stateCode = code, ip_stateName = stateNameFromCode code \<rparr>)"

section \<open>Lines\<close>

type_synonym ordered_item = "order_item_row \<times> product_row"

definition tax_sum :: "tax_line list \<Rightarrow> num" where
  "tax_sum ts = foldl (\<lambda>s t. nadd s (tx_amount t)) 0 ts"

definition new_line ::
    "string option \<Rightarrow> string option \<Rightarrow> nat \<Rightarrow> string \<Rightarrow> string option \<Rightarrow> num option \<Rightarrow> num \<Rightarrow> int \<Rightarrow> num \<Rightarrow> invoice_line" where
  "new_line seller buyer sl desc hsn gst unit qty incl =
     (let (net, taxes) = splitGstInclusive incl gst seller buyer
      in \<lparr> il_slNo = sl, il_description = desc, il_hsnCode = hsn, il_unitPriceIncl = unit, il_quantity = qty,
           il_netAmount = net, il_taxes = taxes, il_totalAmount = incl \<rparr>)"

definition labelled :: "string \<Rightarrow> string option \<Rightarrow> string" where
  "labelled name label = (case nonempty label of None \<Rightarrow> name | Some l \<Rightarrow> name @ '' ('' @ l @ '')'')"

definition item_line :: "string option \<Rightarrow> string option \<Rightarrow> nat \<Rightarrow> ordered_item \<Rightarrow> invoice_line" where
  "item_line seller buyer sl = (\<lambda>(it, p). new_line seller buyer sl (labelled (p_name p) (oi_variantLabel it))
     (p_hsnCode p) (p_gstPercent p) (oi_price it) (oi_quantity it)
     (roundInr (nmul (oi_price it) (of_int (oi_quantity it)))))"

definition shipping_line :: "string option \<Rightarrow> string option \<Rightarrow> nat \<Rightarrow> num \<Rightarrow> invoice_line" where
  "shipping_line seller buyer sl fee = new_line seller buyer sl ''Shipping Charges'' (Some ''996812'')
     (Some shippingGstPercent) fee 1 fee"

fun item_lines :: "string option \<Rightarrow> string option \<Rightarrow> nat \<Rightarrow> ordered_item list \<Rightarrow> invoice_line list" where
  "item_lines seller buyer sl [] = []"
| "item_lines seller buyer sl (x # xs) = item_line seller buyer (Suc sl) x # item_lines seller buyer (Suc sl) xs"

definition page_lines :: "string option \<Rightarrow> string option \<Rightarrow> ordered_item list \<Rightarrow> num \<Rightarrow> invoice_line list" where
  "page_lines seller buyer its fee = item_lines seller buyer 0 its @
     (if 0 < fee then [shipping_line seller buyer (Suc (length its)) fee] else [])"

section \<open>Pages of an order\<close>

record page_params =
  gp_items :: "ordered_item list"
  gp_seller :: seller_row
  gp_sellerAddress :: string
  gp_buyerName :: string
  gp_invoiceNumber :: string
  gp_invoiceDetails :: string
  gp_deliveryFee :: num
  gp_pageNo :: nat
  gp_pageTotal :: nat

definition invoiced_at :: "order_row \<Rightarrow> int" where
  "invoiced_at o1 = dflt (o_createdAt o1) (o_deliveredAt o1)"

definition payment_mode :: "string option \<Rightarrow> string" where
  "payment_mode pid = (if truthy pid then ''Razorpay'' else ''Online'')"

definition buildOrderPage :: "mail_env \<Rightarrow> order_row \<Rightarrow> page_params \<Rightarrow> invoice_page" where
  "buildOrderPage me o1 g =
     (let soldBy = buildSoldByParty (gp_seller g) (gp_sellerAddress g);
          block = buildAddressBlock (o_shippingAddress o1) (gp_buyerName g);
          lines = page_lines (ip_stateCode soldBy) (ab_stateCode block) (gp_items g) (gp_deliveryFee g);
          grand = foldl (\<lambda>s l. nadd s (il_totalAmount l)) 0 lines
      in \<lparr> iv_pageNo = gp_pageNo g, iv_pageTotal = gp_pageTotal g, iv_orderNumber = o_id o1,
           iv_invoiceNumber = gp_invoiceNumber g, iv_orderDate = o_createdAt o1, iv_invoiceDate = invoiced_at o1,
           iv_invoiceDetails = gp_invoiceDetails g, iv_soldBy = soldBy, iv_billing = block, iv_shipping = block,
           iv_placeOfSupply = dflt ''INDIA'' (ab_stateName block),
           iv_placeOfDelivery = dflt ''INDIA'' (ab_stateName block), iv_lineItems = lines,
           iv_totalTax = roundInr (foldl (\<lambda>s l. nadd s (tax_sum (il_taxes l))) 0 lines),
           iv_grandTotal = roundInr grand, iv_amountInWords = amountInWordsInr grand,
           iv_paymentTransactionId = o_razorpayPaymentId o1, iv_paymentDateTime = invoiced_at o1,
           iv_paymentMode = payment_mode (o_razorpayPaymentId o1), iv_branding = buildInvoiceBranding me,
           iv_originalOrderRef = None \<rparr>)"

text \<open>A \<open>Map\<close> from sellers to their items, in the order the sellers first appear.\<close>

fun add_to_group :: "string \<Rightarrow> 'a \<Rightarrow> (string \<times> 'a list) list \<Rightarrow> (string \<times> 'a list) list" where
  "add_to_group k x [] = [(k, [x])]"
| "add_to_group k x ((j, xs) # g) = (if j = k then (j, xs @ [x]) # g else (j, xs) # add_to_group k x g)"

definition groupItemsBySeller :: "ordered_item list \<Rightarrow> (string \<times> ordered_item list) list" where
  "groupItemsBySeller its = foldl (\<lambda>g x. add_to_group (p_sellerId (snd x)) x g) [] its"

definition items_total :: "ordered_item list \<Rightarrow> num" where
  "items_total its = foldl (\<lambda>s (it, p). nadd s (nmul (oi_price it) (of_int (oi_quantity it)))) 0 its"

definition delivery_share :: "num \<Rightarrow> nat \<Rightarrow> ordered_item list \<Rightarrow> ordered_item list \<Rightarrow> num" where
  "delivery_share fee groups its all =
     (if groups = 1 then fee else roundInr (ndiv (nmul fee (items_total its)) (max (items_total all) 1)))"

definition ordered_items :: "world \<Rightarrow> order_row \<Rightarrow> ordered_item list" where
  "ordered_items w o1 = List.map_filter (\<lambda>it. map_option (Pair it) (item_product w it)) (o_items o1)"

definition order_page ::
    "mail_env \<Rightarrow> world \<Rightarrow> order_row \<Rightarrow> string \<Rightarrow> nat \<Rightarrow> nat \<Rightarrow> string \<times> ordered_item list \<Rightarrow> exn + invoice_page" where
  "order_page me w o1 num cnt n = (\<lambda>(sid, its).
     case tget (sellers w) sid of None \<Rightarrow> Inl missing_row
     | Some s1 \<Rightarrow>
       let address = resolveSellerAddress w s1
       in if \<not> sellerInvoiceReady (s_businessName s1) address then Inl not_invoice_ready
          else Inr (buildOrderPage me o1
            \<lparr> gp_items = its, gp_seller = s1, gp_sellerAddress = address,
              gp_buyerName = dflt ''Customer'' (map_option u_name (order_buyer_user w o1)),
              gp_invoiceNumber = num @ ''-'' @ int_digits (int n),
              gp_invoiceDetails = num @ ''-S'' @ to_upper (take 4 sid),
              gp_deliveryFee = delivery_share (o_deliveryFee o1) cnt its (ordered_items w o1),
              gp_pageNo = n, gp_pageTotal = cnt \<rparr>))"

fun order_pages ::
    "mail_env \<Rightarrow> world \<Rightarrow> order_row \<Rightarrow> string \<Rightarrow> nat \<Rightarrow> nat \<Rightarrow> (string \<times> ordered_item list) list \<Rightarrow> exn + invoice_page list" where
  "order_pages me w o1 num cnt n [] = Inr []"
| "order_pages me w o1 num cnt n (g # gs) =
     (case order_page me w o1 num cnt (Suc n) g of
        Inl e \<Rightarrow> Inl e
      | Inr p \<Rightarrow> (case order_pages me w o1 num cnt (Suc n) gs of Inl e \<Rightarrow> Inl e | Inr ps \<Rightarrow> Inr (p # ps)))"

section \<open>Numbers\<close>

definition yymmdd :: "(int \<Rightarrow> int \<times> int \<times> int) \<Rightarrow> int \<Rightarrow> string" where
  "yymmdd ymd t = (case ymd t of (y, m, d) \<Rightarrow> int_digits y @ padded 2 (int_digits m) @ padded 2 (int_digits d))"

definition invoice_number :: "string \<Rightarrow> string \<Rightarrow> string \<Rightarrow> string" where
  "invoice_number kind i day = ''VK-'' @ kind @ ''-'' @ to_upper (take 8 (filter (\<lambda>c. c \<noteq> CHR ''-'') i)) @ ''-'' @ day"

text \<open>The columns are unique: a number that another row holds is rejected by the database.\<close>

definition number_taken :: "('r \<Rightarrow> string option) \<Rightarrow> string \<Rightarrow> (string, 'r) table \<Rightarrow> string \<Rightarrow> bool" where
  "number_taken f num t i \<longleftrightarrow> list_ex (\<lambda>(k, r). k \<noteq> i \<and> f r = Some num) t"

definition assignOrderInvoiceNumber :: "(int \<Rightarrow> int \<times> int \<times> int) \<Rightarrow> string \<Rightarrow> int \<Rightarrow> string handler" where
  "assignOrderInvoiceNumber ymd oid t =
     (let num = invoice_number ''ORD'' oid (yymmdd ymd t)
      in seq_act (db_create (\<lambda>w. number_taken o_invoiceNumber num (orders w) oid)
           (\<lambda>w. w\<lparr>orders := tupd oid (\<lambda>o1. o1\<lparr>o_invoiceNumber := Some num\<rparr>) (orders w)\<rparr>)) (ret num))"

definition assignReplacementInvoiceNumber :: "(int \<Rightarrow> int \<times> int \<times> int) \<Rightarrow> string \<Rightarrow> int \<Rightarrow> string handler" where
  "assignReplacementInvoiceNumber ymd rid t =
     (let num = invoice_number ''RPL'' rid (yymmdd ymd t)
      in seq_act (db_create (\<lambda>w. number_taken r_invoiceNumber num (replacements w) rid)
           (\<lambda>w. w\<lparr>replacements := tupd rid (\<lambda>r. r\<lparr>r_invoiceNumber := Some num\<rparr>) (replacements w)\<rparr>)) (ret num))"

definition orderFilename :: "(int \<Rightarrow> int \<times> int \<times> int) \<Rightarrow> string \<Rightarrow> int \<Rightarrow> string" where
  "orderFilename ymd oid t = ''Vybekart_Tax_Invoice_Order_'' @ last_chars 8 oid @ ''_'' @ yymmdd ymd t @ ''.pdf''"

definition replacementFilename :: "(int \<Rightarrow> int \<times> int \<times> int) \<Rightarrow> string \<Rightarrow> int \<Rightarrow> string" where
  "replacementFilename ymd rid t = ''Vybekart_Tax_Invoice_Replacement_'' @ last_chars 8 rid @ ''_'' @ yymmdd ymd t @ ''.pdf''"

section \<open>Issuing\<close>

definition invoice_buyer :: "string \<Rightarrow> buyer_row handler" where
  "invoice_buyer uid =
     bind_act (reads (\<lambda>w. buyer_of_user w uid))
       (\<lambda>buyer. case buyer of None \<Rightarrow> throw (Forbidden ''Buyer not found'') | Some b \<Rightarrow> ret b)"

definition generateOrderInvoicePdf ::
    "(int \<Rightarrow> int \<times> int \<times> int) \<Rightarrow> mail_env \<Rightarrow> string \<Rightarrow> string \<Rightarrow> invoice_doc handler" where
  "generateOrderInvoicePdf ymd me oid uid =
     bind_act (invoice_buyer uid) (\<lambda>b.
     bind_act (reads (\<lambda>w. case tget (orders w) oid of None \<Rightarrow> None
         | Some o1 \<Rightarrow> if o_buyerId o1 = Some (b_id b) then Some o1 else None)) (\<lambda>order.
     case order of None \<Rightarrow> throw (NotFound ''Order not found'') | Some o1 \<Rightarrow>
     if o_status o1 \<noteq> DELIVERED then throw (BadRequest ''Invoice is available after your order is delivered'') else
     bind_act (case o_invoiceNumber o1 of Some n \<Rightarrow> ret n
       | None \<Rightarrow> assignOrderInvoiceNumber ymd oid (invoiced_at o1)) (\<lambda>num.
     bind_act (reads (\<lambda>w. let gs = groupItemsBySeller (ordered_items w o1)
         in order_pages me w o1 num (length gs) 0 gs)) (\<lambda>result.
     case result of Inl e \<Rightarrow> throw e
     | Inr pages \<Rightarrow>
       if pages = [] then throw (Unprocessable ''No invoice line items'')
       else ret \<lparr> id_filename = orderFilename ymd oid (invoiced_at o1), id_pages = pages \<rparr>))))"

definition buildReplacementPage ::
    "mail_env \<Rightarrow> replacement_row \<Rightarrow> order_row \<Rightarrow> string \<Rightarrow> product_row \<Rightarrow> seller_row \<Rightarrow> string \<Rightarrow> string \<Rightarrow> num \<Rightarrow> invoice_page" where
  "buildReplacementPage me r o1 buyerName p s1 address num unitPrice =
     (let soldBy = buildSoldByParty s1 address;
          block = buildAddressBlock (o_shippingAddress o1) buyerName;
          incl = roundInr unitPrice; day = dflt (r_createdAt r) (r_deliveredAt r);
          pid = or_else (r_razorpayPaymentId r) (o_razorpayPaymentId o1);
          line = new_line (ip_stateCode soldBy) (ab_stateCode block) 1
            (labelled (p_name p) (r_variantLabel r) @ '' - Replacement'') (p_hsnCode p) (p_gstPercent p) unitPrice 1 incl
      in \<lparr> iv_pageNo = 1, iv_pageTotal = 1, iv_orderNumber = r_id r, iv_invoiceNumber = num,
           iv_orderDate = o_createdAt o1, iv_invoiceDate = day, iv_invoiceDetails = num @ ''-RPL'',
           iv_soldBy = soldBy, iv_billing = block, iv_shipping = block,
           iv_placeOfSupply = dflt ''INDIA'' (ab_stateName block),
           iv_placeOfDelivery = dflt ''INDIA'' (ab_stateName block), iv_lineItems = [line],
           iv_totalTax = roundInr (tax_sum (il_taxes line)), iv_grandTotal = incl,
           iv_amountInWords = amountInWordsInr incl, iv_paymentTransactionId = pid, iv_paymentDateTime = day,
           iv_paymentMode = payment_mode pid, iv_branding = buildInvoiceBranding me,
           iv_originalOrderRef = Some (r_orderId r) \<rparr>)"

text \<open>A request without an item id takes the first line of its order.\<close>

definition replaced_product :: "world \<Rightarrow> replacement_row \<Rightarrow> (order_row \<times> order_item_row \<times> product_row) option" where
  "replaced_product w r =
     Option.bind (tget (orders w) (r_orderId r)) (\<lambda>o1.
     Option.bind (case r_orderItemId r of
         Some i \<Rightarrow> find (\<lambda>it. oi_id it = i) (o_items o1)
       | None \<Rightarrow> (case o_items o1 of [] \<Rightarrow> None | it # _ \<Rightarrow> Some it)) (\<lambda>it.
     map_option (\<lambda>p. (o1, it, p)) (item_product w it)))"

definition generateReplacementInvoicePdf ::
    "(int \<Rightarrow> int \<times> int \<times> int) \<Rightarrow> mail_env \<Rightarrow> string \<Rightarrow> string \<Rightarrow> invoice_doc handler" where
  "generateReplacementInvoicePdf ymd me rid uid =
     bind_act (invoice_buyer uid) (\<lambda>b.
     bind_act (reads (\<lambda>w. case tget (replacements w) rid of None \<Rightarrow> None
         | Some r \<Rightarrow> if r_buyerId r = b_id b then Some r else None)) (\<lambda>repl.
     case repl of None \<Rightarrow> throw (NotFound ''Replacement not found'') | Some r \<Rightarrow>
     if r_status r \<noteq> R_DELIVERED then throw (BadRequest ''Invoice is available after your replacement is delivered'') else
     bind_act (reads (\<lambda>w. replaced_product w r)) (\<lambda>line.
     case line of None \<Rightarrow> throw (Unprocessable ''Replacement line item not found'') | Some (o1, it, p) \<Rightarrow>
     bind_act (reads (\<lambda>w. tget (sellers w) (r_sellerId r))) (\<lambda>seller.
     case seller of None \<Rightarrow> throw missing_row | Some s1 \<Rightarrow>
     bind_act (reads (\<lambda>w. resolveSellerAddress w s1)) (\<lambda>address.
     if \<not> sellerInvoiceReady (s_businessName s1) address then throw not_invoice_ready else
     bind_act (case r_invoiceNumber r of Some n \<Rightarrow> ret n
       | None \<Rightarrow> assignReplacementInvoiceNumber ymd rid (dflt (r_createdAt r) (r_deliveredAt r))) (\<lambda>num.
     bind_act (reads (\<lambda>w. user_of_buyer w (Some (r_buyerId r)))) (\<lambda>user.
     let unitPrice = (if r_replacementUnitPrice r = 0 then oi_price it else r_replacementUnitPrice r);
         day = dflt (r_createdAt r) (r_deliveredAt r)
     in ret \<lparr> id_filename = replacementFilename ymd rid day,
           id_pages = [buildReplacementPage me r o1 (dflt ''Customer'' (map_option u_name user)) p s1 address num unitPrice] \<rparr>)))))))"

section \<open>Pages share out the items\<close>

definition grouped :: "(string \<times> ordered_item list) list \<Rightarrow> ordered_item list \<Rightarrow> bool" where
  "grouped g its \<longleftrightarrow> distinct (map fst g) \<and> mset (concat (map snd g)) = mset its \<and>
     list_all (\<lambda>(k, xs). xs \<noteq> [] \<and> list_all (\<lambda>x. p_sellerId (snd x) = k) xs) g"

lemma add_to_group_keys: "set (map fst (add_to_group k x g)) = insert k (set (map fst g))"
  by (induction k x g rule: add_to_group.induct) auto

lemma add_to_group_distinct: "distinct (map fst g) \<Longrightarrow> distinct (map fst (add_to_group k x g))"
proof (induction k x g rule: add_to_group.induct)
  case (2 k x j xs g)
  then show ?case using add_to_group_keys[of k x g] by (auto simp del: set_map)
qed simp

lemma add_to_group_mset: "mset (concat (map snd (add_to_group k x g))) = add_mset x (mset (concat (map snd g)))"
  by (induction k x g rule: add_to_group.induct) simp_all

lemma add_to_group_all:
  "list_all (\<lambda>(k, xs). xs \<noteq> [] \<and> list_all (\<lambda>x. p_sellerId (snd x) = k) xs) g \<Longrightarrow> p_sellerId (snd x) = k \<Longrightarrow>
   list_all (\<lambda>(k, xs). xs \<noteq> [] \<and> list_all (\<lambda>x. p_sellerId (snd x) = k) xs) (add_to_group k x g)"
  by (induction k x g rule: add_to_group.induct) auto

lemma grouped_add: "grouped g its \<Longrightarrow> grouped (add_to_group (p_sellerId (snd x)) x g) (its @ [x])"
  by (simp add: grouped_def add_to_group_distinct add_to_group_mset add_to_group_all del: set_map)

lemma grouped_items: "grouped (groupItemsBySeller its) its"
proof -
  have "grouped (foldl (\<lambda>g x. add_to_group (p_sellerId (snd x)) x g) g its) (done1 @ its)" if "grouped g done1" for g done1
    using that
  proof (induction its arbitrary: g done1)
    case (Cons x its)
    then show ?case using Cons.IH[OF grouped_add[OF Cons.prems, of x]] by simp
  qed simp
  from this[of "[]" "[]"] show ?thesis by (simp add: groupItemsBySeller_def grouped_def)
qed

text \<open>A page lists the items of one seller, then the delivery.\<close>

definition page_of :: "invoice_page \<Rightarrow> string \<times> ordered_item list \<Rightarrow> bool" where
  "page_of p g \<longleftrightarrow> (\<exists>fee. iv_lineItems p =
     page_lines (ip_stateCode (iv_soldBy p)) (ab_stateCode (iv_billing p)) (snd g) fee)"

lemma order_page_of:
  "order_page me w o1 num cnt n g = Inr p \<Longrightarrow>
   page_of p g \<and> iv_invoiceNumber p = num @ ''-'' @ int_digits (int n) \<and> iv_pageNo p = n \<and> iv_pageTotal p = cnt"
  by (cases g) (auto simp: order_page_def buildOrderPage_def page_of_def Let_def split: option.splits if_splits)

lemma order_pages_of:
  "order_pages me w o1 num cnt n gs = Inr ps \<Longrightarrow>
   list_all2 page_of ps gs \<and>
   map iv_invoiceNumber ps = map (\<lambda>i. num @ ''-'' @ int_digits (int i)) [Suc n..<Suc n + length gs] \<and>
   list_all (\<lambda>p. iv_pageTotal p = cnt) ps"
proof (induction gs arbitrary: n ps)
  case (Cons g gs)
  then obtain p qs where p: "order_page me w o1 num cnt (Suc n) g = Inr p"
    "order_pages me w o1 num cnt (Suc n) gs = Inr qs" "ps = p # qs"
    by (auto split: sum.splits)
  then show ?case using order_page_of[OF p(1)] Cons.IH[OF p(2)] by (simp add: upt_conv_Cons del: upt_Suc)
qed simp

section \<open>A number is given out once\<close>

definition numbered :: "string \<Rightarrow> string \<Rightarrow> world \<Rightarrow> world" where
  "numbered oid num w = w\<lparr>orders := tupd oid (\<lambda>o1. o1\<lparr>o_invoiceNumber := Some num\<rparr>) (orders w)\<rparr>"

lemma wp_assignOrderInvoiceNumber [wp_simps]:
  "wp (assignOrderInvoiceNumber ymd oid t) Q w =
     (let num = invoice_number ''ORD'' oid (yymmdd ymd t)
      in if number_taken o_invoiceNumber num (orders w) oid then Q (Inl (Crash ''P2002'')) w
         else Q (Inr num) (numbered oid num w))"
  by (simp add: assignOrderInvoiceNumber_def wp_simps Let_def numbered_def)

lemma wp_invoice_buyer [wp_simps]:
  "wp (invoice_buyer uid) Q w = (case buyer_of_user w uid of
     None \<Rightarrow> Q (Inl (Forbidden ''Buyer not found'')) w | Some b \<Rightarrow> Q (Inr b) w)"
  by (cases "buyer_of_user w uid") (simp_all add: invoice_buyer_def wp_simps)

text \<open>The content of a document does not depend on the number column.\<close>

lemma renumbered_items [simp]:
  "ordered_items (numbered oid num w) (o1\<lparr>o_invoiceNumber := n\<rparr>) = ordered_items w o1"
  "ordered_items (numbered oid num w) o1 = ordered_items w o1"
  by (simp_all add: ordered_items_def item_product_def[abs_def] numbered_def)

lemma renumbered_lookups [simp]:
  "resolveSellerAddress (numbered oid num w) s1 = resolveSellerAddress w s1"
  "order_buyer_user (numbered oid num w) o1 = order_buyer_user w o1"
  "order_buyer_user w (o1\<lparr>o_invoiceNumber := n\<rparr>) = order_buyer_user w o1"
  "ordered_items w (o1\<lparr>o_invoiceNumber := n\<rparr>) = ordered_items w o1"
  "sellers (numbered oid num w) = sellers w"
  by (simp_all add: resolveSellerAddress_def newest_pickup_def pickups_of_def numbered_def order_buyer_user_def
      buyer_of_user_def user_of_buyer_def ordered_items_def)

lemma renumbered_build [simp]: "buildOrderPage me (o1\<lparr>o_invoiceNumber := n\<rparr>) pp = buildOrderPage me o1 pp"
  by (simp add: buildOrderPage_def invoiced_at_def)

lemma renumbered_page [simp]:
  "order_page me (numbered oid num w) o1 = order_page me w o1"
  "order_page me w (o1\<lparr>o_invoiceNumber := n\<rparr>) = order_page me w o1"
  by (intro ext; simp add: order_page_def Let_def split: prod.split option.split)+

lemma renumbered_pages [simp]:
  "order_pages me (numbered oid num w) o1 k cnt i gs = order_pages me w o1 k cnt i gs"
  "order_pages me w (o1\<lparr>o_invoiceNumber := n\<rparr>) k cnt i gs = order_pages me w o1 k cnt i gs"
  by (induction gs arbitrary: i) (simp_all split: sum.split)

end
