(* ===== verification/InvoiceProperties.thy ===== *)
theory InvoiceProperties
  imports Invoices Sample
begin

text \<open>What a buyer relies on when downloading the tax invoice of an order.\<close>

definition order_number :: "(int \<Rightarrow> int \<times> int \<times> int) \<Rightarrow> order_row \<Rightarrow> string \<Rightarrow> string" where
  "order_number ymd o1 oid = dflt (invoice_number ''ORD'' oid (yymmdd ymd (invoiced_at o1))) (o_invoiceNumber o1)"

definition own_delivered :: "world \<Rightarrow> string \<Rightarrow> string \<Rightarrow> order_row \<Rightarrow> bool" where
  "own_delivered w uid oid o1 \<longleftrightarrow> tget (orders w) oid = Some o1 \<and> o_status o1 = DELIVERED \<and>
     (\<exists>b. buyer_of_user w uid = Some b \<and> o_buyerId o1 = Some (b_id b))"

text \<open>The handler on an order of the buyer, with the number settled.\<close>

lemma generate_settled:
  assumes "own_delivered w uid oid o1" "o_invoiceNumber o1 = Some num"
  shows "wp (generateOrderInvoicePdf ymd me oid uid) Q w =
    (let gs = groupItemsBySeller (ordered_items w o1)
     in case order_pages me w o1 num (length gs) 0 gs of
          Inl e \<Rightarrow> Q (Inl e) w
        | Inr ps \<Rightarrow> if ps = [] then Q (Inl (Unprocessable ''No invoice line items'')) w
            else Q (Inr \<lparr> id_filename = orderFilename ymd oid (invoiced_at o1), id_pages = ps \<rparr>) w)"
  using assms by (auto simp: own_delivered_def generateOrderInvoicePdf_def wp_simps Let_def split: sum.split)

lemma own_delivered_numbered:
  "own_delivered w uid oid o1 \<Longrightarrow> own_delivered (numbered oid num w) uid oid (o1\<lparr>o_invoiceNumber := Some num\<rparr>)"
  by (auto simp: own_delivered_def numbered_def buyer_of_user_def)

definition shown_order :: "invoice_doc \<Rightarrow> string \<Rightarrow> ordered_item list \<Rightarrow> bool" where
  "shown_order doc num its \<longleftrightarrow> (\<exists>gs. grouped gs its \<and> list_all2 page_of (id_pages doc) gs \<and>
     map iv_invoiceNumber (id_pages doc) = map (\<lambda>i. num @ ''-'' @ int_digits (int i)) [1..<Suc (length gs)])"

lemma shown_pages:
  "order_pages me w o1 num (length (groupItemsBySeller its)) 0 (groupItemsBySeller its) = Inr ps \<Longrightarrow>
   shown_order \<lparr> id_filename = f, id_pages = ps \<rparr> num its"
  unfolding shown_order_def using order_pages_of[of me w o1 num "length (groupItemsBySeller its)" 0 "groupItemsBySeller its" ps]
  by (intro exI[of _ "groupItemsBySeller its"]) (simp add: grouped_items del: upt_Suc)

lemma invoice_settled:
  assumes "own_delivered w uid oid o1" "o_invoiceNumber o1 = Some num"
  shows "wp (generateOrderInvoicePdf ymd me oid uid) (\<lambda>r w'. w' = w \<and>
    (\<forall>doc. r = Inr doc \<longrightarrow> shown_order doc num (ordered_items w o1))) w"
  by (auto simp: generate_settled[OF assms] Let_def shown_pages split: sum.split)

text \<open>The first call stores the number, and goes on as a later one would.\<close>

lemma invoice_first:
  assumes own: "own_delivered w uid oid o1" and n: "o_invoiceNumber o1 = None"
    and num: "num = invoice_number ''ORD'' oid (yymmdd ymd (invoiced_at o1))"
  shows "wp (generateOrderInvoicePdf ymd me oid uid) Q w =
    (if number_taken o_invoiceNumber num (orders w) oid then Q (Inl (Crash ''P2002'')) w
     else wp (generateOrderInvoicePdf ymd me oid uid) Q (numbered oid num w))"
proof -
  have o: "own_delivered (numbered oid num w) uid oid (o1\<lparr>o_invoiceNumber := Some num\<rparr>)"
    by (rule own_delivered_numbered[OF own])
  have i: "invoiced_at (o1\<lparr>o_invoiceNumber := Some num\<rparr>) = invoiced_at o1"
    by (simp add: invoiced_at_def)
  have s: "o_invoiceNumber (o1\<lparr>o_invoiceNumber := Some num\<rparr>) = Some num" by simp
  show ?thesis unfolding generate_settled[OF o s] using own n num i
    by (auto simp: own_delivered_def generateOrderInvoicePdf_def wp_simps Let_def split: sum.split)
qed

lemma not_own_refused:
  "\<not> (\<exists>o1. own_delivered w uid oid o1) \<Longrightarrow>
   wp (generateOrderInvoicePdf ymd me oid uid) (\<lambda>r w'. w' = w \<and> (\<exists>e. r = Inl e)) w"
  by (auto simp: own_delivered_def generateOrderInvoicePdf_def wp_simps split: option.splits)

text \<open>
  C36: An order's invoice is given only to the buyer who placed it and only once it is delivered; every other
  request is refused and changes nothing. Whatever happens, the only change to the data is that an order without
  invoice number gets the one of its id and day, which no other order has. An issued document bears the
  stored number: its pages are numbered from 1 under it, each lists the items of one seller, and together
  they list every item of the order exactly once. Asking again yields the same document and changes nothing.
\<close>

theorem invoice_issued_once:
  "wp (generateOrderInvoicePdf ymd me oid uid) (\<lambda>r w'.
     (w' = w \<or> (\<exists>o1. own_delivered w uid oid o1 \<and> o_invoiceNumber o1 = None \<and>
        \<not> number_taken o_invoiceNumber (order_number ymd o1 oid) (orders w) oid \<and>
        w' = numbered oid (order_number ymd o1 oid) w)) \<and>
     (case r of Inl e \<Rightarrow> True | Inr doc \<Rightarrow> \<exists>o1. own_delivered w uid oid o1 \<and>
        map_option o_invoiceNumber (tget (orders w') oid) = Some (Some (order_number ymd o1 oid)) \<and>
        shown_order doc (order_number ymd o1 oid) (ordered_items w o1) \<and>
        wp (generateOrderInvoicePdf ymd me oid uid) (\<lambda>r2 w2. r2 = Inr doc \<and> w2 = w') w')) w"
proof (cases "\<exists>o1. own_delivered w uid oid o1")
  case False
  then show ?thesis by (rule wp_mono[OF not_own_refused]) auto
next
  case True
  then obtain o1 where o: "own_delivered w uid oid o1" ..
  then have t: "tget (orders w) oid = Some o1" by (simp add: own_delivered_def)
  show ?thesis
  proof (cases "o_invoiceNumber o1")
    case (Some num)
    have n: "order_number ymd o1 oid = num" by (simp add: order_number_def Some dflt_def)
    show ?thesis using o t Some n
      by (auto simp: generate_settled[OF o Some] Let_def shown_pages split: sum.split)
  next
    case None
    let ?num = "order_number ymd o1 oid" let ?o = "o1\<lparr>o_invoiceNumber := Some ?num\<rparr>"
    have num: "?num = invoice_number ''ORD'' oid (yymmdd ymd (invoiced_at o1))" by (simp add: order_number_def None dflt_def)
    have o': "own_delivered (numbered oid ?num w) uid oid ?o" by (rule own_delivered_numbered[OF o])
    have t': "tget (orders (numbered oid ?num w)) oid = Some ?o" by (simp add: numbered_def t)
    have s: "o_invoiceNumber ?o = Some ?num" by simp
    show ?thesis using o t' None
      by (auto simp: invoice_first[OF o None num] generate_settled[OF o' s] Let_def shown_pages split: sum.split)
  qed
qed

definition sample_invoice :: world where
  "sample_invoice = sample\<lparr>sellers := tupd ''s1'' (\<lambda>s1. s1\<lparr>s_businessAddress := Some ''Kochi''\<rparr>) (sellers sample)\<rparr>"

lemma sample_invoice_own: "own_delivered sample_invoice ''u1'' ''o2'' delivered_order"
  by (simp add: own_delivered_def sample_invoice_def sample_def buyer_of_user_def trows_def tfirst_def sample_rows tget_def)

lemma sample_invoice_items:
  "ordered_items sample_invoice delivered_order = [(cup_line, plain_product)]"
  by (simp add: ordered_items_def item_product_def[abs_def] sample_invoice_def sample_def sample_rows tget_def)

lemma sample_invoice_pages:
  "\<exists>p. order_pages me sample_invoice delivered_order num 1 0 [(''s1'', its)] = Inr [p]"
  by (simp add: order_page_def Let_def sample_invoice_def sample_def tget_def tupd_def tput_def resolveSellerAddress_def
      sellerInvoiceReady_def filled_def opt_trim_def nonempty_def truthy_def trim_def is_space_def)

lemma sample_invoice_number:
  "o_invoiceNumber delivered_order = None" "orders sample_invoice = orders sample" 
  by (simp_all add: sample_rows sample_invoice_def)

lemma sample_invoice_issued:
  "wp (generateOrderInvoicePdf ymd me ''o2'' ''u1'') (\<lambda>r w'. \<exists>doc. r = Inr doc) sample_invoice"
proof -
  let ?num = "order_number ymd delivered_order ''o2''" let ?o = "delivered_order\<lparr>o_invoiceNumber := Some ?num\<rparr>"
  have num: "?num = invoice_number ''ORD'' ''o2'' (yymmdd ymd (invoiced_at delivered_order))"
    by (simp add: order_number_def sample_invoice_number dflt_def)
  have s: "o_invoiceNumber ?o = Some ?num" by simp
  have free: "\<not> number_taken o_invoiceNumber ?num (orders sample_invoice) ''o2''"
    by (simp add: number_taken_def sample_invoice_number sample_def sample_rows)
  have g: "groupItemsBySeller [(cup_line, plain_product)] = [(''s1'', [(cup_line, plain_product)])]"
    by (simp add: groupItemsBySeller_def sample_rows)
  obtain p where p: "order_pages me sample_invoice delivered_order ?num 1 0 [(''s1'', [(cup_line, plain_product)])] = Inr [p]"
    using sample_invoice_pages by blast
  show ?thesis
    by (simp only: invoice_first[OF sample_invoice_own sample_invoice_number(1) num] free if_False
        generate_settled[OF own_delivered_numbered[OF sample_invoice_own] s])
      (simp add: sample_invoice_items g p[simplified One_nat_def] del: order_pages.simps)
qed

definition sample_mail :: mail_env where
  "sample_mail = \<lparr> me_cfg = (\<lambda>_. None), me_resend = (\<lambda>_. None), me_smtp = (\<lambda>_. None) \<rparr>"

theorem invoice_issued_once_witness:
  "wp (generateOrderInvoicePdf ist_date sample_mail ''o2'' ''u1'') (\<lambda>r w'. \<exists>doc. r = Inr doc \<and>
     shown_order doc (order_number ist_date delivered_order ''o2'') [(cup_line, plain_product)] \<and>
     wp (generateOrderInvoicePdf ist_date sample_mail ''o2'' ''u1'') (\<lambda>r2 w2. r2 = Inr doc \<and> w2 = w') w') sample_invoice"
proof -
  have t: "tget (orders sample_invoice) ''o2'' = Some delivered_order"
    using sample_invoice_own by (simp add: own_delivered_def)
  show ?thesis
    by (rule wp_mono[OF iffD2[OF wp_conj conjI[OF sample_invoice_issued invoice_issued_once[of ist_date sample_mail "''o2''" "''u1''"]]]])
      (auto simp: own_delivered_def t sample_invoice_items)
qed

end
