(* ===== verification/Delhivery.thy ===== *)
theory Delhivery
  imports Shipping Calendar Ratings
begin

text \<open>
  The client of the carrier, src/src/delhivery/delhivery.service.ts: rate quotes, serviceable PIN codes,
  shipments with their pickup requests, and tracking. The HTTP service is a parameter: what a GET of a URL with
  query parameters, or a POST of a body, answers under a token, an error message or a JSON value.
  \<open>delhivery_api\<close> is what the rest of the model calls the shipping API. Identifiers and states that the carrier
  documents as texts are read as texts. An amount beyond the range of a JavaScript number is infinite.
\<close>

section \<open>Values of the answers\<close>

definition json_truthy :: "json \<Rightarrow> bool" where
  "json_truthy v = (case v of JNull \<Rightarrow> False | JBool b \<Rightarrow> b | JNum r \<Rightarrow> r \<noteq> 0 | JStr s \<Rightarrow> s \<noteq> [] | _ \<Rightarrow> True)"

definition first_element :: "json \<Rightarrow> json option" where
  \<comment> \<open>\<open>v[0]\<close>\<close>
  "first_element v = (case v of JArr (x # _) \<Rightarrow> Some x | JStr (c # _) \<Rightarrow> Some (JStr [c]) | _ \<Rightarrow> get_prop v ''0'')"

definition opt_prop :: "json option \<Rightarrow> string \<Rightarrow> json option" where
  "opt_prop v k = Option.bind v (\<lambda>j. get_prop j k)"

text \<open>\<open>a ?? b ?? \<dots>\<close>\<close>

fun first_nonnull :: "json option list \<Rightarrow> json option" where
  "first_nonnull [] = None"
| "first_nonnull (v # vs) = (case nonnull v of Some j \<Rightarrow> Some j | None \<Rightarrow> first_nonnull vs)"

text \<open>\<open>JSON.stringify\<close>\<close>

definition hex_char :: "nat \<Rightarrow> char" where
  "hex_char n = (if n < 10 then char_of (48 + n) else char_of (87 + n))"

definition json_char :: "char \<Rightarrow> string" where
  "json_char c =
     (let n = of_char c :: nat
      in if n = 34 then [CHR 0x5C, CHR 0x22]
         else if n = 92 then [CHR 0x5C, CHR 0x5C]
         else if n = 8 then [CHR 0x5C, CHR ''b'']
         else if n = 12 then [CHR 0x5C, CHR ''f'']
         else if n = 10 then [CHR 0x5C, CHR ''n'']
         else if n = 13 then [CHR 0x5C, CHR ''r'']
         else if n = 9 then [CHR 0x5C, CHR ''t'']
         else if n < 32 then [CHR 0x5C, CHR ''u'', CHR ''0'', CHR ''0'', hex_char (n div 16), hex_char (n mod 16)]
         else [c])"

definition quoted :: "string \<Rightarrow> string" where
  "quoted s = [CHR 0x22] @ concat (map json_char s) @ [CHR 0x22]"

fun json_text :: "json \<Rightarrow> string" where
  "json_text JNull = ''null''"
| "json_text (JBool b) = (if b then ''true'' else ''false'')"
| "json_text (JNum r) = num_to_string r"
| "json_text (JStr s) = quoted s"
| "json_text (JArr xs) = ''['' @ join '','' (map json_text xs) @ '']''"
| "json_text (JObj kvs) = ''{'' @ join '','' (map (\<lambda>(k, v). quoted k @ '':'' @ json_text v) kvs) @ ''}''"

text \<open>\<open>Number(v1) || Number(v2) || \<dots> || 0\<close>, with \<open>None\<close> for an infinite number.\<close>

fun infinite_value :: "json \<Rightarrow> bool" where
  "infinite_value (JStr s) \<longleftrightarrow> trim s \<in> {''Infinity'', ''+Infinity'', ''-Infinity''} \<or>
     (case string_to_number s of Some r \<Rightarrow> 2 ^ 1024 \<le> \<bar>r\<bar> | None \<Rightarrow> False)"
| "infinite_value (JNum r) \<longleftrightarrow> 2 ^ 1024 \<le> \<bar>r\<bar>"
| "infinite_value (JArr [x]) \<longleftrightarrow> infinite_value x"
| "infinite_value v \<longleftrightarrow> False"

fun first_number :: "json option list \<Rightarrow> num option" where
  "first_number [] = Some 0"
| "first_number (None # vs) = first_number vs"
| "first_number (Some v # vs) =
     (if infinite_value v then None
      else case js_Number v of None \<Rightarrow> first_number vs | Some r \<Rightarrow> if r = 0 then first_number vs else Some r)"

section \<open>Configuration\<close>

datatype carrier_body = JsonBody json | FormData json \<comment> \<open>\<open>format=json&data=\<close> and the encoded value\<close>

record delhivery_env =
  dv_text :: "string \<Rightarrow> string option" \<comment> \<open>\<open>config.get\<close>\<close>
  dv_get :: "string \<Rightarrow> (string \<times> string) list \<Rightarrow> string \<Rightarrow> string + json"
  dv_post :: "string \<Rightarrow> carrier_body \<Rightarrow> string \<Rightarrow> string + json"

definition carrier_env :: "delhivery_env \<Rightarrow> string" where
  "carrier_env env = dflt ''staging'' (dv_text env ''DELHIVERY_ENV'')"

definition baseUrl :: "delhivery_env \<Rightarrow> string" where
  "baseUrl env = (if carrier_env env = ''prod'' then ''https://track.delhivery.com''
     else ''https://staging-express.delhivery.com'')"

definition setting :: "delhivery_env \<Rightarrow> string \<Rightarrow> string option" where
  \<comment> \<open>\<open>config.get(k)?.trim() || undefined\<close>\<close>
  "setting env k = nonempty (opt_trim (dv_text env k))"

definition apiToken :: "delhivery_env \<Rightarrow> string option" where
  "apiToken env = setting env (if carrier_env env = ''prod'' then ''DELHIVERY_API_TOKEN_PROD'' else ''DELHIVERY_API_TOKEN_STAGING'')"

definition clientName :: "delhivery_env \<Rightarrow> string option" where
  "clientName env = setting env ''DELHIVERY_CLIENT_NAME''"

definition pickupLocationName :: "delhivery_env \<Rightarrow> string option" where
  "pickupLocationName env = setting env ''DELHIVERY_PICKUP_LOCATION''"

definition carrierConfigured :: "delhivery_env \<Rightarrow> bool" where
  "carrierConfigured env \<longleftrightarrow> apiToken env \<noteq> None"

text \<open>\<open>authHeaders\<close>: the token of a configured client.\<close>

definition auth_token :: "delhivery_env \<Rightarrow> string" where
  "auth_token env = dflt [] (apiToken env)"

definition defaultPickupSchedule :: "delhivery_env \<Rightarrow> int \<Rightarrow> string \<times> string" where
  "defaultPickupSchedule env now =
     (case ist_date now of (y, m, d) \<Rightarrow>
       (int_digits y @ ''-'' @ padded 2 (int_digits m) @ ''-'' @ padded 2 (int_digits d),
        dflt ''15:00:00'' (setting env ''DELHIVERY_PICKUP_TIME'')))"

definition autoPickupRequestEnabled :: "delhivery_env \<Rightarrow> bool" where
  "autoPickupRequestEnabled env =
     (case nonempty (dv_text env ''DELHIVERY_AUTO_PICKUP_REQUEST'') of
        None \<Rightarrow> True
      | Some raw \<Rightarrow> to_lower (trim raw) \<in> {''true'', ''1'', ''yes''})"

section \<open>Quotes and PIN codes\<close>

record carrier_quote =
  qt_fee :: num
  qt_currency :: string
  qt_raw :: json

definition error_answer :: "string \<Rightarrow> json" where
  "error_answer msg = JObj [(''error'', JStr msg)]"

definition quoted_fee :: "json \<Rightarrow> num" where
  "quoted_fee v =
     (case first_number [get_prop v ''total_amount'', opt_prop (first_element v) ''total_amount'',
        opt_prop (first_element v) ''charge''] of
        None \<Rightarrow> 0
      | Some t \<Rightarrow> if 0 \<le> t then t else 0)"

definition calculateShippingCost :: "delhivery_env \<Rightarrow> string \<Rightarrow> string \<Rightarrow> int \<Rightarrow> carrier_quote option" where
  "calculateShippingCost env origin dest weight =
     (if \<not> carrierConfigured env then None
      else case dv_get env (baseUrl env @ ''/api/kinko/v1/invoice/charges/.json'')
          [(''md'', ''E''), (''ss'', ''Delivered''), (''pt'', ''Pre-paid''), (''o_pin'', origin), (''d_pin'', dest),
           (''cgm'', int_digits (max 1 weight))] (auth_token env) of
        Inl msg \<Rightarrow> Some \<lparr>qt_fee = 0, qt_currency = ''INR'', qt_raw = error_answer msg\<rparr>
      | Inr v \<Rightarrow> Some \<lparr>qt_fee = quoted_fee v, qt_currency = ''INR'', qt_raw = v\<rparr>)"

definition checkPincodeServiceable :: "delhivery_env \<Rightarrow> string \<Rightarrow> bool option" where
  "checkPincodeServiceable env pin =
     (if \<not> carrierConfigured env then None
      else case dv_get env (baseUrl env @ ''/c/api/pin-codes/json/'') [(''filter_codes'', pin)] (auth_token env) of
        Inl _ \<Rightarrow> None
      | Inr v \<Rightarrow> Some (case get_prop v ''delivery_codes'' of Some (JArr xs) \<Rightarrow> xs \<noteq> [] | _ \<Rightarrow> False))"

section \<open>Shipments\<close>

record pickup_answer =
  pu_pickupId :: "string option"
  pu_raw :: json

definition text_of :: "json option \<Rightarrow> string option" where
  \<comment> \<open>\<open>v ? String(v) : null\<close>\<close>
  "text_of v = (case v of None \<Rightarrow> None | Some j \<Rightarrow> if json_truthy j then Some (js_String j) else None)"

definition createPickupRequest :: "delhivery_env \<Rightarrow> int \<Rightarrow> string \<Rightarrow> int \<Rightarrow> pickup_answer option" where
  "createPickupRequest env now location count =
     (if \<not> carrierConfigured env then None
      else case or_else (nonempty (Some location)) (pickupLocationName env) of
        None \<Rightarrow> None
      | Some loc \<Rightarrow>
          (let (day, time) = defaultPickupSchedule env now
           in case dv_post env (baseUrl env @ ''/fm/request/new/'')
               (JsonBody (JObj [(''pickup_location'', JStr loc), (''pickup_date'', JStr day), (''pickup_time'', JStr time),
                  (''expected_package_count'', JNum (of_int (max 1 count)))])) (auth_token env) of
             Inl msg \<Rightarrow> Some \<lparr>pu_pickupId = None, pu_raw = error_answer msg\<rparr>
           | Inr v \<Rightarrow> Some \<lparr>pu_pickupId =
                 text_of (first_nonnull [get_prop v ''pickup_id'', get_prop v ''pickupId'', get_prop v ''id'']),
               pu_raw = v\<rparr>))"

record carrier_shipment =
  ds_waybill :: "string option"
  ds_trackingUrl :: "string option"
  ds_status :: "string option"
  ds_raw :: json
  ds_pickupRequestId :: "string option"

definition shipment_payload :: "ship_request \<Rightarrow> string \<Rightarrow> json" where
  "shipment_payload q pickup =
     JObj [(''shipments'', JArr [JObj
        [(''name'', JStr (sq_consigneeName q)), (''add'', JStr (sq_consigneeAddress q)),
         (''pin'', JStr (sq_destinationPin q)), (''phone'', JStr (sq_consigneePhone q)),
         (''order'', JStr (sq_orderId q)), (''payment_mode'', JStr ''Pre-paid''),
         (''weight'', JStr (num_to_string (max (ndiv 1 20) (ndiv (of_int (sq_weightGrams q)) 1000)))),
         (''quantity'', JNum 1), (''shipping_mode'', JStr ''Express''), (''pt'', JStr ''Pre-paid'')]]),
       (''pickup_location'', JObj [(''name'', JStr pickup)])]"

definition read_shipment :: "json \<Rightarrow> carrier_shipment" where
  "read_shipment v =
     (let first = Option.bind (nonnull (get_prop v ''packages'')) first_element;
          waybill = first_nonnull [opt_prop first ''waybill'', get_prop v ''waybill'']
      in \<lparr> ds_waybill = text_of waybill,
           ds_trackingUrl = map_option (\<lambda>n. ''https://www.delhivery.com/track/package/'' @ n) (text_of waybill),
           ds_status = Some (case nonnull (opt_prop first ''status'') of Some s \<Rightarrow> js_String s | None \<Rightarrow> ''Created''),
           ds_raw = v, ds_pickupRequestId = None \<rparr>)"

definition createShipment :: "delhivery_env \<Rightarrow> int \<Rightarrow> ship_request \<Rightarrow> carrier_shipment option" where
  "createShipment env now q =
     (if \<not> carrierConfigured env then None
      else case (clientName env, or_else (nonempty (Some (sq_pickupLocationName q))) (pickupLocationName env)) of
        (Some client, Some pickup) \<Rightarrow>
          (case dv_post env (baseUrl env @ ''/api/cmu/create.json'') (FormData (shipment_payload q pickup)) (auth_token env) of
             Inl msg \<Rightarrow> Some \<lparr>ds_waybill = None, ds_trackingUrl = None, ds_status = None, ds_raw = error_answer msg,
                 ds_pickupRequestId = None\<rparr>
           | Inr v \<Rightarrow>
               (let result = read_shipment v
                in Some (if truthy (ds_waybill result) \<and> autoPickupRequestEnabled env
                   then result\<lparr>ds_pickupRequestId :=
                     Option.bind (createPickupRequest env now pickup 1) pu_pickupId\<rparr>
                   else result)))
      | _ \<Rightarrow> None)"

section \<open>Tracking and status\<close>

definition trackShipment :: "delhivery_env \<Rightarrow> string \<Rightarrow> string option option" where
  "trackShipment env waybill =
     (if \<not> carrierConfigured env \<or> waybill = [] then None
      else case dv_get env (baseUrl env @ ''/api/v1/packages/json/'') [(''waybill'', waybill)] (auth_token env) of
        Inl _ \<Rightarrow> None
      | Inr v \<Rightarrow>
          (let first = opt_prop (Option.bind (nonnull (get_prop v ''ShipmentData'')) first_element) ''Shipment''
           in Some (map_option js_String (first_nonnull [opt_prop first ''Status'', opt_prop first ''status'']))))"

record carrier_status =
  cs_configured :: bool
  cs_env :: string
  cs_baseUrl :: string
  cs_hasClientName :: bool
  cs_hasPickupLocation :: bool
  cs_autoPickupRequest :: bool
  cs_pincodeTest :: "(string \<times> bool option) option"
  cs_quoteTest :: "carrier_quote option"

definition getIntegrationStatus :: "delhivery_env \<Rightarrow> string option \<Rightarrow> carrier_status" where
  "getIntegrationStatus env testPin =
     (let status = \<lparr> cs_configured = carrierConfigured env, cs_env = carrier_env env, cs_baseUrl = baseUrl env,
            cs_hasClientName = clientName env \<noteq> None, cs_hasPickupLocation = pickupLocationName env \<noteq> None,
            cs_autoPickupRequest = autoPickupRequestEnabled env, cs_pincodeTest = None, cs_quoteTest = None \<rparr>
      in case opt_trim testPin of
           None \<Rightarrow> status
         | Some pin \<Rightarrow> if length pin \<noteq> 6 then status
             else status\<lparr>cs_pincodeTest := Some (pin, checkPincodeServiceable env pin),
               cs_quoteTest := calculateShippingCost env pin pin 500\<rparr>)"

section \<open>The client as the shipping API\<close>

definition shipment_detail :: "json \<Rightarrow> string" where
  \<comment> \<open>what a refused booking shows of the answer\<close>
  "shipment_detail raw = (case raw of
     JObj _ \<Rightarrow> take 300 (json_text raw) | JArr _ \<Rightarrow> take 300 (json_text raw) | _ \<Rightarrow> ''no waybill returned'')"

definition delhivery_api :: "delhivery_env \<Rightarrow> int \<Rightarrow> shipping_api" where
  "delhivery_api env now =
     \<lparr> dh_configured = carrierConfigured env,
       dh_quote = (\<lambda>origin dest weight. Inr (map_option qt_fee (calculateShippingCost env origin dest weight))),
       dh_create = (\<lambda>q. Inr (map_option (\<lambda>s1. \<lparr>sh_waybill = ds_waybill s1, sh_trackingUrl = ds_trackingUrl s1,
          sh_status = ds_status s1, sh_detail = shipment_detail (ds_raw s1)\<rparr>) (createShipment env now q))),
       dh_track = (\<lambda>waybill. Inr (trackShipment env waybill)) \<rparr>"

section \<open>Whatever the carrier answers\<close>

lemma quoted_fee_nonneg: "0 \<le> quoted_fee v"
  by (simp add: quoted_fee_def split: option.split)

lemma quote_nonneg: "calculateShippingCost env origin dest weight = Some q \<Longrightarrow> 0 \<le> qt_fee q"
  by (auto simp: calculateShippingCost_def quoted_fee_nonneg split: if_splits sum.splits)

lemma quote_configured: "calculateShippingCost env origin dest weight = None \<longleftrightarrow> \<not> carrierConfigured env"
  by (simp add: calculateShippingCost_def split: sum.split)

lemma shipment_tracked:
  "createShipment env now q = Some s1 \<Longrightarrow>
   ds_trackingUrl s1 = map_option (\<lambda>n. ''https://www.delhivery.com/track/package/'' @ n) (ds_waybill s1)"
  by (auto simp: createShipment_def read_shipment_def Let_def split: if_splits sum.splits option.splits)

text \<open>A failed quote is taken as a free delivery, and a booking without a waybill is refused.\<close>

lemma unreachable_is_free:
  "carrierConfigured env \<Longrightarrow> \<forall>u ps t. \<exists>m. dv_get env u ps t = Inl m \<Longrightarrow>
   map_option qt_fee (calculateShippingCost env origin dest weight) = Some 0"
proof -
  assume c: "carrierConfigured env" and d: "\<forall>u ps t. \<exists>m. dv_get env u ps t = Inl m"
  from d obtain m where "dv_get env (baseUrl env @ ''/api/kinko/v1/invoice/charges/.json'')
      [(''md'', ''E''), (''ss'', ''Delivered''), (''pt'', ''Pre-paid''), (''o_pin'', origin), (''d_pin'', dest),
       (''cgm'', int_digits (max 1 weight))] (auth_token env) = Inl m" by blast
  with c show ?thesis by (simp add: calculateShippingCost_def)
qed

lemma api_answers:
  "\<exists>q. dh_quote (delhivery_api env now) origin dest weight = Inr q \<and> (q = None \<longleftrightarrow> \<not> carrierConfigured env) \<and> dflt 0 q \<ge> 0"
  using quote_nonneg[of env origin dest weight] quote_configured[of env origin dest weight]
  by (cases "calculateShippingCost env origin dest weight") (auto simp: delhivery_api_def dflt_def)

lemma booking_tracked:
  "wp (book_shipment cfg (delhivery_api env now) s1 uid o1 i phone weight) (\<lambda>r w'. w' = w \<and>
     (\<forall>sh. r = Inr sh \<longrightarrow> (\<exists>n. n \<noteq> [] \<and> sh_waybill sh = Some n \<and>
        sh_trackingUrl sh = Some (''https://www.delhivery.com/track/package/'' @ n)))) w"
  using shipment_tracked
  by (auto simp: book_shipment_def wp_simps Let_def delhivery_api_def truthy_def split: option.splits)

end
