(* ===== verification/Routes.thy ===== *)
theory Routes
  imports Auth Ratings
begin

text \<open>
  The HTTP interface: the routes of the 24 controllers with their guards, the service method behind each and
  the arguments it is called with, in the order in which they are registered (depth-first through the imports
  of src/src/app.module.ts); how a request finds its route, and how its guards admit a caller. A path is the list
  of its segments. The throttling guard and the validation of DTOs by their decorators are not part of a route.
\<close>

section \<open>Routes\<close>

datatype http_method = GET | POST | PATCH | DELETE

datatype segment = Lit string | Par string

datatype guard = JwtAuth | BuyerAccess | RolesAre "role list" | SellerVerified bool \<comment> \<open>skipped\<close>

text \<open>What a handler passes on: the user's id or roles, parts of the request, an uploaded file with its limits.\<close>

datatype argument =
    UserId | UserRoles | Param string | Query string | QueryInt string int | QueryOr string string
  | QueryNumber string | QueryStatus string | QueryDto | Body | BodyField string | NonemptyField string
  | BodyNumber string | RawBody | Header string | Upload string nat "nat option"

record route =
  rt_method :: http_method
  rt_path :: "segment list"
  rt_guards :: "guard list"
  rt_service :: string
  rt_args :: "argument list"

definition rt :: "http_method \<Rightarrow> segment list \<Rightarrow> guard list \<Rightarrow> string \<Rightarrow> argument list \<Rightarrow> route" where
  "rt m p gs s as = \<lparr> rt_method = m, rt_path = p, rt_guards = gs, rt_service = s, rt_args = as \<rparr>"

abbreviation buying :: "guard list" where "buying \<equiv> [JwtAuth, BuyerAccess]"
abbreviation selling :: "guard list" where "selling \<equiv> [JwtAuth, RolesAre [SELLER], SellerVerified False]"
abbreviation onboarding :: "guard list" where "onboarding \<equiv> [JwtAuth, RolesAre [SELLER], SellerVerified True]"
abbreviation selling_unverified :: "guard list" where "selling_unverified \<equiv> [JwtAuth, RolesAre [SELLER]]"
abbreviation administering :: "guard list" where "administering \<equiv> [JwtAuth, RolesAre [ADMIN]]"
abbreviation mib :: nat where "mib \<equiv> 1024 * 1024"

definition app_routes :: "route list" where \<comment> \<open>\<open>AppController\<close>\<close>
  "app_routes =
     [rt GET [] [] ''AppService.getHello'' [],
      rt GET [Lit ''viewer''] [] ''viewer.html'' [],
      rt GET [Lit ''admin'', Lit ''seller-emails''] [] ''admin-seller-emails.html'' []]"

definition health_routes :: "route list" where \<comment> \<open>\<open>HealthController\<close>\<close>
  "health_routes =
     [rt GET [Lit ''health''] [] ''HealthController.fast'' [],
      rt GET [Lit ''health'', Lit ''db''] [] ''HealthCheckService.check'' []]"

definition ratings_routes :: "route list" where \<comment> \<open>\<open>RatingsController\<close>\<close>
  "ratings_routes =
     [rt POST [Lit ''ratings'', Lit ''seller''] buying ''RatingsService.submitSellerRating'' [UserId, Body],
      rt GET [Lit ''ratings'', Lit ''seller'', Par ''sellerId'', Lit ''public''] [JwtAuth]
        ''RatingsService.getSellerPublic'' [Param ''sellerId''],
      rt PATCH [Lit ''admin'', Lit ''users'', Lit ''buyers'', Par ''buyerId'', Lit ''rating''] administering
        ''RatingsService.adminPatchBuyerRating'' [Param ''buyerId'', UserId, Body],
      rt PATCH [Lit ''admin'', Lit ''users'', Lit ''sellers'', Par ''sellerId'', Lit ''rating''] administering
        ''RatingsService.adminPatchSellerRating'' [Param ''sellerId'', UserId, Body]]"

definition replacements_routes :: "route list" where \<comment> \<open>\<open>ReplacementsController\<close>\<close>
  "replacements_routes =
     [rt POST [Lit ''orders'', Par ''orderId'', Lit ''replacement''] buying
        ''ReplacementsService.createForOrder'' [UserId, Param ''orderId'', Body],
      rt GET [Lit ''orders'', Par ''orderId'', Lit ''replacement'', Lit ''variant-options''] buying
        ''ReplacementsService.getVariantOptionsForOrder'' [UserId, Param ''orderId'', Query ''orderItemId''],
      rt GET [Lit ''buyers'', Lit ''replacements'', Lit ''eligible''] buying
        ''ReplacementsService.listEligibleForBuyer'' [UserId],
      rt GET [Lit ''buyers'', Lit ''replacements''] buying ''ReplacementsService.listForBuyer'' [UserId],
      rt GET [Lit ''buyers'', Lit ''replacements'', Par ''id''] buying
        ''ReplacementsService.getBuyerDetail'' [UserId, Param ''id''],
      rt GET [Lit ''orders'', Par ''orderId'', Lit ''replacement''] [JwtAuth]
        ''ReplacementsService.getForOrder'' [UserId, Param ''orderId'', UserRoles],
      rt GET [Lit ''replacements'', Lit ''seller''] selling
        ''ReplacementsService.listForSeller'' [UserId, QueryInt ''page'' 1, QueryInt ''limit'' 20, Query ''status'', Query ''date''],
      rt GET [Lit ''replacements'', Lit ''seller'', Par ''id''] selling
        ''ReplacementsService.getSellerDetail'' [UserId, Param ''id''],
      rt POST [Lit ''replacements'', Par ''id'', Lit ''packing-video''] selling
        ''ReplacementsService.uploadPackingVideo'' [Param ''id'', UserId, Upload ''video'' 1 None],
      rt PATCH [Lit ''replacements'', Par ''id'', Lit ''request-delivery''] selling
        ''ReplacementsService.requestDeliveryFromPartner'' [Param ''id'', UserId],
      rt GET [Lit ''replacements'', Par ''id'', Lit ''delivery-status''] selling
        ''ReplacementsService.getDeliveryStatus'' [Param ''id'', UserId],
      rt PATCH [Lit ''replacements'', Par ''id'', Lit ''ship''] selling
        ''ReplacementsService.ship'' [Param ''id'', UserId],
      rt PATCH [Lit ''replacements'', Par ''id'', Lit ''deliver''] selling
        ''ReplacementsService.deliver'' [Param ''id'', UserId],
      rt GET [Lit ''admin'', Lit ''replacements''] administering
        ''ReplacementsService.listAdmin'' [Query ''status'', QueryInt ''page'' 1, QueryInt ''limit'' 20],
      rt GET [Lit ''admin'', Lit ''replacements'', Par ''id''] administering
        ''ReplacementsService.getAdminDetail'' [Param ''id''],
      rt PATCH [Lit ''admin'', Lit ''replacements'', Par ''id'', Lit ''decide''] administering
        ''ReplacementsService.decide'' [Param ''id'', UserId, Body]]"

definition delhivery_routes :: "route list" where \<comment> \<open>\<open>AdminDelhiveryController\<close>\<close>
  "delhivery_routes =
     [rt GET [Lit ''admin'', Lit ''delhivery'', Lit ''status''] administering
        ''DelhiveryService.getIntegrationStatus'' [Query ''pin'']]"

definition payments_routes :: "route list" where \<comment> \<open>\<open>PaymentsController\<close>\<close>
  "payments_routes =
     [rt POST [Lit ''payments'', Lit ''razorpay'', Lit ''create-order''] buying
        ''PaymentsService.createRazorpayOrder'' [UserId, Body],
      rt POST [Lit ''payments'', Lit ''razorpay'', Lit ''verify''] buying
        ''PaymentsService.verifyAndCheckout'' [UserId, Body],
      rt POST [Lit ''payments'', Lit ''razorpay'', Lit ''replacement-balance'', Par ''replacementId'', Lit ''create-order''] buying
        ''PaymentsService.createReplacementBalanceOrder'' [UserId, Param ''replacementId''],
      rt POST [Lit ''payments'', Lit ''razorpay'', Lit ''replacement-balance'', Lit ''verify''] buying
        ''PaymentsService.verifyReplacementBalancePayment'' [UserId, Body]]"

definition orders_routes :: "route list" where \<comment> \<open>\<open>OrdersController\<close>\<close>
  "orders_routes =
     [rt POST [Lit ''orders''] buying ''OrdersService.create'' [Body, UserId],
      rt GET [Lit ''orders'', Lit ''cart''] buying ''OrdersService.getCart'' [UserId],
      rt POST [Lit ''orders'', Lit ''cart'', Lit ''items''] buying ''OrdersService.addCartItem'' [UserId, Body],
      rt PATCH [Lit ''orders'', Lit ''cart'', Lit ''items'', Par ''productId''] buying
        ''OrdersService.updateCartItem'' [UserId, Param ''productId'', BodyField ''quantity'', Query ''variantId''],
      rt PATCH [Lit ''orders'', Lit ''checkout''] buying ''OrdersService.checkoutFromCart'' [UserId, Body],
      rt POST [Lit ''orders'', Lit ''delivery-quote''] buying
        ''OrdersService.getDeliveryQuoteFromCart'' [UserId, BodyField ''addressId''],
      rt DELETE [Lit ''orders'', Lit ''cart'', Lit ''items'', Par ''productId''] buying
        ''OrdersService.removeCartItem'' [UserId, Param ''productId'', Query ''variantId''],
      rt GET [Lit ''orders''] buying ''OrdersService.findMyOrders'' [UserId, QueryDto],
      rt GET [Lit ''orders'', Lit ''recent''] buying
        ''OrdersService.getRecentBuyerOrders'' [UserId, QueryInt ''limit'' 10],
      rt GET [Lit ''orders'', Lit ''seller''] selling ''OrdersService.findSellerOrders'' [UserId, QueryDto],
      rt GET [Lit ''orders'', Lit ''seller'', Lit ''counts''] selling
        ''OrdersService.getSellerOrderCounts'' [UserId, Query ''date''],
      rt GET [Lit ''orders'', Par ''id'', Lit ''seller-detail''] selling
        ''OrdersService.getSellerOrderDetail'' [Param ''id'', UserId],
      rt GET [Lit ''orders'', Par ''id'', Lit ''buyer-detail''] buying
        ''OrdersService.getBuyerOrderDetail'' [Param ''id'', UserId],
      rt GET [Lit ''orders'', Par ''id'', Lit ''help''] buying ''OrdersService.getOrderHelp'' [Param ''id'', UserId],
      rt PATCH [Lit ''orders'', Par ''id'', Lit ''accept''] selling
        ''OrdersService.acceptOrder'' [Param ''id'', UserId],
      rt POST [Lit ''orders'', Par ''id'', Lit ''packing-video''] selling
        ''OrdersService.uploadPackingVideo'' [Param ''id'', UserId, Upload ''video'' 1 (Some (80 * mib))],
      rt PATCH [Lit ''orders'', Par ''id'', Lit ''request-delivery''] selling
        ''OrdersService.requestDeliveryFromPartner'' [Param ''id'', UserId],
      rt GET [Lit ''orders'', Par ''id'', Lit ''delivery-status''] selling
        ''OrdersService.getOrderDeliveryStatus'' [Param ''id'', UserId],
      rt GET [Lit ''orders'', Par ''id''] [JwtAuth] ''OrdersService.findOne'' [Param ''id'', UserId],
      rt PATCH [Lit ''orders'', Par ''id'', Lit ''ship''] selling
        ''OrdersService.shipOrder'' [Param ''id'', UserId, Body],
      rt PATCH [Lit ''orders'', Par ''id'', Lit ''deliver''] selling
        ''OrdersService.deliverOrder'' [Param ''id'', UserId],
      rt PATCH [Lit ''orders'', Par ''id'', Lit ''cancel''] buying
        ''OrdersService.cancelOrder'' [Param ''id'', UserId],
      rt PATCH [Lit ''orders'', Par ''id'', Lit ''return''] buying
        ''OrdersService.returnOrder'' [Param ''id'', UserId]]"

definition auth_routes :: "route list" where \<comment> \<open>\<open>AuthController\<close>\<close>
  "auth_routes =
     [rt POST [Lit ''auth'', Lit ''login''] [] ''AuthService.login'' [Body],
      rt POST [Lit ''auth'', Lit ''refresh''] [] ''AuthService.refresh'' [Body],
      rt POST [Lit ''auth'', Lit ''register'', Lit ''buyer''] [] ''AuthService.registerBuyer'' [Body],
      rt POST [Lit ''auth'', Lit ''otp'', Lit ''send''] [] ''AuthService.sendOtp'' [Body],
      rt POST [Lit ''auth'', Lit ''otp'', Lit ''verify''] [] ''AuthService.verifyOtp'' [Body],
      rt POST [Lit ''auth'', Lit ''register'', Lit ''seller''] [] ''AuthService.registerSeller'' [Body],
      rt POST [Lit ''auth'', Lit ''forgot-password''] [] ''AuthService.forgotPassword'' [Body],
      rt POST [Lit ''auth'', Lit ''reset-password''] [] ''AuthService.resetPassword'' [Body],
      rt POST [Lit ''auth'', Lit ''reset-password'', Lit ''verify''] [] ''AuthService.verifyResetPasswordOtp'' [Body],
      rt POST [Lit ''auth'', Lit ''check-phone''] [] ''AuthService.checkPhoneExists'' [Body],
      rt POST [Lit ''auth'', Lit ''check-email''] [] ''AuthService.checkEmailExists'' [Body],
      rt PATCH [Lit ''auth'', Lit ''me'', Lit ''fcm-token''] [JwtAuth]
        ''AuthService.registerPushDevice'' [UserId, BodyField ''token'', BodyField ''platform'']]"

definition invoices_routes :: "route list" where \<comment> \<open>\<open>InvoicesController\<close>\<close>
  "invoices_routes =
     [rt GET [Lit ''invoices'', Lit ''sample''] [] ''InvoicesService.generateSampleInvoicePdf'' [],
      rt GET [Lit ''orders'', Par ''id'', Lit ''invoice''] buying
        ''InvoicesService.generateOrderInvoicePdf'' [Param ''id'', UserId],
      rt GET [Lit ''replacements'', Par ''id'', Lit ''invoice''] buying
        ''InvoicesService.generateReplacementInvoicePdf'' [Param ''id'', UserId]]"

definition outreach_routes :: "route list" where \<comment> \<open>\<open>SellerOutreachController\<close>\<close>
  "outreach_routes =
     [rt GET [Lit ''public'', Lit ''seller-outreach'', Lit ''interested''] []
        ''SellerOutreachService.handleInterestClick'' [Query ''email'', Query ''store'', Query ''contact'', Query ''sig'']]"

definition seller_emails_routes :: "route list" where \<comment> \<open>\<open>AdminSellerEmailsController\<close>\<close>
  "seller_emails_routes =
     [rt POST [Lit ''admin'', Lit ''seller-emails'', Lit ''parse-csv''] administering
        ''SellerEmailService.parseRecipientsFromCsv'' [BodyField ''csvContent''],
      rt POST [Lit ''admin'', Lit ''seller-emails'', Lit ''preview''] administering
        ''SellerEmailService.buildEmail'' [BodyField ''kind'', BodyField ''recipient''],
      rt POST [Lit ''admin'', Lit ''seller-emails'', Lit ''send''] administering
        ''SellerEmailService.sendBatch'' [BodyField ''kind'', BodyField ''recipients'', BodyField ''dryRun'']]"

definition webhook_routes :: "route list" where \<comment> \<open>\<open>LivekitWebhookController\<close>\<close>
  "webhook_routes =
     [rt POST [Lit ''webhooks'', Lit ''livekit''] []
        ''LivekitWebhookService.handleRawPayload'' [RawBody, Header ''authorization'']]"

definition streams_routes :: "route list" where \<comment> \<open>\<open>StreamsController\<close>\<close>
  "streams_routes =
     [rt POST [Lit ''streams''] selling ''StreamsService.create'' [Body, UserId],
      rt POST [Lit ''streams'', Lit ''schedule''] selling ''StreamsService.scheduleStream'' [Body, UserId],
      rt POST [Lit ''streams'', Par ''id'', Lit ''start-scheduled''] selling
        ''StreamsService.startScheduledStream'' [Param ''id'', UserId],
      rt GET [Lit ''streams'', Lit ''active''] [] ''StreamsService.findAllActive'' [QueryDto, Query ''categoryId''],
      rt GET [Lit ''streams'', Lit ''me'', Lit ''active-live''] selling_unverified
        ''StreamsService.findSellerActiveLive'' [UserId],
      rt GET [Lit ''streams'', Lit ''viewer-token'', Par ''id''] []
        ''StreamsService.getViewerToken'' [Param ''id'', QueryOr ''identity'' ''viewer-1''],
      rt GET [Lit ''streams'', Par ''id'', Lit ''viewer-token''] []
        ''StreamsService.getViewerToken'' [Param ''id'', QueryOr ''identity'' ''viewer-1''],
      rt GET [Lit ''streams'', Par ''id'', Lit ''live-state''] [] ''StreamsService.getLiveState'' [Param ''id''],
      rt GET [Lit ''streams'', Par ''id''] [] ''StreamsService.findOne'' [Param ''id''],
      rt GET [Lit ''streams'', Par ''id'', Lit ''store''] []
        ''StreamsService.getStoreProducts'' [Param ''id'', Query ''search'', Query ''sort'', QueryNumber ''minPrice'', QueryNumber ''maxPrice''],
      rt GET [Lit ''streams'', Par ''id'', Lit ''comments''] [] ''StreamsService.getComments'' [Param ''id''],
      rt POST [Lit ''streams'', Par ''id'', Lit ''comments''] [JwtAuth]
        ''StreamsService.addComment'' [Param ''id'', UserId, NonemptyField ''text''],
      rt POST [Lit ''streams'', Par ''id'', Lit ''like''] [JwtAuth]
        ''StreamsService.toggleLike'' [Param ''id'', UserId],
      rt POST [Lit ''streams'', Par ''id'', Lit ''follow''] [JwtAuth]
        ''StreamsService.followSeller'' [Param ''id'', UserId],
      rt POST [Lit ''streams'', Par ''id'', Lit ''bid''] [JwtAuth]
        ''StreamsService.addBid'' [Param ''id'', UserId, BodyNumber ''amount''],
      rt POST [Lit ''streams'', Par ''id'', Lit ''token''] [JwtAuth]
        ''StreamsService.getJoinToken'' [Param ''id'', UserId, BodyField ''identity''],
      rt PATCH [Lit ''streams'', Par ''id'', Lit ''seller-heartbeat''] selling
        ''StreamsService.touchSellerHeartbeat'' [Param ''id'', UserId],
      rt PATCH [Lit ''streams'', Par ''id'', Lit ''publish-ready''] selling
        ''StreamsService.markBroadcastStarted'' [Param ''id'', UserId],
      rt PATCH [Lit ''streams'', Par ''id''] selling ''StreamsService.update'' [Param ''id'', Body, UserId],
      rt PATCH [Lit ''streams'', Par ''id'', Lit ''stop''] selling
        ''StreamsService.stopStream'' [Param ''id'', UserId],
      rt DELETE [Lit ''streams'', Par ''id''] selling ''StreamsService.remove'' [Param ''id'', UserId]]"

definition config_routes :: "route list" where \<comment> \<open>\<open>PublicConfigController\<close>\<close>
  "config_routes =
     [rt GET [Lit ''public'', Lit ''android-app''] [] ''AppConfigService.getPublicAndroid'' []]"

definition admin_routes :: "route list" where \<comment> \<open>\<open>AdminController\<close>\<close>
  "admin_routes =
     [rt GET [Lit ''admin'', Lit ''me''] administering ''AdminService.getMe'' [UserId],
      rt GET [Lit ''admin'', Lit ''sellers''] administering ''AdminService.listSellers'' [QueryStatus ''status''],
      rt GET [Lit ''admin'', Lit ''sellers'', Par ''id''] administering
        ''AdminService.getSellerDetail'' [Param ''id''],
      rt PATCH [Lit ''admin'', Lit ''sellers'', Par ''id'', Lit ''approve''] administering
        ''AdminService.approveSeller'' [Param ''id''],
      rt PATCH [Lit ''admin'', Lit ''sellers'', Par ''id'', Lit ''reject''] administering
        ''AdminService.rejectSeller'' [Param ''id'', BodyField ''reason''],
      rt PATCH [Lit ''admin'', Lit ''sellers'', Par ''id'', Lit ''request-changes''] administering
        ''AdminService.requestSellerChanges'' [Param ''id'', UserId, Body],
      rt PATCH [Lit ''admin'', Lit ''sellers'', Par ''id'', Lit ''reregister''] administering
        ''AdminService.reregisterSeller'' [Param ''id''],
      rt GET [Lit ''admin'', Lit ''app-config''] administering ''AdminService.getAppConfig'' [],
      rt PATCH [Lit ''admin'', Lit ''app-config''] administering ''AdminService.patchAppConfig'' [Body],
      rt GET [Lit ''admin'', Lit ''packing-videos''] administering
        ''AdminService.listPackingVideos'' [Query ''sellerId''],
      rt GET [Lit ''admin'', Lit ''users'', Lit ''buyers''] administering
        ''AdminService.listBuyers'' [Query ''q'', QueryInt ''page'' 1, QueryInt ''limit'' 20],
      rt GET [Lit ''admin'', Lit ''users'', Lit ''buyers'', Par ''id''] administering
        ''AdminService.getBuyerDetail'' [Param ''id''],
      rt GET [Lit ''admin'', Lit ''users'', Lit ''sellers''] administering
        ''AdminService.listSellerDirectory'' [Query ''q'', QueryInt ''page'' 1, QueryInt ''limit'' 20],
      rt GET [Lit ''admin'', Lit ''users'', Lit ''sellers'', Par ''id''] administering
        ''AdminService.getSellerUserDetail'' [Param ''id'']]"

definition sellers_routes :: "route list" where \<comment> \<open>\<open>SellersController\<close>\<close>
  "sellers_routes =
     [rt GET [Lit ''sellers'', Lit ''profile''] onboarding ''SellersService.findOne'' [UserId],
      rt GET [Lit ''sellers'', Lit ''dashboard''] selling ''SellersService.getMyDashboardStats'' [UserId],
      rt GET [Lit ''sellers'', Lit ''revenue'', Lit ''today''] selling ''SellersService.getRevenueToday'' [UserId],
      rt GET [Lit ''sellers'', Lit ''pricing-preview''] selling
        ''SellersService.getPricingPreview'' [UserId, QueryDto],
      rt GET [Lit ''sellers'', Lit ''bank-details''] selling ''SellersService.getBankDetails'' [UserId],
      rt PATCH [Lit ''sellers'', Lit ''bank-details''] onboarding ''SellersService.updateBankDetails'' [UserId, Body],
      rt GET [Lit ''sellers'', Lit ''store-details''] selling ''SellersService.getStoreDetails'' [UserId],
      rt PATCH [Lit ''sellers'', Lit ''store-details''] onboarding
        ''SellersService.updateStoreDetails'' [UserId, Body],
      rt POST [Lit ''sellers'', Lit ''store-media'', Lit ''logo''] onboarding
        ''SellersService.uploadStoreLogo'' [UserId, Upload ''image'' 1 (Some (5 * mib))],
      rt POST [Lit ''sellers'', Lit ''store-media'', Lit ''banner''] onboarding
        ''SellersService.uploadStoreBanner'' [UserId, Upload ''image'' 1 (Some (8 * mib))],
      rt GET [Lit ''sellers'', Lit ''pickup-address''] selling ''SellersService.getPickupAddress'' [UserId],
      rt PATCH [Lit ''sellers'', Lit ''pickup-address''] selling_unverified
        ''SellersService.updatePickupAddress'' [UserId, Body],
      rt GET [Lit ''sellers'', Lit ''signature''] selling_unverified ''SellersService.getSignature'' [UserId],
      rt PATCH [Lit ''sellers'', Lit ''signature''] onboarding ''SellersService.updateSignature'' [UserId, Body],
      rt PATCH [Lit ''sellers'', Lit ''profile''] onboarding ''SellersService.updateProfile'' [UserId, Body],
      rt POST [Lit ''sellers'', Lit ''me'', Lit ''resubmit''] onboarding ''SellersService.resubmitForReview'' [UserId]]"

definition media_routes :: "route list" where \<comment> \<open>\<open>MediaController\<close>\<close>
  "media_routes =
     [rt POST [Lit ''media'', Lit ''images''] selling
        ''MediaController.uploadImages'' [UserId, Upload ''images'' 6 (Some (8 * mib))],
      rt POST [Lit ''media'', Lit ''buyer'', Lit ''images''] buying
        ''MediaController.uploadBuyerImages'' [UserId, Upload ''images'' 4 (Some (8 * mib))]]"

definition users_routes :: "route list" where \<comment> \<open>\<open>UsersController\<close>\<close>
  "users_routes =
     [rt GET [Lit ''users''] [] ''UsersService.findAll'' [QueryDto]]"

definition products_routes :: "route list" where \<comment> \<open>\<open>ProductsController\<close>\<close>
  "products_routes =
     [rt POST [Lit ''products''] selling ''ProductsService.create'' [Body, UserId],
      rt GET [Lit ''products''] [] ''ProductsService.findAll'' [QueryDto],
      rt GET [Lit ''products'', Lit ''my-listings''] selling ''ProductsService.findMyProducts'' [UserId, QueryDto],
      rt GET [Lit ''products'', Par ''id''] [] ''ProductsService.findOne'' [Param ''id''],
      rt PATCH [Lit ''products'', Par ''id''] selling ''ProductsService.update'' [Param ''id'', Body, UserId],
      rt DELETE [Lit ''products'', Par ''id''] selling ''ProductsService.remove'' [Param ''id'', UserId]]"

definition buyers_routes :: "route list" where \<comment> \<open>\<open>BuyersController\<close>\<close>
  "buyers_routes =
     [rt GET [Lit ''buyers'', Lit ''profile''] [JwtAuth] ''BuyersService.findOne'' [UserId],
      rt PATCH [Lit ''buyers'', Lit ''profile''] [JwtAuth] ''BuyersService.updateProfile'' [UserId, Body],
      rt GET [Lit ''buyers'', Lit ''feed''] [JwtAuth] ''BuyersService.getFeed'' [UserId],
      rt GET [Lit ''buyers'', Lit ''notifications''] [JwtAuth]
        ''BuyersService.getNotifications'' [UserId, Query ''category''],
      rt PATCH [Lit ''buyers'', Lit ''notifications'', Par ''id'', Lit ''read''] [JwtAuth]
        ''BuyersService.markNotificationRead'' [UserId, Param ''id''],
      rt PATCH [Lit ''buyers'', Lit ''notifications'', Lit ''read-all''] [JwtAuth]
        ''BuyersService.markAllNotificationsRead'' [UserId],
      rt GET [Lit ''buyers'', Lit ''referrals''] [JwtAuth] ''BuyersService.getReferrals'' [UserId],
      rt POST [Lit ''buyers'', Lit ''referrals'', Lit ''apply''] [JwtAuth]
        ''BuyersService.applyReferral'' [UserId, BodyField ''code''],
      rt GET [Lit ''buyers'', Lit ''help-support''] [JwtAuth] ''BuyersService.getHelpSupport'' [UserId],
      rt GET [Lit ''buyers'', Lit ''addresses''] [JwtAuth] ''BuyersService.listAddresses'' [UserId],
      rt POST [Lit ''buyers'', Lit ''addresses''] [JwtAuth] ''BuyersService.createAddress'' [UserId, Body],
      rt PATCH [Lit ''buyers'', Lit ''addresses'', Par ''id''] [JwtAuth]
        ''BuyersService.updateAddress'' [UserId, Param ''id'', Body],
      rt DELETE [Lit ''buyers'', Lit ''addresses'', Par ''id''] [JwtAuth]
        ''BuyersService.deleteAddress'' [UserId, Param ''id''],
      rt GET [Lit ''buyers'', Lit ''following''] [JwtAuth] ''BuyersService.listFollowing'' [UserId],
      rt DELETE [Lit ''buyers'', Lit ''following'', Par ''sellerId''] [JwtAuth]
        ''BuyersService.unfollow'' [UserId, Param ''sellerId''],
      rt GET [Lit ''buyers'', Lit ''sellers'', Par ''sellerId'', Lit ''public-profile''] []
        ''BuyersService.getSellerPublicProfile'' [Param ''sellerId'']]"

definition categories_routes :: "route list" where \<comment> \<open>\<open>CategoriesController\<close>\<close>
  "categories_routes =
     [rt GET [Lit ''categories''] [] ''CategoriesService.findAll'' [],
      rt GET [Lit ''categories'', Lit ''slug'', Par ''slug'', Lit ''metadata''] []
        ''CategoriesService.getMetadata'' [Param ''slug''],
      rt GET [Lit ''categories'', Par ''id''] [] ''CategoriesService.findOne'' [Param ''id'']]"

definition countries_routes :: "route list" where \<comment> \<open>\<open>CountriesController\<close>\<close>
  "countries_routes =
     [rt GET [Lit ''countries''] [] ''CountriesService.findAll'' [],
      rt GET [Lit ''countries'', Lit ''states''] [] ''CountriesService.findStatesByCountry'' [Query ''countryId'']]"

definition support_routes :: "route list" where \<comment> \<open>\<open>SupportController\<close>\<close>
  "support_routes =
     [rt GET [Lit ''support'', Lit ''faqs''] [] ''SupportService.getFaqs'' [],
      rt GET [Lit ''support'', Lit ''contact''] [] ''SupportService.getAccountManagerContact'' [],
      rt GET [Lit ''support'', Lit ''escalation-levels''] [] ''SupportService.getEscalationLevels'' [],
      rt POST [Lit ''support'', Lit ''report-issue''] [JwtAuth] ''SupportService.reportIssue'' [UserId, Body],
      rt POST [Lit ''support'', Lit ''app-feedback''] [JwtAuth] ''SupportService.submitAppFeedback'' [UserId, Body],
      rt POST [Lit ''support'', Lit ''submit-concern''] [JwtAuth] ''SupportService.submitConcern'' [UserId, Body]]"

definition material_types_routes :: "route list" where \<comment> \<open>\<open>MaterialTypesController\<close>\<close>
  "material_types_routes =
     [rt GET [Lit ''material-types''] [] ''MaterialTypesService.findAll'' []]"

definition api_routes :: "route list" where
  "api_routes = app_routes @ health_routes @ ratings_routes @ replacements_routes @ delhivery_routes @ payments_routes @
     orders_routes @ auth_routes @ invoices_routes @ outreach_routes @ seller_emails_routes @ webhook_routes @
     streams_routes @ config_routes @ admin_routes @ sellers_routes @ media_routes @ users_routes @
     products_routes @ buyers_routes @ categories_routes @ countries_routes @ support_routes @ material_types_routes"

section \<open>Finding the route of a request\<close>

fun match_path :: "segment list \<Rightarrow> string list \<Rightarrow> (string \<times> string) list option" where
  "match_path [] [] = Some []"
| "match_path (Lit l # ps) (s # ss) = (if l = s then match_path ps ss else None)"
| "match_path (Par p # ps) (s # ss) = (if s = [] then None else map_option (Cons (p, s)) (match_path ps ss))"
| "match_path _ _ = None"

fun resolve :: "route list \<Rightarrow> http_method \<Rightarrow> string list \<Rightarrow> (route \<times> (string \<times> string) list) option" where
  "resolve [] m path = None"
| "resolve (r # rs) m path =
     (if rt_method r \<noteq> m then resolve rs m path
      else case match_path (rt_path r) path of Some ps \<Rightarrow> Some (r, ps) | None \<Rightarrow> resolve rs m path)"

section \<open>Admission\<close>

record http_request =
  rq_method :: http_method
  rq_path :: "string list"
  rq_token :: "string option" \<comment> \<open>the bearer token\<close>

definition unauthorized :: exn where "unauthorized = Unauthorized ''Unauthorized''"

definition decide_guard :: "exn + bool \<Rightarrow> user_row option \<Rightarrow> user_row option handler" where
  "decide_guard d user = (case d of Inl e \<Rightarrow> throw e
     | Inr ok \<Rightarrow> if ok then ret user else throw (Forbidden ''Forbidden resource''))"

text \<open>\<open>AuthGuard('jwt')\<close> with \<open>JwtStrategy\<close>: the token is checked, then its user is read.\<close>

definition jwt_guard :: "auth_env \<Rightarrow> string option \<Rightarrow> user_row option handler" where
  "jwt_guard env token =
     (case token of None \<Rightarrow> throw unauthorized | Some t \<Rightarrow>
      bind_act (reads (\<lambda>w. ae_verify env (dflt [] (ae_cfg env ''JWT_SECRET'')) (clock w) t)) (\<lambda>c.
      case c of None \<Rightarrow> throw unauthorized | Some payload \<Rightarrow>
      bind_act (jwt_validate payload) (\<lambda>u. ret (Some u))))"

fun run_guard :: "auth_env \<Rightarrow> string option \<Rightarrow> guard \<Rightarrow> user_row option \<Rightarrow> user_row option handler" where
  "run_guard env token JwtAuth user = jwt_guard env token"
| "run_guard env token BuyerAccess user = bind_act (reads (\<lambda>w. buyer_access_guard w user)) (\<lambda>d. decide_guard d user)"
| "run_guard env token (RolesAre rs) user = decide_guard (roles_guard (Some rs) user) user"
| "run_guard env token (SellerVerified skip) user =
     bind_act (reads (\<lambda>w. seller_verified_guard skip w user)) (\<lambda>d. decide_guard d user)"

fun run_guards :: "auth_env \<Rightarrow> string option \<Rightarrow> guard list \<Rightarrow> user_row option \<Rightarrow> user_row option handler" where
  "run_guards env token [] user = ret user"
| "run_guards env token (g # gs) user = bind_act (run_guard env token g user) (run_guards env token gs)"

text \<open>\<open>perform\<close> stands for the service method with its route, parameters and user.\<close>

definition serve ::
    "auth_env \<Rightarrow> (route \<Rightarrow> (string \<times> string) list \<Rightarrow> user_row option \<Rightarrow> 'a handler) \<Rightarrow> http_request \<Rightarrow> 'a handler" where
  "serve env perform q =
     (case resolve api_routes (rq_method q) (rq_path q) of
        None \<Rightarrow> throw (NotFound ''Not Found'')
      | Some (r, ps) \<Rightarrow> bind_act (run_guards env (rq_token q) (rt_guards r) None) (perform r ps))"

end
