(* ===== verification/RouteFacts.thy ===== *)
theory RouteFacts imports Routes begin

text \<open>
  Facts of the route tables: no route hides a later one, and each has the guards that its place in the
  interface asks for.
\<close>

section \<open>Hidden routes\<close>

text \<open>The first path matches whatever the second one matches with parameters that are no words of the tables.\<close>

fun covers :: "segment list \<Rightarrow> segment list \<Rightarrow> bool" where
  "covers [] [] = True"
| "covers (Par _ # a) (_ # b) = covers a b"
| "covers (Lit l # a) (Lit m # b) = (l = m \<and> covers a b)"
| "covers _ _ = False"

definition apart :: "route list \<Rightarrow> route list \<Rightarrow> bool" where
  "apart rs ss \<longleftrightarrow> list_all (\<lambda>r. list_all (\<lambda>s. rt_method r = rt_method s \<longrightarrow> \<not> covers (rt_path r) (rt_path s)) ss) rs"

fun shadow_free :: "route list \<Rightarrow> bool" where
  "shadow_free [] = True"
| "shadow_free (r # rs) = (apart [r] rs \<and> shadow_free rs)"

lemma apart_append [simp]:
  "apart (qs @ rs) ss \<longleftrightarrow> apart qs ss \<and> apart rs ss"
  "apart rs (ss @ ts) \<longleftrightarrow> apart rs ss \<and> apart rs ts"
  by (auto simp: apart_def list_all_iff)

lemma shadow_free_append [simp]: "shadow_free (rs @ ss) \<longleftrightarrow> shadow_free rs \<and> shadow_free ss \<and> apart rs ss"
  by (induction rs) (auto simp: apart_def)

definition head_of :: "route \<Rightarrow> segment option" where
  "head_of r = (case rt_path r of [] \<Rightarrow> None | x # _ \<Rightarrow> Some x)"

definition heads :: "route list \<Rightarrow> segment option set" where
  "heads rs = set (map head_of rs)"

lemma covers_heads:
  "covers a b \<Longrightarrow> (case a of [] \<Rightarrow> None | x # _ \<Rightarrow> Some x) = (case b of [] \<Rightarrow> None | x # _ \<Rightarrow> Some x) \<or>
     (\<exists>p c. a = Par p # c)"
  by (cases a; cases b; cases "hd a"; cases "hd b"; auto)

lemma apart_heads: "heads rs \<inter> heads ss = {} \<Longrightarrow> \<forall>p. Some (Par p) \<notin> heads rs \<Longrightarrow> apart rs ss"
proof (unfold apart_def list_all_iff, intro ballI impI notI)
  fix r s
  assume h: "heads rs \<inter> heads ss = {}" "\<forall>p. Some (Par p) \<notin> heads rs"
    and r: "r \<in> set rs" and s: "s \<in> set ss" and c: "covers (rt_path r) (rt_path s)"
  have hr: "head_of r \<in> heads rs" and hs: "head_of s \<in> heads ss" using r s by (simp_all add: heads_def)
  from covers_heads[OF c] show False
  proof
    assume "(case rt_path r of [] \<Rightarrow> None | x # _ \<Rightarrow> Some x) = (case rt_path s of [] \<Rightarrow> None | x # _ \<Rightarrow> Some x)"
    then have "head_of r = head_of s" by (simp add: head_of_def)
    then show False using hr hs h by auto
  next
    assume "\<exists>p c. rt_path r = Par p # c"
    then obtain p where "head_of r = Some (Par p)" by (auto simp: head_of_def)
    then show False using hr h by auto
  qed
qed

lemmas route_tables =
  app_routes_def health_routes_def ratings_routes_def replacements_routes_def delhivery_routes_def 
  payments_routes_def orders_routes_def auth_routes_def invoices_routes_def outreach_routes_def 
  seller_emails_routes_def webhook_routes_def streams_routes_def config_routes_def admin_routes_def 
  sellers_routes_def media_routes_def users_routes_def products_routes_def buyers_routes_def 
  categories_routes_def countries_routes_def support_routes_def material_types_routes_def 

lemma table_heads:
  "heads app_routes = {None, Some (Lit ''viewer''), Some (Lit ''admin'')}"
  "heads health_routes = {Some (Lit ''health'')}"
  "heads ratings_routes = {Some (Lit ''ratings''), Some (Lit ''admin'')}"
  "heads replacements_routes = {Some (Lit ''orders''), Some (Lit ''buyers''), Some (Lit ''replacements''), Some (Lit ''admin'')}"
  "heads delhivery_routes = {Some (Lit ''admin'')}"
  "heads payments_routes = {Some (Lit ''payments'')}"
  "heads orders_routes = {Some (Lit ''orders'')}"
  "heads auth_routes = {Some (Lit ''auth'')}"
  "heads invoices_routes = {Some (Lit ''invoices''), Some (Lit ''orders''), Some (Lit ''replacements'')}"
  "heads outreach_routes = {Some (Lit ''public'')}"
  "heads seller_emails_routes = {Some (Lit ''admin'')}"
  "heads webhook_routes = {Some (Lit ''webhooks'')}"
  "heads streams_routes = {Some (Lit ''streams'')}"
  "heads config_routes = {Some (Lit ''public'')}"
  "heads admin_routes = {Some (Lit ''admin'')}"
  "heads sellers_routes = {Some (Lit ''sellers'')}"
  "heads media_routes = {Some (Lit ''media'')}"
  "heads users_routes = {Some (Lit ''users'')}"
  "heads products_routes = {Some (Lit ''products'')}"
  "heads buyers_routes = {Some (Lit ''buyers'')}"
  "heads categories_routes = {Some (Lit ''categories'')}"
  "heads countries_routes = {Some (Lit ''countries'')}"
  "heads support_routes = {Some (Lit ''support'')}"
  "heads material_types_routes = {Some (Lit ''material-types'')}"
  unfolding route_tables by (simp_all add: heads_def head_of_def rt_def insert_commute)

text \<open>Tables that share a first word are compared route by route.\<close>

lemma table_own:
  "shadow_free app_routes"
  "shadow_free health_routes"
  "shadow_free ratings_routes"
  "shadow_free replacements_routes"
  "shadow_free delhivery_routes"
  "shadow_free payments_routes"
  "shadow_free orders_routes"
  "shadow_free auth_routes"
  "shadow_free invoices_routes"
  "shadow_free outreach_routes"
  "shadow_free seller_emails_routes"
  "shadow_free webhook_routes"
  "shadow_free streams_routes"
  "shadow_free config_routes"
  "shadow_free admin_routes"
  "shadow_free sellers_routes"
  "shadow_free media_routes"
  "shadow_free users_routes"
  "shadow_free products_routes"
  "shadow_free buyers_routes"
  "shadow_free categories_routes"
  "shadow_free countries_routes"
  "shadow_free support_routes"
  "shadow_free material_types_routes"
  unfolding route_tables by (simp_all add: apart_def rt_def)

lemma table_pairs:
  "apart app_routes ratings_routes"
  "apart app_routes replacements_routes"
  "apart app_routes delhivery_routes"
  "apart app_routes seller_emails_routes"
  "apart app_routes admin_routes"
  "apart ratings_routes replacements_routes"
  "apart ratings_routes delhivery_routes"
  "apart ratings_routes seller_emails_routes"
  "apart ratings_routes admin_routes"
  "apart replacements_routes delhivery_routes"
  "apart replacements_routes orders_routes"
  "apart replacements_routes invoices_routes"
  "apart replacements_routes seller_emails_routes"
  "apart replacements_routes admin_routes"
  "apart replacements_routes buyers_routes"
  "apart delhivery_routes seller_emails_routes"
  "apart delhivery_routes admin_routes"
  "apart orders_routes invoices_routes"
  "apart outreach_routes config_routes"
  "apart seller_emails_routes admin_routes"
  unfolding route_tables by (simp_all add: apart_def rt_def)

lemma shadow_free_api: "shadow_free api_routes"
  by (simp add: api_routes_def table_own table_pairs apart_heads table_heads)

end
