(* ===== verification/RouteProperties.thy ===== *)
theory RouteProperties
  imports RouteFacts Sample
begin

text \<open>Every route is reached, and a service is called only for a caller its route admits.\<close>

section \<open>Reaching a route\<close>

definition fill :: "(string \<Rightarrow> string) \<Rightarrow> segment list \<Rightarrow> string list" where
  "fill f = map (\<lambda>s. case s of Lit l \<Rightarrow> l | Par p \<Rightarrow> f p)"

definition bindings :: "(string \<Rightarrow> string) \<Rightarrow> segment list \<Rightarrow> (string \<times> string) list" where
  "bindings f = List.map_filter (\<lambda>s. case s of Lit l \<Rightarrow> None | Par p \<Rightarrow> Some (p, f p))"

text \<open>No parameter is empty or a word of the paths.\<close>

definition plain_values :: "(string \<Rightarrow> string) \<Rightarrow> route list \<Rightarrow> bool" where
  "plain_values f rs \<longleftrightarrow> (\<forall>p. f p \<noteq> [] \<and> (\<forall>r. r \<in> set rs \<longrightarrow> Lit (f p) \<notin> set (rt_path r)))"

lemma match_own: "\<forall>p. f p \<noteq> [] \<Longrightarrow> match_path b (fill f b) = Some (bindings f b)"
proof (induction b)
  case (Cons s b)
  then show ?case by (cases s) (simp_all add: fill_def bindings_def map_filter_simps)
qed (simp add: fill_def bindings_def map_filter_simps)

lemma match_covers: "match_path a (fill f b) = Some ps \<Longrightarrow> \<forall>p. Lit (f p) \<notin> set a \<Longrightarrow> covers a b"
proof (induction a arbitrary: b ps)
  case Nil
  then show ?case by (cases b) (auto simp: fill_def)
next
  case (Cons x a)
  obtain y c where b: "b = y # c" using Cons.prems(1) by (cases b; cases x) (auto simp: fill_def)
  have IH: "match_path a (fill f c) = Some qs \<Longrightarrow> covers a c" for qs using Cons.IH Cons.prems(2) by auto
  show ?case using Cons.prems IH unfolding b by (cases x; cases y) (auto simp: fill_def split: if_splits)
qed

lemma resolve_reached:
  "shadow_free rs \<Longrightarrow> r \<in> set rs \<Longrightarrow> plain_values f rs \<Longrightarrow>
   resolve rs (rt_method r) (fill f (rt_path r)) = Some (r, bindings f (rt_path r))"
proof (induction rs)
  case (Cons x rs)
  have v: "\<forall>p. f p \<noteq> []" "\<forall>p. Lit (f p) \<notin> set (rt_path x)" "plain_values f rs"
    using Cons.prems(3) by (auto simp: plain_values_def)
  show ?case
  proof (cases "x = r")
    case True
    then show ?thesis by (simp add: match_own[OF v(1)])
  next
    case False
    then have r: "r \<in> set rs" using Cons.prems(2) by simp
    then have "rt_method x = rt_method r \<Longrightarrow> \<not> covers (rt_path x) (rt_path r)"
      using Cons.prems(1) by (auto simp: apart_def list_all_iff)
    then have "rt_method x = rt_method r \<Longrightarrow> match_path (rt_path x) (fill f (rt_path r)) = None"
      using match_covers[OF _ v(2)] by (cases "match_path (rt_path x) (fill f (rt_path r))") auto
    then show ?thesis using Cons.IH r v(3) Cons.prems(1) by simp
  qed
qed simp

text \<open>
  C39: None of the 162 routes is hidden by one that is registered before it: a request with the method and the
  path of a route, its parameters filled with any values that are not themselves words of the paths, is served by
  that route, with these values as its parameters.
\<close>

theorem every_route_reached:
  assumes "r \<in> set api_routes" "plain_values f api_routes"
  shows "resolve api_routes (rt_method r) (fill f (rt_path r)) = Some (r, bindings f (rt_path r))"
  by (rule resolve_reached[OF shadow_free_api assms])

definition accept_route :: route where
  "accept_route = rt PATCH [Lit ''orders'', Par ''id'', Lit ''accept''] selling ''OrdersService.acceptOrder'' [Param ''id'', UserId]"

lemma accept_in_api: "accept_route \<in> set api_routes"
  by (simp add: api_routes_def orders_routes_def accept_route_def)

lemma plain_example: "plain_values (\<lambda>_. ''o7'') api_routes"
proof -
  have "list_all (\<lambda>r. list_all (\<lambda>s. s \<noteq> Lit ''o7'') (rt_path r)) api_routes"
    unfolding api_routes_def list_all_append route_tables by (simp add: rt_def)
  then show ?thesis by (fastforce simp: plain_values_def list_all_iff)
qed

theorem every_route_reached_witness:
  "resolve api_routes PATCH [''orders'', ''o7'', ''accept''] = Some (accept_route, [(''id'', ''o7'')])"
  using every_route_reached[OF accept_in_api plain_example]
  by (simp add: fill_def bindings_def map_filter_simps accept_route_def rt_def)

section \<open>Who may call\<close>

definition caller :: "auth_env \<Rightarrow> world \<Rightarrow> string option \<Rightarrow> user_row option" where
  "caller env w token =
     Option.bind token (\<lambda>t. Option.bind (ae_verify env (dflt [] (ae_cfg env ''JWT_SECRET'')) (clock w) t)
       (\<lambda>c. tget (users w) (cl_sub c)))"

definition first_word :: "route \<Rightarrow> string" where
  "first_word r = (case rt_path r of Lit l # _ \<Rightarrow> l | _ \<Rightarrow> [])"

text \<open>Routes that anyone may call: accounts, the signed webhook, and pages and listings that name no user.\<close>

definition open_to_all :: "route \<Rightarrow> bool" where
  "open_to_all r \<longleftrightarrow> first_word r \<in> {''webhooks''} \<or> first_word r = ''auth'' \<and> rt_method r = POST \<or>
     rt_method r = GET \<and> UserId \<notin> set (rt_args r) \<and>
       (rt_path r = [] \<or> rt_path r = [Lit ''admin'', Lit ''seller-emails''] \<or>
        rt_path r = [Lit ''buyers'', Lit ''sellers'', Par ''sellerId'', Lit ''public-profile''] \<or>
        first_word r \<in> {''viewer'', ''health'', ''invoices'', ''public'', ''streams'', ''users'', ''products'',
          ''categories'', ''countries'', ''support'', ''material-types''})"

definition for_admins :: "route \<Rightarrow> bool" where
  "for_admins r \<longleftrightarrow> first_word r = ''admin'' \<and> rt_path r \<noteq> [Lit ''admin'', Lit ''seller-emails'']"

text \<open>Selling: the catalogue, broadcasts, and the seller's side of orders.\<close>

definition for_verified_sellers :: "route \<Rightarrow> bool" where
  "for_verified_sellers r \<longleftrightarrow>
     first_word r = ''products'' \<and> rt_method r \<noteq> GET \<or>
     first_word r = ''streams'' \<and> (rt_method r \<in> {PATCH, DELETE} \<or>
        rt_method r = POST \<and> (length (rt_path r) = 1 \<or> last (rt_path r) \<in> {Lit ''schedule'', Lit ''start-scheduled''})) \<or>
     first_word r \<in> {''orders'', ''replacements''} \<and> rt_path r \<noteq> [] \<and>
        last (rt_path r) \<in> {Lit ''seller'', Lit ''counts'', Lit ''seller-detail'', Lit ''accept'', Lit ''packing-video'',
          Lit ''request-delivery'', Lit ''delivery-status'', Lit ''ship'', Lit ''deliver''}"

definition for_sellers :: "route \<Rightarrow> bool" where
  "for_sellers r \<longleftrightarrow> first_word r = ''sellers''"

definition for_buyers :: "route \<Rightarrow> bool" where
  "for_buyers r \<longleftrightarrow> first_word r = ''payments'' \<or>
     (case rt_path r of Lit l # Lit m # _ \<Rightarrow> l = ''orders'' \<and> m \<in> {''cart'', ''checkout'', ''delivery-quote'', ''recent''} | _ \<Rightarrow> False) \<or>
     first_word r = ''orders'' \<and> rt_path r \<noteq> [] \<and> last (rt_path r) \<in> {Lit ''cancel'', Lit ''return'', Lit ''invoice'', Lit ''buyer-detail''}"

definition is_buyer :: "world \<Rightarrow> user_row \<Rightarrow> bool" where
  "is_buyer w u \<longleftrightarrow> BUYER \<in> set (u_roles u) \<or> SELLER \<in> set (u_roles u) \<or> buyer_of_user w (u_id u) \<noteq> None"

definition is_verified_seller :: "world \<Rightarrow> user_row \<Rightarrow> bool" where
  "is_verified_seller w u \<longleftrightarrow> SELLER \<in> set (u_roles u) \<and>
     map_option s_status (seller_of_user w (u_id u)) = Some VS_VERIFIED"

definition entitled :: "world \<Rightarrow> route \<Rightarrow> user_row option \<Rightarrow> bool" where
  "entitled w r user = (case user of
     None \<Rightarrow> open_to_all r
   | Some u \<Rightarrow>
       (if for_admins r then ADMIN \<in> set (u_roles u) else True) \<and>
       (if for_verified_sellers r then is_verified_seller w u else True) \<and>
       (if for_sellers r then SELLER \<in> set (u_roles u) else True) \<and>
       (if for_buyers r then is_buyer w u else True))"

text \<open>The guards that a place in the interface asks for.\<close>

definition guards_fit :: "route \<Rightarrow> bool" where
  "guards_fit r \<longleftrightarrow>
     (if rt_guards r = [] then open_to_all r else hd (rt_guards r) = JwtAuth) \<and>
     (if for_admins r then rt_guards r = administering else True) \<and>
     (if for_verified_sellers r then rt_guards r = selling else True) \<and>
     (if for_sellers r then rt_guards r \<in> {selling, onboarding, selling_unverified} else True) \<and>
     (if for_buyers r then rt_guards r = buying else True) \<and>
     rt_guards r \<in> {[], [JwtAuth], buying, selling, onboarding, selling_unverified, administering}"

lemma tables_fit: "list_all guards_fit api_routes"
  unfolding api_routes_def list_all_append route_tables
  by (simp add: guards_fit_def open_to_all_def for_admins_def for_verified_sellers_def for_sellers_def for_buyers_def
      first_word_def rt_def)

lemma fits: "r \<in> set api_routes \<Longrightarrow> guards_fit r"
  using tables_fit by (simp add: list_all_iff)

text \<open>What the guards establish when they let a caller through.\<close>

lemma wp_jwt_guard:
  "wp (jwt_guard env token) Q w =
     (case caller env w token of None \<Rightarrow> Q (Inl unauthorized) w | Some u \<Rightarrow> Q (Inr (Some u)) w)"
  by (simp add: jwt_guard_def caller_def wp_simps jwt_validate_def unauthorized_def split: option.split)

lemma wp_decide_guard:
  "wp (decide_guard d user) Q w = (case d of Inl e \<Rightarrow> Q (Inl e) w
     | Inr ok \<Rightarrow> if ok then Q (Inr user) w else Q (Inl (Forbidden ''Forbidden resource'')) w)"
  by (simp add: decide_guard_def wp_simps split: sum.split)

definition let_in :: "guard \<Rightarrow> world \<Rightarrow> user_row \<Rightarrow> bool" where
  "let_in g w u = (case g of JwtAuth \<Rightarrow> True | BuyerAccess \<Rightarrow> is_buyer w u
     | RolesAre rs \<Rightarrow> list_ex (\<lambda>r. r \<in> set rs) (u_roles u)
     | SellerVerified skip \<Rightarrow> (if skip \<or> SELLER \<notin> set (u_roles u) then True else is_verified_seller w u))"

lemma wp_run_guards:
  "JwtAuth \<notin> set gs \<Longrightarrow> (\<And>e. Q (Inl e) w) \<Longrightarrow> (list_all (\<lambda>g. let_in g w u) gs \<Longrightarrow> Q (Inr (Some u)) w) \<Longrightarrow>
   wp (run_guards env token gs (Some u)) Q w"
proof (induction gs)
  case (Cons g gs)
  then show ?case
    by (cases g) (auto simp: wp_simps wp_decide_guard buyer_access_guard_def roles_guard_def seller_verified_guard_def
        let_in_def is_buyer_def is_verified_seller_def split: option.splits sum.splits if_splits)
qed (simp add: wp_simps)

lemma entitled_open: "guards_fit r \<Longrightarrow> rt_guards r = [] \<Longrightarrow> entitled w r None"
  by (simp add: guards_fit_def entitled_def)

lemma entitled_guarded:
  "guards_fit r \<Longrightarrow> rt_guards r = JwtAuth # gs \<Longrightarrow> list_all (\<lambda>g. let_in g w u) gs \<Longrightarrow> entitled w r (Some u)"
  by (auto simp: guards_fit_def entitled_def let_in_def list_ex_iff split: if_splits)

lemma resolve_in: "resolve rs m path = Some (r, ps) \<Longrightarrow> r \<in> set rs \<and> rt_method r = m \<and> match_path (rt_path r) path = Some ps"
  by (induction rs) (auto split: if_splits option.splits)

text \<open>
  C9: A service method runs only for a caller that its route admits. Without a valid token of an existing
  account that means: accounts (auth), the webhook and reading public listings and pages; a route that acts for a
  user, or writes anything else, refuses such a request, and a refusal changes nothing. Everything under admin
  needs an administrator (but the static page of the mail tool), products, broadcasts and the seller's side of
  orders and replacements need a verified seller, everything under sellers a seller, and payments, carts and the
  buyer's side of orders someone who may buy. The user handed to the service is the one of the token.
\<close>

theorem calls_authorised:
  "wp (serve env perform q) (\<lambda>res w'.
     (w' = w \<and> (\<exists>e. res = Inl e)) \<or>
     (\<exists>r ps user. r \<in> set api_routes \<and> rt_method r = rq_method q \<and> match_path (rt_path r) (rq_path q) = Some ps \<and>
        entitled w r user \<and> user \<in> {None, caller env w (rq_token q)} \<and> perform r ps user w = (res, w'))) w"
proof (cases "resolve api_routes (rq_method q) (rq_path q)")
  case None
  then show ?thesis by (simp add: serve_def wp_simps)
next
  case (Some rp)
  obtain r ps where rp: "rp = (r, ps)" by force
  from resolve_in[OF Some[unfolded rp]] have r: "r \<in> set api_routes" "rt_method r = rq_method q"
    "match_path (rt_path r) (rq_path q) = Some ps" by auto
  note fit = fits[OF r(1)]
  show ?thesis
  proof (cases "rt_guards r")
    case Nil
    show ?thesis unfolding serve_def Some rp option.case prod.case Nil run_guards.simps wp_bind wp_ret on_ok_simps
      using r entitled_open[OF fit Nil, of w] unfolding wp_def by (cases "perform r ps None w") (simp, blast)
  next
    case (Cons g gs)
    then have g: "g = JwtAuth" "JwtAuth \<notin> set gs" using fit by (auto simp: guards_fit_def split: if_splits)
    show ?thesis
    proof (cases "caller env w (rq_token q)")
      case None
      then show ?thesis by (simp add: serve_def Some rp Cons g wp_simps wp_jwt_guard)
    next
      case u: (Some u)
      show ?thesis unfolding serve_def Some rp option.case prod.case Cons g run_guards.simps run_guard.simps
          wp_bind wp_jwt_guard u on_ok_simps
        using r entitled_guarded[OF fit Cons[unfolded g]] u
        by (intro wp_run_guards[OF g(2)]; cases "perform r ps (Some u) w") (simp, (simp add: wp_def, blast)+)
    qed
  qed
qed

definition visit :: "route \<Rightarrow> (string \<times> string) list \<Rightarrow> user_row option \<Rightarrow> string handler" where
  "visit r ps user = ret (rt_service r)"

definition open_env :: auth_env where
  "open_env = \<lparr>ae_cfg = (\<lambda>_. None), ae_hash = (\<lambda>s p. s @ p), ae_compare = (\<lambda>p h. h = ''00'' @ p),
     ae_sign = (\<lambda>_ _ c. cl_sub c), ae_verify = (\<lambda>_ _ t. Some \<lparr>cl_sub = t, cl_email = [], cl_roles = [], cl_jti = None\<rparr>)\<rparr>"

definition accept_request :: "string option \<Rightarrow> http_request" where
  "accept_request token = \<lparr>rq_method = PATCH, rq_path = [''orders'', ''o7'', ''accept''], rq_token = token\<rparr>"

text \<open>The verified seller of the sample data reaches the service, a buyer is refused.\<close>

lemma seller_accepts: "wp (serve open_env visit (accept_request (Some ''u2''))) (\<lambda>r w'. r = Inr ''OrdersService.acceptOrder'') sample"
  using every_route_reached_witness
  by (simp add: serve_def accept_request_def accept_route_def rt_def wp_simps wp_jwt_guard wp_decide_guard caller_def
      open_env_def visit_def roles_guard_def seller_verified_guard_def seller_of_user_def sample_def tget_def tfirst_def trows_def)

lemma buyer_refused: "wp (serve open_env visit (accept_request (Some ''u1''))) (\<lambda>r w'. r = Inl no_permission) sample"
  using every_route_reached_witness
  by (simp add: serve_def accept_request_def accept_route_def rt_def wp_simps wp_jwt_guard wp_decide_guard caller_def
      open_env_def visit_def roles_guard_def sample_def tget_def)

theorem calls_authorised_witness:
  "wp (serve open_env visit (accept_request (Some ''u2''))) (\<lambda>res w'. res = Inr ''OrdersService.acceptOrder'' \<and> w' = sample \<and>
     (\<exists>r user. r \<in> set api_routes \<and> entitled sample r user \<and> rt_service r = ''OrdersService.acceptOrder'')) sample"
  by (rule wp_mono[OF iffD2[OF wp_conj conjI[OF seller_accepts
        calls_authorised[of open_env visit "accept_request (Some ''u2'')" sample]]]])
    (auto simp: visit_def ret_def)

end
