(* ===== verification/Environment.thy ===== *)
theory Environment
  imports Auth
begin

text \<open>
  The settings the server starts with, src/src/env.validation.ts: the schema that the environment must satisfy, and
  the settings that the services read, with the defaults filled in. A server whose environment breaks the schema
  does not start. What counts as a URI, an e-mail address, a number or a boolean is decided by the validation library, the
  parameter \<open>joi\<close>; a text must not be empty.
\<close>

section \<open>The schema\<close>

datatype setting_type = AnyText | LongText nat | OneOf "string list" | UriText | EmailText | NumberText | BooleanText

record setting_rule =
  sr_key :: string
  sr_type :: setting_type
  sr_required :: bool
  sr_default :: "string option"

definition optional_setting :: "string \<Rightarrow> setting_type \<Rightarrow> setting_rule" where
  "optional_setting k t = \<lparr> sr_key = k, sr_type = t, sr_required = False, sr_default = None \<rparr>"

definition setting_default :: "string \<Rightarrow> setting_type \<Rightarrow> string \<Rightarrow> setting_rule" where
  "setting_default k t d = \<lparr> sr_key = k, sr_type = t, sr_required = False, sr_default = Some d \<rparr>"

definition required_setting :: "string \<Rightarrow> nat \<Rightarrow> setting_rule" where
  "required_setting k n = \<lparr> sr_key = k, sr_type = LongText n, sr_required = True, sr_default = None \<rparr>"

definition envValidationSchema :: "setting_rule list" where
  "envValidationSchema =
     [setting_default ''NODE_ENV'' (OneOf [''development'', ''production'', ''test'']) ''development'',
      optional_setting ''OTP_ENV'' (OneOf [''testing'', ''production'']),
      optional_setting ''ANDROID_SMS_APP_HASH'' AnyText, optional_setting ''FAST2SMS_API_KEY'' AnyText,
      setting_default ''FAST2SMS_ROUTE'' AnyText ''q'', optional_setting ''FAST2SMS_SENDER_ID'' AnyText,
      optional_setting ''FAST2SMS_DLT_MSG_ID_LOGIN'' AnyText,
      optional_setting ''FAST2SMS_DLT_MSG_ID_BUYER_SIGNUP'' AnyText,
      optional_setting ''FAST2SMS_DLT_MSG_ID_SELLER_SIGNUP'' AnyText,
      optional_setting ''FAST2SMS_DLT_MSG_ID_FORGOT_PASSWORD'' AnyText,
      setting_default ''FAST2SMS_ENDPOINT'' UriText ''https://www.fast2sms.com/dev/bulkV2'',
      setting_default ''PORT'' NumberText ''3000'',
      required_setting ''DATABASE_URL'' 0, optional_setting ''DIRECT_URL'' AnyText,
      required_setting ''JWT_SECRET'' 16, optional_setting ''JWT_REFRESH_SECRET'' (LongText 16),
      setting_default ''JWT_EXPIRES_IN'' AnyText ''7d'',
      setting_default ''JWT_REFRESH_EXPIRES_IN'' AnyText ''30d'', optional_setting ''REDIS_URL'' AnyText,
      optional_setting ''REDIS_HOST'' AnyText, optional_setting ''REDIS_PORT'' NumberText,
      optional_setting ''CORS_ORIGIN'' AnyText,
      setting_default ''USE_REAL_IVS'' (OneOf [''true'', ''false'']) ''false'',
      optional_setting ''AWS_REGION'' AnyText, optional_setting ''AWS_ACCESS_KEY_ID'' AnyText,
      optional_setting ''AWS_SECRET_ACCESS_KEY'' AnyText, optional_setting ''LIVEKIT_URL'' UriText,
      optional_setting ''LIVEKIT_API_KEY'' AnyText, optional_setting ''LIVEKIT_API_SECRET'' AnyText,
      optional_setting ''SUPABASE_URL'' UriText, optional_setting ''SUPABASE_SERVICE_ROLE_KEY'' AnyText,
      optional_setting ''SUPABASE_PUBLIC_BUCKET'' AnyText,
      optional_setting ''CLEANUP_REPLAYS_ENABLED'' (OneOf [''true'', ''false'', ''1'', ''0'']),
      optional_setting ''LIVEKIT_RECORDING_USE_SUPABASE'' (OneOf [''true'', ''false'', ''1'', ''0'']),
      optional_setting ''LIVEKIT_RECORDING_S3_BUCKET'' AnyText,
      optional_setting ''LIVEKIT_RECORDING_S3_REGION'' AnyText,
      optional_setting ''LIVEKIT_RECORDING_S3_ACCESS_KEY'' AnyText,
      optional_setting ''LIVEKIT_RECORDING_S3_SECRET'' AnyText,
      optional_setting ''LIVEKIT_RECORDING_S3_ENDPOINT'' AnyText,
      optional_setting ''LIVEKIT_RECORDING_S3_FORCE_PATH_STYLE'' (OneOf [''true'', ''false'', ''1'', ''0'']),
      optional_setting ''LIVEKIT_WEBHOOK_SKIP_VERIFY'' (OneOf [''true'', ''false'', ''1'', ''0'']),
      optional_setting ''SUPPORT_ACCOUNT_MANAGER_NAME'' AnyText,
      optional_setting ''SUPPORT_ACCOUNT_MANAGER_PHONE'' AnyText,
      optional_setting ''SUPPORT_ACCOUNT_MANAGER_EMAIL'' AnyText,
      optional_setting ''SUPPORT_ESCALATION_LEVELS_JSON'' AnyText, optional_setting ''RESEND_API_KEY'' AnyText,
      optional_setting ''MAIL_HOST'' AnyText, optional_setting ''MAIL_PORT'' NumberText,
      optional_setting ''MAIL_SECURE'' BooleanText, optional_setting ''MAIL_USER'' AnyText,
      optional_setting ''MAIL_PASS'' AnyText, optional_setting ''MAIL_FROM'' AnyText,
      optional_setting ''NOREPLY_EMAIL'' EmailText, optional_setting ''SUPPORT_EMAIL'' EmailText,
      optional_setting ''CONTACT_EMAIL'' EmailText, optional_setting ''ALPHA_LOGO_URL'' UriText,
      optional_setting ''ALPHA_WEBSITE_URL'' UriText, optional_setting ''ALPHA_COMPANY_LEGAL_NAME'' AnyText,
      optional_setting ''VYBEKART_TRADE_NAME'' AnyText, optional_setting ''VYBEKART_LEGAL_NAME'' AnyText,
      optional_setting ''VYBEKART_PLATFORM_BRAND'' AnyText, optional_setting ''VYBEKART_PAN'' AnyText,
      optional_setting ''VYBEKART_CONTACT_EMAIL'' AnyText,
      optional_setting ''VYBEKART_REGISTERED_OFFICE'' AnyText,
      optional_setting ''VYBEKART_PLATFORM_GSTIN'' AnyText,
      optional_setting ''RESEND_INSECURE_TLS'' (OneOf [''true'', ''false'', ''1'', ''0'']),
      optional_setting ''SELLER_OUTREACH_INTEREST_SECRET'' AnyText, optional_setting ''CEO_NAME'' AnyText,
      optional_setting ''CEO_EMAIL'' EmailText, optional_setting ''CEO_PHONE'' AnyText,
      optional_setting ''SELLER_OUTREACH_FROM'' AnyText,
      optional_setting ''SELLER_OUTREACH_INTEREST_TO'' EmailText, optional_setting ''APP_DOWNLOAD_URL'' UriText,
      optional_setting ''SELLER_EMAIL_SEND_DELAY_MS'' AnyText,
      optional_setting ''SELLER_INTRO_IMAGE_URL'' UriText, optional_setting ''SELLER_STEPS_IMAGE_URL'' UriText,
      optional_setting ''FIREBASE_SERVICE_ACCOUNT_JSON'' AnyText,
      setting_default ''DAILY_USERS_REPORT_ENABLED'' (OneOf [''true'', ''false'', ''1'', ''0'']) ''true'',
      optional_setting ''DAILY_USERS_REPORT_TO'' EmailText,
      setting_default ''DAILY_DB_BACKUP_ENABLED'' (OneOf [''true'', ''false'', ''1'', ''0'']) ''true'',
      optional_setting ''DAILY_DB_BACKUP_TO'' EmailText,
      setting_default ''DELHIVERY_ENV'' (OneOf [''staging'', ''prod'']) ''staging'',
      optional_setting ''DELHIVERY_API_TOKEN_STAGING'' AnyText,
      optional_setting ''DELHIVERY_API_TOKEN_PROD'' AnyText, optional_setting ''DELHIVERY_CLIENT_NAME'' AnyText,
      optional_setting ''DELHIVERY_PICKUP_LOCATION'' AnyText,
      optional_setting ''DELHIVERY_AUTO_PICKUP_REQUEST'' (OneOf [''true'', ''false'', ''1'', ''0'', ''yes'', ''no'']),
      optional_setting ''DELHIVERY_PICKUP_TIME'' AnyText, optional_setting ''RAZORPAY_KEY_ID'' AnyText,
      optional_setting ''RAZORPAY_KEY_SECRET'' AnyText,
      optional_setting ''PAYMENTS_ALLOW_DIRECT_CHECKOUT'' (OneOf [''true'', ''false'', ''1'', ''0''])]"

section \<open>Validation\<close>

definition setting_ok :: "(setting_type \<Rightarrow> string \<Rightarrow> bool) \<Rightarrow> setting_type \<Rightarrow> string \<Rightarrow> bool" where
  "setting_ok joi t v \<longleftrightarrow> v \<noteq> [] \<and>
     (case t of AnyText \<Rightarrow> True | LongText n \<Rightarrow> n \<le> length v | OneOf vs \<Rightarrow> v \<in> set vs | _ \<Rightarrow> joi t v)"

definition rule_ok :: "(setting_type \<Rightarrow> string \<Rightarrow> bool) \<Rightarrow> environment \<Rightarrow> setting_rule \<Rightarrow> bool" where
  "rule_ok joi cfg r \<longleftrightarrow> (case cfg (sr_key r) of
     None \<Rightarrow> \<not> sr_required r
   | Some v \<Rightarrow> setting_ok joi (sr_type r) v)"

definition schema_default :: "string \<Rightarrow> string option" where
  "schema_default k = Option.bind (find (\<lambda>r. sr_key r = k) envValidationSchema) sr_default"

text \<open>The default of \<open>OTP_ENV\<close> depends on \<open>NODE_ENV\<close>.\<close>

definition filled_in :: "environment \<Rightarrow> environment" where
  "filled_in cfg k =
     (case cfg k of Some v \<Rightarrow> Some v
      | None \<Rightarrow> if k = ''OTP_ENV''
          then Some (if cfg ''NODE_ENV'' = Some ''production'' then ''production'' else ''testing'')
          else schema_default k)"

definition validated_env :: "(setting_type \<Rightarrow> string \<Rightarrow> bool) \<Rightarrow> environment \<Rightarrow> environment option" where
  "validated_env joi cfg =
     (if list_all (rule_ok joi cfg) envValidationSchema then Some (filled_in cfg) else None)"

section \<open>What a started server has\<close>

lemma rule_of: "validated_env joi cfg = Some env \<Longrightarrow> r \<in> set envValidationSchema \<Longrightarrow> rule_ok joi cfg r"
  by (simp add: validated_env_def list_all_iff split: if_splits)

lemma in_schema:
  "required_setting ''JWT_SECRET'' 16 \<in> set envValidationSchema"
  "optional_setting ''OTP_ENV'' (OneOf [''testing'', ''production'']) \<in> set envValidationSchema"
  by (simp_all add: envValidationSchema_def)

lemma secret_long:
  assumes "validated_env joi cfg = Some env"
  shows "\<exists>s. env ''JWT_SECRET'' = Some s \<and> 16 \<le> length s"
  using rule_of[OF assms in_schema(1)] assms
  by (auto simp: rule_ok_def required_setting_def setting_ok_def validated_env_def filled_in_def
      split: option.splits if_splits)

text \<open>The fixed code opens accounts exactly where \<open>OTP_ENV\<close> or its default says so; a misspelt value does not start.\<close>

lemma otp_mode:
  assumes "validated_env joi cfg = Some env"
  shows "otpEnv env = PRODUCTION \<longleftrightarrow> cfg ''OTP_ENV'' = Some ''production'' \<or>
    cfg ''OTP_ENV'' = None \<and> cfg ''NODE_ENV'' = Some ''production''"
proof -
  have e: "env = filled_in cfg" using assms by (simp add: validated_env_def split: if_splits)
  have "cfg ''OTP_ENV'' \<in> {None, Some ''testing'', Some ''production''}"
    using rule_of[OF assms in_schema(2)]
    by (auto simp: rule_ok_def optional_setting_def setting_ok_def split: option.splits)
  then show ?thesis unfolding e
    by (auto simp: otpEnv_def filled_in_def str_or_def nonempty_def trim_def is_space_def split: option.splits)
qed

end
