(* ===== verification/Uploads.thy ===== *)
theory Uploads
  imports Storage
begin

text \<open>
  Uploads of pictures, src/src/media/media.controller.ts: products by sellers and replacement photos by buyers.
  The pictures go to object storage one after the other; what \<open>Math.random\<close> adds to their names is the argument
  \<open>rand\<close>, one text per picture. The first picture that is refused ends the request; those before it are stored.
\<close>

record picture =
  pc_mimetype :: "string option"
  pc_bytes :: string

definition mime_of :: "picture \<Rightarrow> string" where
  "mime_of f = to_lower (str_or (pc_mimetype f) [])"

definition product_ext :: "string \<Rightarrow> string" where
  "product_ext mime = (if str_includes mime ''png'' then ''.png''
     else if str_includes mime ''webp'' then ''.webp''
     else if str_includes mime ''gif'' then ''.gif'' else ''.jpg'')"

definition photo_ext :: "string \<Rightarrow> string" where
  "photo_ext mime = (if str_includes mime ''png'' then ''.png''
     else if str_includes mime ''webp'' then ''.webp'' else ''.jpg'')"

definition picture_key :: "string \<Rightarrow> string \<Rightarrow> int \<Rightarrow> string \<Rightarrow> string \<Rightarrow> string" where
  "picture_key folder uid now r ext =
     ''vybekart-images/'' @ folder @ ''/'' @ uid @ ''/img-'' @ int_digits now @ ''-'' @ r @ ext"

fun upload_pictures ::
    "supabase \<Rightarrow> string \<Rightarrow> (string \<Rightarrow> string) \<Rightarrow> string \<Rightarrow> int \<Rightarrow> (nat \<Rightarrow> string) \<Rightarrow> nat \<Rightarrow> picture list \<Rightarrow> exn + string list" where
  "upload_pictures sb folder ext uid now rand n [] = Inr []"
| "upload_pictures sb folder ext uid now rand n (f # fs) =
     (if \<not> starts_with ''image/'' (mime_of f) then Inl (BadRequest ''Only image uploads are allowed'')
      else case uploadPublicObject sb (publicBucket sb) (picture_key folder uid now (rand n) (ext (mime_of f)))
          (mime_of f) (pc_bytes f) of
        Inl e \<Rightarrow> Inl e
      | Inr url \<Rightarrow> (case upload_pictures sb folder ext uid now rand (Suc n) fs of
          Inl e \<Rightarrow> Inl e | Inr urls \<Rightarrow> Inr (url # urls)))"

definition uploadImages :: "supabase \<Rightarrow> int \<Rightarrow> (nat \<Rightarrow> string) \<Rightarrow> string \<Rightarrow> picture list \<Rightarrow> exn + string list" where
  "uploadImages sb now rand uid fs =
     (if fs = [] then Inl (BadRequest ''No images uploaded'')
      else upload_pictures sb ''products'' product_ext uid now rand 0 fs)"

definition uploadBuyerImages :: "supabase \<Rightarrow> int \<Rightarrow> (nat \<Rightarrow> string) \<Rightarrow> string \<Rightarrow> picture list \<Rightarrow> exn + string list" where
  "uploadBuyerImages sb now rand uid fs =
     (if fs = [] then Inl (BadRequest ''No images uploaded'')
      else upload_pictures sb ''replacements'' photo_ext uid now rand 0 fs)"

text \<open>An answer has one address per picture, and only pictures were accepted.\<close>

lemma upload_pictures_all:
  "upload_pictures sb folder ext uid now rand n fs = Inr urls \<Longrightarrow>
   length urls = length fs \<and> list_all (\<lambda>f. starts_with ''image/'' (mime_of f)) fs"
  by (induction fs arbitrary: n urls) (auto split: if_splits sum.splits)

lemma uploaded_images:
  "uploadImages sb now rand uid fs = Inr urls \<or> uploadBuyerImages sb now rand uid fs = Inr urls \<Longrightarrow>
   urls \<noteq> [] \<and> length urls = length fs \<and> list_all (\<lambda>f. starts_with ''image/'' (mime_of f)) fs"
  using upload_pictures_all by (fastforce simp: uploadImages_def uploadBuyerImages_def split: if_splits)

end
