(* ===== verification/Spec2Isabelle.thy ===== *)
theory Spec2Isabelle
  imports CheckoutProperties OrderProperties CartProperties CatalogueProperties ReplacementProperties
    AccountProperties StreamProperties SellerProperties Buyers Admin Listings Support Outreach
    InvoiceProperties Delhivery RouteProperties Environment Uploads
begin

text \<open>
  The Vybekart backend (src/src): live-stream shopping over NestJS services, a PostgreSQL database
  reached through Prisma, and Redis. A seller goes live and shows products, viewers fill a cart that lives as
  long as the stream, pay through Razorpay and get an order, which the seller packs and ships with Delhivery;
  delivered orders can be invoiced, rated and replaced.

  \<^bold>\<open>How the model is built.\<close> A service method is a handler: a function from the state \<open>world\<close> to a
  result and a state (\<open>Prelude\<close>). A thrown exception is the value \<open>Inl e\<close> and comes with the state at
  the throw, since a write before an exception is not undone; \<open>prisma.$transaction\<close> is \<open>atomic\<close>. \<open>wp\<close>
  is the weakest precondition of a handler; its equations let \<open>simp\<close> walk through one, and \<open>keeps\<close>
  collects the rules for invariants. One request runs to its end before the next: sequences of
  requests are folds over lists of operations (\<open>run_order_ops\<close>, \<open>run_cart_ops\<close>, \<open>run_repl_ops\<close>,
  \<open>run_auth_ops\<close>, \<open>run_stream_ops\<close>, \<open>run_viewer_ops\<close>, \<open>run_seller_ops\<close>), and interleavings inside one
  request are not modelled.

  \<^bold>\<open>Foundations.\<close>
  \<^item> \<open>Prelude\<close>: exceptions, handlers, weakest preconditions, invariants.
  \<^item> \<open>Tables\<close>: database tables as association lists keyed by primary key, with the laws of lookup,
    insert, update and delete.
  \<^item> \<open>JsNumber\<close>: the numbers of JavaScript as rationals rounded to 53 bits after every operation (no
    overflow to infinity and no NaN; where the code can produce NaN the model returns \<open>None\<close>).
  \<^item> \<open>Json\<close>, \<open>Text\<close>, \<open>Calendar\<close>, \<open>Paging\<close>: JSON values and the coercions of JavaScript, texts and the patterns
    of the data-transfer objects, the calendar behind \<open>Date.UTC\<close>, and pages of a list.
  \<^item> \<open>Redis\<close> (src/src/redis/redis.service.ts): texts and sets with a time to live.
  \<^item> \<open>World\<close> (src/prisma/schema.prisma): the rows and the state that all services share. Mails, pushes and
    files written are entries of the state.

  \<^bold>\<open>Buying.\<close>
  \<^item> \<open>Variants\<close>, \<open>Listings\<close> (src/src/products, src/src/categories): the JSON column of a product's variants, and the
    catalogue as sellers maintain it.
  \<^item> \<open>Cart\<close>, \<open>Stock\<close>, \<open>Checkout\<close>, \<open>Shipping\<close>, \<open>Orders\<close>, \<open>OrderViews\<close>, \<open>OrderQueries\<close> (src/src/orders): the cart of
    a live stream; stock movements; validation, creation and checkout; booking a shipment; the life of an order;
    what is shown of it; lists and counts.
  \<^item> \<open>Payments\<close> (src/src/payments/payments.service.ts): opening a payment, verifying it, refunds, and
    the balance of a replacement.
  \<^item> \<open>Delhivery\<close> (src/src/delhivery/delhivery.service.ts): the carrier's client, which is an instance of the shipping
    API that orders are stated over.
  \<^item> \<open>Ratings\<close> (src/src/ratings), \<open>Replacements\<close> (src/src/replacements): scores, overrides and the commission
    waiver; requests for replacements, their review and fulfilment.
  \<^item> \<open>InvoiceTax\<close>, \<open>Invoices\<close> (src/src/invoices, src/src/company): the tax inside an amount, amounts in words,
    numbers and pages of tax invoices.

  \<^bold>\<open>Broadcasting.\<close>
  \<^item> \<open>LiveKit\<close>, \<open>Broadcast\<close>, \<open>Storage\<close>, \<open>Uploads\<close> (src/src/livekit, src/src/notifications, src/src/storage, src/src/media):
    media server, pushes and SMS, object storage with the sweep of old recordings, uploads of pictures.
  \<^item> \<open>Streams\<close>, \<open>Engagement\<close> (src/src/streams, src/src/webhooks): scheduling, going live, ending, recordings and
    sweeps; likes, comments, bids, following and socket events.

  \<^bold>\<open>Accounts and desks.\<close>
  \<^item> \<open>Accounts\<close>, \<open>Auth\<close> (src/src/auth): data-transfer objects, log-in, refresh, one-time codes, registration, guards.
  \<^item> \<open>Routes\<close> (every controller and src/src/app.module.ts): the routes with their guards and the calls they make, and
    how a request is resolved and admitted. \<open>Environment\<close> (src/src/env.validation.ts): the settings a server starts with,
    and when the fixed one-time code is accepted.
  \<^item> \<open>Buyers\<close>, \<open>SellerReview\<close>, \<open>SellerDesk\<close>, \<open>Pricing\<close>, \<open>Admin\<close> (src/src/buyers, src/src/sellers, src/src/pricing,
    src/src/admin, src/src/users, src/src/app-config): the pages of buyers, sellers and administrators.
  \<^item> \<open>Mail\<close>, \<open>Support\<close>, \<open>SellerCsv\<close>, \<open>Outreach\<close> (src/src/mail, src/src/support, src/src/seller-emails,
    src/src/seller-outreach, src/src/reports): mails, tickets, uploaded lists of sellers, signed links, the daily report.

  \<^bold>\<open>What is shown.\<close> \<open>CheckoutFacts\<close>, \<open>PaymentFacts\<close>, \<open>PaymentLiveness\<close>, \<open>ReplacementFacts\<close>, \<open>AuthFacts\<close>,
  \<open>StreamFacts\<close>, \<open>EngagementFacts\<close>, \<open>InvoiceFacts\<close> and \<open>RouteFacts\<close> hold the postconditions of the large handlers and
  the invariants.
  \<^item> \<open>CheckoutProperties\<close>: payments are settled once, the amount quoted is charged, a ready cart can be bought,
    stock moves by what is ordered and returns on cancellation.
  \<^item> \<open>OrderProperties\<close>: the state machine of an order, who may drive it, what rows record, what lists and timelines
    show. \<open>CartProperties\<close>: carts stay well formed and indexed, and die a day after their stream.
  \<^item> \<open>CatalogueProperties\<close>: variants and scores. \<open>ReplacementProperties\<close>: when a request is granted, its state
    machine, and that nothing is sent before it is paid.
  \<^item> \<open>AccountProperties\<close>: the account tables stay well formed, a code opens one session, how long a session lasts.
    \<open>SellerProperties\<close>: the state machine of a seller's verification.
  \<^item> \<open>StreamProperties\<close>: a stream goes from scheduled over on air to over and never back, what an end settles, that
    the sweep leaves no stale live, the bounds of the engagement.
  \<^item> \<open>InvoiceFacts\<close>, \<open>InvoiceProperties\<close>: tax lines add up, words can be read back, a number is given out once.
    \<open>RouteProperties\<close>: no route is hidden, and a service is called only for a caller its route admits.
  \<^item> \<open>SellerCsv\<close>: the CSV reader ends, agrees with a one-pass reference and reads back what was quoted.
  Smaller facts stand beside the definitions they are about: the refutation of a wrong expectation (a late start, a
  revived stream, an ambiguous signature, the words of 100 crore) is a lemma there. \<open>Sample\<close> is a small shop on
  which the witnesses evaluate the model.

  \<^bold>\<open>Interfaces.\<close> The locale \<open>stock_store\<close> (\<open>Stock\<close>) stands between orders and the catalogue: moving a cell of stock
  changes that cell alone. It is interpreted on the catalogue of products and variants, and the theorems on
  taking and returning stock rest on its lemmas. The locale \<open>keyed_store\<close> (\<open>Tables\<close>) is what clients of a keyed store
  rely on; it is interpreted on database tables and on the Redis key space.

  \<^bold>\<open>Parameters.\<close> Third-party services and libraries are functions: the payment gateway with its HMAC (\<open>razorpay\<close>),
  the carrier (\<open>shipping_api\<close>, and below it the HTTP answers in \<open>delhivery_env\<close>), the media server (\<open>livekit\<close>), Firebase and the SMS gateway
  (\<open>push_env\<close>), bcrypt and JSON web tokens (\<open>auth_env\<close>), object storage (\<open>supabase\<close>), mail providers (\<open>mail_env\<close>), a
  keyed hash (\<open>hmac\<close>), the local calendar and the formats of a locale. Identifiers drawn by the database are arguments; the
  clock is part of the state. Nothing is assumed of them except where a theorem says so.

  \<^bold>\<open>Bounds.\<close> Loops are recursions over lists, with these exceptions: the loop of the CSV reader (\<open>csv_loop\<close>) is iterated while its
  index is inside the text and shown to end after at most one round per character; the search for a calendar year terminates by the
  distance to the year's first day; the sweep of recordings reads at most 200 pages per folder, as the code does. The tax theorem
  covers amounts up to 2 to the 40 paise, far above any order, so that every step stays within half a paisa of the exact value.

  \<^bold>\<open>Not modelled.\<close> The throttling of requests, and the decorators of data-transfer objects except the constraints that theorems
  name; the HTML of mails and pages, PDF drawing and pictures; the text of mails is modelled where it is plain text.
  File storage beyond names, the viewer counters of Redis, database backups (a process and a file), health checks, seeds and one-off scripts. Concurrency inside a request is not modelled: a
  handler runs to its end.
\<close>

end
